(* ===== verification/Prelude.thy ===== *)
theory Prelude
  imports Main "HOL-Library.Char_ord" "HOL-Library.List_Lexorder" "HOL-Library.Sublist"
begin

text \<open>
  The vocabulary every component theory shares: Rust's \<open>Result\<close>, the
  state-and-error effect in which stateful operations are written, the string
  operations of the standard library the sources call, decimal rendering and
  parsing of integers, and the two map types (\<open>HashMap\<close> and \<open>BTreeMap\<close>) behind
  one interface locale.

  Strings are lists of \<^typ>\<open>char\<close>; the model is exact for ASCII text.
  A \<open>Uuid\<close> is represented by its canonical text, an instant or a duration by a
  number of milliseconds.
\<close>

section \<open>Collections of simplification rules\<close>

named_theorems eff_simps \<open>unfolding rules of the state-and-error effect\<close>
named_theorems str_simps \<open>computation rules of the string operations\<close>

type_synonym uuid = string
type_synonym millis = nat

section \<open>Results and effects\<close>

datatype ('a, 'e) result = Ok (get_ok: 'a) | Err (get_err: 'e)

fun is_ok :: "('a, 'e) result \<Rightarrow> bool" where
  "is_ok (Ok _) = True"
| "is_ok (Err _) = False"

fun result_ok :: "('a, 'e) result \<Rightarrow> 'a option" where
  "result_ok (Ok x) = Some x"
| "result_ok (Err _) = None"

fun map_err :: "('e \<Rightarrow> 'f) \<Rightarrow> ('a, 'e) result \<Rightarrow> ('a, 'f) result" where
  "map_err f (Ok x) = Ok x"
| "map_err f (Err e) = Err (f e)"

fun bind_result :: "('a, 'e) result \<Rightarrow> ('a \<Rightarrow> ('b, 'e) result) \<Rightarrow> ('b, 'e) result" where
  "bind_result (Ok x) f = f x"
| "bind_result (Err e) f = Err e"

definition ok_or :: "'a option \<Rightarrow> 'e \<Rightarrow> ('a, 'e) result" where
  "ok_or x e = (case x of Some a \<Rightarrow> Ok a | None \<Rightarrow> Err e)"

text \<open>An operation on a state \<open>'s\<close> that returns a value or an error, and the state
  it leaves behind in both cases: the \<open>?\<close> operator of the sources is \<open>bindE\<close>.\<close>

type_synonym ('s, 'a, 'e) eff = "'s \<Rightarrow> ('a, 'e) result \<times> 's"

definition retE :: "'a \<Rightarrow> ('s, 'a, 'e) eff" where
  "retE x s = (Ok x, s)"

definition failE :: "'e \<Rightarrow> ('s, 'a, 'e) eff" where
  "failE e s = (Err e, s)"

definition bindE :: "('s, 'a, 'e) eff \<Rightarrow> ('a \<Rightarrow> ('s, 'b, 'e) eff) \<Rightarrow> ('s, 'b, 'e) eff" where
  "bindE m f s = (case m s of (Ok x, s') \<Rightarrow> f x s' | (Err e, s') \<Rightarrow> (Err e, s'))"

definition liftE :: "('a, 'e) result \<Rightarrow> ('s, 'a, 'e) eff" where
  "liftE r s = (r, s)"

definition modifyE :: "('s \<Rightarrow> 's) \<Rightarrow> ('s, unit, 'e) eff" where
  "modifyE f s = (Ok (), f s)"

fun mapE :: "('e \<Rightarrow> 'f) \<Rightarrow> ('s, 'a, 'e) eff \<Rightarrow> ('s, 'a, 'f) eff" where
  "mapE f m s = (case m s of (r, s') \<Rightarrow> (map_err f r, s'))"

section \<open>String operations of the standard library\<close>

definition starts_with :: "string \<Rightarrow> string \<Rightarrow> bool" where
  "starts_with p s \<longleftrightarrow> take (length p) s = p"

definition strip_prefix :: "string \<Rightarrow> string \<Rightarrow> string option" where
  "strip_prefix p s = (if starts_with p s then Some (drop (length p) s) else None)"

definition strip_suffix :: "string \<Rightarrow> string \<Rightarrow> string option" where
  "strip_suffix q s =
     (if length q \<le> length s \<and> drop (length s - length q) s = q
      then Some (take (length s - length q) s) else None)"

fun contains_str :: "string \<Rightarrow> string \<Rightarrow> bool" where
  "contains_str [] m = (m = [])"
| "contains_str (c # s) m = (starts_with m (c # s) \<or> contains_str s m)"

text \<open>\<open>str::split\<close> on one character: always at least one piece.\<close>

fun split_on :: "char \<Rightarrow> string \<Rightarrow> string list" where
  "split_on d [] = [[]]"
| "split_on d (c # s) =
     (if c = d then [] # split_on d s
      else (case split_on d s of [] \<Rightarrow> [[c]] | p # ps \<Rightarrow> (c # p) # ps))"

text \<open>\<open>str::split_once\<close> and \<open>str::find\<close> of one character: the text before and after
  its first occurrence.\<close>

fun split_once :: "char \<Rightarrow> string \<Rightarrow> (string \<times> string) option" where
  "split_once d [] = None"
| "split_once d (c # s) =
     (if c = d then Some ([], s) else map_option (\<lambda>(a, b). (c # a, b)) (split_once d s))"

fun join :: "string \<Rightarrow> string list \<Rightarrow> string" where
  "join d [] = []"
| "join d [s] = s"
| "join d (s # t # r) = s @ d @ join d (t # r)"

definition char_code :: "char \<Rightarrow> nat" where
  "char_code c = of_char c"

definition is_digit :: "char \<Rightarrow> bool" where
  "is_digit c \<longleftrightarrow> 48 \<le> char_code c \<and> char_code c \<le> 57"

definition is_ascii_alphanumeric :: "char \<Rightarrow> bool" where
  "is_ascii_alphanumeric c \<longleftrightarrow>
     is_digit c \<or> (65 \<le> char_code c \<and> char_code c \<le> 90) \<or> (97 \<le> char_code c \<and> char_code c \<le> 122)"

definition is_ascii_hexdigit :: "char \<Rightarrow> bool" where
  "is_ascii_hexdigit c \<longleftrightarrow>
     is_digit c \<or> (65 \<le> char_code c \<and> char_code c \<le> 70) \<or> (97 \<le> char_code c \<and> char_code c \<le> 102)"

definition is_whitespace :: "char \<Rightarrow> bool" where
  "is_whitespace c \<longleftrightarrow> char_code c \<in> {9, 10, 11, 12, 13, 32, 133, 160}"

definition trim :: "string \<Rightarrow> string" where
  "trim s = rev (dropWhile is_whitespace (rev (dropWhile is_whitespace s)))"

text \<open>\<open>Path::join\<close> with a relative path.\<close>

definition path_join :: "string \<Rightarrow> string \<Rightarrow> string" where
  "path_join p q = (if p = '''' then q else if last p = CHR ''/'' then p @ q else p @ ''/'' @ q)"

text \<open>The dash the messages use, in UTF-8.\<close>

definition em_dash :: string where
  "em_dash = [CHR 0xE2, CHR 0x80, CHR 0x94]"

section \<open>Decimal integers\<close>

definition digit_char :: "nat \<Rightarrow> char" where
  "digit_char d = char_of (48 + d)"

fun show_nat :: "nat \<Rightarrow> string" where
  "show_nat n = (if n < 10 then [digit_char n] else show_nat (n div 10) @ [digit_char (n mod 10)])"

declare show_nat.simps [simp del]

definition show_int :: "int \<Rightarrow> string" where
  "show_int i = (if i < 0 then CHR ''-'' # show_nat (nat (- i)) else show_nat (nat i))"

text \<open>The digits of a number, most significant first; \<open>None\<close> on the empty string or a
  character that is no digit.\<close>

definition parse_digits :: "string \<Rightarrow> nat option" where
  "parse_digits s =
     (if s = [] \<or> \<not> list_all is_digit s then None
      else Some (foldl (\<lambda>n c. 10 * n + (char_code c - 48)) 0 s))"

text \<open>\<open>str::parse\<close> at type \<open>u8\<close>: an optional plus sign.\<close>

definition parse_u8 :: "string \<Rightarrow> nat option" where
  "parse_u8 s =
     (case parse_digits (case s of c # t \<Rightarrow> if c = CHR ''+'' then t else s | [] \<Rightarrow> s) of
        Some n \<Rightarrow> if n \<le> 255 then Some n else None
      | None \<Rightarrow> None)"

text \<open>\<open>str::parse\<close> at type \<open>i64\<close>: an optional sign and the range of the type.\<close>

definition parse_i64 :: "string \<Rightarrow> int option" where
  "parse_i64 s =
     (case s of
        [] \<Rightarrow> None
      | c # t \<Rightarrow>
          (let v = (if c = CHR ''-'' then map_option (\<lambda>n. - int n) (parse_digits t)
                    else if c = CHR ''+'' then map_option int (parse_digits t)
                    else map_option int (parse_digits s))
           in case v of
                Some i \<Rightarrow> if - (2 ^ 63) \<le> i \<and> i < 2 ^ 63 then Some i else None
              | None \<Rightarrow> None))"

text \<open>The \<open>Debug\<close> rendering of a \<open>Duration\<close> and of a list of strings, which two error
  messages use. A fraction of a second is printed without trailing zeros.\<close>

definition show_duration :: "millis \<Rightarrow> string" where
  "show_duration ms =
     (if ms = 0 then ''0ns''
      else if ms < 1000 then show_nat ms @ ''ms''
      else show_nat (ms div 1000) @
        (let f = ms mod 1000 in
           if f = 0 then ''''
           else CHR ''.'' # rev (dropWhile (\<lambda>c. c = CHR ''0'')
                  [digit_char (f mod 10), digit_char (f div 10 mod 10), digit_char (f div 100)])) @ ''s'')"

definition debug_str :: "string \<Rightarrow> string" where
  "debug_str s =
     CHR 0x22 # concat (map (\<lambda>c. if c = CHR 0x22 \<or> c = CHR 0x5C then [CHR 0x5C, c] else [c]) s) @ [CHR 0x22]"

definition debug_strs :: "string list \<Rightarrow> string" where
  "debug_strs xs = ''['' @ join '', '' (map debug_str xs) @ '']''"

section \<open>Maps\<close>

text \<open>A \<open>HashMap\<close> is an association list with distinct keys; the order of the list stands
  for the unspecified iteration order.\<close>

type_synonym ('k, 'v) hmap = "('k \<times> 'v) list"

fun hm_insert :: "'k \<Rightarrow> 'v \<Rightarrow> ('k, 'v) hmap \<Rightarrow> ('k, 'v) hmap" where
  "hm_insert k v [] = [(k, v)]"
| "hm_insert k v ((k', v') # m) = (if k' = k then (k, v) # m else (k', v') # hm_insert k v m)"

definition hm_remove :: "'k \<Rightarrow> ('k, 'v) hmap \<Rightarrow> ('k, 'v) hmap" where
  "hm_remove k m = filter (\<lambda>(k', _). k' \<noteq> k) m"

definition hm_wf :: "('k, 'v) hmap \<Rightarrow> bool" where
  "hm_wf m \<longleftrightarrow> distinct (map fst m)"

text \<open>A \<open>BTreeMap\<close> is an association list with strictly increasing keys.\<close>

type_synonym ('k, 'v) bmap = "('k \<times> 'v) list"

fun bt_insert :: "'k::linorder \<Rightarrow> 'v \<Rightarrow> ('k, 'v) bmap \<Rightarrow> ('k, 'v) bmap" where
  "bt_insert k v [] = [(k, v)]"
| "bt_insert k v ((k', v') # m) =
     (if k < k' then (k, v) # (k', v') # m
      else if k = k' then (k, v) # m
      else (k', v') # bt_insert k v m)"

definition bt_wf :: "('k::linorder, 'v) bmap \<Rightarrow> bool" where
  "bt_wf m \<longleftrightarrow> sorted_wrt (<) (map fst m)"

definition bt_of :: "('k::linorder \<times> 'v) list \<Rightarrow> ('k, 'v) bmap" where
  "bt_of xs = foldl (\<lambda>m (k, v). bt_insert k v m) [] xs"

section \<open>Lemmas on results and effects\<close>

lemma is_ok_iff: "is_ok r \<longleftrightarrow> (\<exists>x. r = Ok x)"
  by (cases r) auto

lemma map_err_Ok_iff [simp]: "map_err f r = Ok x \<longleftrightarrow> r = Ok x"
  by (cases r) auto

lemma is_ok_map_err [simp]: "is_ok (map_err f r) = is_ok r"
  by (cases r) auto

lemma ok_or_Ok_iff [simp]: "ok_or x e = Ok a \<longleftrightarrow> x = Some a"
  by (auto simp: ok_or_def split: option.splits)

lemma bind_result_Ok_iff: "bind_result r f = Ok y \<longleftrightarrow> (\<exists>x. r = Ok x \<and> f x = Ok y)"
  by (cases r) auto

lemma retE_run [eff_simps]: "retE x s = (Ok x, s)"
  by (simp add: retE_def)

lemma failE_run [eff_simps]: "failE e s = (Err e, s)"
  by (simp add: failE_def)

lemma liftE_run [eff_simps]: "liftE r s = (r, s)"
  by (simp add: liftE_def)

lemma modifyE_run [eff_simps]: "modifyE f s = (Ok (), f s)"
  by (simp add: modifyE_def)

lemma bindE_Ok_iff:
  "bindE m f s = (Ok y, s') \<longleftrightarrow> (\<exists>x t. m s = (Ok x, t) \<and> f x t = (Ok y, s'))"
  by (auto simp: bindE_def split: prod.splits result.splits)

lemma bindE_run_Ok [eff_simps]: "m s = (Ok x, t) \<Longrightarrow> bindE m f s = f x t"
  by (simp add: bindE_def)

lemma bindE_run_Err [eff_simps]: "m s = (Err e, t) \<Longrightarrow> bindE m f s = (Err e, t)"
  by (simp add: bindE_def)

lemma mapE_Ok_iff: "mapE f m s = (Ok x, s') \<longleftrightarrow> m s = (Ok x, s')"
  by (auto split: prod.splits)

text \<open>A relation between states kept by both parts of a sequence is kept by the sequence.\<close>

lemma bindE_preserves:
  assumes "\<And>r t. m s = (r, t) \<Longrightarrow> R s t"
    and "\<And>x t r u. m s = (Ok x, t) \<Longrightarrow> f x t = (r, u) \<Longrightarrow> R t u"
    and "transp R"
    and "bindE m f s = (r, s')"
  shows "R s s'"
  using assms(1,2,4) transpD [OF assms(3)]
  by (auto simp: bindE_def split: prod.splits result.splits)

section \<open>Lemmas on strings\<close>

lemma starts_with_iff: "starts_with p s \<longleftrightarrow> (\<exists>t. s = p @ t)"
  by (metis append_eq_conv_conj append_take_drop_id starts_with_def)

lemma starts_with_Nil [simp, str_simps]: "starts_with [] s"
  by (simp add: starts_with_def)

lemma starts_with_Cons [simp, str_simps]:
  "starts_with (c # p) [] = False"
  "starts_with (c # p) (d # s) \<longleftrightarrow> c = d \<and> starts_with p s"
  by (auto simp: starts_with_def)

lemma strip_prefix_Some_iff: "strip_prefix p s = Some t \<longleftrightarrow> s = p @ t"
  by (auto simp: strip_prefix_def starts_with_iff starts_with_def)

lemma strip_prefix_None_iff: "strip_prefix p s = None \<longleftrightarrow> \<not> starts_with p s"
  by (simp add: strip_prefix_def)

lemma strip_prefix_append [simp]: "strip_prefix p (p @ t) = Some t"
  by (simp add: strip_prefix_Some_iff)

lemma strip_suffix_Some_iff: "strip_suffix q s = Some t \<longleftrightarrow> s = t @ q"
proof
  assume a: "strip_suffix q s = Some t"
  then have "drop (length s - length q) s = q" and "take (length s - length q) s = t"
    by (auto simp: strip_suffix_def split: if_splits)
  then show "s = t @ q" by (metis append_take_drop_id)
qed (auto simp: strip_suffix_def)

lemma contains_str_iff: "contains_str s m \<longleftrightarrow> (\<exists>a b. s = a @ m @ b)"
proof (induction s)
  case Nil
  then show ?case by auto
next
  case (Cons c s)
  show ?case (is "?L \<longleftrightarrow> ?R")
  proof
    assume ?L
    then consider "starts_with m (c # s)" | "contains_str s m" by auto
    then show ?R
    proof cases
      case 1
      then show ?thesis by (metis append_Nil starts_with_iff)
    next
      case 2
      then show ?thesis using Cons.IH by (metis append_Cons)
    qed
  next
    assume ?R
    then obtain a b where ab: "c # s = a @ m @ b" by blast
    show ?L
    proof (cases a)
      case Nil
      then have "starts_with m (c # s)" using ab by (metis append_Nil starts_with_iff)
      then show ?thesis by simp
    next
      case (Cons a0 a')
      then have "contains_str s m" using ab Cons.IH by auto
      then show ?thesis by simp
    qed
  qed
qed

lemma split_on_not_Nil [simp]: "split_on d s \<noteq> []"
  by (induction s) (auto split: list.splits)

lemma split_on_no_delim: "p \<in> set (split_on d s) \<Longrightarrow> d \<notin> set p"
proof (induction s arbitrary: p)
  case Nil
  then show ?case by simp
next
  case (Cons c s)
  then show ?case
    by (auto split: list.splits if_splits)
qed

lemma split_on_fresh: "d \<notin> set s \<Longrightarrow> split_on d s = [s]"
  by (induction s) auto

lemma join_split_on: "join [d] (split_on d s) = s"
proof (induction s)
  case Nil
  then show ?case by simp
next
  case (Cons c s)
  obtain p ps where p: "split_on d s = p # ps"
    by (metis list.exhaust split_on_not_Nil)
  with Cons show ?case
    by (cases ps) auto
qed

lemma split_on_append_delim: "d \<notin> set a \<Longrightarrow> split_on d (a @ d # s) = a # split_on d s"
  by (induction a) (auto split: list.splits)

lemma split_once_Some_iff: "split_once d s = Some (a, b) \<longleftrightarrow> s = a @ d # b \<and> d \<notin> set a"
proof (induction s arbitrary: a)
  case Nil
  then show ?case by simp
next
  case (Cons c s)
  show ?case
    by (cases a) (auto simp: Cons.IH split: if_splits)
qed

lemma split_once_None_iff: "split_once d s = None \<longleftrightarrow> d \<notin> set s"
  by (induction s) auto

section \<open>Lemmas on decimal integers\<close>

lemma char_code_digit: "d < 10 \<Longrightarrow> char_code (digit_char d) = 48 + d"
  by (simp add: char_code_def digit_char_def)

lemma is_digit_digit_char: "d < 10 \<Longrightarrow> is_digit (digit_char d)"
  by (simp add: is_digit_def char_code_digit)

lemma show_nat_not_Nil [simp]: "show_nat n \<noteq> []"
  by (subst show_nat.simps) simp

lemma show_nat_digits: "list_all is_digit (show_nat n)"
proof (induction n rule: show_nat.induct)
  case (1 n)
  then show ?case
    by (subst show_nat.simps) (auto simp: is_digit_digit_char)
qed

lemma foldl_show_nat: "foldl (\<lambda>n c. 10 * n + (char_code c - 48)) 0 (show_nat n) = n"
proof (induction n rule: show_nat.induct)
  case (1 n)
  show ?case
  proof (cases "n < 10")
    case True
    then show ?thesis by (subst show_nat.simps) (simp add: char_code_digit)
  next
    case False
    then show ?thesis
      using 1 by (subst show_nat.simps) (simp add: char_code_digit)
  qed
qed

lemma parse_digits_show_nat [simp]: "parse_digits (show_nat n) = Some n"
  by (simp add: parse_digits_def show_nat_digits foldl_show_nat)

lemma show_nat_inj: "show_nat a = show_nat b \<longleftrightarrow> a = b"
  by (metis option.inject parse_digits_show_nat)

section \<open>The map interface\<close>

text \<open>What a client of either map type relies on.\<close>

locale keyed_store =
  fixes put :: "'k \<Rightarrow> 'v \<Rightarrow> ('k \<times> 'v) list \<Rightarrow> ('k \<times> 'v) list"
    and wf :: "('k \<times> 'v) list \<Rightarrow> bool"
  assumes wf_empty: "wf []"
    and wf_put: "wf m \<Longrightarrow> wf (put k v m)"
    and get_put: "wf m \<Longrightarrow> map_of (put k v m) k' = (if k' = k then Some v else map_of m k')"
    and wf_distinct: "wf m \<Longrightarrow> distinct (map fst m)"
begin

lemma get_put_same: "wf m \<Longrightarrow> map_of (put k v m) k = Some v"
  by (simp add: get_put)

lemma get_put_other: "wf m \<Longrightarrow> k' \<noteq> k \<Longrightarrow> map_of (put k v m) k' = map_of m k'"
  by (simp add: get_put)

lemma dom_put: "wf m \<Longrightarrow> dom (map_of (put k v m)) = insert k (dom (map_of m))"
  by (auto simp: get_put dom_def)

lemma mem_iff_get: "wf m \<Longrightarrow> (k, v) \<in> set m \<longleftrightarrow> map_of m k = Some v"
  by (simp add: map_of_eq_Some_iff wf_distinct)

lemma wf_foldl_put: "wf m \<Longrightarrow> wf (foldl (\<lambda>m (k, v). put k v m) m xs)"
  by (induction xs arbitrary: m) (auto simp: wf_put)

end

lemma set_hm_insert_keys: "set (map fst (hm_insert k v m)) = insert k (set (map fst m))"
  by (induction k v m rule: hm_insert.induct) auto

lemma hm_insert_get: "map_of (hm_insert k v m) k' = (if k' = k then Some v else map_of m k')"
  by (induction k v m rule: hm_insert.induct) auto

lemma hm_insert_wf: "hm_wf m \<Longrightarrow> hm_wf (hm_insert k v m)"
proof (induction k v m rule: hm_insert.induct)
  case (2 k v k' v' m)
  then show ?case
    using set_hm_insert_keys [of k v m] by (auto simp: hm_wf_def)
qed (simp add: hm_wf_def)

interpretation hm: keyed_store hm_insert hm_wf
  by unfold_locales (auto simp: hm_insert_get hm_insert_wf, auto simp: hm_wf_def)

lemma hm_remove_get: "map_of (hm_remove k m) k' = (if k' = k then None else map_of m k')"
  by (induction m) (auto simp: hm_remove_def)

lemma hm_remove_wf: "hm_wf m \<Longrightarrow> hm_wf (hm_remove k m)"
  by (auto simp: hm_wf_def hm_remove_def distinct_map_filter)

lemma set_bt_insert_keys: "fst ` set (bt_insert k v m) = insert k (fst ` set m)"
  by (induction k v m rule: bt_insert.induct) auto

lemma bt_insert_wf: "bt_wf m \<Longrightarrow> bt_wf (bt_insert k v m)"
proof (induction k v m rule: bt_insert.induct)
  case (2 k v k' v' m)
  have keys: "\<forall>y \<in> fst ` set m. k' < y" and tl: "bt_wf m"
    using "2.prems" by (auto simp: bt_wf_def)
  show ?case
  proof (cases "k < k'")
    case True
    with "2.prems" keys show ?thesis by (auto simp: bt_wf_def)
  next
    case False
    show ?thesis
    proof (cases "k = k'")
      case True
      with "2.prems" show ?thesis by (auto simp: bt_wf_def)
    next
      case neq: False
      with False have lt: "k' < k" by auto
      then have "bt_wf (bt_insert k v m)" using "2.IH" False neq tl by simp
      moreover have "\<forall>y \<in> fst ` set (bt_insert k v m). k' < y"
        using keys lt by (simp only: set_bt_insert_keys) auto
      ultimately show ?thesis using False neq by (auto simp: bt_wf_def)
    qed
  qed
qed (simp add: bt_wf_def)

lemma bt_wf_distinct: "bt_wf m \<Longrightarrow> distinct (map fst m)"
  by (induction m) (auto simp: bt_wf_def)

lemma bt_insert_get:
  "bt_wf m \<Longrightarrow> map_of (bt_insert k v m) k' = (if k' = k then Some v else map_of m k')"
proof (induction k v m rule: bt_insert.induct)
  case (2 k v k1 v1 m)
  then show ?case by (auto simp: bt_wf_def)
qed simp

interpretation bt: keyed_store bt_insert bt_wf
  by unfold_locales
    (simp add: bt_wf_def, simp add: bt_insert_wf, simp add: bt_insert_get, simp add: bt_wf_distinct)

lemma bt_of_wf [simp]: "bt_wf (bt_of xs)"
  using bt.wf_foldl_put [of "[]" xs] by (simp add: bt_of_def bt_wf_def)

end
