(* ===== verification/Json.thy ===== *)
theory Json
  imports Prelude
begin

text \<open>
  JSON values as the sources handle them (\<open>serde_json::Value\<close>): envelope bodies, step
  parameters, capability schemas, audit contexts. An object is a \<open>BTreeMap\<close> keyed by
  its member names (the build does not enable \<open>preserve_order\<close>). The three forms of a
  number are kept apart as the library keeps them; a float is represented by its text.
\<close>

datatype jnum = JPos nat | JNeg int | JFloat string

datatype json =
    JNull
  | JBool bool
  | JNum jnum
  | JStr string
  | JArr "json list"
  | JObj "(string \<times> json) list"

fun json_wf :: "json \<Rightarrow> bool" where
  "json_wf (JArr xs) = list_all json_wf xs"
| "json_wf (JObj m) = (bt_wf m \<and> list_all (\<lambda>(k, v). json_wf v) m)"
| "json_wf (JNum (JPos n)) = (n < 2 ^ 64)"
| "json_wf (JNum (JNeg i)) = (- (2 ^ 63) \<le> i \<and> i < 0)"
| "json_wf _ = True"

text \<open>Accessors.\<close>

fun j_get :: "string \<Rightarrow> json \<Rightarrow> json option" where
  "j_get k (JObj m) = map_of m k"
| "j_get k _ = None"

fun j_as_str :: "json \<Rightarrow> string option" where
  "j_as_str (JStr s) = Some s"
| "j_as_str _ = None"

fun j_as_bool :: "json \<Rightarrow> bool option" where
  "j_as_bool (JBool b) = Some b"
| "j_as_bool _ = None"

fun j_as_u64 :: "json \<Rightarrow> nat option" where
  "j_as_u64 (JNum (JPos n)) = Some n"
| "j_as_u64 _ = None"

fun j_as_object :: "json \<Rightarrow> (string \<times> json) list option" where
  "j_as_object (JObj m) = Some m"
| "j_as_object _ = None"

definition j_get_str :: "string \<Rightarrow> json \<Rightarrow> string option" where
  "j_get_str k v = Option.bind (j_get k v) j_as_str"

text \<open>A member of an optional type with a default: absent and null are both none.\<close>

definition optional_member :: "string \<Rightarrow> json \<Rightarrow> string option option" where
  "optional_member k v =
     (case j_get k v of None \<Rightarrow> Some None | Some JNull \<Rightarrow> Some None | Some x \<Rightarrow> map_option Some (j_as_str x))"

text \<open>What a derived decoder of a struct reads: an object, or an array with the fields in their order, of which the last may be missing.\<close>

definition of_struct :: "string list \<Rightarrow> json \<Rightarrow> json option" where
  "of_struct names v =
     (case v of
        JObj m \<Rightarrow> Some v
      | JArr xs \<Rightarrow> if length xs \<le> length names then Some (JObj (zip names xs)) else None
      | _ \<Rightarrow> None)"

lemma of_struct_obj [simp]: "of_struct names (JObj m) = Some (JObj m)"
  by (simp add: of_struct_def)

lemma of_struct_cases: "of_struct names v = Some w \<Longrightarrow> (\<exists>m. v = JObj m \<and> w = v) \<or> (\<exists>xs. v = JArr xs)"
  by (cases v) (auto simp: of_struct_def)

text \<open>The \<open>json!\<close> macro on an object literal.\<close>

definition j_obj :: "(string \<times> json) list \<Rightarrow> json" where
  "j_obj xs = JObj (bt_of xs)"

text \<open>An optional value serialises to the value or to \<open>null\<close>.\<close>

definition j_opt :: "string option \<Rightarrow> json" where
  "j_opt x = (case x of Some s \<Rightarrow> JStr s | None \<Rightarrow> JNull)"

text \<open>A signed integer as a number.\<close>

definition json_of_int :: "int \<Rightarrow> json" where
  "json_of_int i = (if i < 0 then JNum (JNeg i) else JNum (JPos (nat i)))"

lemma foldl_bt_get:
  assumes "bt_wf m"
  shows "map_of (foldl (\<lambda>m (k, v). bt_insert k v m) m xs) k =
    (case map_of (rev xs) k of Some v \<Rightarrow> Some v | None \<Rightarrow> map_of m k)"
  using assms
proof (induction xs arbitrary: m)
  case Nil
  then show ?case by simp
next
  case (Cons x xs)
  obtain a b where x: "x = (a, b)" by (cases x)
  have "bt_wf (bt_insert a b m)" by (rule bt_insert_wf [OF Cons.prems])
  with Cons.IH [of "bt_insert a b m"] show ?case
    by (simp add: x bt_insert_get [OF Cons.prems] map_add_def split: option.splits)
qed

lemma bt_of_get: "map_of (bt_of xs) k = map_of (rev xs) k"
  by (simp add: bt_of_def foldl_bt_get bt_wf_def split: option.splits)

lemma j_get_obj [simp]: "j_get k (j_obj xs) = map_of (rev xs) k"
  by (simp add: j_obj_def bt_of_get)

lemma bt_insert_all: "list_all P (bt_insert k v m) \<Longrightarrow> P (k, v)"
  by (induction k v m rule: bt_insert.induct) (auto split: if_splits)

lemma bt_insert_all_intro: "P (k, v) \<Longrightarrow> list_all P m \<Longrightarrow> list_all P (bt_insert k v m)"
  by (induction k v m rule: bt_insert.induct) auto

lemma foldl_bt_all:
  "list_all P m \<Longrightarrow> list_all P xs \<Longrightarrow> list_all P (foldl (\<lambda>m (k, v). bt_insert k v m) m xs)"
  by (induction xs arbitrary: m) (auto intro: bt_insert_all_intro)

lemma j_obj_wf: "list_all (\<lambda>(k, v). json_wf v) xs \<Longrightarrow> json_wf (j_obj xs)"
  by (simp add: j_obj_def bt_of_def foldl_bt_all) (use bt_of_wf [of xs] in \<open>simp add: bt_of_def\<close>)

end
