(* ===== verification/Core.thy ===== *)
theory Core
  imports Json
begin

text \<open>
  The \<open>daimon-core\<close> crate: agent identities, versioned capabilities with their
  server-side read/write disposition, envelopes and recipients with their wire form,
  and the core error type.

  The \<open>semver\<close> crate is a parameter (\<open>sv\<close>): parsing and matching of version
  requirements. A requirement is represented by its \<open>Display\<close> text.
\<close>

section \<open>Identities and versions\<close>

datatype agent_id = AgentId (agent_str: string)

definition agent_id_new :: "string \<Rightarrow> agent_id" where
  "agent_id_new s = AgentId s"

record version =
  v_major :: nat
  v_minor :: nat
  v_patch :: nat
  v_pre :: string
  v_build :: string

definition version_new :: "nat \<Rightarrow> nat \<Rightarrow> nat \<Rightarrow> version" where
  "version_new a b c = \<lparr>v_major = a, v_minor = b, v_patch = c, v_pre = '''', v_build = ''''\<rparr>"

datatype version_req = VersionReq (req_text: string)

record semver =
  sv_parse :: "string \<Rightarrow> version_req option"
  sv_matches :: "version_req \<Rightarrow> version \<Rightarrow> bool"

text \<open>What the sources rely on of \<open>semver\<close>: the requirement \<open>*\<close> parses and accepts
  every version without a pre-release tag, and parsing undoes printing.\<close>

definition semver_star :: "semver \<Rightarrow> bool" where
  "semver_star sv \<longleftrightarrow>
     sv_parse sv ''*'' = Some (VersionReq ''*'') \<and>
     (\<forall>v. v_pre v = '''' \<longrightarrow> sv_matches sv (VersionReq ''*'') v)"

text \<open>A concrete instance for the examples of the later theories: every text parses, and
  only \<open>*\<close> accepts anything.\<close>

definition star_semver :: semver where
  "star_semver = \<lparr>sv_parse = (\<lambda>s. Some (VersionReq s)),
     sv_matches = (\<lambda>r v. r = VersionReq ''*'' \<and> v_pre v = '''')\<rparr>"

section \<open>Capabilities\<close>

record compensating_capability =
  comp_name :: string
  comp_version_req :: "string option"

record capability =
  cap_name :: string
  cap_version :: version
  cap_description :: "string option"
  cap_schema :: "json option"
  cap_compensating :: "compensating_capability option"
  cap_irreversible :: bool

definition read_only :: "string \<Rightarrow> version \<Rightarrow> capability" where
  "read_only name v =
     \<lparr>cap_name = name, cap_version = v, cap_description = None, cap_schema = None,
      cap_compensating = None, cap_irreversible = False\<rparr>"

definition READ_MARKERS :: "string list" where
  "READ_MARKERS =
     [''_info'', ''_list'', ''list_'', ''.list'', ''_addresses'', ''ip_addresses'',
      ''_status'', ''.status'', ''.read'', ''_read'', ''read_state'', ''describe'',
      ''diagnose'', ''.get'', ''_get'', ''_show'', ''_print'']"

definition name_is_read :: "string \<Rightarrow> bool" where
  "name_is_read name \<longleftrightarrow> list_ex (contains_str name) READ_MARKERS"

definition is_read :: "capability \<Rightarrow> bool" where
  "is_read c \<longleftrightarrow>
     cap_compensating c = None \<and> \<not> cap_irreversible c \<and> name_is_read (cap_name c)"

section \<open>Errors\<close>

datatype core_error =
    CapabilityNotFound string string
  | AgentNotFound string
  | BusSend string
  | Handler string
  | CoreSerde string
  | CoreOther string

fun show_core_error :: "core_error \<Rightarrow> string" where
  "show_core_error (CapabilityNotFound n r) =
     ''no agent registered for capability `'' @ n @ ''` matching `'' @ r @ ''`''"
| "show_core_error (AgentNotFound a) = ''agent `'' @ a @ ''` not found''"
| "show_core_error (BusSend e) = ''bus send failed: '' @ e"
| "show_core_error (Handler e) = ''agent handler error: '' @ e"
| "show_core_error (CoreSerde e) = ''serialization error: '' @ e"
| "show_core_error (CoreOther e) = e"

section \<open>Envelopes\<close>

datatype recipient = Direct agent_id | ByCapability string version_req

record audit_metadata =
  am_ts :: millis
  am_parent :: "uuid option"

record agent_envelope =
  env_correlation_id :: uuid
  env_from :: agent_id
  env_to :: recipient
  env_reply_to :: "agent_id option"
  env_body :: json
  env_audit :: audit_metadata

definition audit_metadata_default :: "millis \<Rightarrow> audit_metadata" where
  "audit_metadata_default now = \<lparr>am_ts = now, am_parent = None\<rparr>"

definition envelope_new ::
  "uuid \<Rightarrow> millis \<Rightarrow> agent_id \<Rightarrow> recipient \<Rightarrow> json \<Rightarrow> agent_envelope" where
  "envelope_new u now frm dest body =
     \<lparr>env_correlation_id = u, env_from = frm, env_to = dest, env_reply_to = None,
      env_body = body, env_audit = audit_metadata_default now\<rparr>"

definition envelope_reply_to ::
  "millis \<Rightarrow> agent_envelope \<Rightarrow> agent_id \<Rightarrow> json \<Rightarrow> agent_envelope" where
  "envelope_reply_to now req frm body =
     \<lparr>env_correlation_id = env_correlation_id req, env_from = frm,
      env_to = Direct (env_from req), env_reply_to = None,
      env_body = body, env_audit = audit_metadata_default now\<rparr>"

section \<open>Wire form\<close>

text \<open>
  \<open>Recipient\<close> is internally tagged (\<open>kind\<close>). A struct variant becomes an object with
  the tag; a newtype variant that holds a string cannot carry the tag, and serialising
  it is an error at run time. Timestamps travel as text; their rendering \<open>fts\<close> and
  parsing \<open>pts\<close> belong to \<open>chrono\<close> and are parameters.
\<close>

fun recipient_to_json :: "recipient \<Rightarrow> (json, string) result" where
  "recipient_to_json (Direct _) =
     Err ''cannot serialize tagged newtype variant Recipient::Direct containing a string''"
| "recipient_to_json (ByCapability name r) =
     Ok (j_obj [(''kind'', JStr ''by_capability''), (''name'', JStr name),
                (''version_req'', JStr (req_text r))])"

definition recipient_of_json :: "semver \<Rightarrow> json \<Rightarrow> recipient option" where
  "recipient_of_json sv v =
     (if j_get_str ''kind'' v = Some ''by_capability''
      then (case (j_get_str ''name'' v, Option.bind (j_get_str ''version_req'' v) (sv_parse sv)) of
              (Some n, Some r) \<Rightarrow> Some (ByCapability n r)
            | _ \<Rightarrow> None)
      else None)"

definition opt_member :: "string \<Rightarrow> string option \<Rightarrow> (string \<times> json) list" where
  "opt_member k x = (case x of Some s \<Rightarrow> [(k, JStr s)] | None \<Rightarrow> [])"

definition audit_metadata_to_json :: "(millis \<Rightarrow> string) \<Rightarrow> audit_metadata \<Rightarrow> json" where
  "audit_metadata_to_json fts a =
     j_obj ((''ts'', JStr (fts (am_ts a))) # opt_member ''parent_correlation_id'' (am_parent a))"

definition audit_metadata_of_json :: "(string \<Rightarrow> millis option) \<Rightarrow> json \<Rightarrow> audit_metadata option" where
  "audit_metadata_of_json pts v =
     (case Option.bind (j_get_str ''ts'' v) pts of
        Some t \<Rightarrow>
          (case j_get ''parent_correlation_id'' v of
             None \<Rightarrow> Some \<lparr>am_ts = t, am_parent = None\<rparr>
           | Some JNull \<Rightarrow> Some \<lparr>am_ts = t, am_parent = None\<rparr>
           | Some (JStr u) \<Rightarrow> Some \<lparr>am_ts = t, am_parent = Some u\<rparr>
           | Some _ \<Rightarrow> None)
      | None \<Rightarrow> None)"

definition envelope_to_json :: "(millis \<Rightarrow> string) \<Rightarrow> agent_envelope \<Rightarrow> (json, string) result" where
  "envelope_to_json fts e =
     bind_result (recipient_to_json (env_to e)) (\<lambda>dest. Ok (j_obj (
       [(''correlation_id'', JStr (env_correlation_id e)),
        (''from'', JStr (agent_str (env_from e))),
        (''to'', dest)]
       @ opt_member ''reply_to'' (map_option agent_str (env_reply_to e)) @
       [(''body'', env_body e), (''audit'', audit_metadata_to_json fts (env_audit e))])))"

definition envelope_of_json ::
  "semver \<Rightarrow> (string \<Rightarrow> millis option) \<Rightarrow> json \<Rightarrow> agent_envelope option" where
  "envelope_of_json sv pts v =
     (case (j_get_str ''correlation_id'' v, j_get_str ''from'' v,
            Option.bind (j_get ''to'' v) (recipient_of_json sv), j_get ''body'' v,
            Option.bind (j_get ''audit'' v) (audit_metadata_of_json pts)) of
        (Some c, Some f, Some dest, Some b, Some a) \<Rightarrow>
          (case j_get ''reply_to'' v of
             None \<Rightarrow> Some \<lparr>env_correlation_id = c, env_from = AgentId f, env_to = dest,
                            env_reply_to = None, env_body = b, env_audit = a\<rparr>
           | Some JNull \<Rightarrow> Some \<lparr>env_correlation_id = c, env_from = AgentId f, env_to = dest,
                            env_reply_to = None, env_body = b, env_audit = a\<rparr>
           | Some (JStr r) \<Rightarrow> Some \<lparr>env_correlation_id = c, env_from = AgentId f, env_to = dest,
                            env_reply_to = Some (AgentId r), env_body = b, env_audit = a\<rparr>
           | Some _ \<Rightarrow> None)
      | _ \<Rightarrow> None)"

section \<open>Lemmas\<close>

lemma star_semver_star: "semver_star star_semver"
  by (simp add: semver_star_def star_semver_def)

lemma is_read_no_compensator: "is_read c \<Longrightarrow> cap_compensating c = None"
  by (simp add: is_read_def)

lemma is_read_not_irreversible: "is_read c \<Longrightarrow> \<not> cap_irreversible c"
  by (simp add: is_read_def)

lemma name_is_read_iff: "name_is_read n \<longleftrightarrow> (\<exists>m \<in> set READ_MARKERS. \<exists>a b. n = a @ m @ b)"
  by (simp add: name_is_read_def list_ex_iff contains_str_iff)

lemma name_is_read_append: "name_is_read n \<Longrightarrow> name_is_read (a @ n @ b)"
  unfolding name_is_read_iff by (metis append.assoc)

lemma envelope_reply_to_simps [simp]:
  "env_correlation_id (envelope_reply_to now req frm body) = env_correlation_id req"
  "env_to (envelope_reply_to now req frm body) = Direct (env_from req)"
  "env_body (envelope_reply_to now req frm body) = body"
  by (simp_all add: envelope_reply_to_def)

lemma envelope_new_simps [simp]:
  "env_correlation_id (envelope_new u now frm dest body) = u"
  "env_from (envelope_new u now frm dest body) = frm"
  "env_to (envelope_new u now frm dest body) = dest"
  "env_body (envelope_new u now frm dest body) = body"
  by (simp_all add: envelope_new_def)

lemma recipient_roundtrip:
  assumes "sv_parse sv (req_text r) = Some r"
  shows "\<exists>v. recipient_to_json (ByCapability n r) = Ok v \<and> recipient_of_json sv v = Some (ByCapability n r)"
  using assms by (simp add: recipient_of_json_def j_get_str_def)

lemma audit_metadata_roundtrip:
  assumes "pts (fts (am_ts a)) = Some (am_ts a)"
  shows "audit_metadata_of_json pts (audit_metadata_to_json fts a) = Some a"
  using assms
  by (cases "am_parent a")
    (simp_all add: audit_metadata_of_json_def audit_metadata_to_json_def opt_member_def j_get_str_def)

text \<open>An envelope addressed by capability survives the wire; one addressed directly, as
  every reply is, never reaches it.\<close>

lemma envelope_wire_roundtrip:
  assumes "env_to e = ByCapability n r" and "sv_parse sv (req_text r) = Some r"
    and "pts (fts (am_ts (env_audit e))) = Some (am_ts (env_audit e))"
  shows "\<exists>v. envelope_to_json fts e = Ok v \<and> envelope_of_json sv pts v = Some e"
proof (cases "env_reply_to e")
  case None
  then show ?thesis
    using assms
    by (simp add: envelope_to_json_def envelope_of_json_def recipient_of_json_def j_get_str_def
        opt_member_def audit_metadata_roundtrip)
next
  case (Some a)
  then show ?thesis
    using assms
    by (simp add: envelope_to_json_def envelope_of_json_def recipient_of_json_def j_get_str_def
        opt_member_def audit_metadata_roundtrip)
qed

lemma envelope_to_json_Direct: "env_to e = Direct a \<Longrightarrow> \<not> is_ok (envelope_to_json fts e)"
  by (simp add: envelope_to_json_def)

end
