(* ===== verification/Registry.thy ===== *)
theory Registry
  imports Core
begin

text \<open>
  The capability registry of \<open>daimon-runtime\<close> (\<open>registry.rs\<close>): which agent implements
  which capability at which version. Its lock is held for one operation at a time, so
  each operation is one atomic function on the table. The theory states the interface a
  dispatcher relies on as a locale and interprets it on the table.
\<close>

section \<open>State and operations\<close>

record registry_entry =
  re_agent_id :: agent_id
  re_capabilities :: "capability list"

type_synonym registry = "(agent_id, registry_entry) hmap"

definition registry_new :: registry where
  "registry_new = []"

definition registry_register :: "agent_id \<Rightarrow> capability list \<Rightarrow> registry \<Rightarrow> registry" where
  "registry_register a caps r = hm_insert a \<lparr>re_agent_id = a, re_capabilities = caps\<rparr> r"

definition registry_unregister :: "agent_id \<Rightarrow> registry \<Rightarrow> registry" where
  "registry_unregister a r = hm_remove a r"

definition registry_all :: "registry \<Rightarrow> registry_entry list" where
  "registry_all r = map snd r"

definition registry_get :: "agent_id \<Rightarrow> registry \<Rightarrow> registry_entry option" where
  "registry_get a r = map_of r a"

definition provides :: "semver \<Rightarrow> string \<Rightarrow> version_req \<Rightarrow> capability list \<Rightarrow> bool" where
  "provides sv name req caps \<longleftrightarrow>
     list_ex (\<lambda>cap. cap_name cap = name \<and> sv_matches sv req (cap_version cap)) caps"

definition find_by_capability ::
  "semver \<Rightarrow> string \<Rightarrow> version_req \<Rightarrow> registry \<Rightarrow> registry_entry list" where
  "find_by_capability sv name req r =
     filter (\<lambda>entry. provides sv name req (re_capabilities entry)) (registry_all r)"

definition require_by_capability ::
  "semver \<Rightarrow> string \<Rightarrow> version_req \<Rightarrow> registry \<Rightarrow> (registry_entry, core_error) result" where
  "require_by_capability sv name req r =
     (case find_by_capability sv name req r of
        entry # _ \<Rightarrow> Ok entry
      | [] \<Rightarrow> Err (CapabilityNotFound name (req_text req)))"

section \<open>Invariant\<close>

definition registry_ok :: "registry \<Rightarrow> bool" where
  "registry_ok r \<longleftrightarrow> hm_wf r \<and> list_all (\<lambda>(a, e). re_agent_id e = a) r"

lemma registry_ok_iff:
  "registry_ok r \<longleftrightarrow> hm_wf r \<and> (\<forall>a e. registry_get a r = Some e \<longrightarrow> re_agent_id e = a)"
proof (cases "hm_wf r")
  case True
  then show ?thesis
    unfolding registry_ok_def registry_get_def list_all_iff hm.mem_iff_get [OF True, symmetric]
    by auto
qed (simp add: registry_ok_def)

lemma registry_new_ok: "registry_ok registry_new"
  by (simp add: registry_ok_def registry_new_def hm_wf_def)

lemma registry_get_register [simp]:
  "registry_get a (registry_register b caps r) =
     (if a = b then Some \<lparr>re_agent_id = b, re_capabilities = caps\<rparr> else registry_get a r)"
  by (simp add: registry_get_def registry_register_def hm_insert_get)

lemma registry_get_unregister [simp]:
  "registry_get a (registry_unregister b r) = (if a = b then None else registry_get a r)"
  by (simp add: registry_get_def registry_unregister_def hm_remove_get)

lemma registry_register_ok: "registry_ok r \<Longrightarrow> registry_ok (registry_register a caps r)"
  by (auto simp: registry_ok_iff registry_register_def hm_insert_wf
      registry_get_def hm_insert_get split: if_splits)

lemma registry_unregister_ok: "registry_ok r \<Longrightarrow> registry_ok (registry_unregister a r)"
  by (auto simp: registry_ok_iff registry_unregister_def hm_remove_wf
      registry_get_def hm_remove_get split: if_splits)

section \<open>Lookup\<close>

lemma find_by_capability_iff:
  assumes "registry_ok r"
  shows "e \<in> set (find_by_capability sv name req r) \<longleftrightarrow>
    registry_get (re_agent_id e) r = Some e \<and> provides sv name req (re_capabilities e)"
proof -
  have wf: "hm_wf r" using assms by (simp add: registry_ok_def)
  have "e \<in> set (registry_all r) \<longleftrightarrow> registry_get (re_agent_id e) r = Some e"
    using assms hm.mem_iff_get [OF wf, of "re_agent_id e" e]
    by (force simp: registry_all_def registry_get_def registry_ok_def list_all_iff)
  then show ?thesis by (auto simp: find_by_capability_def)
qed

lemma require_by_capability_Ok:
  "require_by_capability sv name req r = Ok e \<Longrightarrow> e \<in> set (find_by_capability sv name req r)"
  by (auto simp: require_by_capability_def split: list.splits)

lemma require_by_capability_Err_iff:
  "require_by_capability sv name req r = Err x \<longleftrightarrow>
     find_by_capability sv name req r = [] \<and> x = CapabilityNotFound name (req_text req)"
  by (auto simp: require_by_capability_def split: list.splits)

section \<open>The interface\<close>

text \<open>What a client that resolves capabilities needs: a lookup succeeds exactly when some
  registered agent provides the capability, registration makes an agent visible, removal
  hides it.\<close>

locale capability_index =
  fixes inv :: "'r \<Rightarrow> bool"
    and caps_of :: "'r \<Rightarrow> agent_id \<Rightarrow> capability list option"
    and reg :: "agent_id \<Rightarrow> capability list \<Rightarrow> 'r \<Rightarrow> 'r"
    and unreg :: "agent_id \<Rightarrow> 'r \<Rightarrow> 'r"
    and require :: "semver \<Rightarrow> string \<Rightarrow> version_req \<Rightarrow> 'r \<Rightarrow> (registry_entry, core_error) result"
  assumes inv_reg: "inv r \<Longrightarrow> inv (reg a caps r)"
    and inv_unreg: "inv r \<Longrightarrow> inv (unreg a r)"
    and caps_reg: "caps_of (reg a caps r) b = (if b = a then Some caps else caps_of r b)"
    and caps_unreg: "caps_of (unreg a r) b = (if b = a then None else caps_of r b)"
    and require_sound: "inv r \<Longrightarrow> require sv n q r = Ok e \<Longrightarrow>
      caps_of r (re_agent_id e) = Some (re_capabilities e) \<and> provides sv n q (re_capabilities e)"
    and require_complete: "inv r \<Longrightarrow> caps_of r a = Some caps \<Longrightarrow> provides sv n q caps \<Longrightarrow>
      is_ok (require sv n q r)"
begin

lemma require_ok_iff:
  assumes "inv r"
  shows "is_ok (require sv n q r) \<longleftrightarrow> (\<exists>a caps. caps_of r a = Some caps \<and> provides sv n q caps)"
  using require_sound [OF assms] require_complete [OF assms] by (metis is_ok_iff)

lemma require_after_reg:
  assumes "inv r" "provides sv n q caps"
  shows "is_ok (require sv n q (reg a caps r))"
  using require_complete [of "reg a caps r" a caps sv n q] inv_reg [OF assms(1)] assms(2)
  by (simp add: caps_reg)

lemma require_after_unreg_other:
  assumes "inv r" "require sv n q (unreg a r) = Ok e"
  shows "re_agent_id e \<noteq> a \<and> caps_of r (re_agent_id e) = Some (re_capabilities e)"
  using require_sound [OF inv_unreg [OF assms(1)] assms(2)] by (auto simp: caps_unreg split: if_splits)

end

definition registry_caps :: "registry \<Rightarrow> agent_id \<Rightarrow> capability list option" where
  "registry_caps r a = map_option re_capabilities (registry_get a r)"

interpretation reg_index: capability_index registry_ok registry_caps registry_register
  registry_unregister require_by_capability
proof unfold_locales
  fix r :: registry and a caps sv n q
  assume ok: "registry_ok r" and c: "registry_caps r a = Some caps" and p: "provides sv n q caps"
  from c obtain e where e: "registry_get a r = Some e" and [simp]: "re_capabilities e = caps"
    by (auto simp: registry_caps_def)
  have "re_agent_id e = a" using ok e by (auto simp: registry_ok_iff)
  then have "e \<in> set (find_by_capability sv n q r)"
    using e p by (simp add: find_by_capability_iff [OF ok])
  then show "is_ok (require_by_capability sv n q r)"
    by (auto simp: require_by_capability_def split: list.splits)
qed (auto simp: registry_register_ok registry_unregister_ok registry_caps_def
    dest!: require_by_capability_Ok simp: find_by_capability_iff)

section \<open>Property\<close>

definition star_cap :: "string \<Rightarrow> capability" where
  "star_cap n = \<lparr>cap_name = n, cap_version = version_new 1 0 0, cap_description = None, cap_schema = None,
     cap_compensating = None, cap_irreversible = False\<rparr>"

text \<open>The registry implements the index of capabilities: a lookup succeeds exactly when some
  agent is registered with a capability of that name whose version matches, what it returns is
  such an agent with its registered capabilities, an agent is found right after it registers, and
  an agent that has unregistered is never returned.\<close>

lemma registry_refines_index:
  assumes "registry_ok r"
  shows "(is_ok (require_by_capability sv n q r) \<longleftrightarrow> (\<exists>a caps. registry_caps r a = Some caps \<and> provides sv n q caps)) \<and>
    (\<forall>e. require_by_capability sv n q r = Ok e \<longrightarrow>
       registry_caps r (re_agent_id e) = Some (re_capabilities e) \<and> provides sv n q (re_capabilities e)) \<and>
    (\<forall>caps. provides sv n q caps \<longrightarrow> is_ok (require_by_capability sv n q (registry_register a caps r))) \<and>
    (\<forall>e. require_by_capability sv n q (registry_unregister a r) = Ok e \<longrightarrow> re_agent_id e \<noteq> a)"
  using reg_index.require_ok_iff [OF assms] reg_index.require_sound [OF assms]
    reg_index.require_after_reg [OF assms] reg_index.require_after_unreg_other [OF assms] by blast

lemma registry_refines_index_example:
  "is_ok (require_by_capability star_semver ''net.ping'' (VersionReq ''*'')
     (registry_register (AgentId ''a'') [star_cap ''net.ping''] registry_new)) \<and>
   \<not> is_ok (require_by_capability star_semver ''net.ping'' (VersionReq ''*'') registry_new)"
  using registry_refines_index [OF registry_new_ok, of star_semver "''net.ping''" "VersionReq ''*''" "AgentId ''a''"]
  by (simp add: provides_def star_cap_def star_semver_def version_new_def registry_caps_def registry_get_def registry_new_def)

end
