(* ===== verification/Dispatcher.thy ===== *)
theory Dispatcher
  imports Registry
begin

text \<open>
  The bus and the dispatcher of \<open>daimon-runtime\<close> (\<open>bus.rs\<close>, \<open>nats_bus.rs\<close>,
  \<open>dispatcher.rs\<close>), and the loop that drives one agent (\<open>supervisor.rs\<close>,
  \<open>run_agent_loop\<close>).

  The broadcast channel belongs to \<open>tokio\<close>: what a receiver observes is an input of the
  loops, a list of observations in the order they are made. A loop that has consumed the
  list and has not decided is still waiting (\<open>None\<close>).
\<close>

section \<open>The bus\<close>

text \<open>The in-process bus records what was published; publishing never fails.\<close>

record in_proc_bus =
  bus_log :: "agent_envelope list"

definition in_proc_bus_new :: in_proc_bus where
  "in_proc_bus_new = \<lparr>bus_log = []\<rparr>"

definition bus_send :: "agent_envelope \<Rightarrow> (in_proc_bus, unit, core_error) eff" where
  "bus_send env b = (Ok (), b\<lparr>bus_log := bus_log b @ [env]\<rparr>)"

text \<open>The NATS bus encodes first; \<open>publish\<close> is the client library's call, and \<open>decode\<close>
  what the forwarder does with a received payload.\<close>

definition nats_send ::
  "(millis \<Rightarrow> string) \<Rightarrow> (json \<Rightarrow> ('s, unit, string) eff) \<Rightarrow> agent_envelope \<Rightarrow>
   ('s, unit, core_error) eff" where
  "nats_send fts publish env s =
     (case envelope_to_json fts env of
        Err e \<Rightarrow> (Err (BusSend (''encode envelope: '' @ e)), s)
      | Ok v \<Rightarrow>
          (case publish v s of
             (Ok _, s') \<Rightarrow> (Ok (), s')
           | (Err e, s') \<Rightarrow> (Err (BusSend (''nats publish: '' @ e)), s')))"

definition nats_forward ::
  "semver \<Rightarrow> (string \<Rightarrow> millis option) \<Rightarrow> json list \<Rightarrow> agent_envelope list" where
  "nats_forward sv pts payloads = List.map_filter (envelope_of_json sv pts) payloads"

section \<open>The dispatcher\<close>

datatype recv =
    RecvEnv agent_envelope
  | RecvLagged nat
  | RecvClosed

datatype dispatch_error =
    DispatchCapabilityNotFound string
  | DispatchTimeout millis
  | DispatchBusClosed
  | DispatchCore core_error

fun show_dispatch_error :: "dispatch_error \<Rightarrow> string" where
  "show_dispatch_error (DispatchCapabilityNotFound n) = ''no agent provides capability `'' @ n @ ''`''"
| "show_dispatch_error (DispatchTimeout d) = ''dispatch timed out after '' @ show_duration d"
| "show_dispatch_error DispatchBusClosed = ''bus closed before a reply arrived''"
| "show_dispatch_error (DispatchCore e) = ''core: '' @ show_core_error e"

definition is_reply :: "uuid \<Rightarrow> agent_id \<Rightarrow> agent_envelope \<Rightarrow> bool" where
  "is_reply corr frm env \<longleftrightarrow> env_correlation_id env = corr \<and> env_to env = Direct frm"

text \<open>One iteration reads the clock, then awaits the channel for what remains of the
  deadline: an observation pairs the reading with what the await gave, \<open>None\<close> when the
  time elapsed.\<close>

fun dispatch_loop ::
  "uuid \<Rightarrow> agent_id \<Rightarrow> millis \<Rightarrow> millis \<Rightarrow> (millis \<times> recv option) list \<Rightarrow>
   (json, dispatch_error) result option" where
  "dispatch_loop corr frm timeout deadline [] = None"
| "dispatch_loop corr frm timeout deadline ((now, r) # obs) =
     (if deadline - now = 0 then Some (Err (DispatchTimeout timeout))
      else (case r of
              None \<Rightarrow> Some (Err (DispatchTimeout timeout))
            | Some (RecvEnv env) \<Rightarrow>
                if is_reply corr frm env then Some (Ok (env_body env))
                else dispatch_loop corr frm timeout deadline obs
            | Some (RecvLagged _) \<Rightarrow> dispatch_loop corr frm timeout deadline obs
            | Some RecvClosed \<Rightarrow> Some (Err DispatchBusClosed)))"

definition dispatch ::
  "semver \<Rightarrow> registry \<Rightarrow> uuid \<Rightarrow> millis \<Rightarrow> millis \<Rightarrow> (millis \<times> recv option) list \<Rightarrow>
   agent_id \<Rightarrow> string \<Rightarrow> version_req \<Rightarrow> json \<Rightarrow> millis \<Rightarrow> in_proc_bus \<Rightarrow>
   (json, dispatch_error) result option \<times> in_proc_bus" where
  "dispatch sv reg u ts start obs frm name req body timeout bus =
     (case require_by_capability sv name req reg of
        Err _ \<Rightarrow> (Some (Err (DispatchCapabilityNotFound (name @ '' @ '' @ req_text req))), bus)
      | Ok _ \<Rightarrow>
          (case bus_send (envelope_new u ts frm (ByCapability name req) body) bus of
             (Err e, bus') \<Rightarrow> (Some (Err (DispatchCore e)), bus')
           | (Ok _, bus') \<Rightarrow> (dispatch_loop u frm timeout (start + timeout) obs, bus')))"

section \<open>The agent loop\<close>

definition envelope_addressed_to ::
  "semver \<Rightarrow> agent_envelope \<Rightarrow> agent_id \<Rightarrow> capability list \<Rightarrow> bool" where
  "envelope_addressed_to sv env me caps =
     (case env_to env of
        Direct a \<Rightarrow> a = me
      | ByCapability name req \<Rightarrow> provides sv name req caps)"

text \<open>How a task ends: with a value, or by a panic.\<close>

datatype 'a task_end = Returned 'a | Panicked

text \<open>The agent is a parameter: its \<open>handle\<close> may change the world \<open>'s\<close> and return, or
  panic. A handler error is logged and the loop goes on; a panic ends the task.\<close>

fun run_agent_loop ::
  "semver \<Rightarrow> (agent_envelope \<Rightarrow> 's \<Rightarrow> (unit, core_error) result task_end \<times> 's) \<Rightarrow> agent_id \<Rightarrow>
   capability list \<Rightarrow> recv list \<Rightarrow> 's \<Rightarrow> unit task_end option \<times> 's" where
  "run_agent_loop sv handle me caps [] s = (None, s)"
| "run_agent_loop sv handle me caps (r # obs) s =
     (case r of
        RecvEnv env \<Rightarrow>
          if \<not> envelope_addressed_to sv env me caps then run_agent_loop sv handle me caps obs s
          else (case handle env s of
                  (Panicked, s') \<Rightarrow> (Some Panicked, s')
                | (Returned _, s') \<Rightarrow> run_agent_loop sv handle me caps obs s')
      | RecvLagged _ \<Rightarrow> run_agent_loop sv handle me caps obs s
      | RecvClosed \<Rightarrow> (Some (Returned ()), s))"

section \<open>Lemmas on the dispatcher\<close>

fun keeps_waiting :: "uuid \<Rightarrow> agent_id \<Rightarrow> millis \<Rightarrow> millis \<times> recv option \<Rightarrow> bool" where
  "keeps_waiting corr frm deadline (now, None) = False"
| "keeps_waiting corr frm deadline (now, Some (RecvEnv env)) = (now < deadline \<and> \<not> is_reply corr frm env)"
| "keeps_waiting corr frm deadline (now, Some (RecvLagged n)) = (now < deadline)"
| "keeps_waiting corr frm deadline (now, Some RecvClosed) = False"

lemma dispatch_loop_keep:
  "keeps_waiting corr frm deadline ob \<Longrightarrow>
   dispatch_loop corr frm timeout deadline (ob # obs) = dispatch_loop corr frm timeout deadline obs"
  by (cases "(corr, frm, deadline, ob)" rule: keeps_waiting.cases) auto

lemma dispatch_loop_decide:
  "\<not> keeps_waiting corr frm deadline ob \<Longrightarrow>
   dispatch_loop corr frm timeout deadline (ob # obs) = dispatch_loop corr frm timeout deadline [ob] \<and>
   dispatch_loop corr frm timeout deadline [ob] \<noteq> None"
  by (cases "(corr, frm, deadline, ob)" rule: keeps_waiting.cases) auto

lemma dispatch_loop_skip:
  "list_all (keeps_waiting corr frm deadline) pre \<Longrightarrow>
   dispatch_loop corr frm timeout deadline (pre @ obs) = dispatch_loop corr frm timeout deadline obs"
  by (induction pre) (simp_all add: dispatch_loop_keep del: dispatch_loop.simps)

lemma dispatch_loop_waiting_iff:
  "dispatch_loop corr frm timeout deadline obs = None \<longleftrightarrow>
   list_all (keeps_waiting corr frm deadline) obs"
proof (induction obs)
  case (Cons ob obs)
  then show ?case
    using dispatch_loop_decide [of corr frm deadline ob timeout obs]
    by (cases "keeps_waiting corr frm deadline ob")
      (auto simp: dispatch_loop_keep simp del: dispatch_loop.simps)
qed simp

text \<open>The loop decides at the first observation that does not keep it waiting.\<close>

lemma dispatch_loop_split:
  assumes "dispatch_loop corr frm timeout deadline obs = Some r"
  obtains pre ob post where "obs = pre @ ob # post"
    and "list_all (keeps_waiting corr frm deadline) pre"
    and "\<not> keeps_waiting corr frm deadline ob"
    and "dispatch_loop corr frm timeout deadline [ob] = Some r"
proof -
  have "\<exists>ob \<in> set obs. \<not> keeps_waiting corr frm deadline ob"
    using assms dispatch_loop_waiting_iff [of corr frm timeout deadline obs]
    by (auto simp: list_all_iff)
  then obtain pre ob post where obs: "obs = pre @ ob # post"
    and ob: "\<not> keeps_waiting corr frm deadline ob"
    and pre: "\<forall>x \<in> set pre. \<not> \<not> keeps_waiting corr frm deadline x"
    using split_list_first_prop [of obs "\<lambda>ob. \<not> keeps_waiting corr frm deadline ob"] by blast
  have pre': "list_all (keeps_waiting corr frm deadline) pre" using pre by (simp add: list_all_iff)
  have "dispatch_loop corr frm timeout deadline (ob # post) = Some r"
    using assms by (simp add: obs dispatch_loop_skip [OF pre'] del: dispatch_loop.simps)
  then have "dispatch_loop corr frm timeout deadline [ob] = Some r"
    using dispatch_loop_decide [OF ob, of timeout post] by simp
  then show thesis using that [OF obs pre' ob] by blast
qed

lemma dispatch_loop_Ok:
  assumes "dispatch_loop corr frm timeout deadline obs = Some (Ok body)"
  obtains pre now env post where "obs = pre @ (now, Some (RecvEnv env)) # post"
    and "list_all (keeps_waiting corr frm deadline) pre" and "now < deadline"
    and "is_reply corr frm env" and "env_body env = body"
proof -
  obtain pre ob post where obs: "obs = pre @ ob # post"
    and pre: "list_all (keeps_waiting corr frm deadline) pre"
    and ob: "dispatch_loop corr frm timeout deadline [ob] = Some (Ok body)"
    by (rule dispatch_loop_split [OF assms])
  have "\<exists>now env. ob = (now, Some (RecvEnv env)) \<and> now < deadline \<and> is_reply corr frm env \<and>
      env_body env = body"
    using ob by (cases "(corr, frm, deadline, ob)" rule: keeps_waiting.cases) (auto split: if_splits)
  then show thesis using that obs pre by blast
qed

lemma dispatch_unfold:
  "dispatch sv reg u ts start obs frm name req body timeout bus =
     (if is_ok (require_by_capability sv name req reg)
      then (dispatch_loop u frm timeout (start + timeout) obs,
            bus\<lparr>bus_log := bus_log bus @ [envelope_new u ts frm (ByCapability name req) body]\<rparr>)
      else (Some (Err (DispatchCapabilityNotFound (name @ '' @ '' @ req_text req))), bus))"
  by (cases "require_by_capability sv name req reg") (simp_all add: dispatch_def bus_send_def)

section \<open>Lemmas on the agent loop\<close>

fun addressed :: "semver \<Rightarrow> agent_id \<Rightarrow> capability list \<Rightarrow> recv list \<Rightarrow> agent_envelope list" where
  "addressed sv me caps [] = []"
| "addressed sv me caps (RecvEnv env # obs) =
     (if envelope_addressed_to sv env me caps then env # addressed sv me caps obs
      else addressed sv me caps obs)"
| "addressed sv me caps (RecvLagged n # obs) = addressed sv me caps obs"
| "addressed sv me caps (RecvClosed # obs) = addressed sv me caps obs"

text \<open>A handler that never panics sees every addressed envelope exactly once, in order.\<close>

lemma run_agent_loop_fold:
  assumes "\<And>env s. fst (handle env s) \<noteq> Panicked" and "RecvClosed \<notin> set obs"
  shows "run_agent_loop sv handle me caps obs s =
    (None, foldl (\<lambda>s env. snd (handle env s)) s (addressed sv me caps obs))"
  using assms(2)
proof (induction obs arbitrary: s)
  case (Cons r obs)
  show ?case
  proof (cases r)
    case (RecvEnv env)
    obtain res s' where h: "handle env s = (Returned res, s')"
      using assms(1) [of env s] by (cases "handle env s"; cases "fst (handle env s)") auto
    show ?thesis using Cons RecvEnv h by simp
  qed (use Cons in auto)
qed simp

section \<open>Properties\<close>

text \<open>A dispatch returns only the reply to its own call: when it returns a body, the capability
  had a provider, exactly one envelope was published, addressed by capability and carrying the
  caller's correlation id, and the body is that of the first envelope observed that has this
  correlation id and is addressed to the caller, received before the deadline.\<close>

lemma dispatch_returns_own_reply:
  assumes "dispatch sv reg u ts start obs frm name req body timeout bus = (Some (Ok reply), bus')"
  shows "is_ok (require_by_capability sv name req reg) \<and>
    bus_log bus' = bus_log bus @ [envelope_new u ts frm (ByCapability name req) body] \<and>
    (\<exists>pre now env post. obs = pre @ (now, Some (RecvEnv env)) # post \<and> now < start + timeout \<and>
       env_correlation_id env = u \<and> env_to env = Direct frm \<and> env_body env = reply \<and>
       (\<forall>e. Some (RecvEnv e) \<in> snd ` set pre \<longrightarrow> \<not> is_reply u frm e))"
proof -
  have ok: "is_ok (require_by_capability sv name req reg)"
    and loop: "dispatch_loop u frm timeout (start + timeout) obs = Some (Ok reply)"
    and log: "bus_log bus' = bus_log bus @ [envelope_new u ts frm (ByCapability name req) body]"
    using assms by (auto simp: dispatch_unfold split: if_splits)
  obtain pre now env post where o: "obs = pre @ (now, Some (RecvEnv env)) # post"
    "list_all (keeps_waiting u frm (start + timeout)) pre" "now < start + timeout" "is_reply u frm env" "env_body env = reply"
    by (rule dispatch_loop_Ok [OF loop])
  have "\<not> is_reply u frm e" if "Some (RecvEnv e) \<in> snd ` set pre" for e
    using that o(2) by (auto simp: list_all_iff dest!: bspec)
  then show ?thesis using ok log o by (auto simp: is_reply_def)
qed

definition ex_provider :: registry where
  "ex_provider = registry_register (AgentId ''d'') [star_cap ''ping''] registry_new"

definition ex_reply :: agent_envelope where
  "ex_reply = envelope_reply_to 5 (envelope_new ''u'' 0 (AgentId ''c'') (ByCapability ''ping'' (VersionReq ''*'')) JNull)
     (AgentId ''d'') (JBool True)"

lemma dispatch_returns_own_reply_example:
  "\<exists>bus'. dispatch star_semver ex_provider ''u'' 0 0 [(1, Some (RecvLagged 3)), (2, Some (RecvEnv ex_reply))]
      (AgentId ''c'') ''ping'' (VersionReq ''*'') JNull 100 in_proc_bus_new = (Some (Ok (JBool True)), bus') \<and>
    length (bus_log bus') = 1"
proof -
  have ok: "is_ok (require_by_capability star_semver ''ping'' (VersionReq ''*'') ex_provider)"
    by (simp add: require_by_capability_def find_by_capability_def registry_all_def ex_provider_def registry_register_def
        registry_new_def provides_def star_cap_def star_semver_def version_new_def)
  obtain bus' where d: "dispatch star_semver ex_provider ''u'' 0 0 [(1, Some (RecvLagged 3)), (2, Some (RecvEnv ex_reply))]
      (AgentId ''c'') ''ping'' (VersionReq ''*'') JNull 100 in_proc_bus_new = (Some (Ok (JBool True)), bus')"
    by (simp add: dispatch_unfold ok is_reply_def ex_reply_def)
  then show ?thesis using dispatch_returns_own_reply [OF d] by (simp add: in_proc_bus_new_def)
qed

end
