(* ===== verification/Supervising.thy ===== *)
theory Supervising
  imports Dispatcher
begin

text \<open>
  The supervisor of \<open>daimon-runtime\<close> (\<open>supervisor.rs\<close>): spawning, restarting with
  exponential backoff inside a budget, and stopping agents.

  An agent runs as two tasks. The runner (outer task) spawns the handler loop (inner
  task, \<open>run_agent_loop\<close>) and awaits it; when it ends the runner decides whether to
  restart it. Dropping the handle of a task detaches the task, it does not stop it, so
  live runners and live loops are tracked apart. Each method of the supervisor is one
  step, and so is each resumption of a runner.
\<close>

section \<open>Configuration and state\<close>

record supervisor_config =
  restart_initial_delay :: millis
  restart_max_delay :: millis
  restart_max_in_window :: nat
  restart_window :: millis

definition supervisor_config_default :: supervisor_config where
  "supervisor_config_default =
     \<lparr>restart_initial_delay = 100, restart_max_delay = 30000,
      restart_max_in_window = 5, restart_window = 60000\<rparr>"

datatype runtime_error =
    DuplicateAgent string
  | AgentPanic string string
  | RtShutdown
  | RtCore core_error
  | RtOther string

record agent =
  ag_id :: agent_id
  ag_capabilities :: "capability list"

datatype runner_phase = Starting | Running | Sleeping

record runner =
  rn_agent :: agent_id
  rn_phase :: runner_phase
  rn_delay :: millis
  rn_restarts :: nat
  rn_window_start :: millis

text \<open>How the await of the inner task ended.\<close>

datatype loop_outcome = CleanExit | ReturnedError runtime_error | JoinPanic | JoinAborted

record supervisor =
  sup_registry :: registry
  sup_config :: supervisor_config
  sup_handles :: "(agent_id, nat) hmap"
  sup_agents :: "(agent_id, agent) hmap"
  sup_runners :: "(nat, runner) hmap"
  sup_loops :: "(nat \<times> agent_id) list"
  sup_next_task :: nat

definition supervisor_with_config :: "registry \<Rightarrow> supervisor_config \<Rightarrow> supervisor" where
  "supervisor_with_config reg cfg =
     \<lparr>sup_registry = reg, sup_config = cfg, sup_handles = [], sup_agents = [],
      sup_runners = [], sup_loops = [], sup_next_task = 0\<rparr>"

section \<open>The restart decision\<close>

datatype restart_decision = GiveUp | RestartAfter runner

text \<open>The body of the runner's loop after the inner task has ended: \<open>now\<close> is the reading
  of the restart window's clock.\<close>

definition after_crash :: "supervisor_config \<Rightarrow> millis \<Rightarrow> runner \<Rightarrow> restart_decision" where
  "after_crash cfg now rn =
     (let rn = (if now - rn_window_start rn > restart_window cfg
                then rn\<lparr>rn_window_start := now, rn_restarts := 0\<rparr> else rn);
          rn = rn\<lparr>rn_restarts := rn_restarts rn + 1\<rparr>
      in if rn_restarts rn > restart_max_in_window cfg then GiveUp
         else RestartAfter (rn\<lparr>rn_phase := Sleeping\<rparr>))"

definition runner_decide ::
  "supervisor_config \<Rightarrow> millis \<Rightarrow> loop_outcome \<Rightarrow> runner \<Rightarrow> restart_decision" where
  "runner_decide cfg now out rn =
     (case out of
        CleanExit \<Rightarrow> GiveUp
      | JoinAborted \<Rightarrow> GiveUp
      | ReturnedError _ \<Rightarrow> after_crash cfg now rn
      | JoinPanic \<Rightarrow> after_crash cfg now rn)"

definition after_sleep :: "supervisor_config \<Rightarrow> runner \<Rightarrow> runner" where
  "after_sleep cfg rn =
     rn\<lparr>rn_delay := min (rn_delay rn * 2) (restart_max_delay cfg), rn_phase := Running\<rparr>"

section \<open>Operations\<close>

definition sup_spawn :: "agent \<Rightarrow> (supervisor, unit, runtime_error) eff" where
  "sup_spawn ag s =
     (if map_of (sup_agents s) (ag_id ag) \<noteq> None
      then (Err (DuplicateAgent (agent_str (ag_id ag))), s)
      else (Ok (), s\<lparr>sup_registry := registry_register (ag_id ag) (ag_capabilities ag) (sup_registry s),
              sup_agents := hm_insert (ag_id ag) ag (sup_agents s),
              sup_runners := hm_insert (sup_next_task s)
                \<lparr>rn_agent = ag_id ag, rn_phase = Starting,
                 rn_delay = restart_initial_delay (sup_config s),
                 rn_restarts = 0, rn_window_start = 0\<rparr> (sup_runners s),
              sup_handles := hm_insert (ag_id ag) (sup_next_task s) (sup_handles s),
              sup_next_task := sup_next_task s + 1\<rparr>))"

text \<open>The runner's first resumption reads the window clock and spawns the loop.\<close>

definition runner_begin :: "nat \<Rightarrow> millis \<Rightarrow> supervisor \<Rightarrow> supervisor" where
  "runner_begin t now s =
     (case map_of (sup_runners s) t of
        Some rn \<Rightarrow>
          if rn_phase rn = Starting
          then s\<lparr>sup_runners := hm_insert t (rn\<lparr>rn_phase := Running, rn_window_start := now\<rparr>) (sup_runners s),
                 sup_loops := (t, rn_agent rn) # sup_loops s\<rparr>
          else s
      | None \<Rightarrow> s)"

text \<open>The clean-up at the end of a runner.\<close>

definition runner_finish :: "nat \<Rightarrow> agent_id \<Rightarrow> supervisor \<Rightarrow> supervisor" where
  "runner_finish t a s =
     s\<lparr>sup_registry := registry_unregister a (sup_registry s),
       sup_handles := hm_remove a (sup_handles s),
       sup_agents := hm_remove a (sup_agents s),
       sup_runners := hm_remove t (sup_runners s)\<rparr>"

text \<open>The inner task of runner \<open>t\<close> ends with \<open>out\<close>; the runner, if it is still there, decides.\<close>

definition loop_ends :: "nat \<Rightarrow> loop_outcome \<Rightarrow> millis \<Rightarrow> supervisor \<Rightarrow> supervisor" where
  "loop_ends t out now s =
     (let s = s\<lparr>sup_loops := filter (\<lambda>(t', _). t' \<noteq> t) (sup_loops s)\<rparr> in
      case map_of (sup_runners s) t of
        None \<Rightarrow> s
      | Some rn \<Rightarrow>
          if rn_phase rn \<noteq> Running then s
          else (case runner_decide (sup_config s) now out rn of
                  GiveUp \<Rightarrow> runner_finish t (rn_agent rn) s
                | RestartAfter rn' \<Rightarrow> s\<lparr>sup_runners := hm_insert t rn' (sup_runners s)\<rparr>))"

definition runner_wakes :: "nat \<Rightarrow> supervisor \<Rightarrow> supervisor" where
  "runner_wakes t s =
     (case map_of (sup_runners s) t of
        Some rn \<Rightarrow>
          if rn_phase rn = Sleeping
          then s\<lparr>sup_runners := hm_insert t (after_sleep (sup_config s) rn) (sup_runners s),
                 sup_loops := (t, rn_agent rn) # sup_loops s\<rparr>
          else s
      | None \<Rightarrow> s)"

text \<open>\<open>stop\<close> aborts the runner: it is gone at once, and the handle of the inner task it
  held is dropped with it.\<close>

definition sup_stop :: "agent_id \<Rightarrow> supervisor \<Rightarrow> supervisor" where
  "sup_stop a s =
     (let s = (case map_of (sup_handles s) a of
                 Some t \<Rightarrow> s\<lparr>sup_handles := hm_remove a (sup_handles s),
                             sup_runners := hm_remove t (sup_runners s)\<rparr>
               | None \<Rightarrow> s)
      in s\<lparr>sup_registry := registry_unregister a (sup_registry s),
           sup_agents := hm_remove a (sup_agents s)\<rparr>)"

definition sup_shutdown :: "supervisor \<Rightarrow> supervisor" where
  "sup_shutdown s = foldl (\<lambda>s a. sup_stop a s) s (map fst (sup_agents s))"

section \<open>Steps and invariant\<close>

inductive sup_step :: "supervisor \<Rightarrow> supervisor \<Rightarrow> bool" where
  step_spawn: "sup_spawn ag s = (r, s') \<Longrightarrow> sup_step s s'"
| step_begin: "sup_step s (runner_begin t now s)"
| step_loop_ends: "(t, a) \<in> set (sup_loops s) \<Longrightarrow> sup_step s (loop_ends t out now s)"
| step_wakes: "sup_step s (runner_wakes t s)"
| step_stop: "sup_step s (sup_stop a s)"
| step_shutdown: "sup_step s (sup_shutdown s)"

text \<open>Two partial functions that are inverse to each other.\<close>

definition linked :: "('a \<Rightarrow> 't option) \<Rightarrow> ('t \<Rightarrow> 'a option) \<Rightarrow> bool" where
  "linked h own \<longleftrightarrow> (\<forall>a t. h a = Some t \<longleftrightarrow> own t = Some a)"

lemma linked_put: "linked h own \<Longrightarrow> h a = None \<Longrightarrow> own t = None \<Longrightarrow> linked (h(a \<mapsto> t)) (own(t \<mapsto> a))"
  unfolding linked_def by auto (metis option.distinct(1))

lemma linked_remove: "linked h own \<Longrightarrow> h a = Some t \<Longrightarrow> linked (h(a := None)) (own(t := None))"
  unfolding linked_def by (metis fun_upd_apply option.distinct(1) option.inject)

definition same_dom :: "('a \<Rightarrow> 'b option) \<Rightarrow> ('a \<Rightarrow> 'c option) \<Rightarrow> bool" where
  "same_dom f g \<longleftrightarrow> (\<forall>a. f a = None \<longleftrightarrow> g a = None)"

lemma same_dom_put: "same_dom f g \<Longrightarrow> same_dom (f(a \<mapsto> x)) (g(a \<mapsto> y))"
  by (simp add: same_dom_def)

lemma same_dom_remove: "same_dom f g \<Longrightarrow> same_dom (f(a := None)) (g(a := None))"
  by (simp add: same_dom_def)

lemma same_dom_None: "same_dom f g \<Longrightarrow> f a = None \<longleftrightarrow> g a = None"
  by (simp add: same_dom_def)

definition sup_owner :: "supervisor \<Rightarrow> nat \<Rightarrow> agent_id option" where
  "sup_owner s t = map_option rn_agent (map_of (sup_runners s) t)"

text \<open>The registry, the agent table and the handle table always have the same agents,
  handles and live runners are in bijection, and task numbers are fresh.\<close>

definition sup_inv :: "supervisor \<Rightarrow> bool" where
  "sup_inv s \<longleftrightarrow>
     registry_ok (sup_registry s) \<and> hm_wf (sup_handles s) \<and> hm_wf (sup_agents s) \<and>
     same_dom (map_of (sup_registry s)) (map_of (sup_agents s)) \<and>
     same_dom (map_of (sup_handles s)) (map_of (sup_agents s)) \<and>
     linked (map_of (sup_handles s)) (sup_owner s) \<and>
     (\<forall>t. sup_owner s t \<noteq> None \<longrightarrow> t < sup_next_task s)"

lemma hm_insert_map: "map_of (hm_insert k v m) = (map_of m)(k \<mapsto> v)"
  by (rule ext) (simp add: hm_insert_get)

lemma hm_remove_map: "map_of (hm_remove k m) = (map_of m)(k := None)"
  by (rule ext) (simp add: hm_remove_get)

lemma registry_register_map:
  "map_of (registry_register a caps r) = (map_of r)(a \<mapsto> \<lparr>re_agent_id = a, re_capabilities = caps\<rparr>)"
  by (simp add: registry_register_def hm_insert_map)

lemma registry_unregister_map: "map_of (registry_unregister a r) = (map_of r)(a := None)"
  by (simp add: registry_unregister_def hm_remove_map)

lemmas sup_table_simps = hm_insert_wf hm_remove_wf hm_insert_map hm_remove_map
  registry_register_ok registry_unregister_ok registry_register_map registry_unregister_map
  same_dom_put same_dom_remove

lemma sup_init_inv: "sup_inv (supervisor_with_config registry_new cfg)"
  using registry_new_ok
  by (simp add: sup_inv_def supervisor_with_config_def hm_wf_def sup_owner_def linked_def
      same_dom_def registry_new_def)

lemma sup_owner_insert: "sup_owner (s\<lparr>sup_runners := hm_insert t rn (sup_runners s)\<rparr>) = (sup_owner s)(t \<mapsto> rn_agent rn)"
  by (auto simp: sup_owner_def hm_insert_map)

lemma sup_owner_remove: "sup_owner (s\<lparr>sup_runners := hm_remove t (sup_runners s)\<rparr>) = (sup_owner s)(t := None)"
  by (auto simp: sup_owner_def hm_remove_map)

lemma sup_owner_cong: "sup_runners s = sup_runners s' \<Longrightarrow> sup_owner s = sup_owner s'"
  by (simp add: sup_owner_def fun_eq_iff)

lemma sup_spawn_inv:
  assumes inv: "sup_inv s" and run: "sup_spawn ag s = (r, s')"
  shows "sup_inv s'"
proof (cases "map_of (sup_agents s) (ag_id ag)")
  case (Some x)
  then show ?thesis using inv run by (simp add: sup_spawn_def)
next
  case None
  let ?a = "ag_id ag" and ?t = "sup_next_task s"
  have h: "map_of (sup_handles s) ?a = None" using inv None by (auto simp: sup_inv_def same_dom_None)
  have o: "sup_owner s ?t = None" using inv unfolding sup_inv_def by (metis less_irrefl)
  have own: "sup_owner s' = (sup_owner s)(?t \<mapsto> ?a)"
    using run None by (auto simp: sup_spawn_def sup_owner_def hm_insert_map)
  have "linked (map_of (sup_handles s')) (sup_owner s')"
    using inv run None h o by (simp add: own) (auto simp: sup_spawn_def sup_inv_def hm_insert_map linked_put)
  then show ?thesis
    using inv run None own by (auto simp: sup_spawn_def sup_inv_def sup_table_simps less_Suc_eq)
qed

lemma sup_inv_same_owner:
  assumes "sup_inv s" "sup_owner s' = sup_owner s" "sup_registry s' = sup_registry s"
    "sup_handles s' = sup_handles s" "sup_agents s' = sup_agents s" "sup_next_task s' = sup_next_task s"
  shows "sup_inv s'"
  using assms by (simp add: sup_inv_def)

lemma sup_owner_update:
  "map_of (sup_runners s) t = Some rn \<Longrightarrow> rn_agent rn' = rn_agent rn \<Longrightarrow>
   (sup_owner s)(t \<mapsto> rn_agent rn') = sup_owner s"
  by (auto simp: sup_owner_def)

lemma runner_begin_inv: "sup_inv s \<Longrightarrow> sup_inv (runner_begin t now s)"
  by (erule sup_inv_same_owner)
    (auto simp: runner_begin_def sup_owner_def hm_insert_map split: option.splits)

lemma runner_wakes_inv: "sup_inv s \<Longrightarrow> sup_inv (runner_wakes t s)"
  by (erule sup_inv_same_owner)
    (auto simp: runner_wakes_def after_sleep_def sup_owner_def hm_insert_map split: option.splits)

text \<open>Both ways an agent goes, clean-up and stop, remove it from every table.\<close>

lemma sup_remove_inv:
  assumes inv: "sup_inv s" and h: "map_of (sup_handles s) a = Some t"
  shows "sup_inv (s\<lparr>sup_registry := registry_unregister a (sup_registry s),
    sup_handles := hm_remove a (sup_handles s), sup_agents := hm_remove a (sup_agents s),
    sup_runners := hm_remove t (sup_runners s)\<rparr>)" (is "sup_inv ?s")
proof -
  have own: "sup_owner ?s = (sup_owner s)(t := None)"
    by (auto simp: sup_owner_def hm_remove_map)
  have "linked (map_of (sup_handles ?s)) (sup_owner ?s)"
    using inv h by (simp add: own sup_inv_def hm_remove_map linked_remove)
  then show ?thesis
    using inv own by (auto simp: sup_inv_def sup_table_simps)
qed

lemma sup_inv_handle_of_runner:
  "sup_inv s \<Longrightarrow> map_of (sup_runners s) t = Some rn \<Longrightarrow> map_of (sup_handles s) (rn_agent rn) = Some t"
  by (simp add: sup_inv_def linked_def sup_owner_def)

lemma sup_loops_inv: "sup_inv (s\<lparr>sup_loops := l\<rparr>) = sup_inv s"
  by (simp add: sup_inv_def sup_owner_def [abs_def])

lemma runner_decide_agent: "runner_decide cfg now out rn = RestartAfter rn' \<Longrightarrow> rn_agent rn' = rn_agent rn"
  by (auto simp: runner_decide_def after_crash_def Let_def split: loop_outcome.splits if_splits)

lemma loop_ends_inv:
  assumes "sup_inv s"
  shows "sup_inv (loop_ends t out now s)"
proof -
  define s1 where "s1 = s\<lparr>sup_loops := filter (\<lambda>(t', _). t' \<noteq> t) (sup_loops s)\<rparr>"
  have inv: "sup_inv s1" using assms by (simp add: s1_def sup_loops_inv)
  have eq: "loop_ends t out now s = (case map_of (sup_runners s1) t of None \<Rightarrow> s1 | Some rn \<Rightarrow>
      if rn_phase rn \<noteq> Running then s1
      else (case runner_decide (sup_config s1) now out rn of
              GiveUp \<Rightarrow> runner_finish t (rn_agent rn) s1
            | RestartAfter rn' \<Rightarrow> s1\<lparr>sup_runners := hm_insert t rn' (sup_runners s1)\<rparr>))"
    unfolding loop_ends_def Let_def s1_def ..
  show ?thesis
  proof (cases "map_of (sup_runners s1) t")
    case (Some rn)
    have "sup_inv (runner_finish t (rn_agent rn) s1)"
      using sup_remove_inv [OF inv sup_inv_handle_of_runner [OF inv Some]] by (simp add: runner_finish_def)
    moreover have "sup_inv (s1\<lparr>sup_runners := hm_insert t rn' (sup_runners s1)\<rparr>)"
      if "rn_agent rn' = rn_agent rn" for rn'
      by (rule sup_inv_same_owner [OF inv]) (use Some that in \<open>auto simp: sup_owner_def hm_insert_map\<close>)
    ultimately show ?thesis
      using Some inv by (auto simp: eq split: restart_decision.split dest: runner_decide_agent)
  qed (simp add: eq inv)
qed

lemma sup_stop_inv:
  assumes inv: "sup_inv s"
  shows "sup_inv (sup_stop a s)"
proof (cases "map_of (sup_handles s) a")
  case None
  then have n: "map_of (sup_agents s) a = None" "map_of (sup_registry s) a = None"
    using inv by (simp_all add: sup_inv_def same_dom_def)
  have "(map_of (sup_agents s))(a := None) = map_of (sup_agents s)"
    and "(map_of (sup_registry s))(a := None) = map_of (sup_registry s)"
    using n by auto
  then show ?thesis
    using inv None by (simp add: sup_stop_def sup_inv_def sup_table_simps sup_owner_def [abs_def])
next
  case (Some t)
  then show ?thesis
    using sup_remove_inv [OF inv Some] by (simp add: sup_stop_def sup_inv_def sup_owner_def [abs_def])
qed

lemma sup_stops_inv: "sup_inv s \<Longrightarrow> sup_inv (foldl (\<lambda>s a. sup_stop a s) s as)"
  by (induction as arbitrary: s) (auto simp: sup_stop_inv)

lemma sup_step_inv: "sup_step s s' \<Longrightarrow> sup_inv s \<Longrightarrow> sup_inv s'"
  by (induction rule: sup_step.induct)
    (auto simp: sup_shutdown_def intro: sup_spawn_inv runner_begin_inv loop_ends_inv runner_wakes_inv
      sup_stop_inv sup_stops_inv)

lemma sup_steps_inv: "sup_step\<^sup>*\<^sup>* s s' \<Longrightarrow> sup_inv s \<Longrightarrow> sup_inv s'"
  by (induction rule: rtranclp_induct) (auto intro: sup_step_inv)

section \<open>The restart budget and the backoff\<close>

text \<open>The delays a runner sleeps over a sequence of crashes at the given clock readings, and
  whether it gave up.\<close>

fun crash_run :: "supervisor_config \<Rightarrow> runner \<Rightarrow> millis list \<Rightarrow> millis list \<times> bool" where
  "crash_run cfg rn [] = ([], False)"
| "crash_run cfg rn (now # nows) =
     (case after_crash cfg now rn of
        GiveUp \<Rightarrow> ([], True)
      | RestartAfter rn' \<Rightarrow>
          (case crash_run cfg (after_sleep cfg rn') nows of (ds, g) \<Rightarrow> (rn_delay rn' # ds, g)))"

fun backoff :: "supervisor_config \<Rightarrow> millis \<Rightarrow> nat \<Rightarrow> millis list" where
  "backoff cfg d 0 = []"
| "backoff cfg d (Suc n) = d # backoff cfg (min (d * 2) (restart_max_delay cfg)) n"

lemma min_mult_cap: "1 \<le> p \<Longrightarrow> min (min x m * p) m = min (x * p) (m :: nat)"
proof (cases "x \<le> m")
  case False
  assume p: "1 \<le> p"
  have "m \<le> m * p" "m \<le> x * p" using False p mult_le_mono [of m x 1 p] by simp_all
  with False show ?thesis by simp
qed simp

lemma backoff_nth:
  "d \<le> restart_max_delay cfg \<Longrightarrow>
   backoff cfg d n = map (\<lambda>k. min (d * 2 ^ k) (restart_max_delay cfg)) [0..<n]"
proof (induction n arbitrary: d)
  case (Suc n)
  let ?m = "restart_max_delay cfg"
  have "min (min (d * 2) ?m * 2 ^ k) ?m = min (d * 2 ^ Suc k) ?m" for k
    using min_mult_cap [of "2 ^ k" "d * 2" ?m] by (simp add: mult.assoc)
  then show ?case
    using Suc by (simp add: upt_conv_Cons map_Suc_upt [symmetric] del: upt_Suc)
qed simp

lemma crash_run_in_window:
  assumes "\<And>now. now \<in> set nows \<Longrightarrow> now - rn_window_start rn \<le> restart_window cfg"
    and "rn_restarts rn \<le> restart_max_in_window cfg"
  shows "crash_run cfg rn nows =
    (backoff cfg (rn_delay rn) (min (length nows) (restart_max_in_window cfg - rn_restarts rn)),
     length nows > restart_max_in_window cfg - rn_restarts rn)"
  using assms
proof (induction nows arbitrary: rn)
  case (Cons now nows)
  have w: "now - rn_window_start rn \<le> restart_window cfg" using Cons.prems(1) by simp
  show ?case
  proof (cases "rn_restarts rn = restart_max_in_window cfg")
    case True
    then show ?thesis using w by (simp add: after_crash_def)
  next
    case False
    define rn' where "rn' = rn\<lparr>rn_restarts := rn_restarts rn + 1, rn_phase := Sleeping\<rparr>"
    have ac: "after_crash cfg now rn = RestartAfter rn'"
      using w False Cons.prems(2) by (simp add: after_crash_def rn'_def)
    obtain k where k: "restart_max_in_window cfg - rn_restarts rn = Suc k"
      using False Cons.prems(2) by (metis Suc_diff_Suc le_neq_implies_less)
    have "crash_run cfg (after_sleep cfg rn') nows =
      (backoff cfg (min (rn_delay rn * 2) (restart_max_delay cfg)) (min (length nows) k), length nows > k)"
    proof -
      have "restart_max_in_window cfg - Suc (rn_restarts rn) = k" using k by simp
      with Cons.IH [of "after_sleep cfg rn'"] Cons.prems False show ?thesis
        by (simp add: after_sleep_def rn'_def)
    qed
    then show ?thesis by (simp add: ac k rn'_def)
  qed
qed simp

text \<open>A crash after the window has passed opens a new one.\<close>

lemma after_crash_new_window:
  assumes "now - rn_window_start rn > restart_window cfg" and "0 < restart_max_in_window cfg"
  shows "\<exists>rn'. after_crash cfg now rn = RestartAfter rn' \<and> rn_restarts rn' = 1 \<and> rn_window_start rn' = now"
  using assms by (simp add: after_crash_def)

section \<open>What stopping does\<close>

lemma sup_stop_tables:
  "map_of (sup_registry (sup_stop a s)) = (map_of (sup_registry s))(a := None)"
  "map_of (sup_agents (sup_stop a s)) = (map_of (sup_agents s))(a := None)"
  "sup_loops (sup_stop a s) = sup_loops s"
  by (auto simp: sup_stop_def sup_table_simps split: option.splits)

lemma loop_ends_give_up:
  assumes "map_of (sup_runners s) t = Some rn" "rn_phase rn = Running"
    "runner_decide (sup_config s) now out rn = GiveUp"
  shows "registry_get (rn_agent rn) (sup_registry (loop_ends t out now s)) = None"
  using assms by (simp add: loop_ends_def runner_finish_def registry_get_def registry_unregister_map)

section \<open>Properties\<close>

text \<open>In every state the supervisor reaches from its start, through spawns, task starts, crashes,
  restarts, stops and shutdowns in any order, the registry, the agent table and the handle table hold
  the same agents, and an agent that is registered has exactly one live runner.\<close>

lemma supervisor_tables_agree:
  assumes "sup_step\<^sup>*\<^sup>* (supervisor_with_config registry_new cfg) s"
  shows "(registry_get a (sup_registry s) \<noteq> None \<longleftrightarrow> map_of (sup_agents s) a \<noteq> None) \<and>
    (map_of (sup_handles s) a \<noteq> None \<longleftrightarrow> map_of (sup_agents s) a \<noteq> None) \<and>
    (registry_get a (sup_registry s) \<noteq> None \<longleftrightarrow>
       (\<exists>!t. map_option rn_agent (map_of (sup_runners s) t) = Some a))"
proof -
  have inv: "sup_inv s" using sup_steps_inv [OF assms sup_init_inv] .
  have "(\<exists>!t. sup_owner s t = Some a) \<longleftrightarrow> map_of (sup_handles s) a \<noteq> None"
    using inv by (auto simp: sup_inv_def linked_def) (metis option.inject)
  moreover have "registry_get a (sup_registry s) = None \<longleftrightarrow> map_of (sup_agents s) a = None"
    "map_of (sup_handles s) a = None \<longleftrightarrow> map_of (sup_agents s) a = None"
    using inv by (simp_all add: sup_inv_def same_dom_def registry_get_def)
  ultimately show ?thesis unfolding sup_owner_def by simp
qed

definition ex_agent :: agent where
  "ex_agent = \<lparr>ag_id = AgentId ''d'', ag_capabilities = []\<rparr>"

lemma supervisor_tables_agree_example:
  "let s = snd (sup_spawn ex_agent (supervisor_with_config registry_new supervisor_config_default)) in
   \<exists>!t. map_option rn_agent (map_of (sup_runners s) t) = Some (AgentId ''d'')"
proof -
  let ?init = "supervisor_with_config registry_new supervisor_config_default"
  let ?s = "snd (sup_spawn ex_agent ?init)"
  have "sup_spawn ex_agent ?init = (fst (sup_spawn ex_agent ?init), ?s)" by simp
  then have "sup_step\<^sup>*\<^sup>* ?init ?s" by (intro r_into_rtranclp) (rule step_spawn)
  from supervisor_tables_agree [OF this, of "AgentId ''d''"]
  show ?thesis unfolding Let_def
    by (simp add: sup_spawn_def supervisor_with_config_def ex_agent_def registry_get_def registry_register_map)
qed

text \<open>C35: the restart budget and the exponential backoff: an agent that crashes over and over within one
  window is restarted exactly \<open>restart_max_in_window\<close> times and then given up, the \<open>k\<close>-th restart
  waiting the initial delay times \<open>2 ^ k\<close>, capped at the maximum, for a configuration whose initial delay is not above its maximum.\<close>

theorem restart_budget_and_backoff:
  assumes "\<forall>now \<in> set nows. now - start \<le> restart_window cfg"
    and "restart_initial_delay cfg \<le> restart_max_delay cfg"
  shows "crash_run cfg \<lparr>rn_agent = a, rn_phase = Running, rn_delay = restart_initial_delay cfg, rn_restarts = 0,
      rn_window_start = start\<rparr> nows =
    (map (\<lambda>k. min (restart_initial_delay cfg * 2 ^ k) (restart_max_delay cfg))
       [0..<min (length nows) (restart_max_in_window cfg)],
     length nows > restart_max_in_window cfg)"
  using assms by (subst crash_run_in_window) (simp_all add: backoff_nth)

theorem restart_budget_and_backoff_witness:
  "crash_run supervisor_config_default \<lparr>rn_agent = AgentId ''d'', rn_phase = Running, rn_delay = 100, rn_restarts = 0,
      rn_window_start = 0\<rparr> [10, 200, 500, 1000, 2000, 4000] = ([100, 200, 400, 800, 1600], True)"
  using restart_budget_and_backoff [of "[10, 200, 500, 1000, 2000, 4000]" 0 supervisor_config_default "AgentId ''d''"]
  by (simp add: supervisor_config_default_def upt_rec)

end
