(* ===== verification/Database.thy ===== *)
theory Database
  imports Prelude
begin

text \<open>
  How the sources use PostgreSQL: a statement takes a connection from the pool, then runs.
  Both may fail, and a failed statement leaves the tables as they were. The tables are the
  type parameter \<open>'t\<close>; the faults the environment injects are consumed one per statement.
\<close>

datatype db_fault = PoolFault string | PgFault string

record 't db =
  db_tables :: 't
  db_faults :: "db_fault option list"

definition db_stmt :: "('t \<Rightarrow> 'a \<times> 't) \<Rightarrow> ('t db, 'a, db_fault) eff" where
  "db_stmt f d =
     (case db_faults d of
        [] \<Rightarrow> (case f (db_tables d) of (x, t) \<Rightarrow> (Ok x, d\<lparr>db_tables := t\<rparr>))
      | None # fs \<Rightarrow> (case f (db_tables d) of (x, t) \<Rightarrow> (Ok x, d\<lparr>db_tables := t, db_faults := fs\<rparr>))
      | Some e # fs \<Rightarrow> (Err e, d\<lparr>db_faults := fs\<rparr>))"

text \<open>A connection without faults.\<close>

definition db_of :: "'t \<Rightarrow> 't db" where
  "db_of t = \<lparr>db_tables = t, db_faults = []\<rparr>"

lemma db_stmt_Ok_iff:
  "db_stmt f d = (Ok x, d') \<longleftrightarrow>
     (x, db_tables d') = f (db_tables d) \<and> db_faults d' = tl (db_faults d) \<and>
     (db_faults d = [] \<or> hd (db_faults d) = None)"
  by (cases d; cases d'; cases "db_faults d")
    (auto simp: db_stmt_def split: option.splits prod.splits)

lemma db_stmt_Err_tables: "db_stmt f d = (Err e, d') \<Longrightarrow> db_tables d' = db_tables d"
  by (auto simp: db_stmt_def split: list.splits option.splits prod.splits)

lemma db_stmt_tables:
  "db_stmt f d = (r, d') \<Longrightarrow>
     db_tables d' = (if is_ok r then snd (f (db_tables d)) else db_tables d)"
  by (auto simp: db_stmt_def split: list.splits option.splits prod.splits)

lemma db_stmt_db_of: "db_stmt f (db_of t) = (case f t of (x, t') \<Rightarrow> (Ok x, db_of t'))"
  by (simp add: db_stmt_def db_of_def split: prod.splits)

lemma db_stmt_total: "\<exists>r d'. db_stmt f d = (r, d')"
  by (cases "db_stmt f d") auto

end
