(* ===== verification/AuditLog.thy ===== *)
theory AuditLog
  imports Database Json "HOL-Library.Word" "HOL-Library.Product_Lexorder"
begin

text \<open>
  The audit log (\<open>daimon-audit\<close>): event types, the PostgreSQL sink and its queries. The hash
  columns that the insert trigger fills are in theory \<open>Anchor\<close>, with the chain they form.
\<close>

section \<open>Events\<close>

datatype action_kind =
    BrokerExecute | VaultResolve | VaultReveal | VaultCreate | VaultUpdate | VaultRename
  | VaultDelete | InventoryUpsert | InventoryRemove | InventoryResolve | TransportDispatch
  | GuardApprove | GuardDeny | MemoryIngest | MemoryRetrieve | MemoryWrite | ActionOther

fun action_as_str :: "action_kind \<Rightarrow> string" where
  "action_as_str BrokerExecute = ''broker.execute''"
| "action_as_str VaultResolve = ''vault.resolve''"
| "action_as_str VaultReveal = ''vault.reveal''"
| "action_as_str VaultCreate = ''vault.create''"
| "action_as_str VaultUpdate = ''vault.update''"
| "action_as_str VaultRename = ''vault.rename''"
| "action_as_str VaultDelete = ''vault.delete''"
| "action_as_str InventoryUpsert = ''inventory.upsert''"
| "action_as_str InventoryRemove = ''inventory.remove''"
| "action_as_str InventoryResolve = ''inventory.resolve''"
| "action_as_str TransportDispatch = ''transport.dispatch''"
| "action_as_str GuardApprove = ''guard.approve''"
| "action_as_str GuardDeny = ''guard.deny''"
| "action_as_str MemoryIngest = ''memory.ingest''"
| "action_as_str MemoryRetrieve = ''memory.retrieve''"
| "action_as_str MemoryWrite = ''memory.write''"
| "action_as_str ActionOther = ''other''"

definition action_from_str :: "string \<Rightarrow> action_kind" where
  "action_from_str s =
     (if s = ''broker.execute'' then BrokerExecute
      else if s = ''vault.resolve'' then VaultResolve
      else if s = ''vault.reveal'' then VaultReveal
      else if s = ''vault.create'' then VaultCreate
      else if s = ''vault.update'' then VaultUpdate
      else if s = ''vault.rename'' then VaultRename
      else if s = ''vault.delete'' then VaultDelete
      else if s = ''inventory.upsert'' then InventoryUpsert
      else if s = ''inventory.remove'' then InventoryRemove
      else if s = ''inventory.resolve'' then InventoryResolve
      else if s = ''transport.dispatch'' then TransportDispatch
      else if s = ''guard.approve'' then GuardApprove
      else if s = ''guard.deny'' then GuardDeny
      else if s = ''memory.ingest'' then MemoryIngest
      else if s = ''memory.retrieve'' then MemoryRetrieve
      else if s = ''memory.write'' then MemoryWrite
      else ActionOther)"

datatype audit_result = AuditSuccess | AuditError | AuditDenied

fun audit_result_as_str :: "audit_result \<Rightarrow> string" where
  "audit_result_as_str AuditSuccess = ''success''"
| "audit_result_as_str AuditError = ''error''"
| "audit_result_as_str AuditDenied = ''denied''"

definition audit_result_from_str :: "string \<Rightarrow> audit_result" where
  "audit_result_from_str s =
     (if s = ''success'' then AuditSuccess
      else if s = ''error'' then AuditError
      else if s = ''denied'' then AuditDenied
      else AuditError)"

record new_audit_event =
  ne_actor_id :: string
  ne_action :: action_kind
  ne_target_ref :: "string option"
  ne_credential_ref :: "string option"
  ne_op_summary :: "string option"
  ne_result :: audit_result
  ne_latency_ms :: "64 word option"
  ne_metadata :: "(string, string) bmap"

definition audit_event_new :: "string \<Rightarrow> action_kind \<Rightarrow> audit_result \<Rightarrow> new_audit_event" where
  "audit_event_new actor action res =
     \<lparr>ne_actor_id = actor, ne_action = action, ne_target_ref = None, ne_credential_ref = None,
      ne_op_summary = None, ne_result = res, ne_latency_ms = None, ne_metadata = []\<rparr>"

definition with_target :: "string \<Rightarrow> new_audit_event \<Rightarrow> new_audit_event" where
  "with_target t e = e\<lparr>ne_target_ref := Some t\<rparr>"

definition with_credential :: "string \<Rightarrow> new_audit_event \<Rightarrow> new_audit_event" where
  "with_credential c e = e\<lparr>ne_credential_ref := Some c\<rparr>"

definition with_op_summary :: "string \<Rightarrow> new_audit_event \<Rightarrow> new_audit_event" where
  "with_op_summary s e = e\<lparr>ne_op_summary := Some s\<rparr>"

definition with_latency_ms :: "64 word \<Rightarrow> new_audit_event \<Rightarrow> new_audit_event" where
  "with_latency_ms ms e = e\<lparr>ne_latency_ms := Some ms\<rparr>"

definition with_metadata :: "string \<Rightarrow> string \<Rightarrow> new_audit_event \<Rightarrow> new_audit_event" where
  "with_metadata k v e = e\<lparr>ne_metadata := bt_insert k v (ne_metadata e)\<rparr>"

record audit_event =
  ae_id :: uuid
  ae_ts :: millis
  ae_actor_id :: string
  ae_action :: action_kind
  ae_target_ref :: "string option"
  ae_credential_ref :: "string option"
  ae_op_summary :: "string option"
  ae_result :: audit_result
  ae_latency_ms :: "64 word option"
  ae_metadata :: "(string, string) bmap"

record audit_filter =
  af_actor_id :: "string option"
  af_action :: "action_kind option"
  af_target_ref :: "string option"
  af_result :: "audit_result option"
  af_since :: "millis option"
  af_until :: "millis option"

datatype audit_error = AuditStorage string | AuditSerde string | AuditErrOther string

fun show_audit_error :: "audit_error \<Rightarrow> string" where
  "show_audit_error (AuditStorage e) = ''audit storage error: '' @ e"
| "show_audit_error (AuditSerde e) = ''audit serde error: '' @ e"
| "show_audit_error (AuditErrOther e) = e"

section \<open>The table\<close>

record audit_row =
  au_id :: uuid
  au_ts :: millis
  au_actor_id :: string
  au_action :: string
  au_target_ref :: "string option"
  au_credential_ref :: "string option"
  au_op_summary :: "string option"
  au_result :: string
  au_latency_ms :: "32 word option"
  au_metadata :: json

text \<open>\<open>n as i32\<close> keeps the low 32 bits.\<close>

definition latency_to_i32 :: "64 word \<Rightarrow> 32 word" where
  "latency_to_i32 n = ucast n"

text \<open>\<open>n as u64\<close> on an \<open>i32\<close> sign-extends.\<close>

definition latency_of_i32 :: "32 word \<Rightarrow> 64 word" where
  "latency_of_i32 n = scast n"

definition metadata_to_json :: "(string, string) bmap \<Rightarrow> json" where
  "metadata_to_json m = JObj (map (\<lambda>(k, v). (k, JStr v)) m)"

fun metadata_members :: "(string \<times> json) list \<Rightarrow> (string \<times> string) list option" where
  "metadata_members [] = Some []"
| "metadata_members ((k, JStr v) # m) = map_option (\<lambda>r. (k, v) # r) (metadata_members m)"
| "metadata_members _ = None"

definition metadata_of_json :: "json \<Rightarrow> (string, string) bmap" where
  "metadata_of_json v =
     (case v of JObj m \<Rightarrow> (case metadata_members m of Some r \<Rightarrow> r | None \<Rightarrow> []) | _ \<Rightarrow> [])"

definition event_row :: "uuid \<Rightarrow> millis \<Rightarrow> new_audit_event \<Rightarrow> audit_row" where
  "event_row u ts e =
     \<lparr>au_id = u, au_ts = ts, au_actor_id = ne_actor_id e, au_action = action_as_str (ne_action e),
      au_target_ref = ne_target_ref e, au_credential_ref = ne_credential_ref e,
      au_op_summary = ne_op_summary e, au_result = audit_result_as_str (ne_result e),
      au_latency_ms = map_option latency_to_i32 (ne_latency_ms e),
      au_metadata = metadata_to_json (ne_metadata e)\<rparr>"

definition row_to_event :: "audit_row \<Rightarrow> (audit_event, audit_error) result" where
  "row_to_event r =
     Ok \<lparr>ae_id = au_id r, ae_ts = au_ts r, ae_actor_id = au_actor_id r,
         ae_action = action_from_str (au_action r), ae_target_ref = au_target_ref r,
         ae_credential_ref = au_credential_ref r, ae_op_summary = au_op_summary r,
         ae_result = audit_result_from_str (au_result r),
         ae_latency_ms = map_option latency_of_i32 (au_latency_ms r),
         ae_metadata = metadata_of_json (au_metadata r)\<rparr>"

definition audit_fault :: "string \<Rightarrow> db_fault \<Rightarrow> audit_error" where
  "audit_fault op f = (case f of PoolFault e \<Rightarrow> AuditStorage (''pool: '' @ e) | PgFault e \<Rightarrow> AuditStorage (op @ '': '' @ e))"

type_synonym audit_db = "audit_row list db"

definition audit_append :: "uuid \<Rightarrow> millis \<Rightarrow> new_audit_event \<Rightarrow> (audit_db, uuid, audit_error) eff" where
  "audit_append u ts e =
     mapE (audit_fault ''append'') (db_stmt (\<lambda>rows. (u, rows @ [event_row u ts e])))"

text \<open>The clauses of a query; \<open>ilike\<close> is the database's case-insensitive pattern match.\<close>

definition opt_clause :: "'a option \<Rightarrow> ('a \<Rightarrow> bool) \<Rightarrow> bool" where
  "opt_clause x p = (case x of None \<Rightarrow> True | Some a \<Rightarrow> p a)"

definition filter_clauses :: "(string \<Rightarrow> string \<Rightarrow> bool) \<Rightarrow> audit_filter \<Rightarrow> audit_row \<Rightarrow> bool" where
  "filter_clauses ilike f r \<longleftrightarrow>
     opt_clause (af_actor_id f) (\<lambda>a. au_actor_id r = a) \<and>
     opt_clause (af_action f) (\<lambda>a. au_action r = action_as_str a) \<and>
     opt_clause (af_target_ref f) (\<lambda>t. case au_target_ref r of None \<Rightarrow> False | Some v \<Rightarrow> ilike v (''%'' @ t @ ''%'')) \<and>
     opt_clause (af_result f) (\<lambda>x. au_result r = audit_result_as_str x) \<and>
     opt_clause (af_since f) (\<lambda>t. t \<le> au_ts r) \<and>
     opt_clause (af_until f) (\<lambda>t. au_ts r < t)"

text \<open>\<open>ORDER BY ts, id\<close>, ascending and descending.\<close>

definition row_key :: "'a audit_row_scheme \<Rightarrow> millis \<times> uuid" where
  "row_key r = (au_ts r, au_id r)"

definition oldest_first :: "'a audit_row_scheme list \<Rightarrow> 'a audit_row_scheme list" where
  "oldest_first rows = sort_key row_key rows"

definition newest_first :: "'a audit_row_scheme list \<Rightarrow> 'a audit_row_scheme list" where
  "newest_first rows = rev (oldest_first rows)"

fun collect_events :: "audit_row list \<Rightarrow> (audit_event list, audit_error) result" where
  "collect_events [] = Ok []"
| "collect_events (r # rs) =
     bind_result (row_to_event r) (\<lambda>e. bind_result (collect_events rs) (\<lambda>es. Ok (e # es)))"

definition audit_query ::
  "(string \<Rightarrow> string \<Rightarrow> bool) \<Rightarrow> audit_filter \<Rightarrow> nat \<Rightarrow> nat \<Rightarrow> (audit_db, audit_event list, audit_error) eff" where
  "audit_query ilike f limit offset =
     bindE (mapE (audit_fault ''query'')
              (db_stmt (\<lambda>rows. (take limit (drop offset (newest_first (filter (filter_clauses ilike f) rows))), rows))))
       (\<lambda>rows. liftE (collect_events rows))"

definition audit_count ::
  "(string \<Rightarrow> string \<Rightarrow> bool) \<Rightarrow> audit_filter \<Rightarrow> (audit_db, nat, audit_error) eff" where
  "audit_count ilike f =
     mapE (audit_fault ''count'') (db_stmt (\<lambda>rows. (length (filter (filter_clauses ilike f) rows), rows)))"

section \<open>Lemmas\<close>

lemma action_roundtrip [simp]: "action_from_str (action_as_str a) = a"
  by (cases a) (simp_all add: action_from_str_def)

lemma audit_result_roundtrip [simp]: "audit_result_from_str (audit_result_as_str r) = r"
  by (cases r) (simp_all add: audit_result_from_str_def)

lemma metadata_roundtrip [simp]: "metadata_of_json (metadata_to_json m) = m"
proof -
  have "metadata_members (map (\<lambda>(k, v). (k, JStr v)) m) = Some m" by (induction m) auto
  then show ?thesis by (simp add: metadata_of_json_def metadata_to_json_def)
qed

lemma collect_events_Ok: "\<exists>es. collect_events rows = Ok es \<and> length es = length rows"
  by (induction rows) (auto simp: row_to_event_def)

text \<open>A latency survives the column exactly when it is below \<open>2^31\<close> milliseconds, or so
  large that its low word sign-extends back.\<close>

lemma latency_roundtrip_small:
  assumes u: "uint n < 2 ^ 31"
  shows "latency_of_i32 (latency_to_i32 n) = n"
proof -
  have "sint (ucast n :: 32 word) = uint n"
  proof -
    have "signed_take_bit 31 (uint n) = uint n"
      using u by (intro signed_take_bit_int_eq_self order.trans [OF _ uint_ge_0]) simp_all
    moreover have "take_bit 32 (uint n) = uint n" using u by (simp add: take_bit_int_eq_self)
    ultimately show ?thesis by (simp add: sint_uint unsigned_ucast_eq)
  qed
  then show ?thesis
    by (simp add: latency_of_i32_def latency_to_i32_def scast_eq)
qed

section \<open>Properties\<close>

text \<open>What the sink stores is what its queries return: an appended event comes back with the
  id and time the database gave it and every field unchanged, provided its latency, if it has
  one, is below \<open>2^31\<close> milliseconds (the column is an \<open>i32\<close>).\<close>

lemma audit_event_roundtrip:
  assumes "\<And>n. ne_latency_ms e = Some n \<Longrightarrow> uint n < 2 ^ 31"
  shows "row_to_event (event_row u ts e) =
    Ok \<lparr>ae_id = u, ae_ts = ts, ae_actor_id = ne_actor_id e, ae_action = ne_action e,
        ae_target_ref = ne_target_ref e, ae_credential_ref = ne_credential_ref e,
        ae_op_summary = ne_op_summary e, ae_result = ne_result e, ae_latency_ms = ne_latency_ms e,
        ae_metadata = ne_metadata e\<rparr>"
  using assms
  by (cases "ne_latency_ms e") (simp_all add: row_to_event_def event_row_def latency_roundtrip_small)

definition ex_event :: new_audit_event where
  "ex_event = with_latency_ms 12 (with_target ''target://edge'' (audit_event_new ''alice'' BrokerExecute AuditSuccess))"

lemma audit_event_roundtrip_example:
  "\<exists>ev. row_to_event (event_row ''e-1'' 5 ex_event) = Ok ev \<and> ae_latency_ms ev = Some 12 \<and> ae_action ev = BrokerExecute"
proof -
  have "\<And>n. ne_latency_ms ex_event = Some n \<Longrightarrow> uint n < 2 ^ 31"
    by (auto simp: ex_event_def with_latency_ms_def)
  from audit_event_roundtrip [of ex_event "''e-1''" 5, OF this] show ?thesis
    by (simp add: ex_event_def with_latency_ms_def with_target_def audit_event_new_def)
qed

end
