(* ===== verification/Anchor.thy ===== *)
theory Anchor
  imports AuditLog
begin

text \<open>
  Tamper evidence for the audit log (\<open>daimon-anchor\<close>): the canonical payload, the hash chain
  that the insert trigger builds (migration \<open>V020\<close>), its verification, and the snapshot of the
  chain head. SHA-256 (\<open>H\<close>), the rendering of a timestamp (\<open>fts\<close>) and of the metadata
  column (\<open>jtext\<close>) are parameters; bytes are characters here.
\<close>

section \<open>The chain\<close>

definition GENESIS_PREV_HASH :: string where
  "GENESIS_PREV_HASH = replicate 32 (CHR 0x00)"

record chain_row = audit_row +
  ch_prev_hash :: string
  ch_row_hash :: string

record hashing =
  hs_sha256 :: "string \<Rightarrow> string"
  hs_ts :: "millis \<Rightarrow> string"
  hs_json :: "json \<Rightarrow> string"

definition opt_text :: "string option \<Rightarrow> string" where
  "opt_text x = (case x of Some s \<Rightarrow> s | None \<Rightarrow> '''')"

definition canonicalize :: "hashing \<Rightarrow> 'a audit_row_scheme \<Rightarrow> string" where
  "canonicalize h r =
     join ''|''
       [hs_ts h (au_ts r), au_actor_id r, au_action r, opt_text (au_target_ref r),
        opt_text (au_credential_ref r), opt_text (au_op_summary r), au_result r,
        (case au_latency_ms r of Some n \<Rightarrow> show_int (sint n) | None \<Rightarrow> ''''),
        (if hs_json h (au_metadata r) = '''' then ''{}'' else hs_json h (au_metadata r))]"

definition compute_row_hash :: "hashing \<Rightarrow> string \<Rightarrow> string \<Rightarrow> string" where
  "compute_row_hash h canonical prev = hs_sha256 h (canonical @ prev)"

text \<open>The payload as the trigger writes it, column after column; the metadata column is never null. It is the text of \<open>canonicalize\<close>, since the database
  prints no JSON value as the empty text.\<close>

definition trigger_canonical :: "hashing \<Rightarrow> audit_row \<Rightarrow> string" where
  "trigger_canonical h r =
     hs_ts h (au_ts r) @ ''|'' @ au_actor_id r @ ''|'' @ au_action r @ ''|'' @ opt_text (au_target_ref r) @ ''|'' @
     opt_text (au_credential_ref r) @ ''|'' @ opt_text (au_op_summary r) @ ''|'' @ au_result r @ ''|'' @
     opt_text (map_option (\<lambda>n. show_int (sint n)) (au_latency_ms r)) @ ''|'' @ hs_json h (au_metadata r)"

lemma trigger_canonical_eq: "hs_json h (au_metadata r) \<noteq> '''' \<Longrightarrow> trigger_canonical h r = canonicalize h r"
  by (simp add: trigger_canonical_def canonicalize_def opt_text_def split: option.splits)

text \<open>The trigger: the head of the chain is the newest row by time and id.\<close>

definition chain_head :: "chain_row list \<Rightarrow> string" where
  "chain_head rows = (case newest_first rows of [] \<Rightarrow> GENESIS_PREV_HASH | r # _ \<Rightarrow> ch_row_hash r)"

definition chain_insert :: "hashing \<Rightarrow> audit_row \<Rightarrow> chain_row list \<Rightarrow> chain_row list" where
  "chain_insert h r rows =
     rows @ [audit_row.extend r
       \<lparr>ch_prev_hash = chain_head rows,
        ch_row_hash = compute_row_hash h (canonicalize h r) (chain_head rows)\<rparr>]"

section \<open>Verification\<close>

record chain_break =
  cb_event_id :: uuid
  cb_ts :: millis
  cb_expected :: string
  cb_stored :: string

record verify_report =
  vr_rows_checked :: nat
  vr_breaks :: "chain_break list"

text \<open>\<open>None\<close> is the panic of \<open>copy_from_slice\<close> on a stored hash that is not 32 bytes long.\<close>

fun verify_loop :: "hashing \<Rightarrow> string \<Rightarrow> chain_row list \<Rightarrow> chain_break list option" where
  "verify_loop h expected_prev [] = Some []"
| "verify_loop h expected_prev (r # rs) =
     (let computed = compute_row_hash h (canonicalize h r) expected_prev;
          here = (if computed \<noteq> ch_row_hash r
                  then [\<lparr>cb_event_id = au_id r, cb_ts = au_ts r, cb_expected = computed,
                         cb_stored = ch_row_hash r\<rparr>]
                  else [])
      in if length (ch_row_hash r) \<noteq> 32 then None
         else map_option (\<lambda>bs. here @ bs) (verify_loop h (ch_row_hash r) rs))"

definition verify_rows :: "hashing \<Rightarrow> chain_row list \<Rightarrow> verify_report option" where
  "verify_rows h rows =
     map_option (\<lambda>bs. \<lparr>vr_rows_checked = length rows, vr_breaks = bs\<rparr>)
       (verify_loop h GENESIS_PREV_HASH (oldest_first rows))"

section \<open>Snapshot\<close>

record manifest =
  mf_as_of_ts :: millis
  mf_row_hash :: string
  mf_row_count :: nat
  mf_instance_id :: uuid

record anchor_row =
  an_id :: uuid
  an_manifest :: manifest

record 'f anchor_world =
  aw_events :: "chain_row list"
  aw_anchors :: "anchor_row list"
  aw_files :: 'f

text \<open>The file mirror is a parameter that may fail after the anchor row is written.\<close>

definition snapshot ::
  "(manifest \<Rightarrow> ('f, string, string) eff) \<Rightarrow> uuid \<Rightarrow> uuid \<Rightarrow> millis \<Rightarrow> bool \<Rightarrow>
   ('f anchor_world, manifest \<times> string option \<times> uuid, string) eff" where
  "snapshot mirror u instance_id now with_dir w =
     (let m = (case newest_first (aw_events w) of
                 r # _ \<Rightarrow> \<lparr>mf_as_of_ts = au_ts r, mf_row_hash = ch_row_hash r,
                           mf_row_count = length (aw_events w), mf_instance_id = instance_id\<rparr>
               | [] \<Rightarrow> \<lparr>mf_as_of_ts = now, mf_row_hash = GENESIS_PREV_HASH, mf_row_count = 0,
                        mf_instance_id = instance_id\<rparr>);
          w1 = w\<lparr>aw_anchors := aw_anchors w @ [\<lparr>an_id = u, an_manifest = m\<rparr>]\<rparr>
      in if \<not> with_dir then (Ok (m, None, u), w1)
         else (case mirror m (aw_files w1) of
                 (Ok path, f) \<Rightarrow> (Ok (m, Some path, u), w1\<lparr>aw_files := f\<rparr>)
               | (Err e, f) \<Rightarrow> (Err e, w1\<lparr>aw_files := f\<rparr>)))"

section \<open>Lemmas\<close>

definition hash_ok :: "hashing \<Rightarrow> bool" where
  "hash_ok h \<longleftrightarrow> (\<forall>x. length (hs_sha256 h x) = 32)"

text \<open>A chain in order: every row's hash is computed from the hash of the row before it.\<close>

fun chained :: "hashing \<Rightarrow> string \<Rightarrow> chain_row list \<Rightarrow> bool" where
  "chained h prev [] = True"
| "chained h prev (r # rs) =
     (ch_row_hash r = compute_row_hash h (canonicalize h r) prev \<and> chained h (ch_row_hash r) rs)"

lemma verify_loop_chained:
  "hash_ok h \<Longrightarrow> chained h prev rs \<Longrightarrow> verify_loop h prev rs = Some []"
  by (induction rs arbitrary: prev) (auto simp: hash_ok_def compute_row_hash_def)

lemma verify_loop_sound: "verify_loop h prev rs = Some [] \<Longrightarrow> chained h prev rs"
  by (induction rs arbitrary: prev) (auto simp: Let_def split: if_splits)

lemma chained_append:
  "chained h prev (rs @ [r]) \<longleftrightarrow> chained h prev rs \<and>
     ch_row_hash r = compute_row_hash h (canonicalize h r)
       (if rs = [] then prev else ch_row_hash (last rs))"
  by (induction rs arbitrary: prev) auto

lemma sort_key_sorted: "sorted (map f xs) \<Longrightarrow> sort_key f xs = xs"
proof (induction xs)
  case (Cons x xs)
  then have "insort_key f x xs = x # xs" by (cases xs) (auto)
  with Cons show ?case by simp
qed simp

lemma oldest_first_sorted: "sorted_wrt (\<lambda>a b. row_key a < row_key b) rows \<Longrightarrow> oldest_first rows = rows"
  unfolding oldest_first_def
  by (rule sort_key_sorted, unfold sorted_map, erule sorted_wrt_mono_rel [rotated], erule less_imp_le)

lemma row_key_extend [simp]: "row_key (audit_row.extend r x) = row_key r"
  by (simp add: row_key_def audit_row.defs)

lemma canonicalize_extend [simp]: "canonicalize h (audit_row.extend r x) = canonicalize h r"
  by (simp add: canonicalize_def audit_row.defs)

lemma chain_row_hash_extend [simp]:
  "ch_row_hash (audit_row.extend r \<lparr>ch_prev_hash = p, ch_row_hash = x\<rparr>) = x"
  by (simp add: audit_row.defs chain_row.defs)

fun chain_inserts :: "hashing \<Rightarrow> audit_row list \<Rightarrow> chain_row list \<Rightarrow> chain_row list" where
  "chain_inserts h [] rows = rows"
| "chain_inserts h (e # es) rows = chain_inserts h es (chain_insert h e rows)"

text \<open>One insert in key order extends an ordered chain.\<close>

lemma chain_insert_ordered:
  assumes "sorted_wrt (\<lambda>a b. row_key a < row_key b) rows" "chained h GENESIS_PREV_HASH rows"
    and "\<forall>r \<in> set rows. row_key r < row_key e"
  shows "sorted_wrt (\<lambda>a b. row_key a < row_key b) (chain_insert h e rows) \<and>
    chained h GENESIS_PREV_HASH (chain_insert h e rows)"
proof -
  have head: "chain_head rows = (if rows = [] then GENESIS_PREV_HASH else ch_row_hash (last rows))"
    using oldest_first_sorted [OF assms(1)]
    by (cases rows rule: rev_cases) (simp_all add: chain_head_def newest_first_def)
  show ?thesis
    using assms head by (auto simp: chain_insert_def sorted_wrt_append chained_append)
qed

lemma chain_inserts_ordered:
  assumes "sorted_wrt (\<lambda>a b. row_key a < row_key b) rows" "chained h GENESIS_PREV_HASH rows"
    and "sorted_wrt (\<lambda>a b. row_key a < row_key b) es"
    and "\<forall>r \<in> set rows. \<forall>e \<in> set es. row_key r < row_key e"
  shows "sorted_wrt (\<lambda>a b. row_key a < row_key b) (chain_inserts h es rows) \<and>
    chained h GENESIS_PREV_HASH (chain_inserts h es rows) \<and>
    length (chain_inserts h es rows) = length rows + length es"
  using assms
proof (induction es arbitrary: rows)
  case (Cons e es)
  have "sorted_wrt (\<lambda>a b. row_key a < row_key b) (chain_insert h e rows) \<and>
    chained h GENESIS_PREV_HASH (chain_insert h e rows)"
    using Cons.prems by (intro chain_insert_ordered) auto
  moreover have "\<forall>r \<in> set (chain_insert h e rows). \<forall>x \<in> set es. row_key r < row_key x"
    using Cons.prems(3,4) by (auto simp: chain_insert_def)
  moreover have "length (chain_insert h e rows) = Suc (length rows)" by (simp add: chain_insert_def)
  ultimately show ?case using Cons.IH [of "chain_insert h e rows"] Cons.prems(3) by simp
qed simp

lemma inserts_verify:
  assumes "hash_ok h" "sorted_wrt (\<lambda>a b. row_key a < row_key b) es"
  shows "verify_rows h (chain_inserts h es []) = Some \<lparr>vr_rows_checked = length es, vr_breaks = []\<rparr>"
  using chain_inserts_ordered [of "[]" h es] assms
  by (simp add: verify_rows_def oldest_first_sorted verify_loop_chained)

section \<open>Tamper evidence\<close>

text \<open>What is fed to the hash function when a chain is checked.\<close>

fun hash_inputs :: "hashing \<Rightarrow> string \<Rightarrow> chain_row list \<Rightarrow> string list" where
  "hash_inputs h prev [] = []"
| "hash_inputs h prev (r # rs) = (canonicalize h r @ prev) # hash_inputs h (ch_row_hash r) rs"

lemma hash_inputs_append:
  "hash_inputs h prev (rs @ [r]) =
     hash_inputs h prev rs @ [canonicalize h r @ (if rs = [] then prev else ch_row_hash (last rs))]"
  by (induction rs arbitrary: prev) auto

definition no_collision :: "hashing \<Rightarrow> string set \<Rightarrow> bool" where
  "no_collision h S \<longleftrightarrow> (\<forall>a \<in> S. \<forall>b \<in> S. hs_sha256 h a = hs_sha256 h b \<longrightarrow> a = b)"

lemma chained_hash_length: "hash_ok h \<Longrightarrow> chained h p rs \<Longrightarrow> r \<in> set rs \<Longrightarrow> length (ch_row_hash r) = 32"
  by (induction rs arbitrary: p) (auto simp: hash_ok_def compute_row_hash_def)

lemma chained_same_head:
  assumes "hash_ok h" "length p = 32"
    and "chained h p rs" "chained h p rs'" "length rs = length rs'"
    and "rs \<noteq> [] \<Longrightarrow> ch_row_hash (last rs) = ch_row_hash (last rs')"
    and "no_collision h (set (hash_inputs h p rs) \<union> set (hash_inputs h p rs'))"
  shows "map (canonicalize h) rs = map (canonicalize h) rs'"
  using assms(3-)
proof (induction rs arbitrary: rs' rule: rev_induct)
  case (snoc r rs)
  obtain ys r' where rs': "rs' = ys @ [r']" using snoc.prems(3) by (metis append_Nil2 length_0_conv
      length_append_singleton nat.distinct(1) rev_exhaust)
  let ?q = "if rs = [] then p else ch_row_hash (last rs)"
  let ?q' = "if ys = [] then p else ch_row_hash (last ys)"
  have l: "length rs = length ys" using snoc.prems(3) rs' by simp
  have hashes: "hs_sha256 h (canonicalize h r @ ?q) = hs_sha256 h (canonicalize h r' @ ?q')"
    using snoc.prems(1,2,4) unfolding rs' chained_append compute_row_hash_def by simp
  have inputs: "canonicalize h r @ ?q \<in> set (hash_inputs h p (rs @ [r])) \<union> set (hash_inputs h p rs')"
    "canonicalize h r' @ ?q' \<in> set (hash_inputs h p (rs @ [r])) \<union> set (hash_inputs h p rs')"
    unfolding rs' hash_inputs_append by auto
  have eq: "canonicalize h r @ ?q = canonicalize h r' @ ?q'"
    using snoc.prems(5) hashes inputs unfolding no_collision_def by blast
  have "length ?q = 32" "length ?q' = 32"
    using assms(1,2) snoc.prems(1,2) chained_hash_length [of h p "rs @ [r]"] chained_hash_length [of h p rs']
    by (auto simp: rs')
  then have c: "canonicalize h r = canonicalize h r'" and q: "?q = ?q'" using eq by auto
  have "map (canonicalize h) rs = map (canonicalize h) ys"
  proof (rule snoc.IH)
    show "chained h p rs" "chained h p ys" using snoc.prems(1,2) by (simp_all add: rs' chained_append)
    show "length rs = length ys" by (rule l)
    show "rs \<noteq> [] \<Longrightarrow> ch_row_hash (last rs) = ch_row_hash (last ys)" using q l by (auto split: if_splits)
    show "no_collision h (set (hash_inputs h p rs) \<union> set (hash_inputs h p ys))"
      using snoc.prems(5) unfolding rs' hash_inputs_append no_collision_def by auto
  qed
  then show ?case by (simp add: rs' c)
qed simp

section \<open>Properties\<close>

text \<open>C18: the verifier accepts what the trigger writes: events inserted in strictly increasing
  order of time and id form a chain that verifies without a break, every row checked.\<close>

theorem chain_verifies:
  assumes "hash_ok h" "sorted_wrt (\<lambda>a b. row_key a < row_key b) es"
  shows "verify_rows h (chain_inserts h es []) = Some \<lparr>vr_rows_checked = length es, vr_breaks = []\<rparr>"
  by (rule inserts_verify [OF assms])

definition ex_hashing :: hashing where
  "ex_hashing = \<lparr>hs_sha256 = (\<lambda>s. take 32 (splice s (rev s) @ replicate 32 (CHR ''0''))), hs_ts = show_nat,
     hs_json = (\<lambda>_. ''{}'')\<rparr>"

lemma ex_hash_ok: "hash_ok ex_hashing"
  by (simp add: hash_ok_def ex_hashing_def del: take_append)

definition ex_row :: "uuid \<Rightarrow> millis \<Rightarrow> audit_row" where
  "ex_row u t = event_row u t (audit_event_new ''alice'' BrokerExecute AuditSuccess)"

theorem chain_verifies_witness:
  "verify_rows ex_hashing (chain_inserts ex_hashing [ex_row ''a'' 1, ex_row ''b'' 2] []) =
     Some \<lparr>vr_rows_checked = 2, vr_breaks = []\<rparr>"
  using chain_verifies [OF ex_hash_ok, of "[ex_row ''a'' 1, ex_row ''b'' 2]"]
  by (simp add: row_key_def ex_row_def event_row_def)

text \<open>C17: an anchored head pins the whole log: two logs that both verify, have the same number
  of rows and the same head hash (which is what a snapshot records) have the same canonical
  payload in every row, unless the hash function collides on inputs of these chains.\<close>

theorem anchored_head_determines_log:
  assumes "hash_ok h"
    and "verify_rows h rows = Some \<lparr>vr_rows_checked = n, vr_breaks = []\<rparr>"
    and "verify_rows h rows' = Some \<lparr>vr_rows_checked = n, vr_breaks = []\<rparr>"
    and "chain_head rows = chain_head rows'"
    and "no_collision h (set (hash_inputs h GENESIS_PREV_HASH (oldest_first rows)) \<union>
      set (hash_inputs h GENESIS_PREV_HASH (oldest_first rows')))"
  shows "map (canonicalize h) (oldest_first rows) = map (canonicalize h) (oldest_first rows')"
proof (rule chained_same_head [OF assms(1)])
  show "length GENESIS_PREV_HASH = 32" by (simp add: GENESIS_PREV_HASH_def)
  show "chained h GENESIS_PREV_HASH (oldest_first rows)" "chained h GENESIS_PREV_HASH (oldest_first rows')"
    using assms(2,3) by (auto simp: verify_rows_def intro: verify_loop_sound)
  have "length rows = length rows'" using assms(2,3) by (auto simp: verify_rows_def)
  then show l: "length (oldest_first rows) = length (oldest_first rows')" by (simp add: oldest_first_def)
  show "ch_row_hash (last (oldest_first rows)) = ch_row_hash (last (oldest_first rows'))" if "oldest_first rows \<noteq> []"
  proof -
    have "oldest_first rows' \<noteq> []" using that l by auto
    with that assms(4) show ?thesis
      by (cases "oldest_first rows" rule: rev_cases; cases "oldest_first rows'" rule: rev_cases)
        (simp_all add: chain_head_def newest_first_def)
  qed
qed (rule assms(5))

definition ex_log :: "chain_row list" where
  "ex_log = chain_inserts ex_hashing [ex_row ''a'' 1, ex_row ''b'' 2] []"

lemma ex_log_shape: "\<exists>x y. ex_log = [x, y] \<and> row_key x < row_key y"
  by (simp add: ex_log_def chain_insert_def) (simp add: row_key_def ex_row_def event_row_def)

lemma ex_log_rev: "oldest_first (rev ex_log) = oldest_first ex_log"
proof -
  obtain x y where xy: "ex_log = [x, y]" and lt: "row_key x < row_key y" using ex_log_shape by blast
  show ?thesis unfolding xy using lt by (simp add: oldest_first_def)
qed

lemma ex_log_length: "length ex_log = 2"
proof -
  obtain x y where "ex_log = [x, y]" using ex_log_shape by blast
  then show ?thesis by (metis One_nat_def Suc_1 length_Cons list.size(3))
qed

theorem anchored_head_determines_log_witness:
  "map (canonicalize ex_hashing) (oldest_first ex_log) = map (canonicalize ex_hashing) (oldest_first (rev ex_log)) \<and>
   length ex_log = 2"
proof -
  have v: "verify_rows ex_hashing ex_log = Some \<lparr>vr_rows_checked = 2, vr_breaks = []\<rparr>"
    using inserts_verify [OF ex_hash_ok, of "[ex_row ''a'' 1, ex_row ''b'' 2]"]
    by (simp add: ex_log_def row_key_def ex_row_def event_row_def)
  then have v': "verify_rows ex_hashing (rev ex_log) = Some \<lparr>vr_rows_checked = 2, vr_breaks = []\<rparr>"
    by (simp add: verify_rows_def ex_log_rev)
  have head: "chain_head ex_log = chain_head (rev ex_log)"
    by (simp add: chain_head_def newest_first_def ex_log_rev)
  have "no_collision ex_hashing (set (hash_inputs ex_hashing GENESIS_PREV_HASH (oldest_first ex_log)))"
    by code_simp
  then show ?thesis
    using anchored_head_determines_log [OF ex_hash_ok v v' head] ex_log_length by (simp add: ex_log_rev)
qed

text \<open>A correct log can look tampered: when two inserts commit in the opposite order of
  their timestamps (the timestamp is taken at the start of the transaction, the chain head
  under the lock), the later insert chains to a row that the verifier visits after it, and
  the verifier reports a break, whenever the two hash inputs do not collide.\<close>

lemma chain_out_of_order_breaks:
  assumes "hash_ok h" "row_key b < row_key a"
    and "hs_sha256 h (canonicalize h b @ GENESIS_PREV_HASH) \<noteq>
      hs_sha256 h (canonicalize h b @ compute_row_hash h (canonicalize h a) GENESIS_PREV_HASH)"
  shows "\<exists>br bs. verify_rows h (chain_inserts h [a, b] []) =
    Some \<lparr>vr_rows_checked = 2, vr_breaks = br # bs\<rparr> \<and> cb_event_id br = au_id b"
proof -
  define ra where "ra = audit_row.extend a
    \<lparr>ch_prev_hash = GENESIS_PREV_HASH, ch_row_hash = compute_row_hash h (canonicalize h a) GENESIS_PREV_HASH\<rparr>"
  define rb where "rb = audit_row.extend b
    \<lparr>ch_prev_hash = ch_row_hash ra, ch_row_hash = compute_row_hash h (canonicalize h b) (ch_row_hash ra)\<rparr>"
  have rows: "chain_inserts h [a, b] [] = [ra, rb]"
    by (simp add: chain_insert_def chain_head_def newest_first_def oldest_first_def ra_def rb_def)
  have ord: "oldest_first [ra, rb] = [rb, ra]"
    using assms(2) by (simp add: oldest_first_def ra_def rb_def)
  have len: "length (ch_row_hash ra) = 32" "length (ch_row_hash rb) = 32"
    using assms(1) by (simp_all add: ra_def rb_def hash_ok_def compute_row_hash_def)
  have "compute_row_hash h (canonicalize h rb) GENESIS_PREV_HASH \<noteq> ch_row_hash rb"
    using assms(3) by (simp add: ra_def rb_def compute_row_hash_def)
  moreover have "au_id rb = au_id b" by (simp add: rb_def audit_row.defs)
  ultimately show ?thesis unfolding rows verify_rows_def ord by (simp add: len Let_def)
qed

lemma chain_out_of_order_breaks_example:
  "\<exists>br bs. verify_rows ex_hashing (chain_inserts ex_hashing [ex_row ''a'' 2, ex_row ''b'' 1] []) =
    Some \<lparr>vr_rows_checked = 2, vr_breaks = br # bs\<rparr> \<and> cb_event_id br = au_id (ex_row ''b'' 1)"
proof (rule chain_out_of_order_breaks [OF ex_hash_ok])
  show "row_key (ex_row ''b'' 1) < row_key (ex_row ''a'' 2)"
    by (simp add: row_key_def ex_row_def event_row_def)
  show "hs_sha256 ex_hashing (canonicalize ex_hashing (ex_row ''b'' 1) @ GENESIS_PREV_HASH) \<noteq>
    hs_sha256 ex_hashing (canonicalize ex_hashing (ex_row ''b'' 1) @
      compute_row_hash ex_hashing (canonicalize ex_hashing (ex_row ''a'' 2)) GENESIS_PREV_HASH)"
    by code_simp
qed

text \<open>The canonical payload does not separate its fields: two rows that differ in actor and
  action have the same payload, so the chain cannot tell them apart.\<close>

lemma canonicalize_not_injective:
  "\<exists>(a :: audit_row) (b :: audit_row). au_actor_id a \<noteq> au_actor_id b \<and> au_action a \<noteq> au_action b \<and>
     canonicalize h a = canonicalize h b"
proof -
  let ?a = "(ex_row ''a'' 1)\<lparr>au_actor_id := ''x|y'', au_action := ''z''\<rparr>"
  let ?b = "(ex_row ''a'' 1)\<lparr>au_actor_id := ''x'', au_action := ''y|z''\<rparr>"
  show ?thesis by (rule exI [of _ ?a], rule exI [of _ ?b]) (simp add: canonicalize_def)
qed

end
