(* ===== verification/Policy.thy ===== *)
theory Policy
  imports Prelude
begin

text \<open>
  The policy engine of \<open>daimon-guard\<close> (\<open>policy.rs\<close>): an ordered rule list over
  capability names, evaluated first match wins, with a fixed default of \<open>Deny\<close>. The TOML
  parser and the file system are parameters of the loaders.
\<close>

datatype decision = Allow | Deny | RequireApproval

record policy_rule =
  rule_capability :: string
  rule_decision :: decision
  rule_description :: "string option"

record policy_config =
  pc_rules :: "policy_rule list"

record policy_verdict =
  pv_decision :: decision
  pv_rule_index :: "nat option"

record policy_engine =
  pe_rules :: "policy_rule list"
  pe_default_decision :: decision

definition policy_new :: "policy_rule list \<Rightarrow> policy_engine" where
  "policy_new rules = \<lparr>pe_rules = rules, pe_default_decision = Deny\<rparr>"

datatype policy_load_error = PolicyIo string | PolicyToml string

definition policy_from_toml_str ::
  "(string \<Rightarrow> (policy_config, string) result) \<Rightarrow> string \<Rightarrow> (policy_engine, policy_load_error) result" where
  "policy_from_toml_str toml s =
     (case toml s of Err e \<Rightarrow> Err (PolicyToml e) | Ok cfg \<Rightarrow> Ok (policy_new (pc_rules cfg)))"

definition policy_from_toml_file ::
  "(string \<Rightarrow> (policy_config, string) result) \<Rightarrow> (string \<Rightarrow> bool) \<Rightarrow>
   (string \<Rightarrow> (string, string) result) \<Rightarrow> string \<Rightarrow> (policy_engine, policy_load_error) result" where
  "policy_from_toml_file toml exists read_file path =
     (if \<not> exists path then Ok (policy_new [])
      else (case read_file path of
              Err e \<Rightarrow> Err (PolicyIo e)
            | Ok t \<Rightarrow> (case toml t of
                 Err e \<Rightarrow> Err (PolicyToml e)
               | Ok cfg \<Rightarrow> Ok (policy_new (pc_rules cfg)))))"

definition glob_match :: "string \<Rightarrow> string \<Rightarrow> bool" where
  "glob_match pattern v =
     (if pattern = v then True
      else (case strip_suffix ''.*'' pattern of
              Some pfx \<Rightarrow> v = pfx \<or> starts_with (pfx @ ''.'') v
            | None \<Rightarrow> pattern = ''*''))"

fun evaluate_from :: "nat \<Rightarrow> policy_rule list \<Rightarrow> decision \<Rightarrow> string \<Rightarrow> policy_verdict" where
  "evaluate_from i [] dflt c = \<lparr>pv_decision = dflt, pv_rule_index = None\<rparr>"
| "evaluate_from i (r # rs) dflt c =
     (if glob_match (rule_capability r) c
      then \<lparr>pv_decision = rule_decision r, pv_rule_index = Some i\<rparr>
      else evaluate_from (Suc i) rs dflt c)"

definition evaluate :: "policy_engine \<Rightarrow> string \<Rightarrow> policy_verdict" where
  "evaluate pe c = evaluate_from 0 (pe_rules pe) (pe_default_decision pe) c"

section \<open>Specification\<close>

text \<open>The verdict as a relation: the index of the first matching rule, or the default.\<close>

definition verdict_spec :: "policy_engine \<Rightarrow> string \<Rightarrow> policy_verdict \<Rightarrow> bool" where
  "verdict_spec pe c v \<longleftrightarrow>
     (case pv_rule_index v of
        Some i \<Rightarrow> i < length (pe_rules pe) \<and> glob_match (rule_capability (pe_rules pe ! i)) c \<and>
                  (\<forall>j < i. \<not> glob_match (rule_capability (pe_rules pe ! j)) c) \<and>
                  pv_decision v = rule_decision (pe_rules pe ! i)
      | None \<Rightarrow> list_all (\<lambda>r. \<not> glob_match (rule_capability r) c) (pe_rules pe) \<and>
                pv_decision v = pe_default_decision pe)"

lemma evaluate_from_shift:
  "evaluate_from (i + k) rs d c =
     (let v = evaluate_from i rs d c in v\<lparr>pv_rule_index := map_option (\<lambda>n. n + k) (pv_rule_index v)\<rparr>)"
proof (induction rs arbitrary: i)
  case (Cons r rs)
  show ?case using Cons.IH [of "Suc i"] by (simp add: Let_def)
qed simp

lemma evaluate_from_skip:
  "\<not> glob_match (rule_capability r) c \<Longrightarrow>
   evaluate_from 0 (r # rs) d c =
     (let v = evaluate_from 0 rs d c in v\<lparr>pv_rule_index := map_option Suc (pv_rule_index v)\<rparr>)"
  using evaluate_from_shift [of 0 1 rs d c] by (simp add: Let_def)

lemma evaluate_spec: "verdict_spec pe c (evaluate pe c)"
proof -
  obtain rs d where pe: "pe = \<lparr>pe_rules = rs, pe_default_decision = d\<rparr>" by (cases pe)
  have "verdict_spec \<lparr>pe_rules = rs, pe_default_decision = d\<rparr> c (evaluate_from 0 rs d c)"
  proof (induction rs)
    case Nil
    then show ?case by (simp add: verdict_spec_def)
  next
    case (Cons r rs)
    show ?case
    proof (cases "glob_match (rule_capability r) c")
      case True
      then show ?thesis by (simp add: verdict_spec_def)
    next
      case False
      show ?thesis
        using Cons.IH False
        by (simp add: evaluate_from_skip [OF False] verdict_spec_def Let_def All_less_Suc2
            split: option.splits del: evaluate_from.simps)
    qed
  qed
  then show ?thesis by (simp add: evaluate_def pe)
qed

text \<open>The specification determines the verdict.\<close>

lemma verdict_spec_unique:
  assumes "verdict_spec pe c v" and "verdict_spec pe c w"
  shows "v = w"
proof -
  have idx: "pv_rule_index v = pv_rule_index w"
  proof (cases "pv_rule_index v"; cases "pv_rule_index w")
    fix i j
    assume "pv_rule_index v = Some i" "pv_rule_index w = Some j"
    then show ?thesis using assms by (simp add: verdict_spec_def) (metis linorder_neqE_nat)
  qed (use assms in \<open>auto simp: verdict_spec_def list_all_length\<close>)
  then have "pv_decision v = pv_decision w"
    using assms by (auto simp: verdict_spec_def split: option.splits)
  with idx show ?thesis by simp
qed

section \<open>Globs\<close>

lemma glob_match_exact: "glob_match c c"
  by (simp add: glob_match_def)

lemma glob_match_star: "glob_match ''*'' c"
proof -
  have "strip_suffix ''.*'' ''*'' = None" by (simp add: strip_suffix_def)
  then show ?thesis by (simp add: glob_match_def)
qed

lemma strip_suffix_append [simp]: "strip_suffix q (p @ q) = Some p"
  by (simp add: strip_suffix_Some_iff)

text \<open>A prefix pattern matches the prefix itself and what lies below it in the dotted
  hierarchy, and nothing else but its own text.\<close>

lemma glob_match_prefix:
  "glob_match (p @ ''.*'') c \<longleftrightarrow> c = p @ ''.*'' \<or> c = p \<or> (\<exists>t. c = p @ ''.'' @ t)"
  by (auto simp: glob_match_def starts_with_iff)

lemma glob_match_literal:
  assumes "strip_suffix ''.*'' p = None" and "p \<noteq> ''*''"
  shows "glob_match p c \<longleftrightarrow> p = c"
  using assms by (auto simp: glob_match_def)

lemma evaluate_default_deny:
  assumes "list_all (\<lambda>r. \<not> glob_match (rule_capability r) c) rules"
  shows "evaluate (policy_new rules) c = \<lparr>pv_decision = Deny, pv_rule_index = None\<rparr>"
proof (rule verdict_spec_unique [OF evaluate_spec])
  show "verdict_spec (policy_new rules) c \<lparr>pv_decision = Deny, pv_rule_index = None\<rparr>"
    using assms by (simp add: verdict_spec_def policy_new_def)
qed

lemma from_toml_default: "policy_from_toml_str toml s = Ok pe \<Longrightarrow> pe_default_decision pe = Deny"
  by (auto simp: policy_from_toml_str_def policy_new_def split: result.splits)

lemma from_toml_file_default:
  "policy_from_toml_file toml exists read_file path = Ok pe \<Longrightarrow> pe_default_decision pe = Deny"
  by (auto simp: policy_from_toml_file_def policy_new_def split: result.splits if_splits)

section \<open>Property\<close>

text \<open>C36: the evaluation of a policy is exactly its specification: the verdict is that of the first rule
  whose pattern matches, with its index, and the default when none does.\<close>

theorem evaluate_exact:
  "verdict_spec pe c v \<longleftrightarrow> v = evaluate pe c"
  using evaluate_spec verdict_spec_unique by blast

text \<open>An engine loaded from a policy file denies what no rule names, also when the file does not
  exist.\<close>

lemma policy_default_deny:
  assumes "policy_from_toml_file toml exists read_file path = Ok pe"
    and "\<forall>r \<in> set (pe_rules pe). \<not> glob_match (rule_capability r) c"
  shows "evaluate pe c = \<lparr>pv_decision = Deny, pv_rule_index = None\<rparr> \<and> (\<not> exists path \<longrightarrow> pe_rules pe = [])"
proof
  have "pe = policy_new (pe_rules pe)"
    using assms(1) by (auto simp: policy_from_toml_file_def policy_new_def split: if_splits result.splits)
  then show "evaluate pe c = \<lparr>pv_decision = Deny, pv_rule_index = None\<rparr>"
    using evaluate_default_deny [of c "pe_rules pe"] assms(2) by (simp add: list_all_iff)
  show "\<not> exists path \<longrightarrow> pe_rules pe = []"
    using assms(1) by (auto simp: policy_from_toml_file_def policy_new_def)
qed

lemma policy_default_deny_example:
  "evaluate (policy_new []) ''network.ping'' = \<lparr>pv_decision = Deny, pv_rule_index = None\<rparr>"
  using policy_default_deny [of "\<lambda>_. Err ''''" "\<lambda>_. False" "\<lambda>_. Err ''''" "''policy.toml''" "policy_new []" "''network.ping''"]
  by (simp add: policy_from_toml_file_def policy_new_def)

end
