(* ===== verification/KillSwitch.thy ===== *)
theory KillSwitch
  imports Prelude
begin

text \<open>
  The kill switch of \<open>daimon-guard\<close> (\<open>kill_switch.rs\<close>): the shared kill state, the file
  watcher and the \<open>SIGUSR1\<close> handler.

  The watcher and the handler are tasks that await file operations, so each is cut at its
  awaits: a step of the relation is one uninterrupted piece of one task, or an action of the
  operator on the file. File operations may fail; the event says whether they did.
\<close>

section \<open>The shared state\<close>

record kill_state =
  ks_engaged :: bool
  ks_reason :: string

definition kill_state_new :: kill_state where
  "kill_state_new = \<lparr>ks_engaged = False, ks_reason = ''''\<rparr>"

definition engage :: "string \<Rightarrow> kill_state \<Rightarrow> kill_state" where
  "engage r k = k\<lparr>ks_engaged := True, ks_reason := r\<rparr>"

definition release :: "kill_state \<Rightarrow> kill_state" where
  "release k = k\<lparr>ks_engaged := False, ks_reason := ''''\<rparr>"

section \<open>The tasks\<close>

text \<open>The watcher between two awaits: idle, back from \<open>try_exists\<close> with its answer, or
  about to engage with the reason it read. The handler: waiting for a signal, or past the
  write of the file.\<close>

datatype watch_phase = WatchIdle | WatchSaw bool | WatchReason string

datatype signal_phase = SigWaiting | SigWrote

record kill_world =
  kw_state :: kill_state
  kw_path :: string
  kw_file :: "string option"
  kw_last :: bool
  kw_watch :: watch_phase
  kw_signal :: signal_phase

definition kill_switch_new :: "string \<Rightarrow> string option \<Rightarrow> kill_world" where
  "kill_switch_new path file =
     \<lparr>kw_state = kill_state_new, kw_path = path, kw_file = file, kw_last = False,
      kw_watch = WatchIdle, kw_signal = SigWaiting\<rparr>"

datatype kill_event =
    OpTouch string
  | OpRm
  | WatchCheck bool
  | WatchDecide bool
  | WatchEngage
  | SigWrite bool
  | SigEngage

text \<open>\<open>try_exists(..).unwrap_or(false)\<close>: a failed check counts as no file.\<close>

definition watch_check :: "bool \<Rightarrow> kill_world \<Rightarrow> kill_world" where
  "watch_check io_ok w = w\<lparr>kw_watch := WatchSaw (io_ok \<and> kw_file w \<noteq> None)\<rparr>"

text \<open>After the answer: nothing when it has not changed, release when the file is gone, and
  otherwise the file is read for the reason.\<close>

definition kill_reason :: "bool \<Rightarrow> kill_world \<Rightarrow> string" where
  "kill_reason io_ok w =
     (let reason = trim (case kw_file w of
                           Some t \<Rightarrow> if io_ok then t else ''file present''
                         | None \<Rightarrow> ''file present'')
      in if reason = '''' then ''KILL file present at '' @ kw_path w else reason)"

definition watch_decide :: "bool \<Rightarrow> bool \<Rightarrow> kill_world \<Rightarrow> kill_world" where
  "watch_decide io_ok exists w =
     (if exists = kw_last w then w\<lparr>kw_watch := WatchIdle\<rparr>
      else if exists then w\<lparr>kw_watch := WatchReason (kill_reason io_ok w)\<rparr>
      else w\<lparr>kw_state := release (kw_state w), kw_last := exists, kw_watch := WatchIdle\<rparr>)"

definition watch_engage :: "string \<Rightarrow> kill_world \<Rightarrow> kill_world" where
  "watch_engage r w = w\<lparr>kw_state := engage r (kw_state w), kw_last := True, kw_watch := WatchIdle\<rparr>"

definition sig_write :: "bool \<Rightarrow> kill_world \<Rightarrow> kill_world" where
  "sig_write io_ok w =
     w\<lparr>kw_file := (if io_ok then Some (''engaged via SIGUSR1'' @ [CHR 0x0A]) else kw_file w),
       kw_signal := SigWrote\<rparr>"

definition sig_engage :: "kill_world \<Rightarrow> kill_world" where
  "sig_engage w = w\<lparr>kw_state := engage ''SIGUSR1 received'' (kw_state w), kw_signal := SigWaiting\<rparr>"

inductive kill_step :: "kill_event \<Rightarrow> kill_world \<Rightarrow> kill_world \<Rightarrow> bool" where
  op_touch: "kill_step (OpTouch t) w (w\<lparr>kw_file := Some t\<rparr>)"
| op_rm: "kill_step OpRm w (w\<lparr>kw_file := None\<rparr>)"
| check: "kw_watch w = WatchIdle \<Longrightarrow> kill_step (WatchCheck ok) w (watch_check ok w)"
| decide: "kw_watch w = WatchSaw b \<Longrightarrow> kill_step (WatchDecide ok) w (watch_decide ok b w)"
| watch_engages: "kw_watch w = WatchReason r \<Longrightarrow> kill_step WatchEngage w (watch_engage r w)"
| signal_writes: "kw_signal w = SigWaiting \<Longrightarrow> kill_step (SigWrite ok) w (sig_write ok w)"
| signal_engages: "kw_signal w = SigWrote \<Longrightarrow> kill_step SigEngage w (sig_engage w)"

inductive_cases kill_stepE [elim]: "kill_step e w w'"

inductive kill_run :: "kill_event list \<Rightarrow> kill_world \<Rightarrow> kill_world \<Rightarrow> bool" where
  run_nil: "kill_run [] w w"
| run_cons: "kill_step e w w' \<Longrightarrow> kill_run es w' w'' \<Longrightarrow> kill_run (e # es) w w''"

inductive_simps kill_run_simps [simp]:
  "kill_run [] w w'"
  "kill_run (e # es) w w'"

text \<open>The step as a function, for computing runs.\<close>

fun kill_exec :: "kill_event \<Rightarrow> kill_world \<Rightarrow> kill_world option" where
  "kill_exec (OpTouch t) w = Some (w\<lparr>kw_file := Some t\<rparr>)"
| "kill_exec OpRm w = Some (w\<lparr>kw_file := None\<rparr>)"
| "kill_exec (WatchCheck ok) w = (if kw_watch w = WatchIdle then Some (watch_check ok w) else None)"
| "kill_exec (WatchDecide ok) w =
     (case kw_watch w of WatchSaw b \<Rightarrow> Some (watch_decide ok b w) | _ \<Rightarrow> None)"
| "kill_exec WatchEngage w = (case kw_watch w of WatchReason r \<Rightarrow> Some (watch_engage r w) | _ \<Rightarrow> None)"
| "kill_exec (SigWrite ok) w = (if kw_signal w = SigWaiting then Some (sig_write ok w) else None)"
| "kill_exec SigEngage w = (if kw_signal w = SigWrote then Some (sig_engage w) else None)"

fun kill_execs :: "kill_event list \<Rightarrow> kill_world \<Rightarrow> kill_world option" where
  "kill_execs [] w = Some w"
| "kill_execs (e # es) w = Option.bind (kill_exec e w) (kill_execs es)"

lemma kill_step_exec: "kill_step e w w' \<longleftrightarrow> kill_exec e w = Some w'"
proof
  show "kill_step e w w' \<Longrightarrow> kill_exec e w = Some w'" by (erule kill_stepE) auto
  show "kill_exec e w = Some w' \<Longrightarrow> kill_step e w w'"
    by (cases e) (auto intro: kill_step.intros split: watch_phase.splits if_splits)
qed

lemma kill_run_execs: "kill_run es w w' \<longleftrightarrow> kill_execs es w = Some w'"
  by (induction es arbitrary: w) (auto simp: kill_step_exec split: bind_splits)

section \<open>Invariants\<close>

lemma engage_simps [simp]:
  "ks_engaged (engage r k)" "ks_reason (engage r k) = r"
  by (simp_all add: engage_def)

lemma release_simps [simp]:
  "\<not> ks_engaged (release k)" "ks_reason (release k) = ''''"
  by (simp_all add: release_def)

lemmas kill_defs = watch_check_def watch_decide_def watch_engage_def sig_write_def sig_engage_def

text \<open>What the watcher remembers is true of the switch: while it believes the file present
  the switch is engaged, because only the watcher releases it. An engaging watcher has not
  believed so yet.\<close>

definition kill_inv :: "kill_world \<Rightarrow> bool" where
  "kill_inv w \<longleftrightarrow>
     (kw_last w \<longrightarrow> ks_engaged (kw_state w)) \<and>
     (case kw_watch w of WatchReason _ \<Rightarrow> \<not> kw_last w | _ \<Rightarrow> True) \<and>
     (\<not> ks_engaged (kw_state w) \<longrightarrow> ks_reason (kw_state w) = '''')"

lemma kill_inv_new: "kill_inv (kill_switch_new path file)"
  by (simp add: kill_inv_def kill_switch_new_def kill_state_new_def)

lemma kill_inv_step: "kill_step e w w' \<Longrightarrow> kill_inv w \<Longrightarrow> kill_inv w'"
  by (erule kill_stepE) (auto simp: kill_inv_def kill_defs split: watch_phase.splits)

lemma kill_inv_run: "kill_run es w w' \<Longrightarrow> kill_inv w \<Longrightarrow> kill_inv w'"
  by (induction rule: kill_run.induct) (auto intro: kill_inv_step)

text \<open>The switch is released by one step only: the watcher's, after an answer that the file
  is not there.\<close>

lemma release_only_by_watcher:
  assumes "kill_step e w w'" "ks_engaged (kw_state w)" "\<not> ks_engaged (kw_state w')"
  shows "(\<exists>ok. e = WatchDecide ok) \<and> kw_watch w = WatchSaw False \<and> kw_last w"
  using assms by (auto simp: kill_defs split: if_splits)

text \<open>While the file stays and no check fails, an engaged switch whose watcher does not hold
  a stale answer stays engaged.\<close>

definition no_rm :: "kill_event \<Rightarrow> bool" where
  "no_rm e \<longleftrightarrow> e \<noteq> OpRm \<and> e \<noteq> WatchCheck False"

definition latched :: "kill_world \<Rightarrow> bool" where
  "latched w \<longleftrightarrow> ks_engaged (kw_state w) \<and> kw_file w \<noteq> None \<and> kw_watch w \<noteq> WatchSaw False"

lemma latched_step: "kill_step e w w' \<Longrightarrow> no_rm e \<Longrightarrow> latched w \<Longrightarrow> latched w'"
  by (erule kill_stepE) (auto simp: latched_def no_rm_def kill_defs)

lemma latched_run: "kill_run es w w' \<Longrightarrow> list_all no_rm es \<Longrightarrow> latched w \<Longrightarrow> latched w'"
  by (induction rule: kill_run.induct) (auto intro: latched_step)

text \<open>One full turn of the watcher with the file present engages the switch.\<close>

definition watch_tick :: "kill_event list" where
  "watch_tick = [WatchCheck True, WatchDecide True, WatchEngage]"

lemma watch_tick_engages:
  assumes "kw_watch w = WatchIdle" "kw_file w = Some t" "\<not> kw_last w"
  shows "\<exists>w'. kill_execs watch_tick w = Some w' \<and> latched w' \<and> kw_last w'"
  using assms by (simp add: watch_tick_def kill_defs latched_def)

text \<open>One full turn with the file gone releases a switch the watcher engaged.\<close>

lemma watch_tick_releases:
  assumes "kw_watch w = WatchIdle" "kw_file w = None" "kw_last w"
  shows "\<exists>w'. kill_execs [WatchCheck ok, WatchDecide ok'] w = Some w' \<and>
    \<not> ks_engaged (kw_state w') \<and> \<not> kw_last w'"
  using assms by (simp add: kill_defs)

section \<open>A signal the watcher never saw\<close>

text \<open>Engaged by the signal, with the file removed before the watcher looked.\<close>

definition stuck_engaged :: "kill_world \<Rightarrow> bool" where
  "stuck_engaged w \<longleftrightarrow>
     ks_engaged (kw_state w) \<and> kw_file w = None \<and> \<not> kw_last w \<and>
     (kw_watch w = WatchIdle \<or> kw_watch w = WatchSaw False) \<and> kw_signal w = SigWaiting"

definition watcher_or_rm :: "kill_event \<Rightarrow> bool" where
  "watcher_or_rm e \<longleftrightarrow> (case e of OpTouch _ \<Rightarrow> False | SigWrite _ \<Rightarrow> False | _ \<Rightarrow> True)"

lemma stuck_step: "kill_step e w w' \<Longrightarrow> watcher_or_rm e \<Longrightarrow> stuck_engaged w \<Longrightarrow> stuck_engaged w'"
  by (erule kill_stepE) (auto simp: stuck_engaged_def watcher_or_rm_def kill_defs)

lemma stuck_run: "kill_run es w w' \<Longrightarrow> list_all watcher_or_rm es \<Longrightarrow> stuck_engaged w \<Longrightarrow> stuck_engaged w'"
  by (induction rule: kill_run.induct) (auto intro: stuck_step)

section \<open>Properties\<close>

text \<open>C38: an engaged kill switch holds: while the file stays in place and no check of it fails, no
  interleaving of the watcher, the signal handler and operators who rewrite the file releases a
  switch that is engaged, unless the watcher already holds the answer of an earlier check.\<close>

theorem kill_switch_latched:
  assumes "kill_run es w w'" "list_all no_rm es" "latched w"
  shows "ks_engaged (kw_state w') \<and> kw_file w' \<noteq> None"
  using latched_run [OF assms] by (simp add: latched_def)

theorem kill_switch_latched_witness:
  "\<exists>w w'. kill_run ([OpTouch ''stop''] @ watch_tick) (kill_switch_new ''K'' None) w \<and>
     kill_run [OpTouch ''other'', SigWrite True, WatchCheck True, SigEngage, WatchDecide True] w w' \<and>
     ks_engaged (kw_state w') \<and> kw_file w' \<noteq> None"
proof -
  obtain w where w: "kill_run ([OpTouch ''stop''] @ watch_tick) (kill_switch_new ''K'' None) w" "latched w"
      "kw_watch w = WatchIdle" "kw_signal w = SigWaiting"
    by (simp add: kill_run_execs watch_tick_def kill_switch_new_def kill_defs latched_def)
  let ?es = "[OpTouch ''other'', SigWrite True, WatchCheck True, SigEngage, WatchDecide True]"
  obtain w' where r: "kill_run ?es w w'"
    using w(3,4) by (simp add: kill_run_execs kill_defs)
  have "list_all no_rm ?es" by (simp add: no_rm_def)
  from kill_switch_latched [OF r this w(2)] show ?thesis using w(1) r by blast
qed

text \<open>A switch engaged by SIGUSR1 whose file is removed before the watcher has looked never comes
  off again: whatever the watcher does, and however often the file is removed, it stays engaged until
  the file is created anew.\<close>

lemma signal_then_rm_sticks:
  assumes "kill_run es (the (kill_execs [SigWrite True, SigEngage, OpRm] (kill_switch_new path None))) w"
    and "list_all watcher_or_rm es"
  shows "ks_engaged (kw_state w) \<and> kw_file w = None"
proof -
  have "stuck_engaged (the (kill_execs [SigWrite True, SigEngage, OpRm] (kill_switch_new path None)))"
    by (simp add: kill_switch_new_def kill_defs stuck_engaged_def)
  from stuck_run [OF assms this] show ?thesis by (simp add: stuck_engaged_def)
qed

lemma signal_then_rm_sticks_example:
  "\<exists>w. kill_run [WatchCheck True, WatchDecide True, OpRm, WatchCheck True, WatchDecide True]
      (the (kill_execs [SigWrite True, SigEngage, OpRm] (kill_switch_new ''K'' None))) w \<and> ks_engaged (kw_state w)"
proof -
  let ?es = "[WatchCheck True, WatchDecide True, OpRm, WatchCheck True, WatchDecide True]"
  obtain w where r: "kill_run ?es (the (kill_execs [SigWrite True, SigEngage, OpRm] (kill_switch_new ''K'' None))) w"
    by (simp add: kill_run_execs kill_switch_new_def kill_defs)
  have "list_all watcher_or_rm ?es" by (simp add: watcher_or_rm_def)
  from signal_then_rm_sticks [OF r this] r show ?thesis by blast
qed

end
