(* ===== verification/Approvals.thy ===== *)
theory Approvals
  imports Database Json
begin

text \<open>
  The approval inbox of \<open>daimon-guard\<close> (\<open>approvals.rs\<close>) over its PostgreSQL table, with
  the guard's error type (\<open>error.rs\<close>). A row stores its status as text, as the table does.

  \<open>wait_for_decision\<close> polls: what other sessions do to the world between two polls, and
  between the last read and the expiry, is an input of the loop, one entry per poll.
\<close>

section \<open>Errors and statuses\<close>

datatype guard_error =
    GuardIo string
  | GuardToml string
  | GuardPool string
  | GuardPg string
  | GuardDecode string
  | KillEngaged string
  | PolicyDenied string
  | ApprovalRequired string
  | ApprovalTimeout string
  | GuardOther string

fun show_guard_error :: "guard_error \<Rightarrow> string" where
  "show_guard_error (GuardIo e) = ''io: '' @ e"
| "show_guard_error (GuardToml e) = ''toml: '' @ e"
| "show_guard_error (GuardPool e) = ''pool: '' @ e"
| "show_guard_error (GuardPg e) = ''pg: '' @ e"
| "show_guard_error (GuardDecode e) = ''decode: '' @ e"
| "show_guard_error (KillEngaged r) = ''kill switch engaged: '' @ r"
| "show_guard_error (PolicyDenied r) = ''policy denied: '' @ r"
| "show_guard_error (ApprovalRequired c) = ''approval required: '' @ c"
| "show_guard_error (ApprovalTimeout a) = ''approval timeout: '' @ a"
| "show_guard_error (GuardOther e) = e"

fun guard_db_error :: "db_fault \<Rightarrow> guard_error" where
  "guard_db_error (PoolFault e) = GuardPool e"
| "guard_db_error (PgFault e) = GuardPg e"

datatype approval_status = Pending | Approved | Denied | Expired

fun approval_status_as_str :: "approval_status \<Rightarrow> string" where
  "approval_status_as_str Pending = ''pending''"
| "approval_status_as_str Approved = ''approved''"
| "approval_status_as_str Denied = ''denied''"
| "approval_status_as_str Expired = ''expired''"

definition approval_status_from_str :: "string \<Rightarrow> approval_status" where
  "approval_status_from_str s =
     (if s = ''pending'' then Pending
      else if s = ''approved'' then Approved
      else if s = ''denied'' then Denied
      else Expired)"

section \<open>Rows, records and the world\<close>

record approval_row =
  ar_id :: uuid
  ar_actor_id :: string
  ar_capability :: string
  ar_target_ref :: "string option"
  ar_params :: json
  ar_status :: string
  ar_created_at :: millis
  ar_decided_at :: "millis option"
  ar_decided_by :: "uuid option"

record approval_record =
  apr_id :: uuid
  apr_actor_id :: string
  apr_capability :: string
  apr_target_ref :: "string option"
  apr_params :: json
  apr_status :: approval_status
  apr_created_at :: millis
  apr_decided_at :: "millis option"
  apr_decided_by :: "uuid option"

definition row_to_record :: "approval_row \<Rightarrow> approval_record" where
  "row_to_record row =
     \<lparr>apr_id = ar_id row, apr_actor_id = ar_actor_id row, apr_capability = ar_capability row,
      apr_target_ref = ar_target_ref row, apr_params = ar_params row,
      apr_status = approval_status_from_str (ar_status row),
      apr_created_at = ar_created_at row, apr_decided_at = ar_decided_at row,
      apr_decided_by = ar_decided_by row\<rparr>"

text \<open>The world of the queue: its database. The guard extends this record.\<close>

record approvals_world =
  aw_db :: "approval_row list db"

definition on_approvals ::
  "(approval_row list \<Rightarrow> 'a \<times> approval_row list) \<Rightarrow> (('w approvals_world_scheme), 'a, guard_error) eff" where
  "on_approvals f w =
     (case db_stmt f (aw_db w) of (r, d) \<Rightarrow> (map_err guard_db_error r, w\<lparr>aw_db := d\<rparr>))"

abbreviation aw_rows :: "'w approvals_world_scheme \<Rightarrow> approval_row list" where
  "aw_rows w \<equiv> db_tables (aw_db w)"

section \<open>Operations\<close>

text \<open>The row's id and creation time are generated by the database.\<close>

definition new_approval ::
  "uuid \<Rightarrow> millis \<Rightarrow> string \<Rightarrow> string \<Rightarrow> string option \<Rightarrow> json \<Rightarrow> approval_row" where
  "new_approval u now actor cap tgt params =
     \<lparr>ar_id = u, ar_actor_id = actor, ar_capability = cap, ar_target_ref = tgt,
      ar_params = params, ar_status = ''pending'', ar_created_at = now,
      ar_decided_at = None, ar_decided_by = None\<rparr>"

definition enqueue ::
  "uuid \<Rightarrow> millis \<Rightarrow> string \<Rightarrow> string \<Rightarrow> string option \<Rightarrow> json \<Rightarrow>
   ('w approvals_world_scheme, uuid, guard_error) eff" where
  "enqueue u now actor cap tgt params =
     on_approvals (\<lambda>rows. (u, rows @ [new_approval u now actor cap tgt params]))"

definition find_approval :: "uuid \<Rightarrow> approval_row list \<Rightarrow> approval_row option" where
  "find_approval i rows = find (\<lambda>r. ar_id r = i) rows"

definition approvals_get :: "uuid \<Rightarrow> ('w approvals_world_scheme, approval_record option, guard_error) eff" where
  "approvals_get i = on_approvals (\<lambda>rows. (map_option row_to_record (find_approval i rows), rows))"

text \<open>The two updates: both carry the condition \<open>status = 'pending'\<close>.\<close>

definition update_pending :: "uuid \<Rightarrow> (approval_row \<Rightarrow> approval_row) \<Rightarrow> approval_row list \<Rightarrow> approval_row list" where
  "update_pending i f rows = map (\<lambda>r. if ar_id r = i \<and> ar_status r = ''pending'' then f r else r) rows"

definition decide_row :: "approval_status \<Rightarrow> uuid \<Rightarrow> millis \<Rightarrow> approval_row \<Rightarrow> approval_row" where
  "decide_row st usr now r =
     r\<lparr>ar_status := approval_status_as_str st, ar_decided_at := Some now, ar_decided_by := Some usr\<rparr>"

definition expire_row :: "millis \<Rightarrow> approval_row \<Rightarrow> approval_row" where
  "expire_row now r = r\<lparr>ar_status := ''expired'', ar_decided_at := Some now\<rparr>"

definition decide ::
  "millis \<Rightarrow> uuid \<Rightarrow> uuid \<Rightarrow> approval_status \<Rightarrow> ('w approvals_world_scheme, approval_record, guard_error) eff" where
  "decide now i usr st w =
     (let upd = (\<lambda>rows.
            (map_option (\<lambda>r. row_to_record (decide_row st usr now r))
               (find (\<lambda>r. ar_id r = i \<and> ar_status r = ''pending'') rows),
             update_pending i (decide_row st usr now) rows))
      in case db_stmt upd (aw_db w) of
           (Ok (Some rec), d) \<Rightarrow> (Ok rec, w\<lparr>aw_db := d\<rparr>)
         | (Ok None, d) \<Rightarrow>
             (Err (GuardOther ''decide: query returned an unexpected number of rows''), w\<lparr>aw_db := d\<rparr>)
         | (Err (PoolFault e), d) \<Rightarrow> (Err (GuardPool e), w\<lparr>aw_db := d\<rparr>)
         | (Err (PgFault e), d) \<Rightarrow> (Err (GuardOther (''decide: '' @ e)), w\<lparr>aw_db := d\<rparr>))"

text \<open>Newest first; rows of the same instant keep their insertion order here, which SQL
  leaves open.\<close>

definition list_pending :: "nat \<Rightarrow> ('w approvals_world_scheme, approval_record list, guard_error) eff" where
  "list_pending limit =
     on_approvals (\<lambda>rows.
       (map row_to_record
          (take limit (sort_key (\<lambda>r. - int (ar_created_at r)) (filter (\<lambda>r. ar_status r = ''pending'') rows))),
        rows))"

definition expire_if_pending :: "millis \<Rightarrow> uuid \<Rightarrow> ('w approvals_world_scheme, unit, guard_error) eff" where
  "expire_if_pending now i = on_approvals (\<lambda>rows. ((), update_pending i (expire_row now) rows))"

text \<open>One poll: what others did before the read, the clock after it, and what others do
  before the expiry, when there is one.\<close>

record 'w poll =
  p_before :: "'w \<Rightarrow> 'w"
  p_now :: millis
  p_gap :: "'w \<Rightarrow> 'w"

fun wait_for_decision ::
  "uuid \<Rightarrow> millis \<Rightarrow> ('w approvals_world_scheme) poll list \<Rightarrow> 'w approvals_world_scheme \<Rightarrow>
   (approval_record, guard_error) result option \<times> 'w approvals_world_scheme" where
  "wait_for_decision i deadline [] w = (None, w)"
| "wait_for_decision i deadline (p # ps) w =
     (case approvals_get i (p_before p w) of
        (Err e, w') \<Rightarrow> (Some (Err e), w')
      | (Ok rec, w') \<Rightarrow>
          (case rec of
             Some r \<Rightarrow>
               if apr_status r = Approved \<or> apr_status r = Denied then (Some (Ok r), w')
               else if deadline \<le> p_now p
               then (Some (Err (ApprovalTimeout i)), snd (expire_if_pending (p_now p) i (p_gap p w')))
               else wait_for_decision i deadline ps w'
           | None \<Rightarrow>
               if deadline \<le> p_now p
               then (Some (Err (ApprovalTimeout i)), snd (expire_if_pending (p_now p) i (p_gap p w')))
               else wait_for_decision i deadline ps w'))"

section \<open>Lemmas: statuses\<close>

lemma approval_status_roundtrip [simp]: "approval_status_from_str (approval_status_as_str st) = st"
  by (cases st) (simp_all add: approval_status_from_str_def)

lemma approval_status_from_str_iff:
  "approval_status_from_str s = st \<longleftrightarrow> s = approval_status_as_str st \<or>
     st = Expired \<and> s \<notin> {''pending'', ''approved'', ''denied''}"
  by (cases st) (auto simp: approval_status_from_str_def)

section \<open>Lemmas: the life of a row\<close>

text \<open>One change of the table by any operation, ids being generated fresh.\<close>

inductive approvals_step :: "approval_row list \<Rightarrow> approval_row list \<Rightarrow> bool" where
  st_enqueue: "u \<notin> ar_id ` set rows \<Longrightarrow>
    approvals_step rows (rows @ [new_approval u now actor cap tgt params])"
| st_decide: "approvals_step rows (update_pending i (decide_row st usr now) rows)"
| st_expire: "approvals_step rows (update_pending i (expire_row now) rows)"

lemma find_approval_append:
  "find_approval i rows = Some r \<Longrightarrow> find_approval i (rows @ xs) = Some r"
  by (auto simp: find_approval_def find_Some_iff nth_append)

lemma find_approval_update:
  assumes "\<And>r. ar_id (f r) = ar_id r"
  shows "find_approval i (update_pending j f rows) =
    map_option (\<lambda>r. if j = i \<and> ar_status r = ''pending'' then f r else r) (find_approval i rows)"
  by (induction rows) (auto simp: find_approval_def update_pending_def assms)

lemma decide_row_id [simp]: "ar_id (decide_row st usr now r) = ar_id r"
  by (simp add: decide_row_def)

lemma expire_row_id [simp]: "ar_id (expire_row now r) = ar_id r"
  by (simp add: expire_row_def)

text \<open>A row that is no longer pending never changes again.\<close>

lemma decided_row_stable:
  assumes "approvals_step rows rows'" "find_approval i rows = Some r" "ar_status r \<noteq> ''pending''"
  shows "find_approval i rows' = Some r"
  using assms by (induction rule: approvals_step.induct)
    (auto simp: find_approval_append find_approval_update)

lemma decided_row_stable_steps:
  assumes "approvals_step\<^sup>*\<^sup>* rows rows'" "find_approval i rows = Some r" "ar_status r \<noteq> ''pending''"
  shows "find_approval i rows' = Some r"
  using assms by (induction rule: rtranclp_induct) (auto intro: decided_row_stable)

text \<open>Whoever reads \<open>approved\<close> or \<open>denied\<close> in the table can name who decided and when.\<close>

definition rows_signed :: "approval_row list \<Rightarrow> bool" where
  "rows_signed rows \<longleftrightarrow>
     (\<forall>r \<in> set rows. ar_status r \<in> {''approved'', ''denied''} \<longrightarrow>
        ar_decided_by r \<noteq> None \<and> ar_decided_at r \<noteq> None)"

lemma rows_signed_step: "approvals_step rows rows' \<Longrightarrow> rows_signed rows \<Longrightarrow> rows_signed rows'"
  by (induction rule: approvals_step.induct)
    (auto simp: rows_signed_def new_approval_def update_pending_def decide_row_def expire_row_def)

lemma rows_signed_steps: "approvals_step\<^sup>*\<^sup>* rows rows' \<Longrightarrow> rows_signed rows \<Longrightarrow> rows_signed rows'"
  by (induction rule: rtranclp_induct) (auto intro: rows_signed_step)

section \<open>Lemmas: the operations on the table\<close>

lemma on_approvals_rows:
  "on_approvals f w = (r, w') \<Longrightarrow> aw_rows w' = (if is_ok r then snd (f (aw_rows w)) else aw_rows w)"
  by (auto simp: on_approvals_def dest!: db_stmt_tables split: prod.splits)

lemma on_approvals_Ok:
  "on_approvals f w = (Ok x, w') \<Longrightarrow> x = fst (f (aw_rows w)) \<and> aw_rows w' = snd (f (aw_rows w))"
  by (auto simp: on_approvals_def db_stmt_Ok_iff split: prod.splits)
    (metis fst_conv snd_conv)+

lemma approvals_get_rows: "approvals_get i w = (r, w') \<Longrightarrow> aw_rows w' = aw_rows w"
  unfolding approvals_get_def by (drule on_approvals_rows) (simp split: if_splits)

lemma approvals_get_Ok:
  "approvals_get i w = (Ok x, w') \<Longrightarrow> x = map_option row_to_record (find_approval i (aw_rows w))"
  unfolding approvals_get_def by (drule on_approvals_Ok) simp

lemma decide_Ok:
  assumes "decide now i usr st w = (Ok rec, w')"
  shows "\<exists>r. find (\<lambda>r. ar_id r = i \<and> ar_status r = ''pending'') (aw_rows w) = Some r \<and>
    rec = row_to_record (decide_row st usr now r) \<and>
    aw_rows w' = update_pending i (decide_row st usr now) (aw_rows w)"
  using assms
  by (auto simp: decide_def db_stmt_Ok_iff split: prod.splits result.splits option.splits db_fault.splits)

lemma update_pending_none: "\<forall>r \<in> set rows. \<not> (ar_id r = i \<and> ar_status r = ''pending'') \<Longrightarrow>
   update_pending i f rows = rows"
  by (induction rows) (auto simp: update_pending_def)

lemma decide_not_pending:
  assumes "\<forall>r \<in> set (aw_rows w). ar_id r = i \<longrightarrow> ar_status r \<noteq> ''pending''"
  shows "\<not> is_ok (fst (decide now i usr st w)) \<and> aw_rows (snd (decide now i usr st w)) = aw_rows w"
proof -
  have f: "find (\<lambda>r. ar_id r = i \<and> ar_status r = ''pending'') (aw_rows w) = None"
    using assms by (auto simp: find_None_iff)
  have u: "update_pending i (decide_row st usr now) (aw_rows w) = aw_rows w"
    using assms by (auto intro!: update_pending_none)
  define upd where "upd = (\<lambda>rows. (map_option (\<lambda>r. row_to_record (decide_row st usr now r))
      (find (\<lambda>r. ar_id r = i \<and> ar_status r = ''pending'') rows),
      update_pending i (decide_row st usr now) rows))"
  have upd: "upd (aw_rows w) = (None, aw_rows w)" by (simp add: upd_def f u)
  obtain r d where s: "db_stmt upd (aw_db w) = (r, d)" by fastforce
  have "db_tables d = aw_rows w" using db_stmt_tables [OF s] by (simp add: upd)
  moreover have "r = Ok None" if "r = Ok x" for x
    using s that by (auto simp: db_stmt_Ok_iff upd)
  ultimately show ?thesis
    using s unfolding decide_def Let_def upd_def [symmetric]
    by (cases r) (auto split: db_fault.splits)
qed

text \<open>What a row asks for never changes.\<close>

definition same_request :: "approval_row \<Rightarrow> approval_row \<Rightarrow> bool" where
  "same_request r r' \<longleftrightarrow>
     ar_id r' = ar_id r \<and> ar_actor_id r' = ar_actor_id r \<and> ar_capability r' = ar_capability r \<and>
     ar_target_ref r' = ar_target_ref r \<and> ar_params r' = ar_params r \<and>
     ar_created_at r' = ar_created_at r"

lemma same_request_refl: "same_request r r"
  by (simp add: same_request_def)

lemma same_request_trans: "same_request a b \<Longrightarrow> same_request b c \<Longrightarrow> same_request a c"
  by (simp add: same_request_def)

lemma request_step:
  assumes "approvals_step rows rows'" "find_approval i rows = Some r"
  shows "\<exists>r'. find_approval i rows' = Some r' \<and> same_request r r'"
  using assms by (induction rule: approvals_step.induct)
    (auto simp: find_approval_append find_approval_update same_request_def decide_row_def expire_row_def)

lemma request_steps:
  assumes "approvals_step\<^sup>*\<^sup>* rows rows'" "find_approval i rows = Some r"
  shows "\<exists>r'. find_approval i rows' = Some r' \<and> same_request r r'"
  using assms
  by (induction rule: rtranclp_induct) (auto intro: same_request_refl, metis request_step same_request_trans)

section \<open>Lemmas: waiting\<close>

text \<open>The other sessions change the table through the queue's operations only.\<close>

definition poll_ok :: "('w approvals_world_scheme) poll \<Rightarrow> bool" where
  "poll_ok p \<longleftrightarrow>
     (\<forall>w. approvals_step\<^sup>*\<^sup>* (aw_rows w) (aw_rows (p_before p w)) \<and>
          approvals_step\<^sup>*\<^sup>* (aw_rows w) (aw_rows (p_gap p w)))"

lemma expire_rows_steps: "approvals_step\<^sup>*\<^sup>* (aw_rows w) (aw_rows (snd (expire_if_pending now i w)))"
proof (cases "expire_if_pending now i w")
  case (Pair r w')
  then have "aw_rows w' = update_pending i (expire_row now) (aw_rows w) \<or> aw_rows w' = aw_rows w"
    unfolding expire_if_pending_def by - (drule on_approvals_rows, simp split: if_splits)
  moreover have "approvals_step\<^sup>*\<^sup>* (aw_rows w) (update_pending i (expire_row now) (aw_rows w))"
    by (rule r_into_rtranclp, rule st_expire)
  ultimately show ?thesis using Pair by auto
qed

lemma decide_rows_steps: "approvals_step\<^sup>*\<^sup>* (aw_rows w) (aw_rows (snd (decide now i usr st w)))"
proof -
  define upd where "upd = (\<lambda>rows. (map_option (\<lambda>r. row_to_record (decide_row st usr now r))
      (find (\<lambda>r. ar_id r = i \<and> ar_status r = ''pending'') rows),
      update_pending i (decide_row st usr now) rows))"
  obtain r d where s: "db_stmt upd (aw_db w) = (r, d)" by fastforce
  have "db_tables d = update_pending i (decide_row st usr now) (aw_rows w) \<or> db_tables d = aw_rows w"
    using db_stmt_tables [OF s] by (auto simp: upd_def split: if_splits)
  moreover have "aw_rows (snd (decide now i usr st w)) = db_tables d"
    using s unfolding decide_def Let_def upd_def [symmetric]
    by (cases r) (auto split: db_fault.splits option.splits)
  moreover have "approvals_step\<^sup>*\<^sup>* (aw_rows w) (update_pending i (decide_row st usr now) (aw_rows w))"
    by (rule r_into_rtranclp, rule st_decide)
  ultimately show ?thesis by auto
qed

lemma wait_rows_steps:
  assumes "wait_for_decision i deadline ps w = (r, w')" "list_all poll_ok ps"
  shows "approvals_step\<^sup>*\<^sup>* (aw_rows w) (aw_rows w')"
  using assms
proof (induction i deadline ps w rule: wait_for_decision.induct)
  case (2 i deadline p ps w)
  obtain g w1 where g: "approvals_get i (p_before p w) = (g, w1)" by fastforce
  have b: "approvals_step\<^sup>*\<^sup>* (aw_rows w) (aw_rows w1)"
    using "2.prems"(2) approvals_get_rows [OF g] by (simp add: poll_ok_def)
  have x: "approvals_step\<^sup>*\<^sup>* (aw_rows w1) (aw_rows (snd (expire_if_pending (p_now p) i (p_gap p w1))))"
    using "2.prems"(2) expire_rows_steps [of "p_gap p w1"]
    by (auto simp: poll_ok_def intro: rtranclp_trans)
  show ?case
    using "2.prems" "2.IH" g b x
    by (auto split: result.splits option.splits if_splits intro: rtranclp_trans)
qed auto

lemma wait_Ok:
  assumes "wait_for_decision i deadline ps w = (Some (Ok r), w')"
  shows "(apr_status r = Approved \<or> apr_status r = Denied) \<and>
    (\<exists>row. find_approval i (aw_rows w') = Some row \<and> r = row_to_record row)"
  using assms
proof (induction i deadline ps w rule: wait_for_decision.induct)
  case (2 i deadline p ps w)
  obtain g w1 where g: "approvals_get i (p_before p w) = (g, w1)" by fastforce
  show ?case
  proof (cases g)
    case (Ok rec)
    have "rec = map_option row_to_record (find_approval i (aw_rows w1))"
      using approvals_get_Ok [OF g [unfolded Ok]] approvals_get_rows [OF g] by simp
    then show ?thesis
      using "2.prems" "2.IH" g Ok by (auto split: option.splits if_splits)
  qed (use "2.prems" g in simp)
qed auto

text \<open>The wait ends: one clock reading at or past the deadline is enough.\<close>

lemma wait_returns:
  assumes "\<exists>p \<in> set ps. deadline \<le> p_now p"
  shows "fst (wait_for_decision i deadline ps w) \<noteq> None"
  using assms
proof (induction i deadline ps w rule: wait_for_decision.induct)
  case (2 i deadline p ps w)
  obtain g w1 where g: "approvals_get i (p_before p w) = (g, w1)" by fastforce
  show ?case
    using "2.prems" "2.IH" g by (auto split: result.splits option.splits) blast
qed auto

text \<open>Consecutive readings are at least one poll interval apart.\<close>

definition spaced :: "millis \<Rightarrow> millis list \<Rightarrow> bool" where
  "spaced d ts \<longleftrightarrow> (\<forall>i. Suc i < length ts \<longrightarrow> ts ! i + d \<le> ts ! Suc i)"

lemma spaced_nth: "spaced d ts \<Longrightarrow> i < length ts \<Longrightarrow> ts ! 0 + i * d \<le> ts ! i"
proof (induction i)
  case (Suc i)
  then have "ts ! i + d \<le> ts ! Suc i" by (simp add: spaced_def)
  with Suc show ?case by simp
qed simp

lemma wait_bounded_polls:
  assumes "spaced d (map p_now ps)" "0 < d" "start \<le> p_now (hd ps)"
    and "timeout div d + 1 < length ps"
  shows "fst (wait_for_decision i (start + timeout) ps w) \<noteq> None"
proof -
  let ?i = "timeout div d + 1"
  have i: "?i < length ps" using assms(4) .
  have "map p_now ps ! 0 + ?i * d \<le> map p_now ps ! ?i"
    using spaced_nth [OF assms(1), of ?i] i by simp
  moreover have "timeout \<le> ?i * d" using assms(2) by (simp add: dividend_less_div_times less_imp_le)
  moreover have "map p_now ps ! 0 = p_now (hd ps)" using i by (cases ps) auto
  ultimately have "start + timeout \<le> p_now (ps ! ?i)" using assms(3) i by simp
  then show ?thesis using i by (intro wait_returns) (auto intro!: bexI [of _ "ps ! ?i"])
qed

section \<open>Property\<close>

text \<open>C37: a decision is final and attributable: whatever sequence of enqueues, decisions and expiries
  follows, in any order, a row that has left \<open>pending\<close> stays exactly as it is, a request that is still
  pending keeps its actor, capability, target and parameters, and a row that reads \<open>approved\<close>
  or \<open>denied\<close> names who decided and when.\<close>

theorem approval_final:
  assumes "approvals_step\<^sup>*\<^sup>* rows rows'" "find_approval i rows = Some r" "rows_signed rows"
  shows "\<exists>r'. find_approval i rows' = Some r' \<and> same_request r r' \<and>
    (ar_status r \<noteq> ''pending'' \<longrightarrow> r' = r) \<and>
    (ar_status r' \<in> {''approved'', ''denied''} \<longrightarrow> ar_decided_by r' \<noteq> None \<and> ar_decided_at r' \<noteq> None)"
proof -
  obtain r' where r': "find_approval i rows' = Some r'" "same_request r r'" using request_steps [OF assms(1,2)] by blast
  have "ar_status r \<noteq> ''pending'' \<Longrightarrow> r' = r" using decided_row_stable_steps [OF assms(1,2)] r'(1) by simp
  moreover have "r' \<in> set rows'" using r'(1) by (auto simp: find_approval_def find_Some_iff)
  ultimately show ?thesis using r' rows_signed_steps [OF assms(1,3)] by (simp add: rows_signed_def)
qed

theorem approval_final_witness:
  "let rows = [new_approval ''u'' 0 ''a'' ''c'' None JNull];
       rows1 = update_pending ''u'' (decide_row Approved ''op'' 5) rows;
       rows2 = update_pending ''u'' (decide_row Denied ''eve'' 6) rows1
   in find_approval ''u'' rows2 = find_approval ''u'' rows1"
proof -
  let ?rows = "[new_approval ''u'' 0 ''a'' ''c'' None JNull]"
  let ?r = "decide_row Approved ''op'' 5 (new_approval ''u'' 0 ''a'' ''c'' None JNull)"
  have e: "update_pending ''u'' (decide_row Approved ''op'' 5) ?rows = [?r]"
    by (simp add: update_pending_def new_approval_def)
  have f: "find_approval ''u'' [?r] = Some ?r" "rows_signed [?r]" "ar_status ?r \<noteq> ''pending''"
    by (simp_all add: find_approval_def rows_signed_def decide_row_def new_approval_def)
  have "approvals_step\<^sup>*\<^sup>* [?r] (update_pending ''u'' (decide_row Denied ''eve'' 6) [?r])"
    by (rule r_into_rtranclp, rule st_decide)
  from approval_final [OF this f(1,2)] f(1,3) show ?thesis by (simp add: Let_def e)
qed

end
