(* ===== verification/Guard.thy ===== *)
theory Guard
  imports Policy KillSwitch Approvals Dispatcher "HOL-Library.Word"
begin

text \<open>
  The guard facade of \<open>daimon-guard\<close> (\<open>lib.rs\<close>): the one check between the broker and a
  transport, composed of the kill state, the policy engine and the approval queue.

  The bus handle is the abstract trait object of the sources: a parameter \<open>send\<close> on a
  state \<open>'b\<close>. What the environment decides during one call (generated ids, clock
  readings, what other sessions do while the call is parked) is the record
  \<open>approval_env\<close>.
\<close>

definition DEFAULT_APPROVAL_TIMEOUT_SECS :: "64 word" where
  "DEFAULT_APPROVAL_TIMEOUT_SECS = 300"

record 'b guard_world = approvals_world +
  gw_kill :: kill_state
  gw_bus :: "'b option"
  gw_approval_timeout_secs :: "64 word"

definition guard_new :: "kill_state \<Rightarrow> approval_row list db \<Rightarrow> 'b guard_world" where
  "guard_new kill db =
     \<lparr>aw_db = db, gw_kill = kill, gw_bus = None,
      gw_approval_timeout_secs = DEFAULT_APPROVAL_TIMEOUT_SECS\<rparr>"

text \<open>\<open>OnceLock::set\<close>: the first value stays.\<close>

definition guard_set_bus :: "'b \<Rightarrow> 'b guard_world \<Rightarrow> 'b guard_world" where
  "guard_set_bus b w = (case gw_bus w of None \<Rightarrow> w\<lparr>gw_bus := Some b\<rparr> | Some _ \<Rightarrow> w)"

definition set_approval_timeout_secs :: "64 word \<Rightarrow> 'b guard_world \<Rightarrow> 'b guard_world" where
  "set_approval_timeout_secs secs w =
     (if secs > 0 then w\<lparr>gw_approval_timeout_secs := secs\<rparr> else w)"

definition approval_timeout :: "'b guard_world \<Rightarrow> millis" where
  "approval_timeout w = 1000 * unat (gw_approval_timeout_secs w)"

definition awaiting_approval_envelope ::
  "semver \<Rightarrow> uuid \<Rightarrow> millis \<Rightarrow> uuid \<Rightarrow> string \<Rightarrow> string option \<Rightarrow> string \<Rightarrow> agent_envelope option" where
  "awaiting_approval_envelope sv u ts i cap tgt actor =
     (case sv_parse sv ''^1'' of
        None \<Rightarrow> None
      | Some req \<Rightarrow>
          Some (envelope_new u ts (agent_id_new ''guard'') (ByCapability ''harness.alert.approval'' req)
            (j_obj [(''kind'', JStr ''awaiting_approval''), (''approval_id'', JStr i),
                    (''capability'', JStr cap), (''target_ref'', j_opt tgt), (''actor'', JStr actor)])))"

definition publish_awaiting_approval ::
  "semver \<Rightarrow> (agent_envelope \<Rightarrow> ('b, unit, core_error) eff) \<Rightarrow> uuid \<Rightarrow> millis \<Rightarrow> uuid \<Rightarrow> string \<Rightarrow>
   string option \<Rightarrow> string \<Rightarrow> 'b guard_world \<Rightarrow> 'b guard_world" where
  "publish_awaiting_approval sv send u ts i cap tgt actor w =
     (case gw_bus w of
        None \<Rightarrow> w
      | Some b \<Rightarrow>
          (case awaiting_approval_envelope sv u ts i cap tgt actor of
             None \<Rightarrow> w
           | Some env \<Rightarrow> w\<lparr>gw_bus := Some (snd (send env b))\<rparr>))"

record 'b approval_env =
  ae_row_id :: uuid
  ae_row_now :: millis
  ae_env_id :: uuid
  ae_env_ts :: millis
  ae_start :: millis
  ae_polls :: "('b guard_world) poll list"

text \<open>\<open>None\<close> in the first component: still parked.\<close>

definition pre_flight ::
  "semver \<Rightarrow> (agent_envelope \<Rightarrow> ('b, unit, core_error) eff) \<Rightarrow> policy_engine \<Rightarrow> 'b approval_env \<Rightarrow>
   string \<Rightarrow> string \<Rightarrow> string option \<Rightarrow> json \<Rightarrow> bool \<Rightarrow> 'b guard_world \<Rightarrow>
   (unit, guard_error) result option \<times> 'b guard_world" where
  "pre_flight sv send policy ev actor cap tgt params is_read_only w =
     (if ks_engaged (gw_kill w) then (Some (Err (KillEngaged (ks_reason (gw_kill w)))), w)
      else if is_read_only then (Some (Ok ()), w)
      else (case pv_decision (evaluate policy cap) of
              Allow \<Rightarrow> (Some (Ok ()), w)
            | Deny \<Rightarrow> (Some (Err (PolicyDenied (''policy denies capability `'' @ cap @ ''`''))), w)
            | RequireApproval \<Rightarrow>
                (case enqueue (ae_row_id ev) (ae_row_now ev) actor cap tgt params w of
                   (Err e, w1) \<Rightarrow> (Some (Err e), w1)
                 | (Ok i, w1) \<Rightarrow>
                     (let w2 = publish_awaiting_approval sv send (ae_env_id ev) (ae_env_ts ev) i cap tgt actor w1
                      in case wait_for_decision i (ae_start ev + approval_timeout w2) (ae_polls ev) w2 of
                           (None, w3) \<Rightarrow> (None, w3)
                         | (Some (Err e), w3) \<Rightarrow> (Some (Err e), w3)
                         | (Some (Ok rec), w3) \<Rightarrow>
                             (case apr_status rec of
                                Approved \<Rightarrow> (Some (Ok ()), w3)
                              | Denied \<Rightarrow>
                                  (Some (Err (PolicyDenied
                                     (''operator denied approval '' @ i @ '' for `'' @ cap @ ''`''))), w3)
                              | _ \<Rightarrow> (Some (Err (ApprovalTimeout i)), w3))))))"

section \<open>Lemmas: the parts of the check\<close>

lemma pre_flight_killed:
  "ks_engaged (gw_kill w) \<Longrightarrow>
   pre_flight sv send policy ev actor cap tgt params ro w =
     (Some (Err (KillEngaged (ks_reason (gw_kill w)))), w)"
  by (simp add: pre_flight_def)

lemma pre_flight_read:
  "\<not> ks_engaged (gw_kill w) \<Longrightarrow>
   pre_flight sv send policy ev actor cap tgt params True w = (Some (Ok ()), w)"
  by (simp add: pre_flight_def)

lemma pre_flight_deny:
  "\<not> ks_engaged (gw_kill w) \<Longrightarrow> pv_decision (evaluate policy cap) = Deny \<Longrightarrow>
   pre_flight sv send policy ev actor cap tgt params False w =
     (Some (Err (PolicyDenied (''policy denies capability `'' @ cap @ ''`''))), w)"
  by (simp add: pre_flight_def)

lemma publish_rows [simp]: "aw_db (publish_awaiting_approval sv send u ts i cap tgt actor w) = aw_db w"
  by (simp add: publish_awaiting_approval_def split: option.splits)

lemma publish_timeout [simp]:
  "approval_timeout (publish_awaiting_approval sv send u ts i cap tgt actor w) = approval_timeout w"
  by (simp add: publish_awaiting_approval_def approval_timeout_def split: option.splits)

lemma enqueue_Ok:
  assumes "enqueue u now actor cap tgt params w = (Ok i, w')"
  shows "i = u \<and> aw_rows w' = aw_rows w @ [new_approval u now actor cap tgt params]"
  using on_approvals_Ok [OF assms [unfolded enqueue_def]] by simp

lemma find_approval_fresh:
  "u \<notin> ar_id ` set rows \<Longrightarrow> ar_id r = u \<Longrightarrow> find_approval u (rows @ [r]) = Some r"
  by (induction rows) (auto simp: find_approval_def)

text \<open>The call that parks: its row, the wait it ends with, and what it answers.\<close>

lemma pre_flight_approval:
  assumes "\<not> ks_engaged (gw_kill w)" "pv_decision (evaluate policy cap) = RequireApproval"
    and "pre_flight sv send policy ev actor cap tgt params False w = (Some (Ok ()), w')"
  obtains w2 rec where
    "aw_rows w2 = aw_rows w @ [new_approval (ae_row_id ev) (ae_row_now ev) actor cap tgt params]"
    and "wait_for_decision (ae_row_id ev) (ae_start ev + approval_timeout w2) (ae_polls ev) w2 =
      (Some (Ok rec), w')"
    and "apr_status rec = Approved"
proof -
  obtain r w1 where e: "enqueue (ae_row_id ev) (ae_row_now ev) actor cap tgt params w = (r, w1)"
    by fastforce
  obtain i where i: "r = Ok i"
    using assms e by (cases r) (auto simp: pre_flight_def)
  have w1: "i = ae_row_id ev"
    "aw_rows w1 = aw_rows w @ [new_approval (ae_row_id ev) (ae_row_now ev) actor cap tgt params]"
    using enqueue_Ok [OF e [unfolded i]] by auto
  define w2 where "w2 = publish_awaiting_approval sv send (ae_env_id ev) (ae_env_ts ev) i cap tgt actor w1"
  obtain x w3 where x: "wait_for_decision i (ae_start ev + approval_timeout w2) (ae_polls ev) w2 = (x, w3)"
    by fastforce
  have "\<exists>rec. x = Some (Ok rec) \<and> apr_status rec = Approved \<and> w3 = w'"
    using assms e i x
    by (auto simp: pre_flight_def w2_def [symmetric] simp del: publish_timeout
        split: option.splits result.splits approval_status.splits)
  then obtain rec where "x = Some (Ok rec)" "apr_status rec = Approved" "w3 = w'" by blast
  moreover have "aw_rows w2 = aw_rows w @ [new_approval (ae_row_id ev) (ae_row_now ev) actor cap tgt params]"
    by (simp add: w2_def w1)
  ultimately show thesis using that x w1(1) by blast
qed

section \<open>Properties\<close>

text \<open>The guard lets a call pass only when the kill switch was off on entry and the call
  is a read, or the policy allows the capability, or an operator approved exactly this
  request: the row the call inserted (its actor, capability, target and parameters) is
  \<open>approved\<close> and signed. This holds whatever other sessions do to the approval table
  through the queue's operations while the call is parked.\<close>

lemma pre_flight_passed:
  assumes run: "pre_flight sv send policy ev actor cap tgt params ro w = (Some (Ok ()), w')"
    and fresh: "ae_row_id ev \<notin> ar_id ` set (aw_rows w)"
    and others: "list_all poll_ok (ae_polls ev)"
    and signed: "rows_signed (aw_rows w)"
  shows "\<not> ks_engaged (gw_kill w) \<and>
    (ro \<or> pv_decision (evaluate policy cap) = Allow \<or>
     pv_decision (evaluate policy cap) = RequireApproval \<and>
     (\<exists>row. find_approval (ae_row_id ev) (aw_rows w') = Some row \<and>
        ar_status row = ''approved'' \<and> ar_decided_by row \<noteq> None \<and> ar_actor_id row = actor \<and>
        ar_capability row = cap \<and> ar_target_ref row = tgt \<and> ar_params row = params))"
proof -
  let ?new = "new_approval (ae_row_id ev) (ae_row_now ev) actor cap tgt params"
  have off: "\<not> ks_engaged (gw_kill w)" using run by (auto simp: pre_flight_def)
  show ?thesis
  proof (cases "\<not> ro \<and> pv_decision (evaluate policy cap) = RequireApproval")
    case True
    then obtain w2 rec where rows: "aw_rows w2 = aw_rows w @ [?new]"
      and wait: "wait_for_decision (ae_row_id ev) (ae_start ev + approval_timeout w2) (ae_polls ev) w2 =
        (Some (Ok rec), w')"
      and st: "apr_status rec = Approved"
      using pre_flight_approval [OF off, of policy cap sv send ev actor tgt params w'] run by auto
    have step: "approvals_step\<^sup>*\<^sup>* (aw_rows w) (aw_rows w2)"
      using st_enqueue [OF fresh] by (simp add: rows r_into_rtranclp)
    have steps: "approvals_step\<^sup>*\<^sup>* (aw_rows w2) (aw_rows w')"
      by (rule wait_rows_steps [OF wait others])
    have "find_approval (ae_row_id ev) (aw_rows w2) = Some ?new"
      unfolding rows by (rule find_approval_fresh [OF fresh]) (simp add: new_approval_def)
    then obtain row where row: "find_approval (ae_row_id ev) (aw_rows w') = Some row" "same_request ?new row"
      using request_steps [OF steps] by blast
    have "rec = row_to_record row" using wait_Ok [OF wait] row(1) by auto
    then have "ar_status row = ''approved''"
      using st by (simp add: row_to_record_def approval_status_from_str_iff)
    moreover have "rows_signed (aw_rows w')"
      by (rule rows_signed_steps [OF rtranclp_trans [OF step steps] signed])
    moreover have "row \<in> set (aw_rows w')"
      using row(1) by (auto simp: find_approval_def find_Some_iff)
    ultimately have "ar_status row = ''approved''" "ar_decided_by row \<noteq> None"
      by (auto simp: rows_signed_def)
    then show ?thesis using off row True by (auto simp: same_request_def new_approval_def)
  next
    case False
    then show ?thesis using off run by (auto simp: pre_flight_def split: decision.splits if_splits)
  qed
qed

text \<open>An operator approves the parked request between two polls.\<close>

definition ex_policy :: policy_engine where
  "ex_policy = policy_new
     [\<lparr>rule_capability = ''network.*'', rule_decision = RequireApproval, rule_description = None\<rparr>]"

definition ex_poll :: "millis \<Rightarrow> ('b guard_world \<Rightarrow> 'b guard_world) \<Rightarrow> ('b guard_world) poll" where
  "ex_poll now f = \<lparr>p_before = f, p_now = now, p_gap = id\<rparr>"

definition ex_env :: "('b guard_world) poll list \<Rightarrow> 'b approval_env" where
  "ex_env ps = \<lparr>ae_row_id = ''ap-1'', ae_row_now = 1, ae_env_id = ''e-1'', ae_env_ts = 1, ae_start = 1,
     ae_polls = ps\<rparr>"

definition ex_approve :: "'b guard_world \<Rightarrow> 'b guard_world" where
  "ex_approve w = snd (decide 5 ''ap-1'' ''op-1'' Approved w)"

definition ex_guard :: "in_proc_bus guard_world" where
  "ex_guard = guard_set_bus in_proc_bus_new (guard_new kill_state_new (db_of []))"

lemma ex_poll_ok: "poll_ok (ex_poll now id)" "poll_ok (ex_poll now ex_approve)"
  by (simp_all add: poll_ok_def ex_poll_def ex_approve_def decide_rows_steps)

lemmas ex_guard_defs = ex_guard_def guard_set_bus_def guard_new_def kill_state_new_def db_of_def
  in_proc_bus_new_def ex_env_def ex_poll_def ex_policy_def policy_new_def

lemmas ex_run_defs = pre_flight_def evaluate_def glob_match_def strip_suffix_def starts_with_def
  enqueue_def on_approvals_def db_stmt_def new_approval_def publish_awaiting_approval_def
  awaiting_approval_envelope_def star_semver_def bus_send_def approvals_get_def find_approval_def
  row_to_record_def approval_status_from_str_def approval_timeout_def DEFAULT_APPROVAL_TIMEOUT_SECS_def
  ex_approve_def decide_def update_pending_def decide_row_def

text \<open>C14: a call that parks for approval is answered: with the poll loop reading the clock at
  least two seconds apart, \<open>timeout / 2 s + 2\<close> polls are enough for any outcome of the wait.\<close>

theorem pre_flight_returns:
  assumes "spaced 2000 (map p_now (ae_polls ev))" "ae_start ev \<le> p_now (hd (ae_polls ev))"
    and "approval_timeout w div 2000 + 1 < length (ae_polls ev)"
  shows "fst (pre_flight sv send policy ev actor cap tgt params ro w) \<noteq> None"
proof -
  have w: "fst (wait_for_decision i (ae_start ev + approval_timeout w) (ae_polls ev) w2) \<noteq> None" for i w2
    using wait_bounded_polls [OF assms(1) _ assms(2), of "approval_timeout w"] assms(3) by simp
  obtain r w1 where e: "enqueue (ae_row_id ev) (ae_row_now ev) actor cap tgt params w = (r, w1)"
    by fastforce
  then have t: "approval_timeout w1 = approval_timeout w"
    by (auto simp: enqueue_def on_approvals_def approval_timeout_def split: prod.splits)
  have "\<exists>y w3. wait_for_decision i (ae_start ev + approval_timeout w) (ae_polls ev) w2 = (Some y, w3)" for i w2
    using w [of i w2] by (cases "wait_for_decision i (ae_start ev + approval_timeout w) (ae_polls ev) w2") auto
  then obtain y w3 where "wait_for_decision i (ae_start ev + approval_timeout w) (ae_polls ev) w2 = (Some (y i w2), w3 i w2)" for i w2
    by metis
  then show ?thesis
    by (cases r) (simp_all add: pre_flight_def e t Let_def split: decision.split result.split approval_status.split)
qed

theorem pre_flight_returns_witness:
  "fst (pre_flight star_semver bus_send ex_policy (ex_env (map (\<lambda>i. ex_poll (1 + 2000 * i) id) [0..<152]))
     ''alice'' ''network.fw.add'' None JNull False ex_guard) \<noteq> None"
proof (rule pre_flight_returns)
  show "spaced 2000 (map p_now (ae_polls (ex_env (map (\<lambda>i. ex_poll (1 + 2000 * i) id) [0..<152]))))"
    by (simp add: spaced_def ex_env_def ex_poll_def del: upt_Suc)
  show "ae_start (ex_env (map (\<lambda>i. ex_poll (1 + 2000 * i) id) [0..<152])) \<le>
      p_now (hd (ae_polls (ex_env (map (\<lambda>i. ex_poll (1 + 2000 * i) id) [0..<152]))))"
    by (simp add: ex_env_def ex_poll_def upt_conv_Cons)
  show "approval_timeout ex_guard div 2000 + 1 <
      length (ae_polls (ex_env (map (\<lambda>i. ex_poll (1 + 2000 * i) id) [0..<152])))"
    by (simp add: ex_guard_defs approval_timeout_def DEFAULT_APPROVAL_TIMEOUT_SECS_def)
qed

definition ex_kill_then_approve :: "'b guard_world \<Rightarrow> 'b guard_world" where
  "ex_kill_then_approve w = ex_approve (w\<lparr>gw_kill := engage ''operator'' (gw_kill w)\<rparr>)"

text \<open>The kill switch is read once, on entry. A write that is parked when the switch is
  engaged, and approved afterwards, passes the guard while the switch is engaged.\<close>

lemma pre_flight_kill_while_parked:
  "case pre_flight star_semver bus_send ex_policy (ex_env [ex_poll 2 id, ex_poll 2002 ex_kill_then_approve])
     ''alice'' ''network.fw.add'' None JNull False ex_guard of
   (r, w') \<Rightarrow> r = Some (Ok ()) \<and> ks_engaged (gw_kill w')"
  by (simp add: ex_guard_defs ex_run_defs ex_kill_then_approve_def engage_def)

end
