(* ===== verification/Inventory.thy ===== *)
theory Inventory
  imports Database Json "HOL-Library.Word"
begin

text \<open>
  The inventory of managed targets (\<open>daimon-inventory\<close>): target references, the two views of a
  target (with and without its credential reference), and the two implementations of the
  \<open>Inventory\<close> trait, in memory and over PostgreSQL. The trait's contract is a locale; both
  implementations interpret it.
\<close>

section \<open>References\<close>

datatype target_ref = TargetRef (target_name: string)

datatype ref_parse_error = RefMissingScheme | RefEmptyName | RefInvalidShape

fun show_ref_parse_error :: "ref_parse_error \<Rightarrow> string" where
  "show_ref_parse_error RefMissingScheme = ''target ref must begin with `target://`''"
| "show_ref_parse_error RefEmptyName = ''target ref name is empty''"
| "show_ref_parse_error RefInvalidShape = ''target ref must be a single name segment (no slashes)''"

definition target_ref_parse :: "string \<Rightarrow> (target_ref, ref_parse_error) result" where
  "target_ref_parse s =
     (case strip_prefix ''target://'' s of
        None \<Rightarrow> Err RefMissingScheme
      | Some rest \<Rightarrow>
          if rest = '''' then Err RefEmptyName
          else if CHR ''/'' \<in> set rest then Err RefInvalidShape
          else Ok (TargetRef rest))"

fun show_target_ref :: "target_ref \<Rightarrow> string" where
  "show_target_ref (TargetRef n) = ''target://'' @ n"

definition target_ref_valid :: "target_ref \<Rightarrow> bool" where
  "target_ref_valid r \<longleftrightarrow> target_name r \<noteq> '''' \<and> CHR ''/'' \<notin> set (target_name r)"

section \<open>Targets\<close>

datatype target_kind = TkPlatform | TkNetwork | TkHost | TkApp

datatype transport_kind = TrSsh | TrRest | TrSnmp | TrGrpc

record target_metadata =
  tm_ref :: target_ref
  tm_kind :: target_kind
  tm_transport :: transport_kind
  tm_host :: string
  tm_port :: "16 word"
  tm_labels :: "(string, string) bmap"
  tm_capabilities :: "string list"

record managed_target =
  mt_ref :: target_ref
  mt_kind :: target_kind
  mt_transport :: transport_kind
  mt_host :: string
  mt_port :: "16 word"
  mt_credential_ref :: string
  mt_labels :: "(string, string) bmap"
  mt_capabilities :: "string list"

definition managed_metadata :: "managed_target \<Rightarrow> target_metadata" where
  "managed_metadata t =
     \<lparr>tm_ref = mt_ref t, tm_kind = mt_kind t, tm_transport = mt_transport t, tm_host = mt_host t,
      tm_port = mt_port t, tm_labels = mt_labels t, tm_capabilities = mt_capabilities t\<rparr>"

datatype inventory_error = InvNotFound string | InvOther string

fun show_inventory_error :: "inventory_error \<Rightarrow> string" where
  "show_inventory_error (InvNotFound r) = ''target `'' @ r @ ''` not found in inventory''"
| "show_inventory_error (InvOther e) = e"

section \<open>In memory\<close>

type_synonym mem_inventory = "(target_ref, managed_target) hmap"

definition mem_get_managed :: "target_ref \<Rightarrow> (mem_inventory, managed_target, inventory_error) eff" where
  "mem_get_managed r m = (ok_or (map_of m r) (InvNotFound (show_target_ref r)), m)"

definition mem_get_metadata :: "target_ref \<Rightarrow> (mem_inventory, target_metadata, inventory_error) eff" where
  "mem_get_metadata r m =
     (ok_or (map_option managed_metadata (map_of m r)) (InvNotFound (show_target_ref r)), m)"

definition kind_passes :: "target_kind option \<Rightarrow> target_kind \<Rightarrow> bool" where
  "kind_passes f k = (case f of None \<Rightarrow> True | Some k' \<Rightarrow> k = k')"

definition mem_list :: "target_kind option \<Rightarrow> mem_inventory \<Rightarrow> target_metadata list \<times> mem_inventory" where
  "mem_list f m = (map managed_metadata (filter (\<lambda>t. kind_passes f (mt_kind t)) (map snd m)), m)"

definition mem_upsert :: "managed_target \<Rightarrow> (mem_inventory, unit, inventory_error) eff" where
  "mem_upsert t m = (Ok (), hm_insert (mt_ref t) t m)"

definition mem_remove :: "target_ref \<Rightarrow> (mem_inventory, unit, inventory_error) eff" where
  "mem_remove r m =
     (case map_of m r of
        Some _ \<Rightarrow> (Ok (), hm_remove r m)
      | None \<Rightarrow> (Err (InvNotFound (show_target_ref r)), m))"

section \<open>Over PostgreSQL\<close>

fun kind_to_str :: "target_kind \<Rightarrow> string" where
  "kind_to_str TkPlatform = ''platform''"
| "kind_to_str TkNetwork = ''network''"
| "kind_to_str TkHost = ''host''"
| "kind_to_str TkApp = ''app''"

definition parse_kind :: "string \<Rightarrow> (target_kind, inventory_error) result" where
  "parse_kind s =
     (if s = ''platform'' then Ok TkPlatform
      else if s = ''network'' then Ok TkNetwork
      else if s = ''host'' then Ok TkHost
      else if s = ''app'' then Ok TkApp
      else Err (InvOther (''unknown kind: '' @ s)))"

fun transport_to_str :: "transport_kind \<Rightarrow> string" where
  "transport_to_str TrSsh = ''ssh''"
| "transport_to_str TrRest = ''rest''"
| "transport_to_str TrSnmp = ''snmp''"
| "transport_to_str TrGrpc = ''grpc''"

definition parse_transport :: "string \<Rightarrow> (transport_kind, inventory_error) result" where
  "parse_transport s =
     (if s = ''ssh'' then Ok TrSsh
      else if s = ''rest'' then Ok TrRest
      else if s = ''snmp'' then Ok TrSnmp
      else if s = ''grpc'' then Ok TrGrpc
      else Err (InvOther (''unknown transport: '' @ s)))"

record target_row =
  tr_target_ref :: string
  tr_kind :: string
  tr_transport :: string
  tr_host :: string
  tr_port :: "32 word"
  tr_credential_ref :: string
  tr_labels :: json
  tr_capabilities :: json

definition labels_to_json :: "(string, string) bmap \<Rightarrow> json" where
  "labels_to_json ls = JObj (map (\<lambda>(k, v). (k, JStr v)) ls)"

fun strs_of_members :: "(string \<times> json) list \<Rightarrow> (string \<times> string) list option" where
  "strs_of_members [] = Some []"
| "strs_of_members ((k, JStr v) # m) = map_option (\<lambda>r. (k, v) # r) (strs_of_members m)"
| "strs_of_members _ = None"

fun strs_of_items :: "json list \<Rightarrow> string list option" where
  "strs_of_items [] = Some []"
| "strs_of_items (JStr v # xs) = map_option (\<lambda>r. v # r) (strs_of_items xs)"
| "strs_of_items _ = None"

definition labels_of_json :: "json \<Rightarrow> (string, string) bmap" where
  "labels_of_json v =
     (case v of JObj m \<Rightarrow> (case strs_of_members m of Some r \<Rightarrow> r | None \<Rightarrow> []) | _ \<Rightarrow> [])"

definition caps_to_json :: "string list \<Rightarrow> json" where
  "caps_to_json cs = JArr (map JStr cs)"

definition caps_of_json :: "json \<Rightarrow> string list" where
  "caps_of_json v =
     (case v of JArr xs \<Rightarrow> (case strs_of_items xs of Some r \<Rightarrow> r | None \<Rightarrow> []) | _ \<Rightarrow> [])"

text \<open>A port is a \<open>u16\<close> in the program and an \<open>i32\<close> in the table.\<close>

definition row_to_managed :: "target_row \<Rightarrow> (managed_target, inventory_error) result" where
  "row_to_managed row =
     bind_result (map_err (\<lambda>e. InvOther (''parse ref: '' @ show_ref_parse_error e))
                    (target_ref_parse (tr_target_ref row))) (\<lambda>r.
     bind_result (parse_kind (tr_kind row)) (\<lambda>k.
     bind_result (parse_transport (tr_transport row)) (\<lambda>tr.
       if \<not> (0 \<le> sint (tr_port row) \<and> sint (tr_port row) \<le> 65535)
       then Err (InvOther (''port out of range: '' @ show_int (sint (tr_port row))))
       else Ok \<lparr>mt_ref = r, mt_kind = k, mt_transport = tr, mt_host = tr_host row,
                mt_port = ucast (tr_port row), mt_credential_ref = tr_credential_ref row,
                mt_labels = labels_of_json (tr_labels row),
                mt_capabilities = caps_of_json (tr_capabilities row)\<rparr>)))"

definition managed_to_row :: "managed_target \<Rightarrow> target_row" where
  "managed_to_row t =
     \<lparr>tr_target_ref = show_target_ref (mt_ref t), tr_kind = kind_to_str (mt_kind t),
      tr_transport = transport_to_str (mt_transport t), tr_host = mt_host t,
      tr_port = ucast (mt_port t), tr_credential_ref = mt_credential_ref t,
      tr_labels = labels_to_json (mt_labels t), tr_capabilities = caps_to_json (mt_capabilities t)\<rparr>"

type_synonym pg_inventory = "(string, target_row) bmap db"

text \<open>The table as a map from its key, the reference text; \<open>ORDER BY target_ref\<close> is the
  order of the keys.\<close>

definition inv_fault :: "string \<Rightarrow> db_fault \<Rightarrow> inventory_error" where
  "inv_fault op f = (case f of PoolFault e \<Rightarrow> InvOther (''pool: '' @ e) | PgFault e \<Rightarrow> InvOther (op @ '': '' @ e))"

definition pg_count :: "(pg_inventory, nat, inventory_error) eff" where
  "pg_count = mapE (inv_fault ''count'') (db_stmt (\<lambda>m. (length m, m)))"

definition pg_get_managed :: "target_ref \<Rightarrow> (pg_inventory, managed_target, inventory_error) eff" where
  "pg_get_managed r =
     bindE (mapE (inv_fault ''get'') (db_stmt (\<lambda>m. (map_of m (show_target_ref r), m)))) (\<lambda>row.
     liftE (bind_result (ok_or row (InvNotFound (show_target_ref r))) row_to_managed))"

definition pg_get_metadata :: "target_ref \<Rightarrow> (pg_inventory, target_metadata, inventory_error) eff" where
  "pg_get_metadata r = bindE (pg_get_managed r) (\<lambda>mt. retE (managed_metadata mt))"

definition pg_list :: "target_kind option \<Rightarrow> pg_inventory \<Rightarrow> target_metadata list \<times> pg_inventory" where
  "pg_list f d =
     (case db_stmt (\<lambda>m. (filter (\<lambda>row. case f of None \<Rightarrow> True | Some k \<Rightarrow> tr_kind row = kind_to_str k) (map snd m), m)) d of
        (Err _, d') \<Rightarrow> ([], d')
      | (Ok rows, d') \<Rightarrow>
          (List.map_filter (\<lambda>row. map_option managed_metadata (result_ok (row_to_managed row))) rows, d'))"

text \<open>The conditions the table checks; \<open>violation\<close> is the text of the database's refusal of a row.\<close>

definition row_accepted :: "target_row \<Rightarrow> bool" where
  "row_accepted row \<longleftrightarrow> 0 < sint (tr_port row) \<and> sint (tr_port row) \<le> 65535 \<and>
     starts_with ''target://'' (tr_target_ref row) \<and> starts_with ''vault://'' (tr_credential_ref row)"

definition pg_upsert :: "(target_row \<Rightarrow> string) \<Rightarrow> managed_target \<Rightarrow> (pg_inventory, unit, inventory_error) eff" where
  "pg_upsert violation t =
     bindE (mapE (inv_fault ''upsert'')
       (db_stmt (\<lambda>m. if row_accepted (managed_to_row t)
          then (True, bt_insert (show_target_ref (mt_ref t)) (managed_to_row t) m) else (False, m)))) (\<lambda>stored.
     if stored then retE () else failE (InvOther (''upsert: '' @ violation (managed_to_row t))))"

definition pg_remove :: "target_ref \<Rightarrow> (pg_inventory, unit, inventory_error) eff" where
  "pg_remove r =
     bindE (mapE (inv_fault ''remove'')
              (db_stmt (\<lambda>m. (map_of m (show_target_ref r) \<noteq> None, hm_remove (show_target_ref r) m)))) (\<lambda>found.
     if found then retE () else failE (InvNotFound (show_target_ref r)))"

section \<open>Lemmas: references, enumerations and rows\<close>

lemma target_ref_parse_iff:
  "target_ref_parse s = Ok r \<longleftrightarrow> s = show_target_ref r \<and> target_ref_valid r"
  by (cases r) (auto simp: target_ref_parse_def target_ref_valid_def strip_prefix_Some_iff
      strip_prefix_None_iff split: option.splits if_splits)

lemma show_target_ref_inj: "show_target_ref a = show_target_ref b \<longleftrightarrow> a = b"
  by (cases a; cases b) simp

lemma kind_roundtrip [simp]: "parse_kind (kind_to_str k) = Ok k"
  by (cases k) (simp_all add: parse_kind_def)

lemma transport_roundtrip [simp]: "parse_transport (transport_to_str t) = Ok t"
  by (cases t) (simp_all add: parse_transport_def)

lemma kind_to_str_inj: "kind_to_str a = kind_to_str b \<longleftrightarrow> a = b"
  by (metis kind_roundtrip result.inject(1))

lemma strs_of_members_labels: "strs_of_members (map (\<lambda>(k, v). (k, JStr v)) ls) = Some ls"
  by (induction ls) auto

lemma labels_roundtrip [simp]: "labels_of_json (labels_to_json ls) = ls"
  by (simp add: labels_of_json_def labels_to_json_def strs_of_members_labels)

lemma strs_of_items_map: "strs_of_items (map JStr cs) = Some cs"
  by (induction cs) auto

lemma caps_roundtrip [simp]: "caps_of_json (caps_to_json cs) = cs"
  by (simp add: caps_of_json_def caps_to_json_def strs_of_items_map)

lemma port_i32: "sint (ucast (p :: 16 word) :: 32 word) = uint p"
proof -
  have "uint p < 65536" using uint_lt2p [of p] by simp
  then have "signed_take_bit 31 (uint p) = uint p"
    by (intro signed_take_bit_int_eq_self order.trans [OF _ uint_ge_0]) simp_all
  then show ?thesis
    using \<open>uint p < 65536\<close> by (simp add: sint_uint unsigned_ucast_eq take_bit_int_eq_self)
qed

lemma port_i32_range: "0 \<le> sint (ucast (p :: 16 word) :: 32 word) \<and> sint (ucast p :: 32 word) \<le> 65535"
  using uint_lt2p [of p] by (simp add: port_i32)

lemma row_accepted_iff: "row_accepted (managed_to_row t) \<longleftrightarrow> mt_port t \<noteq> 0 \<and> starts_with ''vault://'' (mt_credential_ref t)"
proof -
  have "0 < uint (mt_port t) \<longleftrightarrow> mt_port t \<noteq> 0"
    using uint_0_iff [of "mt_port t"] uint_ge_0 [of "mt_port t"] by linarith
  moreover have "starts_with ''target://'' (show_target_ref (mt_ref t))" by (cases "mt_ref t") (simp add: starts_with_def)
  ultimately show ?thesis
    using port_i32_range [of "mt_port t"] by (simp add: row_accepted_def managed_to_row_def port_i32)
qed

lemma port_roundtrip: "(ucast (ucast (p :: 16 word) :: 32 word) :: 16 word) = p"
  by transfer simp

lemma row_roundtrip: "target_ref_valid (mt_ref t) \<Longrightarrow> row_to_managed (managed_to_row t) = Ok t"
proof -
  assume "target_ref_valid (mt_ref t)"
  then have "target_ref_parse (show_target_ref (mt_ref t)) = Ok (mt_ref t)"
    by (simp add: target_ref_parse_iff)
  then show ?thesis
    using port_i32_range [of "mt_port t"] by (simp add: row_to_managed_def managed_to_row_def port_roundtrip)
qed

lemma row_to_managed_ref: "row_to_managed row = Ok t \<Longrightarrow> tr_target_ref row = show_target_ref (mt_ref t)"
  by (auto simp: row_to_managed_def bind_result_Ok_iff target_ref_parse_iff split: if_splits)

section \<open>The contract of the trait\<close>

text \<open>\<open>wf\<close> says which targets can be asked to be stored and \<open>usable\<close> which of these an implementation takes. Reading does not change
  the state, a target that is taken is found again and no other entry moves, a target that is not taken is an error and changes no answer, a removed target is
  gone, and the metadata view is exactly the managed record without its credential.\<close>

locale inventory =
  fixes inv :: "'s \<Rightarrow> bool"
    and wf :: "managed_target \<Rightarrow> bool"
    and usable :: "managed_target \<Rightarrow> bool"
    and get_managed :: "target_ref \<Rightarrow> ('s, managed_target, inventory_error) eff"
    and get_metadata :: "target_ref \<Rightarrow> ('s, target_metadata, inventory_error) eff"
    and upsert :: "managed_target \<Rightarrow> ('s, unit, inventory_error) eff"
    and remove :: "target_ref \<Rightarrow> ('s, unit, inventory_error) eff"
  assumes get_state: "inv s \<Longrightarrow> snd (get_managed r s) = s"
    and metadata_view: "inv s \<Longrightarrow>
      get_metadata r s = (case get_managed r s of (Ok t, s') \<Rightarrow> (Ok (managed_metadata t), s') | (Err e, s') \<Rightarrow> (Err e, s'))"
    and upsert_ok: "inv s \<Longrightarrow> fst (upsert t s) = Ok () \<longleftrightarrow> usable t"
    and upsert_inv: "inv s \<Longrightarrow> wf t \<Longrightarrow> inv (snd (upsert t s))"
    and get_upsert: "inv s \<Longrightarrow> wf t \<Longrightarrow>
      fst (get_managed r (snd (upsert t s))) = (if usable t \<and> r = mt_ref t then Ok t else fst (get_managed r s))"
    and remove_inv: "inv s \<Longrightarrow> inv (snd (remove r s))"
    and get_remove: "inv s \<Longrightarrow>
      fst (get_managed r (snd (remove q s))) =
        (if r = q then Err (InvNotFound (show_target_ref r)) else fst (get_managed r s))"
    and get_keyed: "inv s \<Longrightarrow> fst (get_managed r s) = Ok t \<Longrightarrow> mt_ref t = r"
begin

lemma get_after_upsert: "inv s \<Longrightarrow> wf t \<Longrightarrow> usable t \<Longrightarrow> fst (get_managed (mt_ref t) (snd (upsert t s))) = Ok t"
  by (simp add: get_upsert)

lemma upsert_twice:
  "inv s \<Longrightarrow> wf t \<Longrightarrow> wf t' \<Longrightarrow> usable t' \<Longrightarrow> mt_ref t = mt_ref t' \<Longrightarrow>
   fst (get_managed r (snd (upsert t' (snd (upsert t s))))) = fst (get_managed r (snd (upsert t' s)))"
  by (simp add: get_upsert upsert_inv)

text \<open>Two inventories that differ in the credential reference of one target only have the
  same metadata for every reference.\<close>

lemma metadata_hides_credential:
  assumes "inv s" "wf t" "wf t'" "usable t" "usable t'" "managed_metadata t = managed_metadata t'"
  shows "fst (get_metadata r (snd (upsert t s))) = fst (get_metadata r (snd (upsert t' s)))"
proof -
  have ref: "mt_ref t = mt_ref t'" using assms(6) by (simp add: managed_metadata_def)
  have g: "fst (get_metadata r u) = (case fst (get_managed r u) of Ok x \<Rightarrow> Ok (managed_metadata x) | Err e \<Rightarrow> Err e)"
    if "inv u" for u
    using metadata_view [OF that, of r] by (simp split: prod.splits result.splits)
  show ?thesis
    using assms ref by (simp add: g upsert_inv get_upsert)
qed

end

definition mem_inv :: "mem_inventory \<Rightarrow> bool" where
  "mem_inv m \<longleftrightarrow> hm_wf m \<and> list_all (\<lambda>(r, t). mt_ref t = r) m"

lemma mem_inv_iff: "mem_inv m \<longleftrightarrow> hm_wf m \<and> (\<forall>r t. map_of m r = Some t \<longrightarrow> mt_ref t = r)"
proof (cases "hm_wf m")
  case True
  then show ?thesis
    unfolding mem_inv_def list_all_iff hm.mem_iff_get [OF True, symmetric] by auto
qed (simp add: mem_inv_def)

interpretation mem: inventory mem_inv "\<lambda>_. True" "\<lambda>_. True" mem_get_managed mem_get_metadata mem_upsert mem_remove
  by unfold_locales
    (auto simp: mem_get_managed_def mem_get_metadata_def mem_upsert_def mem_remove_def mem_inv_iff
      hm_insert_wf hm_insert_get hm_remove_wf hm_remove_get ok_or_def split: option.splits if_splits)

text \<open>A fault-free connection to a table whose rows all decode and sit under their own key.\<close>

definition pg_inv :: "pg_inventory \<Rightarrow> bool" where
  "pg_inv d \<longleftrightarrow> db_faults d = [] \<and> bt_wf (db_tables d) \<and>
     (\<forall>k row. map_of (db_tables d) k = Some row \<longrightarrow> (\<exists>t. row_to_managed row = Ok t \<and> k = show_target_ref (mt_ref t)))"

lemma db_stmt_nofault: "db_faults d = [] \<Longrightarrow>
   db_stmt f d = (Ok (fst (f (db_tables d))), d\<lparr>db_tables := snd (f (db_tables d))\<rparr>)"
  by (simp add: db_stmt_def split: prod.splits)

lemma pg_get_managed_run:
  assumes "pg_inv d"
  shows "pg_get_managed r d =
    (bind_result (ok_or (map_of (db_tables d) (show_target_ref r)) (InvNotFound (show_target_ref r))) row_to_managed, d)"
  using assms by (simp add: pg_get_managed_def bindE_def liftE_def db_stmt_nofault pg_inv_def)

lemma hm_remove_bt_wf: "bt_wf m \<Longrightarrow> bt_wf (hm_remove k m)"
  unfolding bt_wf_def hm_remove_def by (induction m) (auto simp: list_all_iff)

lemma pg_upsert_run: "pg_inv d \<Longrightarrow>
   pg_upsert violation t d =
     (if row_accepted (managed_to_row t)
      then (Ok (), d\<lparr>db_tables := bt_insert (show_target_ref (mt_ref t)) (managed_to_row t) (db_tables d)\<rparr>)
      else (Err (InvOther (''upsert: '' @ violation (managed_to_row t))), d))"
  by (simp add: pg_upsert_def db_stmt_nofault pg_inv_def bindE_def retE_def failE_def)

lemma pg_upsert_inv:
  assumes "pg_inv d" "target_ref_valid (mt_ref t)"
  shows "pg_inv (snd (pg_upsert violation t d))"
  using assms row_roundtrip [OF assms(2)] unfolding pg_upsert_run [OF assms(1)]
  by (auto simp: pg_inv_def bt_insert_wf bt_insert_get split: if_splits)

lemma pg_remove_state: "pg_inv d \<Longrightarrow>
   snd (pg_remove r d) = d\<lparr>db_tables := hm_remove (show_target_ref r) (db_tables d)\<rparr>"
  by (simp add: pg_remove_def db_stmt_nofault pg_inv_def bindE_def retE_def failE_def)

lemma pg_remove_inv: "pg_inv d \<Longrightarrow> pg_inv (snd (pg_remove r d))"
  by (auto simp: pg_remove_state) (auto simp: pg_inv_def hm_remove_bt_wf hm_remove_get split: if_splits)

interpretation pg: inventory pg_inv "\<lambda>t. target_ref_valid (mt_ref t)" "\<lambda>t. row_accepted (managed_to_row t)"
  pg_get_managed pg_get_metadata "pg_upsert violation" pg_remove for violation
proof unfold_locales
  fix s :: pg_inventory and r q :: target_ref and t :: managed_target
  assume inv: "pg_inv s"
  show "snd (pg_get_managed r s) = s" by (simp add: pg_get_managed_run inv)
  show "pg_get_metadata r s = (case pg_get_managed r s of (Ok t, s') \<Rightarrow> (Ok (managed_metadata t), s') | (Err e, s') \<Rightarrow> (Err e, s'))"
    by (simp add: pg_get_metadata_def bindE_def retE_def split: prod.splits result.splits)
  show "fst (pg_upsert violation t s) = Ok () \<longleftrightarrow> row_accepted (managed_to_row t)" by (simp add: pg_upsert_run inv)
  show "pg_inv (snd (pg_remove r s))" by (rule pg_remove_inv [OF inv])
  show "fst (pg_get_managed r (snd (pg_remove q s))) =
      (if r = q then Err (InvNotFound (show_target_ref r)) else fst (pg_get_managed r s))"
    by (simp add: pg_get_managed_run inv pg_remove_inv [OF inv])
      (simp add: pg_remove_state inv hm_remove_get show_target_ref_inj ok_or_def)
  show "mt_ref t = r" if g: "fst (pg_get_managed r s) = Ok t"
  proof -
    obtain row where "map_of (db_tables s) (show_target_ref r) = Some row" "row_to_managed row = Ok t"
      using g unfolding pg_get_managed_run [OF inv] fst_conv bind_result_Ok_iff by auto
    then show ?thesis using inv unfolding pg_inv_def by (metis result.inject(1) show_target_ref_inj)
  qed
  show "pg_inv (snd (pg_upsert violation t s))" if "target_ref_valid (mt_ref t)"
    by (rule pg_upsert_inv [OF inv that])
  show "fst (pg_get_managed r (snd (pg_upsert violation t s))) =
      (if row_accepted (managed_to_row t) \<and> r = mt_ref t then Ok t else fst (pg_get_managed r s))"
    if "target_ref_valid (mt_ref t)"
  proof -
    have "bt_wf (db_tables s)" using inv by (simp add: pg_inv_def)
    then show ?thesis
      using row_roundtrip [OF that]
      by (simp add: pg_get_managed_run inv pg_upsert_inv [OF inv that])
        (simp add: pg_upsert_run inv bt_insert_get show_target_ref_inj ok_or_def)
  qed
qed

section \<open>The two implementations\<close>

datatype inventory_op = IoUpsert managed_target | IoRemove target_ref

text \<open>What an inventory is: a partial function from references to records, absence being the error.\<close>

fun spec_op :: "inventory_op \<Rightarrow> (target_ref \<Rightarrow> (managed_target, inventory_error) result) \<Rightarrow>
  target_ref \<Rightarrow> (managed_target, inventory_error) result" where
  "spec_op (IoUpsert t) f = f(mt_ref t := Ok t)"
| "spec_op (IoRemove q) f = f(q := Err (InvNotFound (show_target_ref q)))"

fun op_usable :: "(managed_target \<Rightarrow> bool) \<Rightarrow> inventory_op \<Rightarrow> bool" where
  "op_usable P (IoUpsert t) = P t"
| "op_usable P (IoRemove q) = True"

fun run_op ::
  "(managed_target \<Rightarrow> ('s, unit, inventory_error) eff) \<Rightarrow> (target_ref \<Rightarrow> ('s, unit, inventory_error) eff) \<Rightarrow>
   's \<Rightarrow> inventory_op \<Rightarrow> 's" where
  "run_op up rm s (IoUpsert t) = snd (up t s)"
| "run_op up rm s (IoRemove q) = snd (rm q s)"

context inventory
begin

lemma run_ops:
  assumes "inv s" "list_all (op_usable wf) ops"
  shows "inv (foldl (run_op upsert remove) s ops) \<and>
    (\<lambda>r. fst (get_managed r (foldl (run_op upsert remove) s ops))) =
      foldl (\<lambda>f op. spec_op op f) (\<lambda>r. fst (get_managed r s)) (filter (op_usable usable) ops)"
  using assms
proof (induction ops arbitrary: s)
  case (Cons op ops)
  have inv': "inv (run_op upsert remove s op)"
    using Cons.prems by (cases op) (simp_all add: upsert_inv remove_inv)
  have "(\<lambda>r. fst (get_managed r (run_op upsert remove s op))) =
      (if op_usable usable op then spec_op op (\<lambda>r. fst (get_managed r s)) else (\<lambda>r. fst (get_managed r s)))"
    using Cons.prems by (cases op) (auto simp: get_upsert get_remove)
  then show ?case using Cons.IH [OF inv'] Cons.prems(2) by simp
qed simp

end

lemma op_usable_all [simp]: "op_usable (\<lambda>_. True) = (\<lambda>_. True)"
proof
  fix op show "op_usable (\<lambda>_. True) op = True" by (cases op) simp_all
qed

text \<open>C34: the two inventories are the same abstract store, up to the conditions of the table. Take any sequence of upserts of targets with
  valid references and of removals, starting empty, on a database that answers. The in-memory inventory answers every lookup like a partial function
  updated in order. The PostgreSQL inventory (through its row encoding) does so for the same sequence without the upserts the table refuses: those with
  port 0 or with a credential reference that does not begin with \<open>vault://\<close>. So on targets that the table takes the two give the same answer to every lookup.\<close>

theorem inventories_agree:
  assumes "list_all (op_usable (\<lambda>t. target_ref_valid (mt_ref t))) ops"
  shows "fst (pg_get_managed r (foldl (run_op (pg_upsert violation) pg_remove) (db_of []) ops)) =
      foldl (\<lambda>f op. spec_op op f) (\<lambda>r. Err (InvNotFound (show_target_ref r)))
        (filter (op_usable (\<lambda>t. mt_port t \<noteq> 0 \<and> starts_with ''vault://'' (mt_credential_ref t))) ops) r \<and>
    fst (mem_get_managed r (foldl (run_op mem_upsert mem_remove) [] ops)) =
      foldl (\<lambda>f op. spec_op op f) (\<lambda>r. Err (InvNotFound (show_target_ref r))) ops r \<and>
    (list_all (op_usable (\<lambda>t. mt_port t \<noteq> 0 \<and> starts_with ''vault://'' (mt_credential_ref t))) ops \<longrightarrow>
     fst (pg_get_managed r (foldl (run_op (pg_upsert violation) pg_remove) (db_of []) ops)) =
     fst (mem_get_managed r (foldl (run_op mem_upsert mem_remove) [] ops)))"
proof -
  have p: "pg_inv (db_of [])" "mem_inv []" by (simp_all add: pg_inv_def db_of_def bt_wf_def mem_inv_def hm_wf_def)
  have e: "(\<lambda>r. fst (pg_get_managed r (db_of []))) = (\<lambda>r. Err (InvNotFound (show_target_ref r)))"
    "(\<lambda>r. fst (mem_get_managed r [])) = (\<lambda>r. Err (InvNotFound (show_target_ref r)))"
    by (simp_all add: pg_get_managed_run p db_of_def [symmetric] ok_or_def mem_get_managed_def) (simp add: db_of_def)
  have u: "list_all (op_usable (\<lambda>_. True)) ops" by (simp add: list_all_iff)
  have "filter (op_usable P) ops = ops" if "list_all (op_usable P) ops" for P using that by (simp add: list_all_iff filter_id_conv)
  then show ?thesis
    using pg.run_ops [OF p(1) assms, where violation = violation] mem.run_ops [OF p(2) u]
    unfolding e row_accepted_iff by (simp add: fun_eq_iff)
qed

definition ex_managed :: "string \<Rightarrow> managed_target" where
  "ex_managed n =
     \<lparr>mt_ref = TargetRef n, mt_kind = TkHost, mt_transport = TrSsh, mt_host = ''10.0.0.1'', mt_port = 22,
      mt_credential_ref = ''vault://k'', mt_labels = [], mt_capabilities = []\<rparr>"

theorem inventories_agree_witness:
  "fst (pg_get_managed (TargetRef ''edge'') (foldl (run_op (pg_upsert (\<lambda>_. ''db error'')) pg_remove) (db_of [])
     [IoUpsert (ex_managed ''edge''), IoUpsert (ex_managed ''b''), IoRemove (TargetRef ''b''),
      IoUpsert ((ex_managed ''edge'')\<lparr>mt_port := 0\<rparr>)])) = Ok (ex_managed ''edge'')"
proof -
  have "list_all (op_usable (\<lambda>t. target_ref_valid (mt_ref t)))
      [IoUpsert (ex_managed ''edge''), IoUpsert (ex_managed ''b''), IoRemove (TargetRef ''b''), IoUpsert ((ex_managed ''edge'')\<lparr>mt_port := 0\<rparr>)]"
    by (simp add: target_ref_valid_def ex_managed_def)
  from inventories_agree [OF this, of "TargetRef ''edge''" "\<lambda>_. ''db error''"] show ?thesis by (simp add: ex_managed_def starts_with_def)
qed

end
