(* ===== verification/Vault.thy ===== *)
theory Vault
  imports Database "HOL-Library.Word"
begin

text \<open>
  The credential vault (\<open>daimon-vault\<close>): credential references, credentials with their
  redacting \<open>Debug\<close>, sealing, the stub client and the PostgreSQL client with its
  time-limited LRU cache.

  The cipher and the JSON codec of a credential are parameters (\<open>vault_env\<close>), and so is the
  text of the database's uniqueness error. The contract of the \<open>VaultClient\<close> trait is a
  locale, interpreted on both clients.
\<close>

section \<open>References\<close>

datatype credential_ref =
    CrNamed string
  | CrPath string string string
  | CrUuid string

datatype cred_ref_error = CredMissingScheme | CredInvalidShape

fun show_cred_ref_error :: "cred_ref_error \<Rightarrow> string" where
  "show_cred_ref_error CredMissingScheme = ''credential ref must begin with `vault://`''"
| "show_cred_ref_error CredInvalidShape =
     ''vault:// ref must be `vault://<name>`, `vault://<uuid>`, or `vault://<org>/<collection>/<item>`''"

definition looks_like_uuid :: "string \<Rightarrow> bool" where
  "looks_like_uuid s \<longleftrightarrow>
     length s = 36 \<and>
     list_all (\<lambda>(i, b). if i \<in> {8, 13, 18, 23} then b = CHR ''-'' else is_ascii_hexdigit b)
       (enumerate 0 s)"

definition credential_ref_parse :: "string \<Rightarrow> (credential_ref, cred_ref_error) result" where
  "credential_ref_parse s =
     (case strip_prefix ''vault://'' s of
        None \<Rightarrow> Err CredMissingScheme
      | Some rest \<Rightarrow>
          (case split_on CHR ''/'' rest of
             [single] \<Rightarrow>
               if single \<noteq> '''' then
                 (if looks_like_uuid single then Ok (CrUuid single) else Ok (CrNamed single))
               else Err CredInvalidShape
           | [org, coll, item] \<Rightarrow>
               if org \<noteq> '''' \<and> coll \<noteq> '''' \<and> item \<noteq> '''' then Ok (CrPath org coll item)
               else Err CredInvalidShape
           | _ \<Rightarrow> Err CredInvalidShape))"

fun credential_ref_name :: "credential_ref \<Rightarrow> string option" where
  "credential_ref_name (CrNamed n) = Some n"
| "credential_ref_name (CrPath _ _ item) = Some item"
| "credential_ref_name (CrUuid _) = None"

fun show_credential_ref :: "credential_ref \<Rightarrow> string" where
  "show_credential_ref (CrNamed n) = ''vault://'' @ n"
| "show_credential_ref (CrPath org coll item) = ''vault://'' @ org @ ''/'' @ coll @ ''/'' @ item"
| "show_credential_ref (CrUuid u) = ''vault://'' @ u"

fun credential_ref_valid :: "credential_ref \<Rightarrow> bool" where
  "credential_ref_valid (CrNamed n) = (n \<noteq> '''' \<and> CHR ''/'' \<notin> set n \<and> \<not> looks_like_uuid n)"
| "credential_ref_valid (CrPath org coll item) =
     (org \<noteq> '''' \<and> coll \<noteq> '''' \<and> item \<noteq> '''' \<and>
      CHR ''/'' \<notin> set org \<and> CHR ''/'' \<notin> set coll \<and> CHR ''/'' \<notin> set item)"
| "credential_ref_valid (CrUuid u) = (u \<noteq> '''' \<and> CHR ''/'' \<notin> set u \<and> looks_like_uuid u)"

section \<open>Credentials\<close>

datatype credential =
    SshKey string string "string option"
  | SshPassword string string
  | ApiToken string
  | Generic "(string, string) bmap"

datatype credential_kind = CkSshKey | CkSshPassword | CkApiToken | CkGeneric

fun credential_kind_of :: "credential \<Rightarrow> credential_kind" where
  "credential_kind_of (SshKey _ _ _) = CkSshKey"
| "credential_kind_of (SshPassword _ _) = CkSshPassword"
| "credential_kind_of (ApiToken _) = CkApiToken"
| "credential_kind_of (Generic _) = CkGeneric"

definition redacted :: string where
  "redacted = debug_str ''<redacted>''"

fun debug_credential :: "credential \<Rightarrow> string" where
  "debug_credential (SshKey u _ _) =
     ''SshKey { username: '' @ debug_str u @ '', private_key_pem: '' @ redacted @
     '', passphrase: '' @ redacted @ '' }''"
| "debug_credential (SshPassword u _) =
     ''SshPassword { username: '' @ debug_str u @ '', password: '' @ redacted @ '' }''"
| "debug_credential (ApiToken _) = ''ApiToken { token: '' @ redacted @ '' }''"
| "debug_credential (Generic fs) =
     ''Generic { fields: {'' @ join '', '' (map (\<lambda>(k, _). debug_str k @ '': '' @ redacted) fs) @ ''} }''"

text \<open>Two credentials that differ in secret material only.\<close>

fun same_public :: "credential \<Rightarrow> credential \<Rightarrow> bool" where
  "same_public (SshKey u _ _) (SshKey u' _ _) = (u = u')"
| "same_public (SshPassword u _) (SshPassword u' _) = (u = u')"
| "same_public (ApiToken _) (ApiToken _) = True"
| "same_public (Generic f) (Generic g) = (map fst f = map fst g)"
| "same_public _ _ = False"

datatype vault_error =
    VaultNotFound string
  | VaultSessionLocked
  | VaultTransport string
  | VaultDecode string
  | VaultOther string

fun show_vault_error :: "vault_error \<Rightarrow> string" where
  "show_vault_error (VaultNotFound r) = ''credential ref `'' @ r @ ''` not found''"
| "show_vault_error VaultSessionLocked = ''vault session is locked or expired''"
| "show_vault_error (VaultTransport e) = ''vault transport error: '' @ e"
| "show_vault_error (VaultDecode e) = ''vault response decode error: '' @ e"
| "show_vault_error (VaultOther e) = e"

section \<open>The stub client\<close>

type_synonym stub_vault = "(string, credential) hmap"

definition stub_insert :: "credential_ref \<Rightarrow> credential \<Rightarrow> stub_vault \<Rightarrow> stub_vault" where
  "stub_insert r c v = hm_insert (show_credential_ref r) c v"

definition stub_resolve :: "credential_ref \<Rightarrow> (stub_vault, credential, vault_error) eff" where
  "stub_resolve r v =
     (ok_or (map_of v (show_credential_ref r)) (VaultNotFound (show_credential_ref r)), v)"

section \<open>Sealing\<close>

type_synonym bytes = "8 word list"

definition SEAL_NONCE_LEN :: nat where
  "SEAL_NONCE_LEN = 24"

datatype seal_error =
    EnvKeyMissing
  | InvalidHex
  | InvalidKeyLength nat
  | TruncatedPayload
  | SealEncrypt string
  | SealDecrypt string

fun show_seal_error :: "seal_error \<Rightarrow> string" where
  "show_seal_error EnvKeyMissing = ''DAIMON_VAULT_SEAL_KEY env var is not set''"
| "show_seal_error InvalidHex = ''seal key is not valid hex''"
| "show_seal_error (InvalidKeyLength n) =
     ''seal key must be exactly 32 bytes (64 hex chars), got '' @ show_nat n"
| "show_seal_error TruncatedPayload = ''sealed payload truncated below nonce length''"
| "show_seal_error (SealEncrypt e) = ''encryption failed: '' @ e"
| "show_seal_error (SealDecrypt e) = ''decryption failed (wrong key or tampered payload): '' @ e"

record vault_env =
  ve_encrypt :: "bytes \<Rightarrow> bytes \<Rightarrow> (bytes, string) result"
  ve_decrypt :: "bytes \<Rightarrow> bytes \<Rightarrow> (bytes, string) result"
  ve_encode :: "credential \<Rightarrow> (bytes, string) result"
  ve_decode :: "bytes \<Rightarrow> (credential, string) result"
  ve_unique_error :: string

text \<open>What the vault relies on of the cipher and the codec: each undoes itself.\<close>

definition vault_env_ok :: "vault_env \<Rightarrow> bool" where
  "vault_env_ok ve \<longleftrightarrow>
     (\<forall>n p c. ve_encrypt ve n p = Ok c \<longrightarrow> ve_decrypt ve n c = Ok p) \<and>
     (\<forall>c b. ve_encode ve c = Ok b \<longrightarrow> ve_decode ve b = Ok c)"

text \<open>The nonce comes from the operating system's generator.\<close>

definition seal :: "vault_env \<Rightarrow> bytes \<Rightarrow> bytes \<Rightarrow> (bytes, seal_error) result" where
  "seal ve nonce plaintext =
     (case ve_encrypt ve nonce plaintext of
        Err e \<Rightarrow> Err (SealEncrypt e)
      | Ok ciphertext \<Rightarrow> Ok (nonce @ ciphertext))"

definition unseal :: "vault_env \<Rightarrow> bytes \<Rightarrow> (bytes, seal_error) result" where
  "unseal ve sealed =
     (if length sealed < SEAL_NONCE_LEN then Err TruncatedPayload
      else (case ve_decrypt ve (take SEAL_NONCE_LEN sealed) (drop SEAL_NONCE_LEN sealed) of
              Err e \<Rightarrow> Err (SealDecrypt e)
            | Ok p \<Rightarrow> Ok p))"

section \<open>The cache\<close>

definition DEFAULT_CACHE_SIZE :: nat where
  "DEFAULT_CACHE_SIZE = 64"

definition DEFAULT_CACHE_TTL :: millis where
  "DEFAULT_CACHE_TTL = 300000"

record cache_entry =
  ce_cred :: credential
  ce_inserted_at :: millis

text \<open>Least recently used last.\<close>

type_synonym lru = "(string \<times> cache_entry) list"

definition lru_get :: "string \<Rightarrow> lru \<Rightarrow> cache_entry option \<times> lru" where
  "lru_get k c =
     (case map_of c k of
        Some e \<Rightarrow> (Some e, (k, e) # hm_remove k c)
      | None \<Rightarrow> (None, c))"

definition lru_put :: "string \<Rightarrow> cache_entry \<Rightarrow> lru \<Rightarrow> lru" where
  "lru_put k e c = take DEFAULT_CACHE_SIZE ((k, e) # hm_remove k c)"

definition cache_lookup :: "millis \<Rightarrow> string \<Rightarrow> lru \<Rightarrow> credential option \<times> lru" where
  "cache_lookup now k c =
     (case lru_get k c of
        (Some e, c') \<Rightarrow>
          if now - ce_inserted_at e < DEFAULT_CACHE_TTL then (Some (ce_cred e), c')
          else (None, hm_remove k c')
      | (None, c') \<Rightarrow> (None, c'))"

section \<open>The PostgreSQL client\<close>

fun cred_kind_to_str :: "credential_kind \<Rightarrow> string" where
  "cred_kind_to_str CkSshKey = ''SshKey''"
| "cred_kind_to_str CkSshPassword = ''SshPassword''"
| "cred_kind_to_str CkApiToken = ''ApiToken''"
| "cred_kind_to_str CkGeneric = ''Generic''"

definition parse_cred_kind :: "string \<Rightarrow> (credential_kind, vault_error) result" where
  "parse_cred_kind s =
     (if s = ''SshKey'' then Ok CkSshKey
      else if s = ''SshPassword'' then Ok CkSshPassword
      else if s = ''ApiToken'' then Ok CkApiToken
      else if s = ''Generic'' then Ok CkGeneric
      else Err (VaultDecode (''unknown kind: '' @ s)))"

record cred_row =
  cr_id :: uuid
  cr_name :: string
  cr_kind :: string
  cr_payload_sealed :: bytes
  cr_created_at :: millis
  cr_updated_at :: millis

record credential_metadata =
  cm_id :: uuid
  cm_name :: string
  cm_kind :: credential_kind
  cm_created_at :: millis
  cm_updated_at :: millis

record pg_vault =
  pv_db :: "cred_row list db"
  pv_cache :: lru

definition vault_stmt ::
  "string \<Rightarrow> (cred_row list \<Rightarrow> 'a \<times> cred_row list) \<Rightarrow> (pg_vault, 'a, vault_error) eff" where
  "vault_stmt op f v =
     (case db_stmt f (pv_db v) of
        (Ok x, d) \<Rightarrow> (Ok x, v\<lparr>pv_db := d\<rparr>)
      | (Err (PoolFault e), d) \<Rightarrow> (Err (VaultTransport (''pool: '' @ e)), v\<lparr>pv_db := d\<rparr>)
      | (Err (PgFault e), d) \<Rightarrow> (Err (VaultTransport (op @ '': '' @ e)), v\<lparr>pv_db := d\<rparr>))"

fun collect_metadata :: "cred_row list \<Rightarrow> (credential_metadata list, vault_error) result" where
  "collect_metadata [] = Ok []"
| "collect_metadata (r # rs) =
     bind_result (parse_cred_kind (cr_kind r)) (\<lambda>k.
     bind_result (collect_metadata rs) (\<lambda>ms.
       Ok (\<lparr>cm_id = cr_id r, cm_name = cr_name r, cm_kind = k, cm_created_at = cr_created_at r,
            cm_updated_at = cr_updated_at r\<rparr> # ms)))"

definition vault_list_metadata :: "(pg_vault, credential_metadata list, vault_error) eff" where
  "vault_list_metadata =
     bindE (vault_stmt ''list'' (\<lambda>rows. (sort_key cr_name rows, rows))) (\<lambda>rows. liftE (collect_metadata rows))"

definition seal_credential :: "vault_env \<Rightarrow> bytes \<Rightarrow> credential \<Rightarrow> (bytes, vault_error) result" where
  "seal_credential ve nonce cred =
     bind_result (map_err (\<lambda>e. VaultOther (''serialize: '' @ e)) (ve_encode ve cred)) (\<lambda>blob.
     map_err (\<lambda>e. VaultOther (''seal: '' @ show_seal_error e)) (seal ve nonce blob))"

definition open_credential :: "vault_env \<Rightarrow> bytes \<Rightarrow> (credential, vault_error) result" where
  "open_credential ve sealed =
     bind_result (map_err (\<lambda>e. VaultOther (''unseal: '' @ show_seal_error e)) (unseal ve sealed)) (\<lambda>blob.
     map_err (\<lambda>e. VaultOther (''decode: '' @ e)) (ve_decode ve blob))"

text \<open>The name is unique: an insert or a rename that would repeat one is refused.\<close>

definition vault_create ::
  "vault_env \<Rightarrow> bytes \<Rightarrow> uuid \<Rightarrow> millis \<Rightarrow> string \<Rightarrow> credential \<Rightarrow> (pg_vault, uuid, vault_error) eff" where
  "vault_create ve nonce u now name cred =
     bindE (liftE (seal_credential ve nonce cred)) (\<lambda>sealed.
     bindE (vault_stmt ''insert'' (\<lambda>rows.
              if name \<in> cr_name ` set rows then (False, rows)
              else (True, rows @ [\<lparr>cr_id = u, cr_name = name,
                     cr_kind = cred_kind_to_str (credential_kind_of cred), cr_payload_sealed = sealed,
                     cr_created_at = now, cr_updated_at = now\<rparr>]))) (\<lambda>ok.
     if ok then retE u else failE (VaultTransport (''insert: '' @ ve_unique_error ve))))"

definition invalidate_cache :: "pg_vault \<Rightarrow> pg_vault" where
  "invalidate_cache v = v\<lparr>pv_cache := []\<rparr>"

definition map_row :: "uuid \<Rightarrow> (cred_row \<Rightarrow> cred_row) \<Rightarrow> cred_row list \<Rightarrow> cred_row list" where
  "map_row i f rows = map (\<lambda>r. if cr_id r = i then f r else r) rows"

definition touched :: "uuid \<Rightarrow> bool \<Rightarrow> (pg_vault, unit, vault_error) eff" where
  "touched i found = (if found then modifyE invalidate_cache else failE (VaultNotFound i))"

definition vault_update ::
  "vault_env \<Rightarrow> bytes \<Rightarrow> millis \<Rightarrow> uuid \<Rightarrow> credential \<Rightarrow> (pg_vault, unit, vault_error) eff" where
  "vault_update ve nonce now i cred =
     bindE (liftE (seal_credential ve nonce cred)) (\<lambda>sealed.
     bindE (vault_stmt ''update'' (\<lambda>rows.
              (i \<in> cr_id ` set rows,
               map_row i (\<lambda>r. r\<lparr>cr_kind := cred_kind_to_str (credential_kind_of cred),
                                cr_payload_sealed := sealed, cr_updated_at := now\<rparr>) rows))) (touched i))"

definition vault_rename ::
  "vault_env \<Rightarrow> millis \<Rightarrow> uuid \<Rightarrow> string \<Rightarrow> (pg_vault, unit, vault_error) eff" where
  "vault_rename ve now i name =
     bindE (vault_stmt ''rename'' (\<lambda>rows.
              if i \<in> cr_id ` set rows \<and> (\<exists>r \<in> set rows. cr_id r \<noteq> i \<and> cr_name r = name)
              then (None, rows)
              else (Some (i \<in> cr_id ` set rows),
                    map_row i (\<lambda>r. r\<lparr>cr_name := name, cr_updated_at := now\<rparr>) rows))) (\<lambda>x.
     case x of None \<Rightarrow> failE (VaultTransport (''rename: '' @ ve_unique_error ve))
             | Some found \<Rightarrow> touched i found)"

definition vault_delete :: "uuid \<Rightarrow> (pg_vault, unit, vault_error) eff" where
  "vault_delete i =
     bindE (vault_stmt ''delete'' (\<lambda>rows. (i \<in> cr_id ` set rows, filter (\<lambda>r. cr_id r \<noteq> i) rows))) (touched i)"

definition vault_reveal :: "vault_env \<Rightarrow> uuid \<Rightarrow> (pg_vault, credential, vault_error) eff" where
  "vault_reveal ve i =
     bindE (vault_stmt ''reveal'' (\<lambda>rows. (find (\<lambda>r. cr_id r = i) rows, rows))) (\<lambda>row.
     liftE (bind_result (ok_or row (VaultNotFound i)) (\<lambda>r. open_credential ve (cr_payload_sealed r))))"

text \<open>\<open>resolve\<close> is cut where it awaits: the cache look-up, the fetch, and the cache fill.\<close>

definition resolve_lookup :: "millis \<Rightarrow> string \<Rightarrow> pg_vault \<Rightarrow> credential option \<times> pg_vault" where
  "resolve_lookup now name v =
     (case cache_lookup now name (pv_cache v) of (x, c) \<Rightarrow> (x, v\<lparr>pv_cache := c\<rparr>))"

definition resolve_fetch ::
  "vault_env \<Rightarrow> credential_ref \<Rightarrow> string \<Rightarrow> (pg_vault, credential, vault_error) eff" where
  "resolve_fetch ve vref name =
     bindE (vault_stmt ''resolve'' (\<lambda>rows. (find (\<lambda>r. cr_name r = name) rows, rows))) (\<lambda>row.
     liftE (bind_result (ok_or row (VaultNotFound (show_credential_ref vref))) (\<lambda>r.
              open_credential ve (cr_payload_sealed r))))"

definition resolve_put :: "millis \<Rightarrow> string \<Rightarrow> credential \<Rightarrow> pg_vault \<Rightarrow> pg_vault" where
  "resolve_put now name cred v =
     v\<lparr>pv_cache := lru_put name \<lparr>ce_cred = cred, ce_inserted_at = now\<rparr> (pv_cache v)\<rparr>"

definition vault_resolve ::
  "vault_env \<Rightarrow> millis \<Rightarrow> millis \<Rightarrow> credential_ref \<Rightarrow> (pg_vault, credential, vault_error) eff" where
  "vault_resolve ve now now' vref v =
     (case credential_ref_name vref of
        None \<Rightarrow> (Err (VaultNotFound (show_credential_ref vref)), v)
      | Some name \<Rightarrow>
          (case resolve_lookup now name v of
             (Some cred, v1) \<Rightarrow> (Ok cred, v1)
           | (None, v1) \<Rightarrow>
               (case resolve_fetch ve vref name v1 of
                  (Err e, v2) \<Rightarrow> (Err e, v2)
                | (Ok cred, v2) \<Rightarrow> (Ok cred, resolve_put now' name cred v2))))"

section \<open>Lemmas: references and redaction\<close>

lemma credential_ref_parse_show:
  "credential_ref_valid r \<Longrightarrow> credential_ref_parse (show_credential_ref r) = Ok r"
proof (cases r)
  case (CrPath org coll item)
  assume v: "credential_ref_valid r"
  have "split_on CHR ''/'' (org @ CHR ''/'' # coll @ CHR ''/'' # item) = [org, coll, item]"
    using v CrPath by (simp add: split_on_append_delim split_on_fresh)
  moreover have "strip_prefix ''vault://'' (''vault://'' @ org @ ''/'' @ coll @ ''/'' @ item) =
      Some (org @ CHR ''/'' # coll @ CHR ''/'' # item)"
    by (simp add: strip_prefix_Some_iff)
  ultimately show ?thesis using v CrPath by (simp add: credential_ref_parse_def)
qed (simp_all add: credential_ref_parse_def strip_prefix_def split_on_fresh)

lemma list_upto3_cases:
  obtains (none) "xs = []" | (one) a where "xs = [a]" | (two) a b where "xs = [a, b]"
    | (three) a b c where "xs = [a, b, c]" | (more) a b c d r where "xs = a # b # c # d # r"
  by (metis list.exhaust)

lemma credential_ref_parse_valid:
  assumes "credential_ref_parse s = Ok r"
  shows "credential_ref_valid r \<and> s = show_credential_ref r"
proof -
  obtain rest where s: "s = ''vault://'' @ rest"
    using assms by (auto simp: credential_ref_parse_def strip_prefix_Some_iff split: option.splits)
  then have p: "credential_ref_parse (''vault://'' @ rest) = Ok r" using assms by simp
  have j: "join ''/'' (split_on CHR ''/'' rest) = rest" by (rule join_split_on)
  have nd: "\<And>q. q \<in> set (split_on CHR ''/'' rest) \<Longrightarrow> CHR ''/'' \<notin> set q" by (rule split_on_no_delim)
  have r: "(case split_on CHR ''/'' rest of
       [single] \<Rightarrow>
         if single \<noteq> '''' then
           (if looks_like_uuid single then Ok (CrUuid single) else Ok (CrNamed single))
         else Err CredInvalidShape
     | [org, coll, item] \<Rightarrow>
         if org \<noteq> '''' \<and> coll \<noteq> '''' \<and> item \<noteq> '''' then Ok (CrPath org coll item)
         else Err CredInvalidShape
     | _ \<Rightarrow> Err CredInvalidShape) = Ok r"
    using p unfolding credential_ref_parse_def strip_prefix_append option.case .
  show ?thesis
  proof (cases "split_on CHR ''/'' rest" rule: list_upto3_cases)
    case (one a)
    then show ?thesis using r j nd [of a] s by (auto split: if_splits)
  next
    case (three a b c)
    then show ?thesis using r j nd [of a] nd [of b] nd [of c] s by (auto split: if_splits)
  qed (use r in simp_all)
qed

lemma debug_credential_public: "same_public a b \<Longrightarrow> debug_credential a = debug_credential b"
proof (induction a b rule: same_public.induct)
  case (4 f g)
  have m: "map (\<lambda>(k, _). debug_str k @ '': '' @ redacted) h =
      map (\<lambda>k. debug_str k @ '': '' @ redacted) (map fst h)" for h :: "(string \<times> string) list"
    by (simp add: case_prod_unfold)
  show ?case
    using 4 unfolding debug_credential.simps m same_public.simps by simp
qed auto

lemma cred_kind_roundtrip [simp]: "parse_cred_kind (cred_kind_to_str k) = Ok k"
  by (cases k) (simp_all add: parse_cred_kind_def)

section \<open>Lemmas: sealing\<close>

lemma unseal_seal:
  assumes "vault_env_ok ve" "length nonce = SEAL_NONCE_LEN" "seal ve nonce p = Ok b"
  shows "unseal ve b = Ok p"
proof -
  obtain c where "ve_encrypt ve nonce p = Ok c" and "b = nonce @ c"
    using assms(3) by (auto simp: seal_def split: result.splits)
  then show ?thesis using assms(1,2) by (simp add: unseal_def vault_env_ok_def)
qed

lemma open_seal_credential:
  assumes "vault_env_ok ve" "length nonce = SEAL_NONCE_LEN" "seal_credential ve nonce c = Ok b"
  shows "open_credential ve b = Ok c"
proof -
  obtain blob where e: "ve_encode ve c = Ok blob" and s: "seal ve nonce blob = Ok b"
    using assms(3) by (auto simp: seal_credential_def bind_result_Ok_iff)
  have "unseal ve b = Ok blob" by (rule unseal_seal [OF assms(1,2) s])
  then show ?thesis using e assms(1) by (simp add: open_credential_def vault_env_ok_def)
qed

lemma unseal_truncated: "length b < SEAL_NONCE_LEN \<Longrightarrow> unseal ve b = Err TruncatedPayload"
  by (simp add: unseal_def)

section \<open>Lemmas: the cache\<close>

text \<open>Operations on the cache add at most the entry they are given.\<close>

lemma set_hm_remove: "set (hm_remove k m) = {x \<in> set m. fst x \<noteq> k}"
  by (auto simp: hm_remove_def)

lemma lru_get_set: "lru_get k c = (x, c') \<Longrightarrow> set c' \<subseteq> set c \<and> (\<forall>e. x = Some e \<longrightarrow> (k, e) \<in> set c)"
  by (auto simp: lru_get_def set_hm_remove intro: map_of_SomeD [OF sym] split: option.splits)

lemma lru_put_set: "set (lru_put k e c) \<subseteq> insert (k, e) {x \<in> set c. fst x \<noteq> k}"
  by (auto simp: lru_put_def set_hm_remove dest!: in_set_takeD)

lemma lru_put_size: "length (lru_put k e c) \<le> DEFAULT_CACHE_SIZE"
  by (simp add: lru_put_def)

lemma cache_lookup_set:
  assumes "cache_lookup now k c = (x, c')"
  shows "set c' \<subseteq> set c \<and> (\<forall>cred. x = Some cred \<longrightarrow>
    (\<exists>e. (k, e) \<in> set c \<and> ce_cred e = cred \<and> now - ce_inserted_at e < DEFAULT_CACHE_TTL))"
proof -
  obtain y c1 where y: "lru_get k c = (y, c1)" by fastforce
  have "set c1 \<subseteq> set c" "\<forall>e. y = Some e \<longrightarrow> (k, e) \<in> set c" using lru_get_set [OF y] by auto
  then show ?thesis
    using assms y by (auto simp: cache_lookup_def set_hm_remove split: option.splits if_splits)
qed

section \<open>Lemmas: what the table holds\<close>

definition stored_cred :: "vault_env \<Rightarrow> cred_row list \<Rightarrow> string \<Rightarrow> (credential, vault_error) result option" where
  "stored_cred ve rows name =
     map_option (\<lambda>r. open_credential ve (cr_payload_sealed r)) (find (\<lambda>r. cr_name r = name) rows)"

abbreviation pv_rows :: "pg_vault \<Rightarrow> cred_row list" where
  "pv_rows v \<equiv> db_tables (pv_db v)"

text \<open>A coherent cache: every entry is what the table holds under its name; names are unique.\<close>

definition vault_coherent :: "vault_env \<Rightarrow> pg_vault \<Rightarrow> bool" where
  "vault_coherent ve v \<longleftrightarrow>
     distinct (map cr_id (pv_rows v)) \<and> distinct (map cr_name (pv_rows v)) \<and>
     (\<forall>(k, e) \<in> set (pv_cache v). stored_cred ve (pv_rows v) k = Some (Ok (ce_cred e)))"

lemma vault_stmt_rows:
  assumes run: "vault_stmt op f v = (r, v')"
  shows "pv_cache v' = pv_cache v \<and> pv_rows v' = (if is_ok r then snd (f (pv_rows v)) else pv_rows v)"
proof -
  obtain x d where s: "db_stmt f (pv_db v) = (x, d)" by fastforce
  show ?thesis
    using run s db_stmt_tables [OF s]
    by (cases x) (auto simp: vault_stmt_def split: db_fault.splits)
qed

lemma vault_stmt_Ok:
  assumes run: "vault_stmt op f v = (Ok x, v')"
  shows "x = fst (f (pv_rows v))"
proof -
  obtain y d where s: "db_stmt f (pv_db v) = (y, d)" by fastforce
  have "y = Ok x" using run s by (cases y) (auto simp: vault_stmt_def split: db_fault.splits)
  then have "(x, db_tables d) = f (pv_rows v)" using s by (simp add: db_stmt_Ok_iff)
  then show ?thesis by (metis fst_conv)
qed

lemma coherent_subset:
  "vault_coherent ve v \<Longrightarrow> pv_rows v' = pv_rows v \<Longrightarrow> set (pv_cache v') \<subseteq> set (pv_cache v) \<Longrightarrow>
   vault_coherent ve v'"
  by (auto simp: vault_coherent_def)

lemma coherent_empty_cache:
  "distinct (map cr_id (pv_rows v)) \<Longrightarrow> distinct (map cr_name (pv_rows v)) \<Longrightarrow> pv_cache v = [] \<Longrightarrow>
   vault_coherent ve v"
  by (simp add: vault_coherent_def)

lemma resolve_fetch_run:
  assumes "resolve_fetch ve vref name v = (r, v')"
  shows "pv_rows v' = pv_rows v \<and> pv_cache v' = pv_cache v \<and>
    (\<forall>cred. r = Ok cred \<longrightarrow> stored_cred ve (pv_rows v) name = Some (Ok cred))"
proof -
  obtain x v1 where s: "vault_stmt ''resolve'' (\<lambda>rows. (find (\<lambda>r. cr_name r = name) rows, rows)) v = (x, v1)"
    by fastforce
  have "pv_cache v1 = pv_cache v" "pv_rows v1 = pv_rows v" using vault_stmt_rows [OF s] by auto
  moreover have "v' = v1" using assms s by (cases x) (simp_all add: resolve_fetch_def bindE_def liftE_def)
  moreover have "stored_cred ve (pv_rows v) name = Some (Ok cred)" if r: "r = Ok cred" for cred
  proof (cases x)
    case (Ok row)
    then have "row = find (\<lambda>r. cr_name r = name) (pv_rows v)" using vault_stmt_Ok s by fastforce
    then show ?thesis
      using assms s Ok r
      by (auto simp: resolve_fetch_def bindE_def liftE_def bind_result_Ok_iff stored_cred_def)
  qed (use assms s r in \<open>simp add: resolve_fetch_def bindE_def\<close>)
  ultimately show ?thesis by blast
qed

text \<open>On a coherent vault \<open>resolve\<close> answers with what the table holds, cached or not, and
  leaves the vault coherent.\<close>

lemma vault_resolve_coherent:
  assumes coh: "vault_coherent ve v" and run: "vault_resolve ve now now' vref v = (r, v')"
  shows "vault_coherent ve v' \<and> pv_rows v' = pv_rows v \<and>
    (\<forall>cred. r = Ok cred \<longrightarrow> (\<exists>name. credential_ref_name vref = Some name \<and>
       stored_cred ve (pv_rows v) name = Some (Ok cred)))"
proof (cases "credential_ref_name vref")
  case None
  then show ?thesis using assms by (auto simp: vault_resolve_def)
next
  case name: (Some name)
  obtain x c where l: "cache_lookup now name (pv_cache v) = (x, c)" by fastforce
  have c: "set c \<subseteq> set (pv_cache v)" using cache_lookup_set [OF l] by blast
  let ?v1 = "v\<lparr>pv_cache := c\<rparr>"
  have coh1: "vault_coherent ve ?v1" using coherent_subset [OF coh, of ?v1] c by simp
  show ?thesis
  proof (cases x)
    case (Some cred)
    then obtain e where "(name, e) \<in> set (pv_cache v)" "ce_cred e = cred"
      using cache_lookup_set [OF l] by auto
    then have "stored_cred ve (pv_rows v) name = Some (Ok cred)" using coh by (auto simp: vault_coherent_def)
    then show ?thesis
      using run l Some name coh1 by (auto simp: vault_resolve_def resolve_lookup_def)
  next
    case None
    obtain y v2 where f: "resolve_fetch ve vref name ?v1 = (y, v2)" by fastforce
    have v2: "pv_rows v2 = pv_rows v" "pv_cache v2 = c"
      and st: "\<And>cred. y = Ok cred \<Longrightarrow> stored_cred ve (pv_rows v) name = Some (Ok cred)"
      using resolve_fetch_run [OF f] by auto
    have coh2: "vault_coherent ve v2" using coh1 v2 by (simp add: vault_coherent_def)
    have put: "vault_coherent ve (resolve_put now' name cred v2)" if y: "y = Ok cred" for cred
      using coh2 st [OF y] lru_put_set [of name "\<lparr>ce_cred = cred, ce_inserted_at = now'\<rparr>" "pv_cache v2"] v2
      by (fastforce simp: vault_coherent_def resolve_put_def)
    show ?thesis
      using run l None name f v2 st put coh2
      by (cases y) (auto simp: vault_resolve_def resolve_lookup_def resolve_put_def)
  qed
qed

section \<open>Lemmas: the operations keep the cache coherent\<close>

lemma stored_cred_append: "stored_cred ve rows k = Some x \<Longrightarrow> stored_cred ve (rows @ ys) k = Some x"
proof -
  have "find P xs = Some r \<Longrightarrow> find P (xs @ ys) = Some r" for P xs ys and r :: cred_row
    by (induction xs) auto
  then show "stored_cred ve rows k = Some x \<Longrightarrow> stored_cred ve (rows @ ys) k = Some x"
    by (auto simp: stored_cred_def)
qed

lemma map_row_Cons: "map_row i f (r # rows) = (if cr_id r = i then f r else r) # map_row i f rows"
  by (simp add: map_row_def)

lemma map_row_absent: "i \<notin> cr_id ` set rows \<Longrightarrow> map_row i f rows = rows"
  by (induction rows) (auto simp: map_row_def)

lemma map_row_ids: "(\<And>r. cr_id (f r) = cr_id r) \<Longrightarrow> map cr_id (map_row i f rows) = map cr_id rows"
  by (simp add: map_row_def)

lemma map_row_names: "(\<And>r. cr_name (f r) = cr_name r) \<Longrightarrow> map cr_name (map_row i f rows) = map cr_name rows"
  by (simp add: map_row_def)

lemma rename_distinct:
  assumes "distinct (map cr_id rows)" "distinct (map cr_name rows)"
    and "\<not> (\<exists>r \<in> set rows. cr_id r \<noteq> i \<and> cr_name r = name)"
    and "\<And>r. cr_name (f r) = name"
  shows "distinct (map cr_name (map_row i f rows))"
  using assms(1-3)
proof (induction rows)
  case (Cons r rows)
  have tl: "distinct (map cr_name (map_row i f rows))" using Cons by auto
  show ?case
  proof (cases "cr_id r = i")
    case True
    then have "map_row i f rows = rows" using Cons.prems(1) by (auto intro!: map_row_absent)
    moreover have "\<forall>q \<in> set rows. cr_id q \<noteq> i" using Cons.prems(1) True by (metis distinct.simps(2) image_eqI list.simps(9) set_map)
    then have "name \<notin> cr_name ` set rows" using Cons.prems(3) by auto
    ultimately show ?thesis using tl True assms(4) by (simp add: map_row_Cons)
  next
    case False
    have "cr_name r \<notin> cr_name ` set (map_row i f rows)"
      using Cons.prems False assms(4) by (auto simp: map_row_def)
    then show ?thesis using tl False by (simp add: map_row_Cons)
  qed
qed (simp add: map_row_def)

text \<open>The common end of the three mutations by id: a statement, then \<open>touched\<close>.\<close>

lemma mutation_coherent:
  assumes coh: "vault_coherent ve v"
    and run: "bindE (vault_stmt op (\<lambda>rows. (i \<in> cr_id ` set rows, g rows))) (touched i) v = (r, v')"
    and ids: "distinct (map cr_id (g (pv_rows v)))" and names: "distinct (map cr_name (g (pv_rows v)))"
    and absent: "i \<notin> cr_id ` set (pv_rows v) \<Longrightarrow> g (pv_rows v) = pv_rows v"
  shows "vault_coherent ve v'"
proof -
  obtain x v1 where s: "vault_stmt op (\<lambda>rows. (i \<in> cr_id ` set rows, g rows)) v = (x, v1)" by fastforce
  have v1: "pv_cache v1 = pv_cache v" "pv_rows v1 = (if is_ok x then g (pv_rows v) else pv_rows v)"
    using vault_stmt_rows [OF s] by auto
  show ?thesis
  proof (cases x)
    case (Ok found)
    then have "found = (i \<in> cr_id ` set (pv_rows v))" using vault_stmt_Ok s by fastforce
    then show ?thesis
      using run s Ok v1 ids names absent coh
      by (auto simp: bindE_def touched_def modifyE_def failE_def invalidate_cache_def vault_coherent_def
          split: if_splits)
  next
    case (Err e)
    then show ?thesis using run s v1 coh by (auto simp: bindE_def vault_coherent_def)
  qed
qed

lemma vault_update_coherent:
  assumes "vault_coherent ve v" "vault_update ve nonce now i cred v = (r, v')"
  shows "vault_coherent ve v'"
proof (cases "seal_credential ve nonce cred")
  case (Ok sealed)
  let ?f = "\<lambda>r. r\<lparr>cr_kind := cred_kind_to_str (credential_kind_of cred), cr_payload_sealed := sealed,
    cr_updated_at := now\<rparr>"
  show ?thesis
    by (rule mutation_coherent [OF assms(1), where g = "map_row i ?f"])
      (use assms Ok in \<open>auto simp: vault_update_def bindE_def liftE_def map_row_ids map_row_names map_row_absent
        vault_coherent_def\<close>)
next
  case (Err e)
  then show ?thesis using assms by (simp add: vault_update_def bindE_def liftE_def)
qed

lemma vault_delete_coherent:
  assumes "vault_coherent ve v" "vault_delete i v = (r, v')"
  shows "vault_coherent ve v'"
proof (rule mutation_coherent [OF assms(1), where g = "filter (\<lambda>r. cr_id r \<noteq> i)"])
  show "i \<notin> cr_id ` set (pv_rows v) \<Longrightarrow> filter (\<lambda>r. cr_id r \<noteq> i) (pv_rows v) = pv_rows v"
    by (auto simp: filter_id_conv)
qed (use assms in \<open>auto simp: vault_delete_def vault_coherent_def distinct_map_filter\<close>)

lemma vault_rename_coherent:
  assumes coh: "vault_coherent ve v" and run: "vault_rename ve now i name v = (r, v')"
  shows "vault_coherent ve v'"
proof -
  let ?clash = "i \<in> cr_id ` set (pv_rows v) \<and> (\<exists>r \<in> set (pv_rows v). cr_id r \<noteq> i \<and> cr_name r = name)"
  let ?f = "\<lambda>r. r\<lparr>cr_name := name, cr_updated_at := now\<rparr>"
  let ?g = "\<lambda>rows. if i \<in> cr_id ` set rows \<and> (\<exists>r \<in> set rows. cr_id r \<noteq> i \<and> cr_name r = name)
    then (None, rows) else (Some (i \<in> cr_id ` set rows), map_row i ?f rows)"
  obtain x v1 where s: "vault_stmt ''rename'' ?g v = (x, v1)" by fastforce
  have v1: "pv_cache v1 = pv_cache v" "pv_rows v1 = (if is_ok x then snd (?g (pv_rows v)) else pv_rows v)"
    using vault_stmt_rows [OF s] by auto
  have d: "distinct (map cr_id (pv_rows v))" "distinct (map cr_name (pv_rows v))"
    using coh by (auto simp: vault_coherent_def)
  have names: "distinct (map cr_name (map_row i ?f (pv_rows v)))" if "\<not> ?clash"
  proof (cases "i \<in> cr_id ` set (pv_rows v)")
    case True
    then show ?thesis using that by (intro rename_distinct [OF d, where name = name]) auto
  qed (simp add: map_row_absent d)
  show ?thesis
  proof (cases x)
    case (Ok y)
    then have "y = fst (?g (pv_rows v))" using vault_stmt_Ok s by fastforce
    then show ?thesis
      using run s Ok v1 d names coh
      by (auto simp: vault_rename_def bindE_def touched_def modifyE_def failE_def invalidate_cache_def
          vault_coherent_def map_row_ids map_row_absent split: if_splits)
  next
    case (Err e)
    then show ?thesis using run s v1 coh by (auto simp: vault_rename_def bindE_def vault_coherent_def)
  qed
qed

lemma vault_create_coherent:
  assumes coh: "vault_coherent ve v" and run: "vault_create ve nonce u now name cred v = (r, v')"
    and fresh: "u \<notin> cr_id ` set (pv_rows v)"
  shows "vault_coherent ve v'"
proof (cases "seal_credential ve nonce cred")
  case (Ok sealed)
  let ?row = "\<lparr>cr_id = u, cr_name = name, cr_kind = cred_kind_to_str (credential_kind_of cred),
    cr_payload_sealed = sealed, cr_created_at = now, cr_updated_at = now\<rparr>"
  let ?g = "\<lambda>rows. if name \<in> cr_name ` set rows then (False, rows) else (True, rows @ [?row])"
  obtain x v1 where s: "vault_stmt ''insert'' ?g v = (x, v1)" by fastforce
  have v1: "pv_cache v1 = pv_cache v" "pv_rows v1 = (if is_ok x then snd (?g (pv_rows v)) else pv_rows v)"
    using vault_stmt_rows [OF s] by auto
  have "v' = v1"
    using run Ok s by (cases x) (auto simp: vault_create_def bindE_def liftE_def retE_def failE_def split: if_splits)
  moreover have "vault_coherent ve v1"
    using coh v1 fresh stored_cred_append [of ve "pv_rows v"]
    by (fastforce simp: vault_coherent_def split: if_splits)
  ultimately show ?thesis by simp
next
  case (Err e)
  then show ?thesis using run coh by (simp add: vault_create_def bindE_def liftE_def)
qed

inductive vault_step :: "vault_env \<Rightarrow> pg_vault \<Rightarrow> pg_vault \<Rightarrow> bool" for ve where
  vs_create: "u \<notin> cr_id ` set (pv_rows v) \<Longrightarrow> vault_create ve nonce u now name cred v = (r, v') \<Longrightarrow> vault_step ve v v'"
| vs_update: "vault_update ve nonce now i cred v = (r, v') \<Longrightarrow> vault_step ve v v'"
| vs_rename: "vault_rename ve now i name v = (r, v') \<Longrightarrow> vault_step ve v v'"
| vs_delete: "vault_delete i v = (r, v') \<Longrightarrow> vault_step ve v v'"
| vs_resolve: "vault_resolve ve now now' vref v = (r, v') \<Longrightarrow> vault_step ve v v'"

lemma vault_step_coherent: "vault_step ve v v' \<Longrightarrow> vault_coherent ve v \<Longrightarrow> vault_coherent ve v'"
  by (induction rule: vault_step.induct)
    (auto intro: vault_create_coherent vault_update_coherent vault_rename_coherent vault_delete_coherent
      dest: vault_resolve_coherent)

lemma vault_steps_coherent: "(vault_step ve)\<^sup>*\<^sup>* v v' \<Longrightarrow> vault_coherent ve v \<Longrightarrow> vault_coherent ve v'"
  by (induction rule: rtranclp_induct) (auto intro: vault_step_coherent)

section \<open>The contract of the trait\<close>

text \<open>\<open>held\<close> is what the client has under a reference: resolving returns it, fails as not
  found when there is nothing, and never changes it.\<close>

locale vault_client =
  fixes inv :: "'s \<Rightarrow> bool"
    and held :: "'s \<Rightarrow> credential_ref \<Rightarrow> credential option"
    and resolve :: "credential_ref \<Rightarrow> ('s, credential, vault_error) eff"
  assumes resolve_held: "inv s \<Longrightarrow> fst (resolve r s) = ok_or (held s r) (VaultNotFound (show_credential_ref r))"
    and resolve_inv: "inv s \<Longrightarrow> inv (snd (resolve r s))"
    and held_resolve: "inv s \<Longrightarrow> held (snd (resolve r s)) q = held s q"
begin

lemma resolve_stable:
  "inv s \<Longrightarrow> fst (resolve q (snd (resolve r s))) = fst (resolve q s)"
  by (simp add: resolve_held resolve_inv held_resolve)

lemma resolve_Ok_iff: "inv s \<Longrightarrow> fst (resolve r s) = Ok c \<longleftrightarrow> held s r = Some c"
  by (simp add: resolve_held)

end

interpretation stub_client: vault_client "\<lambda>_. True" "\<lambda>v r. map_of v (show_credential_ref r)" stub_resolve
  by unfold_locales (simp_all add: stub_resolve_def)

text \<open>For the PostgreSQL client: no faults, a coherent cache, and every row opens.\<close>

definition pg_held :: "vault_env \<Rightarrow> pg_vault \<Rightarrow> credential_ref \<Rightarrow> credential option" where
  "pg_held ve v r =
     (case credential_ref_name r of
        None \<Rightarrow> None
      | Some name \<Rightarrow> (case stored_cred ve (pv_rows v) name of Some (Ok c) \<Rightarrow> Some c | _ \<Rightarrow> None))"

definition vault_sound :: "vault_env \<Rightarrow> pg_vault \<Rightarrow> bool" where
  "vault_sound ve v \<longleftrightarrow> vault_coherent ve v \<and> db_faults (pv_db v) = [] \<and>
     (\<forall>r \<in> set (pv_rows v). is_ok (open_credential ve (cr_payload_sealed r)))"

lemma stored_cred_opens:
  assumes "vault_sound ve v" "stored_cred ve (pv_rows v) name = Some x"
  shows "\<exists>c. x = Ok c"
proof -
  obtain r where "r \<in> set (pv_rows v)" "x = open_credential ve (cr_payload_sealed r)"
    using assms(2) by (auto simp: stored_cred_def find_Some_iff) (metis nth_mem)
  then show ?thesis using assms(1) by (auto simp: vault_sound_def is_ok_iff)
qed

lemma vault_stmt_nofault:
  "db_faults (pv_db v) = [] \<Longrightarrow>
   vault_stmt op f v = (Ok (fst (f (pv_rows v))), v\<lparr>pv_db := (pv_db v)\<lparr>db_tables := snd (f (pv_rows v))\<rparr>\<rparr>)"
  by (simp add: vault_stmt_def db_stmt_def split: prod.splits)

lemma resolve_fetch_nofault:
  assumes "db_faults (pv_db v) = []"
  shows "resolve_fetch ve vref name v =
    (case stored_cred ve (pv_rows v) name of
       Some x \<Rightarrow> (x, v) | None \<Rightarrow> (Err (VaultNotFound (show_credential_ref vref)), v))"
  using assms
  by (simp add: resolve_fetch_def vault_stmt_nofault bindE_def liftE_def stored_cred_def ok_or_def
      split: option.splits)

lemma vault_resolve_sound:
  assumes "vault_sound ve v"
  shows "fst (vault_resolve ve now now' r v) = ok_or (pg_held ve v r) (VaultNotFound (show_credential_ref r)) \<and>
    db_faults (pv_db (snd (vault_resolve ve now now' r v))) = []"
proof (cases "credential_ref_name r")
  case None
  then show ?thesis using assms by (simp add: vault_resolve_def pg_held_def ok_or_def vault_sound_def)
next
  case name: (Some name)
  obtain x c where l: "cache_lookup now name (pv_cache v) = (x, c)" by fastforce
  have nf: "db_faults (pv_db v) = []" using assms by (simp add: vault_sound_def)
  show ?thesis
  proof (cases x)
    case (Some cred)
    then obtain e where "(name, e) \<in> set (pv_cache v)" "ce_cred e = cred"
      using cache_lookup_set [OF l] by auto
    then have "stored_cred ve (pv_rows v) name = Some (Ok cred)"
      using assms by (auto simp: vault_sound_def vault_coherent_def)
    then show ?thesis
      using l Some name nf by (simp add: vault_resolve_def resolve_lookup_def pg_held_def ok_or_def)
  next
    case None
    let ?v1 = "v\<lparr>pv_cache := c\<rparr>"
    have f: "resolve_fetch ve r name ?v1 = (case stored_cred ve (pv_rows v) name of
       Some x \<Rightarrow> (x, ?v1) | None \<Rightarrow> (Err (VaultNotFound (show_credential_ref r)), ?v1))"
      using resolve_fetch_nofault [of ?v1] nf by simp
    show ?thesis
    proof (cases "stored_cred ve (pv_rows v) name")
      case (Some y)
      then obtain cred where "y = Ok cred" using stored_cred_opens [OF assms] by blast
      with Some show ?thesis
        using l None name nf f
        by (simp add: vault_resolve_def resolve_lookup_def resolve_put_def pg_held_def ok_or_def)
    qed (use l None name nf f in \<open>simp add: vault_resolve_def resolve_lookup_def pg_held_def ok_or_def\<close>)
  qed
qed

lemma vault_resolve_keeps_sound:
  assumes "vault_sound ve v"
  shows "vault_sound ve (snd (vault_resolve ve now now' r v)) \<and>
    pv_rows (snd (vault_resolve ve now now' r v)) = pv_rows v"
proof -
  have coh: "vault_coherent ve v" using assms by (simp add: vault_sound_def)
  show ?thesis
    using vault_resolve_coherent [OF coh, of now now' r] vault_resolve_sound [OF assms, of now now' r] assms
    by (cases "vault_resolve ve now now' r v") (auto simp: vault_sound_def)
qed

interpretation pg_client: vault_client "vault_sound ve" "pg_held ve" "vault_resolve ve now now'"
  for ve now now'
proof unfold_locales
  show "pg_held ve (snd (vault_resolve ve now now' r v)) q = pg_held ve v q" if "vault_sound ve v" for v r q
    using vault_resolve_keeps_sound [OF that, of now now' r] by (simp only: pg_held_def)
qed (simp_all add: vault_resolve_sound vault_resolve_keeps_sound)

section \<open>Properties\<close>

lemma vault_create_rows:
  assumes run: "vault_create ve nonce u now name cred v = (Ok i, v')"
  obtains sealed where "seal_credential ve nonce cred = Ok sealed" and "name \<notin> cr_name ` set (pv_rows v)"
    and "pv_rows v' = pv_rows v @ [\<lparr>cr_id = u, cr_name = name,
      cr_kind = cred_kind_to_str (credential_kind_of cred), cr_payload_sealed = sealed,
      cr_created_at = now, cr_updated_at = now\<rparr>]"
proof -
  obtain sealed where sealed: "seal_credential ve nonce cred = Ok sealed"
    using run by (cases "seal_credential ve nonce cred") (auto simp: vault_create_def bindE_def liftE_def)
  let ?row = "\<lparr>cr_id = u, cr_name = name, cr_kind = cred_kind_to_str (credential_kind_of cred),
    cr_payload_sealed = sealed, cr_created_at = now, cr_updated_at = now\<rparr>"
  let ?g = "\<lambda>rows. if name \<in> cr_name ` set rows then (False, rows) else (True, rows @ [?row])"
  obtain x v1 where s: "vault_stmt ''insert'' ?g v = (x, v1)" by fastforce
  obtain ok where x: "x = Ok ok"
    using run sealed s by (cases x) (auto simp: vault_create_def bindE_def liftE_def)
  have ok: "ok = (name \<notin> cr_name ` set (pv_rows v))" using vault_stmt_Ok [OF s [unfolded x]] by simp
  have "ok" "v' = v1"
    using run sealed s x by (auto simp: vault_create_def bindE_def liftE_def retE_def failE_def split: if_splits)
  then show thesis using that sealed ok vault_stmt_rows [OF s] x by auto
qed

lemma find_append_fresh: "name \<notin> cr_name ` set rows \<Longrightarrow> cr_name r = name \<Longrightarrow>
   find (\<lambda>r. cr_name r = name) (rows @ [r]) = Some r"
  by (induction rows) auto

lemma vault_create_stored:
  assumes env: "vault_env_ok ve" and nonce: "length nonce = SEAL_NONCE_LEN"
    and run: "vault_create ve nonce u now name cred v = (Ok i, v')"
  shows "name \<notin> cr_name ` set (pv_rows v)" and "stored_cred ve (pv_rows v') name = Some (Ok cred)"
    and "pv_cache v' = pv_cache v"
proof -
  obtain sealed where sealed: "seal_credential ve nonce cred = Ok sealed"
    and new: "name \<notin> cr_name ` set (pv_rows v)"
    and rows: "pv_rows v' = pv_rows v @ [\<lparr>cr_id = u, cr_name = name,
      cr_kind = cred_kind_to_str (credential_kind_of cred), cr_payload_sealed = sealed,
      cr_created_at = now, cr_updated_at = now\<rparr>]"
    by (rule vault_create_rows [OF run])
  show "name \<notin> cr_name ` set (pv_rows v)" by (rule new)
  show "stored_cred ve (pv_rows v') name = Some (Ok cred)"
    using find_append_fresh [OF new] open_seal_credential [OF env nonce sealed] by (simp add: stored_cred_def rows)
  let ?g = "\<lambda>rows. if name \<in> cr_name ` set rows then (False, rows) else (True, rows @ [\<lparr>cr_id = u, cr_name = name,
      cr_kind = cred_kind_to_str (credential_kind_of cred), cr_payload_sealed = sealed,
      cr_created_at = now, cr_updated_at = now\<rparr>])"
  obtain x v1 where s: "vault_stmt ''insert'' ?g v = (x, v1)" by fastforce
  have "v' = v1"
    using run sealed s by (cases x) (auto simp: vault_create_def bindE_def liftE_def retE_def failE_def split: if_splits)
  then show "pv_cache v' = pv_cache v" using vault_stmt_rows [OF s] by simp
qed

text \<open>An update replaces what the table holds under the name of the row; the listing shows the rows.\<close>

lemma vault_update_stored:
  assumes env: "vault_env_ok ve" and nonce: "length nonce = SEAL_NONCE_LEN"
    and run: "vault_update ve nonce now (cr_id r) cred v = (Ok (), v')"
    and r: "r \<in> set (pv_rows v)" and names: "distinct (map cr_name (pv_rows v))"
  shows "stored_cred ve (pv_rows v') (cr_name r) = Some (Ok cred)"
proof -
  obtain sealed where sealed: "seal_credential ve nonce cred = Ok sealed"
    using run by (cases "seal_credential ve nonce cred") (auto simp: vault_update_def bindE_def liftE_def)
  let ?f = "\<lambda>x. x\<lparr>cr_kind := cred_kind_to_str (credential_kind_of cred), cr_payload_sealed := sealed, cr_updated_at := now\<rparr>"
  let ?g = "\<lambda>rows. (cr_id r \<in> cr_id ` set rows, map_row (cr_id r) ?f rows)"
  obtain x v1 where s: "vault_stmt ''update'' ?g v = (x, v1)" by fastforce
  have "is_ok x" "pv_rows v' = pv_rows v1"
    using run sealed s
    by (cases x; auto simp: vault_update_def bindE_def liftE_def touched_def modifyE_def failE_def invalidate_cache_def split: if_splits)+
  then have rows: "pv_rows v' = map_row (cr_id r) ?f (pv_rows v)" using vault_stmt_rows [OF s] by simp
  have "find (\<lambda>x. cr_name x = cr_name r) (map_row (cr_id r) ?f rows) = Some (?f r)"
    if "r \<in> set rows" "distinct (map cr_name rows)" for rows
    using that by (induction rows) (auto simp: map_row_def)
  then show ?thesis
    using r names open_seal_credential [OF env nonce sealed] by (simp add: stored_cred_def rows)
qed

lemma collect_metadata_rows:
  "collect_metadata rows = Ok ms \<Longrightarrow> m \<in> set ms \<Longrightarrow> \<exists>r \<in> set rows. cr_id r = cm_id m \<and> cr_name r = cm_name m"
proof (induction rows arbitrary: ms)
  case (Cons r rows)
  obtain k ms' where "collect_metadata rows = Ok ms'"
    "ms = \<lparr>cm_id = cr_id r, cm_name = cr_name r, cm_kind = k, cm_created_at = cr_created_at r, cm_updated_at = cr_updated_at r\<rparr> # ms'"
    using Cons.prems(1) by (auto simp: bind_result_Ok_iff)
  then show ?case using Cons.IH [of ms'] Cons.prems(2) by auto
qed simp

lemma vault_list_metadata_rows:
  assumes "vault_list_metadata v = (r, v')"
  shows "pv_rows v' = pv_rows v \<and>
    (\<forall>ms. r = Ok ms \<longrightarrow> (\<forall>m \<in> set ms. \<exists>x \<in> set (pv_rows v). cr_id x = cm_id m \<and> cr_name x = cm_name m))"
proof -
  obtain y v1 where s: "vault_stmt ''list'' (\<lambda>rows. (sort_key cr_name rows, rows)) v = (y, v1)" by fastforce
  show ?thesis
  proof (cases y)
    case (Ok rows)
    then have "rows = sort_key cr_name (pv_rows v)" using vault_stmt_Ok s by fastforce
    then show ?thesis
      using assms s Ok vault_stmt_rows [OF s] collect_metadata_rows [of "sort_key cr_name (pv_rows v)"]
      by (auto simp: vault_list_metadata_def bindE_def liftE_def)
  next
    case (Err e)
    then show ?thesis using assms s vault_stmt_rows [OF s] by (auto simp: vault_list_metadata_def bindE_def)
  qed
qed

lemma vault_stmt_Err_fault:
  assumes "vault_stmt op f v = (Err e, v')"
  shows "\<exists>x fs. db_faults (pv_db v) = Some x # fs"
  using assms by (auto simp: vault_stmt_def db_stmt_def split: prod.splits result.splits db_fault.splits list.splits option.splits)

lemma resolve_fetch_stored:
  assumes "stored_cred ve (pv_rows v) name = Some (Ok cred)" and "resolve_fetch ve vref name v = (r, v')"
  shows "r = Ok cred \<or> (\<exists>x fs. db_faults (pv_db v) = Some x # fs)"
proof -
  obtain x v1 where s: "vault_stmt ''resolve'' (\<lambda>rows. (find (\<lambda>r. cr_name r = name) rows, rows)) v = (x, v1)"
    by fastforce
  show ?thesis
  proof (cases x)
    case (Ok row)
    then have "row = find (\<lambda>r. cr_name r = name) (pv_rows v)" using vault_stmt_Ok s by fastforce
    then show ?thesis
      using assms s Ok by (auto simp: resolve_fetch_def bindE_def liftE_def stored_cred_def ok_or_def)
  next
    case (Err e)
    then show ?thesis using vault_stmt_Err_fault s by blast
  qed
qed

lemma cache_lookup_map_of:
  "cache_lookup now k c = (Some cred, c') \<Longrightarrow>
   \<exists>e. map_of c k = Some e \<and> ce_cred e = cred \<and> now - ce_inserted_at e < DEFAULT_CACHE_TTL"
  by (auto simp: cache_lookup_def lru_get_def split: option.splits if_splits)

lemma vault_resolve_stored:
  assumes st: "stored_cred ve (pv_rows v) name = Some (Ok cred)"
  shows "case fst (vault_resolve ve t t' (CrNamed name) v) of
      Ok c \<Rightarrow> c = cred \<or> (\<exists>e. map_of (pv_cache v) name = Some e \<and> ce_cred e = c \<and> t - ce_inserted_at e < DEFAULT_CACHE_TTL)
    | Err _ \<Rightarrow> \<exists>f fs. db_faults (pv_db v) = Some f # fs"
proof -
  obtain x c where l: "cache_lookup t name (pv_cache v) = (x, c)" by fastforce
  show ?thesis
  proof (cases x)
    case (Some k)
    then show ?thesis
      using l cache_lookup_map_of [of t name "pv_cache v" k c] by (simp add: vault_resolve_def resolve_lookup_def)
  next
    case None
    obtain r v2 where f: "resolve_fetch ve (CrNamed name) name (v\<lparr>pv_cache := c\<rparr>) = (r, v2)" by fastforce
    have "r = Ok cred \<or> (\<exists>x fs. db_faults (pv_db v) = Some x # fs)"
      using resolve_fetch_stored [OF _ f] st by simp
    moreover have "k = cred" if "r = Ok k" for k using resolve_fetch_run [OF f] st that by simp
    ultimately show ?thesis using l None f by (cases r) (simp_all add: vault_resolve_def resolve_lookup_def)
  qed
qed

text \<open>C19: a credential stored in the PostgreSQL vault is what resolving its name returns. Let the cipher and the codec undo
  themselves and the nonce have its 24 bytes, and let a creation succeed, in any state of the vault: then the table holds exactly this
  credential under the name (serialising, sealing, inserting, finding by name, unsealing and decoding is the identity), and the next
  resolution of the name, at whatever time, gives this credential, with two exceptions: it fails only if its statement meets a database fault, and it gives another
  credential only from an entry that the cache held under the name before the creation and whose time to live has not passed, since a creation leaves the cache as it is.
  In a vault reached from an empty one by operations that run one at a time the cache has no such entry.\<close>

theorem vault_create_resolve:
  assumes env: "vault_env_ok ve" and nonce: "length nonce = SEAL_NONCE_LEN"
    and run: "vault_create ve nonce u now name cred v = (Ok i, v')"
  shows "stored_cred ve (pv_rows v') name = Some (Ok cred) \<and>
    (case fst (vault_resolve ve t t' (CrNamed name) v') of
       Ok c \<Rightarrow> c = cred \<or>
         (\<exists>e. map_of (pv_cache v) name = Some e \<and> ce_cred e = c \<and> t - ce_inserted_at e < DEFAULT_CACHE_TTL)
     | Err _ \<Rightarrow> \<exists>f fs. db_faults (pv_db v') = Some f # fs) \<and>
    (\<forall>d. (vault_step ve)\<^sup>*\<^sup>* \<lparr>pv_db = d, pv_cache = []\<rparr> v \<and> db_tables d = [] \<longrightarrow> map_of (pv_cache v) name = None)"
proof (intro conjI allI impI)
  note stored = vault_create_stored [OF assms]
  show st: "stored_cred ve (pv_rows v') name = Some (Ok cred)" by (rule stored(2))
  show "case fst (vault_resolve ve t t' (CrNamed name) v') of
       Ok c \<Rightarrow> c = cred \<or>
         (\<exists>e. map_of (pv_cache v) name = Some e \<and> ce_cred e = c \<and> t - ce_inserted_at e < DEFAULT_CACHE_TTL)
     | Err _ \<Rightarrow> \<exists>f fs. db_faults (pv_db v') = Some f # fs"
    using vault_resolve_stored [OF st, of t t'] unfolding stored(3) .
  fix d
  assume d: "(vault_step ve)\<^sup>*\<^sup>* \<lparr>pv_db = d, pv_cache = []\<rparr> v \<and> db_tables d = []"
  then have "vault_coherent ve \<lparr>pv_db = d, pv_cache = []\<rparr>" by (simp add: coherent_empty_cache)
  then have "vault_coherent ve v" using d by (auto intro: vault_steps_coherent)
  moreover have "stored_cred ve (pv_rows v) name = None"
    using stored(1) by (auto simp: stored_cred_def find_None_iff)
  ultimately show "map_of (pv_cache v) name = None"
    using map_of_SomeD [of "pv_cache v" name] by (cases "map_of (pv_cache v) name") (fastforce simp: vault_coherent_def)+
qed

text \<open>A concrete environment: tokens only, stored as their character codes.\<close>

definition ex_vault_env :: vault_env where
  "ex_vault_env = \<lparr>ve_encrypt = (\<lambda>n p. Ok p), ve_decrypt = (\<lambda>n c. Ok c),
     ve_encode = (\<lambda>c. case c of ApiToken t \<Rightarrow> Ok (map (\<lambda>x. word_of_nat (of_char x)) t) | _ \<Rightarrow> Err ''unsupported''),
     ve_decode = (\<lambda>b. Ok (ApiToken (map (\<lambda>w. char_of (unat w)) b))), ve_unique_error = ''db error''\<rparr>"

lemma ex_vault_env_ok: "vault_env_ok ex_vault_env"
proof -
  have "char_of (unat (word_of_nat (of_char x) :: 8 word)) = x" for x
    by (simp add: unat_of_nat)
  then show ?thesis
    by (auto simp: vault_env_ok_def ex_vault_env_def split: credential.splits intro!: nth_equalityI)
qed

definition ex_vault :: pg_vault where
  "ex_vault = \<lparr>pv_db = db_of [], pv_cache = []\<rparr>"

lemma ex_vault_sound: "vault_sound ve ex_vault"
  by (simp add: vault_sound_def vault_coherent_def ex_vault_def db_of_def)

definition ex_nonce :: bytes where
  "ex_nonce = replicate 24 7"

definition ex_vault1 :: pg_vault where
  "ex_vault1 = snd (vault_create ex_vault_env ex_nonce ''u-1'' 1 ''edge'' (ApiToken ''old'') ex_vault)"

lemma ex_vault1_run:
  "vault_create ex_vault_env ex_nonce ''u-1'' 1 ''edge'' (ApiToken ''old'') ex_vault = (Ok ''u-1'', ex_vault1)"
  by (simp add: ex_vault1_def vault_create_def ex_vault_def ex_vault_env_def seal_credential_def seal_def
      bindE_def liftE_def vault_stmt_nofault db_of_def retE_def)

lemma vault_create_resolve_run: "fst (vault_resolve ex_vault_env 2 3 (CrNamed ''edge'') ex_vault1) = Ok (ApiToken ''old'')"
proof -
  have "open_credential ex_vault_env (cr_payload_sealed (hd (pv_rows ex_vault1))) = Ok (ApiToken ''old'')"
    by (rule open_seal_credential [OF ex_vault_env_ok, of ex_nonce])
      (simp_all add: ex_nonce_def SEAL_NONCE_LEN_def ex_vault1_def vault_create_def ex_vault_def ex_vault_env_def
        seal_credential_def seal_def bindE_def liftE_def vault_stmt_nofault db_of_def retE_def)
  then show ?thesis
    by (simp add: vault_resolve_def resolve_lookup_def cache_lookup_def lru_get_def resolve_fetch_nofault
        stored_cred_def ex_vault1_def vault_create_def ex_vault_def ex_vault_env_def
        seal_credential_def seal_def bindE_def liftE_def vault_stmt_nofault db_of_def retE_def)
qed

text \<open>The vault after the creation of one credential takes another one, and resolves it.\<close>

definition ex_vault2 :: pg_vault where
  "ex_vault2 = snd (vault_create ex_vault_env ex_nonce ''u-2'' 5 ''core'' (ApiToken ''new'') ex_vault1)"

lemma ex_vault2_run:
  "vault_create ex_vault_env ex_nonce ''u-2'' 5 ''core'' (ApiToken ''new'') ex_vault1 = (Ok ''u-2'', ex_vault2)"
  by (simp add: ex_vault2_def ex_vault1_def vault_create_def ex_vault_def ex_vault_env_def seal_credential_def seal_def
      bindE_def liftE_def vault_stmt_nofault db_of_def retE_def)

lemma ex_vault2_quiet: "pv_cache ex_vault1 = []" "db_faults (pv_db ex_vault2) = []"
  by (simp_all add: ex_vault2_def ex_vault1_def vault_create_def ex_vault_def ex_vault_env_def seal_credential_def seal_def
      bindE_def liftE_def vault_stmt_nofault db_of_def retE_def)

theorem vault_create_resolve_witness:
  "vault_create ex_vault_env ex_nonce ''u-2'' 5 ''core'' (ApiToken ''new'') ex_vault1 = (Ok ''u-2'', ex_vault2) \<and>
   fst (vault_resolve ex_vault_env 6 7 (CrNamed ''core'') ex_vault2) = Ok (ApiToken ''new'')"
proof
  show "vault_create ex_vault_env ex_nonce ''u-2'' 5 ''core'' (ApiToken ''new'') ex_vault1 = (Ok ''u-2'', ex_vault2)"
    by (rule ex_vault2_run)
  have "length ex_nonce = SEAL_NONCE_LEN" by (simp add: ex_nonce_def SEAL_NONCE_LEN_def)
  then show "fst (vault_resolve ex_vault_env 6 7 (CrNamed ''core'') ex_vault2) = Ok (ApiToken ''new'')"
    using vault_create_resolve [OF ex_vault_env_ok _ ex_vault2_run, of 6 7] ex_vault2_quiet
    by (cases "fst (vault_resolve ex_vault_env 6 7 (CrNamed ''core'') ex_vault2)") auto
qed

text \<open>C20: run one at a time, the operations of the vault never leave a stale cache entry: after
  any sequence of creations, updates, renames, deletions and resolutions, from an empty
  vault and under any database faults, a resolution that succeeds returns what the table
  holds at that moment.\<close>

theorem vault_no_stale_sequential:
  assumes "(vault_step ve)\<^sup>*\<^sup>* \<lparr>pv_db = d, pv_cache = []\<rparr> v" and "db_tables d = []"
    and "vault_resolve ve now now' vref v = (Ok cred, v')"
  shows "\<exists>name. credential_ref_name vref = Some name \<and> stored_cred ve (pv_rows v) name = Some (Ok cred)"
proof -
  have "vault_coherent ve \<lparr>pv_db = d, pv_cache = []\<rparr>"
    using assms(2) by (simp add: coherent_empty_cache)
  then have "vault_coherent ve v" by (rule vault_steps_coherent [OF assms(1)])
  from vault_resolve_coherent [OF this assms(3)] show ?thesis by blast
qed

theorem vault_no_stale_sequential_witness:
  "\<exists>name. credential_ref_name (CrNamed ''edge'') = Some name \<and>
     stored_cred ex_vault_env (pv_rows ex_vault1) name = Some (Ok (ApiToken ''old''))"
proof -
  have "vault_step ex_vault_env ex_vault ex_vault1"
    by (rule vs_create [OF _ ex_vault1_run]) (simp add: ex_vault_def db_of_def)
  then have s: "(vault_step ex_vault_env)\<^sup>*\<^sup>* \<lparr>pv_db = db_of [], pv_cache = []\<rparr> ex_vault1"
    by (simp add: ex_vault_def r_into_rtranclp)
  obtain v' where run: "vault_resolve ex_vault_env 2 3 (CrNamed ''edge'') ex_vault1 = (Ok (ApiToken ''old''), v')"
    using vault_create_resolve_run by (metis prod.collapse)
  show ?thesis using vault_no_stale_sequential [OF s _ run] by (simp add: db_of_def)
qed

text \<open>An update that falls between the fetch and the cache fill of a resolution.\<close>

definition ex_race :: "pg_vault" where
  "ex_race =
     (case resolve_fetch ex_vault_env (CrNamed ''edge'') ''edge'' ex_vault1 of
        (Ok cred, v) \<Rightarrow>
          resolve_put 11 ''edge'' cred (snd (vault_update ex_vault_env ex_nonce 10 ''u-1'' (ApiToken ''new'') v))
      | (Err e, v) \<Rightarrow> v)"

text \<open>Interleaved, they can: when an update of the credential lands between the fetch and
  the cache fill of a concurrent resolution, the old secret goes into the cache after the
  update has cleared it, and resolutions keep returning it although the table holds the
  new one.\<close>

lemma vault_stale_after_race:
  "fst (vault_resolve ex_vault_env 300000 300000 (CrNamed ''edge'') ex_race) = Ok (ApiToken ''old'') \<and>
   stored_cred ex_vault_env (pv_rows ex_race) ''edge'' = Some (Ok (ApiToken ''new''))"
proof -
  have old: "open_credential ex_vault_env (cr_payload_sealed (hd (pv_rows ex_vault1))) = Ok (ApiToken ''old'')"
    by (rule open_seal_credential [OF ex_vault_env_ok, of ex_nonce])
      (simp_all add: ex_nonce_def SEAL_NONCE_LEN_def ex_vault1_def vault_create_def ex_vault_def ex_vault_env_def
        seal_credential_def seal_def bindE_def liftE_def vault_stmt_nofault db_of_def retE_def)
  obtain row where v1: "ex_vault1 = \<lparr>pv_db = db_of [row], pv_cache = []\<rparr>" "cr_id row = ''u-1''" "cr_name row = ''edge''"
    by (simp add: ex_vault1_def vault_create_def ex_vault_def ex_vault_env_def
        seal_credential_def seal_def bindE_def liftE_def vault_stmt_nofault db_of_def retE_def)
  obtain b where b: "seal_credential ex_vault_env ex_nonce (ApiToken ''new'') = Ok b"
    by (simp add: ex_vault_env_def seal_credential_def seal_def)
  have new: "open_credential ex_vault_env b = Ok (ApiToken ''new'')"
    by (rule open_seal_credential [OF ex_vault_env_ok _ b]) (simp add: ex_nonce_def SEAL_NONCE_LEN_def)
  have f: "resolve_fetch ex_vault_env (CrNamed ''edge'') ''edge'' ex_vault1 = (Ok (ApiToken ''old''), ex_vault1)"
    using old by (simp add: v1 resolve_fetch_nofault db_of_def stored_cred_def)
  define row' where "row' = row\<lparr>cr_kind := ''ApiToken'', cr_payload_sealed := b, cr_updated_at := 10\<rparr>"
  have u: "snd (vault_update ex_vault_env ex_nonce 10 ''u-1'' (ApiToken ''new'') ex_vault1) =
      \<lparr>pv_db = db_of [row'], pv_cache = []\<rparr>"
    by (simp add: v1 b db_of_def vault_update_def bindE_def liftE_def vault_stmt_nofault touched_def modifyE_def
        invalidate_cache_def map_row_def row'_def)
  have race: "ex_race = \<lparr>pv_db = db_of [row'],
      pv_cache = [(''edge'', \<lparr>ce_cred = ApiToken ''old'', ce_inserted_at = 11\<rparr>)]\<rparr>"
    by (simp add: ex_race_def f u resolve_put_def lru_put_def hm_remove_def DEFAULT_CACHE_SIZE_def)
  show ?thesis
    by (simp add: race vault_resolve_def resolve_lookup_def cache_lookup_def lru_get_def DEFAULT_CACHE_TTL_def
        stored_cred_def db_of_def)
      (simp add: row'_def v1 new)
qed

end
