(* ===== verification/Transport.thy ===== *)
theory Transport
  imports Json Vault
begin

text \<open>
  Operations, results and errors of the transport layer (\<open>daimon-transport\<close>, \<open>op.rs\<close>,
  \<open>transport.rs\<close>) and the recording transport (\<open>stub.rs\<close>). A transport is a function of the
  target, the operation and the credential on a state of its own; the SSH, REST and SNMP
  clients are such functions and are parameters wherever they are used.
\<close>

datatype http_method = HttpGet | HttpPost | HttpPut | HttpPatch | HttpDelete

fun debug_http_method :: "http_method \<Rightarrow> string" where
  "debug_http_method HttpGet = ''Get''"
| "debug_http_method HttpPost = ''Post''"
| "debug_http_method HttpPut = ''Put''"
| "debug_http_method HttpPatch = ''Patch''"
| "debug_http_method HttpDelete = ''Delete''"

datatype auth_scheme = AuthBearer | AuthHeader string string | AuthNone

datatype snmp_value =
    SnmpInt "64 word"
  | SnmpUInt "64 word"
  | SnmpString string
  | SnmpOid string

datatype op =
    OpShellCommand string "32 word"
  | OpHttp http_method string "(string, string) bmap" "json option" auth_scheme
  | OpSnmpGet string
  | OpSnmpSet string snmp_value
  | OpSnmpWalk string

definition default_shell_timeout_secs :: "32 word" where
  "default_shell_timeout_secs = 30"

text \<open>An exit status is an \<open>i32\<close>, an HTTP status a \<open>u16\<close>.\<close>

datatype op_result =
    ResShell string string "32 word"
  | ResHttp "16 word" json "(string, string) bmap"
  | ResSnmp "(string, snmp_value) bmap"
  | ResSnmpSetAck
  | ResStructured json

datatype transport_error =
    TransNotImplemented string
  | TransAuth string
  | TransConnect string
  | TransTimeout "32 word"
  | TransIo string
  | TransOpMismatch string string
  | TransOther string

fun show_transport_error :: "transport_error \<Rightarrow> string" where
  "show_transport_error (TransNotImplemented k) = ''transport `'' @ k @ ''` not implemented yet''"
| "show_transport_error (TransAuth e) = ''authentication failed: '' @ e"
| "show_transport_error (TransConnect e) = ''connection failed: '' @ e"
| "show_transport_error (TransTimeout s) = ''operation timed out after '' @ show_nat (unat s) @ ''s''"
| "show_transport_error (TransIo e) = ''transport I/O: '' @ e"
| "show_transport_error (TransOpMismatch o' t) =
     ''op/transport mismatch: cannot run `'' @ o' @ ''` over `'' @ t @ ''`''"
| "show_transport_error (TransOther e) = e"

record transport_target =
  tt_host :: string
  tt_port :: "16 word"

type_synonym 't transport = "transport_target \<Rightarrow> op \<Rightarrow> credential \<Rightarrow> ('t, op_result, transport_error) eff"

section \<open>The recording transport\<close>

record stub_record =
  sr_host :: string
  sr_port :: "16 word"
  sr_op :: op
  sr_credential_kind :: credential_kind
  sr_secret_byte_count :: nat

fun secret_byte_count :: "credential \<Rightarrow> nat" where
  "secret_byte_count (SshKey _ pem pass) =
     length pem + (case pass of Some p \<Rightarrow> length p | None \<Rightarrow> 0)"
| "secret_byte_count (SshPassword _ p) = length p"
| "secret_byte_count (ApiToken t) = length t"
| "secret_byte_count (Generic fs) = sum_list (map (\<lambda>(_, v). length v) fs)"

fun stub_response :: "op \<Rightarrow> op_result" where
  "stub_response (OpShellCommand c _) = ResShell (''[stub] ran: '' @ c) '''' 0"
| "stub_response (OpHttp _ _ _ _ _) = ResHttp 200 (j_obj [(''stub'', JBool True)]) []"
| "stub_response (OpSnmpGet _) = ResSnmp []"
| "stub_response (OpSnmpWalk _) = ResSnmp []"
| "stub_response (OpSnmpSet _ _) = ResSnmpSetAck"

definition stub_execute :: "stub_record list transport" where
  "stub_execute tgt op cred recs =
     (Ok (stub_response op),
      recs @ [\<lparr>sr_host = tt_host tgt, sr_port = tt_port tgt, sr_op = op,
               sr_credential_kind = credential_kind_of cred,
               sr_secret_byte_count = secret_byte_count cred\<rparr>])"

text \<open>A transport whose answers do not depend on secret material, which is what the callers
  of the broker see of a transport that honours its contract.\<close>

definition secret_blind :: "'t transport \<Rightarrow> bool" where
  "secret_blind tr \<longleftrightarrow>
     (\<forall>tgt op c c' s. fst (tr tgt op c s) = fst (tr tgt op c' s))"

lemma stub_secret_blind: "secret_blind stub_execute"
  by (simp add: secret_blind_def stub_execute_def)

end
