(* ===== verification/Utf8.thy ===== *)
theory Utf8
  imports Prelude
begin

text \<open>
  UTF-8 as the standard library checks and repairs it: \<open>std::str::from_utf8\<close> with the text of its error, and
  \<open>String::from_utf8_lossy\<close>. Strings are byte sequences throughout the development.
\<close>

text \<open>\<open>std::str::from_utf8\<close>: the first character of a byte sequence, how many bytes are wrong, or
  that the sequence ends within a character.\<close>

datatype utf8_head = Utf8Char nat | Utf8Invalid nat | Utf8Incomplete

definition utf8_cont :: "char \<Rightarrow> bool" where
  "utf8_cont c \<longleftrightarrow> 128 \<le> char_code c \<and> char_code c < 192"

text \<open>The bytes after the second one, \<open>n\<close> of them, with \<open>k\<close> bytes read so far.\<close>

fun utf8_tail :: "nat \<Rightarrow> nat \<Rightarrow> string \<Rightarrow> utf8_head" where
  "utf8_tail 0 k cs = Utf8Char k"
| "utf8_tail (Suc n) k [] = Utf8Incomplete"
| "utf8_tail (Suc n) k (c # cs) = (if utf8_cont c then utf8_tail n (Suc k) cs else Utf8Invalid k)"

definition utf8_second :: "nat \<Rightarrow> nat \<Rightarrow> nat \<Rightarrow> string \<Rightarrow> utf8_head" where
  "utf8_second lo hi n cs =
     (case cs of
        [] \<Rightarrow> Utf8Incomplete
      | c # cs' \<Rightarrow> if lo \<le> char_code c \<and> char_code c \<le> hi then utf8_tail n 2 cs' else Utf8Invalid 1)"

fun utf8_first :: "char \<Rightarrow> string \<Rightarrow> utf8_head" where
  "utf8_first c cs =
     (let b = char_code c in
      if b < 128 then Utf8Char 1
      else if 194 \<le> b \<and> b \<le> 223 then utf8_second 128 191 0 cs
      else if b = 224 then utf8_second 160 191 1 cs
      else if b = 237 then utf8_second 128 159 1 cs
      else if 225 \<le> b \<and> b \<le> 239 then utf8_second 128 191 1 cs
      else if b = 240 then utf8_second 144 191 2 cs
      else if 241 \<le> b \<and> b \<le> 243 then utf8_second 128 191 2 cs
      else if b = 244 then utf8_second 128 143 2 cs
      else Utf8Invalid 1)"

text \<open>The text of the error, with the index \<open>i\<close> where the valid part ends. A character
  has at least one byte, which the bound of the recursion uses.\<close>

function utf8_error :: "nat \<Rightarrow> string \<Rightarrow> string option" where
  "utf8_error i [] = None"
| "utf8_error i (c # cs) =
     (case utf8_first c cs of
        Utf8Char n \<Rightarrow> utf8_error (i + n) (drop (n - 1) cs)
      | Utf8Invalid n \<Rightarrow> Some (''invalid utf-8 sequence of '' @ show_nat n @ '' bytes from index '' @ show_nat i)
      | Utf8Incomplete \<Rightarrow> Some (''incomplete utf-8 byte sequence from index '' @ show_nat i))"
  by pat_completeness auto
termination by (relation "measure (\<lambda>(_, s). length s)") auto

text \<open>\<open>String::from_utf8_lossy\<close>: each wrong sequence becomes one replacement character.\<close>

definition replacement_char :: string where
  "replacement_char = [CHR 0xEF, CHR 0xBF, CHR 0xBD]"

function from_utf8_lossy :: "string \<Rightarrow> string" where
  "from_utf8_lossy [] = []"
| "from_utf8_lossy (c # cs) =
     (case utf8_first c cs of
        Utf8Char n \<Rightarrow> take n (c # cs) @ from_utf8_lossy (drop (n - 1) cs)
      | Utf8Invalid n \<Rightarrow> replacement_char @ from_utf8_lossy (drop (n - 1) cs)
      | Utf8Incomplete \<Rightarrow> replacement_char)"
  by pat_completeness auto
termination by (relation "measure length") auto

text \<open>The first \<open>n\<close> characters of a text, and how many it has: a character begins at each byte that does not continue one.\<close>

fun take_chars :: "nat \<Rightarrow> string \<Rightarrow> string" where
  "take_chars n [] = []"
| "take_chars n (c # s) = (if utf8_cont c then c # take_chars n s else case n of 0 \<Rightarrow> [] | Suc m \<Rightarrow> c # take_chars m s)"

definition char_count :: "string \<Rightarrow> nat" where
  "char_count s = length (filter (\<lambda>c. \<not> utf8_cont c) s)"

section \<open>Lemmas\<close>

lemma take_chars_ascii: "\<forall>c \<in> set s. char_code c < 128 \<Longrightarrow> take_chars n s = take n s"
  by (induction n s rule: take_chars.induct) (auto simp: utf8_cont_def split: nat.split)

lemma take_chars_count: "char_count (take_chars n s) = min n (char_count s)"
  by (induction n s rule: take_chars.induct) (auto simp: char_count_def split: nat.split)

lemma char_count_append: "char_count (s @ t) = char_count s + char_count t"
  by (simp add: char_count_def)

lemma utf8_error_ascii: "\<forall>c \<in> set s. char_code c < 128 \<Longrightarrow> utf8_error i s = None"
  by (induction s arbitrary: i) simp_all

lemma utf8_tail_len: "utf8_tail n k cs = Utf8Char m \<Longrightarrow> m = k + n \<and> n \<le> length cs"
  by (induction n k cs rule: utf8_tail.induct) (auto split: if_splits)

lemma utf8_tail_prefix: "utf8_tail n k cs = Utf8Char m \<Longrightarrow> utf8_tail n k (take n cs @ r) = Utf8Char m"
  by (induction n k cs rule: utf8_tail.induct) (auto split: if_splits)

lemma utf8_second_len: "utf8_second lo hi n cs = Utf8Char m \<Longrightarrow> m = n + 2 \<and> Suc n \<le> length cs"
  by (auto simp: utf8_second_def split: list.splits if_splits dest: utf8_tail_len)

lemma utf8_second_prefix: "utf8_second lo hi n cs = Utf8Char m \<Longrightarrow> utf8_second lo hi n (take (Suc n) cs @ r) = Utf8Char m"
  by (cases cs) (auto simp: utf8_second_def utf8_tail_prefix split: if_splits)

text \<open>A character is recognised by its own bytes.\<close>

lemma utf8_first_len: "utf8_first c cs = Utf8Char m \<Longrightarrow> 0 < m \<and> m - 1 \<le> length cs"
  by (auto simp: Let_def split: if_splits dest!: utf8_second_len)

lemma utf8_first_prefix: "utf8_first c cs = Utf8Char m \<Longrightarrow> utf8_first c (take (m - 1) cs @ r) = Utf8Char m"
proof -
  have two: "utf8_second lo hi n cs = Utf8Char m \<Longrightarrow> utf8_second lo hi n (take (m - Suc 0) cs @ r) = Utf8Char m" for lo hi n
    using utf8_second_prefix [of lo hi n cs m r] utf8_second_len [of lo hi n cs m] by auto
  show "utf8_first c cs = Utf8Char m \<Longrightarrow> utf8_first c (take (m - 1) cs @ r) = Utf8Char m"
    by (auto simp: Let_def two split: if_splits)
qed

lemma utf8_error_replacement: "utf8_error i (replacement_char @ s) = utf8_error (i + 3) s"
  by (simp add: replacement_char_def utf8_second_def utf8_cont_def char_code_def numeral_eq_Suc)

text \<open>What is repaired is valid, and what was valid is unchanged.\<close>

lemma from_utf8_lossy_valid: "utf8_error i (from_utf8_lossy s) = None"
proof (induction s arbitrary: i rule: from_utf8_lossy.induct)
  case (2 c cs)
  show ?case
  proof (cases "utf8_first c cs")
    case (Utf8Char n)
    obtain m where m: "n = Suc m" "m \<le> length cs" using utf8_first_len [OF Utf8Char] by (cases n) auto
    then have "utf8_first c (take m cs @ from_utf8_lossy (drop m cs)) = Utf8Char n" using utf8_first_prefix [OF Utf8Char] by simp
    then show ?thesis using Utf8Char m 2(1) [OF Utf8Char] by (simp del: utf8_first.simps)
  next
    case (Utf8Invalid n)
    then show ?thesis using 2(2) [OF Utf8Invalid] by (simp add: utf8_error_replacement del: utf8_first.simps)
  next
    case Utf8Incomplete
    then show ?thesis using utf8_error_replacement [of i "[]"] by (simp del: utf8_first.simps)
  qed
qed simp

lemma from_utf8_lossy_id: "utf8_error i s = None \<Longrightarrow> from_utf8_lossy s = s"
proof (induction s arbitrary: i rule: from_utf8_lossy.induct)
  case (2 c cs)
  show ?case
  proof (cases "utf8_first c cs")
    case (Utf8Char n)
    obtain m where m: "n = Suc m" using utf8_first_len [OF Utf8Char] by (cases n) auto
    then show ?thesis using Utf8Char 2(1) [OF Utf8Char] "2.prems" by (auto simp del: utf8_first.simps)
  qed (use "2.prems" in \<open>simp_all del: utf8_first.simps\<close>)
qed simp

end
