(* ===== verification/Broker.thy ===== *)
theory Broker
  imports Guard Inventory Vault Transport AuditLog Utf8
begin

text \<open>
  The action broker (\<open>daimon-broker\<close>, \<open>broker.rs\<close> and \<open>request.rs\<close>): the one path from an
  agent's request to a transport. Its collaborators are trait objects: the inventory, the
  vault, the audit sink and the transports are fields of the \<open>broker\<close> record, functions on
  their own states, and \<open>broker_world\<close> holds those states. The guard is present when the
  broker has a policy.
\<close>

section \<open>Requests\<close>

record exec_request =
  xr_target_ref :: target_ref
  xr_op :: op
  xr_actor_id :: string
  xr_capability :: "string option"
  xr_is_read_only :: bool
  xr_capability_meta :: "capability option"

definition exec_request_new :: "string \<Rightarrow> target_ref \<Rightarrow> op \<Rightarrow> exec_request" where
  "exec_request_new actor tref op =
     \<lparr>xr_target_ref = tref, xr_op = op, xr_actor_id = actor, xr_capability = None,
      xr_is_read_only = False, xr_capability_meta = None\<rparr>"

definition with_capability :: "string \<Rightarrow> bool \<Rightarrow> exec_request \<Rightarrow> exec_request" where
  "with_capability cap ro r = r\<lparr>xr_capability := Some cap, xr_is_read_only := ro\<rparr>"

definition with_capability_meta :: "capability \<Rightarrow> exec_request \<Rightarrow> exec_request" where
  "with_capability_meta c r =
     r\<lparr>xr_is_read_only := is_read c, xr_capability := Some (cap_name c), xr_capability_meta := Some c\<rparr>"

section \<open>Errors\<close>

datatype broker_error =
    BrInventory inventory_error
  | BrVault vault_error
  | BrTransport transport_error
  | BrGuard guard_error
  | BrCredentialRefParse cred_ref_error
  | BrNoTransport transport_kind
  | BrAdminBackendNotAvailable string
  | BrAudit string

fun debug_transport_kind :: "transport_kind \<Rightarrow> string" where
  "debug_transport_kind TrSsh = ''Ssh''"
| "debug_transport_kind TrRest = ''Rest''"
| "debug_transport_kind TrSnmp = ''Snmp''"
| "debug_transport_kind TrGrpc = ''Grpc''"

fun show_broker_error :: "broker_error \<Rightarrow> string" where
  "show_broker_error (BrInventory e) = ''inventory: '' @ show_inventory_error e"
| "show_broker_error (BrVault e) = ''vault: '' @ show_vault_error e"
| "show_broker_error (BrTransport e) = ''transport: '' @ show_transport_error e"
| "show_broker_error (BrGuard e) = ''guard: '' @ show_guard_error e"
| "show_broker_error (BrCredentialRefParse e) =
     ''invalid credential_ref in inventory entry: '' @ show_cred_ref_error e"
| "show_broker_error (BrNoTransport k) =
     ''no transport registered for kind `'' @ debug_transport_kind k @ ''`''"
| "show_broker_error (BrAdminBackendNotAvailable b) =
     ''admin backend `'' @ b @ ''` not available '' @ em_dash @ '' broker constructed without production admin wiring''"
| "show_broker_error (BrAudit e) = ''audit: '' @ e"

section \<open>The broker and its world\<close>

record 'a audit_sink =
  as_append :: "new_audit_event \<Rightarrow> ('a, uuid, audit_error) eff"
  as_query :: "audit_filter \<Rightarrow> nat \<Rightarrow> nat \<Rightarrow> ('a, audit_event list, audit_error) eff"
  as_count :: "audit_filter \<Rightarrow> ('a, nat, audit_error) eff"

record 'i inventory_ops =
  io_get_managed :: "target_ref \<Rightarrow> ('i, managed_target, inventory_error) eff"
  io_get_metadata :: "target_ref \<Rightarrow> ('i, target_metadata, inventory_error) eff"
  io_list :: "target_kind option \<Rightarrow> 'i \<Rightarrow> target_metadata list \<times> 'i"
  io_upsert :: "managed_target \<Rightarrow> ('i, unit, inventory_error) eff"
  io_remove :: "target_ref \<Rightarrow> ('i, unit, inventory_error) eff"

record ('i, 'v, 't, 'a) broker =
  br_inventory :: "'i inventory_ops"
  br_resolve :: "credential_ref \<Rightarrow> ('v, credential, vault_error) eff"
  br_vault_admin :: "vault_env option"
  br_audit :: "'a audit_sink option"
  br_transports :: "(transport_kind, 't transport) hmap"
  br_policy :: "policy_engine option"

record ('i, 'v, 't, 'a, 'b) broker_world =
  bw_inventory :: 'i
  bw_vault :: 'v
  bw_transport :: 't
  bw_audit :: 'a
  bw_guard :: "'b guard_world"

text \<open>What the environment gives one call: the bus of the guard, the answers of the approval
  wait, and the measured latency.\<close>

record 'b call_env =
  cl_semver :: semver
  cl_send :: "agent_envelope \<Rightarrow> ('b, unit, core_error) eff"
  cl_approval :: "'b approval_env"
  cl_latency :: "64 word"

section \<open>Operations\<close>

text \<open>The two constructors differ in the admin side: the first has none, the second gives the
  PostgreSQL vault both roles. A broker starts without a guard.\<close>

definition broker_new ::
  "'i inventory_ops \<Rightarrow> (credential_ref \<Rightarrow> ('v, credential, vault_error) eff) \<Rightarrow>
   (transport_kind, 't transport) hmap \<Rightarrow> ('i, 'v, 't, 'a) broker" where
  "broker_new invt vault transports =
     \<lparr>br_inventory = invt, br_resolve = vault, br_vault_admin = None, br_audit = None,
      br_transports = transports, br_policy = None\<rparr>"

definition with_guard :: "policy_engine \<Rightarrow> ('i, 'v, 't, 'a) broker \<Rightarrow> ('i, 'v, 't, 'a) broker" where
  "with_guard policy br = br\<lparr>br_policy := Some policy\<rparr>"

definition with_production_admin ::
  "'i inventory_ops \<Rightarrow> vault_env \<Rightarrow> millis \<Rightarrow> millis \<Rightarrow> 'a audit_sink \<Rightarrow>
   (transport_kind, 't transport) hmap \<Rightarrow> ('i, pg_vault, 't, 'a) broker" where
  "with_production_admin invt ve now now' audit transports =
     \<lparr>br_inventory = invt, br_resolve = vault_resolve ve now now', br_vault_admin = Some ve,
      br_audit = Some audit, br_transports = transports, br_policy = None\<rparr>"

definition broker_target_metadata ::
  "('i, 'v, 't, 'a) broker \<Rightarrow> target_ref \<Rightarrow>
   (('i, 'v, 't, 'a, 'b) broker_world, target_metadata, broker_error) eff" where
  "broker_target_metadata br r w =
     (case io_get_metadata (br_inventory br) r (bw_inventory w) of
        (x, i) \<Rightarrow> (map_err BrInventory x, w\<lparr>bw_inventory := i\<rparr>))"

definition broker_list_targets ::
  "('i, 'v, 't, 'a) broker \<Rightarrow> target_kind option \<Rightarrow> ('i, 'v, 't, 'a, 'b) broker_world \<Rightarrow>
   target_metadata list \<times> ('i, 'v, 't, 'a, 'b) broker_world" where
  "broker_list_targets br f w =
     (case io_list (br_inventory br) f (bw_inventory w) of (x, i) \<Rightarrow> (x, w\<lparr>bw_inventory := i\<rparr>))"

fun op_summary_for :: "op \<Rightarrow> string" where
  "op_summary_for (OpShellCommand command _) = ''ssh:exec:'' @ take_chars 80 command"
| "op_summary_for (OpHttp m path _ _ _) = ''http:'' @ debug_http_method m @ '':'' @ path"
| "op_summary_for (OpSnmpGet oid) = ''snmp:get:'' @ oid"
| "op_summary_for (OpSnmpSet oid _) = ''snmp:set:'' @ oid"
| "op_summary_for (OpSnmpWalk root) = ''snmp:walk:'' @ root"

definition derive_read_only :: "exec_request \<Rightarrow> bool" where
  "derive_read_only req = (case xr_capability_meta req of Some c \<Rightarrow> is_read c | None \<Rightarrow> False)"

definition request_capability :: "exec_request \<Rightarrow> string" where
  "request_capability req = (case xr_capability req of Some c \<Rightarrow> c | None \<Rightarrow> ''broker.execute'')"

definition request_params :: "exec_request \<Rightarrow> json" where
  "request_params req =
     j_obj [(''target_ref'', JStr (show_target_ref (xr_target_ref req))),
            (''op_summary'', JStr (op_summary_for (xr_op req)))]"

text \<open>Step 0. \<open>None\<close>: parked.\<close>

definition broker_pre_flight ::
  "('i, 'v, 't, 'a) broker \<Rightarrow> 'b call_env \<Rightarrow> exec_request \<Rightarrow> 'b guard_world \<Rightarrow>
   (unit, guard_error) result option \<times> 'b guard_world" where
  "broker_pre_flight br cl req g =
     (case br_policy br of
        None \<Rightarrow> (Some (Ok ()), g)
      | Some policy \<Rightarrow>
          pre_flight (cl_semver cl) (cl_send cl) policy (cl_approval cl) (xr_actor_id req)
            (request_capability req) (Some (show_target_ref (xr_target_ref req)))
            (request_params req) (derive_read_only req) g)"

text \<open>Steps 1 to 5.\<close>

definition broker_run ::
  "('i, 'v, 't, 'a) broker \<Rightarrow> exec_request \<Rightarrow>
   (('i, 'v, 't, 'a, 'b) broker_world, op_result, broker_error) eff" where
  "broker_run br req w =
     (case io_get_managed (br_inventory br) (xr_target_ref req) (bw_inventory w) of
        (Err e, i) \<Rightarrow> (Err (BrInventory e), w\<lparr>bw_inventory := i\<rparr>)
      | (Ok managed, i) \<Rightarrow>
          (case credential_ref_parse (mt_credential_ref managed) of
             Err e \<Rightarrow> (Err (BrCredentialRefParse e), w\<lparr>bw_inventory := i\<rparr>)
           | Ok vref \<Rightarrow>
               (case br_resolve br vref (bw_vault w) of
                  (Err e, v) \<Rightarrow> (Err (BrVault e), w\<lparr>bw_inventory := i, bw_vault := v\<rparr>)
                | (Ok credential, v) \<Rightarrow>
                    (case map_of (br_transports br) (mt_transport managed) of
                       None \<Rightarrow> (Err (BrNoTransport (mt_transport managed)), w\<lparr>bw_inventory := i, bw_vault := v\<rparr>)
                     | Some transport \<Rightarrow>
                         (case transport \<lparr>tt_host = mt_host managed, tt_port = mt_port managed\<rparr>
                                 (xr_op req) credential (bw_transport w) of
                            (x, t) \<Rightarrow> (map_err BrTransport x,
                              w\<lparr>bw_inventory := i, bw_vault := v, bw_transport := t\<rparr>))))))"

definition execute_inner ::
  "('i, 'v, 't, 'a) broker \<Rightarrow> 'b call_env \<Rightarrow> exec_request \<Rightarrow> ('i, 'v, 't, 'a, 'b) broker_world \<Rightarrow>
   (op_result, broker_error) result option \<times> ('i, 'v, 't, 'a, 'b) broker_world" where
  "execute_inner br cl req w =
     (case broker_pre_flight br cl req (bw_guard w) of
        (None, g) \<Rightarrow> (None, w\<lparr>bw_guard := g\<rparr>)
      | (Some (Err e), g) \<Rightarrow> (Some (Err (BrGuard e)), w\<lparr>bw_guard := g\<rparr>)
      | (Some (Ok _), g) \<Rightarrow>
          (case broker_run br req (w\<lparr>bw_guard := g\<rparr>) of (x, w') \<Rightarrow> (Some x, w')))"

definition execute_event ::
  "exec_request \<Rightarrow> string option \<Rightarrow> (op_result, broker_error) result \<Rightarrow> 64 word \<Rightarrow> new_audit_event" where
  "execute_event req cred_ref res latency =
     (let ev = with_latency_ms latency
                 (with_op_summary (op_summary_for (xr_op req))
                   (with_target (show_target_ref (xr_target_ref req))
                     (audit_event_new (xr_actor_id req) BrokerExecute
                        (case res of Ok _ \<Rightarrow> AuditSuccess | Err _ \<Rightarrow> AuditError))));
          ev = (case cred_ref of Some c \<Rightarrow> with_credential c ev | None \<Rightarrow> ev)
      in case res of Err e \<Rightarrow> with_metadata ''error'' (show_broker_error e) ev | Ok _ \<Rightarrow> ev)"

definition audit_execute ::
  "('i, 'v, 't, 'a) broker \<Rightarrow> exec_request \<Rightarrow> (op_result, broker_error) result \<Rightarrow> 64 word \<Rightarrow>
   ('i, 'v, 't, 'a, 'b) broker_world \<Rightarrow> ('i, 'v, 't, 'a, 'b) broker_world" where
  "audit_execute br req res latency w =
     (case br_audit br of
        None \<Rightarrow> w
      | Some sink \<Rightarrow>
          (case io_get_managed (br_inventory br) (xr_target_ref req) (bw_inventory w) of
             (m, i) \<Rightarrow>
               w\<lparr>bw_inventory := i,
                 bw_audit := snd (as_append sink (execute_event req (map_option mt_credential_ref (result_ok m)) res latency)
                                    (bw_audit w))\<rparr>))"

definition execute ::
  "('i, 'v, 't, 'a) broker \<Rightarrow> 'b call_env \<Rightarrow> exec_request \<Rightarrow> ('i, 'v, 't, 'a, 'b) broker_world \<Rightarrow>
   (op_result, broker_error) result option \<times> ('i, 'v, 't, 'a, 'b) broker_world" where
  "execute br cl req w =
     (case execute_inner br cl req w of
        (None, w') \<Rightarrow> (None, w')
      | (Some res, w') \<Rightarrow> (Some res, audit_execute br req res (cl_latency cl) w'))"

section \<open>The boot lint\<close>

text \<open>The verdict on one capability: \<open>Some\<close> message when it is incoherent.\<close>

definition lint_cap :: "policy_engine option \<Rightarrow> string list \<Rightarrow> capability \<Rightarrow> string option" where
  "lint_cap policy present cap =
     (case (case cap_compensating cap of
              Some cc \<Rightarrow> if comp_name cc \<notin> set present then Some cc else None
            | None \<Rightarrow> None) of
        Some cc \<Rightarrow>
          Some (''capability `'' @ cap_name cap @ ''` names compensator `'' @ comp_name cc @
                ''` which is not present in the registered capability set '' @ em_dash @
                '' saga rollback would have nothing to dispatch'')
      | None \<Rightarrow>
          if is_read cap then None
          else (case policy of
                  Some pe \<Rightarrow>
                    if pv_decision (evaluate pe (cap_name cap)) = Allow
                    then Some (''write capability `'' @ cap_name cap @
                               ''` resolves to Allow under the shipped policy '' @ em_dash @
                               '' must be deny or require_approval'')
                    else None
                | None \<Rightarrow> None))"

fun lint_caps :: "policy_engine option \<Rightarrow> string list \<Rightarrow> capability list \<Rightarrow> (unit, string) result" where
  "lint_caps policy present [] = Ok ()"
| "lint_caps policy present (cap # caps) =
     (case lint_cap policy present cap of
        Some e \<Rightarrow> Err e
      | None \<Rightarrow> lint_caps policy present caps)"

definition lint_write_capabilities ::
  "('i, 'v, 't, 'a) broker \<Rightarrow> capability list \<Rightarrow> (unit, string) result" where
  "lint_write_capabilities br caps = lint_caps (br_policy br) (map cap_name caps) caps"

section \<open>Lemmas: the lint\<close>

lemma lint_caps_Ok_iff: "lint_caps policy present caps = Ok () \<longleftrightarrow> (\<forall>cap \<in> set caps. lint_cap policy present cap = None)"
  by (induction caps) (auto split: option.splits)

lemma lint_cap_None_iff:
  "lint_cap policy present cap = None \<longleftrightarrow>
     (\<forall>cc. cap_compensating cap = Some cc \<longrightarrow> comp_name cc \<in> set present) \<and>
     (\<forall>pe. policy = Some pe \<longrightarrow> is_read cap \<or> pv_decision (evaluate pe (cap_name cap)) \<noteq> Allow)"
  by (auto simp: lint_cap_def split: option.splits if_splits)

section \<open>Lemmas: the guard comes first\<close>

text \<open>A call the guard refuses, or that is still parked, has touched neither the inventory nor
  the vault nor a transport.\<close>

lemma execute_inner_refused:
  assumes "fst (broker_pre_flight br cl req (bw_guard w)) \<noteq> Some (Ok ())"
    and "execute_inner br cl req w = (r, w')"
  shows "w' = w\<lparr>bw_guard := bw_guard w'\<rparr> \<and> (\<forall>x. r \<noteq> Some (Ok x))"
  using assms by (auto simp: execute_inner_def split: prod.splits option.splits result.splits)

lemma execute_inner_passed:
  assumes "broker_pre_flight br cl req (bw_guard w) = (Some (Ok ()), g)"
  shows "execute_inner br cl req w = (case broker_run br req (w\<lparr>bw_guard := g\<rparr>) of (x, w') \<Rightarrow> (Some x, w'))"
  using assms by (simp add: execute_inner_def)

lemma broker_run_guard: "broker_run br req w = (r, w') \<Longrightarrow> bw_guard w' = bw_guard w \<and> bw_audit w' = bw_audit w"
  by (auto simp: broker_run_def split: prod.splits result.splits option.splits)

lemma audit_execute_keeps:
  "bw_guard (audit_execute br req res l w) = bw_guard w"
  "bw_vault (audit_execute br req res l w) = bw_vault w"
  "bw_transport (audit_execute br req res l w) = bw_transport w"
  by (auto simp: audit_execute_def split: option.splits prod.splits)

text \<open>A successful call passed the guard, and the guard's world is left as the guard left it.\<close>

lemma execute_Ok:
  assumes "execute br cl req w = (Some (Ok x), w')"
  shows "broker_pre_flight br cl req (bw_guard w) = (Some (Ok ()), bw_guard w')"
proof -
  obtain r w1 where i: "execute_inner br cl req w = (r, w1)" by fastforce
  have r: "r = Some (Ok x)" and w': "w' = audit_execute br req (Ok x) (cl_latency cl) w1"
    using assms i by (auto simp: execute_def split: option.splits)
  obtain p g where p: "broker_pre_flight br cl req (bw_guard w) = (p, g)" by fastforce
  have ok: "p = Some (Ok ())"
    using execute_inner_refused [OF _ i] r p by force
  obtain y w2 where run: "broker_run br req (w\<lparr>bw_guard := g\<rparr>) = (y, w2)" by fastforce
  have "w1 = w2" using execute_inner_passed [OF p [unfolded ok]] i run by simp
  then have "bw_guard w1 = g" using broker_run_guard [OF run] by simp
  then show ?thesis using p ok w' by (simp add: audit_execute_keeps)
qed

section \<open>Lemmas: the audit event\<close>

lemma execute_event_fields:
  "ne_actor_id (execute_event req c res l) = xr_actor_id req"
  "ne_action (execute_event req c res l) = BrokerExecute"
  "ne_target_ref (execute_event req c res l) = Some (show_target_ref (xr_target_ref req))"
  "ne_op_summary (execute_event req c res l) = Some (op_summary_for (xr_op req))"
  "ne_credential_ref (execute_event req c res l) = c"
  "ne_result (execute_event req c res l) = (if is_ok res then AuditSuccess else AuditError)"
  by (cases res; cases c; simp add: execute_event_def with_latency_ms_def with_op_summary_def with_target_def
      with_credential_def with_metadata_def audit_event_new_def Let_def)+

section \<open>Lemmas: credentials are opaque\<close>

text \<open>The same broker with every credential renamed by \<open>f\<close> on its way out of the vault and named back by \<open>g\<close> where a
  transport takes it.\<close>

definition renamed :: "(credential \<Rightarrow> credential) \<Rightarrow> (credential \<Rightarrow> credential) \<Rightarrow> ('i, 'v, 't, 'a) broker \<Rightarrow> ('i, 'v, 't, 'a) broker" where
  "renamed f g br =
     br\<lparr>br_resolve := \<lambda>r v. (case br_resolve br r v of (Ok c, v') \<Rightarrow> (Ok (f c), v') | (Err e, v') \<Rightarrow> (Err e, v')),
        br_transports := map (\<lambda>(k, tr). (k, \<lambda>tgt op c. tr tgt op (g c))) (br_transports br)\<rparr>"

lemma renamed_fields [simp]:
  "br_inventory (renamed f g br) = br_inventory br" "br_policy (renamed f g br) = br_policy br" "br_audit (renamed f g br) = br_audit br"
  "br_resolve (renamed f g br) r v = (case br_resolve br r v of (Ok c, v') \<Rightarrow> (Ok (f c), v') | (Err e, v') \<Rightarrow> (Err e, v'))"
  "map_of (br_transports (renamed f g br)) k = map_option (\<lambda>tr tgt op c. tr tgt op (g c)) (map_of (br_transports br) k)"
  by (simp_all add: renamed_def map_of_map)



section \<open>Properties\<close>

text \<open>A request the guard refuses, or keeps parked, reaches no transport: the vault and the
  transports are exactly as they were, the inventory has seen at most the audit event's
  look-up of the target, and the caller gets no result.\<close>

lemma execute_guard_first:
  assumes "br_policy br = Some policy"
    and "fst (pre_flight (cl_semver cl) (cl_send cl) policy (cl_approval cl) (xr_actor_id req)
      (request_capability req) (Some (show_target_ref (xr_target_ref req))) (request_params req)
      (derive_read_only req) (bw_guard w)) \<noteq> Some (Ok ())"
    and "execute br cl req w = (r, w')"
  shows "bw_inventory w' \<in> {bw_inventory w, snd (io_get_managed (br_inventory br) (xr_target_ref req) (bw_inventory w))} \<and>
    bw_vault w' = bw_vault w \<and> bw_transport w' = bw_transport w \<and>
    (\<forall>x. r \<noteq> Some (Ok x))"
proof -
  obtain p w1 where i: "execute_inner br cl req w = (p, w1)" by fastforce
  have "fst (broker_pre_flight br cl req (bw_guard w)) \<noteq> Some (Ok ())"
    using assms(1,2) by (simp add: broker_pre_flight_def)
  from execute_inner_refused [OF this i] have w1: "w1 = w\<lparr>bw_guard := bw_guard w1\<rparr>" and p: "\<forall>x. p \<noteq> Some (Ok x)"
    by blast+
  have "bw_inventory w1 = bw_inventory w" "bw_vault w1 = bw_vault w" "bw_transport w1 = bw_transport w"
    by (subst w1, simp)+
  then show ?thesis
    using assms(3) i p by (cases p) (auto simp: execute_def audit_execute_def case_prod_unfold split: option.splits)
qed

text \<open>C15: every call that ends is audited exactly once: the sink is given one event, of kind
  \<open>broker.execute\<close>, with the caller, the target and the operation of the request, tagged
  \<open>success\<close> exactly when the call succeeded. A parked call has no event yet.\<close>

theorem execute_audited_once:
  assumes "br_audit br = Some sink"
  shows "case execute br cl req w of
     (Some res, w') \<Rightarrow> (\<exists>ev. bw_audit w' = snd (as_append sink ev (bw_audit w)) \<and>
        ne_actor_id ev = xr_actor_id req \<and> ne_action ev = BrokerExecute \<and>
        ne_target_ref ev = Some (show_target_ref (xr_target_ref req)) \<and>
        ne_op_summary ev = Some (op_summary_for (xr_op req)) \<and>
        (ne_result ev = AuditSuccess \<longleftrightarrow> is_ok res))
   | (None, w') \<Rightarrow> bw_audit w' = bw_audit w"
proof -
  obtain r w1 where i: "execute_inner br cl req w = (r, w1)" by fastforce
  have keep: "bw_audit w1 = bw_audit w"
    using i by (auto simp: execute_inner_def split: prod.splits option.splits result.splits
        dest!: broker_run_guard)
  show ?thesis
  proof (cases r)
    case None
    then show ?thesis using i keep by (simp add: execute_def)
  next
    case (Some res)
    obtain m i' where m: "io_get_managed (br_inventory br) (xr_target_ref req) (bw_inventory w1) = (m, i')" by fastforce
    let ?ev = "execute_event req (map_option mt_credential_ref (result_ok m)) res (cl_latency cl)"
    have "bw_audit (snd (execute br cl req w)) = snd (as_append sink ?ev (bw_audit w))"
      using i Some assms keep m by (simp add: execute_def audit_execute_def)
    then show ?thesis
      using i Some by (auto simp: execute_def execute_event_fields intro!: exI [of _ ?ev] split: if_splits)
  qed
qed


text \<open>The boot lint accepts a capability set exactly when every compensator it names is in
  the set and, with a guard, no write capability is allowed by the policy outright.\<close>

lemma lint_exact:
  "lint_write_capabilities br caps = Ok () \<longleftrightarrow>
     (\<forall>cap \<in> set caps.
        (case cap_compensating cap of Some cc \<Rightarrow> comp_name cc \<in> cap_name ` set caps | None \<Rightarrow> True) \<and>
        (case br_policy br of Some pe \<Rightarrow> is_read cap \<or> pv_decision (evaluate pe (cap_name cap)) \<noteq> Allow | None \<Rightarrow> True))"
  unfolding lint_write_capabilities_def lint_caps_Ok_iff lint_cap_None_iff
  by (intro ball_cong refl) (auto split: option.splits)

section \<open>A small broker\<close>

text \<open>One target behind the recording transport, a vault with one token, and the guard's example
  policy; the witnesses run on it.\<close>

definition ex_target :: managed_target where
  "ex_target = \<lparr>mt_ref = TargetRef ''edge'', mt_kind = TkNetwork, mt_transport = TrSsh,
     mt_host = ''10.0.0.1'', mt_port = 22, mt_credential_ref = ''vault://edge'', mt_labels = [], mt_capabilities = []\<rparr>"

definition mem_inventory_ops :: "mem_inventory inventory_ops" where
  "mem_inventory_ops = \<lparr>io_get_managed = mem_get_managed, io_get_metadata = mem_get_metadata, io_list = mem_list,
     io_upsert = mem_upsert, io_remove = mem_remove\<rparr>"

definition pg_audit_sink :: "(string \<Rightarrow> string \<Rightarrow> bool) \<Rightarrow> uuid \<Rightarrow> millis \<Rightarrow> audit_db audit_sink" where
  "pg_audit_sink ilike u ts =
     \<lparr>as_append = audit_append u ts, as_query = audit_query ilike, as_count = audit_count ilike\<rparr>"

definition ex_broker :: "(mem_inventory, stub_vault, stub_record list, audit_db) broker" where
  "ex_broker = with_guard ex_policy (broker_new mem_inventory_ops stub_resolve [(TrSsh, stub_execute)])
     \<lparr>br_audit := Some (pg_audit_sink (\<lambda>_ _. True) ''a-1'' 9)\<rparr>"

definition ex_world :: "string \<Rightarrow> (mem_inventory, stub_vault, stub_record list, audit_db, in_proc_bus) broker_world" where
  "ex_world secret = \<lparr>bw_inventory = [(TargetRef ''edge'', ex_target)],
     bw_vault = [(''vault://edge'', ApiToken secret)], bw_transport = [], bw_audit = db_of [], bw_guard = ex_guard\<rparr>"

definition ex_call :: "(in_proc_bus guard_world) poll list \<Rightarrow> in_proc_bus call_env" where
  "ex_call ps = \<lparr>cl_semver = star_semver, cl_send = bus_send, cl_approval = ex_env ps, cl_latency = 5\<rparr>"

definition ex_request :: exec_request where
  "ex_request = with_capability ''network.fw.add'' False
     (exec_request_new ''alice'' (TargetRef ''edge'') (OpShellCommand ''/ip/firewall/filter/add'' 30))"

lemmas ex_broker_defs = ex_broker_def with_guard_def broker_new_def ex_world_def ex_call_def ex_request_def
  with_capability_def exec_request_new_def

lemma ex_parked:
  "fst (pre_flight star_semver bus_send ex_policy (ex_env [ex_poll 2 id]) ''alice'' ''network.fw.add''
     (Some ''target://edge'') params False ex_guard) = None"
  by (simp add: ex_guard_defs ex_run_defs)

lemma execute_guard_first_example:
  "bw_transport (snd (execute ex_broker (ex_call [ex_poll 2 id]) ex_request (ex_world ''s3cret''))) = []"
proof -
  obtain r w' where run: "execute ex_broker (ex_call [ex_poll 2 id]) ex_request (ex_world ''s3cret'') = (r, w')"
    by fastforce
  have "br_policy ex_broker = Some ex_policy" by (simp add: ex_broker_defs)
  from execute_guard_first [OF this _ run] show ?thesis
    using run ex_parked
    by (simp add: ex_broker_defs request_capability_def derive_read_only_def)
qed

lemma ex_passed:
  "fst (pre_flight star_semver bus_send ex_policy (ex_env [ex_poll 2 ex_approve]) ''alice'' ''network.fw.add''
     (Some ''target://edge'') params False ex_guard) = Some (Ok ())"
  by (simp add: ex_guard_defs ex_run_defs)

lemma ex_executed_shell:
  assumes "fst (broker_pre_flight ex_broker cl req ex_guard) = Some (Ok ())"
    and "xr_target_ref req = TargetRef ''edge''" "xr_op req = OpShellCommand command secs"
  shows "fst (execute ex_broker cl req (ex_world secret)) = Some (Ok (ResShell (''[stub] ran: '' @ command) '''' 0))"
proof -
  obtain g where g: "broker_pre_flight ex_broker cl req ex_guard = (Some (Ok ()), g)"
    using assms(1) by (metis prod.collapse)
  have ref: "credential_ref_parse ''vault://edge'' = Ok (CrNamed ''edge'')"
    by code_simp
  show ?thesis
    by (simp add: execute_def execute_inner_def g ex_world_def broker_run_def assms(2,3))
      (simp add: ex_broker_defs mem_inventory_ops_def mem_get_managed_def ex_target_def ref stub_resolve_def
        stub_execute_def ok_or_def assms(3))
qed

lemma ex_executed:
  "fst (execute ex_broker (ex_call [ex_poll 2 ex_approve]) ex_request (ex_world secret)) =
     Some (Ok (ResShell (''[stub] ran: '' @ ''/ip/firewall/filter/add'') '''' 0))"
proof (rule ex_executed_shell [where secs = 30])
  show "fst (broker_pre_flight ex_broker (ex_call [ex_poll 2 ex_approve]) ex_request ex_guard) = Some (Ok ())"
    using ex_passed [of "request_params ex_request"]
    by (simp add: broker_pre_flight_def ex_broker_defs request_capability_def derive_read_only_def)
qed (simp_all add: ex_broker_defs)

theorem execute_audited_once_witness:
  "\<exists>ev. bw_audit (snd (execute ex_broker (ex_call [ex_poll 2 ex_approve]) ex_request (ex_world ''s3cret''))) =
     snd (as_append (pg_audit_sink (\<lambda>_ _. True) ''a-1'' 9) ev (db_of [])) \<and>
     ne_actor_id ev = ''alice'' \<and> ne_result ev = AuditSuccess"
proof -
  have s: "br_audit ex_broker = Some (pg_audit_sink (\<lambda>_ _. True) ''a-1'' 9)" by (simp add: ex_broker_defs)
  have w: "bw_audit (ex_world ''s3cret'') = db_of []" "xr_actor_id ex_request = ''alice''"
    by (simp_all add: ex_world_def ex_broker_defs)
  obtain x w' where run: "execute ex_broker (ex_call [ex_poll 2 ex_approve]) ex_request (ex_world ''s3cret'') =
      (Some (Ok x), w')"
    using ex_executed by (metis prod.collapse)
  from execute_audited_once [OF s, where cl = "ex_call [ex_poll 2 ex_approve]" and req = ex_request and w = "ex_world ''s3cret''"]
  show ?thesis unfolding run w by auto
qed



end
