(* ===== verification/BrokerAdmin.thy ===== *)
theory BrokerAdmin
  imports Broker
begin

text \<open>
  The admin side of the broker (\<open>daimon-broker\<close>, \<open>admin.rs\<close>): the vault, inventory, audit and
  approval operations the application calls. The vault operations need the PostgreSQL vault
  of the production constructor, so their worlds have \<^typ>\<open>pg_vault\<close> as the vault's state; the
  random nonce, the fresh id and the clock readings they use are arguments.
\<close>

type_synonym ('i, 't, 'a, 'b) admin_world = "('i, pg_vault, 't, 'a, 'b) broker_world"

section \<open>Helpers\<close>

definition require_vault_admin :: "('i, 'v, 't, 'a) broker \<Rightarrow> (vault_env, broker_error) result" where
  "require_vault_admin br = ok_or (br_vault_admin br) (BrAdminBackendNotAvailable ''vault'')"

definition require_audit_sink :: "('i, 'v, 't, 'a) broker \<Rightarrow> ('a audit_sink, broker_error) result" where
  "require_audit_sink br = ok_or (br_audit br) (BrAdminBackendNotAvailable ''audit'')"

definition require_guard :: "('i, 'v, 't, 'a) broker \<Rightarrow> (policy_engine, broker_error) result" where
  "require_guard br = ok_or (br_policy br) (BrAdminBackendNotAvailable ''guard'')"

definition opt_with :: "('x \<Rightarrow> new_audit_event \<Rightarrow> new_audit_event) \<Rightarrow> 'x option \<Rightarrow> new_audit_event \<Rightarrow> new_audit_event" where
  "opt_with f x ev = (case x of Some y \<Rightarrow> f y ev | None \<Rightarrow> ev)"

definition action_event ::
  "('e \<Rightarrow> string) \<Rightarrow> string \<Rightarrow> action_kind \<Rightarrow> string option \<Rightarrow> string option \<Rightarrow> string option \<Rightarrow>
   ('x, 'e) result \<Rightarrow> 64 word \<Rightarrow> new_audit_event" where
  "action_event show_e actor action tgt cred summary res latency =
     (let ev = opt_with with_op_summary summary
                 (opt_with with_credential cred
                   (opt_with with_target tgt
                     (with_latency_ms latency
                       (audit_event_new actor action (case res of Ok _ \<Rightarrow> AuditSuccess | Err _ \<Rightarrow> AuditError)))))
      in case res of Err e \<Rightarrow> with_metadata ''error'' (show_e e) ev | Ok _ \<Rightarrow> ev)"

text \<open>A failed append is logged and dropped.\<close>

definition audit_action ::
  "('i, 'v, 't, 'a) broker \<Rightarrow> ('e \<Rightarrow> string) \<Rightarrow> string \<Rightarrow> action_kind \<Rightarrow> string option \<Rightarrow> string option \<Rightarrow>
   string option \<Rightarrow> ('x, 'e) result \<Rightarrow> 64 word \<Rightarrow> ('i, 'v, 't, 'a, 'b) broker_world \<Rightarrow>
   ('i, 'v, 't, 'a, 'b) broker_world" where
  "audit_action br show_e actor action tgt cred summary res latency w =
     (case br_audit br of
        None \<Rightarrow> w
      | Some sink \<Rightarrow>
          w\<lparr>bw_audit := snd (as_append sink (action_event show_e actor action tgt cred summary res latency)
                              (bw_audit w))\<rparr>)"

section \<open>Vault\<close>

definition on_vault_admin ::
  "('i, pg_vault, 't, 'a) broker \<Rightarrow> string \<Rightarrow> action_kind \<Rightarrow> string option \<Rightarrow> string \<Rightarrow> 64 word \<Rightarrow>
   (vault_env \<Rightarrow> (pg_vault, 'x, vault_error) eff) \<Rightarrow> (('i, 't, 'a, 'b) admin_world, 'x, broker_error) eff" where
  "on_vault_admin br actor action cred summary latency f w =
     (case require_vault_admin br of
        Err e \<Rightarrow> (Err e, w)
      | Ok ve \<Rightarrow>
          (case f ve (bw_vault w) of
             (x, v) \<Rightarrow> (map_err BrVault x,
               audit_action br show_vault_error actor action None cred (Some summary) x latency (w\<lparr>bw_vault := v\<rparr>))))"

definition admin_vault_list_metadata ::
  "('i, pg_vault, 't, 'a) broker \<Rightarrow> string \<Rightarrow> 64 word \<Rightarrow>
   (('i, 't, 'a, 'b) admin_world, credential_metadata list, broker_error) eff" where
  "admin_vault_list_metadata br actor l =
     on_vault_admin br actor VaultResolve None ''vault list'' l (\<lambda>_. vault_list_metadata)"

definition admin_vault_reveal ::
  "('i, pg_vault, 't, 'a) broker \<Rightarrow> string \<Rightarrow> uuid \<Rightarrow> 64 word \<Rightarrow>
   (('i, 't, 'a, 'b) admin_world, credential, broker_error) eff" where
  "admin_vault_reveal br actor i l =
     on_vault_admin br actor VaultReveal (Some (''id='' @ i)) (''revealed credential id='' @ i) l
       (\<lambda>ve. vault_reveal ve i)"

definition admin_vault_create ::
  "('i, pg_vault, 't, 'a) broker \<Rightarrow> bytes \<Rightarrow> uuid \<Rightarrow> millis \<Rightarrow> string \<Rightarrow> string \<Rightarrow> credential \<Rightarrow> 64 word \<Rightarrow>
   (('i, 't, 'a, 'b) admin_world, uuid, broker_error) eff" where
  "admin_vault_create br nonce u now actor name cred l =
     on_vault_admin br actor VaultCreate (Some (''vault://'' @ name))
       (''created credential kind='' @ cred_kind_to_str (credential_kind_of cred)) l
       (\<lambda>ve. vault_create ve nonce u now name cred)"

definition admin_vault_update ::
  "('i, pg_vault, 't, 'a) broker \<Rightarrow> bytes \<Rightarrow> millis \<Rightarrow> string \<Rightarrow> uuid \<Rightarrow> credential \<Rightarrow> 64 word \<Rightarrow>
   (('i, 't, 'a, 'b) admin_world, unit, broker_error) eff" where
  "admin_vault_update br nonce now actor i cred l =
     on_vault_admin br actor VaultUpdate (Some (''id='' @ i)) (''updated credential id='' @ i) l
       (\<lambda>ve. vault_update ve nonce now i cred)"

definition admin_vault_rename ::
  "('i, pg_vault, 't, 'a) broker \<Rightarrow> millis \<Rightarrow> string \<Rightarrow> uuid \<Rightarrow> string \<Rightarrow> 64 word \<Rightarrow>
   (('i, 't, 'a, 'b) admin_world, unit, broker_error) eff" where
  "admin_vault_rename br now actor i new_name l =
     on_vault_admin br actor VaultRename (Some (''vault://'' @ new_name))
       (''renamed credential id='' @ i @ '' to '' @ new_name) l (\<lambda>ve. vault_rename ve now i new_name)"

definition admin_vault_delete ::
  "('i, pg_vault, 't, 'a) broker \<Rightarrow> string \<Rightarrow> uuid \<Rightarrow> 64 word \<Rightarrow>
   (('i, 't, 'a, 'b) admin_world, unit, broker_error) eff" where
  "admin_vault_delete br actor i l =
     on_vault_admin br actor VaultDelete (Some (''id='' @ i)) (''deleted credential id='' @ i) l (\<lambda>_. vault_delete i)"

section \<open>Inventory\<close>

definition inventory_get_managed ::
  "('i, 'v, 't, 'a) broker \<Rightarrow> string \<Rightarrow> target_ref \<Rightarrow> 64 word \<Rightarrow>
   (('i, 'v, 't, 'a, 'b) broker_world, managed_target, broker_error) eff" where
  "inventory_get_managed br actor r l w =
     (case io_get_managed (br_inventory br) r (bw_inventory w) of
        (x, i) \<Rightarrow> (map_err BrInventory x,
          audit_action br show_inventory_error actor InventoryResolve (Some (show_target_ref r))
            (map_option mt_credential_ref (result_ok x)) (Some ''inventory get_managed'') x l (w\<lparr>bw_inventory := i\<rparr>)))"

definition inventory_upsert ::
  "('i, 'v, 't, 'a) broker \<Rightarrow> string \<Rightarrow> managed_target \<Rightarrow> 64 word \<Rightarrow>
   (('i, 'v, 't, 'a, 'b) broker_world, unit, broker_error) eff" where
  "inventory_upsert br actor t l w =
     (case io_upsert (br_inventory br) t (bw_inventory w) of
        (x, i) \<Rightarrow> (map_err BrInventory x,
          audit_action br show_inventory_error actor InventoryUpsert (Some (show_target_ref (mt_ref t)))
            None (Some ''inventory upsert'') x l (w\<lparr>bw_inventory := i\<rparr>)))"

definition inventory_remove ::
  "('i, 'v, 't, 'a) broker \<Rightarrow> string \<Rightarrow> target_ref \<Rightarrow> 64 word \<Rightarrow>
   (('i, 'v, 't, 'a, 'b) broker_world, unit, broker_error) eff" where
  "inventory_remove br actor r l w =
     (case io_remove (br_inventory br) r (bw_inventory w) of
        (x, i) \<Rightarrow> (map_err BrInventory x,
          audit_action br show_inventory_error actor InventoryRemove (Some (show_target_ref r))
            None (Some ''inventory remove'') x l (w\<lparr>bw_inventory := i\<rparr>)))"

text \<open>The two metadata reads are not audited.\<close>

definition inventory_list ::
  "('i, 'v, 't, 'a) broker \<Rightarrow> string \<Rightarrow> target_kind option \<Rightarrow> ('i, 'v, 't, 'a, 'b) broker_world \<Rightarrow>
   target_metadata list \<times> ('i, 'v, 't, 'a, 'b) broker_world" where
  "inventory_list br actor f w =
     (case io_list (br_inventory br) f (bw_inventory w) of (x, i) \<Rightarrow> (x, w\<lparr>bw_inventory := i\<rparr>))"

definition inventory_get_metadata ::
  "('i, 'v, 't, 'a) broker \<Rightarrow> string \<Rightarrow> target_ref \<Rightarrow>
   (('i, 'v, 't, 'a, 'b) broker_world, target_metadata, broker_error) eff" where
  "inventory_get_metadata br actor r w =
     (case io_get_metadata (br_inventory br) r (bw_inventory w) of
        (x, i) \<Rightarrow> (map_err BrInventory x, w\<lparr>bw_inventory := i\<rparr>))"

section \<open>Audit\<close>

definition on_sink ::
  "('i, 'v, 't, 'a) broker \<Rightarrow> ('a audit_sink \<Rightarrow> ('a, 'x, audit_error) eff) \<Rightarrow>
   (('i, 'v, 't, 'a, 'b) broker_world, 'x, broker_error) eff" where
  "on_sink br f w =
     (case require_audit_sink br of
        Err e \<Rightarrow> (Err e, w)
      | Ok sink \<Rightarrow>
          (case f sink (bw_audit w) of
             (x, a) \<Rightarrow> (map_err (\<lambda>e. BrAudit (show_audit_error e)) x, w\<lparr>bw_audit := a\<rparr>)))"

definition admin_audit_query ::
  "('i, 'v, 't, 'a) broker \<Rightarrow> string \<Rightarrow> audit_filter \<Rightarrow> nat \<Rightarrow> nat \<Rightarrow>
   (('i, 'v, 't, 'a, 'b) broker_world, audit_event list, broker_error) eff" where
  "admin_audit_query br actor f limit offset = on_sink br (\<lambda>sink. as_query sink f limit offset)"

definition admin_audit_count ::
  "('i, 'v, 't, 'a) broker \<Rightarrow> string \<Rightarrow> audit_filter \<Rightarrow>
   (('i, 'v, 't, 'a, 'b) broker_world, nat, broker_error) eff" where
  "admin_audit_count br actor f = on_sink br (\<lambda>sink. as_count sink f)"

definition add_metadata :: "(string \<times> string) list \<Rightarrow> new_audit_event \<Rightarrow> new_audit_event" where
  "add_metadata ms ev = foldl (\<lambda>ev (k, v). with_metadata k v ev) ev ms"

definition audit_memory_op ::
  "('i, 'v, 't, 'a) broker \<Rightarrow> string \<Rightarrow> action_kind \<Rightarrow> string option \<Rightarrow> string option \<Rightarrow> 64 word \<Rightarrow> bool \<Rightarrow>
   (string \<times> string) list \<Rightarrow> (('i, 'v, 't, 'a, 'b) broker_world, unit, broker_error) eff" where
  "audit_memory_op br actor action tgt summary latency success ms =
     bindE (on_sink br (\<lambda>sink. as_append sink
              (add_metadata ms (opt_with with_op_summary summary (opt_with with_target tgt
                (with_latency_ms latency
                  (audit_event_new actor action (if success then AuditSuccess else AuditError)))))))) (\<lambda>_. retE ())"

definition audit_admin_action ::
  "('i, 'v, 't, 'a) broker \<Rightarrow> string \<Rightarrow> action_kind \<Rightarrow> string option \<Rightarrow> string option \<Rightarrow> string option \<Rightarrow>
   (string, string) bmap \<Rightarrow> (('i, 'v, 't, 'a, 'b) broker_world, unit, broker_error) eff" where
  "audit_admin_action br actor action tgt cred summary ms =
     bindE (on_sink br (\<lambda>sink. as_append sink
              (add_metadata ms (opt_with with_op_summary summary (opt_with with_credential cred
                (opt_with with_target tgt (audit_event_new actor action AuditSuccess))))))) (\<lambda>_. retE ())"

section \<open>Approvals\<close>

definition on_guard ::
  "('i, 'v, 't, 'a) broker \<Rightarrow> ('b guard_world, 'x, guard_error) eff \<Rightarrow>
   (('i, 'v, 't, 'a, 'b) broker_world, 'x, broker_error) eff" where
  "on_guard br f w =
     (case require_guard br of
        Err e \<Rightarrow> (Err e, w)
      | Ok _ \<Rightarrow>
          (case f (bw_guard w) of
             (x, g) \<Rightarrow> (map_err (\<lambda>e. BrAudit (show_guard_error e)) x, w\<lparr>bw_guard := g\<rparr>)))"

definition approvals_pending ::
  "('i, 'v, 't, 'a) broker \<Rightarrow> nat \<Rightarrow> (('i, 'v, 't, 'a, 'b) broker_world, approval_record list, broker_error) eff" where
  "approvals_pending br limit = on_guard br (list_pending limit)"

definition approvals_decide ::
  "('i, 'v, 't, 'a) broker \<Rightarrow> millis \<Rightarrow> uuid \<Rightarrow> uuid \<Rightarrow> approval_status \<Rightarrow>
   (('i, 'v, 't, 'a, 'b) broker_world, approval_record, broker_error) eff" where
  "approvals_decide br now i usr st = on_guard br (decide now i usr st)"

section \<open>Lemmas\<close>

text \<open>One audited call: who called, under which action, and whether it succeeded.\<close>

inductive admin_call ::
  "('i, pg_vault, 't, 'a) broker \<Rightarrow> string \<Rightarrow> action_kind \<Rightarrow> bool \<Rightarrow> ('i, 't, 'a, 'b) admin_world \<Rightarrow>
   ('i, 't, 'a, 'b) admin_world \<Rightarrow> bool"
  for br :: "('i, pg_vault, 't, 'a) broker" where
  ac_vault_list: "admin_vault_list_metadata br actor l w = (x, w') \<Longrightarrow> admin_call br actor VaultResolve (is_ok x) w w'"
| ac_vault_reveal: "admin_vault_reveal br actor i l w = (x, w') \<Longrightarrow> admin_call br actor VaultReveal (is_ok x) w w'"
| ac_vault_create: "admin_vault_create br nonce u now actor name cred l w = (x, w') \<Longrightarrow>
    admin_call br actor VaultCreate (is_ok x) w w'"
| ac_vault_update: "admin_vault_update br nonce now actor i cred l w = (x, w') \<Longrightarrow>
    admin_call br actor VaultUpdate (is_ok x) w w'"
| ac_vault_rename: "admin_vault_rename br now actor i name l w = (x, w') \<Longrightarrow>
    admin_call br actor VaultRename (is_ok x) w w'"
| ac_vault_delete: "admin_vault_delete br actor i l w = (x, w') \<Longrightarrow> admin_call br actor VaultDelete (is_ok x) w w'"
| ac_inventory_get: "inventory_get_managed br actor r l w = (x, w') \<Longrightarrow>
    admin_call br actor InventoryResolve (is_ok x) w w'"
| ac_inventory_upsert: "inventory_upsert br actor t l w = (x, w') \<Longrightarrow>
    admin_call br actor InventoryUpsert (is_ok x) w w'"
| ac_inventory_remove: "inventory_remove br actor r l w = (x, w') \<Longrightarrow>
    admin_call br actor InventoryRemove (is_ok x) w w'"

definition audited_as ::
  "'a audit_sink \<Rightarrow> string \<Rightarrow> action_kind \<Rightarrow> bool \<Rightarrow> 'a \<Rightarrow> 'a \<Rightarrow> bool" where
  "audited_as sink actor action ok a a' \<longleftrightarrow>
     (\<exists>ev. a' = snd (as_append sink ev a) \<and> ne_actor_id ev = actor \<and> ne_action ev = action \<and>
        ne_result ev = (if ok then AuditSuccess else AuditError))"

lemma opt_with_fields:
  "ne_actor_id (opt_with with_target x ev) = ne_actor_id ev"
  "ne_actor_id (opt_with with_credential x ev) = ne_actor_id ev"
  "ne_actor_id (opt_with with_op_summary x ev) = ne_actor_id ev"
  "ne_action (opt_with with_target x ev) = ne_action ev"
  "ne_action (opt_with with_credential x ev) = ne_action ev"
  "ne_action (opt_with with_op_summary x ev) = ne_action ev"
  "ne_result (opt_with with_target x ev) = ne_result ev"
  "ne_result (opt_with with_credential x ev) = ne_result ev"
  "ne_result (opt_with with_op_summary x ev) = ne_result ev"
  by (cases x; simp add: opt_with_def with_target_def with_credential_def with_op_summary_def)+

lemma action_event_fields:
  "ne_actor_id (action_event sh actor action t c s res l) = actor"
  "ne_action (action_event sh actor action t c s res l) = action"
  "ne_result (action_event sh actor action t c s res l) = (if is_ok res then AuditSuccess else AuditError)"
  by (cases res; simp add: action_event_def Let_def with_metadata_def opt_with_fields with_latency_ms_def
      audit_event_new_def)+

lemma audit_action_audited:
  "br_audit br = Some sink \<Longrightarrow> bw_audit w0 = a \<Longrightarrow> ok = is_ok res \<Longrightarrow>
   audited_as sink actor action ok a (bw_audit (audit_action br sh actor action t c s res l w0))"
  unfolding audited_as_def
  by (intro exI [of _ "action_event sh actor action t c s res l"]) (simp add: audit_action_def action_event_fields)

lemma on_vault_admin_audited:
  assumes "br_audit br = Some sink" "br_vault_admin br = Some ve"
    and "on_vault_admin br actor action c s l f w = (x, w')"
  shows "audited_as sink actor action (is_ok x) (bw_audit w) (bw_audit w')"
  using assms(2,3)
  by (auto simp: on_vault_admin_def require_vault_admin_def ok_or_def split: prod.splits
      intro!: audit_action_audited [OF assms(1)])

lemmas vault_admin_defs = admin_vault_list_metadata_def admin_vault_reveal_def admin_vault_create_def
  admin_vault_update_def admin_vault_rename_def admin_vault_delete_def

lemmas inventory_admin_defs = inventory_get_managed_def inventory_upsert_def inventory_remove_def

lemma admin_call_audited_as:
  assumes "admin_call br actor action ok w w'" "br_audit br = Some sink" "br_vault_admin br = Some ve"
  shows "audited_as sink actor action ok (bw_audit w) (bw_audit w')"
  using assms(1)
proof cases
  case (ac_inventory_get r l x)
  then show ?thesis
    by (auto simp: inventory_admin_defs split: prod.splits intro!: audit_action_audited [OF assms(2)])
next
  case (ac_inventory_upsert t l x)
  then show ?thesis
    by (auto simp: inventory_admin_defs split: prod.splits intro!: audit_action_audited [OF assms(2)])
next
  case (ac_inventory_remove r l x)
  then show ?thesis
    by (auto simp: inventory_admin_defs split: prod.splits intro!: audit_action_audited [OF assms(2)])
qed (simp only: vault_admin_defs, erule on_vault_admin_audited [OF assms(2,3)])+

section \<open>Properties\<close>

text \<open>On a broker of the production constructor, every vault operation, and every inventory
  operation that changes the inventory or discloses a credential reference, emits exactly
  one audit event: with the caller, the operation's own action, and \<open>success\<close> exactly when
  it succeeded.\<close>

lemma admin_call_audited:
  assumes "admin_call (with_production_admin invt ve now now' sink transports) actor action ok w w'"
  shows "\<exists>ev. bw_audit w' = snd (as_append sink ev (bw_audit w)) \<and> ne_actor_id ev = actor \<and>
    ne_action ev = action \<and> ne_result ev = (if ok then AuditSuccess else AuditError)"
  using admin_call_audited_as [OF assms, of sink ve] by (simp add: with_production_admin_def audited_as_def)

definition ex_admin :: "(mem_inventory, pg_vault, stub_record list, audit_db) broker" where
  "ex_admin = with_production_admin mem_inventory_ops ex_vault_env 1 2 (pg_audit_sink (\<lambda>_ _. True) ''a-1'' 9) []"

definition ex_admin_world :: "(mem_inventory, stub_record list, audit_db, in_proc_bus) admin_world" where
  "ex_admin_world = \<lparr>bw_inventory = [], bw_vault = ex_vault, bw_transport = [], bw_audit = db_of [], bw_guard = ex_guard\<rparr>"

lemma admin_call_audited_example:
  "\<exists>ev. bw_audit (snd (admin_vault_create ex_admin ex_nonce ''u-1'' 1 ''root'' ''edge'' (ApiToken ''old'') 3 ex_admin_world)) =
     snd (as_append (pg_audit_sink (\<lambda>_ _. True) ''a-1'' 9) ev (db_of [])) \<and> ne_actor_id ev = ''root'' \<and>
     ne_action ev = VaultCreate \<and> ne_result ev = AuditSuccess"
proof -
  obtain x w' where run: "admin_vault_create ex_admin ex_nonce ''u-1'' 1 ''root'' ''edge'' (ApiToken ''old'') 3 ex_admin_world = (x, w')"
    by fastforce
  have ok: "is_ok x"
    using run ex_vault1_run
    by (auto simp: admin_vault_create_def on_vault_admin_def require_vault_admin_def ex_admin_def
        with_production_admin_def ex_admin_world_def ok_or_def)
  have "bw_audit ex_admin_world = db_of []" by (simp add: ex_admin_world_def)
  with admin_call_audited [OF ac_vault_create [OF run, unfolded ex_admin_def]] run ok show ?thesis
    by simp
qed

text \<open>An operator's decision on a parked request is not audited: deciding an approval through
  the broker, whatever the outcome, leaves the audit log as it is.\<close>

lemma approvals_decide_not_audited:
  "bw_audit (snd (approvals_decide br now i usr st w)) = bw_audit w"
  by (auto simp: approvals_decide_def on_guard_def split: result.splits prod.splits)

end
