(* ===== verification/Params.thy ===== *)
theory Params
  imports Core Utf8
begin

text \<open>
  The driver layer's shared part (\<open>daimon-driver\<close>): parameter classes and their validation
  (\<open>param.rs\<close>), the class of a target read off a capability name (\<open>lib.rs\<close>), the typed
  returns of the four verbs (\<open>types.rs\<close>), the errors (\<open>error.rs\<close>), and the request body both
  drivers decode. Validation is the one place where operator or model text is let into a
  command; the lemmas say what the accepted texts look like.
\<close>

section \<open>Classes and validation\<close>

datatype param_class = SafeText | Cidr | Identifier | IntClass | EnumClass "string list"

datatype param_error =
    PeEmpty
  | PeDisallowedChar string string string
  | PeMalformed string string
  | PeNotInEnum string "string list"

fun show_param_error :: "param_error \<Rightarrow> string" where
  "show_param_error PeEmpty = ''empty parameter is not allowed''"
| "show_param_error (PeDisallowedChar ch cls v) =
     ''value contains disallowed char `'' @ ch @ ''` for class '' @ cls @ '' (value=`'' @ v @ ''`)''"
| "show_param_error (PeMalformed v cls) = ''value `'' @ v @ ''` is not a valid '' @ cls"
| "show_param_error (PeNotInEnum v allowed) =
     ''value `'' @ v @ ''` is not one of the allowed enum members '' @ debug_strs allowed"

definition safe_text_char :: "char \<Rightarrow> bool" where
  "safe_text_char c \<longleftrightarrow> is_ascii_alphanumeric c \<or> c \<in> set '' ./-_:!@''"

definition cidr_char :: "char \<Rightarrow> bool" where
  "cidr_char c \<longleftrightarrow> is_ascii_hexdigit c \<or> c \<in> set ''.:/''"

definition identifier_char :: "char \<Rightarrow> bool" where
  "identifier_char c \<longleftrightarrow> is_ascii_alphanumeric c \<or> c \<in> set ''_-''"

text \<open>The loop over the characters: the first one outside the class is reported.\<close>

fun check_chars :: "(char \<Rightarrow> bool) \<Rightarrow> string \<Rightarrow> string \<Rightarrow> string \<Rightarrow> (unit, param_error) result" where
  "check_chars ok cls v [] = Ok ()"
| "check_chars ok cls v (c # cs) = (if ok c then check_chars ok cls v cs else Err (PeDisallowedChar (take_chars 1 (c # cs)) cls v))"

definition cidr_structure :: "string \<Rightarrow> (unit, param_error) result" where
  "cidr_structure v =
     (let (addr, pre) = (case split_once (CHR ''/'') v of Some (a, b) \<Rightarrow> (a, Some b) | None \<Rightarrow> (v, None)) in
      if addr = [] then Err (PeMalformed v ''Cidr'')
      else (case pre of
              None \<Rightarrow> Ok ()
            | Some s \<Rightarrow>
                (case parse_u8 s of
                   Some p \<Rightarrow> if p \<le> 128 then Ok () else Err (PeMalformed v ''Cidr'')
                 | None \<Rightarrow> Err (PeMalformed v ''Cidr''))))"

fun validate :: "string \<Rightarrow> param_class \<Rightarrow> (unit, param_error) result" where
  "validate v SafeText = (if v = [] then Err PeEmpty else check_chars safe_text_char ''SafeText'' v v)"
| "validate v Cidr =
     (if v = [] then Err PeEmpty
      else bind_result (check_chars cidr_char ''Cidr'' v v) (\<lambda>_. cidr_structure v))"
| "validate v Identifier = (if v = [] then Err PeEmpty else check_chars identifier_char ''Identifier'' v v)"
| "validate v IntClass = (case parse_i64 v of Some _ \<Rightarrow> Ok () | None \<Rightarrow> Err (PeMalformed v ''Int''))"
| "validate v (EnumClass allowed) = (if v \<in> set allowed then Ok () else Err (PeNotInEnum v allowed))"

section \<open>Target classes\<close>

datatype target_class = TcCompute | TcNetwork | TcStorage | TcOrchestrator | TcFirewall

definition FIREWALL_SUBSYSTEMS :: "string list" where
  "FIREWALL_SUBSYSTEMS = [''firewall'', ''routeros'', ''fortigate'', ''palo'', ''paloalto'']"

definition parse_class :: "string \<Rightarrow> target_class" where
  "parse_class name =
     (let segments = split_on (CHR ''.'') name; head = hd segments in
      if head = ''network'' then
        (if (case tl segments of s # _ \<Rightarrow> s | [] \<Rightarrow> '''') \<in> set FIREWALL_SUBSYSTEMS then TcFirewall else TcNetwork)
      else if head = ''compute'' then TcCompute
      else if head = ''storage'' then TcStorage
      else if head = ''orchestrator'' then TcOrchestrator
      else TcCompute)"

fun debug_target_class :: "target_class \<Rightarrow> string" where
  "debug_target_class TcCompute = ''Compute''"
| "debug_target_class TcNetwork = ''Network''"
| "debug_target_class TcStorage = ''Storage''"
| "debug_target_class TcOrchestrator = ''Orchestrator''"
| "debug_target_class TcFirewall = ''Firewall''"

section \<open>Typed returns and errors\<close>

record target_shape =
  ts_class :: target_class
  ts_identity :: json
  ts_summary :: string

record state_doc =
  sd_target :: string
  sd_doc :: json

datatype severity = SevInfo | SevWarning | SevError | SevCritical

record finding =
  fi_title :: string
  fi_severity :: severity
  fi_detail :: string
  fi_suggested_capability :: "string option"
  fi_suggested_params :: json

record receipt =
  rc_capability :: string
  rc_changed :: json

datatype driver_error =
    DeParam param_error
  | DeUnsupported string
  | DeBroker string
  | DeParse string
  | DeOther string

fun show_driver_error :: "driver_error \<Rightarrow> string" where
  "show_driver_error (DeParam e) = ''parameter validation: '' @ show_param_error e"
| "show_driver_error (DeUnsupported e) = ''unsupported: '' @ e"
| "show_driver_error (DeBroker e) = ''broker: '' @ e"
| "show_driver_error (DeParse e) = ''parse: '' @ e"
| "show_driver_error (DeOther e) = e"

section \<open>The request body\<close>

text \<open>\<open>ConnectorRequest\<close> and \<open>NetworkRequest\<close> have the same fields. Decoding a struct takes an
  object, whose unknown members are ignored and whose optional members may be missing or
  \<open>null\<close>, or an array of the fields in order. The texts of decoding errors belong to
  \<open>serde\<close>, so the decoder says only that it failed.\<close>

record driver_request =
  dr_capability :: string
  dr_target_ref :: string
  dr_timeout_secs :: "nat option"
  dr_params :: "json option"

definition decode_timeout :: "json option \<Rightarrow> nat option option" where
  "decode_timeout x =
     (case x of
        None \<Rightarrow> Some None
      | Some JNull \<Rightarrow> Some None
      | Some (JNum (JPos n)) \<Rightarrow> if n < 2 ^ 32 then Some (Some n) else None
      | Some _ \<Rightarrow> None)"

definition decode_params :: "json option \<Rightarrow> json option" where
  "decode_params x = (case x of None \<Rightarrow> None | Some JNull \<Rightarrow> None | Some v \<Rightarrow> Some v)"

definition request_of_parts ::
  "json option \<Rightarrow> json option \<Rightarrow> json option \<Rightarrow> json option \<Rightarrow> driver_request option" where
  "request_of_parts c t s p =
     (case (Option.bind c j_as_str, Option.bind t j_as_str, decode_timeout s) of
        (Some cap, Some tgt, Some secs) \<Rightarrow>
          Some \<lparr>dr_capability = cap, dr_target_ref = tgt, dr_timeout_secs = secs, dr_params = decode_params p\<rparr>
      | _ \<Rightarrow> None)"

definition nth_json :: "json list \<Rightarrow> nat \<Rightarrow> json option" where
  "nth_json xs i = (if i < length xs then Some (xs ! i) else None)"

fun decode_request :: "json \<Rightarrow> driver_request option" where
  "decode_request (JObj m) =
     request_of_parts (map_of m ''capability'') (map_of m ''target_ref'') (map_of m ''timeout_secs'') (map_of m ''params'')"
| "decode_request (JArr xs) =
     (if 4 < length xs then None
      else request_of_parts (nth_json xs 0) (nth_json xs 1) (nth_json xs 2) (nth_json xs 3))"
| "decode_request _ = None"

section \<open>Lemmas\<close>

lemma check_chars_Ok_iff: "check_chars ok cls v s = Ok () \<longleftrightarrow> list_all ok s"
  by (induction s) auto

lemma validate_SafeText_iff: "validate v SafeText = Ok () \<longleftrightarrow> v \<noteq> [] \<and> list_all safe_text_char v"
  by (simp add: check_chars_Ok_iff)

lemma validate_Identifier_iff: "validate v Identifier = Ok () \<longleftrightarrow> v \<noteq> [] \<and> list_all identifier_char v"
  by (simp add: check_chars_Ok_iff)

lemma validate_Cidr_chars: "validate v Cidr = Ok () \<Longrightarrow> v \<noteq> [] \<and> list_all cidr_char v"
  by (auto simp: bind_result_Ok_iff check_chars_Ok_iff split: if_splits)

lemma parse_digits_chars: "parse_digits s = Some n \<Longrightarrow> s \<noteq> [] \<and> list_all is_digit s"
  by (auto simp: parse_digits_def split: if_splits)

lemma validate_Int_chars:
  "validate v IntClass = Ok () \<Longrightarrow> v \<noteq> [] \<and> list_all (\<lambda>c. is_digit c \<or> c = CHR ''+'' \<or> c = CHR ''-'') v"
proof -
  assume "validate v IntClass = Ok ()"
  then obtain i where "parse_i64 v = Some i" by (auto split: option.splits)
  then obtain c t n where "v = c # t"
    and "(c = CHR ''-'' \<or> c = CHR ''+'') \<and> parse_digits t = Some n \<or> parse_digits v = Some n"
    by (auto simp: parse_i64_def Let_def split: list.splits option.splits if_splits)
  then show ?thesis
    using parse_digits_chars [of t n] parse_digits_chars [of v n] by (auto simp: list_all_iff)
qed

text \<open>The characters with a meaning to a shell or to the RouterOS command line.\<close>

definition shell_metachars :: string where
  "shell_metachars = '';|&$`<>(){}[]=*?~#%^,'' @ [CHR 0x22, CHR 0x27, CHR 0x5C, CHR 0x0A, CHR 0x0D, CHR 0x09, CHR 0x00]"

definition is_metachar :: "char \<Rightarrow> bool" where
  "is_metachar c \<longleftrightarrow> c \<in> set shell_metachars"

fun class_safe :: "param_class \<Rightarrow> bool" where
  "class_safe (EnumClass allowed) = list_all (\<lambda>a. \<not> list_ex is_metachar a) allowed"
| "class_safe _ = True"

lemma metachar_not_alphanumeric: "is_metachar c \<Longrightarrow> \<not> is_ascii_alphanumeric c"
  by (auto simp: is_metachar_def shell_metachars_def is_ascii_alphanumeric_def is_digit_def char_code_def)

lemma hexdigit_alphanumeric: "is_ascii_hexdigit c \<Longrightarrow> is_ascii_alphanumeric c"
  by (auto simp: is_ascii_hexdigit_def is_ascii_alphanumeric_def)

lemma separators_not_meta: "c \<in> set '' ./-_:!@+'' \<Longrightarrow> \<not> is_metachar c"
  by (auto simp: is_metachar_def shell_metachars_def)

lemma safe_text_not_meta: "safe_text_char c \<Longrightarrow> \<not> is_metachar c"
  using metachar_not_alphanumeric [of c] separators_not_meta [of c] unfolding safe_text_char_def by auto

lemma cidr_not_meta: "cidr_char c \<Longrightarrow> \<not> is_metachar c"
  using metachar_not_alphanumeric [of c] hexdigit_alphanumeric [of c] separators_not_meta [of c]
  unfolding cidr_char_def by auto

lemma identifier_not_meta: "identifier_char c \<Longrightarrow> \<not> is_metachar c"
  by (rule safe_text_not_meta) (auto simp: identifier_char_def safe_text_char_def)

lemma int_not_meta: "is_digit c \<or> c = CHR ''+'' \<or> c = CHR ''-'' \<Longrightarrow> \<not> is_metachar c"
  using metachar_not_alphanumeric [of c] separators_not_meta [of c] unfolding is_ascii_alphanumeric_def by auto

lemma validate_no_metachar:
  assumes "validate v cls = Ok ()" "class_safe cls"
  shows "\<not> list_ex is_metachar v"
proof (cases cls)
  case SafeText
  then have "list_all safe_text_char v" using assms(1) validate_SafeText_iff by simp
  then show ?thesis using safe_text_not_meta by (auto simp: list_all_iff list_ex_iff)
next
  case Cidr
  then have "list_all cidr_char v" using assms(1) validate_Cidr_chars by blast
  then show ?thesis using cidr_not_meta by (auto simp: list_all_iff list_ex_iff)
next
  case Identifier
  then have "list_all identifier_char v" using assms(1) validate_Identifier_iff by simp
  then show ?thesis using identifier_not_meta by (auto simp: list_all_iff list_ex_iff)
next
  case IntClass
  then have "list_all (\<lambda>c. is_digit c \<or> c = CHR ''+'' \<or> c = CHR ''-'') v" using assms(1) validate_Int_chars by blast
  then show ?thesis using int_not_meta unfolding list_all_iff list_ex_iff by blast
next
  case (EnumClass allowed)
  then show ?thesis using assms by (auto simp: list_all_iff split: if_splits)
qed

lemma filter_meta_safe: "\<not> list_ex is_metachar v \<Longrightarrow> filter is_metachar v = []"
  by (auto simp: list_ex_iff filter_empty_conv)

end
