(* ===== verification/Connector.thy ===== *)
theory Connector
  imports Params Broker
begin

text \<open>
  The declarative connector driver (\<open>daimon-driver\<close>, \<open>connector.rs\<close>): profiles, their
  projection to capabilities, the template renderer, and the dispatch through the broker.

  The TOML parser, the text of decoding errors and \<open>serde_json::to_string\<close> belong to third-party
  crates and are parameters. A profile is therefore modelled from its parsed form on, except
  for the compact form of parameter classes, whose decoder the crate writes itself.
\<close>

definition DEFAULT_TIMEOUT_SECS :: "32 word" where
  "DEFAULT_TIMEOUT_SECS = 30"

section \<open>Profiles\<close>

record profile_auth =
  pa_scheme :: "string option"
  pa_header :: "string option"
  pa_value :: "string option"

definition to_scheme :: "profile_auth \<Rightarrow> auth_scheme" where
  "to_scheme a =
     (if pa_scheme a = Some ''none'' then AuthNone
      else if pa_scheme a = Some ''header'' then
        (case (pa_header a, pa_value a) of (Some h, Some v) \<Rightarrow> AuthHeader h v | _ \<Rightarrow> AuthBearer)
      else AuthBearer)"

datatype profile_class = PcCompute | PcNetwork | PcStorage | PcOrchestrator | PcFirewall

fun class_of_profile :: "profile_class \<Rightarrow> target_class" where
  "class_of_profile PcCompute = TcCompute"
| "class_of_profile PcNetwork = TcNetwork"
| "class_of_profile PcStorage = TcStorage"
| "class_of_profile PcOrchestrator = TcOrchestrator"
| "class_of_profile PcFirewall = TcFirewall"

datatype profile_transport = PtRest | PtSsh | PtSnmp

datatype profile_http_method = PmGet | PmPost | PmPut | PmPatch | PmDelete

fun method_of_profile :: "profile_http_method \<Rightarrow> http_method" where
  "method_of_profile PmGet = HttpGet"
| "method_of_profile PmPost = HttpPost"
| "method_of_profile PmPut = HttpPut"
| "method_of_profile PmPatch = HttpPatch"
| "method_of_profile PmDelete = HttpDelete"

datatype parse_hint = PhJson

text \<open>\<open>safe_text | cidr | identifier | int | enum:a,b,c\<close>.\<close>

definition profile_param_class :: "string \<Rightarrow> (param_class, string) result" where
  "profile_param_class s =
     (if s = ''safe_text'' then Ok SafeText
      else if s = ''cidr'' then Ok Cidr
      else if s = ''identifier'' then Ok Identifier
      else if s = ''int'' then Ok IntClass
      else (case strip_prefix ''enum:'' s of
              Some members \<Rightarrow>
                (let variants = filter (\<lambda>m. m \<noteq> []) (map trim (split_on (CHR '','') members)) in
                 if variants = [] then Err ''enum: param class needs at least one member''
                 else Ok (EnumClass variants))
            | None \<Rightarrow>
                Err (''unknown param class `'' @ s @ ''` (expected safe_text|cidr|identifier|int|enum:a,b,c)'')))"

record profile_op =
  po_method :: profile_http_method
  po_path :: string
  po_body :: "json option"
  po_command :: "string option"
  po_timeout_secs :: "32 word option"
  po_oid :: "string option"
  po_walk :: bool

record profile_capability =
  pc_name :: string
  pc_version :: version
  pc_description :: "string option"
  pc_compensating :: "string option"
  pc_irreversible :: bool
  pc_read_only :: bool
  pc_params :: "(string, param_class) bmap"
  pc_op :: profile_op
  pc_parse :: "parse_hint option"

record connector_profile =
  cp_name :: string
  cp_class :: profile_class
  cp_transport :: profile_transport
  cp_auth :: "profile_auth option"
  cp_capabilities :: "profile_capability list"

section \<open>Errors\<close>

datatype connector_error =
    CeIo string string
  | CeParse string string
  | CeUnknownCapability string
  | CeMissingParam string string
  | CeUndeclaredParamClass string string
  | CeParam string param_error
  | CeBadTarget string
  | CeBroker string
  | CeWrongOpResult string
  | CeBadProfile string
  | CeCapabilityFailed string "32 word"

fun show_connector_error :: "connector_error \<Rightarrow> string" where
  "show_connector_error (CeIo path e) = ''io reading connector dir `'' @ path @ ''`: '' @ e"
| "show_connector_error (CeParse path e) = ''parse profile `'' @ path @ ''`: '' @ e"
| "show_connector_error (CeUnknownCapability c) = ''unknown capability `'' @ c @ ''`''"
| "show_connector_error (CeMissingParam c p) = ''missing required param `'' @ p @ ''` for capability `'' @ c @ ''`''"
| "show_connector_error (CeUndeclaredParamClass c p) =
     ''param `'' @ p @ ''` has no declared class in capability `'' @ c @
     ''` '' @ em_dash @ '' a `{param}` slot cannot be substituted without a class (injection chokepoint)''"
| "show_connector_error (CeParam p e) = ''parameter validation for `'' @ p @ ''`: '' @ show_param_error e"
| "show_connector_error (CeBadTarget t) = ''invalid target_ref `'' @ t @ ''`''"
| "show_connector_error (CeBroker e) = ''broker: '' @ e"
| "show_connector_error (CeWrongOpResult e) = ''unexpected OpResult variant: '' @ e"
| "show_connector_error (CeBadProfile e) = ''malformed connector profile: '' @ e"
| "show_connector_error (CeCapabilityFailed c s) =
     ''capability `'' @ c @ ''` failed (status '' @ show_int (sint s) @ '')''"

fun driver_error_of_connector :: "connector_error \<Rightarrow> driver_error" where
  "driver_error_of_connector (CeParam _ e) = DeParam e"
| "driver_error_of_connector (CeBroker m) = DeBroker m"
| "driver_error_of_connector (CeUnknownCapability m) = DeUnsupported m"
| "driver_error_of_connector (CeWrongOpResult m) = DeParse m"
| "driver_error_of_connector e = DeOther (show_connector_error e)"

section \<open>Projection\<close>

definition schema_from_params :: "(string, param_class) bmap \<Rightarrow> json" where
  "schema_from_params ps =
     j_obj [(''type'', JStr ''object''), (''required'', JArr (map (\<lambda>(n, _). JStr n) ps)),
            (''properties'', j_obj (map (\<lambda>(n, c).
                (n, j_obj [(''type'', JStr (case c of IntClass \<Rightarrow> ''integer'' | _ \<Rightarrow> ''string''))])) ps))]"

definition project_capability :: "profile_capability \<Rightarrow> capability" where
  "project_capability c =
     (if pc_read_only c then read_only (pc_name c) (pc_version c)
      else \<lparr>cap_name = pc_name c, cap_version = pc_version c, cap_description = pc_description c,
            cap_schema = Some (schema_from_params (pc_params c)),
            cap_compensating = map_option (\<lambda>n. \<lparr>comp_name = n, comp_version_req = None\<rparr>) (pc_compensating c),
            cap_irreversible = pc_irreversible c\<rparr>)"

fun class_slug :: "target_class \<Rightarrow> string" where
  "class_slug TcCompute = ''compute''"
| "class_slug TcNetwork = ''network''"
| "class_slug TcStorage = ''storage''"
| "class_slug TcOrchestrator = ''orchestrator''"
| "class_slug TcFirewall = ''firewall''"

section \<open>The driver\<close>

record declared_cap =
  dc_cap :: profile_capability
  dc_auth :: auth_scheme
  dc_transport :: profile_transport

record connector_driver =
  cd_id :: agent_id
  cd_class :: target_class
  cd_capabilities :: "capability list"
  cd_declared :: "(string, declared_cap) bmap"
  cd_actor_id :: string

definition profile_scheme :: "connector_profile \<Rightarrow> auth_scheme" where
  "profile_scheme p = (case cp_auth p of Some a \<Rightarrow> to_scheme a | None \<Rightarrow> AuthBearer)"

text \<open>The loop over the profiles, with the two collections it fills.\<close>

fun load_caps ::
  "auth_scheme \<Rightarrow> profile_transport \<Rightarrow> profile_capability list \<Rightarrow>
   capability list \<times> (string, declared_cap) bmap \<Rightarrow> capability list \<times> (string, declared_cap) bmap" where
  "load_caps auth tr [] acc = acc"
| "load_caps auth tr (c # cs) (caps, decl) =
     load_caps auth tr cs
       (caps @ [project_capability c],
        bt_insert (pc_name c) \<lparr>dc_cap = c, dc_auth = auth, dc_transport = tr\<rparr> decl)"

fun load_profiles ::
  "target_class \<Rightarrow> connector_profile list \<Rightarrow> capability list \<times> (string, declared_cap) bmap \<Rightarrow>
   capability list \<times> (string, declared_cap) bmap" where
  "load_profiles cls [] acc = acc"
| "load_profiles cls (p # ps) acc =
     (if class_of_profile (cp_class p) \<noteq> cls then load_profiles cls ps acc
      else load_profiles cls ps (load_caps (profile_scheme p) (cp_transport p) (cp_capabilities p) acc))"

definition from_profiles :: "agent_id \<Rightarrow> connector_profile list \<Rightarrow> string \<Rightarrow> connector_driver" where
  "from_profiles i profiles actor =
     (let cls = (case profiles of p # _ \<Rightarrow> class_of_profile (cp_class p) | [] \<Rightarrow> TcCompute);
          (caps, decl) = load_profiles cls profiles ([], [])
      in \<lparr>cd_id = i, cd_class = cls, cd_capabilities = caps, cd_declared = decl, cd_actor_id = actor\<rparr>)"

text \<open>What the file system shows of the directory: absent, unreadable, or a list of entries.\<close>

record dir_file =
  df_path :: string
  df_extension :: "string option"
  df_text :: "(string, string) result"

type_synonym dir_view = "((dir_file, string) result list, string) result option"

fun read_profiles ::
  "(string \<Rightarrow> (connector_profile, string) result) \<Rightarrow> string \<Rightarrow> (dir_file, string) result list \<Rightarrow>
   (connector_profile list, connector_error) result" where
  "read_profiles toml dir [] = Ok []"
| "read_profiles toml dir (Err e # es) = Err (CeIo dir e)"
| "read_profiles toml dir (Ok f # es) =
     (if df_extension f \<noteq> Some ''toml'' then read_profiles toml dir es
      else bind_result (map_err (CeIo (df_path f)) (df_text f)) (\<lambda>txt.
           bind_result (map_err (CeParse (df_path f)) (toml txt)) (\<lambda>p.
           bind_result (read_profiles toml dir es) (\<lambda>ps. Ok (p # ps)))))"

fun group_push :: "target_class \<Rightarrow> 'p \<Rightarrow> (target_class \<times> 'p list) list \<Rightarrow> (target_class \<times> 'p list) list" where
  "group_push c p [] = [(c, [p])]"
| "group_push c p ((c', ps) # gs) = (if c' = c then (c', ps @ [p]) # gs else (c', ps) # group_push c p gs)"

definition group_profiles :: "connector_profile list \<Rightarrow> (target_class \<times> connector_profile list) list" where
  "group_profiles ps = foldl (\<lambda>gs p. group_push (class_of_profile (cp_class p)) p gs) [] ps"

definition from_dir ::
  "(string \<Rightarrow> (connector_profile, string) result) \<Rightarrow> string \<Rightarrow> string \<Rightarrow> dir_view \<Rightarrow> string \<Rightarrow>
   (connector_driver list, connector_error) result" where
  "from_dir toml id_prefix dir view actor =
     (case view of
        None \<Rightarrow> Ok []
      | Some (Err e) \<Rightarrow> Err (CeIo dir e)
      | Some (Ok entries) \<Rightarrow>
          bind_result (read_profiles toml dir entries) (\<lambda>profiles.
            if profiles = [] then Ok []
            else Ok (map (\<lambda>(cls, ps). from_profiles (agent_id_new (id_prefix @ '':'' @ class_slug cls)) ps actor)
                      (group_profiles profiles))))"

section \<open>Rendering\<close>

fun extract_scalar :: "json \<Rightarrow> string option" where
  "extract_scalar (JStr s) = Some s"
| "extract_scalar (JNum (JPos n)) = Some (show_nat n)"
| "extract_scalar (JNum (JNeg i)) = Some (show_int i)"
| "extract_scalar (JNum (JFloat t)) = Some t"
| "extract_scalar (JBool b) = Some (if b then ''true'' else ''false'')"
| "extract_scalar _ = None"

definition extract_param :: "json \<Rightarrow> string \<Rightarrow> string option" where
  "extract_param params name = Option.bind (j_get name params) extract_scalar"

lemma split_once_shorter: "split_once d s = Some (a, b) \<Longrightarrow> length b < length s"
  by (auto simp: split_once_Some_iff)

text \<open>The loop: \<open>out\<close> is what has been rendered, \<open>rest\<close> what is left of the template.\<close>

function substitute_loop ::
  "string \<Rightarrow> (string, string) bmap \<Rightarrow> string \<Rightarrow> string \<Rightarrow> (string, connector_error) result" where
  "substitute_loop cap vals out rest =
     (case split_once (CHR ''{'') rest of
        None \<Rightarrow> Ok (out @ rest)
      | Some (lit, after) \<Rightarrow>
          (case split_once (CHR ''}'') after of
             None \<Rightarrow> Err (CeMissingParam cap ''<unterminated slot>'')
           | Some (name, rest') \<Rightarrow>
               (case map_of vals name of
                  None \<Rightarrow> Err (CeMissingParam cap name)
                | Some v \<Rightarrow> substitute_loop cap vals (out @ lit @ v) rest')))"
  by pat_completeness auto
termination
  by (relation "measure (\<lambda>(_, _, _, rest). length rest)") (auto dest!: split_once_shorter)

declare substitute_loop.simps [simp del]

definition substitute :: "string \<Rightarrow> string \<Rightarrow> (string, string) bmap \<Rightarrow> (string, connector_error) result" where
  "substitute template cap vals = substitute_loop cap vals '''' template"

fun substitute_json :: "string \<Rightarrow> (string, string) bmap \<Rightarrow> json \<Rightarrow> (json, connector_error) result"
  and substitute_items :: "string \<Rightarrow> (string, string) bmap \<Rightarrow> json list \<Rightarrow> (json list, connector_error) result"
  and substitute_members ::
    "string \<Rightarrow> (string, string) bmap \<Rightarrow> (string \<times> json) list \<Rightarrow> ((string \<times> json) list, connector_error) result" where
  "substitute_json cap vals (JStr s) = bind_result (substitute s cap vals) (\<lambda>t. Ok (JStr t))"
| "substitute_json cap vals (JArr xs) = bind_result (substitute_items cap vals xs) (\<lambda>ys. Ok (JArr ys))"
| "substitute_json cap vals (JObj m) = bind_result (substitute_members cap vals m) (\<lambda>m'. Ok (JObj m'))"
| "substitute_json cap vals v = Ok v"
| "substitute_items cap vals [] = Ok []"
| "substitute_items cap vals (x # xs) =
     bind_result (substitute_json cap vals x) (\<lambda>y. bind_result (substitute_items cap vals xs) (\<lambda>ys. Ok (y # ys)))"
| "substitute_members cap vals [] = Ok []"
| "substitute_members cap vals ((k, x) # m) =
     bind_result (substitute_json cap vals x) (\<lambda>y. bind_result (substitute_members cap vals m) (\<lambda>m'. Ok ((k, y) # m')))"

definition render_http_op ::
  "profile_op \<Rightarrow> string \<Rightarrow> (string, string) bmap \<Rightarrow> auth_scheme \<Rightarrow> (op, connector_error) result" where
  "render_http_op o' cap vals auth =
     bind_result (substitute (po_path o') cap vals) (\<lambda>path.
     bind_result (case po_body o' of
                    Some v \<Rightarrow> bind_result (substitute_json cap vals v) (\<lambda>b. Ok (Some b))
                  | None \<Rightarrow> Ok None) (\<lambda>body.
     Ok (OpHttp (method_of_profile (po_method o')) path [] body auth)))"

definition render_ssh_op ::
  "profile_op \<Rightarrow> string \<Rightarrow> (string, string) bmap \<Rightarrow> 32 word \<Rightarrow> (op, connector_error) result" where
  "render_ssh_op o' cap vals timeout =
     bind_result (ok_or (po_command o')
       (CeBadProfile (''ssh capability `'' @ cap @ ''` has no `command` template''))) (\<lambda>template.
     bind_result (substitute template cap vals) (\<lambda>command.
     Ok (OpShellCommand command (case po_timeout_secs o' of Some s \<Rightarrow> s | None \<Rightarrow> timeout))))"

definition render_snmp_op :: "profile_op \<Rightarrow> string \<Rightarrow> (string, string) bmap \<Rightarrow> (op, connector_error) result" where
  "render_snmp_op o' cap vals =
     bind_result (ok_or (po_oid o') (CeBadProfile (''snmp capability `'' @ cap @ ''` has no `oid`''))) (\<lambda>template.
     bind_result (substitute template cap vals) (\<lambda>oid.
     Ok (if po_walk o' then OpSnmpWalk oid else OpSnmpGet oid)))"

section \<open>Dispatch\<close>

fun validated_params ::
  "string \<Rightarrow> json \<Rightarrow> (string \<times> param_class) list \<Rightarrow> (string, string) bmap \<Rightarrow> ((string, string) bmap, connector_error) result" where
  "validated_params cap params [] vals = Ok vals"
| "validated_params cap params ((pname, cls) # ps) vals =
     bind_result (ok_or (extract_param params pname) (CeMissingParam cap pname)) (\<lambda>raw.
     bind_result (map_err (CeParam pname) (validate raw cls)) (\<lambda>_.
     validated_params cap params ps (bt_insert pname raw vals)))"

definition render_op ::
  "declared_cap \<Rightarrow> string \<Rightarrow> (string, string) bmap \<Rightarrow> 32 word \<Rightarrow> (op, connector_error) result" where
  "render_op d cap vals timeout =
     (case dc_transport d of
        PtRest \<Rightarrow> render_http_op (pc_op (dc_cap d)) cap vals (dc_auth d)
      | PtSsh \<Rightarrow> render_ssh_op (pc_op (dc_cap d)) cap vals timeout
      | PtSnmp \<Rightarrow> render_snmp_op (pc_op (dc_cap d)) cap vals)"

text \<open>Everything before the broker: the request, or the error that keeps it from being built.\<close>

definition connector_request ::
  "connector_driver \<Rightarrow> string \<Rightarrow> string \<Rightarrow> string \<Rightarrow> json \<Rightarrow> 32 word \<Rightarrow>
   (profile_capability \<times> exec_request, connector_error) result" where
  "connector_request cd actor cap tref params timeout =
     bind_result (ok_or (map_of (cd_declared cd) cap) (CeUnknownCapability cap)) (\<lambda>d.
     bind_result (validated_params cap params (pc_params (dc_cap d)) []) (\<lambda>vals.
     bind_result (render_op d cap vals timeout) (\<lambda>op.
     bind_result (map_err (\<lambda>e. CeBadTarget (show_ref_parse_error e)) (target_ref_parse tref)) (\<lambda>target.
     Ok (dc_cap d, with_capability_meta (project_capability (dc_cap d)) (exec_request_new actor target op))))))"

fun snmp_to_json :: "snmp_value \<Rightarrow> json" where
  "snmp_to_json (SnmpInt i) = json_of_int (sint i)"
| "snmp_to_json (SnmpUInt u) = JNum (JPos (unat u))"
| "snmp_to_json (SnmpString s) = JStr s"
| "snmp_to_json (SnmpOid s) = JStr s"

fun parse_result :: "parse_hint option \<Rightarrow> op_result \<Rightarrow> (bool \<times> 32 word \<times> json, connector_error) result" where
  "parse_result h (ResHttp status body _) = Ok (200 \<le> status \<and> status \<le> 299, ucast status, body)"
| "parse_result h (ResStructured doc) = Ok (True, 0, doc)"
| "parse_result h (ResShell out err st) =
     Ok (st = 0, st, j_obj [(''stdout'', JStr out), (''stderr'', JStr err), (''exit_status'', json_of_int (sint st))])"
| "parse_result h (ResSnmp values) = Ok (True, 0, JObj (map (\<lambda>(k, v). (k, snmp_to_json v)) values))"
| "parse_result h ResSnmpSetAck = Err (CeWrongOpResult ''SnmpSetAck'')"

record connector_output =
  co_capability :: string
  co_success :: bool
  co_status :: "32 word"
  co_payload :: json

text \<open>\<open>None\<close>: the broker has parked the request.\<close>

definition connector_dispatch ::
  "('i, 'v, 't, 'a) broker \<Rightarrow> 'b call_env \<Rightarrow> connector_driver \<Rightarrow> string \<Rightarrow> string \<Rightarrow> string \<Rightarrow> json \<Rightarrow> 32 word \<Rightarrow>
   ('i, 'v, 't, 'a, 'b) broker_world \<Rightarrow>
   (connector_output, connector_error) result option \<times> ('i, 'v, 't, 'a, 'b) broker_world" where
  "connector_dispatch br cl cd actor cap tref params timeout w =
     (case connector_request cd actor cap tref params timeout of
        Err e \<Rightarrow> (Some (Err e), w)
      | Ok (decl, req) \<Rightarrow>
          (case execute br cl req w of
             (None, w') \<Rightarrow> (None, w')
           | (Some (Err e), w') \<Rightarrow> (Some (Err (CeBroker (show_broker_error e))), w')
           | (Some (Ok res), w') \<Rightarrow>
               (Some (bind_result (parse_result (pc_parse decl) res) (\<lambda>(ok, status, payload).
                  Ok \<lparr>co_capability = cap, co_success = ok, co_status = status, co_payload = payload\<rparr>)), w')))"

section \<open>The four verbs\<close>

definition connector_describe :: "connector_driver \<Rightarrow> string \<Rightarrow> (target_shape, driver_error) result" where
  "connector_describe cd target =
     Ok \<lparr>ts_class = cd_class cd, ts_identity = j_obj [(''target'', JStr target)],
         ts_summary = debug_target_class (cd_class cd) @ '' connector target '' @ target\<rparr>"

definition map_dispatch ::
  "('x \<Rightarrow> ('y, 'f) result) \<Rightarrow> ('e \<Rightarrow> 'f) \<Rightarrow> ('x, 'e) result option \<times> 'w \<Rightarrow> ('y, 'f) result option \<times> 'w" where
  "map_dispatch f g rw = (case rw of (r, w) \<Rightarrow> (map_option (\<lambda>x. bind_result (map_err g x) f) r, w))"

definition connector_read_state ::
  "('i, 'v, 't, 'a) broker \<Rightarrow> 'b call_env \<Rightarrow> connector_driver \<Rightarrow> string \<Rightarrow> json \<Rightarrow>
   ('i, 'v, 't, 'a, 'b) broker_world \<Rightarrow> (state_doc, driver_error) result option \<times> ('i, 'v, 't, 'a, 'b) broker_world" where
  "connector_read_state br cl cd target selector w =
     (case j_get_str ''capability'' selector of
        None \<Rightarrow> (Some (Err (DeUnsupported ''read_state selector must carry a `capability` field'')), w)
      | Some cap \<Rightarrow>
          map_dispatch
            (\<lambda>out. Ok \<lparr>sd_target = target,
               sd_doc = j_obj [(''capability'', JStr (co_capability out)), (''status'', json_of_int (sint (co_status out))),
                               (''result'', co_payload out)]\<rparr>)
            driver_error_of_connector
            (connector_dispatch br cl cd (cd_actor_id cd) cap target
               (case j_get ''params'' selector of Some p \<Rightarrow> p | None \<Rightarrow> j_obj []) DEFAULT_TIMEOUT_SECS w))"

definition connector_diagnose :: "connector_driver \<Rightarrow> string \<Rightarrow> string \<Rightarrow> (finding list, driver_error) result" where
  "connector_diagnose cd target symptom =
     Ok [\<lparr>fi_title = ''connector `'' @ agent_str (cd_id cd) @ ''` has no built-in diagnostics'', fi_severity = SevInfo,
          fi_detail = ''symptom `'' @ symptom @ ''`: use the read capabilities to gather state'',
          fi_suggested_capability = None, fi_suggested_params = j_obj []\<rparr>]"

definition connector_remediate ::
  "('i, 'v, 't, 'a) broker \<Rightarrow> 'b call_env \<Rightarrow> connector_driver \<Rightarrow> string \<Rightarrow> string \<Rightarrow> json \<Rightarrow>
   ('i, 'v, 't, 'a, 'b) broker_world \<Rightarrow> (receipt, driver_error) result option \<times> ('i, 'v, 't, 'a, 'b) broker_world" where
  "connector_remediate br cl cd target cap params w =
     map_dispatch
       (\<lambda>out. if \<not> co_success out then Err (driver_error_of_connector (CeCapabilityFailed cap (co_status out)))
              else Ok \<lparr>rc_capability = cap,
                rc_changed = j_obj [(''target'', JStr target), (''params'', params),
                                    (''status'', json_of_int (sint (co_status out))), (''result'', co_payload out)]\<rparr>)
       driver_error_of_connector
       (connector_dispatch br cl cd (cd_actor_id cd) cap target params DEFAULT_TIMEOUT_SECS w)"

section \<open>The bus adapter\<close>

record driver_output =
  do_stdout :: string
  do_stderr :: string
  do_exit_status :: "32 word"

record connector_reply =
  cy_success :: bool
  cy_output :: "driver_output option"
  cy_error :: "string option"

fun reply_streams :: "(json \<Rightarrow> string) \<Rightarrow> json \<Rightarrow> string \<times> string" where
  "reply_streams to_text (JObj m) =
     (if map_of m ''stdout'' \<noteq> None \<or> map_of m ''stderr'' \<noteq> None
      then (case j_get_str ''stdout'' (JObj m) of Some s \<Rightarrow> s | None \<Rightarrow> '''',
            case j_get_str ''stderr'' (JObj m) of Some s \<Rightarrow> s | None \<Rightarrow> '''')
      else (to_text (JObj m), ''''))"
| "reply_streams to_text (JStr s) = (s, '''')"
| "reply_streams to_text v = (to_text v, '''')"

definition reply_from_output :: "(json \<Rightarrow> string) \<Rightarrow> connector_output \<Rightarrow> connector_reply" where
  "reply_from_output to_text out =
     (case reply_streams to_text (co_payload out) of
        (stdout, stderr) \<Rightarrow>
          \<lparr>cy_success = co_success out,
           cy_output = Some \<lparr>do_stdout = stdout, do_stderr = stderr,
             do_exit_status = (if co_success out then 0 else if co_status out = 0 then 1 else co_status out)\<rparr>,
           cy_error =
             (if co_success out then None
              else if trim stderr \<noteq> '''' then Some stderr
              else Some (''capability `'' @ co_capability out @ ''` failed (status '' @
                         show_int (sint (co_status out)) @ '')''))\<rparr>)"

definition reply_err :: "string \<Rightarrow> connector_reply" where
  "reply_err msg = \<lparr>cy_success = False, cy_output = None, cy_error = Some msg\<rparr>"

definition output_to_json :: "driver_output \<Rightarrow> json" where
  "output_to_json x =
     j_obj [(''stdout'', JStr (do_stdout x)), (''stderr'', JStr (do_stderr x)),
            (''exit_status'', json_of_int (sint (do_exit_status x)))]"

definition reply_to_json :: "connector_reply \<Rightarrow> json" where
  "reply_to_json r =
     j_obj ((''success'', JBool (cy_success r)) #
            (case cy_output r of Some x \<Rightarrow> [(''output'', output_to_json x)] | None \<Rightarrow> []) @
            opt_member ''error'' (cy_error r))"

text \<open>The reply a request gets; \<open>None\<close> while the broker has it parked. \<open>de_error\<close> is the text of
  a decoding error.\<close>

definition connector_reply_to ::
  "(json \<Rightarrow> string) \<Rightarrow> (json \<Rightarrow> string) \<Rightarrow> ('i, 'v, 't, 'a) broker \<Rightarrow> 'b call_env \<Rightarrow> connector_driver \<Rightarrow>
   agent_envelope \<Rightarrow> ('i, 'v, 't, 'a, 'b) broker_world \<Rightarrow>
   connector_reply option \<times> ('i, 'v, 't, 'a, 'b) broker_world" where
  "connector_reply_to to_text de_error br cl cd env w =
     (case decode_request (env_body env) of
        None \<Rightarrow> (Some (reply_err (''invalid request: '' @ de_error (env_body env))), w)
      | Some req \<Rightarrow>
          (case connector_dispatch br cl cd (agent_str (env_from env)) (dr_capability req) (dr_target_ref req)
                  (case dr_params req of Some p \<Rightarrow> p | None \<Rightarrow> j_obj [])
                  (case dr_timeout_secs req of Some n \<Rightarrow> word_of_nat n | None \<Rightarrow> DEFAULT_TIMEOUT_SECS) w of
             (None, w') \<Rightarrow> (None, w')
           | (Some (Ok out), w') \<Rightarrow> (Some (reply_from_output to_text out), w')
           | (Some (Err e), w') \<Rightarrow> (Some (reply_err (show_connector_error e)), w')))"

definition connector_handle ::
  "(json \<Rightarrow> string) \<Rightarrow> (json \<Rightarrow> string) \<Rightarrow> (agent_envelope \<Rightarrow> ('s, unit, core_error) eff) \<Rightarrow>
   ('i, 'v, 't, 'a) broker \<Rightarrow> 'b call_env \<Rightarrow> connector_driver \<Rightarrow> millis \<Rightarrow> agent_envelope \<Rightarrow>
   ('i, 'v, 't, 'a, 'b) broker_world \<times> 's \<Rightarrow>
   (unit, core_error) result option \<times> ('i, 'v, 't, 'a, 'b) broker_world \<times> 's" where
  "connector_handle to_text de_error send br cl cd now env ws =
     (case connector_reply_to to_text de_error br cl cd env (fst ws) of
        (None, w) \<Rightarrow> (None, w, snd ws)
      | (Some reply, w) \<Rightarrow>
          (case send (envelope_reply_to now env (cd_id cd) (reply_to_json reply)) (snd ws) of
             (r, s) \<Rightarrow> (Some r, w, s)))"

section \<open>Lemmas: rendering\<close>

text \<open>A template as its text pieces and slots.\<close>

datatype piece = Lit string | Slot string

inductive template_pieces :: "string \<Rightarrow> piece list \<Rightarrow> bool" where
  tp_end: "CHR ''{'' \<notin> set s \<Longrightarrow> template_pieces s [Lit s]"
| tp_slot: "CHR ''{'' \<notin> set lit \<Longrightarrow> CHR ''}'' \<notin> set name \<Longrightarrow> template_pieces rest ps \<Longrightarrow>
    template_pieces (lit @ CHR ''{'' # name @ CHR ''}'' # rest) (Lit lit # Slot name # ps)"

fun fill :: "(string \<Rightarrow> string option) \<Rightarrow> piece list \<Rightarrow> string option" where
  "fill vals [] = Some ''''"
| "fill vals (Lit s # ps) = map_option (\<lambda>t. s @ t) (fill vals ps)"
| "fill vals (Slot n # ps) =
     (case vals n of None \<Rightarrow> None | Some v \<Rightarrow> map_option (\<lambda>t. v @ t) (fill vals ps))"

lemma substitute_loop_pieces:
  "template_pieces rest ps \<Longrightarrow>
   result_ok (substitute_loop cap vals out rest) = map_option (\<lambda>t. out @ t) (fill (map_of vals) ps)"
proof (induction arbitrary: out rule: template_pieces.induct)
  case (tp_end s)
  then have "split_once (CHR ''{'') s = None" by (simp add: split_once_None_iff)
  then show ?case by (subst substitute_loop.simps) simp
next
  case (tp_slot lit name rest ps)
  have a: "split_once (CHR ''{'') (lit @ CHR ''{'' # name @ CHR ''}'' # rest) = Some (lit, name @ CHR ''}'' # rest)"
    using tp_slot.hyps by (simp add: split_once_Some_iff)
  have b: "split_once (CHR ''}'') (name @ CHR ''}'' # rest) = Some (name, rest)"
    using tp_slot.hyps by (simp add: split_once_Some_iff)
  show ?case
    by (subst substitute_loop.simps)
      (simp add: a b tp_slot.IH option.map_comp comp_def split: option.split)
qed

lemma substitute_loop_total:
  "substitute_loop cap vals out rest = Ok t \<Longrightarrow> \<exists>ps. template_pieces rest ps"
proof (induction cap vals out rest rule: substitute_loop.induct)
  case (1 cap vals out rest)
  show ?case
  proof (cases "split_once (CHR ''{'') rest")
    case None
    then show ?thesis using tp_end [of rest] by (auto simp: split_once_None_iff)
  next
    case (Some la)
    obtain lit after where la: "la = (lit, after)" by (cases la)
    from "1.prems" obtain name rest' v where b: "split_once (CHR ''}'') after = Some (name, rest')"
      and v: "map_of vals name = Some v" and r: "substitute_loop cap vals (out @ lit @ v) rest' = Ok t"
      by (subst (asm) substitute_loop.simps) (auto simp: Some la split: option.splits)
    obtain ps where "template_pieces rest' ps"
      using "1.IH" [OF Some la [symmetric] b _ v r] by blast
    then show ?thesis
      using tp_slot [of lit name rest' ps] Some la b by (auto simp: split_once_Some_iff)
  qed
qed

text \<open>What rendering computes: the literal pieces in order, every slot filled with its value and
  no value scanned again.\<close>

lemma substitute_spec:
  assumes "substitute template cap vals = Ok t"
  obtains ps where "template_pieces template ps" "fill (map_of vals) ps = Some t"
proof -
  obtain ps where p: "template_pieces template ps"
    using substitute_loop_total assms unfolding substitute_def by blast
  have "fill (map_of vals) ps = Some t"
    using substitute_loop_pieces [OF p, of cap vals "''''"] assms unfolding substitute_def
    by (simp add: option.map_ident)
  with p show thesis by (rule that)
qed

fun literal_text :: "piece list \<Rightarrow> string" where
  "literal_text [] = ''''"
| "literal_text (Lit s # ps) = s @ literal_text ps"
| "literal_text (Slot _ # ps) = literal_text ps"

lemma fill_metachars:
  assumes "\<And>n v. vals n = Some v \<Longrightarrow> \<not> list_ex is_metachar v"
  shows "fill vals ps = Some t \<Longrightarrow> filter is_metachar t = filter is_metachar (literal_text ps)"
proof (induction ps arbitrary: t)
  case Nil
  then show ?case by simp
next
  case (Cons p ps)
  then show ?case
    using assms by (cases p) (auto simp: filter_meta_safe split: option.splits)
qed

section \<open>Lemmas: dispatch\<close>

text \<open>The values a template sees: exactly the declared parameters, each valid for its class.\<close>

lemma validated_params_spec:
  assumes "validated_params cap params ps vals = Ok vals'" "bt_wf vals"
  shows "bt_wf vals' \<and>
    (\<forall>n v. map_of vals' n = Some v \<longrightarrow>
       map_of vals n = Some v \<or> (\<exists>cls. (n, cls) \<in> set ps \<and> extract_param params n = Some v \<and> validate v cls = Ok ()))"
  using assms
proof (induction cap params ps vals rule: validated_params.induct)
  case (1 cap params vals)
  then show ?case by simp
next
  case (2 cap params pname cls ps vals)
  then obtain raw where raw: "extract_param params pname = Some raw" "validate raw cls = Ok ()"
    and rest: "validated_params cap params ps (bt_insert pname raw vals) = Ok vals'"
    by (auto simp: bind_result_Ok_iff)
  have wf: "bt_wf (bt_insert pname raw vals)" using "2.prems"(2) by (rule bt_insert_wf)
  have IH: "bt_wf vals' \<and> (\<forall>n v. map_of vals' n = Some v \<longrightarrow> map_of (bt_insert pname raw vals) n = Some v \<or>
      (\<exists>cls. (n, cls) \<in> set ps \<and> extract_param params n = Some v \<and> validate v cls = Ok ()))"
    by (rule "2.IH" [OF rest wf])
  show ?case
  proof (intro conjI allI impI)
    fix n v assume "map_of vals' n = Some v"
    with IH consider "map_of (bt_insert pname raw vals) n = Some v" |
      "\<exists>cls. (n, cls) \<in> set ps \<and> extract_param params n = Some v \<and> validate v cls = Ok ()" by blast
    then show "map_of vals n = Some v \<or>
        (\<exists>c. (n, c) \<in> set ((pname, cls) # ps) \<and> extract_param params n = Some v \<and> validate v c = Ok ())"
      by cases (use raw in \<open>auto simp: bt_insert_get [OF "2.prems"(2)] split: if_splits\<close>)
  qed (use IH in simp)
qed

lemma connector_request_Ok:
  assumes "connector_request cd actor cap tref params timeout = Ok (decl, req)"
  obtains d vals o' target where
    "map_of (cd_declared cd) cap = Some d" "decl = dc_cap d"
    "validated_params cap params (pc_params decl) [] = Ok vals" "render_op d cap vals timeout = Ok o'"
    "target_ref_parse tref = Ok target"
    "req = with_capability_meta (project_capability decl) (exec_request_new actor target o')"
  using assms by (auto simp: connector_request_def bind_result_Ok_iff)

lemma render_op_shell:
  assumes "render_op d cap vals timeout = Ok (OpShellCommand command secs)"
  obtains template where "po_command (pc_op (dc_cap d)) = Some template" "substitute template cap vals = Ok command"
  using assms
  by (auto simp: render_op_def render_http_op_def render_ssh_op_def render_snmp_op_def bind_result_Ok_iff
      split: profile_transport.splits if_splits)

lemma reply_success: "cy_success (reply_from_output to_text out) = co_success out"
  by (simp add: reply_from_output_def split: prod.splits)

lemma parse_result_success:
  "parse_result h res = Ok (ok, status, payload) \<Longrightarrow>
   ok \<longleftrightarrow> (case res of ResHttp st _ _ \<Rightarrow> 200 \<le> st \<and> st \<le> 299 | ResShell _ _ st \<Rightarrow> st = 0 | _ \<Rightarrow> True)"
  by (cases res) auto

section \<open>Properties\<close>

text \<open>C6: no parameter can put a command character into an SSH command: when a connector request
  renders a shell command from a profile whose enumerations are clean, the template's own
  text determines every shell metacharacter of the command, in order, whatever parameters
  the caller sent.\<close>

theorem connector_no_injection:
  assumes "connector_request cd actor cap tref params timeout = Ok (decl, req)"
    and "xr_op req = OpShellCommand command secs"
    and "\<And>n cls. (n, cls) \<in> set (pc_params decl) \<Longrightarrow> class_safe cls"
  shows "\<exists>template ps. po_command (pc_op decl) = Some template \<and> template_pieces template ps \<and>
    filter is_metachar command = filter is_metachar (literal_text ps)"
proof -
  obtain d vals o' target where d: "decl = dc_cap d" "validated_params cap params (pc_params decl) [] = Ok vals"
    and r: "render_op d cap vals timeout = Ok o'"
    and req: "req = with_capability_meta (project_capability decl) (exec_request_new actor target o')"
    using connector_request_Ok [OF assms(1)] by metis
  have "o' = OpShellCommand command secs"
    using assms(2) req by (simp add: with_capability_meta_def exec_request_new_def)
  with r obtain template where t: "po_command (pc_op decl) = Some template" "substitute template cap vals = Ok command"
    using render_op_shell d(1) by metis
  obtain ps where ps: "template_pieces template ps" "fill (map_of vals) ps = Some command"
    using substitute_spec [OF t(2)] by blast
  have safe: "\<not> list_ex is_metachar v" if "map_of vals n = Some v" for n v
  proof -
    have "bt_wf ([] :: (string, string) bmap)" by (simp add: bt_wf_def)
    from validated_params_spec [OF d(2) this] that obtain cls where
      "(n, cls) \<in> set (pc_params decl)" "validate v cls = Ok ()" by auto
    then show ?thesis using validate_no_metachar assms(3) by blast
  qed
  have "filter is_metachar command = filter is_metachar (literal_text ps)"
    by (rule fill_metachars [OF _ ps(2)]) (rule safe)
  then show ?thesis using ps(1) t(1) by blast
qed

text \<open>A request the connector cannot build (unknown capability, missing or invalid parameter,
  unfilled slot, malformed target) never reaches the broker; one it builds carries the
  caller as actor and the projected capability as its descriptor, so the guard sees a read
  only when the profile's capability projects to one.\<close>

lemma connector_dispatch_broker:
  "case connector_request cd actor cap tref params timeout of
     Err e \<Rightarrow> connector_dispatch br cl cd actor cap tref params timeout w = (Some (Err e), w)
   | Ok (decl, req) \<Rightarrow>
       snd (connector_dispatch br cl cd actor cap tref params timeout w) = snd (execute br cl req w) \<and>
       xr_actor_id req = actor \<and> derive_read_only req = is_read (project_capability decl) \<and>
       request_capability req = pc_name decl"
proof (cases "connector_request cd actor cap tref params timeout")
  case (Err e)
  then show ?thesis by (simp add: connector_dispatch_def)
next
  case (Ok dr)
  obtain decl req where dr: "dr = (decl, req)" by (cases dr)
  obtain d vals o' target where
    req: "req = with_capability_meta (project_capability decl) (exec_request_new actor target o')"
    using connector_request_Ok [OF Ok [unfolded dr]] by metis
  have "snd (connector_dispatch br cl cd actor cap tref params timeout w) = snd (execute br cl req w)"
    using Ok dr by (auto simp: connector_dispatch_def split: prod.splits option.splits result.splits)
  moreover have "cap_name (project_capability decl) = pc_name decl"
    by (simp add: project_capability_def read_only_def)
  ultimately show ?thesis
    by (simp add: Ok dr req with_capability_meta_def exec_request_new_def derive_read_only_def request_capability_def)
qed

text \<open>A read over SNMP that returned nothing counts as a success, against the comment in \<open>parse_result\<close>.\<close>

lemma snmp_empty_success: "parse_result h (ResSnmp []) = Ok (True, 0, JObj [])"
  by simp

text \<open>C39: the connector reports success honestly for HTTP and shell results: the reply to a dispatched request says
  \<open>success\<close> exactly when the broker returned a result and that result is an HTTP answer with a status
  in 200..299, a shell result with exit status 0, a structured document, or an SNMP answer with any number of bindings; an error of the broker, any
  other status, and the acknowledgement of an SNMP write are failures. An SNMP answer without bindings is a success too, where a comment in the code
  says that a read succeeds if it returned any binding.\<close>

theorem connector_honest:
  assumes "decode_request (env_body env) = Some dreq"
    and "connector_request cd (agent_str (env_from env)) (dr_capability dreq) (dr_target_ref dreq)
      (case dr_params dreq of Some p \<Rightarrow> p | None \<Rightarrow> j_obj [])
      (case dr_timeout_secs dreq of Some n \<Rightarrow> word_of_nat n | None \<Rightarrow> DEFAULT_TIMEOUT_SECS) = Ok (decl, req)"
    and "connector_reply_to to_text de_error br cl cd env w = (Some reply, w')"
  shows "cy_success reply \<longleftrightarrow>
    (\<exists>res. fst (execute br cl req w) = Some (Ok res) \<and>
       (case res of
          ResHttp st _ _ \<Rightarrow> 200 \<le> st \<and> st \<le> 299
        | ResShell _ _ st \<Rightarrow> st = 0
        | ResStructured _ \<Rightarrow> True
        | ResSnmp bindings \<Rightarrow> True
        | ResSnmpSetAck \<Rightarrow> False))"
proof -
  obtain x w1 where e: "execute br cl req w = (x, w1)" by fastforce
  show ?thesis
  proof (cases "\<exists>res. x = Some (Ok res)")
    case False
    then show ?thesis using assms e
      by (auto simp: connector_reply_to_def connector_dispatch_def reply_err_def split: option.splits result.splits)
  next
    case True
    then obtain res where x: "x = Some (Ok res)" by blast
    show ?thesis using assms e x
      by (cases res) (auto simp: connector_reply_to_def connector_dispatch_def reply_err_def reply_success)
  qed
qed


section \<open>A small profile\<close>

definition ex_profile :: connector_profile where
  "ex_profile = \<lparr>cp_name = ''switch'', cp_class = PcNetwork, cp_transport = PtSsh, cp_auth = None,
     cp_capabilities = [\<lparr>pc_name = ''network.switch.service.restart'', pc_version = version_new 1 0 0, pc_description = None,
       pc_compensating = None, pc_irreversible = True, pc_read_only = False, pc_params = [(''service'', Identifier)],
       pc_op = \<lparr>po_method = PmGet, po_path = '''', po_body = None, po_command = Some ''systemctl restart {service}; true'',
         po_timeout_secs = None, po_oid = None, po_walk = False\<rparr>, pc_parse = None\<rparr>]\<rparr>"

definition ex_connector :: connector_driver where
  "ex_connector = from_profiles (agent_id_new ''agent:connector:network'') [ex_profile] ''agent:connector''"

definition ex_service :: json where
  "ex_service = JObj [(''service'', JStr ''nginx'')]"

definition ex_connector_env :: agent_envelope where
  "ex_connector_env = envelope_new ''c-1'' 1 (agent_id_new ''alice'') (ByCapability ''network.switch.service.restart'' (VersionReq ''*''))
     (JObj [(''capability'', JStr ''network.switch.service.restart''), (''params'', ex_service), (''target_ref'', JStr ''target://edge'')])"

lemma ex_connector_request:
  "\<exists>decl req. connector_request ex_connector ''alice'' ''network.switch.service.restart'' ''target://edge'' ex_service 30 = Ok (decl, req) \<and>
     xr_op req = OpShellCommand ''systemctl restart nginx; true'' 30 \<and> pc_params decl = [(''service'', Identifier)]"
proof -
  have s: "substitute ''systemctl restart {service}; true'' ''network.switch.service.restart'' [(''service'', ''nginx'')] =
      Ok ''systemctl restart nginx; true''"
    by (simp add: substitute_def substitute_loop.simps)
  have t: "target_ref_parse ''target://edge'' = Ok (TargetRef ''edge'')" by code_simp
  have v: "validate ''nginx'' Identifier = Ok ()" by code_simp
  show ?thesis
    by (simp add: ex_connector_def from_profiles_def ex_profile_def connector_request_def ok_or_def
        ex_service_def extract_param_def v render_op_def render_ssh_op_def s t with_capability_meta_def exec_request_new_def
        del: validate.simps)
qed

theorem connector_no_injection_witness:
  "\<exists>ps. template_pieces ''systemctl restart {service}; true'' ps \<and>
     filter is_metachar ''systemctl restart nginx; true'' = filter is_metachar (literal_text ps)"
proof -
  obtain decl req where r: "connector_request ex_connector ''alice'' ''network.switch.service.restart'' ''target://edge'' ex_service 30 = Ok (decl, req)"
    and o': "xr_op req = OpShellCommand ''systemctl restart nginx; true'' 30" and ps: "pc_params decl = [(''service'', Identifier)]"
    using ex_connector_request by blast
  have "po_command (pc_op decl) = Some ''systemctl restart {service}; true''"
    using r by (auto simp: connector_request_def ex_connector_def from_profiles_def ex_profile_def ok_or_def bind_result_Ok_iff)
  moreover have "class_safe cls" if "(n, cls) \<in> set (pc_params decl)" for n cls
    using that ps by simp
  ultimately show ?thesis using connector_no_injection [OF r o'] by auto
qed

lemma ex_connector_executed:
  assumes "connector_request ex_connector ''alice'' ''network.switch.service.restart'' ''target://edge'' ex_service 30 = Ok (decl, req)"
  shows "fst (execute ex_broker (ex_call [ex_poll 2 ex_approve]) req (ex_world ''s3cret'')) =
     Some (Ok (ResShell ''[stub] ran: systemctl restart nginx; true'' '''' 0))"
proof -
  have req: "xr_actor_id req = ''alice''" "request_capability req = ''network.switch.service.restart''"
    "xr_target_ref req = TargetRef ''edge''" "\<not> derive_read_only req"
    "xr_op req = OpShellCommand ''systemctl restart nginx; true'' 30"
  proof -
    obtain d vals o' target where
      x: "map_of (cd_declared ex_connector) ''network.switch.service.restart'' = Some d" "decl = dc_cap d"
        "target_ref_parse ''target://edge'' = Ok target"
        "req = with_capability_meta (project_capability decl) (exec_request_new ''alice'' target o')"
      using connector_request_Ok [OF assms] by metis
    have "target_ref_parse ''target://edge'' = Ok (TargetRef ''edge'')" by code_simp
    then have t: "target = TargetRef ''edge''" using x(3) by simp
    show "xr_op req = OpShellCommand ''systemctl restart nginx; true'' 30"
      using ex_connector_request assms by auto
    show "xr_actor_id req = ''alice''" "request_capability req = ''network.switch.service.restart''"
      "xr_target_ref req = TargetRef ''edge''" "\<not> derive_read_only req"
      using x(1,2)
      by (auto simp: x(4) t with_capability_meta_def exec_request_new_def request_capability_def derive_read_only_def
          project_capability_def is_read_def ex_connector_def from_profiles_def ex_profile_def)
  qed
  have g: "fst (broker_pre_flight ex_broker (ex_call [ex_poll 2 ex_approve]) req ex_guard) = Some (Ok ())"
    by (simp add: broker_pre_flight_def ex_broker_def with_guard_def broker_new_def ex_call_def req)
      (simp add: ex_guard_defs ex_run_defs)
  show ?thesis using ex_executed_shell [OF g req(3,5)] by simp
qed

theorem connector_honest_witness:
  "\<exists>reply w'. connector_reply_to (\<lambda>_. '''') (\<lambda>_. '''') ex_broker (ex_call [ex_poll 2 ex_approve]) ex_connector
     ex_connector_env (ex_world ''s3cret'') = (Some reply, w') \<and> cy_success reply"
proof -
  obtain decl req where r: "connector_request ex_connector ''alice'' ''network.switch.service.restart'' ''target://edge'' ex_service 30 = Ok (decl, req)"
    using ex_connector_request by blast
  have d: "decode_request (env_body ex_connector_env) =
      Some \<lparr>dr_capability = ''network.switch.service.restart'', dr_target_ref = ''target://edge'', dr_timeout_secs = None,
        dr_params = Some ex_service\<rparr>"
    by (simp add: ex_connector_env_def envelope_new_def request_of_parts_def decode_timeout_def decode_params_def ex_service_def)
  have f: "agent_str (env_from ex_connector_env) = ''alice''"
    by (simp add: ex_connector_env_def envelope_new_def agent_id_new_def)
  obtain w1 where e: "execute ex_broker (ex_call [ex_poll 2 ex_approve]) req (ex_world ''s3cret'') =
      (Some (Ok (ResShell ''[stub] ran: systemctl restart nginx; true'' '''' 0)), w1)"
    using ex_connector_executed [OF r] by (metis prod.collapse)
  obtain reply w' where reply: "connector_reply_to (\<lambda>_. '''') (\<lambda>_. '''') ex_broker (ex_call [ex_poll 2 ex_approve]) ex_connector
     ex_connector_env (ex_world ''s3cret'') = (Some reply, w')"
    using r e by (simp add: connector_reply_to_def d f DEFAULT_TIMEOUT_SECS_def connector_dispatch_def)
  have "cy_success reply"
    using connector_honest [OF d _ reply] r e by (simp add: f DEFAULT_TIMEOUT_SECS_def)
  with reply show ?thesis by blast
qed

section \<open>What the profiles register\<close>

text \<open>Every declared capability is registered under its own name with its projection.\<close>

definition declared_ok :: "capability list \<times> (string, declared_cap) bmap \<Rightarrow> bool" where
  "declared_ok acc \<longleftrightarrow> bt_wf (snd acc) \<and>
     (\<forall>n d. map_of (snd acc) n = Some d \<longrightarrow> pc_name (dc_cap d) = n \<and> project_capability (dc_cap d) \<in> set (fst acc))"

lemma declared_ok_insert:
  assumes "declared_ok (caps, decl)"
  shows "declared_ok (caps @ [project_capability c], bt_insert (pc_name c) \<lparr>dc_cap = c, dc_auth = auth, dc_transport = tr\<rparr> decl)"
proof -
  have wf: "bt_wf decl" using assms by (simp add: declared_ok_def)
  have old: "pc_name (dc_cap d) = n \<and> project_capability (dc_cap d) \<in> set caps" if "map_of decl n = Some d" for n d
    using assms that by (simp add: declared_ok_def)
  have "pc_name (dc_cap d) = n \<and> project_capability (dc_cap d) \<in> set (caps @ [project_capability c])"
    if "map_of (bt_insert (pc_name c) \<lparr>dc_cap = c, dc_auth = auth, dc_transport = tr\<rparr> decl) n = Some d" for n d
    using that old [of n d] unfolding bt_insert_get [OF wf] by (cases "n = pc_name c") auto
  then show ?thesis using wf by (simp add: declared_ok_def bt_insert_wf)
qed

lemma load_caps_ok: "declared_ok acc \<Longrightarrow> declared_ok (load_caps auth tr cs acc)"
proof (induction auth tr cs acc rule: load_caps.induct)
  case (2 auth tr c cs caps decl)
  then show ?case using declared_ok_insert by simp
qed simp

lemma load_profiles_ok: "declared_ok acc \<Longrightarrow> declared_ok (load_profiles cls ps acc)"
  by (induction cls ps acc rule: load_profiles.induct) (auto simp: load_caps_ok)

lemma from_profiles_declared:
  assumes "map_of (cd_declared (from_profiles i profiles actor)) n = Some d"
  shows "pc_name (dc_cap d) = n \<and> project_capability (dc_cap d) \<in> set (cd_capabilities (from_profiles i profiles actor))"
proof -
  have "declared_ok (load_profiles cls profiles ([], []))" for cls
    by (rule load_profiles_ok) (simp add: declared_ok_def bt_wf_def)
  then show ?thesis using assms by (auto simp: from_profiles_def declared_ok_def Let_def case_prod_unfold)
qed

end
