(* ===== verification/RouterOs.thy ===== *)
theory RouterOs
  imports Params Broker
begin

text \<open>
  The RouterOS driver (\<open>daimon-driver-firewall-routeros\<close>): the capability catalogue, the command
  builder, the dispatch through the broker, the four verbs and the bus adapter.
\<close>

definition ROS_TIMEOUT_SECS :: "32 word" where
  "ROS_TIMEOUT_SECS = 30"

section \<open>Wire types and errors\<close>

record network_output =
  no_command :: string
  no_stdout :: string
  no_stderr :: string
  no_exit_status :: "32 word"

record network_response =
  nr_success :: bool
  nr_output :: "network_output option"
  nr_error :: "string option"

definition response_ok :: "network_output \<Rightarrow> network_response" where
  "response_ok out = \<lparr>nr_success = True, nr_output = Some out, nr_error = None\<rparr>"

definition response_error :: "string \<Rightarrow> network_response" where
  "response_error msg = \<lparr>nr_success = False, nr_output = None, nr_error = Some msg\<rparr>"

datatype routeros_error =
    RoUnknownCapability string
  | RoMissingParam string
  | RoParam param_error
  | RoBadTarget string
  | RoBroker broker_error
  | RoWrongOpResult string

fun show_routeros_error :: "routeros_error \<Rightarrow> string" where
  "show_routeros_error (RoUnknownCapability c) = ''unknown capability: '' @ c"
| "show_routeros_error (RoMissingParam m) = ''missing param: '' @ m"
| "show_routeros_error (RoParam e) = ''parameter validation: '' @ show_param_error e"
| "show_routeros_error (RoBadTarget m) = ''invalid target_ref: '' @ m"
| "show_routeros_error (RoBroker e) = ''broker: '' @ show_broker_error e"
| "show_routeros_error (RoWrongOpResult m) = ''unexpected OpResult variant: '' @ m"

fun driver_err :: "routeros_error \<Rightarrow> driver_error" where
  "driver_err (RoParam e) = DeParam e"
| "driver_err (RoBroker e) = DeBroker (show_broker_error e)"
| "driver_err (RoBadTarget m) = DeOther (''invalid target_ref: '' @ m)"
| "driver_err (RoUnknownCapability m) = DeUnsupported m"
| "driver_err (RoMissingParam m) = DeOther m"
| "driver_err (RoWrongOpResult m) = DeParse m"

section \<open>The catalogue\<close>

definition str_schema :: "string list \<Rightarrow> string list \<Rightarrow> json" where
  "str_schema required names =
     j_obj [(''type'', JStr ''object''), (''required'', JArr (map JStr required)),
            (''properties'', j_obj (map (\<lambda>n. (n, j_obj [(''type'', JStr ''string'')])) names))]"

definition build_capabilities :: "capability list" where
  "build_capabilities =
     [read_only ''network.routeros.system_info'' (version_new 1 0 0),
      read_only ''network.routeros.interface_list'' (version_new 1 0 0),
      read_only ''network.routeros.ip_addresses'' (version_new 1 0 0),
      read_only ''network.routeros.firewall_filter_list'' (version_new 1 0 0),
      \<lparr>cap_name = ''network.routeros.firewall_add_drop_rule'', cap_version = version_new 1 0 0,
       cap_description = Some (''Append a drop-action rule to `/ip firewall filter`. '' @
         ''Params: src_address (CIDR), dst_address (CIDR or address-list name), '' @
         ''in_interface (optional), comment (optional).''),
       cap_schema = Some (str_schema [''dst_address''] [''src_address'', ''dst_address'', ''in_interface'', ''comment'']),
       cap_compensating = Some \<lparr>comp_name = ''network.routeros.firewall_remove_rule'', comp_version_req = None\<rparr>,
       cap_irreversible = False\<rparr>,
      \<lparr>cap_name = ''network.routeros.user_ssh_key_import'', cap_version = version_new 1 0 0,
       cap_description = Some (''Import a public SSH key into RouterOS `/user ssh-keys`. '' @
         ''Params: user (RouterOS user name), file (basename of '' @ ''the uploaded .pub key on the device).''),
       cap_schema = Some (str_schema [''user'', ''file''] [''user'', ''file'']),
       cap_compensating = Some \<lparr>comp_name = ''network.routeros.user_ssh_key_remove'', comp_version_req = None\<rparr>,
       cap_irreversible = False\<rparr>,
      \<lparr>cap_name = ''network.routeros.user_ssh_key_remove'', cap_version = version_new 1 0 0,
       cap_description = Some (''Remove an SSH key entry from `/user ssh-keys`. '' @
         ''Params: number (the row number from ssh-keys print).''),
       cap_schema = Some (str_schema [''number''] [''number'']), cap_compensating = None, cap_irreversible = True\<rparr>,
      \<lparr>cap_name = ''network.routeros.firewall_remove_rule'', cap_version = version_new 1 0 0,
       cap_description = Some ''Remove a rule from `/ip firewall filter` by id or comment match.'',
       cap_schema = Some (str_schema [''match''] [''match'']), cap_compensating = None, cap_irreversible = True\<rparr>]"

definition is_write_capability :: "string \<Rightarrow> bool" where
  "is_write_capability c \<longleftrightarrow>
     c = ''network.routeros.firewall_add_drop_rule'' \<or> c = ''network.routeros.firewall_remove_rule'' \<or>
     c = ''network.routeros.user_ssh_key_import'' \<or> c = ''network.routeros.user_ssh_key_remove''"

section \<open>The command builder\<close>

definition need_params :: "string \<Rightarrow> json option \<Rightarrow> (json, routeros_error) result" where
  "need_params what params = ok_or params (RoMissingParam (what @ '' requires params''))"

definition need_str :: "string \<Rightarrow> string \<Rightarrow> json \<Rightarrow> (string, routeros_error) result" where
  "need_str what name p = ok_or (j_get_str name p) (RoMissingParam (what @ ''.'' @ name @ '' is required''))"

definition checked :: "string \<Rightarrow> param_class \<Rightarrow> (unit, routeros_error) result" where
  "checked v cls = map_err RoParam (validate v cls)"

text \<open>An optional parameter: validated and pushed when it is present as a string.\<close>

definition push_opt ::
  "json \<Rightarrow> string \<Rightarrow> param_class \<Rightarrow> (string \<Rightarrow> string) \<Rightarrow> string \<Rightarrow> (string, routeros_error) result" where
  "push_opt p name cls text cmd =
     (case j_get_str name p of
        None \<Rightarrow> Ok cmd
      | Some v \<Rightarrow> bind_result (checked v cls) (\<lambda>_. Ok (cmd @ text v)))"

definition build_add_drop_rule :: "json option \<Rightarrow> (string, routeros_error) result" where
  "build_add_drop_rule params =
     bind_result (need_params ''firewall_add_drop_rule'' params) (\<lambda>p.
     bind_result (need_str ''firewall_add_drop_rule'' ''dst_address'' p) (\<lambda>dst.
     bind_result (checked dst Cidr) (\<lambda>_.
     bind_result (push_opt p ''src_address'' Cidr (\<lambda>v. '' src-address='' @ v)
       (''/ip firewall filter add chain=forward action=drop dst-address='' @ dst)) (\<lambda>cmd.
     bind_result (push_opt p ''in_interface'' Identifier (\<lambda>v. '' in-interface='' @ v) cmd) (\<lambda>cmd.
     push_opt p ''comment'' SafeText (\<lambda>v. '' comment='' @ CHR 0x22 # v @ [CHR 0x22]) cmd)))))"

definition build_command :: "string \<Rightarrow> json option \<Rightarrow> (string, routeros_error) result" where
  "build_command cap params =
     (if cap = ''network.routeros.system_info'' then Ok ''/system identity print''
      else if cap = ''network.routeros.interface_list'' then Ok ''/interface print''
      else if cap = ''network.routeros.ip_addresses'' then Ok ''/ip address print''
      else if cap = ''network.routeros.firewall_filter_list'' then Ok ''/ip firewall filter print''
      else if cap = ''network.routeros.firewall_add_drop_rule'' then build_add_drop_rule params
      else if cap = ''network.routeros.firewall_remove_rule'' then
        bind_result (need_params ''firewall_remove_rule'' params) (\<lambda>p.
        bind_result (need_str ''firewall_remove_rule'' ''match'' p) (\<lambda>m.
        bind_result (checked m Identifier) (\<lambda>_.
        Ok (''/ip firewall filter remove [find '' @ m @ '']''))))
      else if cap = ''network.routeros.user_ssh_key_import'' then
        bind_result (need_params ''user_ssh_key_import'' params) (\<lambda>p.
        bind_result (need_str ''user_ssh_key_import'' ''user'' p) (\<lambda>user.
        bind_result (need_str ''user_ssh_key_import'' ''file'' p) (\<lambda>file.
        bind_result (checked user Identifier) (\<lambda>_.
        bind_result (checked file SafeText) (\<lambda>_.
        Ok (''/user ssh-keys import user='' @ user @ '' public-key-file='' @ file))))))
      else if cap = ''network.routeros.user_ssh_key_remove'' then
        bind_result (need_params ''user_ssh_key_remove'' params) (\<lambda>p.
        bind_result (need_str ''user_ssh_key_remove'' ''number'' p) (\<lambda>n.
        bind_result (checked n IntClass) (\<lambda>_.
        Ok (''/user ssh-keys remove '' @ n))))
      else Err (RoUnknownCapability cap))"

section \<open>Dispatch\<close>

record routeros_driver =
  rd_id :: agent_id
  rd_capabilities :: "capability list"
  rd_actor_id :: string
  rd_timeout :: millis

definition routeros_new :: "agent_id \<Rightarrow> string \<Rightarrow> routeros_driver" where
  "routeros_new i actor =
     \<lparr>rd_id = i, rd_capabilities = build_capabilities, rd_actor_id = actor, rd_timeout = 1000 * unat ROS_TIMEOUT_SECS\<rparr>"

definition build_exec_request ::
  "string \<Rightarrow> string \<Rightarrow> string \<Rightarrow> string \<Rightarrow> 32 word \<Rightarrow> capability list \<Rightarrow> (exec_request, routeros_error) result" where
  "build_exec_request actor cap tref command timeout caps =
     bind_result (map_err (\<lambda>e. RoBadTarget (show_ref_parse_error e)) (target_ref_parse tref)) (\<lambda>target.
     let req = exec_request_new actor target (OpShellCommand command (max timeout 1)) in
     Ok (case find (\<lambda>c. cap_name c = cap) caps of
           Some c \<Rightarrow> with_capability_meta c req
         | None \<Rightarrow> with_capability cap False req))"

text \<open>The \<open>Debug\<close> rendering of the other results (\<open>dbg\<close>) is derived code over third-party values.\<close>

definition routeros_dispatch ::
  "(op_result \<Rightarrow> string) \<Rightarrow> ('i, 'v, 't, 'a) broker \<Rightarrow> 'b call_env \<Rightarrow> routeros_driver \<Rightarrow> string \<Rightarrow> string \<Rightarrow>
   string \<Rightarrow> json option \<Rightarrow> 32 word \<Rightarrow> ('i, 'v, 't, 'a, 'b) broker_world \<Rightarrow>
   (network_output, routeros_error) result option \<times> ('i, 'v, 't, 'a, 'b) broker_world" where
  "routeros_dispatch dbg br cl rd actor cap tref params timeout w =
     (case build_command cap params of
        Err e \<Rightarrow> (Some (Err e), w)
      | Ok command \<Rightarrow>
          (case build_exec_request actor cap tref command timeout (rd_capabilities rd) of
             Err e \<Rightarrow> (Some (Err e), w)
           | Ok req \<Rightarrow>
               (case execute br cl req w of
                  (None, w') \<Rightarrow> (None, w')
                | (Some (Err e), w') \<Rightarrow> (Some (Err (RoBroker e)), w')
                | (Some (Ok (ResShell out err st)), w') \<Rightarrow>
                    (Some (Ok \<lparr>no_command = command, no_stdout = out, no_stderr = err, no_exit_status = st\<rparr>), w')
                | (Some (Ok res), w') \<Rightarrow> (Some (Err (RoWrongOpResult (dbg res))), w'))))"

definition routeros_then ::
  "('x \<Rightarrow> 'y) \<Rightarrow> ('x, routeros_error) result option \<times> 'w \<Rightarrow> ('y, driver_error) result option \<times> 'w" where
  "routeros_then f rw =
     (case rw of (r, w) \<Rightarrow> (map_option (\<lambda>x. bind_result (map_err driver_err x) (\<lambda>y. Ok (f y))) r, w))"

definition routeros_describe ::
  "(op_result \<Rightarrow> string) \<Rightarrow> ('i, 'v, 't, 'a) broker \<Rightarrow> 'b call_env \<Rightarrow> routeros_driver \<Rightarrow> string \<Rightarrow>
   ('i, 'v, 't, 'a, 'b) broker_world \<Rightarrow> (target_shape, driver_error) result option \<times> ('i, 'v, 't, 'a, 'b) broker_world" where
  "routeros_describe dbg br cl rd target w =
     routeros_then
       (\<lambda>out. \<lparr>ts_class = TcFirewall, ts_identity = j_obj [(''system_identity'', JStr (trim (no_stdout out)))],
               ts_summary = ''RouterOS device '' @ target\<rparr>)
       (routeros_dispatch dbg br cl rd (rd_actor_id rd) ''network.routeros.system_info'' target None ROS_TIMEOUT_SECS w)"

definition table_capability :: "string \<Rightarrow> string option" where
  "table_capability t =
     (if t = ''system'' \<or> t = ''system_info'' then Some ''network.routeros.system_info''
      else if t = ''interface'' \<or> t = ''interface_list'' then Some ''network.routeros.interface_list''
      else if t = ''ip.address'' \<or> t = ''ip_addresses'' then Some ''network.routeros.ip_addresses''
      else if t = ''firewall.filter'' \<or> t = ''firewall_filter_list'' then Some ''network.routeros.firewall_filter_list''
      else None)"

definition routeros_read_state ::
  "(op_result \<Rightarrow> string) \<Rightarrow> ('i, 'v, 't, 'a) broker \<Rightarrow> 'b call_env \<Rightarrow> routeros_driver \<Rightarrow> string \<Rightarrow> json \<Rightarrow>
   ('i, 'v, 't, 'a, 'b) broker_world \<Rightarrow> (state_doc, driver_error) result option \<times> ('i, 'v, 't, 'a, 'b) broker_world" where
  "routeros_read_state dbg br cl rd target selector w =
     (let table = (case j_get_str ''table'' selector of Some t \<Rightarrow> t | None \<Rightarrow> ''system'') in
      case table_capability table of
        None \<Rightarrow> (Some (Err (DeUnsupported (''read_state: unknown selector table `'' @ table @ ''`''))), w)
      | Some cap \<Rightarrow>
          routeros_then
            (\<lambda>out. \<lparr>sd_target = target,
               sd_doc = j_obj [(''table'', JStr table), (''command'', JStr (no_command out)), (''raw'', JStr (no_stdout out)),
                               (''exit_status'', json_of_int (sint (no_exit_status out)))]\<rparr>)
            (routeros_dispatch dbg br cl rd (rd_actor_id rd) cap target None ROS_TIMEOUT_SECS w))"

definition routeros_diagnose ::
  "(op_result \<Rightarrow> string) \<Rightarrow> ('i, 'v, 't, 'a) broker \<Rightarrow> 'b call_env \<Rightarrow> routeros_driver \<Rightarrow> string \<Rightarrow> string \<Rightarrow>
   ('i, 'v, 't, 'a, 'b) broker_world \<Rightarrow> (finding list, driver_error) result option \<times> ('i, 'v, 't, 'a, 'b) broker_world" where
  "routeros_diagnose dbg br cl rd target symptom w =
     routeros_then
       (\<lambda>out. [\<lparr>fi_title = ''firewall filter table for symptom `'' @ symptom @ ''`'', fi_severity = SevInfo,
                fi_detail = no_stdout out,
                fi_suggested_capability = Some ''network.routeros.firewall_remove_rule'',
                fi_suggested_params = j_obj []\<rparr>])
       (routeros_dispatch dbg br cl rd (rd_actor_id rd) ''network.routeros.firewall_filter_list'' target None ROS_TIMEOUT_SECS w)"

definition routeros_remediate ::
  "(op_result \<Rightarrow> string) \<Rightarrow> ('i, 'v, 't, 'a) broker \<Rightarrow> 'b call_env \<Rightarrow> routeros_driver \<Rightarrow> string \<Rightarrow> string \<Rightarrow> json \<Rightarrow>
   ('i, 'v, 't, 'a, 'b) broker_world \<Rightarrow> (receipt, driver_error) result option \<times> ('i, 'v, 't, 'a, 'b) broker_world" where
  "routeros_remediate dbg br cl rd target cap params w =
     (if \<not> is_write_capability cap
      then (Some (Err (DeUnsupported (''remediate: `'' @ cap @ ''` is not a RouterOS write capability''))), w)
      else routeros_then
             (\<lambda>out. \<lparr>rc_capability = cap,
                rc_changed = j_obj [(''target'', JStr target), (''params'', params), (''command'', JStr (no_command out)),
                                    (''exit_status'', json_of_int (sint (no_exit_status out)))]\<rparr>)
             (routeros_dispatch dbg br cl rd (rd_actor_id rd) cap target (Some params) ROS_TIMEOUT_SECS w))"

section \<open>The bus adapter\<close>

definition network_output_to_json :: "network_output \<Rightarrow> json" where
  "network_output_to_json x =
     j_obj [(''command'', JStr (no_command x)), (''stdout'', JStr (no_stdout x)), (''stderr'', JStr (no_stderr x)),
            (''exit_status'', json_of_int (sint (no_exit_status x)))]"

definition network_response_to_json :: "network_response \<Rightarrow> json" where
  "network_response_to_json r =
     j_obj ((''success'', JBool (nr_success r)) #
            (case nr_output r of Some x \<Rightarrow> [(''output'', network_output_to_json x)] | None \<Rightarrow> []) @
            opt_member ''error'' (nr_error r))"

definition routeros_reply_to ::
  "(op_result \<Rightarrow> string) \<Rightarrow> (json \<Rightarrow> string) \<Rightarrow> ('i, 'v, 't, 'a) broker \<Rightarrow> 'b call_env \<Rightarrow> routeros_driver \<Rightarrow>
   agent_envelope \<Rightarrow> ('i, 'v, 't, 'a, 'b) broker_world \<Rightarrow>
   network_response option \<times> ('i, 'v, 't, 'a, 'b) broker_world" where
  "routeros_reply_to dbg de_error br cl rd env w =
     (case decode_request (env_body env) of
        None \<Rightarrow> (Some (response_error (''invalid request: '' @ de_error (env_body env))), w)
      | Some req \<Rightarrow>
          (case routeros_dispatch dbg br cl rd (agent_str (env_from env)) (dr_capability req) (dr_target_ref req)
                  (dr_params req)
                  (case dr_timeout_secs req of Some n \<Rightarrow> word_of_nat n | None \<Rightarrow> ROS_TIMEOUT_SECS) w of
             (None, w') \<Rightarrow> (None, w')
           | (Some (Ok out), w') \<Rightarrow> (Some (response_ok out), w')
           | (Some (Err e), w') \<Rightarrow> (Some (response_error (show_routeros_error e)), w')))"

definition routeros_handle ::
  "(op_result \<Rightarrow> string) \<Rightarrow> (json \<Rightarrow> string) \<Rightarrow> (agent_envelope \<Rightarrow> ('s, unit, core_error) eff) \<Rightarrow>
   ('i, 'v, 't, 'a) broker \<Rightarrow> 'b call_env \<Rightarrow> routeros_driver \<Rightarrow> millis \<Rightarrow> agent_envelope \<Rightarrow>
   ('i, 'v, 't, 'a, 'b) broker_world \<times> 's \<Rightarrow>
   (unit, core_error) result option \<times> ('i, 'v, 't, 'a, 'b) broker_world \<times> 's" where
  "routeros_handle dbg de_error send br cl rd now env ws =
     (case routeros_reply_to dbg de_error br cl rd env (fst ws) of
        (None, w) \<Rightarrow> (None, w, snd ws)
      | (Some resp, w) \<Rightarrow>
          (case send (envelope_reply_to now env (rd_id rd) (network_response_to_json resp)) (snd ws) of
             (r, s) \<Rightarrow> (Some r, w, s)))"


section \<open>Lemmas\<close>

lemma checked_Ok_iff: "checked v cls = Ok () \<longleftrightarrow> validate v cls = Ok ()"
  by (simp add: checked_def)

lemma checked_filter:
  "checked v cls = Ok () \<Longrightarrow> class_safe cls \<Longrightarrow> filter is_metachar v = []"
  using validate_no_metachar filter_meta_safe checked_Ok_iff by blast

text \<open>The command characters each capability's own text has.\<close>

definition opt_mark :: "json option \<Rightarrow> string \<Rightarrow> string \<Rightarrow> string" where
  "opt_mark params name mark = (if Option.bind params (j_get_str name) = None then '''' else mark)"

definition command_marks :: "string \<Rightarrow> json option \<Rightarrow> string" where
  "command_marks cap params =
     (if cap = ''network.routeros.firewall_add_drop_rule'' then
        ''==='' @ opt_mark params ''src_address'' ''='' @ opt_mark params ''in_interface'' ''='' @
        opt_mark params ''comment'' (CHR ''='' # [CHR 0x22, CHR 0x22])
      else if cap = ''network.routeros.firewall_remove_rule'' then ''[]''
      else if cap = ''network.routeros.user_ssh_key_import'' then ''==''
      else '''')"

lemma push_opt_marks:
  assumes "push_opt p name cls text cmd = Ok cmd'" "class_safe cls"
    and "\<And>v. filter is_metachar v = [] \<Longrightarrow> filter is_metachar (text v) = mark"
  shows "filter is_metachar cmd' = filter is_metachar cmd @ opt_mark (Some p) name mark"
  using assms checked_filter [of _ cls]
  by (auto simp: push_opt_def opt_mark_def bind_result_Ok_iff split: option.splits)

lemma literal_marks:
  "filter is_metachar ''/ip firewall filter add chain=forward action=drop dst-address='' = ''===''"
  "filter is_metachar '' src-address='' = ''=''"
  "filter is_metachar '' in-interface='' = ''=''"
  "filter is_metachar '' comment='' = ''=''"
  "filter is_metachar [CHR 0x22] = [CHR 0x22]"
  "filter is_metachar ''/ip firewall filter remove [find '' = ''[''"
  "filter is_metachar '']'' = '']''"
  "filter is_metachar ''/user ssh-keys import user='' = ''=''"
  "filter is_metachar '' public-key-file='' = ''=''"
  "filter is_metachar ''/user ssh-keys remove '' = ''''"
  "filter is_metachar ''/system identity print'' = ''''"
  "filter is_metachar ''/interface print'' = ''''"
  "filter is_metachar ''/ip address print'' = ''''"
  "filter is_metachar ''/ip firewall filter print'' = ''''"
  by (simp_all add: is_metachar_def shell_metachars_def)


lemma build_add_marks:
  assumes "build_add_drop_rule params = Ok cmd"
  shows "filter is_metachar cmd = command_marks ''network.routeros.firewall_add_drop_rule'' params"
proof -
  obtain p dst u c1 c2 where p: "params = Some p" and dst: "checked dst Cidr = Ok u"
    and c1: "push_opt p ''src_address'' Cidr (\<lambda>v. '' src-address='' @ v)
       (''/ip firewall filter add chain=forward action=drop dst-address='' @ dst) = Ok c1"
    and c2: "push_opt p ''in_interface'' Identifier (\<lambda>v. '' in-interface='' @ v) c1 = Ok c2"
    and c3: "push_opt p ''comment'' SafeText (\<lambda>v. '' comment='' @ CHR 0x22 # v @ [CHR 0x22]) c2 = Ok cmd"
    using assms unfolding build_add_drop_rule_def need_params_def bind_result_Ok_iff ok_or_Ok_iff
    by blast
  have d: "filter is_metachar dst = []" using checked_filter [of dst Cidr] dst by simp
  have "filter is_metachar c1 = ''==='' @ opt_mark (Some p) ''src_address'' ''=''"
    by (subst push_opt_marks [OF c1]) (simp_all only: class_safe.simps filter_append literal_marks d append_Nil2)
  moreover have "filter is_metachar c2 = filter is_metachar c1 @ opt_mark (Some p) ''in_interface'' ''=''"
    by (rule push_opt_marks [OF c2]) (simp_all only: class_safe.simps filter_append literal_marks append_Nil2)
  moreover have "filter is_metachar cmd =
      filter is_metachar c2 @ opt_mark (Some p) ''comment'' (CHR ''='' # [CHR 0x22, CHR 0x22])"
    by (rule push_opt_marks [OF c3]) (simp_all add: is_metachar_def shell_metachars_def)
  ultimately show ?thesis by (simp add: command_marks_def p)
qed

lemma catalogue_disposition:
  "list_all (\<lambda>n. case find (\<lambda>c. cap_name c = n) build_capabilities of
      Some c \<Rightarrow> is_read c \<longleftrightarrow> \<not> is_write_capability n | None \<Rightarrow> False) (map cap_name build_capabilities)"
  by code_simp

lemma build_command_catalogue: "build_command cap params = Ok cmd \<Longrightarrow> cap \<in> set (map cap_name build_capabilities)"
  by (rule ccontr) (simp add: build_command_def build_capabilities_def read_only_def)

lemma find_build_capabilities:
  assumes "build_command cap params = Ok cmd"
  shows "\<exists>c. find (\<lambda>c. cap_name c = cap) build_capabilities = Some c \<and> (is_read c \<longleftrightarrow> \<not> is_write_capability cap)"
  using catalogue_disposition build_command_catalogue [OF assms]
  unfolding list_all_iff by (auto split: option.splits)

lemma build_command_read:
  "\<not> is_write_capability cap \<Longrightarrow> build_command cap params = Ok cmd \<Longrightarrow>
   cmd = ''/system identity print'' \<or> cmd = ''/interface print'' \<or> cmd = ''/ip address print'' \<or>
   cmd = ''/ip firewall filter print''"
  unfolding build_command_def is_write_capability_def
  by (simp only: if_False simp_thms de_Morgan_disj result.inject result.distinct split: if_split_asm)

section \<open>Properties\<close>

text \<open>C8: whatever parameters a caller sends, a command the driver builds has exactly the command
  characters of the capability's own text: no parameter adds a separator, a quote, a
  bracket, an assignment or a line break.\<close>

theorem routeros_no_injection:
  assumes "build_command cap params = Ok cmd"
  shows "filter is_metachar cmd = command_marks cap params"
proof (cases "is_write_capability cap")
  case True
  then show ?thesis unfolding is_write_capability_def
  proof (elim disjE)
    assume 1: "cap = ''network.routeros.firewall_add_drop_rule''"
    have "build_add_drop_rule params = Ok cmd" using assms by (simp add: build_command_def 1)
    then show ?thesis unfolding 1 by (rule build_add_marks)
  next
    assume 2: "cap = ''network.routeros.firewall_remove_rule''"
    then obtain m where "checked m Identifier = Ok ()" "cmd = ''/ip firewall filter remove [find '' @ m @ '']''"
      using assms by (auto simp: build_command_def bind_result_Ok_iff)
    then show ?thesis using 2 checked_filter [of m Identifier]
      by (simp only: filter_append literal_marks class_safe.simps) (simp add: command_marks_def)
  next
    assume 3: "cap = ''network.routeros.user_ssh_key_import''"
    then obtain usr fl where "checked usr Identifier = Ok ()" "checked fl SafeText = Ok ()"
      "cmd = ''/user ssh-keys import user='' @ usr @ '' public-key-file='' @ fl"
      using assms by (auto simp: build_command_def bind_result_Ok_iff)
    then show ?thesis using 3 checked_filter [of usr Identifier] checked_filter [of fl SafeText]
      by (simp only: filter_append literal_marks class_safe.simps) (simp add: command_marks_def)
  next
    assume 4: "cap = ''network.routeros.user_ssh_key_remove''"
    then obtain n where "checked n IntClass = Ok ()" "cmd = ''/user ssh-keys remove '' @ n"
      using assms by (auto simp: build_command_def bind_result_Ok_iff)
    then show ?thesis using 4 checked_filter [of n IntClass]
      by (simp only: filter_append literal_marks class_safe.simps) (simp add: command_marks_def)
  qed
next
  case False
  then have "command_marks cap params = ''''"
    by (simp only: is_write_capability_def command_marks_def de_Morgan_disj if_False)
  moreover have "filter is_metachar cmd = ''''"
    using build_command_read [OF False assms] literal_marks(11-14) by (elim disjE) (simp_all only:)
  ultimately show ?thesis by simp
qed

theorem routeros_no_injection_witness:
  "filter is_metachar ''/ip firewall filter remove [find tmp-rule]'' =
     command_marks ''network.routeros.firewall_remove_rule'' (Some (JObj [(''match'', JStr ''tmp-rule'')]))"
proof -
  have "validate ''tmp-rule'' Identifier = Ok ()" by code_simp
  then have "build_command ''network.routeros.firewall_remove_rule'' (Some (JObj [(''match'', JStr ''tmp-rule'')])) =
      Ok ''/ip firewall filter remove [find tmp-rule]''"
    by (simp add: build_command_def need_params_def need_str_def checked_def ok_or_def j_get_str_def del: validate.simps)
  then show ?thesis by (rule routeros_no_injection)
qed

text \<open>The guard classifies every RouterOS request by the catalogue: a request that reaches the
  broker carries the caller as actor, and counts as a read exactly when its capability is
  not one of the four writes; anything else stops before the broker.\<close>

lemma routeros_dispatch_broker:
  "case bind_result (build_command cap params) (\<lambda>command.
          build_exec_request actor cap tref command timeout (rd_capabilities (routeros_new i a))) of
     Err e \<Rightarrow> routeros_dispatch dbg br cl (routeros_new i a) actor cap tref params timeout w = (Some (Err e), w)
   | Ok req \<Rightarrow>
       snd (routeros_dispatch dbg br cl (routeros_new i a) actor cap tref params timeout w) = snd (execute br cl req w) \<and>
       xr_actor_id req = actor \<and> request_capability req = cap \<and>
       (derive_read_only req \<longleftrightarrow> \<not> is_write_capability cap)"
proof (cases "build_command cap params")
  case (Err e)
  then show ?thesis by (simp add: routeros_dispatch_def)
next
  case cmd: (Ok command)
  let ?req = "build_exec_request actor cap tref command timeout (rd_capabilities (routeros_new i a))"
  show ?thesis
  proof (cases ?req)
    case (Err e)
    then show ?thesis using cmd by (simp add: routeros_dispatch_def)
  next
    case (Ok req)
    obtain c where c: "find (\<lambda>c. cap_name c = cap) build_capabilities = Some c" "is_read c \<longleftrightarrow> \<not> is_write_capability cap"
      using find_build_capabilities [OF cmd] by blast
    then have n: "cap_name c = cap" by (auto simp: find_Some_iff)
    have "xr_actor_id req = actor \<and> request_capability req = cap \<and> (derive_read_only req \<longleftrightarrow> is_read c)"
      using Ok c(1) n
      by (auto simp: build_exec_request_def routeros_new_def bind_result_Ok_iff Let_def with_capability_meta_def
          exec_request_new_def request_capability_def derive_read_only_def)
    moreover have "snd (routeros_dispatch dbg br cl (routeros_new i a) actor cap tref params timeout w) = snd (execute br cl req w)"
      using cmd Ok
      by (auto simp: routeros_dispatch_def split: prod.splits option.splits result.splits op_result.splits)
    ultimately show ?thesis using cmd Ok c(2) by simp
  qed
qed


text \<open>A device that refuses every command.\<close>

definition ex_refusing :: "stub_record list transport" where
  "ex_refusing tgt op cred s = (Ok (ResShell '''' ''failure: not permitted'' 1), s)"

definition ex_identity_env :: agent_envelope where
  "ex_identity_env = envelope_new ''c-2'' 1 (agent_id_new ''alice'') (ByCapability ''network.routeros.system_info'' (VersionReq ''*''))
     (JObj [(''capability'', JStr ''network.routeros.system_info''), (''target_ref'', JStr ''target://edge'')])"

text \<open>The RouterOS driver reports success for a command the device refused: with a transport
  that answers exit status 1, the reply has \<open>success\<close> set, no error, and the exit status
  only inside its output.\<close>

lemma routeros_failure_reported_as_success:
  "case routeros_reply_to dbg de_error (ex_broker\<lparr>br_transports := [(TrSsh, ex_refusing)]\<rparr>) (ex_call [])
          (routeros_new (agent_id_new ''agent:network'') ''agent:network'') ex_identity_env (ex_world ''s3cret'') of
     (Some resp, w') \<Rightarrow> nr_success resp \<and> nr_error resp = None \<and> map_option no_exit_status (nr_output resp) = Some 1
   | (None, w') \<Rightarrow> False"
proof -
  let ?br = "ex_broker\<lparr>br_transports := [(TrSsh, ex_refusing)]\<rparr>"
  have d: "decode_request (env_body ex_identity_env) =
      Some \<lparr>dr_capability = ''network.routeros.system_info'', dr_target_ref = ''target://edge'', dr_timeout_secs = None, dr_params = None\<rparr>"
    by (simp add: ex_identity_env_def envelope_new_def request_of_parts_def decode_timeout_def decode_params_def)
  have c: "build_command ''network.routeros.system_info'' None = Ok ''/system identity print''"
    by (simp add: build_command_def)
  have t: "target_ref_parse ''target://edge'' = Ok (TargetRef ''edge'')" by code_simp
  let ?rd = "routeros_new (agent_id_new ''agent:network'') ''agent:network''"
  obtain m where m: "find (\<lambda>c. cap_name c = ''network.routeros.system_info'') build_capabilities = Some m" "is_read m"
    using find_build_capabilities [OF c] by (auto simp: is_write_capability_def)
  let ?req = "with_capability_meta m (exec_request_new (agent_str (env_from ex_identity_env)) (TargetRef ''edge'')
      (OpShellCommand ''/system identity print'' (max ROS_TIMEOUT_SECS 1)))"
  have r: "build_exec_request (agent_str (env_from ex_identity_env)) ''network.routeros.system_info'' ''target://edge''
      ''/system identity print'' ROS_TIMEOUT_SECS (rd_capabilities ?rd) = Ok ?req"
    by (simp add: build_exec_request_def t routeros_new_def m)
  have g: "broker_pre_flight ?br (ex_call []) ?req ex_guard = (Some (Ok ()), ex_guard)"
    by (simp add: broker_pre_flight_def ex_broker_defs derive_read_only_def with_capability_meta_def m pre_flight_read
        ex_guard_defs)
  have ref: "credential_ref_parse ''vault://edge'' = Ok (CrNamed ''edge'')" by code_simp
  have "fst (execute ?br (ex_call []) ?req (ex_world ''s3cret'')) = Some (Ok (ResShell '''' ''failure: not permitted'' 1))"
    by (simp add: execute_def execute_inner_def g ex_world_def broker_run_def)
      (simp add: ex_broker_defs mem_inventory_ops_def mem_get_managed_def ex_target_def ref stub_resolve_def
        ex_refusing_def ok_or_def with_capability_meta_def)
  then obtain w' where "execute ?br (ex_call []) ?req (ex_world ''s3cret'') =
      (Some (Ok (ResShell '''' ''failure: not permitted'' 1)), w')" by (metis prod.collapse)
  then show ?thesis
    by (simp add: routeros_reply_to_def d routeros_dispatch_def c r response_ok_def)
qed

end
