(* ===== verification/Orchestrator.thy ===== *)
theory Orchestrator
  imports Dispatcher Database "HOL-Library.Word"
begin

text \<open>
  The plan orchestrator (\<open>daimon-orchestrator\<close>, \<open>plan.rs\<close> and \<open>service.rs\<close>): plans and steps,
  their tables, the execution loop over the dependency graph and the compensation pass.

  The dispatcher is reached through \<open>oe_dispatch\<close>, a function on a state of its own; the graph
  mirror and the long-term memory are other crates behind trait objects and are optional
  functions on their states. A statement that uses \<open>now()\<close> reads the database clock: the
  n-th statement sees \<open>ow_clock n\<close>.
\<close>

section \<open>Plans and steps\<close>

datatype plan_status = PlPlanning | PlAwaitingApproval | PlExecuting | PlSucceeded | PlFailed | PlCancelled | PlRolledBack

fun plan_status_as_str :: "plan_status \<Rightarrow> string" where
  "plan_status_as_str PlPlanning = ''planning''"
| "plan_status_as_str PlAwaitingApproval = ''awaiting_approval''"
| "plan_status_as_str PlExecuting = ''executing''"
| "plan_status_as_str PlSucceeded = ''succeeded''"
| "plan_status_as_str PlFailed = ''failed''"
| "plan_status_as_str PlCancelled = ''cancelled''"
| "plan_status_as_str PlRolledBack = ''rolled_back''"

definition plan_status_from_str :: "string \<Rightarrow> plan_status" where
  "plan_status_from_str s =
     (if s = ''planning'' then PlPlanning
      else if s = ''awaiting_approval'' then PlAwaitingApproval
      else if s = ''executing'' then PlExecuting
      else if s = ''succeeded'' then PlSucceeded
      else if s = ''failed'' then PlFailed
      else if s = ''cancelled'' then PlCancelled
      else if s = ''rolled_back'' then PlRolledBack
      else PlFailed)"

datatype step_status = StPending | StRunning | StSucceeded | StFailed | StSkipped | StCompensated

fun step_status_as_str :: "step_status \<Rightarrow> string" where
  "step_status_as_str StPending = ''pending''"
| "step_status_as_str StRunning = ''running''"
| "step_status_as_str StSucceeded = ''succeeded''"
| "step_status_as_str StFailed = ''failed''"
| "step_status_as_str StSkipped = ''skipped''"
| "step_status_as_str StCompensated = ''compensated''"

definition step_status_from_str :: "string \<Rightarrow> step_status" where
  "step_status_from_str s =
     (if s = ''pending'' then StPending
      else if s = ''running'' then StRunning
      else if s = ''succeeded'' then StSucceeded
      else if s = ''failed'' then StFailed
      else if s = ''skipped'' then StSkipped
      else if s = ''compensated'' then StCompensated
      else StFailed)"

record step_def =
  sd_capability_name :: string
  sd_capability_version :: string
  sd_target_ref :: "string option"
  sd_credential_ref :: "string option"
  sd_params :: json
  sd_depends_on_index :: "nat list"

text \<open>A plan and a step, with the type of their status left open: text in a table row, the enum
  in memory.\<close>

record 'st plan_rec =
  pl_id :: uuid
  pl_created_by :: "uuid option"
  pl_intent :: string
  pl_status :: 'st
  pl_metadata :: json
  pl_created_at :: millis
  pl_updated_at :: millis
  pl_started_at :: "millis option"
  pl_finished_at :: "millis option"

record 'st step_rec =
  st_id :: uuid
  st_plan_id :: uuid
  st_step_index :: "32 word"
  st_capability_name :: string
  st_capability_version :: string
  st_target_ref :: "string option"
  st_credential_ref :: "string option"
  st_params :: json
  st_depends_on :: "uuid list"
  st_compensating_step_id :: "uuid option"
  st_status :: 'st
  st_result :: "json option"
  st_started_at :: "millis option"
  st_finished_at :: "millis option"

type_synonym plan = "plan_status plan_rec"
type_synonym plan_row = "string plan_rec"
type_synonym step = "step_status step_rec"
type_synonym step_row = "string step_rec"

definition row_to_plan :: "plan_row \<Rightarrow> plan" where
  "row_to_plan r =
     \<lparr>pl_id = pl_id r, pl_created_by = pl_created_by r, pl_intent = pl_intent r,
      pl_status = plan_status_from_str (pl_status r), pl_metadata = pl_metadata r,
      pl_created_at = pl_created_at r, pl_updated_at = pl_updated_at r,
      pl_started_at = pl_started_at r, pl_finished_at = pl_finished_at r\<rparr>"

definition row_to_step :: "step_row \<Rightarrow> step" where
  "row_to_step r =
     \<lparr>st_id = st_id r, st_plan_id = st_plan_id r, st_step_index = st_step_index r,
      st_capability_name = st_capability_name r, st_capability_version = st_capability_version r,
      st_target_ref = st_target_ref r, st_credential_ref = st_credential_ref r, st_params = st_params r,
      st_depends_on = st_depends_on r, st_compensating_step_id = st_compensating_step_id r,
      st_status = step_status_from_str (st_status r), st_result = st_result r,
      st_started_at = st_started_at r, st_finished_at = st_finished_at r\<rparr>"

section \<open>Errors\<close>

datatype orch_error =
    OePg string
  | OePool string
  | OePlanNotFound uuid
  | OeDispatch string
  | OeDagCycle
  | OeDecode string
  | OeOther string

fun show_orch_error :: "orch_error \<Rightarrow> string" where
  "show_orch_error (OePg e) = ''db: '' @ e"
| "show_orch_error (OePool e) = ''pool: '' @ e"
| "show_orch_error (OePlanNotFound u) = ''plan not found: '' @ u"
| "show_orch_error (OeDispatch e) = ''step dispatch: '' @ e"
| "show_orch_error OeDagCycle = ''dag cycle detected''"
| "show_orch_error (OeDecode e) = ''decode: '' @ e"
| "show_orch_error (OeOther e) = e"

fun orch_db_error :: "db_fault \<Rightarrow> orch_error" where
  "orch_db_error (PoolFault e) = OePool e"
| "orch_db_error (PgFault e) = OePg e"

section \<open>The service and its world\<close>

definition STEP_DISPATCH_TIMEOUT :: millis where
  "STEP_DISPATCH_TIMEOUT = 60000"

record graph_step =
  gs_id :: uuid
  gs_capability_name :: string
  gs_capability_version :: string
  gs_target_ref :: string
  gs_depends_on :: "uuid list"

record graph_plan =
  gp_id :: uuid
  gp_intent :: string
  gp_created_at :: millis
  gp_steps :: "graph_step list"

datatype terminal_body =
    TbDecision string string string string
  | TbIncident string string string

record ('d, 'g, 'm) orch_env =
  oe_semver :: semver
  oe_version_error :: "string \<Rightarrow> string"
  oe_registry :: registry
  oe_dispatch :: "agent_id \<Rightarrow> string \<Rightarrow> version_req \<Rightarrow> json \<Rightarrow> millis \<Rightarrow> ('d, json, dispatch_error) eff"
  oe_graph :: "(graph_plan \<Rightarrow> ('g, unit, string) eff) option"
  oe_memory :: "(terminal_body \<Rightarrow> ('m, string, string) eff) option"

record orch_tables =
  ot_plans :: "plan_row list"
  ot_steps :: "step_row list"

record ('d, 'g, 'm) orch_world =
  ow_db :: "orch_tables db"
  ow_clock :: "nat \<Rightarrow> millis"
  ow_ticks :: nat
  ow_disp :: 'd
  ow_graph :: 'g
  ow_memory :: 'm

abbreviation ow_tables :: "('d, 'g, 'm) orch_world \<Rightarrow> orch_tables" where
  "ow_tables w \<equiv> db_tables (ow_db w)"

text \<open>One statement, given the value of \<open>now()\<close>.\<close>

definition ostmt ::
  "(millis \<Rightarrow> orch_tables \<Rightarrow> 'x \<times> orch_tables) \<Rightarrow> (('d, 'g, 'm) orch_world, 'x, orch_error) eff" where
  "ostmt f w =
     (case db_stmt (f (ow_clock w (ow_ticks w))) (ow_db w) of
        (r, d) \<Rightarrow> (map_err orch_db_error r, w\<lparr>ow_db := d, ow_ticks := ow_ticks w + 1\<rparr>))"

text \<open>A transaction: when the body or the commit fails, the tables are as they were.\<close>

definition otxn ::
  "(('d, 'g, 'm) orch_world, 'x, orch_error) eff \<Rightarrow> (('d, 'g, 'm) orch_world, 'x, orch_error) eff" where
  "otxn body w =
     (case bindE body (\<lambda>x. bindE (ostmt (\<lambda>_ t. ((), t))) (\<lambda>_. retE x)) w of
        (Ok x, w') \<Rightarrow> (Ok x, w')
      | (Err e, w') \<Rightarrow> (Err e, w'\<lparr>ow_db := (ow_db w')\<lparr>db_tables := ow_tables w\<rparr>\<rparr>))"

section \<open>Creating plans\<close>

definition resolve_deps :: "uuid list \<Rightarrow> step_def \<Rightarrow> uuid list" where
  "resolve_deps ids d = map (\<lambda>i. ids ! i) (filter (\<lambda>i. i < length ids) (sd_depends_on_index d))"

definition insert_plan :: "uuid \<Rightarrow> uuid option \<Rightarrow> string \<Rightarrow> (('d, 'g, 'm) orch_world, plan, orch_error) eff" where
  "insert_plan u created_by intent =
     ostmt (\<lambda>now t.
       let row = \<lparr>pl_id = u, pl_created_by = created_by, pl_intent = intent, pl_status = ''planning'', pl_metadata = j_obj [],
                  pl_created_at = now, pl_updated_at = now, pl_started_at = None, pl_finished_at = None\<rparr>
       in (row_to_plan row, t\<lparr>ot_plans := ot_plans t @ [row]\<rparr>))"

definition step_row_of :: "uuid \<Rightarrow> uuid list \<Rightarrow> nat \<Rightarrow> step_def \<Rightarrow> step_row" where
  "step_row_of plan_id ids i d =
     \<lparr>st_id = ids ! i, st_plan_id = plan_id, st_step_index = word_of_nat i,
      st_capability_name = sd_capability_name d, st_capability_version = sd_capability_version d,
      st_target_ref = sd_target_ref d, st_credential_ref = sd_credential_ref d, st_params = sd_params d,
      st_depends_on = resolve_deps ids d, st_compensating_step_id = None, st_status = ''pending'',
      st_result = None, st_started_at = None, st_finished_at = None\<rparr>"

fun insert_steps ::
  "uuid \<Rightarrow> uuid list \<Rightarrow> nat \<Rightarrow> step_def list \<Rightarrow> (('d, 'g, 'm) orch_world, unit, orch_error) eff" where
  "insert_steps plan_id ids i [] = retE ()"
| "insert_steps plan_id ids i (d # ds) =
     bindE (ostmt (\<lambda>_ t. ((), t\<lparr>ot_steps := ot_steps t @ [step_row_of plan_id ids i d]\<rparr>))) (\<lambda>_.
     insert_steps plan_id ids (i + 1) ds)"

definition graph_steps_of :: "uuid list \<Rightarrow> step_def list \<Rightarrow> graph_step list" where
  "graph_steps_of ids ds =
     List.map_filter (\<lambda>(i, d).
       map_option (\<lambda>tref. \<lparr>gs_id = ids ! i, gs_capability_name = sd_capability_name d,
         gs_capability_version = sd_capability_version d, gs_target_ref = tref, gs_depends_on = resolve_deps ids d\<rparr>)
         (sd_target_ref d)) (enumerate 0 ds)"

definition mirror_plan ::
  "('d, 'g, 'm) orch_env \<Rightarrow> plan \<Rightarrow> uuid list \<Rightarrow> step_def list \<Rightarrow> ('d, 'g, 'm) orch_world \<Rightarrow> ('d, 'g, 'm) orch_world" where
  "mirror_plan oe p ids ds w =
     (case oe_graph oe of
        None \<Rightarrow> w
      | Some persist \<Rightarrow>
          w\<lparr>ow_graph := snd (persist \<lparr>gp_id = pl_id p, gp_intent = pl_intent p, gp_created_at = pl_created_at p,
                                     gp_steps = graph_steps_of ids ds\<rparr> (ow_graph w))\<rparr>)"

text \<open>\<open>u\<close> is the id the database draws for the plan, \<open>ids\<close> the ids drawn for the steps.\<close>

definition create_plan ::
  "('d, 'g, 'm) orch_env \<Rightarrow> uuid \<Rightarrow> uuid list \<Rightarrow> uuid option \<Rightarrow> string \<Rightarrow> step_def list \<Rightarrow>
   (('d, 'g, 'm) orch_world, plan, orch_error) eff" where
  "create_plan oe u ids created_by intent ds =
     bindE (otxn (bindE (insert_plan u created_by intent) (\<lambda>p. bindE (insert_steps (pl_id p) ids 0 ds) (\<lambda>_. retE p))))
       (\<lambda>p. bindE (modifyE (mirror_plan oe p ids ds)) (\<lambda>_. retE p))"

section \<open>The planner\<close>

text \<open>The model's answer (\<open>llm\<close>) and the decoder serde derives for the plan shape (\<open>decode\<close>) are
  parameters; the clean-up of the text between them is the crate's own.\<close>

definition starts_with_fence :: "string \<Rightarrow> string \<Rightarrow> bool" where
  "starts_with_fence p s \<longleftrightarrow> p \<noteq> [] \<and> starts_with p s"

function trim_start_matches :: "string \<Rightarrow> string \<Rightarrow> string" where
  "trim_start_matches p s = (if starts_with_fence p s then trim_start_matches p (drop (length p) s) else s)"
  by pat_completeness auto
termination
  by (relation "measure (\<lambda>(_, s). length s)") (auto simp: starts_with_fence_def starts_with_iff)

declare trim_start_matches.simps [simp del]

definition trim_end_matches :: "string \<Rightarrow> string \<Rightarrow> string" where
  "trim_end_matches p s = rev (trim_start_matches (rev p) (rev s))"

definition strip_fences :: "string \<Rightarrow> string" where
  "strip_fences text = trim (trim_end_matches ''```'' (trim_start_matches ''```'' (trim_start_matches ''```json'' (trim text))))"

definition planner_prompt :: "string \<Rightarrow> string \<Rightarrow> string" where
  "planner_prompt catalog intent =
     ''CAPABILITY CATALOG'' @ [CHR 0x0A] @ catalog @ [CHR 0x0A, CHR 0x0A] @ ''INTENT'' @ [CHR 0x0A] @ intent @
     [CHR 0x0A, CHR 0x0A] @ ''Return the JSON plan.''"

definition plan_from_intent ::
  "('d, 'g, 'm) orch_env \<Rightarrow> (string \<Rightarrow> (string list, string) result) \<Rightarrow> (string \<Rightarrow> (step_def list, string) result) \<Rightarrow>
   uuid \<Rightarrow> (nat \<Rightarrow> uuid) \<Rightarrow> uuid option \<Rightarrow> string \<Rightarrow> string \<Rightarrow> (('d, 'g, 'm) orch_world, plan, orch_error) eff" where
  "plan_from_intent oe llm decode u fresh created_by intent catalog =
     (case llm (planner_prompt catalog intent) of
        Err e \<Rightarrow> failE (OeDispatch (''llm: '' @ e))
      | Ok texts \<Rightarrow>
          (let cleaned = strip_fences (concat texts) in
           case decode cleaned of
             Err e \<Rightarrow> failE (OeDecode (''LLM plan JSON: '' @ e @ '' (body: '' @ cleaned @ '')''))
           | Ok ds \<Rightarrow> create_plan oe u (map fresh [0..<length ds]) created_by intent ds))"

section \<open>Reading plans\<close>

definition list_plans :: "nat \<Rightarrow> (('d, 'g, 'm) orch_world, plan list, orch_error) eff" where
  "list_plans limit =
     ostmt (\<lambda>_ t. (map row_to_plan (take limit (sort_key (\<lambda>r. - int (pl_created_at r)) (ot_plans t))), t))"

definition get_plan :: "uuid \<Rightarrow> (('d, 'g, 'm) orch_world, plan option, orch_error) eff" where
  "get_plan i = ostmt (\<lambda>_ t. (map_option row_to_plan (find (\<lambda>r. pl_id r = i) (ot_plans t)), t))"

definition steps_of :: "uuid \<Rightarrow> orch_tables \<Rightarrow> step list" where
  "steps_of i t = map row_to_step (sort_key (\<lambda>r. sint (st_step_index r)) (filter (\<lambda>r. st_plan_id r = i) (ot_steps t)))"

definition list_steps :: "uuid \<Rightarrow> (('d, 'g, 'm) orch_world, step list, orch_error) eff" where
  "list_steps i = ostmt (\<lambda>_ t. (steps_of i t, t))"

section \<open>Dispatching a step\<close>

definition capability_body :: "string \<Rightarrow> string \<Rightarrow> json \<Rightarrow> json" where
  "capability_body cap tref params =
     j_obj [(''capability'', JStr cap), (''target_ref'', JStr tref),
            (''timeout_secs'', JNum (JPos (case Option.bind (j_get ''timeout_secs'' params) j_as_u64 of Some n \<Rightarrow> n | None \<Rightarrow> 30))),
            (''params'', params)]"

text \<open>A call to the dispatcher, on the dispatcher's part of the world.\<close>

definition call_dispatcher ::
  "('d, 'g, 'm) orch_env \<Rightarrow> agent_id \<Rightarrow> string \<Rightarrow> version_req \<Rightarrow> json \<Rightarrow> (('d, 'g, 'm) orch_world, json, orch_error) eff" where
  "call_dispatcher oe frm cap req body w =
     (case oe_dispatch oe frm cap req body STEP_DISPATCH_TIMEOUT (ow_disp w) of
        (r, d) \<Rightarrow> (map_err (\<lambda>e. OeDispatch (show_dispatch_error e)) r, w\<lparr>ow_disp := d\<rparr>))"

definition check_reply :: "step \<Rightarrow> json \<Rightarrow> (json, orch_error) result" where
  "check_reply s reply =
     (if Option.bind (j_get ''success'' reply) j_as_bool = Some False
      then Err (OeDispatch (''step '' @ st_id s @ '' capability `'' @ st_capability_name s @ ''` failed: '' @
             (case j_get_str ''error'' reply of Some e \<Rightarrow> e | None \<Rightarrow> ''capability reported failure'')))
      else Ok reply)"

definition dispatch_step :: "('d, 'g, 'm) orch_env \<Rightarrow> step \<Rightarrow> (('d, 'g, 'm) orch_world, json, orch_error) eff" where
  "dispatch_step oe s =
     bindE (liftE (ok_or (sv_parse (oe_semver oe) (st_capability_version s))
       (OeDispatch (''bad capability_version `'' @ st_capability_version s @ ''` for step '' @ st_id s @ '': '' @
          oe_version_error oe (st_capability_version s))))) (\<lambda>req.
     bindE (liftE (ok_or (st_target_ref s) (OeDispatch (''step '' @ st_id s @ '' has no target_ref'')))) (\<lambda>tref.
     bindE (call_dispatcher oe (agent_id_new (''orchestrator:'' @ st_plan_id s @ '':'' @ st_id s)) (st_capability_name s) req
              (capability_body (st_capability_name s) tref (st_params s))) (\<lambda>reply.
     liftE (check_reply s reply))))"

section \<open>Persisting\<close>

definition update_step :: "uuid \<Rightarrow> (step_row \<Rightarrow> step_row) \<Rightarrow> orch_tables \<Rightarrow> orch_tables" where
  "update_step i f t = t\<lparr>ot_steps := map (\<lambda>r. if st_id r = i then f r else r) (ot_steps t)\<rparr>"

definition coalesce :: "'x option \<Rightarrow> 'x \<Rightarrow> 'x option" where
  "coalesce x y = (case x of Some a \<Rightarrow> Some a | None \<Rightarrow> Some y)"

definition mark_step :: "step_status \<Rightarrow> json option \<Rightarrow> bool \<Rightarrow> millis \<Rightarrow> step_row \<Rightarrow> step_row" where
  "mark_step status result set_started now r =
     (let val = (case result of Some v \<Rightarrow> v | None \<Rightarrow> JNull) in
      if set_started then r\<lparr>st_status := step_status_as_str status, st_started_at := coalesce (st_started_at r) now\<rparr>
      else if status = StSucceeded \<or> status = StFailed \<or> status = StCompensated
      then r\<lparr>st_status := step_status_as_str status, st_result := Some val, st_finished_at := Some now\<rparr>
      else r\<lparr>st_status := step_status_as_str status, st_result := Some val\<rparr>)"

definition set_step_status ::
  "uuid \<Rightarrow> step_status \<Rightarrow> json option \<Rightarrow> bool \<Rightarrow> (('d, 'g, 'm) orch_world, unit, orch_error) eff" where
  "set_step_status i status result set_started =
     ostmt (\<lambda>now t. ((), update_step i (mark_step status result set_started now) t))"

definition update_plan :: "uuid \<Rightarrow> (plan_row \<Rightarrow> plan_row) \<Rightarrow> orch_tables \<Rightarrow> orch_tables" where
  "update_plan i f t = t\<lparr>ot_plans := map (\<lambda>r. if pl_id r = i then f r else r) (ot_plans t)\<rparr>"

definition mark_executing :: "uuid \<Rightarrow> (('d, 'g, 'm) orch_world, unit, orch_error) eff" where
  "mark_executing i =
     ostmt (\<lambda>now t. ((), update_plan i (\<lambda>r. r\<lparr>pl_status := ''executing'', pl_started_at := coalesce (pl_started_at r) now,
                                            pl_updated_at := now\<rparr>) t))"

definition terminal_record :: "plan_status \<Rightarrow> uuid \<Rightarrow> string \<Rightarrow> terminal_body option" where
  "terminal_record status plan_id intent =
     (case status of
        PlSucceeded \<Rightarrow> Some (TbDecision (''plan completed: '' @ intent) intent ''plan completed''
          (''plan '' @ plan_id @ '' reached terminal state Succeeded''))
      | PlFailed \<Rightarrow> Some (TbIncident (''plan failed: '' @ intent) intent
          (''plan '' @ plan_id @ '' failed / rolled back (compensation pass ran for '' @ ''succeeded write steps)''))
      | _ \<Rightarrow> None)"

definition capture_record ::
  "('d, 'g, 'm) orch_env \<Rightarrow> plan_status \<Rightarrow> uuid \<Rightarrow> string \<Rightarrow> ('d, 'g, 'm) orch_world \<Rightarrow> ('d, 'g, 'm) orch_world" where
  "capture_record oe status plan_id intent w =
     (case oe_memory oe of
        None \<Rightarrow> w
      | Some capture \<Rightarrow>
          (case terminal_record status plan_id intent of
             None \<Rightarrow> w
           | Some rec \<Rightarrow> w\<lparr>ow_memory := snd (capture rec (ow_memory w))\<rparr>))"

text \<open>\<open>query_one\<close> on an update that touches no row is an error.\<close>

definition finish_plan ::
  "('d, 'g, 'm) orch_env \<Rightarrow> uuid \<Rightarrow> plan_status \<Rightarrow> (('d, 'g, 'm) orch_world, unit, orch_error) eff" where
  "finish_plan oe i status =
     bindE (ostmt (\<lambda>now t.
       (map_option pl_intent (find (\<lambda>r. pl_id r = i) (ot_plans t)),
        update_plan i (\<lambda>r. r\<lparr>pl_status := plan_status_as_str status, pl_finished_at := Some now, pl_updated_at := now\<rparr>) t)))
     (\<lambda>intent.
     bindE (liftE (ok_or intent (OePg ''query returned an unexpected number of rows''))) (\<lambda>intent.
     modifyE (capture_record oe status i intent)))"

section \<open>Compensation\<close>

definition compensation_params :: "json \<Rightarrow> json option \<Rightarrow> json" where
  "compensation_params original result =
     (case original of
        JObj m \<Rightarrow>
          if map_of m ''match'' = None then
            (case Option.bind (map_of m ''comment'') j_as_str of
               Some c \<Rightarrow> JObj (bt_insert ''match'' (JStr c) m)
             | None \<Rightarrow> original)
          else original
      | _ \<Rightarrow> original)"

definition compensator_for :: "semver \<Rightarrow> registry \<Rightarrow> string \<Rightarrow> compensating_capability option" where
  "compensator_for sv reg cap =
     (case sv_parse sv ''*'' of
        None \<Rightarrow> None
      | Some any \<Rightarrow>
          (case require_by_capability sv cap any reg of
             Err _ \<Rightarrow> None
           | Ok entry \<Rightarrow> Option.bind (find (\<lambda>c. cap_name c = cap) (re_capabilities entry)) cap_compensating))"

text \<open>The requirement \<open>*\<close> parses (the sources \<open>expect\<close> it); a parse that failed there would be
  a panic.\<close>

definition dispatch_compensator ::
  "('d, 'g, 'm) orch_env \<Rightarrow> step \<Rightarrow> (('d, 'g, 'm) orch_world, json option, orch_error) eff" where
  "dispatch_compensator oe s =
     (case compensator_for (oe_semver oe) (oe_registry oe) (st_capability_name s) of
        None \<Rightarrow> retE None
      | Some c \<Rightarrow>
          bindE (liftE (case comp_version_req c of
                          Some v \<Rightarrow> ok_or (sv_parse (oe_semver oe) v)
                            (OeDispatch (''bad compensating version_req `'' @ v @ ''`: '' @ oe_version_error oe v))
                        | None \<Rightarrow> Ok (VersionReq ''*''))) (\<lambda>req.
          bindE (liftE (ok_or (st_target_ref s) (OeDispatch (''step '' @ st_id s @ '' has no target_ref'')))) (\<lambda>tref.
          bindE (call_dispatcher oe (agent_id_new (''orchestrator:'' @ st_plan_id s @ '':'' @ st_id s @ '':compensate''))
                   (comp_name c) req
                   (capability_body (comp_name c) tref (compensation_params (st_params s) (st_result s)))) (\<lambda>reply.
          retE (Some reply)))))"

definition compensate_step ::
  "('d, 'g, 'm) orch_env \<Rightarrow> step \<Rightarrow> (('d, 'g, 'm) orch_world, bool, orch_error) eff" where
  "compensate_step oe s =
     bindE (dispatch_compensator oe s) (\<lambda>r.
       case r of
         Some reply \<Rightarrow> bindE (set_step_status (st_id s) StCompensated (Some reply) False) (\<lambda>_. retE True)
       | None \<Rightarrow> retE False)"

section \<open>Running a plan\<close>

fun position :: "('x \<Rightarrow> bool) \<Rightarrow> 'x list \<Rightarrow> nat option" where
  "position P [] = None"
| "position P (x # xs) = (if P x then Some 0 else map_option Suc (position P xs))"

lemma position_Some: "position P xs = Some i \<Longrightarrow> i < length xs \<and> P (xs ! i) \<and> (\<forall>j < i. \<not> P (xs ! j))"
proof (induction xs arbitrary: i)
  case (Cons x xs)
  then show ?case by (auto split: if_splits simp: nth_Cons less_Suc_eq_0_disj split: nat.splits)
qed simp

lemma position_None: "position P xs = None \<longleftrightarrow> (\<forall>x \<in> set xs. \<not> P x)"
  by (induction xs) auto

definition runnable :: "uuid list \<Rightarrow> step \<Rightarrow> bool" where
  "runnable fin s \<longleftrightarrow> st_status s = StPending \<and> list_all (\<lambda>d. d \<in> set fin) (st_depends_on s)"

definition unfinished :: "step \<Rightarrow> bool" where
  "unfinished s \<longleftrightarrow> st_status s = StPending \<or> st_status s = StRunning"

definition pending_count :: "step list \<Rightarrow> nat" where
  "pending_count ss = length (filter (\<lambda>s. st_status s = StPending) ss)"

lemma pending_count_update:
  assumes "i < length ss" "st_status (ss ! i) = StPending" "st_status s \<noteq> StPending"
  shows "pending_count (ss[i := s]) < pending_count ss"
proof -
  have e: "pending_count (take i ss @ ss ! i # drop (Suc i) ss) =
      pending_count (take i ss) + 1 + pending_count (drop (Suc i) ss)"
    using assms(2) by (simp add: pending_count_def)
  have "pending_count ss = pending_count (take i ss) + 1 + pending_count (drop (Suc i) ss)"
    unfolding e [symmetric] by (rule arg_cong [OF id_take_nth_drop [OF assms(1)]])
  moreover have "pending_count (ss[i := s]) = pending_count (take i ss) + pending_count (drop (Suc i) ss)"
    using assms(1,3) by (simp add: upd_conv_take_nth_drop pending_count_def)
  ultimately show ?thesis by simp
qed

text \<open>The loop. \<open>fin\<close> is the set \<open>done\<close>, \<open>order\<close> the indices of the succeeded steps; the result says
  whether the run failed.\<close>

function (domintros) run_loop ::
  "('d, 'g, 'm) orch_env \<Rightarrow> step list \<Rightarrow> uuid list \<Rightarrow> nat list \<Rightarrow>
   (('d, 'g, 'm) orch_world, step list \<times> nat list \<times> bool, orch_error) eff" where
  "run_loop oe ss fin order w =
     (case position (runnable fin) ss of
        None \<Rightarrow> (Ok (ss, order, list_ex unfinished ss), w)
      | Some i \<Rightarrow>
          (case set_step_status (st_id (ss ! i)) StRunning None True w of
             (Err e, w1) \<Rightarrow> (Err e, w1)
           | (Ok _, w1) \<Rightarrow>
               (case dispatch_step oe (ss ! i) w1 of
                  (Ok result, w2) \<Rightarrow>
                    (case set_step_status (st_id (ss ! i)) StSucceeded (Some result) False w2 of
                       (Err e, w3) \<Rightarrow> (Err e, w3)
                     | (Ok _, w3) \<Rightarrow>
                         run_loop oe (ss[i := (ss ! i)\<lparr>st_status := StSucceeded, st_result := Some result\<rparr>])
                           (st_id (ss ! i) # fin) (order @ [i]) w3)
                | (Err e, w2) \<Rightarrow>
                    (case set_step_status (st_id (ss ! i)) StFailed
                            (Some (j_obj [(''error'', JStr (show_orch_error e))])) False w2 of
                       (Err e', w3) \<Rightarrow> (Err e', w3)
                     | (Ok _, w3) \<Rightarrow> (Ok (ss[i := (ss ! i)\<lparr>st_status := StFailed\<rparr>], order, True), w3)))))"
  by pat_completeness auto
termination
proof (relation "measure (\<lambda>(oe, ss, fin, order, w). pending_count ss)", goal_cases)
  case 1
  then show ?case by simp
next
  case (2 oe ss fin order w i)
  then have "i < length ss" "st_status (ss ! i) = StPending"
    using position_Some [of "runnable fin" ss i] by (auto simp: runnable_def)
  then show ?case using pending_count_update [of i ss] by simp
qed

declare run_loop.simps [simp del]

fun compensate_all ::
  "('d, 'g, 'm) orch_env \<Rightarrow> nat list \<Rightarrow> step list \<Rightarrow> ('d, 'g, 'm) orch_world \<Rightarrow> step list \<times> ('d, 'g, 'm) orch_world" where
  "compensate_all oe [] ss w = (ss, w)"
| "compensate_all oe (i # is) ss w =
     (case compensate_step oe (ss ! i) w of
        (Ok True, w') \<Rightarrow> compensate_all oe is (ss[i := (ss ! i)\<lparr>st_status := StCompensated\<rparr>]) w'
      | (Ok False, w') \<Rightarrow> compensate_all oe is ss w'
      | (Err _, w') \<Rightarrow> compensate_all oe is ss w')"

definition run_steps ::
  "('d, 'g, 'm) orch_env \<Rightarrow> step list \<Rightarrow> (('d, 'g, 'm) orch_world, step list \<times> plan_status, orch_error) eff" where
  "run_steps oe ss w =
     (case run_loop oe ss [] [] w of
        (Err e, w1) \<Rightarrow> (Err e, w1)
      | (Ok (ss1, order, failed), w1) \<Rightarrow>
          (if failed
           then (case compensate_all oe (rev order) ss1 w1 of (ss2, w2) \<Rightarrow> (Ok (ss2, PlFailed), w2))
           else (Ok (ss1, PlSucceeded), w1)))"

definition run_plan ::
  "('d, 'g, 'm) orch_env \<Rightarrow> uuid \<Rightarrow> string \<Rightarrow> (('d, 'g, 'm) orch_world, plan_status, orch_error) eff" where
  "run_plan oe plan_id actor =
     bindE (mark_executing plan_id) (\<lambda>_.
     bindE (list_steps plan_id) (\<lambda>ss.
     if ss = [] then bindE (finish_plan oe plan_id PlSucceeded) (\<lambda>_. retE PlSucceeded)
     else bindE (run_steps oe ss) (\<lambda>(_, status).
          bindE (finish_plan oe plan_id status) (\<lambda>_. retE status))))"

end
