(* ===== verification/Saga.thy ===== *)
theory Saga
  imports Orchestrator
begin

text \<open>
  What a plan run guarantees: the order in which steps are dispatched, what the final status
  means, what the tables hold afterwards, and which compensations are dispatched in which order.
  The lemmas describe one execution of the loop by what it has done so far (\<open>loop_inv\<close>); the
  properties instantiate them at its start.
\<close>

section \<open>One iteration\<close>

text \<open>The three ways an execution of the loop goes on.\<close>

lemma run_loop_done:
  "position (runnable fin) ss = None \<Longrightarrow> run_loop oe ss fin order w = (Ok (ss, order, list_ex unfinished ss), w)"
  by (subst run_loop.simps) simp

lemma run_loop_cases:
  assumes "run_loop oe ss fin order w = (Ok res, w')"
  obtains (stop) "position (runnable fin) ss = None" "res = (ss, order, list_ex unfinished ss)" "w' = w"
  | (fails) i e w1 w2 where "position (runnable fin) ss = Some i"
      "set_step_status (st_id (ss ! i)) StRunning None True w = (Ok (), w1)"
      "dispatch_step oe (ss ! i) w1 = (Err e, w2)"
      "set_step_status (st_id (ss ! i)) StFailed (Some (j_obj [(''error'', JStr (show_orch_error e))])) False w2 = (Ok (), w')"
      "res = (ss[i := (ss ! i)\<lparr>st_status := StFailed\<rparr>], order, True)"
  | (goes) i result w1 w2 w3 where "position (runnable fin) ss = Some i"
      "set_step_status (st_id (ss ! i)) StRunning None True w = (Ok (), w1)"
      "dispatch_step oe (ss ! i) w1 = (Ok result, w2)"
      "set_step_status (st_id (ss ! i)) StSucceeded (Some result) False w2 = (Ok (), w3)"
      "run_loop oe (ss[i := (ss ! i)\<lparr>st_status := StSucceeded, st_result := Some result\<rparr>])
         (st_id (ss ! i) # fin) (order @ [i]) w3 = (Ok res, w')"
proof (cases "position (runnable fin) ss")
  case None
  then show thesis using assms stop by (simp add: run_loop_done)
next
  case (Some i)
  obtain a w1 where a: "set_step_status (st_id (ss ! i)) StRunning None True w = (a, w1)" by fastforce
  obtain b w2 where b: "dispatch_step oe (ss ! i) w1 = (b, w2)" by fastforce
  have a': "a = Ok ()" using assms by (subst (asm) run_loop.simps) (cases a; simp add: Some a)
  show thesis
  proof (cases b)
    case (Err e)
    obtain c w3 where c: "set_step_status (st_id (ss ! i)) StFailed (Some (j_obj [(''error'', JStr (show_orch_error e))])) False w2 = (c, w3)"
      by fastforce
    have "c = Ok () \<and> w3 = w' \<and> res = (ss[i := (ss ! i)\<lparr>st_status := StFailed\<rparr>], order, True)"
      using assms by (subst (asm) run_loop.simps) (cases c; simp add: Some a a' b Err c)
    then show thesis using fails [OF Some] a a' b Err c by blast
  next
    case (Ok result)
    obtain c w3 where c: "set_step_status (st_id (ss ! i)) StSucceeded (Some result) False w2 = (c, w3)" by fastforce
    have c': "c = Ok ()" using assms by (subst (asm) run_loop.simps) (cases c; simp add: Some a a' b Ok c)
    have "run_loop oe (ss[i := (ss ! i)\<lparr>st_status := StSucceeded, st_result := Some result\<rparr>])
         (st_id (ss ! i) # fin) (order @ [i]) w3 = (Ok res, w')"
      using assms by (subst (asm) run_loop.simps) (simp add: Some a a' b Ok c c')
    then show thesis using goes [OF Some] a a' b Ok c c' by blast
  qed
qed

text \<open>Induction over a successful execution.\<close>

lemma run_loop_Ok_induct [consumes 1, case_names stop fails goes]:
  assumes "run_loop oe ss fin order w = (Ok res, w')"
    and stop: "\<And>ss fin order w. position (runnable fin) ss = None \<Longrightarrow>
      P ss fin order w (ss, order, list_ex unfinished ss) w"
    and fails: "\<And>ss fin order w i e w1 w2 w'. position (runnable fin) ss = Some i \<Longrightarrow>
      set_step_status (st_id (ss ! i)) StRunning None True w = (Ok (), w1) \<Longrightarrow>
      dispatch_step oe (ss ! i) w1 = (Err e, w2) \<Longrightarrow>
      set_step_status (st_id (ss ! i)) StFailed (Some (j_obj [(''error'', JStr (show_orch_error e))])) False w2 = (Ok (), w') \<Longrightarrow>
      P ss fin order w (ss[i := (ss ! i)\<lparr>st_status := StFailed\<rparr>], order, True) w'"
    and goes: "\<And>ss fin order w i result w1 w2 w3 res w'. position (runnable fin) ss = Some i \<Longrightarrow>
      set_step_status (st_id (ss ! i)) StRunning None True w = (Ok (), w1) \<Longrightarrow>
      dispatch_step oe (ss ! i) w1 = (Ok result, w2) \<Longrightarrow>
      set_step_status (st_id (ss ! i)) StSucceeded (Some result) False w2 = (Ok (), w3) \<Longrightarrow>
      P (ss[i := (ss ! i)\<lparr>st_status := StSucceeded, st_result := Some result\<rparr>])
        (st_id (ss ! i) # fin) (order @ [i]) w3 res w' \<Longrightarrow>
      P ss fin order w res w'"
  shows "P ss fin order w res w'"
  using assms(1)
proof (induction "pending_count ss" arbitrary: ss fin order w rule: less_induct)
  case less
  from less.prems show ?case
  proof (cases rule: run_loop_cases)
    case stop
    then show ?thesis using assms(2) by simp
  next
    case (fails i e w1 w2)
    then show ?thesis using assms(3) by simp
  next
    case (goes i result w1 w2 w3)
    have "i < length ss" "st_status (ss ! i) = StPending"
      using position_Some [OF goes(1)] by (auto simp: runnable_def)
    then have "pending_count (ss[i := (ss ! i)\<lparr>st_status := StSucceeded, st_result := Some result\<rparr>]) < pending_count ss"
      by (intro pending_count_update) simp_all
    from less.hyps [OF this goes(5)] show ?thesis by (rule assms(4) [OF goes(1-4)])
  qed
qed

section \<open>The order of a run\<close>

text \<open>What the loop has done so far, from the steps \<open>ss0\<close> it started with.\<close>

definition loop_inv :: "step list \<Rightarrow> step list \<Rightarrow> uuid list \<Rightarrow> nat list \<Rightarrow> bool" where
  "loop_inv ss0 ss fin order \<longleftrightarrow>
     length ss = length ss0 \<and> distinct order \<and> set fin = (\<lambda>i. st_id (ss0 ! i)) ` set order \<and>
     (\<forall>i < length ss0. i \<notin> set order \<longrightarrow> ss ! i = ss0 ! i) \<and>
     (\<forall>i \<in> set order. i < length ss0 \<and> st_status (ss0 ! i) = StPending \<and>
        (\<exists>r. ss ! i = (ss0 ! i)\<lparr>st_status := StSucceeded, st_result := Some r\<rparr>)) \<and>
     (\<forall>k < length order. \<forall>d \<in> set (st_depends_on (ss0 ! (order ! k))). \<exists>j < k. st_id (ss0 ! (order ! j)) = d)"

lemma loop_inv_start: "loop_inv ss ss [] []"
  by (simp add: loop_inv_def)

lemma loop_inv_fresh:
  assumes "loop_inv ss0 ss fin order" "position (runnable fin) ss = Some i"
  shows "i < length ss0" "i \<notin> set order" "ss ! i = ss0 ! i" "st_status (ss0 ! i) = StPending"
    "\<forall>d \<in> set (st_depends_on (ss0 ! i)). \<exists>j < length order. st_id (ss0 ! (order ! j)) = d"
proof -
  have i: "i < length ss" "st_status (ss ! i) = StPending" "\<forall>d \<in> set (st_depends_on (ss ! i)). d \<in> set fin"
    using position_Some [OF assms(2)] by (auto simp: runnable_def list_all_iff)
  then show 1: "i < length ss0" using assms(1) by (simp add: loop_inv_def)
  show 2: "i \<notin> set order" using assms(1) i(2) by (fastforce simp: loop_inv_def)
  then show 3: "ss ! i = ss0 ! i" using assms(1) 1 by (simp add: loop_inv_def)
  then show "st_status (ss0 ! i) = StPending" using i(2) by simp
  show "\<forall>d \<in> set (st_depends_on (ss0 ! i)). \<exists>j < length order. st_id (ss0 ! (order ! j)) = d"
  proof
    fix d assume "d \<in> set (st_depends_on (ss0 ! i))"
    then have "d \<in> (\<lambda>i. st_id (ss0 ! i)) ` set order" using assms(1) i(3) 3 by (simp add: loop_inv_def)
    then show "\<exists>j < length order. st_id (ss0 ! (order ! j)) = d" by (auto simp: in_set_conv_nth)
  qed
qed

lemma loop_inv_step:
  assumes "loop_inv ss0 ss fin order" "position (runnable fin) ss = Some i"
  shows "loop_inv ss0 (ss[i := (ss ! i)\<lparr>st_status := StSucceeded, st_result := Some r\<rparr>]) (st_id (ss ! i) # fin) (order @ [i])"
proof -
  note f = loop_inv_fresh [OF assms]
  have "\<exists>j < k. st_id (ss0 ! ((order @ [i]) ! j)) = d"
    if k: "k < length (order @ [i])" and d: "d \<in> set (st_depends_on (ss0 ! ((order @ [i]) ! k)))" for k d
  proof (cases "k < length order")
    case True
    then have "d \<in> set (st_depends_on (ss0 ! (order ! k)))" using d by (simp add: nth_append)
    with True assms(1) obtain j where "j < k" "st_id (ss0 ! (order ! j)) = d"
      unfolding loop_inv_def by blast
    then show ?thesis using True by (intro exI [of _ j]) (simp add: nth_append)
  next
    case False
    then have "k = length order" using k by simp
    then show ?thesis using f(5) d by (auto simp: nth_append)
  qed
  then show ?thesis
    using assms(1) f by (auto simp: loop_inv_def nth_list_update)
qed

text \<open>How a run ends: finished, stuck, or stopped by a failed step.\<close>

definition loop_end :: "step list \<Rightarrow> step list \<Rightarrow> nat list \<Rightarrow> bool \<Rightarrow> bool" where
  "loop_end ss0 ss order failed \<longleftrightarrow>
     (\<exists>fin. loop_inv ss0 ss fin order \<and> position (runnable fin) ss = None \<and> failed = list_ex unfinished ss) \<or>
     (failed \<and> (\<exists>fin ss1 i. loop_inv ss0 ss1 fin order \<and> position (runnable fin) ss1 = Some i \<and>
        ss = ss1[i := (ss0 ! i)\<lparr>st_status := StFailed\<rparr>]))"

lemma run_loop_end:
  assumes "run_loop oe ss fin order w = (Ok res, w')" "loop_inv ss0 ss fin order"
  shows "case res of (ss', order', failed) \<Rightarrow> loop_end ss0 ss' order' failed"
  using assms
proof (induction rule: run_loop_Ok_induct)
  case (stop ss fin order w)
  then show ?case by (auto simp: loop_end_def)
next
  case (fails ss fin order w i e w1 w2 w')
  then have "ss ! i = ss0 ! i" by (intro loop_inv_fresh(3))
  with fails show ?case unfolding loop_end_def by auto
next
  case (goes ss fin order w i result w1 w2 w3 res w')
  then show ?case using loop_inv_step by blast
qed

section \<open>The tables\<close>

lemma ostmt_Ok:
  assumes "ostmt f w = (Ok x, w')"
  shows "(x, ow_tables w') = f (ow_clock w (ow_ticks w)) (ow_tables w)" "ow_disp w' = ow_disp w"
    "ow_graph w' = ow_graph w" "ow_memory w' = ow_memory w" "db_faults (ow_db w) = [] \<Longrightarrow> db_faults (ow_db w') = []"
  using assms by (auto simp: ostmt_def db_stmt_Ok_iff split: prod.splits)

lemma ostmt_Err: "ostmt f w = (Err e, w') \<Longrightarrow> ow_tables w' = ow_tables w \<and> ow_disp w' = ow_disp w"
proof -
  assume a: "ostmt f w = (Err e, w')"
  obtain r d where s: "db_stmt (f (ow_clock w (ow_ticks w))) (ow_db w) = (r, d)" by fastforce
  then obtain e' where "r = Err e'" using a by (cases r) (auto simp: ostmt_def)
  then show ?thesis using a s db_stmt_Err_tables by (auto simp: ostmt_def)
qed

lemma ostmt_nofault:
  "db_faults (ow_db w) = [] \<Longrightarrow>
   ostmt f w = (case f (ow_clock w (ow_ticks w)) (ow_tables w) of
      (x, t) \<Rightarrow> (Ok x, w\<lparr>ow_db := (ow_db w)\<lparr>db_tables := t\<rparr>, ow_ticks := ow_ticks w + 1\<rparr>))"
  by (simp add: ostmt_def db_stmt_def split: prod.splits)

lemma call_dispatcher_db:
  "call_dispatcher oe frm cap req body w = (r, w') \<Longrightarrow> ow_db w' = ow_db w"
  by (auto simp: call_dispatcher_def split: prod.splits)

lemma dispatch_step_db: "dispatch_step oe s w = (r, w') \<Longrightarrow> ow_db w' = ow_db w"
  by (auto simp: dispatch_step_def bindE_def liftE_def split: prod.splits result.splits dest: call_dispatcher_db)

lemma dispatch_compensator_db: "dispatch_compensator oe s w = (r, w') \<Longrightarrow> ow_db w' = ow_db w"
  by (auto simp: dispatch_compensator_def bindE_def liftE_def retE_def split: prod.splits result.splits option.splits
      dest: call_dispatcher_db)

text \<open>The in-memory steps agree with the rows of the same id.\<close>

definition rows_match :: "orch_tables \<Rightarrow> step list \<Rightarrow> bool" where
  "rows_match t ss \<longleftrightarrow>
     (\<forall>s \<in> set ss. \<forall>r \<in> set (ot_steps t). st_id r = st_id s \<longrightarrow> st_status r = step_status_as_str (st_status s))"

lemma mark_step_fields [simp]:
  "st_id (mark_step status result started now r) = st_id r"
  "st_plan_id (mark_step status result started now r) = st_plan_id r"
  "st_status (mark_step status result started now r) = step_status_as_str status"
  by (simp_all add: mark_step_def Let_def)

lemma set_step_status_tables:
  assumes "set_step_status i status result started w = (Ok (), w')"
  shows "\<exists>now. ow_tables w' = update_step i (mark_step status result started now) (ow_tables w)"
  using ostmt_Ok(1) [OF assms [unfolded set_step_status_def]] by auto

text \<open>The rows keep their identity: which step, of which plan.\<close>

definition row_keys :: "orch_tables \<Rightarrow> (uuid \<times> uuid) list" where
  "row_keys t = map (\<lambda>r. (st_id r, st_plan_id r)) (ot_steps t)"

lemma set_step_status_keys:
  assumes "set_step_status i status result started w = (Ok (), w')"
  shows "row_keys (ow_tables w') = row_keys (ow_tables w)" "ot_plans (ow_tables w') = ot_plans (ow_tables w)"
  using set_step_status_tables [OF assms] by (auto simp: row_keys_def update_step_def)

lemma set_step_status_match:
  assumes "set_step_status (st_id (ss ! i)) status result started w = (Ok (), w')"
    and "rows_match (ow_tables w) ss" "distinct (map st_id ss)" "i < length ss"
    and "st_id s = st_id (ss ! i)" "st_status s = status"
  shows "rows_match (ow_tables w') (ss[i := s])"
proof -
  obtain now where n: "ow_tables w' = update_step (st_id (ss ! i)) (mark_step status result started now) (ow_tables w)"
    using set_step_status_tables [OF assms(1)] by blast
  define f where "f = mark_step status result started now"
  have f: "ow_tables w' = update_step (st_id (ss ! i)) f (ow_tables w)"
    "\<And>r. st_id (f r) = st_id r" "\<And>r. st_status (f r) = step_status_as_str status"
    by (simp_all add: n f_def)
  show ?thesis unfolding rows_match_def
  proof (intro ballI impI)
    fix x r assume x: "x \<in> set (ss[i := s])" and r: "r \<in> set (ot_steps (ow_tables w'))" and eq: "st_id r = st_id x"
    obtain r0 where r0: "r0 \<in> set (ot_steps (ow_tables w))" "r = (if st_id r0 = st_id (ss ! i) then f r0 else r0)"
      using r f(1) by (auto simp: update_step_def)
    obtain j where j: "j < length ss" "x = ss[i := s] ! j" using x by (auto simp: in_set_conv_nth)
    show "st_status r = step_status_as_str (st_status x)"
    proof (cases "j = i")
      case True
      then have "x = s" using j by simp
      then show ?thesis using r0 eq assms(5,6) f(2,3) by (cases "st_id r0 = st_id (ss ! i)") simp_all
    next
      case False
      then have x': "x = ss ! j" using j by simp
      have "st_id (ss ! j) \<noteq> st_id (ss ! i)"
        using assms(3,4) False j(1) by (metis distinct_conv_nth length_map nth_map)
      then have "r = r0" using r0 eq x' f(2) by (auto split: if_splits)
      then show ?thesis using r0(1) eq x' assms(2) j(1) by (auto simp: rows_match_def)
    qed
  qed
qed

text \<open>Marking a step as running and then as something else leaves the marks of the second.\<close>

lemma step_marks_match:
  assumes a: "set_step_status (st_id (ss ! i)) StRunning None True w = (Ok (), w1)"
    and d: "ow_db w2 = ow_db w1"
    and b: "set_step_status (st_id (ss ! i)) status result False w2 = (Ok (), w')"
    and m: "rows_match (ow_tables w) ss" "distinct (map st_id ss)" "i < length ss"
    and s: "st_id s = st_id (ss ! i)" "st_status s = status"
  shows "rows_match (ow_tables w') (ss[i := s])"
proof -
  let ?r = "(ss ! i)\<lparr>st_status := StRunning\<rparr>"
  have ids: "map st_id (ss[i := ?r]) = map st_id ss" by (simp add: map_update list_update_same_conv m)
  have "rows_match (ow_tables w1) (ss[i := ?r])" by (rule set_step_status_match [OF a m]) simp_all
  then have "rows_match (ow_tables w2) (ss[i := ?r])" by (simp add: d)
  from set_step_status_match [of "ss[i := ?r]" i, OF _ this] b m s ids show ?thesis by simp
qed

lemma run_loop_match:
  assumes "run_loop oe ss fin order w = (Ok res, w')" "rows_match (ow_tables w) ss" "distinct (map st_id ss)"
  shows "rows_match (ow_tables w') (fst res) \<and> map st_id (fst res) = map st_id ss \<and>
    row_keys (ow_tables w') = row_keys (ow_tables w) \<and> ot_plans (ow_tables w') = ot_plans (ow_tables w)"
  using assms
proof (induction rule: run_loop_Ok_induct)
  case (stop ss fin order w)
  then show ?case by simp
next
  case (fails ss fin order w i e w1 w2 w')
  have i: "i < length ss" using position_Some [OF fails(1)] by simp
  have db: "ow_db w2 = ow_db w1" using dispatch_step_db [OF fails(3)] .
  have "map st_id (ss[i := (ss ! i)\<lparr>st_status := StFailed\<rparr>]) = map st_id ss"
    by (simp add: map_update list_update_same_conv i)
  then show ?case
    using step_marks_match [OF fails(2) db fails(4) fails.prems i] set_step_status_keys [OF fails(2)]
      set_step_status_keys [OF fails(4)] db by simp
next
  case (goes ss fin order w i result w1 w2 w3 res w')
  let ?s = "(ss ! i)\<lparr>st_status := StSucceeded, st_result := Some result\<rparr>"
  have i: "i < length ss" using position_Some [OF goes(1)] by simp
  have db: "ow_db w2 = ow_db w1" using dispatch_step_db [OF goes(3)] .
  have ids: "map st_id (ss[i := ?s]) = map st_id ss"
    by (simp add: map_update list_update_same_conv i)
  have "rows_match (ow_tables w3) (ss[i := ?s])"
    by (rule step_marks_match [OF goes(2) db goes(4) goes.prems i]) simp_all
  then show ?case
    using goes.IH goes.prems(2) ids set_step_status_keys [OF goes(2)] set_step_status_keys [OF goes(4)] db by simp
qed

section \<open>The compensation pass\<close>

lemma set_step_status_Err:
  "set_step_status i status result started w = (Err e, w') \<Longrightarrow> ow_tables w' = ow_tables w"
  unfolding set_step_status_def by (drule ostmt_Err) simp

lemma compensate_step_cases:
  assumes "compensate_step oe s w = (r, w')"
  obtains (marked) reply w1 where "r = Ok True" "ow_db w1 = ow_db w"
      "set_step_status (st_id s) StCompensated (Some reply) False w1 = (Ok (), w')"
      "compensator_for (oe_semver oe) (oe_registry oe) (st_capability_name s) \<noteq> None"
  | (kept) "r \<noteq> Ok True" "ow_tables w' = ow_tables w"
proof -
  obtain x w1 where x: "dispatch_compensator oe s w = (x, w1)" by fastforce
  have db: "ow_db w1 = ow_db w" by (rule dispatch_compensator_db [OF x])
  have c: "compensator_for (oe_semver oe) (oe_registry oe) (st_capability_name s) \<noteq> None" if "x = Ok (Some reply)" for reply
    using x that
    by (cases "compensator_for (oe_semver oe) (oe_registry oe) (st_capability_name s)")
      (simp_all add: dispatch_compensator_def retE_def)
  show thesis
  proof (cases "\<exists>reply. x = Ok (Some reply)")
    case True
    then obtain reply where reply: "x = Ok (Some reply)" by blast
    obtain y w2 where y: "set_step_status (st_id s) StCompensated (Some reply) False w1 = (y, w2)" by fastforce
    have e: "compensate_step oe s w = bindE (set_step_status (st_id s) StCompensated (Some reply) False) (\<lambda>_. retE True) w1"
      by (simp add: compensate_step_def bindE_def x reply)
    show thesis
    proof (cases y)
      case (Ok u)
      then have "r = Ok True" "w2 = w'" using assms e y by (simp_all add: bindE_def retE_def)
      then show thesis using marked db y Ok c reply by simp
    next
      case (Err e')
      then have "r = Err e'" "w2 = w'" using assms e y by (simp_all add: bindE_def)
      then show thesis using kept set_step_status_Err [OF y [unfolded Err]] db by simp
    qed
  next
    case False
    then have "r \<noteq> Ok True" "w' = w1"
      using assms x by (auto simp: compensate_step_def bindE_def retE_def split: result.splits option.splits)
    then show thesis using kept db by simp
  qed
qed

text \<open>One position of the pass.\<close>

lemma compensate_all_step:
  assumes "compensate_step oe (ss ! i) w = (r, w1)"
  shows "compensate_all oe (i # is) ss w =
    compensate_all oe is (if r = Ok True then ss[i := (ss ! i)\<lparr>st_status := StCompensated\<rparr>] else ss) w1"
proof (cases r)
  case (Ok b)
  then show ?thesis using assms by (cases b) simp_all
qed (use assms in simp)

lemma compensate_all_match:
  assumes "compensate_all oe is ss w = (ss', w')" "rows_match (ow_tables w) ss" "distinct (map st_id ss)"
    and "\<forall>i \<in> set is. i < length ss"
  shows "rows_match (ow_tables w') ss' \<and> map st_id ss' = map st_id ss \<and>
    row_keys (ow_tables w') = row_keys (ow_tables w) \<and> ot_plans (ow_tables w') = ot_plans (ow_tables w)"
  using assms
proof (induction "is" arbitrary: ss w)
  case Nil
  then show ?case by simp
next
  case (Cons i "is")
  obtain r w1 where r: "compensate_step oe (ss ! i) w = (r, w1)" by fastforce
  let ?ss = "if r = Ok True then ss[i := (ss ! i)\<lparr>st_status := StCompensated\<rparr>] else ss"
  have run: "compensate_all oe is ?ss w1 = (ss', w')" using Cons.prems(1) compensate_all_step [OF r] by simp
  have ids: "map st_id ?ss = map st_id ss" using Cons.prems(4) by (simp add: map_update list_update_same_conv)
  have "rows_match (ow_tables w1) ?ss \<and> row_keys (ow_tables w1) = row_keys (ow_tables w) \<and>
      ot_plans (ow_tables w1) = ot_plans (ow_tables w)"
    using r
  proof (cases rule: compensate_step_cases)
    case (marked reply w2)
    then show ?thesis
      using set_step_status_match [OF marked(3), of "(ss ! i)\<lparr>st_status := StCompensated\<rparr>"] Cons.prems
        set_step_status_keys [OF marked(3)] by simp
  next
    case kept
    then show ?thesis using Cons.prems by simp
  qed
  then show ?case using Cons.IH [OF run] Cons.prems(3,4) ids by simp
qed

text \<open>The pass turns succeeded steps into compensated ones, where there is a compensator, and
  changes nothing else.\<close>

lemma compensate_all_status:
  assumes "compensate_all oe is ss w = (ss', w')" "\<forall>i \<in> set is. i < length ss"
  shows "length ss' = length ss \<and> (\<forall>i < length ss. ss' ! i = ss ! i \<or>
     i \<in> set is \<and> ss' ! i = (ss ! i)\<lparr>st_status := StCompensated\<rparr> \<and>
     compensator_for (oe_semver oe) (oe_registry oe) (st_capability_name (ss ! i)) \<noteq> None)"
  using assms
proof (induction "is" arbitrary: ss w)
  case Nil
  then show ?case by simp
next
  case (Cons i "is")
  obtain r w1 where r: "compensate_step oe (ss ! i) w = (r, w1)" by fastforce
  let ?ss = "if r = Ok True then ss[i := (ss ! i)\<lparr>st_status := StCompensated\<rparr>] else ss"
  have run: "compensate_all oe is ?ss w1 = (ss', w')" using Cons.prems(1) compensate_all_step [OF r] by simp
  have comp: "compensator_for (oe_semver oe) (oe_registry oe) (st_capability_name (ss ! i)) \<noteq> None" if "r = Ok True"
    using r by (cases rule: compensate_step_cases) (use that in auto)
  have len: "length ?ss = length ss" by simp
  have IH: "length ss' = length ss \<and> (\<forall>j < length ss. ss' ! j = ?ss ! j \<or>
     j \<in> set is \<and> ss' ! j = (?ss ! j)\<lparr>st_status := StCompensated\<rparr> \<and>
     compensator_for (oe_semver oe) (oe_registry oe) (st_capability_name (?ss ! j)) \<noteq> None)"
    using Cons.IH [OF run] Cons.prems(2) by (simp add: len)
  show ?case
  proof (intro conjI allI impI)
    fix j assume j: "j < length ss"
    show "ss' ! j = ss ! j \<or> j \<in> set (i # is) \<and> ss' ! j = (ss ! j)\<lparr>st_status := StCompensated\<rparr> \<and>
      compensator_for (oe_semver oe) (oe_registry oe) (st_capability_name (ss ! j)) \<noteq> None"
    proof (cases "r = Ok True \<and> j = i")
      case True
      then have "?ss ! j = (ss ! j)\<lparr>st_status := StCompensated\<rparr>" using j by simp
      then show ?thesis using IH j comp True by auto
    next
      case False
      then have "?ss ! j = ss ! j" by auto
      then show ?thesis using IH j by auto
    qed
  qed (use IH in simp)
qed

section \<open>Finishing\<close>

lemma finish_plan_Ok:
  assumes "finish_plan oe i status w = (Ok (), w')"
  shows "ot_steps (ow_tables w') = ot_steps (ow_tables w)"
    "\<forall>r \<in> set (ot_plans (ow_tables w')). pl_id r = i \<longrightarrow> pl_status r = plan_status_as_str status"
    "\<exists>r \<in> set (ot_plans (ow_tables w')). pl_id r = i"
proof -
  obtain x w1 y w2 where a: "ostmt (\<lambda>now t.
       (map_option pl_intent (find (\<lambda>r. pl_id r = i) (ot_plans t)),
        update_plan i (\<lambda>r. r\<lparr>pl_status := plan_status_as_str status, pl_finished_at := Some now, pl_updated_at := now\<rparr>) t)) w = (Ok x, w1)"
    and x: "x = Some y" and w': "w' = capture_record oe status i y w1"
    using assms by (auto simp: finish_plan_def bindE_Ok_iff liftE_def modifyE_def)
  have t: "ow_tables w' = ow_tables w1" by (simp add: w' capture_record_def split: option.splits)
  from ostmt_Ok(1) [OF a] have f: "x = map_option pl_intent (find (\<lambda>r. pl_id r = i) (ot_plans (ow_tables w)))"
    and u: "ow_tables w1 = update_plan i (\<lambda>r. r\<lparr>pl_status := plan_status_as_str status,
      pl_finished_at := Some (ow_clock w (ow_ticks w)), pl_updated_at := ow_clock w (ow_ticks w)\<rparr>) (ow_tables w)"
    by auto
  show "ot_steps (ow_tables w') = ot_steps (ow_tables w)" by (simp add: t u update_plan_def)
  have p: "ot_plans (ow_tables w') = map (\<lambda>r. if pl_id r = i then r\<lparr>pl_status := plan_status_as_str status,
      pl_finished_at := Some (ow_clock w (ow_ticks w)), pl_updated_at := ow_clock w (ow_ticks w)\<rparr> else r) (ot_plans (ow_tables w))"
    by (simp add: t u update_plan_def)
  show "\<forall>r \<in> set (ot_plans (ow_tables w')). pl_id r = i \<longrightarrow> pl_status r = plan_status_as_str status"
    unfolding p list.set_map ball_simps(9) by simp
  obtain r where r: "find (\<lambda>r. pl_id r = i) (ot_plans (ow_tables w)) = Some r"
    using f x by (cases "find (\<lambda>r. pl_id r = i) (ot_plans (ow_tables w))") simp_all
  then have "r \<in> set (ot_plans (ow_tables w))" "pl_id r = i"
    by (auto simp: find_Some_iff)
  then have "i \<in> pl_id ` set (ot_plans (ow_tables w))" by blast
  moreover have "map pl_id (ot_plans (ow_tables w')) = map pl_id (ot_plans (ow_tables w))"
    by (simp add: t u update_plan_def)
  then have "pl_id ` set (ot_plans (ow_tables w')) = pl_id ` set (ot_plans (ow_tables w))"
    by (metis list.set_map)
  ultimately have "i \<in> pl_id ` set (ot_plans (ow_tables w'))" by simp
  then show "\<exists>r \<in> set (ot_plans (ow_tables w')). pl_id r = i" by blast
qed

lemma steps_of_match:
  assumes "distinct (map st_id (ot_steps t))" "\<forall>r \<in> set (ot_steps t). st_status r \<in> range step_status_as_str"
  shows "rows_match t (steps_of i t)" "distinct (map st_id (steps_of i t))"
proof -
  have s: "step_status_as_str (step_status_from_str x) = x" if x: "x \<in> range step_status_as_str" for x
  proof -
    obtain y where "x = step_status_as_str y" using x by blast
    then show ?thesis by (cases y) (simp_all add: step_status_from_str_def)
  qed
  show "rows_match t (steps_of i t)"
  proof (unfold rows_match_def, intro ballI impI)
    fix x r assume x: "x \<in> set (steps_of i t)" and r: "r \<in> set (ot_steps t)" and e: "st_id r = st_id x"
    obtain r' where r': "r' \<in> set (ot_steps t)" "x = row_to_step r'"
      using x by (auto simp: steps_of_def)
    have "r = r'" using assms(1) r r' e by (auto simp: row_to_step_def distinct_map inj_on_def)
    then show "st_status r = step_status_as_str (st_status x)"
      using s assms(2) r r' by (auto simp: row_to_step_def)
  qed
  have "map st_id (steps_of i t) = map st_id (sort_key (\<lambda>r. sint (st_step_index r)) (filter (\<lambda>r. st_plan_id r = i) (ot_steps t)))"
    by (simp add: steps_of_def row_to_step_def)
  moreover have "distinct (map st_id (filter (\<lambda>r. st_plan_id r = i) (ot_steps t)))"
    by (rule distinct_map_filter [OF assms(1)])
  then have "distinct (map st_id (sort_key (\<lambda>r. sint (st_step_index r)) (filter (\<lambda>r. st_plan_id r = i) (ot_steps t))))"
    by (simp add: distinct_map)
  ultimately show "distinct (map st_id (steps_of i t))" by simp
qed

section \<open>Lemmas: running a plan\<close>

lemma run_steps_Ok:
  assumes "run_steps oe ss w = (Ok (ss', status), w')"
  obtains ss1 order failed w1 where "run_loop oe ss [] [] w = (Ok (ss1, order, failed), w1)"
    "loop_end ss ss1 order failed" "status = (if failed then PlFailed else PlSucceeded)"
    "if failed then compensate_all oe (rev order) ss1 w1 = (ss', w') else ss' = ss1 \<and> w' = w1"
proof -
  obtain r w1 where r: "run_loop oe ss [] [] w = (r, w1)" by fastforce
  obtain ss1 order failed where ok: "r = Ok (ss1, order, failed)"
    using assms r by (cases r) (auto simp: run_steps_def)
  have e: "loop_end ss ss1 order failed" using run_loop_end [OF r [unfolded ok] loop_inv_start] by simp
  have "status = (if failed then PlFailed else PlSucceeded)"
    "if failed then compensate_all oe (rev order) ss1 w1 = (ss', w') else ss' = ss1 \<and> w' = w1"
    using assms r ok by (auto simp: run_steps_def split: if_splits prod.splits)
  then show thesis using that r ok e by blast
qed

lemma loop_end_order: "loop_end ss0 ss order failed \<Longrightarrow> \<exists>fin ss1. loop_inv ss0 ss1 fin order"
  by (auto simp: loop_end_def)

lemma loop_end_length: "loop_end ss0 ss order failed \<Longrightarrow> length ss = length ss0 \<and> (\<forall>i \<in> set order. i < length ss0)"
  by (auto simp: loop_end_def loop_inv_def)

lemma loop_inv_nth:
  "loop_inv ss0 ss fin order \<Longrightarrow> i \<in> set order \<Longrightarrow>
   i < length ss0 \<and> (\<exists>r. ss ! i = (ss0 ! i)\<lparr>st_status := StSucceeded, st_result := Some r\<rparr>)"
  "loop_inv ss0 ss fin order \<Longrightarrow> i < length ss0 \<Longrightarrow> i \<notin> set order \<Longrightarrow> ss ! i = ss0 ! i"
  unfolding loop_inv_def by blast+

lemma loop_end_nth:
  assumes "loop_end ss0 ss order failed"
  shows "i \<in> set order \<Longrightarrow> \<exists>r. ss ! i = (ss0 ! i)\<lparr>st_status := StSucceeded, st_result := Some r\<rparr>"
    and "i < length ss0 \<Longrightarrow> i \<notin> set order \<Longrightarrow> ss ! i = ss0 ! i \<or> st_status (ss ! i) = StFailed"
proof -
  from assms consider fin where "loop_inv ss0 ss fin order"
    | fin ss1 j where "loop_inv ss0 ss1 fin order" "position (runnable fin) ss1 = Some j"
      "ss = ss1[j := (ss0 ! j)\<lparr>st_status := StFailed\<rparr>]"
    unfolding loop_end_def by blast
  then have "(i \<in> set order \<longrightarrow> (\<exists>r. ss ! i = (ss0 ! i)\<lparr>st_status := StSucceeded, st_result := Some r\<rparr>)) \<and>
    (i < length ss0 \<longrightarrow> i \<notin> set order \<longrightarrow> ss ! i = ss0 ! i \<or> st_status (ss ! i) = StFailed)"
  proof cases
    case (1 fin)
    then show ?thesis using loop_inv_nth(1) [OF 1] loop_inv_nth(2) [OF 1] by simp
  next
    case (2 fin ss1 j)
    note f = loop_inv_fresh(1,2) [OF 2(1,2)]
    have len: "length ss1 = length ss0" using 2(1) by (simp add: loop_inv_def)
    show ?thesis
    proof (cases "j = i")
      case True
      have "ss ! j = (ss0 ! j)\<lparr>st_status := StFailed\<rparr>"
        unfolding 2(3) by (rule nth_list_update_eq) (simp add: len f(1))
      then have "st_status (ss ! i) = StFailed" by (simp add: True)
      then show ?thesis using f(2) True by blast
    next
      case False
      then have "ss ! i = ss1 ! i" using 2(3) by simp
      then show ?thesis using loop_inv_nth(1) [OF 2(1)] loop_inv_nth(2) [OF 2(1)] by simp
    qed
  qed
  then show "i \<in> set order \<Longrightarrow> \<exists>r. ss ! i = (ss0 ! i)\<lparr>st_status := StSucceeded, st_result := Some r\<rparr>"
    and "i < length ss0 \<Longrightarrow> i \<notin> set order \<Longrightarrow> ss ! i = ss0 ! i \<or> st_status (ss ! i) = StFailed" by blast+
qed

lemma run_steps_match:
  assumes "run_steps oe ss w = (Ok (ss', status), w')" "rows_match (ow_tables w) ss" "distinct (map st_id ss)"
  shows "rows_match (ow_tables w') ss' \<and> map st_id ss' = map st_id ss \<and>
    row_keys (ow_tables w') = row_keys (ow_tables w)"
proof -
  obtain ss1 order failed w1 where r: "run_loop oe ss [] [] w = (Ok (ss1, order, failed), w1)"
    and e: "loop_end ss ss1 order failed"
    and c: "if failed then compensate_all oe (rev order) ss1 w1 = (ss', w') else ss' = ss1 \<and> w' = w1"
    using run_steps_Ok [OF assms(1)] by metis
  have m: "rows_match (ow_tables w1) ss1 \<and> map st_id ss1 = map st_id ss \<and> row_keys (ow_tables w1) = row_keys (ow_tables w)"
    using run_loop_match [OF r assms(2,3)] by simp
  show ?thesis
  proof (cases failed)
    case True
    then have "compensate_all oe (rev order) ss1 w1 = (ss', w')" using c by simp
    from compensate_all_match [OF this] m assms(3) loop_end_length [OF e] show ?thesis by simp
  qed (use c m in simp)
qed

lemma run_plan_Ok:
  assumes "run_plan oe i actor w = (Ok status, w')"
  obtains (empty) w1 where "steps_of i (ow_tables w) = []" "status = PlSucceeded"
      "ot_steps (ow_tables w1) = ot_steps (ow_tables w)" "finish_plan oe i PlSucceeded w1 = (Ok (), w')"
  | (steps) w1 ss' w2 where "ot_steps (ow_tables w1) = ot_steps (ow_tables w)"
      "run_steps oe (steps_of i (ow_tables w)) w1 = (Ok (ss', status), w2)" "finish_plan oe i status w2 = (Ok (), w')"
proof -
  obtain w0 ss w1 where a: "mark_executing i w = (Ok (), w0)" and b: "list_steps i w0 = (Ok ss, w1)"
    and c: "(if ss = [] then bindE (finish_plan oe i PlSucceeded) (\<lambda>_. retE PlSucceeded)
       else bindE (run_steps oe ss) (\<lambda>(_, status). bindE (finish_plan oe i status) (\<lambda>_. retE status))) w1 = (Ok status, w')"
    using assms unfolding run_plan_def by (auto simp: bindE_Ok_iff)
  have t0: "ot_steps (ow_tables w0) = ot_steps (ow_tables w)"
    using ostmt_Ok(1) [OF a [unfolded mark_executing_def]] by (auto simp: update_plan_def)
  have ss: "ss = steps_of i (ow_tables w)" and t1: "ot_steps (ow_tables w1) = ot_steps (ow_tables w)"
    using ostmt_Ok(1) [OF b [unfolded list_steps_def]] t0 by (auto simp: steps_of_def)
  show thesis
  proof (cases "ss = []")
    case True
    then show thesis using c empty ss t1 by (auto simp: bindE_Ok_iff retE_def)
  next
    case False
    then obtain ss' w2 where "run_steps oe ss w1 = (Ok (ss', status), w2)" "finish_plan oe i status w2 = (Ok (), w')"
      using c by (auto simp: bindE_Ok_iff retE_def)
    then show thesis using steps t1 ss by blast
  qed
qed

text \<open>Without faults and failed dispatches the loop runs until nothing is runnable.\<close>

lemma set_step_status_nofault:
  "db_faults (ow_db w) = [] \<Longrightarrow>
   \<exists>w'. set_step_status i status result started w = (Ok (), w') \<and> db_faults (ow_db w') = []"
  by (simp add: set_step_status_def ostmt_nofault)

lemma set_step_status_faults:
  "set_step_status i status result started w = (Ok (), w') \<Longrightarrow> db_faults (ow_db w) = [] \<Longrightarrow> db_faults (ow_db w') = []"
  unfolding set_step_status_def by (rule ostmt_Ok(5))

lemma run_loop_no_fault:
  assumes "run_loop oe ss fin order w = (r, w')" "loop_inv ss0 ss fin order" "db_faults (ow_db w) = []"
    and "\<And>s v. s \<in> set ss0 \<Longrightarrow> is_ok (fst (dispatch_step oe s v))"
  shows "\<exists>ss' order'. r = Ok (ss', order', list_ex unfinished ss') \<and>
    (\<exists>fin'. loop_inv ss0 ss' fin' order' \<and> position (runnable fin') ss' = None)"
  using assms(1-3)
proof (induction "pending_count ss" arbitrary: ss fin order w rule: less_induct)
  case less
  show ?case
  proof (cases "position (runnable fin) ss")
    case None
    then show ?thesis using less.prems by (auto simp: run_loop_done)
  next
    case (Some i)
    note f = loop_inv_fresh [OF less.prems(2) Some]
    obtain w1 where a: "set_step_status (st_id (ss ! i)) StRunning None True w = (Ok (), w1)" "db_faults (ow_db w1) = []"
      using set_step_status_nofault [OF less.prems(3)] by blast
    have "is_ok (fst (dispatch_step oe (ss ! i) w1))" using assms(4) f(1,3) by simp
    then obtain result w2 where b: "dispatch_step oe (ss ! i) w1 = (Ok result, w2)"
      by (metis is_ok_iff prod.collapse)
    have "db_faults (ow_db w2) = []" using dispatch_step_db [OF b] a(2) by simp
    then obtain w3 where c: "set_step_status (st_id (ss ! i)) StSucceeded (Some result) False w2 = (Ok (), w3)"
      "db_faults (ow_db w3) = []" using set_step_status_nofault by blast
    let ?ss = "ss[i := (ss ! i)\<lparr>st_status := StSucceeded, st_result := Some result\<rparr>]"
    have run: "run_loop oe ?ss (st_id (ss ! i) # fin) (order @ [i]) w3 = (r, w')"
      using less.prems(1) by (subst (asm) run_loop.simps) (simp add: Some a(1) b c(1))
    have "i < length ss" "st_status (ss ! i) = StPending"
      using position_Some [OF Some] by (auto simp: runnable_def)
    then have "pending_count ?ss < pending_count ss" by (intro pending_count_update) simp_all
    from less.hyps [OF this run loop_inv_step [OF less.prems(2) Some] c(2)] show ?thesis .
  qed
qed

text \<open>Without database faults the loop returns, whatever the dispatches answer.\<close>

lemma run_loop_total:
  assumes "run_loop oe ss fin order w = (r, w')" "db_faults (ow_db w) = []"
  shows "\<exists>x. r = Ok x"
  using assms
proof (induction "pending_count ss" arbitrary: ss fin order w rule: less_induct)
  case less
  show ?case
  proof (cases "position (runnable fin) ss")
    case None
    then show ?thesis using less.prems by (auto simp: run_loop_done)
  next
    case (Some i)
    obtain w1 where a: "set_step_status (st_id (ss ! i)) StRunning None True w = (Ok (), w1)" "db_faults (ow_db w1) = []"
      using set_step_status_nofault [OF less.prems(2)] by blast
    obtain x w2 where b: "dispatch_step oe (ss ! i) w1 = (x, w2)" by fastforce
    have f2: "db_faults (ow_db w2) = []" using dispatch_step_db [OF b] a(2) by simp
    show ?thesis
    proof (cases x)
      case (Err e)
      obtain w3 where "set_step_status (st_id (ss ! i)) StFailed (Some (j_obj [(''error'', JStr (show_orch_error e))])) False w2 = (Ok (), w3)"
        using set_step_status_nofault [OF f2] by blast
      then show ?thesis
        using less.prems(1) by (subst (asm) run_loop.simps) (auto simp: Some a(1) b Err)
    next
      case (Ok result)
      obtain w3 where c: "set_step_status (st_id (ss ! i)) StSucceeded (Some result) False w2 = (Ok (), w3)"
        "db_faults (ow_db w3) = []" using set_step_status_nofault [OF f2] by blast
      let ?ss = "ss[i := (ss ! i)\<lparr>st_status := StSucceeded, st_result := Some result\<rparr>]"
      have run: "run_loop oe ?ss (st_id (ss ! i) # fin) (order @ [i]) w3 = (r, w')"
        using less.prems(1) by (subst (asm) run_loop.simps) (simp add: Some a(1) b Ok c(1))
      have "i < length ss" "st_status (ss ! i) = StPending"
        using position_Some [OF Some] by (auto simp: runnable_def)
      then have "pending_count ?ss < pending_count ss" by (intro pending_count_update) simp_all
      from less.hyps [OF this run c(2)] show ?thesis .
    qed
  qed
qed

lemma run_loop_faults:
  "run_loop oe ss fin order w = (r, w') \<Longrightarrow> db_faults (ow_db w) = [] \<Longrightarrow> db_faults (ow_db w') = []"
proof -
  assume run: "run_loop oe ss fin order w = (r, w')" and f: "db_faults (ow_db w) = []"
  obtain res where "r = Ok res" using run_loop_total [OF run f] by blast
  with run have "run_loop oe ss fin order w = (Ok res, w')" by simp
  then show "db_faults (ow_db w') = []" using f
  proof (induction rule: run_loop_Ok_induct)
    case (stop ss fin order w)
    then show ?case by simp
  next
    case (fails ss fin order w i e w1 w2 w')
    then show ?case
      using set_step_status_faults [OF fails(2)] set_step_status_faults [OF fails(4)] dispatch_step_db [OF fails(3)] by simp
  next
    case (goes ss fin order w i result w1 w2 w3 res w')
    then show ?case
      using set_step_status_faults [OF goes(2)] set_step_status_faults [OF goes(4)] dispatch_step_db [OF goes(3)] by simp
  qed
qed

section \<open>Properties\<close>

text \<open>C5: a plan run respects the dependency graph and never repeats a step: the steps that
  succeeded are distinct, each was pending, and each ran after every step it depends on had
  succeeded in the same run; a step whose failure stops the run had its dependencies met
  too.\<close>

theorem run_respects_dependencies:
  assumes "run_loop oe ss [] [] w = (Ok (ss', order, failed), w')"
  shows "distinct order \<and>
    (\<forall>k < length order. order ! k < length ss \<and> st_status (ss ! (order ! k)) = StPending \<and>
       (\<forall>d \<in> set (st_depends_on (ss ! (order ! k))). \<exists>j < k. st_id (ss ! (order ! j)) = d)) \<and>
    (\<forall>i < length ss. st_status (ss' ! i) = StFailed \<longrightarrow> st_status (ss ! i) = StFailed \<or>
       (\<forall>d \<in> set (st_depends_on (ss ! i)). \<exists>j < length order. st_id (ss ! (order ! j)) = d))"
proof -
  have e: "loop_end ss ss' order failed" using run_loop_end [OF assms loop_inv_start] by simp
  obtain fin ss1 where inv: "loop_inv ss ss1 fin order" using loop_end_order [OF e] by blast
  have failed: "\<forall>d \<in> set (st_depends_on (ss ! i)). \<exists>j < length order. st_id (ss ! (order ! j)) = d"
    if i: "i < length ss" "st_status (ss' ! i) = StFailed" "st_status (ss ! i) \<noteq> StFailed" for i
  proof -
    have unch: "ss2 ! i = ss ! i \<or> st_status (ss2 ! i) = StSucceeded" if "loop_inv ss ss2 fin2 order" for ss2 fin2
      using that i(1) by (cases "i \<in> set order") (auto simp: loop_inv_def)
    from e consider fin2 where "loop_inv ss ss' fin2 order"
      | fin2 ss2 j where "loop_inv ss ss2 fin2 order" "position (runnable fin2) ss2 = Some j"
        "ss' = ss2[j := (ss ! j)\<lparr>st_status := StFailed\<rparr>]"
      unfolding loop_end_def by blast
    then show ?thesis
    proof cases
      case (1 fin2)
      then show ?thesis using unch [OF 1] i by auto
    next
      case (2 fin2 ss2 j)
      then have "j = i" using unch [OF 2(1)] i by (cases "j = i") auto
      then show ?thesis using loop_inv_fresh(5) [OF 2(1,2)] by simp
    qed
  qed
  have "order ! k < length ss \<and> st_status (ss ! (order ! k)) = StPending" if "k < length order" for k
    using inv nth_mem [OF that] by (simp add: loop_inv_def)
  then show ?thesis using inv failed by (auto simp: loop_inv_def)
qed

text \<open>C12: what a run reports is what the tables hold: when \<open>run_plan\<close> returns a status, it is
  \<open>Succeeded\<close> or \<open>Failed\<close>, the plan's row has it, and after \<open>Succeeded\<close> no step of the plan is
  left pending or running. Database faults on the way are allowed; a run
  that meets one returns an error instead.\<close>

theorem run_plan_persisted:
  assumes "run_plan oe i actor w = (Ok status, w')"
    and "distinct (map st_id (ot_steps (ow_tables w)))"
    and "\<forall>r \<in> set (ot_steps (ow_tables w)). st_status r \<in> range step_status_as_str"
  shows "status \<in> {PlSucceeded, PlFailed} \<and>
    (\<exists>r \<in> set (ot_plans (ow_tables w')). pl_id r = i) \<and>
    (\<forall>r \<in> set (ot_plans (ow_tables w')). pl_id r = i \<longrightarrow> pl_status r = plan_status_as_str status) \<and>
    (status = PlSucceeded \<longrightarrow> (\<forall>r \<in> set (ot_steps (ow_tables w')). st_plan_id r = i \<longrightarrow>
       st_status r \<notin> {''pending'', ''running''}))"
  using assms(1)
proof (cases rule: run_plan_Ok)
  case (empty w1)
  have "st_plan_id r \<noteq> i" if r: "r \<in> set (ot_steps (ow_tables w'))" for r
  proof
    assume "st_plan_id r = i"
    then have "row_to_step r \<in> set (steps_of i (ow_tables w))"
      using r empty(3) finish_plan_Ok(1) [OF empty(4)] by (simp add: steps_of_def)
    then show False using empty(1) by simp
  qed
  then show ?thesis using finish_plan_Ok(2,3) [OF empty(4)] empty(2) by auto
next
  case (steps w1 ss' w2)
  let ?ss = "steps_of i (ow_tables w)"
  have ss: "steps_of i (ow_tables w1) = ?ss" using steps(1) by (simp add: steps_of_def)
  have m: "rows_match (ow_tables w1) ?ss" "distinct (map st_id ?ss)"
    using steps_of_match [of "ow_tables w1" i] assms(2,3) steps(1) ss by auto
  have fin: "rows_match (ow_tables w2) ss'" "map st_id ss' = map st_id ?ss" "row_keys (ow_tables w2) = row_keys (ow_tables w)"
    using run_steps_match [OF steps(2) m] steps(1) by (auto simp: row_keys_def)
  obtain ss1 order failed w3 where e: "loop_end ?ss ss1 order failed" "status = (if failed then PlFailed else PlSucceeded)"
    "if failed then compensate_all oe (rev order) ss1 w3 = (ss', w2) else ss' = ss1 \<and> w2 = w3"
    using run_steps_Ok [OF steps(2)] by metis
  have settled: "st_status r \<notin> {''pending'', ''running''}"
    if st: "status = PlSucceeded" and r: "r \<in> set (ot_steps (ow_tables w'))" "st_plan_id r = i" for r
  proof -
    have nf: "\<not> failed" "ss' = ss1" using e(2,3) st by (auto split: if_splits)
    then have nu: "\<not> list_ex unfinished ss'" using e(1) by (auto simp: loop_end_def)
    have r2: "r \<in> set (ot_steps (ow_tables w2))" using r finish_plan_Ok(1) [OF steps(3)] by simp
    then have "(st_id r, st_plan_id r) \<in> set (row_keys (ow_tables w))"
      unfolding fin(3) [symmetric] by (auto simp: row_keys_def)
    then obtain r0 where r0: "r0 \<in> set (ot_steps (ow_tables w))" "st_id r0 = st_id r" "st_plan_id r0 = i"
      using r(2) by (auto simp: row_keys_def)
    then have "row_to_step r0 \<in> set ?ss" by (simp add: steps_of_def)
    moreover have "st_id (row_to_step r0) = st_id r" using r0(2) by (simp add: row_to_step_def)
    ultimately have "st_id r \<in> set (map st_id ?ss)"
      unfolding list.set_map by (intro image_eqI [where x = "row_to_step r0"]) simp_all
    then have "st_id r \<in> set (map st_id ss')" unfolding fin(2) .
    then obtain s where s: "s \<in> set ss'" "st_id s = st_id r" by (auto simp only: list.set_map)
    then have "st_status r = step_status_as_str (st_status s)" using fin(1) r2 by (simp add: rows_match_def)
    moreover have "\<not> unfinished s" using nu s(1) by (simp add: list_ex_iff)
    ultimately show ?thesis by (cases "st_status s") (auto simp: unfinished_def)
  qed
  show ?thesis using finish_plan_Ok(2,3) [OF steps(3)] e(2) settled by auto
qed

text \<open>C13: a plan whose dependency graph has no cycle completes: when every dependency names a
  step of the plan that comes earlier in some ranking, every step is pending, the database
  answers and every dispatch succeeds, the run ends with \<open>Succeeded\<close> and every step succeeded.\<close>

theorem run_completes:
  assumes acyclic: "\<And>s d. s \<in> set ss \<Longrightarrow> d \<in> set (st_depends_on s) \<Longrightarrow> \<exists>t \<in> set ss. st_id t = d \<and> rank t < (rank s :: nat)"
    and pending: "\<And>s. s \<in> set ss \<Longrightarrow> st_status s = StPending"
    and db: "db_faults (ow_db w) = []"
    and ok: "\<And>s v. s \<in> set ss \<Longrightarrow> is_ok (fst (dispatch_step oe s v))"
  shows "\<exists>ss' w'. run_steps oe ss w = (Ok (ss', PlSucceeded), w') \<and> length ss' = length ss \<and>
    (\<forall>s \<in> set ss'. st_status s = StSucceeded)"
proof -
  obtain r w' where run: "run_loop oe ss [] [] w = (r, w')" by fastforce
  have "\<exists>ss' order. r = Ok (ss', order, list_ex unfinished ss') \<and> (\<exists>fin. loop_inv ss ss' fin order \<and> position (runnable fin) ss' = None)"
    using run_loop_no_fault [OF run loop_inv_start db ok] by blast
  then obtain ss' order fin where r: "r = Ok (ss', order, list_ex unfinished ss')" and inv: "loop_inv ss ss' fin order"
    and stop: "position (runnable fin) ss' = None" by blast
  have all: "i \<in> set order" if "i < length ss" for i
    using that
  proof (induction "rank (ss ! i)" arbitrary: i rule: less_induct)
    case less
    show ?case
    proof (rule ccontr)
      assume ni: "i \<notin> set order"
      then have same: "ss' ! i = ss ! i" "i < length ss'" using inv less.prems by (auto simp: loop_inv_def)
      have "d \<in> set fin" if d: "d \<in> set (st_depends_on (ss ! i))" for d
      proof -
        obtain t where "t \<in> set ss" "st_id t = d" "rank t < rank (ss ! i)"
          using acyclic [OF nth_mem [OF less.prems] d] by blast
        then obtain j where "j < length ss" "st_id (ss ! j) = d" "rank (ss ! j) < rank (ss ! i)"
          by (auto simp: in_set_conv_nth)
        then show ?thesis using less.hyps inv by (auto simp: loop_inv_def)
      qed
      then have "runnable fin (ss' ! i)"
        using same pending [OF nth_mem [OF less.prems]] by (simp add: runnable_def list_all_iff)
      then show False using stop same(2) nth_mem by (fastforce simp: position_None)
    qed
  qed
  have succ: "st_status s = StSucceeded" if s: "s \<in> set ss'" for s
  proof -
    obtain i where "i < length ss" "s = ss' ! i" using s inv by (auto simp: in_set_conv_nth loop_inv_def)
    then show ?thesis using all inv by (fastforce simp: loop_inv_def)
  qed
  then have "\<not> list_ex unfinished ss'" by (auto simp: list_ex_iff unfinished_def)
  then show ?thesis using run r succ inv by (simp add: run_steps_def loop_inv_def)
qed

section \<open>What is dispatched\<close>

text \<open>The same environment with a log of every call to the dispatcher: sender and capability.\<close>

type_synonym call_log = "(string \<times> string) list"

definition traced :: "('d, 'g, 'm) orch_env \<Rightarrow> ('d \<times> call_log, 'g, 'm) orch_env" where
  "traced oe =
     \<lparr>oe_semver = oe_semver oe, oe_version_error = oe_version_error oe, oe_registry = oe_registry oe,
      oe_dispatch = (\<lambda>frm cap req body timeout (d, log).
        case oe_dispatch oe frm cap req body timeout d of (r, d') \<Rightarrow> (r, (d', log @ [(agent_str frm, cap)]))),
      oe_graph = oe_graph oe, oe_memory = oe_memory oe\<rparr>"

definition step_call :: "('d, 'g, 'm) orch_env \<Rightarrow> step \<Rightarrow> call_log" where
  "step_call oe s =
     (if sv_parse (oe_semver oe) (st_capability_version s) \<noteq> None \<and> st_target_ref s \<noteq> None
      then [(''orchestrator:'' @ st_plan_id s @ '':'' @ st_id s, st_capability_name s)] else [])"

definition comp_call :: "('d, 'g, 'm) orch_env \<Rightarrow> step \<Rightarrow> call_log" where
  "comp_call oe s =
     (case compensator_for (oe_semver oe) (oe_registry oe) (st_capability_name s) of
        None \<Rightarrow> []
      | Some c \<Rightarrow>
          if (case comp_version_req c of Some v \<Rightarrow> sv_parse (oe_semver oe) v \<noteq> None | None \<Rightarrow> True) \<and> st_target_ref s \<noteq> None
          then [(''orchestrator:'' @ st_plan_id s @ '':'' @ st_id s @ '':compensate'', comp_name c)] else [])"

abbreviation ow_log :: "('d \<times> call_log, 'g, 'm) orch_world \<Rightarrow> call_log" where
  "ow_log w \<equiv> snd (ow_disp w)"

lemma traced_simps [simp]:
  "oe_semver (traced oe) = oe_semver oe" "oe_version_error (traced oe) = oe_version_error oe"
  "oe_registry (traced oe) = oe_registry oe"
  by (simp_all add: traced_def)

lemma call_traced:
  "call_dispatcher (traced oe) frm cap req body w = (r, w') \<Longrightarrow> ow_log w' = ow_log w @ [(agent_str frm, cap)]"
  by (cases "ow_disp w") (auto simp: call_dispatcher_def traced_def split: prod.splits)

lemma dispatch_step_log: "dispatch_step (traced oe) s w = (r, w') \<Longrightarrow> ow_log w' = ow_log w @ step_call oe s"
  by (cases "sv_parse (oe_semver oe) (st_capability_version s)"; cases "st_target_ref s")
    (auto simp: dispatch_step_def step_call_def bindE_def liftE_def ok_or_def agent_id_new_def
      split: prod.splits result.splits dest!: call_traced)

lemma dispatch_step_Ok_call: "dispatch_step oe s w = (Ok r, w') \<Longrightarrow> step_call oe s \<noteq> []"
  by (cases "sv_parse (oe_semver oe) (st_capability_version s)"; cases "st_target_ref s")
    (auto simp: dispatch_step_def step_call_def bindE_def liftE_def ok_or_def)

lemma dispatch_compensator_log:
  assumes "dispatch_compensator (traced oe) s w = (r, w')"
  shows "ow_log w' = ow_log w @ comp_call oe s"
proof (cases "compensator_for (oe_semver oe) (oe_registry oe) (st_capability_name s)")
  case None
  then show ?thesis using assms by (simp add: dispatch_compensator_def comp_call_def retE_def)
next
  case (Some c)
  show ?thesis
  proof (cases "\<exists>v. comp_version_req c = Some v \<and> sv_parse (oe_semver oe) v = None")
    case True
    then show ?thesis using assms Some
      by (auto simp: dispatch_compensator_def comp_call_def bindE_def liftE_def ok_or_def)
  next
    case False
    then obtain req where req: "(case comp_version_req c of
        Some v \<Rightarrow> ok_or (sv_parse (oe_semver oe) v)
          (OeDispatch (''bad compensating version_req `'' @ v @ ''`: '' @ oe_version_error oe v))
      | None \<Rightarrow> Ok (VersionReq ''*'')) = Ok req"
      by (cases "comp_version_req c") (auto simp: ok_or_def split: option.splits)
    have v: "case comp_version_req c of Some v \<Rightarrow> sv_parse (oe_semver oe) v \<noteq> None | None \<Rightarrow> True"
      using False by (auto split: option.splits)
    have e: "dispatch_compensator (traced oe) s =
        bindE (liftE (Ok req)) (\<lambda>req.
        bindE (liftE (ok_or (st_target_ref s) (OeDispatch (''step '' @ st_id s @ '' has no target_ref'')))) (\<lambda>tref.
        bindE (call_dispatcher (traced oe) (agent_id_new (''orchestrator:'' @ st_plan_id s @ '':'' @ st_id s @ '':compensate''))
                   (comp_name c) req
                   (capability_body (comp_name c) tref (compensation_params (st_params s) (st_result s)))) (\<lambda>reply.
          retE (Some reply))))"
      unfolding dispatch_compensator_def by (simp only: Some option.case traced_simps req)
    show ?thesis
      using assms Some v unfolding e
      by (cases "st_target_ref s")
        (auto simp: comp_call_def bindE_def liftE_def retE_def ok_or_def agent_id_new_def
          split: prod.splits result.splits dest!: call_traced)
  qed
qed

lemma set_step_status_disp:
  "set_step_status i status result started w = (r, w') \<Longrightarrow> ow_disp w' = ow_disp w"
  unfolding set_step_status_def by (cases r) (auto dest: ostmt_Ok(2) ostmt_Err)

lemma compensate_step_log: "compensate_step (traced oe) s w = (r, w') \<Longrightarrow> ow_log w' = ow_log w @ comp_call oe s"
  by (auto simp: compensate_step_def bindE_def retE_def split: prod.splits result.splits option.splits
      dest!: dispatch_compensator_log set_step_status_disp)

lemma comp_call_status [simp]: "comp_call oe (s\<lparr>st_status := a\<rparr>) = comp_call oe s"
  "comp_call oe (s\<lparr>st_status := a, st_result := b\<rparr>) = comp_call oe s"
  by (simp_all add: comp_call_def split: option.split)

lemma compensate_all_log:
  assumes "compensate_all (traced oe) is ss w = (ss', w')"
  shows "ow_log w' = ow_log w @ concat (map (\<lambda>i. comp_call oe (ss ! i)) is)"
  using assms
proof (induction "is" arbitrary: ss w)
  case Nil
  then show ?case by simp
next
  case (Cons i "is")
  obtain r w1 where r: "compensate_step (traced oe) (ss ! i) w = (r, w1)" by fastforce
  let ?ss = "if r = Ok True then ss[i := (ss ! i)\<lparr>st_status := StCompensated\<rparr>] else ss"
  have run: "compensate_all (traced oe) is ?ss w1 = (ss', w')" using Cons.prems compensate_all_step [OF r] by simp
  have same: "comp_call oe (?ss ! j) = comp_call oe (ss ! j)" for j
    by (cases "j = i"; cases "i < length ss") (simp_all add: nth_list_update list_update_beyond)
  show ?case using Cons.IH [OF run] compensate_step_log [OF r] same by simp
qed

lemma run_loop_log:
  assumes "run_loop (traced oe) ss fin order w = (Ok res, w')" "loop_inv ss0 ss fin order"
  shows "case res of (ss', order', failed) \<Rightarrow>
    \<exists>new tail. order' = order @ new \<and> length tail \<le> 1 \<and>
      ow_log w' = ow_log w @ concat (map (\<lambda>i. step_call oe (ss0 ! i)) new) @ tail"
  using assms
proof (induction rule: run_loop_Ok_induct)
  case (stop ss fin order w)
  then show ?case by auto
next
  case (fails ss fin order w i e w1 w2 w')
  have "ow_log w' = ow_log w @ step_call oe (ss ! i)"
    using set_step_status_disp [OF fails(2)] set_step_status_disp [OF fails(4)] dispatch_step_log [OF fails(3)] by simp
  then show ?case by (auto simp: step_call_def)
next
  case (goes ss fin order w i result w1 w2 w3 res w')
  have l: "ow_log w3 = ow_log w @ step_call oe (ss0 ! i)"
    using set_step_status_disp [OF goes(2)] set_step_status_disp [OF goes(4)] dispatch_step_log [OF goes(3)]
      loop_inv_fresh(3) [OF goes.prems goes(1)] by simp
  obtain ss' order' failed where res: "res = (ss', order', failed)" by (cases res)
  obtain new tail where "order' = (order @ [i]) @ new" "length tail \<le> 1"
    "ow_log w' = ow_log w3 @ concat (map (\<lambda>i. step_call oe (ss0 ! i)) new) @ tail"
    using goes.IH [OF loop_inv_step [OF goes.prems goes(1)]] res by auto
  then show ?case using l by (auto simp: res intro!: exI [of _ "i # new"] exI [of _ tail])
qed

text \<open>C4: a failed run is rolled back in reverse: the calls the run makes are the forward calls of
  its succeeded steps in order, at most the one call that failed, and then the compensators
  of the succeeded steps in the reverse of that order; afterwards a succeeded step is
  compensated or still succeeded, and only steps with a compensator are compensated.\<close>

theorem saga_reverse_order:
  assumes "run_steps (traced oe) ss w = (Ok (ss', PlFailed), w')"
  shows "\<exists>order tail. distinct order \<and> length tail \<le> 1 \<and>
    ow_log w' = ow_log w @ concat (map (\<lambda>i. step_call oe (ss ! i)) order) @ tail @
      concat (map (\<lambda>i. comp_call oe (ss ! i)) (rev order)) \<and>
    (\<forall>i \<in> set order. st_status (ss' ! i) = StSucceeded \<or>
       st_status (ss' ! i) = StCompensated \<and>
       compensator_for (oe_semver oe) (oe_registry oe) (st_capability_name (ss ! i)) \<noteq> None) \<and>
    (\<forall>i < length ss. i \<notin> set order \<longrightarrow> st_status (ss' ! i) = StCompensated \<longrightarrow> st_status (ss ! i) = StCompensated)"
proof -
  obtain ss1 order failed w1 where r: "run_loop (traced oe) ss [] [] w = (Ok (ss1, order, failed), w1)"
    and e: "loop_end ss ss1 order failed" and st: "PlFailed = (if failed then PlFailed else PlSucceeded)"
    and c: "if failed then compensate_all (traced oe) (rev order) ss1 w1 = (ss', w') else ss' = ss1 \<and> w' = w1"
    using run_steps_Ok [OF assms] by metis
  have c: "compensate_all (traced oe) (rev order) ss1 w1 = (ss', w')" using c st by (simp split: if_splits)
  obtain tail where log1: "length tail \<le> 1" "ow_log w1 = ow_log w @ concat (map (\<lambda>i. step_call oe (ss ! i)) order) @ tail"
    using run_loop_log [OF r loop_inv_start] by auto
  have dist: "distinct order" using loop_end_order [OF e] by (auto simp: loop_inv_def)
  have in_order: "\<exists>r. ss1 ! i = (ss ! i)\<lparr>st_status := StSucceeded, st_result := Some r\<rparr>" if "i \<in> set order" for i
    using loop_end_nth(1) [OF e that] .
  have out: "ss1 ! i = ss ! i \<or> st_status (ss1 ! i) = StFailed" if "i < length ss" "i \<notin> set order" for i
    using loop_end_nth(2) [OF e that] .
  have "map (\<lambda>i. comp_call oe (ss1 ! i)) (rev order) = map (\<lambda>i. comp_call oe (ss ! i)) (rev order)"
    using in_order by (intro map_cong refl) fastforce
  then have m: "concat (map (\<lambda>i. comp_call oe (ss1 ! i)) (rev order)) = concat (map (\<lambda>i. comp_call oe (ss ! i)) (rev order))"
    by (rule arg_cong)
  have log: "ow_log w' = ow_log w @ concat (map (\<lambda>i. step_call oe (ss ! i)) order) @ tail @
      concat (map (\<lambda>i. comp_call oe (ss ! i)) (rev order))"
    using compensate_all_log [OF c] unfolding m log1(2) by simp
  have len: "length ss1 = length ss" "\<forall>i \<in> set order. i < length ss" using loop_end_length [OF e] by auto
  have fin: "ss' ! i = ss1 ! i \<or> i \<in> set order \<and> ss' ! i = (ss1 ! i)\<lparr>st_status := StCompensated\<rparr> \<and>
     compensator_for (oe_semver oe) (oe_registry oe) (st_capability_name (ss1 ! i)) \<noteq> None" if "i < length ss" for i
    using compensate_all_status [OF c] len that by auto
  have a: "st_status (ss' ! i) = StSucceeded \<or> st_status (ss' ! i) = StCompensated \<and>
       compensator_for (oe_semver oe) (oe_registry oe) (st_capability_name (ss ! i)) \<noteq> None" if "i \<in> set order" for i
    using fin [of i] in_order [OF that] len that by auto
  have b: "st_status (ss ! i) = StCompensated" if "i < length ss" "i \<notin> set order" "st_status (ss' ! i) = StCompensated" for i
    using fin [of i] out [of i] that by auto
  show ?thesis using dist log1(1) log a b by blast
qed

section \<open>Creating a plan\<close>

lemma insert_steps_nofault:
  assumes "db_faults (ow_db w) = []"
  shows "\<exists>w'. insert_steps u ids k ds w = (Ok (), w') \<and> db_faults (ow_db w') = [] \<and>
    ow_tables w' = (ow_tables w)\<lparr>ot_steps := ot_steps (ow_tables w) @ map (\<lambda>(j, d). step_row_of u ids j d) (enumerate k ds)\<rparr>"
  using assms
proof (induction ds arbitrary: k w)
  case Nil
  then show ?case by (simp add: retE_def)
next
  case (Cons d ds)
  let ?w = "w\<lparr>ow_db := (ow_db w)\<lparr>db_tables := (ow_tables w)\<lparr>ot_steps := ot_steps (ow_tables w) @ [step_row_of u ids k d]\<rparr>\<rparr>,
    ow_ticks := ow_ticks w + 1\<rparr>"
  have "insert_steps u ids k (d # ds) w = insert_steps u ids (k + 1) ds ?w"
    using Cons.prems by (simp add: bindE_def ostmt_nofault)
  then show ?case using Cons.IH [of ?w "k + 1"] Cons.prems by simp
qed

lemma sint_index: "i < 2 ^ 31 \<Longrightarrow> sint (word_of_nat i :: 32 word) = int i"
  by (simp add: signed_of_nat signed_take_bit_int_eq_self)

lemma bindE_then: "m s = (Ok x, t) \<Longrightarrow> f x t = r \<Longrightarrow> bindE m f s = r"
  by (simp add: bindE_def)

lemma otxn_Ok:
  assumes "body w = (Ok x, w1)" "ostmt (\<lambda>_ t. ((), t)) w1 = (Ok (), w2)"
  shows "otxn body w = (Ok x, w2)"
  by (simp add: otxn_def bindE_def assms retE_def)

lemma otxn_Err:
  assumes "otxn body w = (Err e, w')"
  shows "ow_tables w' = ow_tables w"
  using assms by (auto simp: otxn_def split: prod.splits result.splits)

lemma mirror_plan_tables [simp]: "ow_db (mirror_plan oe p ids ds w) = ow_db w"
  by (simp add: mirror_plan_def split: option.splits)

text \<open>Creating a plan is all or nothing: a creation that fails at any statement, the commit
  included, leaves both tables as they were.\<close>

lemma create_plan_atomic:
  assumes "create_plan oe u ids created_by intent ds w = (Err e, w')"
  shows "ow_tables w' = ow_tables w"
proof -
  obtain r w1 where r: "otxn (bindE (insert_plan u created_by intent) (\<lambda>p.
      bindE (insert_steps (pl_id p) ids 0 ds) (\<lambda>_. retE p))) w = (r, w1)" by fastforce
  have "r = Err e \<and> w1 = w'"
    using assms r by (cases r) (auto simp: create_plan_def bindE_def modifyE_def retE_def)
  then show ?thesis using otxn_Err r by blast
qed

text \<open>A created plan reads back as it was given: one pending step per definition, in order, with
  its dependencies as the ids of the steps they index.\<close>

lemma create_plan_steps:
  assumes "db_faults (ow_db w) = []" "length ids = length ds" "length ds < 2 ^ 31"
    and "\<forall>r \<in> set (ot_steps (ow_tables w)). st_plan_id r \<noteq> u"
  shows "\<exists>p w'. create_plan oe u ids created_by intent ds w = (Ok p, w') \<and> pl_id p = u \<and>
    steps_of u (ow_tables w') = map (\<lambda>(j, d). row_to_step (step_row_of u ids j d)) (enumerate 0 ds)"
proof -
  let ?row = "\<lparr>pl_id = u, pl_created_by = created_by, pl_intent = intent, pl_status = ''planning'', pl_metadata = j_obj [],
      pl_created_at = ow_clock w (ow_ticks w), pl_updated_at = ow_clock w (ow_ticks w), pl_started_at = None, pl_finished_at = None\<rparr>"
  let ?p = "row_to_plan ?row"
  let ?w = "w\<lparr>ow_db := (ow_db w)\<lparr>db_tables := (ow_tables w)\<lparr>ot_plans := ot_plans (ow_tables w) @ [?row]\<rparr>\<rparr>, ow_ticks := ow_ticks w + 1\<rparr>"
  have ins: "insert_plan u created_by intent w = (Ok ?p, ?w)"
    using assms(1) by (simp add: insert_plan_def ostmt_nofault Let_def)
  obtain w2 where w2: "insert_steps u ids 0 ds ?w = (Ok (), w2)" "db_faults (ow_db w2) = []"
    "ow_tables w2 = (ow_tables ?w)\<lparr>ot_steps := ot_steps (ow_tables ?w) @ map (\<lambda>(j, d). step_row_of u ids j d) (enumerate 0 ds)\<rparr>"
    using insert_steps_nofault [of ?w u ids 0 ds] assms(1) by auto
  have pid: "pl_id ?p = u" by (simp add: row_to_plan_def)
  let ?w3 = "w2\<lparr>ow_db := (ow_db w2)\<lparr>db_tables := ow_tables w2\<rparr>, ow_ticks := ow_ticks w2 + 1\<rparr>"
  have body: "bindE (insert_plan u created_by intent) (\<lambda>p. bindE (insert_steps (pl_id p) ids 0 ds) (\<lambda>_. retE p)) w = (Ok ?p, w2)"
    unfolding bindE_def ins prod.case result.case pid w2(1) retE_def by (rule refl)
  have commit: "ostmt (\<lambda>_ t. ((), t)) w2 = (Ok (), ?w3)" by (simp add: ostmt_nofault w2(2))
  have txn: "otxn (bindE (insert_plan u created_by intent) (\<lambda>p. bindE (insert_steps (pl_id p) ids 0 ds) (\<lambda>_. retE p))) w = (Ok ?p, ?w3)"
    by (rule otxn_Ok, rule body, rule commit)
  have "create_plan oe u ids created_by intent ds w = (Ok ?p, mirror_plan oe ?p ids ds ?w3)"
    unfolding create_plan_def by (rule bindE_then, rule txn) (simp add: bindE_def modifyE_def retE_def)
  moreover have "steps_of u (ow_tables w2) = map (\<lambda>(j, d). row_to_step (step_row_of u ids j d)) (enumerate 0 ds)"
  proof -
    let ?rows = "map (\<lambda>(j, d). step_row_of u ids j d) (enumerate 0 ds)"
    have "filter (\<lambda>r. st_plan_id r = u) (ot_steps (ow_tables w2)) = ?rows"
      using assms(4) by (auto simp: w2(3) filter_empty_conv step_row_of_def intro!: filter_True)
    moreover have "sorted (map (\<lambda>r. sint (st_step_index r)) ?rows)"
    proof -
      have "map (\<lambda>r. sint (st_step_index r)) ?rows = map int [0..<length ds]"
        using assms(3) by (auto intro!: nth_equalityI simp: nth_enumerate_eq step_row_of_def sint_index)
      then show ?thesis by (simp add: sorted_map)
    qed
    ultimately show ?thesis by (simp add: steps_of_def sort_key_id_if_sorted case_prod_unfold comp_def)
  qed
  ultimately show ?thesis using pid by simp
qed

section \<open>Small plans\<close>

text \<open>A dispatcher that answers every call, with success for the capabilities that satisfy \<open>good\<close>;
  capability \<open>a\<close> is compensated by \<open>undo\<close>.\<close>

definition ex_orch :: "(string \<Rightarrow> bool) \<Rightarrow> (unit, unit, unit) orch_env" where
  "ex_orch good =
     \<lparr>oe_semver = star_semver, oe_version_error = (\<lambda>_. ''''),
      oe_registry = [(AgentId ''d'', \<lparr>re_agent_id = AgentId ''d'', re_capabilities =
        [\<lparr>cap_name = ''a'', cap_version = version_new 1 0 0, cap_description = None, cap_schema = None,
          cap_compensating = Some \<lparr>comp_name = ''undo'', comp_version_req = None\<rparr>, cap_irreversible = False\<rparr>]\<rparr>)],
      oe_dispatch = (\<lambda>_ cap _ _ _ d. (Ok (JObj [(''success'', JBool (good cap))]), d)),
      oe_graph = None, oe_memory = None\<rparr>"

definition ex_step :: "string \<Rightarrow> string \<Rightarrow> string list \<Rightarrow> 'st \<Rightarrow> nat \<Rightarrow> 'st step_rec" where
  "ex_step i cap deps status k =
     \<lparr>st_id = i, st_plan_id = ''p'', st_step_index = word_of_nat k, st_capability_name = cap, st_capability_version = ''*'',
      st_target_ref = Some ''target://edge'', st_credential_ref = None, st_params = JObj [], st_depends_on = deps,
      st_compensating_step_id = None, st_status = status, st_result = None, st_started_at = None, st_finished_at = None\<rparr>"

definition ex_tables :: "string \<Rightarrow> orch_tables" where
  "ex_tables status =
     \<lparr>ot_plans = [\<lparr>pl_id = ''p'', pl_created_by = None, pl_intent = ''x'', pl_status = ''planning'', pl_metadata = JObj [],
        pl_created_at = 0, pl_updated_at = 0, pl_started_at = None, pl_finished_at = None\<rparr>],
      ot_steps = [ex_step ''1'' ''a'' [] status 0, ex_step ''2'' ''b'' [''1''] status 1]\<rparr>"

definition ex_orch_world :: "'d \<Rightarrow> orch_tables db \<Rightarrow> ('d, unit, unit) orch_world" where
  "ex_orch_world d db = \<lparr>ow_db = db, ow_clock = id, ow_ticks = 0, ow_disp = d, ow_graph = (), ow_memory = ()\<rparr>"

definition ex_steps :: "step list" where
  "ex_steps = [ex_step ''1'' ''a'' [] StPending 0, ex_step ''2'' ''b'' [''1''] StPending 1]"

lemma ex_dispatch_step:
  "dispatch_step (ex_orch good) (ex_step i cap deps st k) w =
     ((if good cap then Ok (JObj [(''success'', JBool True)])
       else Err (OeDispatch (''step '' @ i @ '' capability `'' @ cap @ ''` failed: capability reported failure''))), w)"
  by (simp add: dispatch_step_def bindE_def liftE_def ok_or_def ex_orch_def star_semver_def ex_step_def call_dispatcher_def
      check_reply_def j_get_str_def)

lemma ex_world_nofault [simp]: "db_faults (ow_db (ex_orch_world d (db_of t))) = []" "ow_tables (ex_orch_world d (db_of t)) = t"
  by (simp_all add: ex_orch_world_def db_of_def)

lemma ex_steps_of: "steps_of ''p'' (ex_tables ''pending'') = ex_steps"
  by (simp add: steps_of_def ex_tables_def ex_step_def row_to_step_def ex_steps_def step_status_from_str_def)

lemma ex_run_loop:
  assumes "db_faults (ow_db w) = []"
  shows "\<exists>ss' order failed w'. run_loop (ex_orch good) ex_steps [] [] w = (Ok (ss', order, failed), w')"
proof -
  obtain r w' where r: "run_loop (ex_orch good) ex_steps [] [] w = (r, w')" by fastforce
  have "\<exists>x. r = Ok x" using run_loop_total [OF r assms] .
  with r show ?thesis by (metis prod.collapse)
qed

theorem run_respects_dependencies_witness:
  "\<exists>ss' order failed w'. run_loop (ex_orch (\<lambda>_. True)) ex_steps [] [] (ex_orch_world () (db_of (ex_tables ''pending''))) =
     (Ok (ss', order, failed), w') \<and> distinct order"
proof -
  obtain ss' order failed w' where r: "run_loop (ex_orch (\<lambda>_. True)) ex_steps [] []
      (ex_orch_world () (db_of (ex_tables ''pending''))) = (Ok (ss', order, failed), w')"
    using ex_run_loop [of "ex_orch_world () (db_of (ex_tables ''pending''))" "\<lambda>_. True", OF ex_world_nofault(1)] by blast
  with run_respects_dependencies [OF r] show ?thesis by blast
qed

theorem run_completes_witness:
  "\<exists>ss' w'. run_steps (ex_orch (\<lambda>_. True)) ex_steps (ex_orch_world () (db_of (ex_tables ''pending''))) =
     (Ok (ss', PlSucceeded), w') \<and> length ss' = 2"
proof -
  have "\<exists>ss' w'. run_steps (ex_orch (\<lambda>_. True)) ex_steps (ex_orch_world () (db_of (ex_tables ''pending''))) =
     (Ok (ss', PlSucceeded), w') \<and> length ss' = length ex_steps \<and> (\<forall>s \<in> set ss'. st_status s = StSucceeded)"
    by (rule run_completes [where rank = "\<lambda>s. if st_id s = ''1'' then 0 else 1"])
      (auto simp: ex_steps_def ex_dispatch_step ex_orch_world_def db_of_def, auto simp: ex_step_def)
  then show ?thesis by (auto simp: ex_steps_def)
qed


lemma compensate_all_nofault:
  assumes "db_faults (ow_db w) = []"
  shows "db_faults (ow_db (snd (compensate_all oe is ss w))) = [] \<and>
    ot_plans (ow_tables (snd (compensate_all oe is ss w))) = ot_plans (ow_tables w)"
  using assms
proof (induction "is" arbitrary: ss w)
  case (Cons i "is")
  obtain r w1 where r: "compensate_step oe (ss ! i) w = (r, w1)" by fastforce
  obtain x w2 where x: "dispatch_compensator oe (ss ! i) w = (x, w2)" by fastforce
  have f2: "ow_db w2 = ow_db w" using dispatch_compensator_db [OF x] .
  have "db_faults (ow_db w1) = [] \<and> ot_plans (ow_tables w1) = ot_plans (ow_tables w)"
  proof (cases "\<exists>reply. x = Ok (Some reply)")
    case True
    then obtain reply where reply: "x = Ok (Some reply)" by blast
    obtain w3 where w3: "set_step_status (st_id (ss ! i)) StCompensated (Some reply) False w2 = (Ok (), w3)" "db_faults (ow_db w3) = []"
      using set_step_status_nofault [of w2 "st_id (ss ! i)" StCompensated "Some reply" False] f2 Cons.prems by auto
    then have "w1 = w3" using r x reply by (simp add: compensate_step_def bindE_def retE_def)
    then show ?thesis using w3 set_step_status_keys(2) [OF w3(1)] f2 by simp
  next
    case False
    then have "w1 = w2"
      using r x by (auto simp: compensate_step_def bindE_def retE_def split: result.splits option.splits)
    then show ?thesis using f2 Cons.prems by simp
  qed
  then show ?case using Cons.IH [of w1] compensate_all_step [OF r] by simp
qed simp

text \<open>Without database faults every run of an existing plan returns a status.\<close>

lemma update_plan_ids: "(\<And>r. pl_id (f r) = pl_id r) \<Longrightarrow> pl_id ` set (ot_plans (update_plan i f t)) = pl_id ` set (ot_plans t)"
proof -
  assume "\<And>r. pl_id (f r) = pl_id r"
  then have "map pl_id (ot_plans (update_plan i f t)) = map pl_id (ot_plans t)" by (simp add: update_plan_def)
  then show ?thesis by (metis list.set_map)
qed

lemma mark_executing_nofault:
  assumes "db_faults (ow_db w) = []"
  shows "\<exists>w1. mark_executing i w = (Ok (), w1) \<and> db_faults (ow_db w1) = [] \<and>
    pl_id ` set (ot_plans (ow_tables w1)) = pl_id ` set (ot_plans (ow_tables w)) \<and> ot_steps (ow_tables w1) = ot_steps (ow_tables w)"
  using assms by (simp add: mark_executing_def ostmt_nofault update_plan_ids) (simp add: update_plan_def)

lemma run_plan_total:
  assumes "db_faults (ow_db w) = []" "i \<in> pl_id ` set (ot_plans (ow_tables w))"
    and "distinct (map st_id (ot_steps (ow_tables w)))"
    and "\<forall>r \<in> set (ot_steps (ow_tables w)). st_status r \<in> range step_status_as_str"
  shows "\<exists>status w'. run_plan oe i actor w = (Ok status, w')"
proof -
  obtain w1 where a: "mark_executing i w = (Ok (), w1)" "db_faults (ow_db w1) = []"
    "pl_id ` set (ot_plans (ow_tables w1)) = pl_id ` set (ot_plans (ow_tables w))" "ot_steps (ow_tables w1) = ot_steps (ow_tables w)"
    using mark_executing_nofault [OF assms(1)] by blast
  obtain w2 where b: "list_steps i w1 = (Ok (steps_of i (ow_tables w1)), w2)" "db_faults (ow_db w2) = []" "ow_tables w2 = ow_tables w1"
    using a(2) by (simp add: list_steps_def ostmt_nofault)
  have fin: "\<exists>v'. finish_plan oe i st v = (Ok (), v')"
    if v: "db_faults (ow_db v) = []" "i \<in> pl_id ` set (ot_plans (ow_tables v))" for v st
  proof -
    obtain r where "find (\<lambda>r. pl_id r = i) (ot_plans (ow_tables v)) = Some r"
      using v(2) by (cases "find (\<lambda>r. pl_id r = i) (ot_plans (ow_tables v))") (auto simp: find_None_iff)
    then show ?thesis using v(1) by (simp add: finish_plan_def bindE_def ostmt_nofault liftE_def ok_or_def modifyE_def)
  qed
  let ?ss = "steps_of i (ow_tables w1)"
  have i2: "i \<in> pl_id ` set (ot_plans (ow_tables w2))" using a(3) b(3) assms(2) by simp
  have run: "\<exists>ss' st w3. run_steps oe ?ss w2 = (Ok (ss', st), w3) \<and> db_faults (ow_db w3) = [] \<and>
      ot_plans (ow_tables w3) = ot_plans (ow_tables w2)"
  proof -
    obtain r w3 where r: "run_loop oe ?ss [] [] w2 = (r, w3)" by fastforce
    then obtain ss1 order failed where ok: "r = Ok (ss1, order, failed)"
      using run_loop_total [OF r b(2)] by (metis prod.collapse)
    have m: "rows_match (ow_tables w2) ?ss" "distinct (map st_id ?ss)"
      using steps_of_match [of "ow_tables w2" i] assms(3,4) a(4) b(3) by auto
    have "ot_plans (ow_tables w3) = ot_plans (ow_tables w2)" using run_loop_match [OF r [unfolded ok] m] by simp
    moreover have "db_faults (ow_db w3) = []" using run_loop_faults [OF r b(2)] .
    ultimately show ?thesis
      using r ok compensate_all_nofault [of w3 oe "rev order" ss1]
      by (cases failed; cases "compensate_all oe (rev order) ss1 w3") (simp_all add: run_steps_def)
  qed
  show ?thesis
  proof (cases "?ss = []")
    case True
    obtain v where "finish_plan oe i PlSucceeded w2 = (Ok (), v)" using fin [OF b(2) i2] by blast
    then show ?thesis using a b True by (simp add: run_plan_def bindE_def retE_def)
  next
    case False
    obtain ss' st w3 where s: "run_steps oe ?ss w2 = (Ok (ss', st), w3)" "db_faults (ow_db w3) = []"
      "ot_plans (ow_tables w3) = ot_plans (ow_tables w2)" using run by blast
    obtain v where "finish_plan oe i st w3 = (Ok (), v)" using fin [OF s(2)] i2 s(3) by auto
    then show ?thesis using a b s(1) False by (simp add: run_plan_def bindE_def retE_def)
  qed
qed

lemma ex_tables_rows:
  "distinct (map st_id (ot_steps (ex_tables ''pending'')))"
  "\<forall>r \<in> set (ot_steps (ex_tables ''pending'')). st_status r \<in> range step_status_as_str"
  "''p'' \<in> pl_id ` set (ot_plans (ex_tables ''pending''))"
  by (auto simp: ex_tables_def ex_step_def intro!: rev_image_eqI [of StPending])

theorem run_plan_persisted_witness:
  "\<exists>status w'. run_plan (ex_orch (\<lambda>_. True)) ''p'' ''u'' (ex_orch_world () (db_of (ex_tables ''pending''))) = (Ok status, w') \<and>
     status \<in> {PlSucceeded, PlFailed}"
proof -
  let ?w = "ex_orch_world () (db_of (ex_tables ''pending''))"
  obtain status w' where r: "run_plan (ex_orch (\<lambda>_. True)) ''p'' ''u'' ?w = (Ok status, w')"
    using run_plan_total [of ?w "''p''" "ex_orch (\<lambda>_. True)" "''u''"] ex_tables_rows by auto
  show ?thesis using run_plan_persisted [OF r] ex_tables_rows r by auto
qed

lemma ex_traced_step:
  "dispatch_step (traced (ex_orch good)) (ex_step i cap deps st k) w =
     ((if good cap then Ok (JObj [(''success'', JBool True)])
       else Err (OeDispatch (''step '' @ i @ '' capability `'' @ cap @ ''` failed: capability reported failure''))),
      w\<lparr>ow_disp := (fst (ow_disp w), ow_log w @ [(''orchestrator:p:'' @ i, cap)])\<rparr>)"
  by (cases "ow_disp w") (simp add: dispatch_step_def bindE_def liftE_def ok_or_def ex_orch_def star_semver_def ex_step_def call_dispatcher_def
      check_reply_def j_get_str_def traced_def agent_id_new_def)

lemma run_loop_goes:
  assumes "position (runnable fin) ss = Some i" "db_faults (ow_db w) = []"
    and "\<And>v. \<exists>v'. dispatch_step oe (ss ! i) v = (Ok result, v')"
  shows "\<exists>w'. db_faults (ow_db w') = [] \<and> run_loop oe ss fin order w =
    run_loop oe (ss[i := (ss ! i)\<lparr>st_status := StSucceeded, st_result := Some result\<rparr>]) (st_id (ss ! i) # fin) (order @ [i]) w'"
proof -
  obtain w1 where w1: "set_step_status (st_id (ss ! i)) StRunning None True w = (Ok (), w1)" "db_faults (ow_db w1) = []"
    using set_step_status_nofault [OF assms(2)] by blast
  obtain w2 where w2: "dispatch_step oe (ss ! i) w1 = (Ok result, w2)" using assms(3) by blast
  then have "db_faults (ow_db w2) = []" using dispatch_step_db w1(2) by metis
  then obtain w3 where "set_step_status (st_id (ss ! i)) StSucceeded (Some result) False w2 = (Ok (), w3)" "db_faults (ow_db w3) = []"
    using set_step_status_nofault by blast
  with assms(1) w1 w2 show ?thesis by (subst run_loop.simps) (auto intro!: exI [of _ w3])
qed

lemma run_loop_fails:
  assumes "position (runnable fin) ss = Some i" "db_faults (ow_db w) = []"
    and "\<And>v. \<exists>v'. dispatch_step oe (ss ! i) v = (Err e, v')"
  shows "\<exists>w'. db_faults (ow_db w') = [] \<and> run_loop oe ss fin order w = (Ok (ss[i := (ss ! i)\<lparr>st_status := StFailed\<rparr>], order, True), w')"
proof -
  obtain w1 where w1: "set_step_status (st_id (ss ! i)) StRunning None True w = (Ok (), w1)" "db_faults (ow_db w1) = []"
    using set_step_status_nofault [OF assms(2)] by blast
  obtain w2 where w2: "dispatch_step oe (ss ! i) w1 = (Err e, w2)" using assms(3) by blast
  then have "db_faults (ow_db w2) = []" using dispatch_step_db w1(2) by metis
  then obtain w3 where "set_step_status (st_id (ss ! i)) StFailed (Some (j_obj [(''error'', JStr (show_orch_error e))])) False w2 = (Ok (), w3)" 
    "db_faults (ow_db w3) = []"
    using set_step_status_nofault by blast
  with assms(1) w1 w2 show ?thesis by (subst run_loop.simps) auto
qed

text \<open>The second step of the small plan fails; the first is compensated.\<close>

lemma ex_run_failed:
  assumes "db_faults (ow_db w) = []"
  shows "\<exists>ss' w'. run_steps (traced (ex_orch (\<lambda>c. c \<noteq> ''b''))) ex_steps w = (Ok (ss', PlFailed), w')"
proof -
  let ?oe = "traced (ex_orch (\<lambda>c. c \<noteq> ''b''))"
  let ?r = "JObj [(''success'', JBool True)]"
  let ?ss = "ex_steps[0 := (ex_steps ! 0)\<lparr>st_status := StSucceeded, st_result := Some ?r\<rparr>]"
  have s: "ex_steps ! 0 = ex_step ''1'' ''a'' [] StPending 0" "?ss ! 1 = ex_step ''2'' ''b'' [''1''] StPending 1" by (simp_all add: ex_steps_def)
  have p: "position (runnable []) ex_steps = Some 0" "position (runnable [''1'']) ?ss = Some 1"
    by (simp_all add: ex_steps_def ex_step_def runnable_def)
  obtain w1 where w1: "db_faults (ow_db w1) = []" "run_loop ?oe ex_steps [] [] w = run_loop ?oe ?ss [''1''] [0] w1"
    using run_loop_goes [OF p(1) assms, of ?oe ?r "[]"] by (auto simp: s ex_traced_step) (auto simp: ex_step_def)
  obtain ss2 w2 where "run_loop ?oe ?ss [''1''] [0] w1 = (Ok (ss2, [0], True), w2)"
    using run_loop_fails [OF p(2) w1(1), of ?oe _ "[0]"] unfolding s(2) ex_traced_step by simp blast
  with w1(2) show ?thesis
    by (cases "compensate_all ?oe [0] ss2 w2") (simp add: run_steps_def)
qed

theorem saga_reverse_order_witness:
  "\<exists>ss' w'. run_steps (traced (ex_orch (\<lambda>c. c \<noteq> ''b''))) ex_steps (ex_orch_world ((), []) (db_of (ex_tables ''pending''))) =
     (Ok (ss', PlFailed), w') \<and>
   (\<exists>order tail. distinct order \<and> length tail \<le> 1 \<and> ow_log w' =
      concat (map (\<lambda>i. step_call (ex_orch (\<lambda>c. c \<noteq> ''b'')) (ex_steps ! i)) order) @ tail @
      concat (map (\<lambda>i. comp_call (ex_orch (\<lambda>c. c \<noteq> ''b'')) (ex_steps ! i)) (rev order)))"
proof -
  let ?w = "ex_orch_world ((), []) (db_of (ex_tables ''pending''))"
  obtain ss' w' where r: "run_steps (traced (ex_orch (\<lambda>c. c \<noteq> ''b''))) ex_steps ?w = (Ok (ss', PlFailed), w')"
    using ex_run_failed [OF ex_world_nofault(1)] by blast
  have l: "ow_log ?w = []" by (simp add: ex_orch_world_def)
  show ?thesis using saga_reverse_order [OF r] r unfolding l append_Nil by blast
qed

definition ex_defs :: "step_def list" where
  "ex_defs = [\<lparr>sd_capability_name = ''a'', sd_capability_version = ''*'', sd_target_ref = Some ''target://edge'',
      sd_credential_ref = None, sd_params = JObj [], sd_depends_on_index = []\<rparr>,
     \<lparr>sd_capability_name = ''b'', sd_capability_version = ''*'', sd_target_ref = Some ''target://edge'',
      sd_credential_ref = None, sd_params = JObj [], sd_depends_on_index = [0, 7]\<rparr>]"

lemma create_plan_atomic_example:
  "\<exists>w'. create_plan (ex_orch (\<lambda>_. True)) ''q'' [''1'', ''2''] None ''x'' ex_defs
      (ex_orch_world () \<lparr>db_tables = ex_tables ''pending'', db_faults = [None, None, Some (PgFault ''lost'')]\<rparr>) =
      (Err (OePg ''lost''), w') \<and> ow_tables w' = ex_tables ''pending''"
proof -
  let ?w = "ex_orch_world () \<lparr>db_tables = ex_tables ''pending'', db_faults = [None, None, Some (PgFault ''lost'')]\<rparr>"
  obtain w' where r: "create_plan (ex_orch (\<lambda>_. True)) ''q'' [''1'', ''2''] None ''x'' ex_defs ?w = (Err (OePg ''lost''), w')"
    by (simp add: create_plan_def otxn_def bindE_def insert_plan_def ostmt_def db_stmt_def ex_orch_world_def ex_defs_def Let_def)
  show ?thesis using create_plan_atomic [OF r] r by (simp add: ex_orch_world_def)
qed

lemma create_plan_steps_example:
  "\<exists>p w'. create_plan (ex_orch (\<lambda>_. True)) ''q'' [''1'', ''2''] None ''x'' ex_defs (ex_orch_world () (db_of (ex_tables ''pending''))) =
      (Ok p, w') \<and> map st_depends_on (steps_of ''q'' (ow_tables w')) = [[], [''1'']]"
proof -
  have "\<exists>p w'. create_plan (ex_orch (\<lambda>_. True)) ''q'' [''1'', ''2''] None ''x'' ex_defs (ex_orch_world () (db_of (ex_tables ''pending''))) =
      (Ok p, w') \<and> pl_id p = ''q'' \<and> steps_of ''q'' (ow_tables w') = map (\<lambda>(j, d). row_to_step (step_row_of ''q'' [''1'', ''2''] j d)) (enumerate 0 ex_defs)"
    by (rule create_plan_steps) (auto simp: ex_defs_def ex_tables_def ex_step_def)
  then show ?thesis by (auto simp: ex_defs_def row_to_step_def step_row_of_def resolve_deps_def)
qed

text \<open>A compensator whose reply reports \<open>success: false\<close> is booked as done: the forward
  dispatch turns such a reply into an error, the compensation pass writes \<open>compensated\<close>.\<close>

lemma failed_compensation_booked:
  "\<exists>w'. compensate_step (ex_orch (\<lambda>c. c \<noteq> ''undo'')) (ex_step ''1'' ''a'' [] StSucceeded 0)
      (ex_orch_world () (db_of (ex_tables ''succeeded''))) = (Ok True, w') \<and>
    map st_status (ot_steps (ow_tables w')) = [''compensated'', ''succeeded''] \<and>
    map st_result (ot_steps (ow_tables w')) = [Some (JObj [(''success'', JBool False)]), None]"
proof -
  let ?oe = "ex_orch (\<lambda>c. c \<noteq> ''undo'')"
  have c: "compensator_for (oe_semver ?oe) (oe_registry ?oe) ''a'' = Some \<lparr>comp_name = ''undo'', comp_version_req = None\<rparr>"
    by (simp add: compensator_for_def ex_orch_def star_semver_def require_by_capability_def find_by_capability_def registry_all_def
        provides_def version_new_def)
  have d: "dispatch_compensator ?oe (ex_step ''1'' ''a'' [] StSucceeded 0) w = (Ok (Some (JObj [(''success'', JBool False)])), w)" for w
    by (simp add: dispatch_compensator_def ex_step_def c bindE_def liftE_def ok_or_def retE_def call_dispatcher_def)
      (simp add: ex_orch_def retE_def)
  show ?thesis
    by (simp add: compensate_step_def d bindE_def retE_def set_step_status_def ostmt_nofault)
      (simp add: ex_tables_def ex_step_def update_step_def mark_step_def)
qed

text \<open>Running a plan again whose steps all failed reports success: no step is pending, so the loop
  ends at once with nothing unfinished; no dispatch is made and the steps stay failed.\<close>

lemma rerun_of_failed_plan_succeeds:
  "\<exists>w'. run_plan (ex_orch (\<lambda>_. False)) ''p'' ''u'' (ex_orch_world () (db_of (ex_tables ''failed''))) = (Ok PlSucceeded, w') \<and>
    map pl_status (ot_plans (ow_tables w')) = [''succeeded''] \<and> map st_status (ot_steps (ow_tables w')) = [''failed'', ''failed'']"
proof -
  let ?w = "ex_orch_world () (db_of (ex_tables ''failed''))"
  let ?ss = "[ex_step ''1'' ''a'' [] StFailed 0, ex_step ''2'' ''b'' [''1''] StFailed 1]"
  obtain w1 where w1: "mark_executing ''p'' ?w = (Ok (), w1)" "db_faults (ow_db w1) = []" "ot_steps (ow_tables w1) = ot_steps (ow_tables ?w)"
    "map pl_id (ot_plans (ow_tables w1)) = [''p'']"
    by (simp add: mark_executing_def ostmt_nofault) (simp add: update_plan_def ex_tables_def)
  obtain w2 where w2: "list_steps ''p'' w1 = (Ok ?ss, w2)" "db_faults (ow_db w2) = []" "ow_tables w2 = ow_tables w1"
    using w1(2,3) by (simp add: list_steps_def ostmt_nofault steps_of_def ex_tables_def ex_step_def row_to_step_def step_status_from_str_def)
  have run: "run_steps (ex_orch (\<lambda>_. False)) ?ss w2 = (Ok (?ss, PlSucceeded), w2)"
    by (simp add: run_steps_def run_loop.simps runnable_def ex_step_def unfinished_def)
  obtain w3 where w3: "finish_plan (ex_orch (\<lambda>_. False)) ''p'' PlSucceeded w2 = (Ok (), w3)" 
    "map pl_status (ot_plans (ow_tables w3)) = [''succeeded'']" "ot_steps (ow_tables w3) = ot_steps (ow_tables w2)"
    using w1(4) w2(2,3) by (auto simp: finish_plan_def bindE_def ostmt_nofault liftE_def ok_or_def modifyE_def capture_record_def ex_orch_def update_plan_def map_eq_Cons_conv)
  have "run_plan (ex_orch (\<lambda>_. False)) ''p'' ''u'' ?w = (Ok PlSucceeded, w3)"
    by (simp add: run_plan_def bindE_def w1(1) w2(1) run [simplified] w3(1) retE_def)
  then show ?thesis using w3 w2(3) w1(3) by (simp add: ex_tables_def ex_step_def)
qed

end
