(* ===== verification/Iam.thy ===== *)
theory Iam
  imports BrokerAdmin "HOL-Library.Product_Lexorder" "HOL-Library.Countable"
begin

text \<open>
  Accounts and access (\<open>daimon-app\<close>): the tables behind the operator accounts (\<open>db.rs\<close>), passwords
  and tokens (\<open>auth.rs\<close>), the checks every server function starts with (\<open>auth_guard.rs\<close>), the
  login (\<open>pages/login.rs\<close>) and the account administration (\<open>iam.rs\<close>).

  The JWT and bcrypt libraries are parameters; ids, salts, session secrets and clock readings
  are arguments. A database function takes a connection and runs its statements: a pool fault
  is reported as \<open>pg client\<close>, a failed statement by its own context. The text of an error the
  functions put behind their own name is the outermost context, as \<open>anyhow\<close> prints it.
\<close>

section \<open>Tables\<close>

record user_row =
  us_id :: uuid
  us_username :: string
  us_email :: "string option"
  us_password_hash :: string
  us_status :: string
  us_last_login_at :: "millis option"

record role_row =
  ro_id :: uuid
  ro_slug :: string
  ro_is_system :: bool

record session_row =
  se_id :: string
  se_user_id :: uuid
  se_expires_at :: millis

record identity_row =
  gi_id :: uuid
  gi_channel :: string
  gi_platform_handle :: string
  gi_user_id :: uuid
  gi_enrolled_at :: millis
  gi_enrolled_by :: "uuid option"

record delivery_row =
  ad_alert_class :: string
  ad_severity :: "string option"
  ad_signature :: string
  ad_channel :: string
  ad_recipient :: string
  ad_status :: string
  ad_detail :: "string option"
  ad_provider_message_id :: "string option"
  ad_created_at :: millis

record iam_tables =
  it_users :: "user_row list"
  it_roles :: "role_row list"
  it_grants :: "(uuid \<times> uuid) list"
  it_sessions :: "session_row list"
  it_identities :: "identity_row list"
  it_deliveries :: "delivery_row list"

section \<open>Statements\<close>

fun iam_fault :: "string \<Rightarrow> db_fault \<Rightarrow> string" where
  "iam_fault ctx (PoolFault e) = ''pg client''"
| "iam_fault ctx (PgFault e) = ctx"

definition iam_stmt :: "string \<Rightarrow> (iam_tables \<Rightarrow> 'x \<times> iam_tables) \<Rightarrow> (iam_tables db, 'x, string) eff" where
  "iam_stmt ctx f = mapE (iam_fault ctx) (db_stmt f)"

text \<open>A statement a constraint may refuse (\<open>None\<close>).\<close>

definition iam_try :: "string \<Rightarrow> (iam_tables \<Rightarrow> ('x \<times> iam_tables) option) \<Rightarrow> (iam_tables db, 'x, string) eff" where
  "iam_try ctx f =
     bindE (iam_stmt ctx (\<lambda>t. case f t of Some (x, t') \<Rightarrow> (Some x, t') | None \<Rightarrow> (None, t))) (\<lambda>r. liftE (ok_or r ctx))"

definition iam_txn :: "(iam_tables db, 'x, string) eff \<Rightarrow> (iam_tables db, 'x, string) eff" where
  "iam_txn body d =
     (case body d of
        (Ok x, d') \<Rightarrow> (Ok x, d')
      | (Err e, d') \<Rightarrow> (Err e, d'\<lparr>db_tables := db_tables d\<rparr>))"

section \<open>Users and roles\<close>

record user_info =
  ui_id :: uuid
  ui_username :: string
  ui_password_hash :: string
  ui_status :: string
  ui_roles :: "string list"

text \<open>The roles of a user, system roles first.\<close>

definition user_roles :: "iam_tables \<Rightarrow> uuid \<Rightarrow> string list" where
  "user_roles t u =
     map ro_slug (sort_key (\<lambda>r. (\<not> ro_is_system r, ro_slug r)) (filter (\<lambda>r. (u, ro_id r) \<in> set (it_grants t)) (it_roles t)))"

definition find_user :: "string \<Rightarrow> (iam_tables db, user_info option, string) eff" where
  "find_user username =
     iam_stmt ''find_user'' (\<lambda>t.
       (map_option (\<lambda>u. \<lparr>ui_id = us_id u, ui_username = us_username u, ui_password_hash = us_password_hash u,
                         ui_status = us_status u, ui_roles = user_roles t (us_id u)\<rparr>)
          (find (\<lambda>u. us_username u = username) (it_users t)), t))"

text \<open>The grant of a slug: nothing for an unknown slug, nothing twice, and a foreign key on the user.\<close>

definition grant_slug :: "uuid \<Rightarrow> string \<Rightarrow> iam_tables \<Rightarrow> (unit \<times> iam_tables) option" where
  "grant_slug u slug t =
     (let new = filter (\<lambda>g. g \<notin> set (it_grants t)) (map (\<lambda>r. (u, ro_id r)) (filter (\<lambda>r. ro_slug r = slug) (it_roles t)))
      in if new \<noteq> [] \<and> u \<notin> us_id ` set (it_users t) then None
         else Some ((), t\<lparr>it_grants := it_grants t @ new\<rparr>))"

fun grant_all :: "string \<Rightarrow> uuid \<Rightarrow> string list \<Rightarrow> (iam_tables db, unit, string) eff" where
  "grant_all username u [] = retE ()"
| "grant_all username u (slug # slugs) =
     bindE (iam_try (''grant '' @ slug @ '' to '' @ username) (grant_slug u slug)) (\<lambda>_. grant_all username u slugs)"

definition db_create_user :: "uuid \<Rightarrow> string \<Rightarrow> string \<Rightarrow> string list \<Rightarrow> (iam_tables db, uuid, string) eff" where
  "db_create_user u username password_hash roles =
     bindE (iam_try (''create user '' @ username) (\<lambda>t.
       if username \<in> us_username ` set (it_users t) then None
       else Some (u, t\<lparr>it_users := it_users t @ [\<lparr>us_id = u, us_username = username, us_email = None,
              us_password_hash = password_hash, us_status = ''active'', us_last_login_at = None\<rparr>]\<rparr>))) (\<lambda>user_id.
     bindE (grant_all username user_id roles) (\<lambda>_. retE user_id))"

record user_list_row =
  ul_id :: uuid
  ul_username :: string
  ul_email :: "string option"
  ul_status :: string
  ul_roles :: "string list"
  ul_last_login_at :: "string option"

definition db_list_users :: "(millis \<Rightarrow> string) \<Rightarrow> (iam_tables db, user_list_row list, string) eff" where
  "db_list_users rfc3339 =
     iam_stmt ''list_users'' (\<lambda>t.
       (map (\<lambda>u. \<lparr>ul_id = us_id u, ul_username = us_username u, ul_email = us_email u, ul_status = us_status u,
                  ul_roles = user_roles t (us_id u), ul_last_login_at = map_option rfc3339 (us_last_login_at u)\<rparr>)
          (sort_key us_username (it_users t)), t))"

definition STATUSES :: "string list" where
  "STATUSES = [''active'', ''disabled'', ''locked'']"

definition update_user :: "uuid \<Rightarrow> (user_row \<Rightarrow> user_row) \<Rightarrow> iam_tables \<Rightarrow> iam_tables" where
  "update_user u f t = t\<lparr>it_users := map (\<lambda>r. if us_id r = u then f r else r) (it_users t)\<rparr>"

definition db_set_user_status :: "uuid \<Rightarrow> string \<Rightarrow> (iam_tables db, unit, string) eff" where
  "db_set_user_status u status =
     iam_txn
       (bindE (iam_stmt ''begin tx'' (\<lambda>t. ((), t))) (\<lambda>_.
        bindE (iam_try ''update status'' (\<lambda>t.
          if u \<in> us_id ` set (it_users t) \<and> status \<notin> set STATUSES then None
          else Some ((), update_user u (\<lambda>r. r\<lparr>us_status := status\<rparr>) t))) (\<lambda>_.
        bindE (iam_stmt ''revoke sessions'' (\<lambda>t.
          ((), t\<lparr>it_sessions := filter (\<lambda>s. se_user_id s \<noteq> u) (it_sessions t)\<rparr>))) (\<lambda>_.
        iam_stmt ''commit set_user_status'' (\<lambda>t. ((), t))))))"

definition db_assign_role :: "uuid \<Rightarrow> string \<Rightarrow> (iam_tables db, unit, string) eff" where
  "db_assign_role u slug = iam_try (''assign_role '' @ slug) (grant_slug u slug)"

definition revoke_slug :: "uuid \<Rightarrow> string \<Rightarrow> iam_tables \<Rightarrow> iam_tables" where
  "revoke_slug u slug t =
     t\<lparr>it_grants := filter (\<lambda>(v, r). \<not> (v = u \<and> list_ex (\<lambda>ro. ro_id ro = r \<and> ro_slug ro = slug) (it_roles t))) (it_grants t)\<rparr>"

definition db_revoke_role :: "uuid \<Rightarrow> string \<Rightarrow> (iam_tables db, unit, string) eff" where
  "db_revoke_role u slug = iam_stmt (''revoke_role '' @ slug) (\<lambda>t. ((), revoke_slug u slug t))"

definition admin_rows :: "iam_tables \<Rightarrow> uuid \<Rightarrow> (user_row \<times> role_row) list" where
  "admin_rows t u =
     filter (\<lambda>(us, ro). (us_id us, ro_id ro) \<in> set (it_grants t) \<and> ro_slug ro = ''admin'' \<and> us_status us = ''active'' \<and> us_id us \<noteq> u)
       (List.product (it_users t) (it_roles t))"

definition enabled_admin_count_excluding :: "uuid \<Rightarrow> (iam_tables db, nat, string) eff" where
  "enabled_admin_count_excluding u = iam_stmt ''enabled_admin_count_excluding'' (\<lambda>t. (length (admin_rows t u), t))"

section \<open>Channel identities and deliveries\<close>

record gateway_actor =
  ga_user_id :: uuid
  ga_username :: string
  ga_roles :: "string list"

definition bound_actor :: "iam_tables \<Rightarrow> string \<Rightarrow> string \<Rightarrow> gateway_actor option" where
  "bound_actor t channel handle =
     map_option (\<lambda>(gi, u). \<lparr>ga_user_id = us_id u, ga_username = us_username u, ga_roles = user_roles t (us_id u)\<rparr>)
       (find (\<lambda>(gi, u). us_id u = gi_user_id gi \<and> gi_channel gi = channel \<and> gi_platform_handle gi = handle \<and>
                us_status u = ''active'')
          (List.product (it_identities t) (it_users t)))"

definition resolve_gateway_identity :: "string \<Rightarrow> string \<Rightarrow> (iam_tables db, gateway_actor option, string) eff" where
  "resolve_gateway_identity channel handle = iam_stmt ''resolve_gateway_identity'' (\<lambda>t. (bound_actor t channel handle, t))"

text \<open>\<open>uuid_parse\<close> is \<open>Uuid::parse_str\<close> followed by the canonical rendering.\<close>

definition replied_approval :: "(string \<Rightarrow> uuid option) \<Rightarrow> iam_tables \<Rightarrow> string \<Rightarrow> string \<Rightarrow> uuid option" where
  "replied_approval uuid_parse t channel msg_id =
     (case sort_key (\<lambda>d. - int (ad_created_at d))
             (filter (\<lambda>d. ad_channel d = channel \<and> ad_provider_message_id d = Some msg_id \<and> ad_alert_class d = ''approval'')
                (it_deliveries t)) of
        d # _ \<Rightarrow> uuid_parse (ad_signature d)
      | [] \<Rightarrow> None)"

definition resolve_approval_by_reply ::
  "(string \<Rightarrow> uuid option) \<Rightarrow> string \<Rightarrow> string \<Rightarrow> (iam_tables db, uuid option, string) eff" where
  "resolve_approval_by_reply uuid_parse channel msg_id =
     iam_stmt ''resolve_approval_by_reply'' (\<lambda>t. (replied_approval uuid_parse t channel msg_id, t))"

definition create_gateway_identity ::
  "uuid \<Rightarrow> millis \<Rightarrow> string \<Rightarrow> string \<Rightarrow> uuid \<Rightarrow> uuid option \<Rightarrow> (iam_tables db, uuid, string) eff" where
  "create_gateway_identity i now channel handle u by_user =
     iam_try ''create_gateway_identity'' (\<lambda>t.
       if list_ex (\<lambda>gi. gi_channel gi = channel \<and> gi_platform_handle gi = handle) (it_identities t) \<or>
          u \<notin> us_id ` set (it_users t) \<or> (case by_user of Some b \<Rightarrow> b \<notin> us_id ` set (it_users t) | None \<Rightarrow> False) then None
       else Some (i, t\<lparr>it_identities := it_identities t @ [\<lparr>gi_id = i, gi_channel = channel, gi_platform_handle = handle,
              gi_user_id = u, gi_enrolled_at = now, gi_enrolled_by = by_user\<rparr>]\<rparr>))"

record gateway_identity_row =
  gr_id :: uuid
  gr_channel :: string
  gr_platform_handle :: string
  gr_user_id :: uuid
  gr_username :: string
  gr_enrolled_at :: millis

definition list_gateway_identities :: "(iam_tables db, gateway_identity_row list, string) eff" where
  "list_gateway_identities =
     iam_stmt ''list_gateway_identities'' (\<lambda>t.
       (map (\<lambda>(gi, u). \<lparr>gr_id = gi_id gi, gr_channel = gi_channel gi, gr_platform_handle = gi_platform_handle gi,
                         gr_user_id = gi_user_id gi, gr_username = us_username u, gr_enrolled_at = gi_enrolled_at gi\<rparr>)
          (sort_key (\<lambda>(gi, u). - int (gi_enrolled_at gi))
             (filter (\<lambda>(gi, u). us_id u = gi_user_id gi) (List.product (it_identities t) (it_users t)))), t))"

definition delete_gateway_identity :: "uuid \<Rightarrow> (iam_tables db, unit, string) eff" where
  "delete_gateway_identity i =
     iam_stmt ''delete_gateway_identity'' (\<lambda>t. ((), t\<lparr>it_identities := filter (\<lambda>gi. gi_id gi \<noteq> i) (it_identities t)\<rparr>))"

section \<open>Sessions\<close>

definition insert_session :: "string \<Rightarrow> uuid \<Rightarrow> millis \<Rightarrow> (iam_tables db, unit, string) eff" where
  "insert_session i u expires =
     iam_try (''insert session '' @ i) (\<lambda>t.
       if i \<in> se_id ` set (it_sessions t) \<or> u \<notin> us_id ` set (it_users t) then None
       else Some ((), t\<lparr>it_sessions := it_sessions t @ [\<lparr>se_id = i, se_user_id = u, se_expires_at = expires\<rparr>]\<rparr>))"

definition find_valid_session :: "millis \<Rightarrow> string \<Rightarrow> (iam_tables db, uuid option, string) eff" where
  "find_valid_session now i =
     iam_stmt ''find_valid_session'' (\<lambda>t.
       (map_option se_user_id (find (\<lambda>s. se_id s = i \<and> now < se_expires_at s) (it_sessions t)), t))"

definition delete_session :: "string \<Rightarrow> (iam_tables db, unit, string) eff" where
  "delete_session i =
     iam_stmt (''delete session '' @ i) (\<lambda>t. ((), t\<lparr>it_sessions := filter (\<lambda>s. se_id s \<noteq> i) (it_sessions t)\<rparr>))"

section \<open>Passwords and tokens\<close>

record claims =
  cm_sub :: string
  cm_user_id :: uuid
  cm_role :: string
  cm_roles :: "string list"
  cm_exp :: nat
  cm_session_id :: string

text \<open>The libraries: signing and verifying a token (the expiry is checked against the clock, in
  seconds), hashing a password with a salt and verifying one.\<close>

record crypto =
  jwt_encode :: "string \<Rightarrow> claims \<Rightarrow> string"
  jwt_decode :: "string \<Rightarrow> nat \<Rightarrow> string \<Rightarrow> claims option"
  bcrypt_hash :: "string \<Rightarrow> string \<Rightarrow> string"
  bcrypt_verify :: "string \<Rightarrow> string \<Rightarrow> bool"

text \<open>What is relied on: a token that was signed verifies until it expires, and a token is
  written in the URL-safe alphabet with dots.\<close>

definition jwt_sound :: "crypto \<Rightarrow> bool" where
  "jwt_sound cr \<longleftrightarrow>
     (\<forall>secret c now. now < cm_exp c \<longrightarrow> jwt_decode cr secret now (jwt_encode cr secret c) = Some c) \<and>
     (\<forall>secret c. list_all (\<lambda>x. is_ascii_alphanumeric x \<or> x \<in> set ''-_.'') (jwt_encode cr secret c))"

definition create_jwt :: "crypto \<Rightarrow> string \<Rightarrow> millis \<Rightarrow> string \<Rightarrow> uuid \<Rightarrow> string list \<Rightarrow> string \<Rightarrow> string" where
  "create_jwt cr secret now username u roles session_id =
     jwt_encode cr secret
       \<lparr>cm_sub = username, cm_user_id = u, cm_role = (case roles of r # _ \<Rightarrow> r | [] \<Rightarrow> ''operator''), cm_roles = roles,
        cm_exp = now div 1000 + 86400, cm_session_id = session_id\<rparr>"

definition validate_jwt :: "crypto \<Rightarrow> string \<Rightarrow> millis \<Rightarrow> string \<Rightarrow> claims option" where
  "validate_jwt cr secret now token = jwt_decode cr secret (now div 1000) token"

section \<open>The application\<close>

record ('i, 'v, 't, 'a) app_env =
  app_crypto :: crypto
  app_jwt_secret :: string
  app_broker :: "('i, 'v, 't, 'a) broker"

record ('i, 'v, 't, 'a, 'b) app_world =
  wo_iam :: "iam_tables db"
  wo_broker :: "('i, 'v, 't, 'a, 'b) broker_world"

abbreviation wo_tables :: "('i, 'v, 't, 'a, 'b) app_world \<Rightarrow> iam_tables" where
  "wo_tables w \<equiv> db_tables (wo_iam w)"

definition on_iam :: "(iam_tables db, 'x, string) eff \<Rightarrow> (('i, 'v, 't, 'a, 'b) app_world, 'x, string) eff" where
  "on_iam f w = (case f (wo_iam w) of (r, d) \<Rightarrow> (r, w\<lparr>wo_iam := d\<rparr>))"

text \<open>A database call whose error gets the name of the caller in front.\<close>

definition iam_call :: "string \<Rightarrow> (iam_tables db, 'x, string) eff \<Rightarrow> (('i, 'v, 't, 'a, 'b) app_world, 'x, string) eff" where
  "iam_call name f = mapE (\<lambda>e. name @ '': '' @ e) (on_iam f)"

section \<open>The checks\<close>

fun find_map :: "('x \<Rightarrow> 'y option) \<Rightarrow> 'x list \<Rightarrow> 'y option" where
  "find_map f [] = None"
| "find_map f (x # xs) = (case f x of Some y \<Rightarrow> Some y | None \<Rightarrow> find_map f xs)"

definition cookie_token :: "string \<Rightarrow> string option" where
  "cookie_token cookie = find_map (\<lambda>c. strip_prefix ''daimon_token='' (trim c)) (split_on (CHR '';'') cookie)"

definition authenticate_headers ::
  "('i, 'v, 't, 'a) app_env \<Rightarrow> millis \<Rightarrow> string option \<Rightarrow> ('i, 'v, 't, 'a, 'b) app_world \<Rightarrow>
   claims option \<times> ('i, 'v, 't, 'a, 'b) app_world" where
  "authenticate_headers env now cookie w =
     (case Option.bind (Option.bind cookie cookie_token) (validate_jwt (app_crypto env) (app_jwt_secret env) now) of
        None \<Rightarrow> (None, w)
      | Some cl \<Rightarrow>
          (case on_iam (find_valid_session now (cm_session_id cl)) w of
             (Ok (Some _), w') \<Rightarrow> (Some cl, w')
           | (_, w') \<Rightarrow> (None, w')))"

definition get_current_user ::
  "('i, 'v, 't, 'a) app_env \<Rightarrow> millis \<Rightarrow> string option \<Rightarrow> (('i, 'v, 't, 'a, 'b) app_world, (string \<times> string) option, string) eff" where
  "get_current_user env now cookie =
     (case Option.bind (cookie_token (case cookie of Some c \<Rightarrow> c | None \<Rightarrow> ''''))
             (validate_jwt (app_crypto env) (app_jwt_secret env) now) of
        None \<Rightarrow> retE None
      | Some cl \<Rightarrow>
          bindE (iam_call ''session lookup'' (find_valid_session now (cm_session_id cl))) (\<lambda>sess.
          retE (if sess = None then None else Some (cm_sub cl, cm_role cl))))"

definition require_authenticated ::
  "('i, 'v, 't, 'a) app_env \<Rightarrow> millis \<Rightarrow> string option \<Rightarrow> (('i, 'v, 't, 'a, 'b) app_world, claims, string) eff" where
  "require_authenticated env now cookie w =
     (case authenticate_headers env now cookie w of (c, w') \<Rightarrow> (ok_or c ''unauthenticated'', w'))"

definition require_some_role ::
  "('i, 'v, 't, 'a) app_env \<Rightarrow> millis \<Rightarrow> string option \<Rightarrow> (string \<Rightarrow> bool) \<Rightarrow>
   (('i, 'v, 't, 'a, 'b) app_world, claims, string) eff" where
  "require_some_role env now cookie P =
     bindE (require_authenticated env now cookie) (\<lambda>cl.
     if list_ex P (cm_roles cl) then retE cl else failE ''forbidden'')"

definition require_admin ::
  "('i, 'v, 't, 'a) app_env \<Rightarrow> millis \<Rightarrow> string option \<Rightarrow> (('i, 'v, 't, 'a, 'b) app_world, claims, string) eff" where
  "require_admin env now cookie = require_some_role env now cookie (\<lambda>r. r = ''admin'')"

definition require_role ::
  "('i, 'v, 't, 'a) app_env \<Rightarrow> millis \<Rightarrow> string option \<Rightarrow> string \<Rightarrow> (('i, 'v, 't, 'a, 'b) app_world, claims, string) eff" where
  "require_role env now cookie slug = require_some_role env now cookie (\<lambda>r. r = slug \<or> slug = ''operator'' \<and> r = ''admin'')"

definition require_approver ::
  "('i, 'v, 't, 'a) app_env \<Rightarrow> millis \<Rightarrow> string option \<Rightarrow> (('i, 'v, 't, 'a, 'b) app_world, claims, string) eff" where
  "require_approver env now cookie = require_some_role env now cookie (\<lambda>r. r = ''approver'' \<or> r = ''admin'')"

section \<open>Login and logout\<close>

text \<open>The value is the cookie header that is set.\<close>

definition login_action ::
  "('i, 'v, 't, 'a) app_env \<Rightarrow> millis \<Rightarrow> string \<Rightarrow> string \<Rightarrow> string \<Rightarrow> (('i, 'v, 't, 'a, 'b) app_world, string, string) eff" where
  "login_action env now session_id username password =
     bindE (iam_call ''find_user'' (find_user username)) (\<lambda>user.
     bindE (liftE (ok_or user ''Invalid credentials'')) (\<lambda>user.
     if ui_status user \<noteq> ''active'' then failE ''Invalid credentials''
     else if \<not> bcrypt_verify (app_crypto env) password (ui_password_hash user) then failE ''Invalid credentials''
     else bindE (iam_call ''insert_session'' (insert_session session_id (ui_id user) (now + 86400 * 1000))) (\<lambda>_.
       retE (''daimon_token='' @ create_jwt (app_crypto env) (app_jwt_secret env) now username (ui_id user) (ui_roles user) session_id @
         ''; HttpOnly; Secure; SameSite=Lax; Path=/; Max-Age=86400''))))"

definition logout ::
  "('i, 'v, 't, 'a) app_env \<Rightarrow> millis \<Rightarrow> string option \<Rightarrow> (('i, 'v, 't, 'a, 'b) app_world, string, string) eff" where
  "logout env now cookie =
     bindE (require_authenticated env now cookie) (\<lambda>cl.
     bindE (iam_call ''delete_session'' (delete_session (cm_session_id cl))) (\<lambda>_.
     retE ''daimon_token=; HttpOnly; Secure; SameSite=Lax; Path=/; Max-Age=0''))"

section \<open>Account administration\<close>

definition audit_iam ::
  "('i, 'v, 't, 'a) app_env \<Rightarrow> string \<Rightarrow> string \<Rightarrow> uuid \<Rightarrow> string \<Rightarrow> ('i, 'v, 't, 'a, 'b) app_world \<Rightarrow>
   ('i, 'v, 't, 'a, 'b) app_world" where
  "audit_iam env actor action target_user summary w =
     w\<lparr>wo_broker := snd (audit_admin_action (app_broker env) actor ActionOther (Some (''user:'' @ target_user)) None (Some summary)
         (bt_of [(''iam.action'', action), (''iam.target_user'', target_user)]) (wo_broker w))\<rparr>"

definition iam_list_users ::
  "('i, 'v, 't, 'a) app_env \<Rightarrow> (millis \<Rightarrow> string) \<Rightarrow> millis \<Rightarrow> string option \<Rightarrow>
   (('i, 'v, 't, 'a, 'b) app_world, user_list_row list, string) eff" where
  "iam_list_users env rfc3339 now cookie =
     bindE (require_admin env now cookie) (\<lambda>_. iam_call ''list_users'' (db_list_users rfc3339))"

definition iam_create_user ::
  "('i, 'v, 't, 'a) app_env \<Rightarrow> millis \<Rightarrow> string option \<Rightarrow> uuid \<Rightarrow> string \<Rightarrow> string \<Rightarrow> string \<Rightarrow> string list \<Rightarrow>
   (('i, 'v, 't, 'a, 'b) app_world, uuid, string) eff" where
  "iam_create_user env now cookie u salt username password roles =
     bindE (require_admin env now cookie) (\<lambda>cl.
     if trim username = '''' then failE ''username is required''
     else if password = '''' then failE ''password is required''
     else bindE (iam_call ''create_user'' (db_create_user u username (bcrypt_hash (app_crypto env) salt password) roles)) (\<lambda>user_id.
       bindE (modifyE (audit_iam env (cm_sub cl) ''user.create'' user_id
                (''user.create '' @ username @ '' roles='' @ debug_strs roles))) (\<lambda>_.
       retE user_id)))"

definition change_my_password ::
  "('i, 'v, 't, 'a) app_env \<Rightarrow> millis \<Rightarrow> string option \<Rightarrow> string \<Rightarrow> string \<Rightarrow> string \<Rightarrow>
   (('i, 'v, 't, 'a, 'b) app_world, unit, string) eff" where
  "change_my_password env now cookie salt current new =
     bindE (require_authenticated env now cookie) (\<lambda>cl.
     if length new < 8 then failE ''new password must be at least 8 characters''
     else bindE (iam_call ''find_user'' (find_user (cm_sub cl))) (\<lambda>user.
       bindE (liftE (ok_or user ''account not found'')) (\<lambda>user.
       if \<not> bcrypt_verify (app_crypto env) current (ui_password_hash user) then failE ''current password is incorrect''
       else bindE (iam_call ''update password'' (iam_stmt ''update password'' (\<lambda>t.
                     ((), update_user (cm_user_id cl) (\<lambda>r. r\<lparr>us_password_hash := bcrypt_hash (app_crypto env) salt new\<rparr>) t)))) (\<lambda>_.
         modifyE (audit_iam env (cm_sub cl) ''user.password_change'' (cm_user_id cl)
           (''user.password_change '' @ cm_sub cl @ '' (self)''))))))"

record profile_info =
  pi_username :: string
  pi_roles :: "string list"
  pi_identities :: "(string \<times> string \<times> string) list"

definition my_profile ::
  "('i, 'v, 't, 'a) app_env \<Rightarrow> (millis \<Rightarrow> string) \<Rightarrow> millis \<Rightarrow> string option \<Rightarrow>
   (('i, 'v, 't, 'a, 'b) app_world, profile_info, string) eff" where
  "my_profile env rfc3339 now cookie =
     bindE (require_authenticated env now cookie) (\<lambda>cl.
     bindE (iam_call ''identities'' (iam_stmt ''identities'' (\<lambda>t.
       (map (\<lambda>gi. (gi_channel gi, gi_platform_handle gi, rfc3339 (gi_enrolled_at gi)))
          (sort_key (\<lambda>gi. (gi_channel gi, gi_platform_handle gi)) (filter (\<lambda>gi. gi_user_id gi = cm_user_id cl) (it_identities t))), t)))) (\<lambda>ids.
     retE \<lparr>pi_username = cm_sub cl, pi_roles = cm_roles cl, pi_identities = ids\<rparr>))"

text \<open>The last-admin guard: the count of the other enabled admins.\<close>

definition last_admin_check :: "bool \<Rightarrow> uuid \<Rightarrow> string \<Rightarrow> (('i, 'v, 't, 'a, 'b) app_world, unit, string) eff" where
  "last_admin_check needed u msg =
     (if needed
      then bindE (iam_call ''admin count'' (enabled_admin_count_excluding u)) (\<lambda>remaining.
             if remaining = 0 then failE msg else retE ())
      else retE ())"

definition iam_set_user_status ::
  "('i, 'v, 't, 'a) app_env \<Rightarrow> millis \<Rightarrow> string option \<Rightarrow> uuid \<Rightarrow> string \<Rightarrow> (('i, 'v, 't, 'a, 'b) app_world, unit, string) eff" where
  "iam_set_user_status env now cookie u status =
     bindE (require_admin env now cookie) (\<lambda>cl.
     bindE (last_admin_check (status = ''disabled'') u ''cannot disable the last enabled admin'') (\<lambda>_.
     bindE (iam_call ''set_user_status'' (db_set_user_status u status)) (\<lambda>_.
     modifyE (audit_iam env (cm_sub cl) (if status = ''disabled'' then ''user.disable'' else ''user.status'') u
       (''user.status '' @ status)))))"

definition iam_assign_role ::
  "('i, 'v, 't, 'a) app_env \<Rightarrow> millis \<Rightarrow> string option \<Rightarrow> uuid \<Rightarrow> string \<Rightarrow> (('i, 'v, 't, 'a, 'b) app_world, unit, string) eff" where
  "iam_assign_role env now cookie u slug =
     bindE (require_admin env now cookie) (\<lambda>cl.
     bindE (iam_call ''assign_role'' (db_assign_role u slug)) (\<lambda>_.
     modifyE (audit_iam env (cm_sub cl) ''role.assign'' u (''role.assign '' @ slug))))"

definition iam_revoke_role ::
  "('i, 'v, 't, 'a) app_env \<Rightarrow> millis \<Rightarrow> string option \<Rightarrow> uuid \<Rightarrow> string \<Rightarrow> (('i, 'v, 't, 'a, 'b) app_world, unit, string) eff" where
  "iam_revoke_role env now cookie u slug =
     bindE (require_admin env now cookie) (\<lambda>cl.
     bindE (last_admin_check (slug = ''admin'') u ''cannot revoke the last enabled admin'') (\<lambda>_.
     bindE (iam_call ''revoke_role'' (db_revoke_role u slug)) (\<lambda>_.
     modifyE (audit_iam env (cm_sub cl) ''role.revoke'' u (''role.revoke '' @ slug)))))"

section \<open>Lemmas: what the statements change\<close>

definition keeps :: "('s \<Rightarrow> bool) \<Rightarrow> ('s, 'x, 'e) eff \<Rightarrow> bool" where
  "keeps P m \<longleftrightarrow> (\<forall>s. P s \<longrightarrow> P (snd (m s)))"

lemma keepsD: "keeps P m \<Longrightarrow> P s \<Longrightarrow> m s = (r, s') \<Longrightarrow> P s'"
  unfolding keeps_def by (metis snd_conv)

named_theorems keeps_rules \<open>composition rules of preserved predicates\<close>

lemma keeps_retE [keeps_rules]: "keeps P (retE x)"
  by (simp add: keeps_def retE_def)

lemma keeps_failE [keeps_rules]: "keeps P (failE e)"
  by (simp add: keeps_def failE_def)

lemma keeps_liftE [keeps_rules]: "keeps P (liftE r)"
  by (simp add: keeps_def liftE_def)

lemma keeps_bindE [keeps_rules]: "keeps P m \<Longrightarrow> (\<And>x. keeps P (f x)) \<Longrightarrow> keeps P (bindE m f)"
  by (auto simp: keeps_def bindE_def split: prod.splits result.splits)

lemma keeps_mapE [keeps_rules]: "keeps P m \<Longrightarrow> keeps P (mapE g m)"
  by (auto simp: keeps_def split: prod.splits)

lemma keeps_if [keeps_rules]: "keeps P m \<Longrightarrow> keeps P m' \<Longrightarrow> keeps P (if b then m else m')"
  by simp

lemma iam_stmt_tables:
  "iam_stmt ctx f d = (r, d') \<Longrightarrow> db_tables d' = (if is_ok r then snd (f (db_tables d)) else db_tables d)"
  unfolding iam_stmt_def by (cases "db_stmt f d") (auto dest: db_stmt_tables)

lemma iam_stmt_Ok: "iam_stmt ctx f d = (Ok x, d') \<Longrightarrow> x = fst (f (db_tables d)) \<and> db_tables d' = snd (f (db_tables d))"
  unfolding iam_stmt_def mapE_Ok_iff by (auto simp: db_stmt_Ok_iff) (metis fst_conv snd_conv)+

lemma keeps_iam_stmt [keeps_rules]:
  assumes "\<And>t. P t \<Longrightarrow> P (snd (f t))"
  shows "keeps (\<lambda>d. P (db_tables d)) (iam_stmt ctx f)"
  unfolding keeps_def
proof (intro allI impI)
  fix d :: "iam_tables db" assume "P (db_tables d)"
  moreover obtain r d' where r: "iam_stmt ctx f d = (r, d')" by fastforce
  ultimately show "P (db_tables (snd (iam_stmt ctx f d)))"
    using assms [of "db_tables d"] by (simp add: iam_stmt_tables [OF r] r)
qed

lemma keeps_iam_try [keeps_rules]:
  assumes "\<And>t x t'. P t \<Longrightarrow> f t = Some (x, t') \<Longrightarrow> P t'"
  shows "keeps (\<lambda>d. P (db_tables d)) (iam_try ctx f)"
proof -
  have "P (snd (case f t of Some (x, t') \<Rightarrow> (Some x, t') | None \<Rightarrow> (None, t)))" if "P t" for t
    using that assms by (cases "f t") (auto split: prod.splits)
  then show ?thesis
    unfolding iam_try_def by (rule keeps_bindE [OF keeps_iam_stmt keeps_liftE])
qed

lemma keeps_iam_txn [keeps_rules]: "keeps (\<lambda>d. P (db_tables d)) m \<Longrightarrow> keeps (\<lambda>d. P (db_tables d)) (iam_txn m)"
  by (auto simp: keeps_def iam_txn_def split: prod.splits result.splits)

lemma keeps_on_iam: "keeps (\<lambda>d. P (db_tables d)) m \<Longrightarrow> keeps (\<lambda>w. P (wo_tables w)) (on_iam m)"
  by (auto simp: keeps_def on_iam_def split: prod.splits)

lemma keeps_iam_call [keeps_rules]: "keeps (\<lambda>d. P (db_tables d)) m \<Longrightarrow> keeps (\<lambda>w. P (wo_tables w)) (iam_call name m)"
  unfolding iam_call_def by (intro keeps_mapE keeps_on_iam)

lemma audit_iam_tables [simp]: "wo_iam (audit_iam env actor action u s w) = wo_iam w"
  by (simp add: audit_iam_def)

lemma keeps_audit [keeps_rules]: "keeps (\<lambda>w. P (wo_tables w)) (modifyE (audit_iam env actor action u s))"
  by (simp add: keeps_def modifyE_def)

lemma authenticate_tables: "authenticate_headers env now cookie w = (c, w') \<Longrightarrow> wo_tables w' = wo_tables w \<and> wo_broker w' = wo_broker w"
  by (auto simp: authenticate_headers_def on_iam_def find_valid_session_def split: option.splits prod.splits result.splits
      dest!: iam_stmt_tables)

lemma require_authenticated_tables:
  "require_authenticated env now cookie w = (r, w') \<Longrightarrow> wo_tables w' = wo_tables w"
  by (auto simp: require_authenticated_def split: prod.splits dest!: authenticate_tables)

lemma require_some_role_tables:
  "require_some_role env now cookie P w = (r, w') \<Longrightarrow> wo_tables w' = wo_tables w"
  unfolding require_some_role_def
  by (cases "require_authenticated env now cookie w")
    (auto simp: bindE_def retE_def failE_def split: result.splits if_splits dest: require_authenticated_tables)

lemma require_admin_tables: "require_admin env now cookie w = (r, w') \<Longrightarrow> wo_tables w' = wo_tables w"
  unfolding require_admin_def by (rule require_some_role_tables)

lemma require_admin_broker: "require_admin env now cookie w = (r, w') \<Longrightarrow> wo_broker w' = wo_broker w"
  by (auto simp: require_admin_def require_some_role_def require_authenticated_def authenticate_headers_def on_iam_def bindE_def
      retE_def failE_def split: option.splits prod.splits result.splits if_splits)

lemma keeps_auth [keeps_rules]: "keeps (\<lambda>w. P (wo_tables w)) (require_authenticated env now cookie)"
  unfolding keeps_def using require_authenticated_tables by (metis prod.collapse)

lemma keeps_admin [keeps_rules]: "keeps (\<lambda>w. P (wo_tables w)) (require_admin env now cookie)"
  unfolding keeps_def using require_admin_tables by (metis prod.collapse)

section \<open>The last admin\<close>

definition active_admin :: "iam_tables \<Rightarrow> user_row \<Rightarrow> bool" where
  "active_admin t u \<longleftrightarrow>
     u \<in> set (it_users t) \<and> us_status u = ''active'' \<and>
     (\<exists>r \<in> set (it_roles t). ro_slug r = ''admin'' \<and> (us_id u, ro_id r) \<in> set (it_grants t))"

definition admin_ok :: "iam_tables \<Rightarrow> bool" where
  "admin_ok t \<longleftrightarrow> distinct (map ro_id (it_roles t)) \<and> (\<exists>u. active_admin t u)"

lemma admin_rows_iff: "admin_rows t u \<noteq> [] \<longleftrightarrow> (\<exists>x. active_admin t x \<and> us_id x \<noteq> u)"
  by (auto simp: admin_rows_def active_admin_def filter_empty_conv)

text \<open>Adding users and grants keeps every admin.\<close>

lemma admin_ok_mono:
  assumes "admin_ok t" "set (it_users t) \<subseteq> set (it_users t')" "it_roles t' = it_roles t" "set (it_grants t) \<subseteq> set (it_grants t')"
  shows "admin_ok t'"
  using assms by (auto simp: admin_ok_def active_admin_def)

lemma grant_slug_admin:
  assumes "grant_slug u slug t = Some (x, t')" "admin_ok t"
  shows "admin_ok t'"
  using assms(2) by (rule admin_ok_mono) (use assms(1) in \<open>auto simp: grant_slug_def Let_def split: if_splits\<close>)

lemma grant_all_admin: "keeps (\<lambda>d. admin_ok (db_tables d)) (grant_all username u slugs)"
  by (induction slugs) (auto intro!: keeps_rules dest: grant_slug_admin)

lemma create_user_admin: "keeps (\<lambda>d. admin_ok (db_tables d)) (db_create_user u username h roles)"
  unfolding db_create_user_def
proof (intro keeps_bindE keeps_iam_try keeps_retE grant_all_admin)
  fix t x t'
  assume "admin_ok t" and "(if username \<in> us_username ` set (it_users t) then None
     else Some (u, t\<lparr>it_users := it_users t @ [\<lparr>us_id = u, us_username = username, us_email = None, us_password_hash = h,
        us_status = ''active'', us_last_login_at = None\<rparr>]\<rparr>)) = Some (x, t')"
  then show "admin_ok t'" by (intro admin_ok_mono [of t t']) (auto split: if_splits)
qed

text \<open>The guarded mutations leave the admins other than the user they touch.\<close>

lemma active_admin_update:
  assumes "active_admin t x" "us_id x \<noteq> u"
  shows "active_admin (update_user u f t) x"
  using assms by (auto simp: active_admin_def update_user_def image_iff)

lemma active_admin_revoke:
  assumes "active_admin t x" "us_id x \<noteq> u"
  shows "active_admin (revoke_slug u slug t) x"
  using assms by (auto simp: active_admin_def revoke_slug_def)

lemma admin_ok_revoke:
  assumes "slug \<noteq> ''admin''" "admin_ok t"
  shows "admin_ok (revoke_slug u slug t)"
proof -
  obtain x r where x: "x \<in> set (it_users t)" "us_status x = ''active''" "r \<in> set (it_roles t)" "ro_slug r = ''admin''"
    "(us_id x, ro_id r) \<in> set (it_grants t)" and d: "distinct (map ro_id (it_roles t))"
    using assms(2) by (auto simp: admin_ok_def active_admin_def)
  have "r' = r" if "r' \<in> set (it_roles t)" "ro_id r' = ro_id r" for r'
    using d that x(3) by (simp add: distinct_map inj_on_def)
  then have "(us_id x, ro_id r) \<in> set (it_grants (revoke_slug u slug t))"
    using x assms(1) by (auto simp: revoke_slug_def list_ex_iff)
  then have "active_admin (revoke_slug u slug t) x"
    using x unfolding active_admin_def by (simp add: revoke_slug_def) blast
  then show ?thesis using d by (auto simp: admin_ok_def revoke_slug_def)
qed

lemma last_admin_check_Ok:
  assumes "last_admin_check needed u msg w = (Ok (), w')"
  shows "wo_tables w' = wo_tables w \<and> (needed \<longrightarrow> (\<exists>x. active_admin (wo_tables w) x \<and> us_id x \<noteq> u))"
proof (cases needed)
  case True
  then obtain n d where n: "enabled_admin_count_excluding u (wo_iam w) = (Ok n, d)" "n \<noteq> 0" "w' = w\<lparr>wo_iam := d\<rparr>"
    using assms by (auto simp: last_admin_check_def bindE_Ok_iff iam_call_def mapE_Ok_iff on_iam_def retE_def failE_def
        split: prod.splits if_splits)
  then have "n = length (admin_rows (wo_tables w) u) \<and> db_tables d = wo_tables w"
    unfolding enabled_admin_count_excluding_def by (auto dest: iam_stmt_Ok)
  then show ?thesis using n by (simp add: admin_rows_iff [symmetric])
next
  case False
  then show ?thesis using assms by (simp add: last_admin_check_def retE_def)
qed

lemma keeps_last_admin_check [keeps_rules]: "keeps (\<lambda>w. P (wo_tables w)) (last_admin_check needed u msg)"
  unfolding last_admin_check_def enabled_admin_count_excluding_def
  by (intro keeps_if keeps_bindE keeps_iam_call keeps_iam_stmt keeps_retE keeps_failE) simp

lemma admin_guarded:
  fixes m :: "(('i, 'v, 't, 'a, 'b) app_world, 'x, string) eff"
  assumes "\<And>w. admin_ok (wo_tables w) \<Longrightarrow> \<not> needed \<or> (\<exists>x. active_admin (wo_tables w) x \<and> us_id x \<noteq> u) \<Longrightarrow>
      admin_ok (wo_tables (snd (m w)))"
  shows "keeps (\<lambda>w. admin_ok (wo_tables w)) (bindE (last_admin_check needed u msg) (\<lambda>_. m))"
  unfolding keeps_def
proof (intro allI impI)
  fix w :: "('i, 'v, 't, 'a, 'b) app_world"
  assume w: "admin_ok (wo_tables w)"
  obtain r w1 where r: "last_admin_check needed u msg w = (r, w1)" by fastforce
  show "admin_ok (wo_tables (snd (bindE (last_admin_check needed u msg) (\<lambda>_. m) w)))"
  proof (cases r)
    case (Ok x)
    then show ?thesis
      using last_admin_check_Ok [of needed u msg w w1] assms [of w1] w r by (auto simp: bindE_def)
  next
    case (Err e)
    then show ?thesis using keepsD [OF keeps_last_admin_check [of admin_ok] w r] r by (simp add: bindE_def)
  qed
qed

lemma iam_txn_Ok_iff: "iam_txn m d = (Ok x, d') \<longleftrightarrow> m d = (Ok x, d')"
  by (auto simp: iam_txn_def split: prod.splits result.splits)

lemma bindE_Ok_chain:
  "bindE a (\<lambda>_. bindE b (\<lambda>_. bindE c (\<lambda>_. e))) s = (Ok y, s') \<Longrightarrow>
   \<exists>s1 s2 s3. a s = (Ok (), s1) \<and> b s1 = (Ok (), s2) \<and> c s2 = (Ok (), s3) \<and> e s3 = (Ok y, s')"
  by (auto simp: bindE_Ok_iff)

lemma iam_try_Ok: "iam_try ctx f d = (Ok x, d') \<Longrightarrow> f (db_tables d) = Some (x, db_tables d')"
  unfolding iam_try_def bindE_Ok_iff
  by (cases "f (db_tables d)") (auto simp: liftE_def dest!: iam_stmt_Ok)

lemma db_set_user_status_tables:
  assumes "db_set_user_status u status d = (r, d')"
  shows "if is_ok r then db_tables d' = (update_user u (\<lambda>x. x\<lparr>us_status := status\<rparr>) (db_tables d))
      \<lparr>it_sessions := filter (\<lambda>s. se_user_id s \<noteq> u) (it_sessions (db_tables d))\<rparr>
    else db_tables d' = db_tables d"
proof (cases r)
  case (Err e)
  then show ?thesis using assms by (auto simp: db_set_user_status_def iam_txn_def split: prod.splits result.splits)
next
  case (Ok x)
  obtain d1 d2 d3 where s: "iam_stmt ''begin tx'' (\<lambda>t. ((), t)) d = (Ok (), d1)"
    "iam_try ''update status'' (\<lambda>t. if u \<in> us_id ` set (it_users t) \<and> status \<notin> set STATUSES then None
          else Some ((), update_user u (\<lambda>r. r\<lparr>us_status := status\<rparr>) t)) d1 = (Ok (), d2)"
    "iam_stmt ''revoke sessions'' (\<lambda>t. ((), t\<lparr>it_sessions := filter (\<lambda>s. se_user_id s \<noteq> u) (it_sessions t)\<rparr>)) d2 = (Ok (), d3)"
    "iam_stmt ''commit set_user_status'' (\<lambda>t. ((), t)) d3 = (Ok x, d')"
    using bindE_Ok_chain [OF assms [unfolded Ok db_set_user_status_def iam_txn_Ok_iff]] by blast
  have "db_tables d2 = update_user u (\<lambda>r. r\<lparr>us_status := status\<rparr>) (db_tables d1)"
    using iam_try_Ok [OF s(2)] by (simp split: if_splits)
  then show ?thesis
    using iam_stmt_Ok [OF s(1)] iam_stmt_Ok [OF s(3)] iam_stmt_Ok [OF s(4)] Ok by (simp add: update_user_def)
qed

lemma iam_call_cases:
  obtains "iam_call name f w = (map_err (\<lambda>e. name @ '': '' @ e) (fst (f (wo_iam w))), w\<lparr>wo_iam := snd (f (wo_iam w))\<rparr>)"
  by (cases "f (wo_iam w)") (simp add: iam_call_def on_iam_def)

lemma db_set_user_status_known:
  assumes "db_set_user_status u status d = (Ok (), d')"
  shows "u \<in> us_id ` set (it_users (db_tables d)) \<Longrightarrow> status \<in> set STATUSES"
proof -
  obtain d1 d2 where s: "iam_stmt ''begin tx'' (\<lambda>t. ((), t)) d = (Ok (), d1)"
    "iam_try ''update status'' (\<lambda>t. if u \<in> us_id ` set (it_users t) \<and> status \<notin> set STATUSES then None
          else Some ((), update_user u (\<lambda>r. r\<lparr>us_status := status\<rparr>) t)) d1 = (Ok (), d2)"
    using bindE_Ok_chain [OF assms [unfolded db_set_user_status_def iam_txn_Ok_iff]] by blast
  show "u \<in> us_id ` set (it_users (db_tables d)) \<Longrightarrow> status \<in> set STATUSES"
    using iam_try_Ok [OF s(2)] iam_stmt_Ok [OF s(1)] by (simp split: if_splits)
qed

lemma status_change_admin:
  assumes ok: "admin_ok t" and other: "status \<noteq> ''active'' \<Longrightarrow> \<exists>x. active_admin t x \<and> us_id x \<noteq> u"
  shows "admin_ok ((update_user u (\<lambda>x. x\<lparr>us_status := status\<rparr>) t)\<lparr>it_sessions := ss\<rparr>)"
proof -
  obtain x where x: "active_admin t x" "us_id x \<noteq> u \<or> status = ''active''"
    using ok other by (cases "status = ''active''") (auto simp: admin_ok_def)
  have "active_admin (update_user u (\<lambda>x. x\<lparr>us_status := status\<rparr>) t) x"
  proof (cases "us_id x = u")
    case True
    then have "x\<lparr>us_status := status\<rparr> = x" using x by (simp add: active_admin_def)
    then have "x = (\<lambda>r. if us_id r = u then r\<lparr>us_status := status\<rparr> else r) x" using True by simp
    then show ?thesis using x(1) by (auto simp: active_admin_def update_user_def)
  qed (rule active_admin_update [OF x(1)])
  then show ?thesis using ok unfolding admin_ok_def active_admin_def by (auto simp: update_user_def)
qed

text \<open>A change of status leaves an active admin, unless it locks the only one.\<close>

lemma set_status_admin:
  assumes w: "admin_ok (wo_tables w)" and run: "iam_set_user_status env now cookie u status w = (r, w')"
  shows "admin_ok (wo_tables w') \<or> (r = Ok () \<and> status = ''locked'' \<and> (\<forall>y. active_admin (wo_tables w) y \<longrightarrow> us_id y = u))"
proof -
  obtain r1 w1 where adm: "require_admin env now cookie w = (r1, w1)" by fastforce
  obtain r2 w2 where chk: "last_admin_check (status = ''disabled'') u ''cannot disable the last enabled admin'' w1 = (r2, w2)" by fastforce
  obtain r3 d where upd: "db_set_user_status u status (wo_iam w2) = (r3, d)" by fastforce
  note unfold = iam_set_user_status_def bindE_def adm chk upd iam_call_def on_iam_def modifyE_def
  have t1: "wo_tables w1 = wo_tables w" by (rule require_admin_tables [OF adm])
  have t2: "wo_tables w2 = wo_tables w1" by (rule keepsD [OF keeps_last_admin_check [of "\<lambda>t. t = wo_tables w1"] refl chk])
  show ?thesis
  proof (cases "is_ok r1 \<and> is_ok r2 \<and> is_ok r3")
    case True
    then obtain cl where ok: "r1 = Ok cl" "r2 = Ok ()" "r3 = Ok ()" by (auto simp: is_ok_iff)
    have end1: "r = Ok ()" "wo_tables w' = db_tables d" using run ok by (auto simp: unfold)
    have d: "db_tables d = (update_user u (\<lambda>x. x\<lparr>us_status := status\<rparr>) (wo_tables w))
        \<lparr>it_sessions := filter (\<lambda>s. se_user_id s \<noteq> u) (it_sessions (wo_tables w))\<rparr>"
      using db_set_user_status_tables [OF upd] ok t1 t2 by simp
    have other: "\<exists>x. active_admin (wo_tables w) x \<and> us_id x \<noteq> u" if "status \<noteq> ''active''" "status \<noteq> ''locked''"
    proof (cases "status = ''disabled''")
      case True
      then show ?thesis using last_admin_check_Ok [OF chk [unfolded ok]] t1 by simp
    next
      case False
      then have "u \<notin> us_id ` set (it_users (wo_tables w))"
        using db_set_user_status_known [OF upd [unfolded ok]] that t1 t2 by (auto simp: STATUSES_def)
      then show ?thesis using w by (auto simp: admin_ok_def active_admin_def)
    qed
    show ?thesis
    proof (cases "status = ''locked'' \<and> (\<forall>y. active_admin (wo_tables w) y \<longrightarrow> us_id y = u)")
      case False
      then show ?thesis unfolding end1 d using other by (intro disjI1 status_change_admin [OF w]) blast
    qed (use end1 in blast)
  next
    case False
    have "wo_tables w' = wo_tables w"
      using run False t1 t2 db_set_user_status_tables [OF upd] by (cases r1; cases r2; cases r3) (auto simp: unfold)
    then show ?thesis using w by simp
  qed
qed

lemma revoke_role_admin:
  fixes env :: "('i, 'v, 't, 'a) app_env"
  shows "keeps (\<lambda>w :: ('i, 'v, 't, 'a, 'b) app_world. admin_ok (wo_tables w)) (iam_revoke_role env now cookie u slug)"
  unfolding iam_revoke_role_def
proof (rule keeps_bindE [OF keeps_admin], rule admin_guarded)
  fix cl and w :: "('i, 'v, 't, 'a, 'b) app_world"
  assume w: "admin_ok (wo_tables w)" "\<not> slug = ''admin'' \<or> (\<exists>x. active_admin (wo_tables w) x \<and> us_id x \<noteq> u)"
  obtain r d where r: "db_revoke_role u slug (wo_iam w) = (r, d)" by fastforce
  have "admin_ok (revoke_slug u slug (wo_tables w))"
  proof (cases "slug = ''admin''")
    case True
    then obtain x where "active_admin (wo_tables w) x" "us_id x \<noteq> u" using w(2) by blast
    then have "active_admin (revoke_slug u slug (wo_tables w)) x" by (rule active_admin_revoke)
    then show ?thesis using w(1) by (auto simp: admin_ok_def revoke_slug_def)
  next
    case False
    then show ?thesis using w(1) by (rule admin_ok_revoke)
  qed
  then have "admin_ok (db_tables d)"
    using iam_stmt_tables [OF r [unfolded db_revoke_role_def]] w(1) by simp
  then show "admin_ok (wo_tables (snd (bindE (iam_call ''revoke_role'' (db_revoke_role u slug)) (\<lambda>_.
      modifyE (audit_iam env (cm_sub cl) ''role.revoke'' u (''role.revoke '' @ slug))) w)))"
    by (cases r) (simp_all add: bindE_def iam_call_def on_iam_def r modifyE_def)
qed

section \<open>Properties\<close>

text \<open>One request to the account administration or the login, with the arguments of its form and what it reads and draws
  (the clock, the cookie, ids and salts). The status is any text.\<close>

datatype iam_request =
    RqCreate millis "string option" uuid string string string "string list"
  | RqPassword millis "string option" string string string
  | RqStatus millis "string option" uuid string
  | RqAssign millis "string option" uuid string
  | RqRevoke millis "string option" uuid string
  | RqLogin millis string string string
  | RqLogout millis "string option"

fun iam_serve :: "('i, 'v, 't, 'a) app_env \<Rightarrow> iam_request \<Rightarrow> ('i, 'v, 't, 'a, 'b) app_world \<Rightarrow> ('i, 'v, 't, 'a, 'b) app_world" where
  "iam_serve env (RqCreate now cookie u salt username password roles) w = snd (iam_create_user env now cookie u salt username password roles w)"
| "iam_serve env (RqPassword now cookie salt current new) w = snd (change_my_password env now cookie salt current new w)"
| "iam_serve env (RqStatus now cookie u status) w = snd (iam_set_user_status env now cookie u status w)"
| "iam_serve env (RqAssign now cookie u slug) w = snd (iam_assign_role env now cookie u slug w)"
| "iam_serve env (RqRevoke now cookie u slug) w = snd (iam_revoke_role env now cookie u slug w)"
| "iam_serve env (RqLogin now sid username password) w = snd (login_action env now sid username password w)"
| "iam_serve env (RqLogout now cookie) w = snd (logout env now cookie w)"

text \<open>A request that locks the only active admin.\<close>

definition locks_last_admin :: "('i, 'v, 't, 'a) app_env \<Rightarrow> ('i, 'v, 't, 'a, 'b) app_world \<Rightarrow> iam_request \<Rightarrow> bool" where
  "locks_last_admin env w rq \<longleftrightarrow> (\<exists>now cookie u. rq = RqStatus now cookie u ''locked'' \<and>
     fst (iam_set_user_status env now cookie u ''locked'' w) = Ok () \<and> (\<forall>y. active_admin (wo_tables w) y \<longrightarrow> us_id y = u))"

lemma keeps_snd: "keeps P m \<Longrightarrow> P s \<Longrightarrow> P (snd (m s))"
  by (simp add: keeps_def)

lemma admin_ok_update_hash: "admin_ok t \<Longrightarrow> admin_ok (update_user u (\<lambda>r. r\<lparr>us_password_hash := h\<rparr>) t)"
proof -
  assume "admin_ok t"
  then obtain x where x: "active_admin t x" and d: "distinct (map ro_id (it_roles t))" by (auto simp: admin_ok_def)
  let ?y = "if us_id x = u then x\<lparr>us_password_hash := h\<rparr> else x"
  have "active_admin (update_user u (\<lambda>r. r\<lparr>us_password_hash := h\<rparr>) t) ?y"
    using x by (auto simp: active_admin_def update_user_def)
  then show ?thesis using d by (auto simp: admin_ok_def update_user_def)
qed

lemma admin_ok_sessions: "admin_ok (t\<lparr>it_sessions := ss\<rparr>) = admin_ok t"
  by (simp add: admin_ok_def active_admin_def)

lemma iam_serve_admin:
  fixes w :: "('i, 'v, 't, 'a, 'b) app_world"
  assumes w: "admin_ok (wo_tables w)"
  shows "admin_ok (wo_tables (iam_serve env rq w)) \<or> locks_last_admin env w rq"
proof (cases rq)
  case (RqCreate now cookie u salt username password roles)
  have "keeps (\<lambda>w :: ('i, 'v, 't, 'a, 'b) app_world. admin_ok (wo_tables w)) (iam_create_user env now cookie u salt username password roles)"
    unfolding iam_create_user_def by (intro keeps_bindE keeps_admin keeps_if keeps_failE keeps_iam_call create_user_admin keeps_audit keeps_retE)
  then show ?thesis using w RqCreate by (simp add: keeps_def)
next
  case (RqPassword now cookie salt current new)
  have "keeps (\<lambda>w :: ('i, 'v, 't, 'a, 'b) app_world. admin_ok (wo_tables w)) (change_my_password env now cookie salt current new)"
    unfolding change_my_password_def find_user_def
    by (intro keeps_bindE keeps_auth keeps_if keeps_failE keeps_iam_call keeps_iam_stmt keeps_audit keeps_liftE)
      (simp_all add: admin_ok_update_hash)
  then show ?thesis using w RqPassword by (simp add: keeps_def)
next
  case (RqStatus now cookie u status)
  then show ?thesis
    using set_status_admin [OF w, of env now cookie u status] RqStatus
    by (cases "iam_set_user_status env now cookie u status w") (auto simp: locks_last_admin_def)
next
  case (RqAssign now cookie u slug)
  have "keeps (\<lambda>w :: ('i, 'v, 't, 'a, 'b) app_world. admin_ok (wo_tables w)) (iam_assign_role env now cookie u slug)"
    unfolding iam_assign_role_def db_assign_role_def
    by (intro keeps_bindE keeps_admin keeps_iam_call keeps_iam_try keeps_audit) (rule grant_slug_admin)
  then show ?thesis using w RqAssign by (simp add: keeps_def)
next
  case (RqRevoke now cookie u slug)
  then show ?thesis using keeps_snd [OF revoke_role_admin w] RqRevoke by simp
next
  case (RqLogin now sid username password)
  have "keeps (\<lambda>w :: ('i, 'v, 't, 'a, 'b) app_world. admin_ok (wo_tables w)) (login_action env now sid username password)"
    unfolding login_action_def find_user_def insert_session_def
    by (intro keeps_bindE keeps_if keeps_failE keeps_iam_call keeps_iam_stmt keeps_iam_try keeps_liftE keeps_retE)
      (auto simp: admin_ok_sessions split: if_splits)
  then show ?thesis using w RqLogin by (simp add: keeps_def)
next
  case (RqLogout now cookie)
  have "keeps (\<lambda>w :: ('i, 'v, 't, 'a, 'b) app_world. admin_ok (wo_tables w)) (logout env now cookie)"
    unfolding logout_def delete_session_def
    by (intro keeps_bindE keeps_auth keeps_iam_call keeps_iam_stmt keeps_retE) (simp add: admin_ok_sessions)
  then show ?thesis using w RqLogout by (simp add: keeps_def)
qed

lemma iam_run_admin:
  "admin_ok (wo_tables w) \<Longrightarrow> admin_ok (wo_tables (fold (iam_serve env) rqs w)) \<or>
     (\<exists>before rq later. rqs = before @ rq # later \<and> locks_last_admin env (fold (iam_serve env) before w) rq)"
proof (induction rqs rule: rev_induct)
  case (snoc rq rqs)
  from snoc.IH [OF snoc.prems] show ?case
  proof (elim disjE exE conjE)
    assume "admin_ok (wo_tables (fold (iam_serve env) rqs w))"
    from iam_serve_admin [OF this, of env rq] show ?thesis by auto
  next
    fix before q later
    assume "rqs = before @ q # later" "locks_last_admin env (fold (iam_serve env) before w) q"
    then have "rqs @ [rq] = before @ q # (later @ [rq])" "locks_last_admin env (fold (iam_serve env) before w) q" by simp_all
    then show ?thesis by blast
  qed
qed simp

text \<open>C22: an enabled admin remains, except for one hole. Whatever requests are made one after the other (creating
  users, setting a status to any text, granting and revoking roles, logins, logouts, password changes,
  by anyone, with database faults anywhere), a system whose roles have distinct ids and that has an active admin keeps one, unless a request of the
  sequence set the status \<open>locked\<close> for the only active admin and succeeded: the guard of the last admin covers disabling and revoking, not locking.\<close>

theorem last_admin_kept:
  assumes "distinct (map ro_id (it_roles (wo_tables w)))" "active_admin (wo_tables w) x"
  shows "(\<exists>y. active_admin (wo_tables (fold (iam_serve env) rqs w)) y) \<or>
    (\<exists>before now cookie u later. rqs = before @ RqStatus now cookie u ''locked'' # later \<and>
       fst (iam_set_user_status env now cookie u ''locked'' (fold (iam_serve env) before w)) = Ok () \<and>
       (\<forall>y. active_admin (wo_tables (fold (iam_serve env) before w)) y \<longrightarrow> us_id y = u))"
proof -
  have "admin_ok (wo_tables w)" using assms by (auto simp: admin_ok_def)
  from iam_run_admin [OF this, of env rqs] show ?thesis
    unfolding admin_ok_def locks_last_admin_def by blast
qed

section \<open>Access\<close>

lemma iam_stmt_faults: "db_faults d = [] \<Longrightarrow> iam_stmt ctx f d = (Ok (fst (f (db_tables d))), d\<lparr>db_tables := snd (f (db_tables d))\<rparr>)"
  by (simp add: iam_stmt_def db_stmt_def split: prod.splits)

lemma iam_stmt_tables_eq:
  "db_faults d = db_faults e \<Longrightarrow> fst (f (db_tables d)) = fst (f (db_tables e)) \<Longrightarrow>
   fst (iam_stmt ctx f d) = fst (iam_stmt ctx f e)"
  by (auto simp: iam_stmt_def db_stmt_def split: list.splits option.splits prod.splits)

text \<open>Who is let in depends on the tables through the sessions alone.\<close>

lemma authenticate_sessions:
  assumes "it_sessions (wo_tables w) = it_sessions (wo_tables v)" "db_faults (wo_iam w) = db_faults (wo_iam v)"
  shows "fst (authenticate_headers env now cookie w) = fst (authenticate_headers env now cookie v)"
proof (cases "Option.bind (Option.bind cookie cookie_token) (validate_jwt (app_crypto env) (app_jwt_secret env) now)")
  case None
  then show ?thesis by (simp add: authenticate_headers_def)
next
  case (Some cl)
  have "fst (find_valid_session now (cm_session_id cl) (wo_iam w)) = fst (find_valid_session now (cm_session_id cl) (wo_iam v))"
    unfolding find_valid_session_def using assms by (intro iam_stmt_tables_eq) simp_all
  then show ?thesis
    using Some by (auto simp: authenticate_headers_def on_iam_def split: prod.splits result.splits option.splits)
qed

lemma require_some_role_sessions:
  assumes "it_sessions (wo_tables w) = it_sessions (wo_tables v)" "db_faults (wo_iam w) = db_faults (wo_iam v)"
  shows "fst (require_some_role env now cookie P w) = fst (require_some_role env now cookie P v)"
  using authenticate_sessions [OF assms, of env now cookie]
  by (auto simp: require_some_role_def require_authenticated_def bindE_def retE_def failE_def ok_or_def
      split: prod.splits result.splits option.splits if_splits)

lemma authenticate_Some:
  assumes "authenticate_headers env now cookie w = (Some cl, w')"
  shows "\<exists>s \<in> set (it_sessions (wo_tables w)). se_id s = cm_session_id cl \<and> now < se_expires_at s"
proof -
  obtain u d where "find_valid_session now (cm_session_id cl) (wo_iam w) = (Ok (Some u), d)"
    using assms by (auto simp: authenticate_headers_def on_iam_def split: option.splits prod.splits result.splits)
  then have "find (\<lambda>s. se_id s = cm_session_id cl \<and> now < se_expires_at s) (it_sessions (wo_tables w)) \<noteq> None"
    unfolding find_valid_session_def by (auto dest!: iam_stmt_Ok simp: eq_commute [of "Some u"])
  then show ?thesis by (auto simp: find_None_iff)
qed

lemma login_Ok:
  assumes "login_action env now sid username password w = (Ok c, w')"
  shows "\<exists>x \<in> set (it_users (wo_tables w)). us_username x = username \<and> us_status x = ''active'' \<and>
    bcrypt_verify (app_crypto env) password (us_password_hash x) \<and>
    c = ''daimon_token='' @ create_jwt (app_crypto env) (app_jwt_secret env) now username (us_id x) (user_roles (wo_tables w) (us_id x)) sid @
         ''; HttpOnly; Secure; SameSite=Lax; Path=/; Max-Age=86400'' \<and>
    it_sessions (wo_tables w') = it_sessions (wo_tables w) @ [\<lparr>se_id = sid, se_user_id = us_id x, se_expires_at = now + 86400000\<rparr>] \<and>
    sid \<notin> se_id ` set (it_sessions (wo_tables w))"
proof -
  obtain user w1 w2 where u: "iam_call ''find_user'' (find_user username) w = (Ok (Some user), w1)"
    and a: "ui_status user = ''active''" "bcrypt_verify (app_crypto env) password (ui_password_hash user)"
    and i: "iam_call ''insert_session'' (insert_session sid (ui_id user) (now + 86400 * 1000)) w1 = (Ok (), w')"
    and c: "c = ''daimon_token='' @ create_jwt (app_crypto env) (app_jwt_secret env) now username (ui_id user) (ui_roles user) sid @
         ''; HttpOnly; Secure; SameSite=Lax; Path=/; Max-Age=86400''"
    using assms unfolding login_action_def bindE_Ok_iff
    by (auto simp: liftE_def ok_or_def bindE_Ok_iff failE_def retE_def split: if_splits option.splits)
  obtain d1 where f: "find_user username (wo_iam w) = (Ok (Some user), d1)" "w1 = w\<lparr>wo_iam := d1\<rparr>"
    using u by (auto simp: iam_call_def mapE_Ok_iff on_iam_def split: prod.splits)
  have t: "db_tables d1 = wo_tables w" using iam_stmt_Ok [OF f(1) [unfolded find_user_def]] by simp
  obtain x where x: "find (\<lambda>x. us_username x = username) (it_users (wo_tables w)) = Some x"
    "user = \<lparr>ui_id = us_id x, ui_username = us_username x, ui_password_hash = us_password_hash x,
       ui_status = us_status x, ui_roles = user_roles (wo_tables w) (us_id x)\<rparr>"
    using iam_stmt_Ok [OF f(1) [unfolded find_user_def]] by (auto simp: eq_commute [of "Some user"])
  have "x \<in> set (it_users (wo_tables w)) \<and> us_username x = username" using x(1) by (auto simp: find_Some_iff)
  moreover obtain d2 where d2: "insert_session sid (ui_id user) (now + 86400 * 1000) d1 = (Ok (), d2)" "w' = w1\<lparr>wo_iam := d2\<rparr>"
    using i f(2) by (auto simp: iam_call_def mapE_Ok_iff on_iam_def split: prod.splits)
  moreover have "it_sessions (db_tables d2) = it_sessions (wo_tables w) @ [\<lparr>se_id = sid, se_user_id = us_id x, se_expires_at = now + 86400000\<rparr>]
      \<and> sid \<notin> se_id ` set (it_sessions (wo_tables w))"
    using iam_try_Ok [OF d2(1) [unfolded insert_session_def]] t x(2)
    by (auto simp: eq_commute [of _ "db_tables d2"] split: if_splits)
  ultimately show ?thesis using a c x(2) by auto
qed
lemma in_map_imageE: "x \<in> set (map f xs) \<Longrightarrow> (\<And>y. x = f y \<Longrightarrow> thesis) \<Longrightarrow> thesis"
  by auto

text \<open>C23: a disabled account is out at once: after an admin has set an account to any status but active,
  no request is authenticated by a session of that account, whatever token it carries, and no
  login under any name gives a session for it.\<close>

theorem disabled_locked_out:
  assumes "iam_set_user_status env now cookie u status w = (Ok (), w1)" "status \<noteq> ''active''"
  shows "(authenticate_headers env now2 cookie2 w1 = (Some cl, w2) \<longrightarrow>
      (\<exists>s \<in> set (it_sessions (wo_tables w1)). se_id s = cm_session_id cl \<and> se_user_id s \<noteq> u)) \<and>
    (login_action env now2 sid username password w1 = (Ok c, w2) \<longrightarrow>
      (\<exists>s \<in> set (it_sessions (wo_tables w2)). se_id s = sid \<and> se_user_id s \<noteq> u))"
proof -
  obtain d d1 where d: "db_set_user_status u status d = (Ok (), d1)" "wo_tables w1 = db_tables d1"
    using assms(1) unfolding iam_set_user_status_def
    by (auto simp: bindE_Ok_iff iam_call_def mapE_Ok_iff on_iam_def modifyE_def split: prod.splits)
  have t: "wo_tables w1 = (update_user u (\<lambda>x. x\<lparr>us_status := status\<rparr>) (db_tables d))
      \<lparr>it_sessions := filter (\<lambda>s. se_user_id s \<noteq> u) (it_sessions (db_tables d))\<rparr>"
    using db_set_user_status_tables [OF d(1)] d(2) by simp
  have "se_user_id s \<noteq> u" if "s \<in> set (it_sessions (wo_tables w1))" for s using that by (simp add: t)
  moreover have "us_id x \<noteq> u" if x: "x \<in> set (it_users (wo_tables w1))" "us_status x = ''active''" for x
  proof -
    let ?f = "\<lambda>y. if us_id y = u then y\<lparr>us_status := status\<rparr> else y"
    have "x \<in> set (map ?f (it_users (db_tables d)))" using x(1) by (simp add: t update_user_def del: set_map)
    then obtain y where y: "x = ?f y" by (rule in_map_imageE)
    show ?thesis
    proof (cases "us_id y = u")
      case True
      then have "us_status x = status" by (simp add: y)
      then show ?thesis using x(2) assms(2) by simp
    qed (simp add: y)
  qed
  moreover have "\<exists>x \<in> set (it_users (wo_tables w1)). us_status x = ''active'' \<and>
      it_sessions (wo_tables w2) = it_sessions (wo_tables w1) @ [\<lparr>se_id = sid, se_user_id = us_id x, se_expires_at = now2 + 86400000\<rparr>]"
    if "login_action env now2 sid username password w1 = (Ok c, w2)"
    using login_Ok [OF that] by (elim bexE conjE) (intro bexI conjI)
  ultimately have "\<exists>s \<in> set (it_sessions (wo_tables w2)). se_id s = sid \<and> se_user_id s \<noteq> u"
    if "login_action env now2 sid username password w1 = (Ok c, w2)"
    using that by fastforce
  moreover have "\<exists>s \<in> set (it_sessions (wo_tables w1)). se_id s = cm_session_id cl \<and> se_user_id s \<noteq> u"
    if "authenticate_headers env now2 cookie2 w1 = (Some cl, w2)"
    using authenticate_Some [OF that] by (auto simp: t)
  ultimately show ?thesis by blast
qed

lemma cookie_token_single:
  assumes "list_all (\<lambda>x. is_ascii_alphanumeric x \<or> x \<in> set ''-_.'') tok"
  shows "cookie_token (''daimon_token='' @ tok) = Some tok"
proof -
  have ok: "\<not> is_whitespace x \<and> x \<noteq> CHR '';''" if "is_ascii_alphanumeric x \<or> x \<in> set ''-_.''" for x
    using that by (auto simp: is_ascii_alphanumeric_def is_digit_def is_whitespace_def char_code_def)
  have "trim (''daimon_token='' @ tok) = ''daimon_token='' @ tok"
  proof (cases tok rule: rev_cases)
    case Nil
    show ?thesis unfolding Nil by code_simp
  next
    case (snoc ys y)
    then have "\<not> is_whitespace y" using assms ok by simp
    then show ?thesis using snoc by (simp add: trim_def is_whitespace_def [of "CHR ''d''"] char_code_def)
  qed
  moreover have "CHR '';'' \<notin> set (''daimon_token='' @ tok)"
    using assms ok by (auto simp: list_all_iff)
  ultimately show ?thesis unfolding cookie_token_def by (simp add: split_on_fresh del: append.simps)
qed

text \<open>The round trip of a login: the cookie a successful login sets authenticates, for a day, as the
  user who logged in with the roles the account has, as long as its session row is there and the
  database answers.\<close>

lemma login_authenticates:
  assumes "jwt_sound (app_crypto env)" "login_action env now sid username password w = (Ok c, w1)"
    "now2 div 1000 < now div 1000 + 86400" "now2 < now + 86400000"
    "db_faults (wo_iam w2) = []" "set (it_sessions (wo_tables w1)) \<subseteq> set (it_sessions (wo_tables w2))"
  shows "\<exists>cl tok x. starts_with (''daimon_token='' @ tok @ '';'') c \<and> x \<in> set (it_users (wo_tables w)) \<and> us_username x = username \<and>
    us_status x = ''active'' \<and>
    fst (authenticate_headers env now2 (Some (''daimon_token='' @ tok)) w2) = Some cl \<and> cm_sub cl = username \<and>
    cm_user_id cl = us_id x \<and> cm_roles cl = user_roles (wo_tables w) (us_id x) \<and> cm_session_id cl = sid"
proof -
  obtain x where x: "x \<in> set (it_users (wo_tables w))" "us_username x = username" "us_status x = ''active''"
    and c: "c = ''daimon_token='' @ create_jwt (app_crypto env) (app_jwt_secret env) now username (us_id x) (user_roles (wo_tables w) (us_id x)) sid @
         ''; HttpOnly; Secure; SameSite=Lax; Path=/; Max-Age=86400''"
    and s: "it_sessions (wo_tables w1) = it_sessions (wo_tables w) @ [\<lparr>se_id = sid, se_user_id = us_id x, se_expires_at = now + 86400000\<rparr>]"
    using login_Ok [OF assms(2)] by blast
  define tok where "tok = create_jwt (app_crypto env) (app_jwt_secret env) now username (us_id x) (user_roles (wo_tables w) (us_id x)) sid"
  define cl where "cl = \<lparr>cm_sub = username, cm_user_id = us_id x,
     cm_role = (case user_roles (wo_tables w) (us_id x) of r # _ \<Rightarrow> r | [] \<Rightarrow> ''operator''),
     cm_roles = user_roles (wo_tables w) (us_id x), cm_exp = now div 1000 + 86400, cm_session_id = sid\<rparr>"
  have "starts_with (''daimon_token='' @ tok @ '';'') c" unfolding c tok_def [symmetric] by (simp add: starts_with_iff)
  moreover have "cookie_token (''daimon_token='' @ tok) = Some tok"
    using assms(1) by (intro cookie_token_single) (simp add: jwt_sound_def tok_def create_jwt_def)
  moreover have "validate_jwt (app_crypto env) (app_jwt_secret env) now2 tok = Some cl"
    using assms(1,3) by (simp add: jwt_sound_def validate_jwt_def tok_def create_jwt_def cl_def)
  moreover have "find (\<lambda>s. se_id s = sid \<and> now2 < se_expires_at s) (it_sessions (wo_tables w2)) \<noteq> None"
    using assms(4,6) s
    by (auto simp: find_None_iff intro!: exI [of _ "\<lparr>se_id = sid, se_user_id = us_id x, se_expires_at = now + 86400000\<rparr>"])
  moreover have "cm_sub cl = username" "cm_user_id cl = us_id x" "cm_roles cl = user_roles (wo_tables w) (us_id x)" "cm_session_id cl = sid"
    by (simp_all add: cl_def)
  ultimately show ?thesis using x
    by (intro exI [of _ cl] exI [of _ tok] exI [of _ x])
      (auto simp: authenticate_headers_def on_iam_def find_valid_session_def iam_stmt_faults assms(5) simp del: append.simps)
qed

text \<open>A revoked role stays in force: until the token expires, the checks read the roles in it.\<close>

lemma revoke_keeps_sessions:
  "keeps (\<lambda>w. it_sessions (wo_tables w) = ss) (iam_revoke_role env now cookie u slug)"
  unfolding iam_revoke_role_def db_revoke_role_def
  by (intro keeps_bindE keeps_admin keeps_last_admin_check keeps_iam_call keeps_iam_stmt keeps_audit) (simp add: revoke_slug_def)

lemma revoked_role_still_used:
  assumes "iam_revoke_role env now cookie u slug w = (r, w1)" "db_faults (wo_iam w) = db_faults (wo_iam w1)"
  shows "fst (require_role env now2 cookie2 s w1) = fst (require_role env now2 cookie2 s w)"
  unfolding require_role_def
  using keepsD [OF revoke_keeps_sessions refl assms(1)] assms(2) by (intro require_some_role_sessions) simp_all
section \<open>Witnesses\<close>

text \<open>A token scheme that satisfies what is relied on: the claims as a number.\<close>

definition ex_crypto :: crypto where
  "ex_crypto =
     \<lparr>jwt_encode = \<lambda>_ c. show_nat (to_nat (cm_sub c, cm_user_id c, cm_role c, cm_roles c, cm_exp c, cm_session_id c)),
      jwt_decode = \<lambda>_ now tok. Option.bind (parse_digits tok) (\<lambda>n.
        case from_nat n of (s, u, r, rs, e, i) \<Rightarrow>
          if now < e then Some \<lparr>cm_sub = s, cm_user_id = u, cm_role = r, cm_roles = rs, cm_exp = e, cm_session_id = i\<rparr> else None),
      bcrypt_hash = (\<lambda>salt p. salt @ p),
      bcrypt_verify = (\<lambda>p h. h = ''s'' @ p)\<rparr>"

lemma ex_crypto_sound: "jwt_sound ex_crypto"
  unfolding jwt_sound_def ex_crypto_def using show_nat_digits
  by (auto simp: list_all_iff is_ascii_alphanumeric_def)

definition ex_app :: "(mem_inventory, stub_vault, stub_record list, audit_db) app_env" where
  "ex_app = \<lparr>app_crypto = ex_crypto, app_jwt_secret = ''k'', app_broker = ex_broker\<rparr>"

definition ex_iam :: iam_tables where
  "ex_iam =
     \<lparr>it_users = [\<lparr>us_id = ''u-1'', us_username = ''root'', us_email = None, us_password_hash = ''spw'', us_status = ''active'',
        us_last_login_at = None\<rparr>,
        \<lparr>us_id = ''u-2'', us_username = ''eve'', us_email = None, us_password_hash = ''spw'', us_status = ''active'',
        us_last_login_at = None\<rparr>],
      it_roles = [\<lparr>ro_id = ''r-1'', ro_slug = ''admin'', ro_is_system = True\<rparr>], it_grants = [(''u-1'', ''r-1'')],
      it_sessions = [], it_identities = [], it_deliveries = []\<rparr>"

definition ex_app_world :: "(mem_inventory, stub_vault, stub_record list, audit_db, in_proc_bus) app_world" where
  "ex_app_world = \<lparr>wo_iam = db_of ex_iam, wo_broker = ex_world ''s3cret''\<rparr>"

definition ex_session :: "(mem_inventory, stub_vault, stub_record list, audit_db, in_proc_bus) app_world" where
  "ex_session = snd (login_action ex_app 5000 ''s-1'' ''root'' ''pw'' ex_app_world)"

definition ex_cookie :: string where
  "ex_cookie = ''daimon_token='' @ create_jwt ex_crypto ''k'' 5000 ''root'' ''u-1'' [''admin''] ''s-1''"

lemma ex_user_roles: "user_roles ex_iam ''u-1'' = [''admin'']"
  by (simp add: user_roles_def ex_iam_def)

lemma ex_login:
  "login_action ex_app 5000 ''s-1'' ''root'' ''pw'' ex_app_world =
     (Ok (ex_cookie @ ''; HttpOnly; Secure; SameSite=Lax; Path=/; Max-Age=86400''), ex_session)"
  "ex_session = \<lparr>wo_iam = db_of (ex_iam\<lparr>it_sessions := [\<lparr>se_id = ''s-1'', se_user_id = ''u-1'', se_expires_at = 86405000\<rparr>]\<rparr>),
     wo_broker = ex_world ''s3cret''\<rparr>"
proof -
  have "find_user ''root'' (db_of ex_iam) =
      (Ok (Some \<lparr>ui_id = ''u-1'', ui_username = ''root'', ui_password_hash = ''spw'', ui_status = ''active'', ui_roles = [''admin'']\<rparr>), db_of ex_iam)"
    by (simp add: find_user_def iam_stmt_def db_stmt_db_of) (simp add: ex_iam_def ex_user_roles [unfolded ex_iam_def])
  moreover have "insert_session ''s-1'' ''u-1'' 86405000 (db_of ex_iam) =
      (Ok (), db_of (ex_iam\<lparr>it_sessions := [\<lparr>se_id = ''s-1'', se_user_id = ''u-1'', se_expires_at = 86405000\<rparr>]\<rparr>))"
    by (simp add: insert_session_def iam_try_def iam_stmt_def bindE_def liftE_def ok_or_def db_stmt_db_of ex_iam_def)
  ultimately show "login_action ex_app 5000 ''s-1'' ''root'' ''pw'' ex_app_world =
     (Ok (ex_cookie @ ''; HttpOnly; Secure; SameSite=Lax; Path=/; Max-Age=86400''), ex_session)"
    "ex_session = \<lparr>wo_iam = db_of (ex_iam\<lparr>it_sessions := [\<lparr>se_id = ''s-1'', se_user_id = ''u-1'', se_expires_at = 86405000\<rparr>]\<rparr>),
     wo_broker = ex_world ''s3cret''\<rparr>"
    unfolding ex_session_def ex_cookie_def login_action_def
    by (simp_all add: bindE_def liftE_def ok_or_def iam_call_def on_iam_def ex_app_world_def ex_app_def ex_crypto_def retE_def)
qed
lemma ex_admin:
  assumes "now < 86405000"
  shows "require_admin ex_app now (Some ex_cookie) ex_session =
    (Ok \<lparr>cm_sub = ''root'', cm_user_id = ''u-1'', cm_role = ''admin'', cm_roles = [''admin''], cm_exp = 86405, cm_session_id = ''s-1''\<rparr>, ex_session)"
proof -
  have t: "cookie_token ex_cookie = Some (create_jwt ex_crypto ''k'' 5000 ''root'' ''u-1'' [''admin''] ''s-1'')"
    unfolding ex_cookie_def create_jwt_def using ex_crypto_sound by (intro cookie_token_single) (simp only: jwt_sound_def)
  have "now div 1000 < 86405" using assms by (simp add: div_less_iff_less_mult)
  then have "validate_jwt ex_crypto ''k'' now (create_jwt ex_crypto ''k'' 5000 ''root'' ''u-1'' [''admin''] ''s-1'') =
    Some \<lparr>cm_sub = ''root'', cm_user_id = ''u-1'', cm_role = ''admin'', cm_roles = [''admin''], cm_exp = 86405, cm_session_id = ''s-1''\<rparr>"
    using ex_crypto_sound unfolding validate_jwt_def create_jwt_def by (simp add: jwt_sound_def)
  then show ?thesis
    unfolding require_admin_def require_some_role_def require_authenticated_def authenticate_headers_def
    using t assms
    by (simp add: ex_app_def on_iam_def find_valid_session_def iam_stmt_def db_stmt_db_of ex_login(2) bindE_def ok_or_def retE_def)
qed

lemma ex_disable_eve:
  "\<exists>w. iam_set_user_status ex_app 6000 (Some ex_cookie) ''u-2'' ''disabled'' ex_session = (Ok (), w) \<and>
     db_faults (wo_iam w) = [] \<and> it_sessions (wo_tables w) = it_sessions (wo_tables ex_session)"
proof -
  let ?w = "ex_session"
  have "last_admin_check True ''u-2'' m ?w = (Ok (), ?w)" for m
    by (simp add: last_admin_check_def enabled_admin_count_excluding_def iam_call_def on_iam_def iam_stmt_def db_stmt_db_of ex_login(2)
        bindE_def retE_def failE_def admin_rows_def ex_iam_def)
  moreover have "\<exists>d. db_set_user_status ''u-2'' ''disabled'' (wo_iam ?w) = (Ok (), d) \<and> db_faults d = [] \<and>
      it_sessions (db_tables d) = it_sessions (wo_tables ?w)"
    by (simp add: ex_login(2) db_set_user_status_def iam_txn_def iam_try_def iam_stmt_def db_stmt_db_of bindE_def liftE_def ok_or_def
        STATUSES_def update_user_def db_of_def db_stmt_def)
  ultimately show ?thesis
    using ex_admin [of 6000] by (auto simp: iam_set_user_status_def bindE_def iam_call_def on_iam_def modifyE_def)
qed

theorem last_admin_kept_witness:
  "\<exists>y. active_admin (wo_tables (fold (iam_serve ex_app)
     [RqStatus 6000 (Some ex_cookie) ''u-2'' ''disabled'', RqStatus 6001 (Some ex_cookie) ''u-1'' ''disabled'',
      RqRevoke 6002 (Some ex_cookie) ''u-1'' ''admin''] ex_session)) y"
proof -
  have "active_admin (wo_tables ex_session) (it_users ex_iam ! 0)" "distinct (map ro_id (it_roles (wo_tables ex_session)))"
    by (simp_all add: ex_login(2) active_admin_def ex_iam_def db_of_def)
  from last_admin_kept [OF this(2,1), of ex_app "[RqStatus 6000 (Some ex_cookie) ''u-2'' ''disabled'',
      RqStatus 6001 (Some ex_cookie) ''u-1'' ''disabled'', RqRevoke 6002 (Some ex_cookie) ''u-1'' ''admin'']"]
  show ?thesis
  proof (elim disjE exE conjE)
    fix before now cookie u later
    assume "[RqStatus 6000 (Some ex_cookie) ''u-2'' ''disabled'', RqStatus 6001 (Some ex_cookie) ''u-1'' ''disabled'',
        RqRevoke 6002 (Some ex_cookie) ''u-1'' ''admin''] = before @ RqStatus now cookie u ''locked'' # later"
    then have "RqStatus now cookie u ''locked'' \<in> set [RqStatus 6000 (Some ex_cookie) ''u-2'' ''disabled'',
        RqStatus 6001 (Some ex_cookie) ''u-1'' ''disabled'', RqRevoke 6002 (Some ex_cookie) ''u-1'' ''admin'']" by simp
    then show ?thesis by simp
  qed blast
qed

theorem disabled_locked_out_witness:
  "\<exists>w v cl s. iam_set_user_status ex_app 6000 (Some ex_cookie) ''u-2'' ''disabled'' ex_session = (Ok (), w) \<and>
     authenticate_headers ex_app 7000 (Some ex_cookie) w = (Some cl, v) \<and> s \<in> set (it_sessions (wo_tables w)) \<and>
     se_id s = cm_session_id cl \<and> se_user_id s \<noteq> ''u-2''"
proof -
  obtain w where w: "iam_set_user_status ex_app 6000 (Some ex_cookie) ''u-2'' ''disabled'' ex_session = (Ok (), w)"
    "db_faults (wo_iam w) = []" "it_sessions (wo_tables w) = it_sessions (wo_tables ex_session)"
    using ex_disable_eve by blast
  obtain c v where a: "authenticate_headers ex_app 7000 (Some ex_cookie) w = (c, v)" by fastforce
  have "fst (require_admin ex_app 7000 (Some ex_cookie) w) = fst (require_admin ex_app 7000 (Some ex_cookie) ex_session)"
    unfolding require_admin_def using w by (intro require_some_role_sessions) (simp_all add: ex_login(2) db_of_def)
  then obtain cl where "c = Some cl"
    using a ex_admin [of 7000]
    by (cases c) (auto simp: require_admin_def require_some_role_def require_authenticated_def bindE_def ok_or_def)
  then show ?thesis using disabled_locked_out [OF w(1), of 7000 "Some ex_cookie" cl v] w(1) a by blast
qed

lemma login_authenticates_example:
  "\<exists>cl tok. fst (authenticate_headers ex_app 7000 (Some (''daimon_token='' @ tok)) ex_session) = Some cl \<and> cm_sub cl = ''root'' \<and>
     cm_session_id cl = ''s-1''"
proof -
  have "jwt_sound (app_crypto ex_app)" "db_faults (wo_iam ex_session) = []"
    using ex_crypto_sound by (simp_all add: ex_app_def ex_login(2) db_of_def)
  then show ?thesis using login_authenticates [OF _ ex_login(1), of 7000 ex_session] by auto
qed

text \<open>The guard reads only \<open>disabled\<close>: locking the last admin goes through.\<close>

lemma lock_last_admin:
  "\<exists>w. iam_set_user_status ex_app 6000 (Some ex_cookie) ''u-1'' ''locked'' ex_session = (Ok (), w) \<and> \<not> active_admin (wo_tables w) x"
proof -
  have "\<exists>d. db_set_user_status ''u-1'' ''locked'' (wo_iam ex_session) = (Ok (), d) \<and> \<not> active_admin (db_tables d) x"
    by (simp add: ex_login(2) db_set_user_status_def iam_txn_def iam_try_def iam_stmt_def db_stmt_db_of bindE_def liftE_def ok_or_def
        STATUSES_def update_user_def db_of_def db_stmt_def active_admin_def ex_iam_def) auto
  then show ?thesis
    using ex_admin [of 6000] by (auto simp: iam_set_user_status_def last_admin_check_def bindE_def retE_def iam_call_def on_iam_def modifyE_def)
qed

end
