(* ===== verification/Settings.thy ===== *)
theory Settings
  imports Iam
begin

text \<open>
  Configuration (\<open>daimon-app\<close>): the store behind the settings page (\<open>db.rs\<close>, table
  \<open>app_config\<close>), the snapshot every runtime read goes through (\<open>config.rs\<close>), the registry of the
  keys the runtime reads (\<open>config_keys.rs\<close>) and the settings server functions
  (\<open>admin_settings.rs\<close>) with the tunables they push (\<open>state.rs\<close>).

  The process environment is a parameter. Probing the backends and asking a release server are
  HTTP calls and are not modelled; their answers are arguments where a function uses them.
\<close>

section \<open>The store\<close>

record config_row =
  cf_key :: string
  cf_value :: json
  cf_is_secret :: bool
  cf_updated_by :: "uuid option"
  cf_updated_at :: millis

definition config_find :: "string \<Rightarrow> config_row list \<Rightarrow> config_row option" where
  "config_find key rows = find (\<lambda>r. cf_key r = key) rows"

definition config_upsert :: "config_row \<Rightarrow> config_row list \<Rightarrow> config_row list" where
  "config_upsert r rows =
     (if list_ex (\<lambda>x. cf_key x = cf_key r) rows then map (\<lambda>x. if cf_key x = cf_key r then r else x) rows else rows @ [r])"

fun fault_text :: "db_fault \<Rightarrow> string" where
  "fault_text (PoolFault e) = e"
| "fault_text (PgFault e) = e"

definition config_stmt :: "string \<Rightarrow> (config_row list \<Rightarrow> 'x \<times> config_row list) \<Rightarrow> (config_row list db, 'x, string) eff" where
  "config_stmt ctx f = mapE (iam_fault ctx) (db_stmt f)"

definition get_config_json :: "string \<Rightarrow> (config_row list db, json option, string) eff" where
  "get_config_json key = config_stmt ''get_config_json'' (\<lambda>t. (map_option cf_value (config_find key t), t))"

definition get_config :: "string \<Rightarrow> (config_row list db, string option, string) eff" where
  "get_config key = config_stmt ''get_config'' (\<lambda>t. (Option.bind (config_find key t) (\<lambda>r. j_as_str (cf_value r)), t))"

definition set_config :: "millis \<Rightarrow> string \<Rightarrow> string \<Rightarrow> (config_row list db, unit, string) eff" where
  "set_config now key val =
     config_stmt ''set_config'' (\<lambda>t. ((), 
       case config_find key t of
         Some r \<Rightarrow> config_upsert (r\<lparr>cf_value := JStr val, cf_updated_at := now\<rparr>) t
       | None \<Rightarrow> config_upsert \<lparr>cf_key = key, cf_value = JStr val, cf_is_secret = False, cf_updated_by = None, cf_updated_at = now\<rparr> t))"

section \<open>The snapshot\<close>

type_synonym config_snapshot = "(string, json) hmap"

definition from_pairs :: "(string \<times> json) list \<Rightarrow> config_snapshot" where
  "from_pairs pairs = foldl (\<lambda>m (k, v). hm_insert k v m) [] pairs"

definition env_read :: "(string \<Rightarrow> string option) \<Rightarrow> string option \<Rightarrow> string option" where
  "env_read getenv env = Option.bind env getenv"

definition opt_string :: "(string \<Rightarrow> string option) \<Rightarrow> config_snapshot \<Rightarrow> string \<Rightarrow> string option \<Rightarrow> string option" where
  "opt_string getenv m key env =
     (case Option.bind (map_of m key) j_as_str of
        Some s \<Rightarrow> if s \<noteq> '''' then Some s else (case env_read getenv env of Some t \<Rightarrow> if t = '''' then None else Some t | None \<Rightarrow> None)
      | None \<Rightarrow> (case env_read getenv env of Some t \<Rightarrow> if t = '''' then None else Some t | None \<Rightarrow> None))"

definition config_string :: "(string \<Rightarrow> string option) \<Rightarrow> config_snapshot \<Rightarrow> string \<Rightarrow> string option \<Rightarrow> string \<Rightarrow> string" where
  "config_string getenv m key env dflt = (case opt_string getenv m key env of Some s \<Rightarrow> s | None \<Rightarrow> dflt)"

text \<open>\<open>str::parse\<close> at type \<open>u64\<close>.\<close>

definition parse_u64 :: "string \<Rightarrow> nat option" where
  "parse_u64 s =
     (case parse_digits (case s of c # t \<Rightarrow> if c = CHR ''+'' then t else s | [] \<Rightarrow> s) of
        Some n \<Rightarrow> if n < 2 ^ 64 then Some n else None
      | None \<Rightarrow> None)"

definition config_u64 :: "(string \<Rightarrow> string option) \<Rightarrow> config_snapshot \<Rightarrow> string \<Rightarrow> string option \<Rightarrow> nat \<Rightarrow> nat" where
  "config_u64 getenv m key env dflt =
     (let from_env = (case Option.bind (env_read getenv env) parse_u64 of Some n \<Rightarrow> n | None \<Rightarrow> dflt)
      in case map_of m key of
           Some v \<Rightarrow>
             (case j_as_u64 v of
                Some n \<Rightarrow> n
              | None \<Rightarrow> (case Option.bind (j_as_str v) parse_u64 of Some n \<Rightarrow> n | None \<Rightarrow> from_env))
         | None \<Rightarrow> from_env)"

definition to_ascii_lower :: "string \<Rightarrow> string" where
  "to_ascii_lower s = map (\<lambda>c. if 65 \<le> char_code c \<and> char_code c \<le> 90 then char_of (char_code c + 32) else c) s"

definition parse_bool :: "string \<Rightarrow> bool option" where
  "parse_bool s =
     (let t = to_ascii_lower (trim s)
      in if t \<in> set [''true'', ''1'', ''yes'', ''on''] then Some True
         else if t \<in> set [''false'', ''0'', ''no'', ''off''] then Some False
         else None)"

definition config_bool :: "(string \<Rightarrow> string option) \<Rightarrow> config_snapshot \<Rightarrow> string \<Rightarrow> string option \<Rightarrow> bool \<Rightarrow> bool" where
  "config_bool getenv m key env dflt =
     (let from_env = (case Option.bind (env_read getenv env) parse_bool of Some b \<Rightarrow> b | None \<Rightarrow> dflt)
      in case map_of m key of
           Some v \<Rightarrow>
             (case j_as_bool v of
                Some b \<Rightarrow> b
              | None \<Rightarrow> (case Option.bind (j_as_str v) parse_bool of Some b \<Rightarrow> b | None \<Rightarrow> from_env))
         | None \<Rightarrow> from_env)"

definition under_prefix :: "string \<Rightarrow> config_snapshot \<Rightarrow> (string \<times> json) list" where
  "under_prefix p m = filter (\<lambda>(k, _). starts_with p k) m"

definition load_snapshot :: "(config_row list db, config_snapshot, string) eff" where
  "load_snapshot = mapE fault_text (db_stmt (\<lambda>t. (from_pairs (map (\<lambda>r. (cf_key r, cf_value r)) t), t)))"

section \<open>The consumed keys\<close>

definition arrow :: string where
  "arrow = [CHR 0xE2, CHR 0x86, CHR 0x92]"

definition ellipsis :: string where
  "ellipsis = [CHR 0xE2, CHR 0x80, CHR 0xA6]"

definition CONSUMED_KEYS :: "(string \<times> string) list" where
  "CONSUMED_KEYS =
     [(''identity.org_name'', ''Organisation name shown in the console header''),
      (''llm.provider'', ''Active LLM provider: anthropic | openai | chatgpt | local''),
      (''llm.default_model.chat'', ''Model for the chat/worker role''),
      (''llm.available_models'', ''Comma-separated models an operator may pick in chat (unset = default only)''),
      (''llm.anthropic_key'', ''Anthropic API key (secret '' @ arrow @ '' vault ref)''),
      (''llm.openai_key'', ''OpenAI API key (secret '' @ arrow @ '' vault ref)''),
      (''llm.ollama_url'', ''Base URL for the local/Ollama provider''),
      (''guard.approval_timeout_secs'', ''Seconds to await an approval before denying''),
      (''guard.blast_radius_depth'', ''Graph traversal depth for the approval blast radius''),
      (''observer.prom_poll_interval_secs'', ''Prometheus poll interval (seconds)''),
      (''channels.telegram.enabled'', ''Enable the Telegram gateway''),
      (''channels.telegram.mode'', ''Telegram ingress mode: poll | webhook''),
      (''channels.telegram.bot_token_cred'', ''Telegram bot token (secret '' @ arrow @ '' vault ref)''),
      (''channels.telegram.webhook_secret_cred'', ''Telegram webhook signing secret credential (webhook mode only)''),
      (''channels.telegram.offset'', ''Telegram getUpdates offset (runtime cursor)''),
      (''channels.matrix.'', ''Matrix gateway configuration (enabled, homeserver, token cred, '' @ ellipsis @ '')''),
      (''channels.alerts.'', ''Outbound alert routing rules (by class + severity '' @ arrow @ '' recipient)''),
      (''targets.'', ''Registered managed targets (target://<name>) + driver/connector binding''),
      (''chat.history_retention_days'', ''Days to retain chat transcripts (0 = forever); independent of the auth-session TTL'')]"

definition READ_ONLY_PREFIXES :: "string list" where
  "READ_ONLY_PREFIXES = [''connections.'', ''vault.'']"

definition is_consumed :: "string \<Rightarrow> bool" where
  "is_consumed key =
     list_ex (\<lambda>(k, _).
       case strip_suffix ''.'' k of
         Some p \<Rightarrow> starts_with p key \<and> length p < length key
       | None \<Rightarrow> key = k) CONSUMED_KEYS"

definition is_read_only_key :: "string \<Rightarrow> bool" where
  "is_read_only_key key = list_ex (\<lambda>p. starts_with p key) READ_ONLY_PREFIXES"

definition consumed_keys_under :: "string \<Rightarrow> (string \<times> string) list" where
  "consumed_keys_under p = filter (\<lambda>(k, _). starts_with p k) CONSUMED_KEYS"

definition MANAGED_LINT_PREFIXES :: "string list" where
  "MANAGED_LINT_PREFIXES = [''identity.'', ''llm.'', ''guard.'', ''observer.'', ''channels.'', ''targets.'']"

definition orphan_keys :: "string list \<Rightarrow> string list" where
  "orphan_keys keys =
     filter (\<lambda>k. list_ex (\<lambda>p. starts_with p k) MANAGED_LINT_PREFIXES \<and> \<not> is_consumed k \<and> \<not> is_read_only_key k) keys"

definition newline :: string where
  "newline = [CHR 10]"

definition quoted :: "string \<Rightarrow> string" where
  "quoted s = CHR 0x60 # s @ [CHR 0x60]"

definition render_reference :: string where
  "render_reference =
     ''# daimon configuration reference'' @ newline @ newline @
     ''Resolution precedence for every key: **DB '' @ quoted ''app_config'' @ '' (operator edit) '' @ arrow @
     '' environment variable '' @ arrow @ '' compiled default** (FR-CFG-02). Bootstrap secrets ('' @ quoted ''DAIMON_PG_URL'' @
     '', master key, '' @ quoted ''DAIMON_DATA_DIR'' @ '') are env/credential-sourced and never in '' @ quoted ''app_config'' @
     '' (FR-CFG-03).'' @ newline @ newline @
     ''## Consumed keys (read by the runtime)'' @ newline @ newline @
     ''| key | description |'' @ newline @ ''|-----|-------------|'' @ newline @
     concat (map (\<lambda>(k, d). ''| '' @ quoted k @ '' | '' @ d @ '' |'' @ newline) CONSUMED_KEYS) @
     newline @ ''## Read-only domains (not runtime-consumed in this build)'' @ newline @ newline @
     concat (map (\<lambda>p. ''- '' @ quoted (p @ ''*'') @ newline) READ_ONLY_PREFIXES)"

section \<open>The console\<close>

record ('i, 'v, 't, 'a) console_env =
  ce_app :: "('i, 'v, 't, 'a) app_env"
  ce_getenv :: "string \<Rightarrow> string option"

record ('i, 'v, 't, 'a, 'b) console =
  co_app :: "('i, 'v, 't, 'a, 'b) app_world"
  co_config :: "config_row list db"
  co_snapshot :: config_snapshot
  co_observer_interval_secs :: nat
  co_update_flag :: "string option"

definition on_app :: "(('i, 'v, 't, 'a, 'b) app_world, 'x, 'e) eff \<Rightarrow> (('i, 'v, 't, 'a, 'b) console, 'x, 'e) eff" where
  "on_app f w = (case f (co_app w) of (r, a) \<Rightarrow> (r, w\<lparr>co_app := a\<rparr>))"

definition on_config :: "(config_row list db, 'x, 'e) eff \<Rightarrow> (('i, 'v, 't, 'a, 'b) console, 'x, 'e) eff" where
  "on_config f w = (case f (co_config w) of (r, d) \<Rightarrow> (r, w\<lparr>co_config := d\<rparr>))"

definition on_broker ::
  "(('i, 'v, 't, 'a, 'b) broker_world, 'x, broker_error) eff \<Rightarrow> (('i, 'v, 't, 'a, 'b) console, 'x, string) eff" where
  "on_broker f = mapE show_broker_error (on_app (\<lambda>a. case f (wo_broker a) of (r, b) \<Rightarrow> (r, a\<lparr>wo_broker := b\<rparr>)))"

definition audit_console ::
  "('i, 'v, 't, 'a) console_env \<Rightarrow> string \<Rightarrow> string \<Rightarrow> (string \<times> string) list \<Rightarrow>
   ('i, 'v, 't, 'a, 'b) console \<Rightarrow> ('i, 'v, 't, 'a, 'b) console" where
  "audit_console env actor summary ms w =
     snd (on_broker (audit_admin_action (app_broker (ce_app env)) actor ActionOther None None (Some summary) (bt_of ms)) w)"

text \<open>\<open>apply_runtime_tunables\<close>: the guard's approval timeout, kept when the value is 0 (a zero
  timeout is refused by the guard), and the poll interval of the observer.\<close>

definition apply_runtime_tunables ::
  "('i, 'v, 't, 'a) console_env \<Rightarrow> ('i, 'v, 't, 'a, 'b) console \<Rightarrow> ('i, 'v, 't, 'a, 'b) console" where
  "apply_runtime_tunables env w =
     (let g = ce_getenv env;
          timeout = config_u64 g (co_snapshot w) ''guard.approval_timeout_secs'' (Some ''DAIMON_APPROVAL_TIMEOUT_SECS'')
                      (unat DEFAULT_APPROVAL_TIMEOUT_SECS);
          interval = config_u64 g (co_snapshot w) ''observer.prom_poll_interval_secs'' (Some ''DAIMON_PROM_POLL_INTERVAL_SECS'') 30;
          set_timeout = (\<lambda>b. if br_policy (app_broker (ce_app env)) = None then b
                              else b\<lparr>bw_guard := set_approval_timeout_secs (word_of_nat timeout) (bw_guard b)\<rparr>)
      in w\<lparr>co_app := (co_app w)\<lparr>wo_broker := set_timeout (wo_broker (co_app w))\<rparr>, co_observer_interval_secs := interval\<rparr>)"

text \<open>\<open>reload\<close>: a failure keeps the old snapshot, and the callers only log it.\<close>

definition config_reload :: "('i, 'v, 't, 'a, 'b) console \<Rightarrow> ('i, 'v, 't, 'a, 'b) console" where
  "config_reload w =
     (case on_config load_snapshot w of
        (Ok m, w') \<Rightarrow> w'\<lparr>co_snapshot := m\<rparr>
      | (Err e, w') \<Rightarrow> w')"

section \<open>The settings page\<close>

record setting_row =
  sr_key :: string
  sr_value :: json
  sr_is_secret :: bool
  sr_updated_at :: string

fun show_jnum :: "jnum \<Rightarrow> string" where
  "show_jnum (JPos n) = show_nat n"
| "show_jnum (JNeg i) = show_int i"
| "show_jnum (JFloat s) = s"

fun secret_text :: "json \<Rightarrow> string option" where
  "secret_text (JStr s) = Some s"
| "secret_text (JNum n) = Some (show_jnum n)"
| "secret_text (JBool b) = Some (if b then ''true'' else ''false'')"
| "secret_text _ = None"

text \<open>What one vault write of the page draws: an id for a new credential, a nonce, the clock
  and the latencies the broker logs.\<close>

record vault_draw =
  vd_id :: uuid
  vd_nonce :: bytes
  vd_now :: millis
  vd_latency :: "64 word"

definition intercept_secret ::
  "('i, pg_vault, 't, 'a) console_env \<Rightarrow> vault_draw \<Rightarrow> string \<Rightarrow> string \<Rightarrow> string \<Rightarrow>
   (('i, pg_vault, 't, 'a, 'b) console, unit, string) eff" where
  "intercept_secret env d actor vault_name plaintext =
     (let br = app_broker (ce_app env)
      in bindE (on_broker (admin_vault_list_metadata br actor (vd_latency d))) (\<lambda>existing.
         case find (\<lambda>m. cm_name m = vault_name) existing of
           Some m \<Rightarrow> on_broker (admin_vault_update br (vd_nonce d) (vd_now d) actor (cm_id m) (ApiToken plaintext) (vd_latency d))
         | None \<Rightarrow> bindE (on_broker (admin_vault_create br (vd_nonce d) (vd_id d) (vd_now d) actor vault_name (ApiToken plaintext) (vd_latency d)))
                     (\<lambda>_. retE ())))"

definition get_config_reference ::
  "('i, 'v, 't, 'a) console_env \<Rightarrow> millis \<Rightarrow> string option \<Rightarrow> (('i, 'v, 't, 'a, 'b) console, string, string) eff" where
  "get_config_reference env now cookie = bindE (on_app (require_authenticated (ce_app env) now cookie)) (\<lambda>_. retE render_reference)"

text \<open>The pool is asked for a connection first, then the statement runs on it.\<close>

definition console_pool :: "(('i, 'v, 't, 'a, 'b) console, unit, string) eff" where
  "console_pool = on_config (mapE (\<lambda>f. ''pool: '' @ fault_text f) (db_stmt (\<lambda>t. ((), t))))"

definition console_stmt :: "string \<Rightarrow> (config_row list \<Rightarrow> 'x \<times> config_row list) \<Rightarrow> (('i, 'v, 't, 'a, 'b) console, 'x, string) eff" where
  "console_stmt name f = on_config (mapE (\<lambda>e. name @ '': '' @ fault_text e) (db_stmt f))"

text \<open>\<open>like\<close> is the pattern match of the database.\<close>

definition list_settings ::
  "('i, 'v, 't, 'a) console_env \<Rightarrow> (string \<Rightarrow> string \<Rightarrow> bool) \<Rightarrow> (millis \<Rightarrow> string) \<Rightarrow> millis \<Rightarrow> string option \<Rightarrow> string \<Rightarrow>
   (('i, 'v, 't, 'a, 'b) console, setting_row list, string) eff" where
  "list_settings env like rfc3339 now cookie pre =
     bindE (on_app (require_admin (ce_app env) now cookie)) (\<lambda>_.
     bindE console_pool (\<lambda>_.
     console_stmt ''query'' (\<lambda>t.
       (map (\<lambda>r. \<lparr>sr_key = cf_key r, sr_value = cf_value r, sr_is_secret = cf_is_secret r, sr_updated_at = rfc3339 (cf_updated_at r)\<rparr>)
          (sort_key cf_key (filter (\<lambda>r. like (pre @ ''%'') (cf_key r)) t)), t))))"

definition persist_value ::
  "('i, pg_vault, 't, 'a) console_env \<Rightarrow> vault_draw \<Rightarrow> string \<Rightarrow> string \<Rightarrow> json \<Rightarrow> bool \<Rightarrow>
   (('i, pg_vault, 't, 'a, 'b) console, json, string) eff" where
  "persist_value env d actor key val is_secret =
     (if \<not> is_secret then retE val
      else (case secret_text val of
              Some txt \<Rightarrow>
                if starts_with ''vault://'' txt then retE (JStr txt)
                else if txt \<noteq> '''' then
                  bindE (mapE (\<lambda>e. ''vault store: '' @ e) (intercept_secret env d actor (''settings.'' @ key) txt)) (\<lambda>_.
                  retE (JStr (''vault://'' @ ''settings.'' @ key)))
                else retE (JStr '''')
            | None \<Rightarrow> retE (JStr '''')))"

definition show_bool :: "bool \<Rightarrow> string" where
  "show_bool b = (if b then ''true'' else ''false'')"

definition set_setting ::
  "('i, pg_vault, 't, 'a) console_env \<Rightarrow> vault_draw \<Rightarrow> millis \<Rightarrow> string option \<Rightarrow> string \<Rightarrow> json \<Rightarrow> bool \<Rightarrow>
   (('i, pg_vault, 't, 'a, 'b) console, unit, string) eff" where
  "set_setting env d now cookie key val is_secret =
     bindE (on_app (require_admin (ce_app env) now cookie)) (\<lambda>cl.
     bindE console_pool (\<lambda>_.
     bindE (persist_value env d (cm_sub cl) key val is_secret) (\<lambda>v.
     bindE (console_stmt ''upsert'' (\<lambda>t. ((), config_upsert \<lparr>cf_key = key, cf_value = v, cf_is_secret = is_secret,
              cf_updated_by = Some (cm_user_id cl), cf_updated_at = now\<rparr> t))) (\<lambda>_.
     modifyE (\<lambda>w. apply_runtime_tunables env (config_reload (audit_console env (cm_sub cl) (''settings.upsert '' @ key)
       [(''settings.key'', key), (''settings.is_secret'', show_bool is_secret)] w)))))))"

definition delete_setting ::
  "('i, 'v, 't, 'a) console_env \<Rightarrow> millis \<Rightarrow> string option \<Rightarrow> string \<Rightarrow> (('i, 'v, 't, 'a, 'b) console, unit, string) eff" where
  "delete_setting env now cookie key =
     bindE (on_app (require_admin (ce_app env) now cookie)) (\<lambda>cl.
     bindE console_pool (\<lambda>_.
     bindE (console_stmt ''delete'' (\<lambda>t. ((), filter (\<lambda>r. cf_key r \<noteq> key) t))) (\<lambda>_.
     modifyE (\<lambda>w. apply_runtime_tunables env (config_reload (audit_console env (cm_sub cl) (''settings.delete '' @ key)
       [(''settings.key'', key)] w))))))"

section \<open>The update page\<close>

record update_state =
  up_channel :: string
  up_current_version :: string
  up_current_commit :: string
  up_latest_version :: "string option"
  up_latest_tag :: "string option"
  up_last_check_at :: "string option"
  up_pending :: bool
  up_flag_path :: string

definition trim_v :: "string \<Rightarrow> string" where
  "trim_v t = dropWhile (\<lambda>c. c = CHR ''v'') t"

text \<open>The build constants are arguments. On a store without a channel the default is written; the
  write's result is dropped.\<close>

definition get_update_state ::
  "('i, pg_vault, 't, 'a) console_env \<Rightarrow> string \<Rightarrow> string \<Rightarrow> vault_draw \<Rightarrow> millis \<Rightarrow> string option \<Rightarrow>
   (('i, pg_vault, 't, 'a, 'b) console, update_state, string) eff" where
  "get_update_state env version commit d now cookie =
     bindE (on_app (require_admin (ce_app env) now cookie)) (\<lambda>_.
     bindE console_pool (\<lambda>_.
     bindE (console_stmt ''query'' (\<lambda>t. (\<lambda>k. Option.bind (config_find k t) (\<lambda>r. j_as_str (cf_value r)), t))) (\<lambda>val.
     bindE (case val ''update.channel'' of
              Some c \<Rightarrow> retE c
            | None \<Rightarrow> (\<lambda>w. (Ok ''stable'', snd (set_setting env d now cookie ''update.channel'' (JStr ''stable'') False w)))) (\<lambda>channel w.
     (Ok \<lparr>up_channel = channel, up_current_version = version, up_current_commit = commit,
          up_latest_version = map_option trim_v (val ''update.last_check_latest''), up_latest_tag = val ''update.last_check_latest'',
          up_last_check_at = val ''update.last_check_at'', up_pending = (co_update_flag w \<noteq> None),
          up_flag_path = (case ce_getenv env ''DAIMON_UPDATE_FLAG'' of Some p \<Rightarrow> p | None \<Rightarrow> ''/var/lib/daimon/UPDATE_REQUESTED'')\<rparr>, w)))))"

text \<open>The answers of the release servers, decoded.\<close>

fun j_items :: "json \<Rightarrow> json list" where
  "j_items (JArr xs) = xs"
| "j_items _ = []"

definition flag_set :: "string \<Rightarrow> json \<Rightarrow> bool" where
  "flag_set k r = (case Option.bind (j_get k r) j_as_bool of Some b \<Rightarrow> b | None \<Rightarrow> False)"

definition latest_github_release :: "json \<Rightarrow> string option" where
  "latest_github_release body =
     find_map (\<lambda>r. if flag_set ''prerelease'' r \<or> flag_set ''draft'' r then None else j_get_str ''tag_name'' r) (j_items body)"

definition latest_gitlab_release :: "json \<Rightarrow> string option" where
  "latest_gitlab_release body = (case j_items body of r # _ \<Rightarrow> j_get_str ''tag_name'' r | [] \<Rightarrow> None)"

text \<open>\<open>fetch\<close> is the release server of the channel: the decoded answer, or the error text.\<close>

definition check_for_update ::
  "('i, pg_vault, 't, 'a) console_env \<Rightarrow> string \<Rightarrow> string \<Rightarrow> (bool \<Rightarrow> (json, string) result) \<Rightarrow> string \<Rightarrow> vault_draw \<Rightarrow> millis \<Rightarrow> string option \<Rightarrow>
   (('i, pg_vault, 't, 'a, 'b) console, update_state, string) eff" where
  "check_for_update env version commit fetch stamp d now cookie =
     bindE (on_app (require_admin (ce_app env) now cookie)) (\<lambda>_.
     bindE (get_update_state env version commit d now cookie) (\<lambda>st.
     bindE (liftE (if up_channel st = ''beta'' then bind_result (fetch True) (\<lambda>b. Ok (latest_gitlab_release b))
                   else bind_result (fetch False) (\<lambda>b. Ok (latest_github_release b)))) (\<lambda>tag.
     bindE (set_setting env d now cookie ''update.last_check_at'' (JStr stamp) False) (\<lambda>_.
     bindE (case tag of
              Some t \<Rightarrow> set_setting env d now cookie ''update.last_check_latest'' (JStr t) False
            | None \<Rightarrow> retE ()) (\<lambda>_.
     retE (st\<lparr>up_last_check_at := Some stamp, up_latest_tag := tag, up_latest_version := map_option trim_v tag\<rparr>))))))"

text \<open>\<open>fs_ok\<close> says whether the flag file can be written.\<close>

definition apply_update ::
  "('i, pg_vault, 't, 'a) console_env \<Rightarrow> string \<Rightarrow> string \<Rightarrow> (unit, string) result \<Rightarrow> vault_draw \<Rightarrow> millis \<Rightarrow> string option \<Rightarrow>
   (('i, pg_vault, 't, 'a, 'b) console, update_state, string) eff" where
  "apply_update env version commit fs_ok d now cookie =
     bindE (on_app (require_admin (ce_app env) now cookie)) (\<lambda>cl.
     bindE (get_update_state env version commit d now cookie) (\<lambda>us.
     bindE (liftE (ok_or (up_latest_tag us) (''no latest_tag known '' @ em_dash @ '' run check_for_update first''))) (\<lambda>target.
     bindE (liftE (map_err (\<lambda>e. ''write flag: '' @ e) fs_ok)) (\<lambda>_.
     bindE (modifyE (\<lambda>w. w\<lparr>co_update_flag := Some (up_channel us @ newline @ target @ newline)\<rparr>)) (\<lambda>_.
     bindE (modifyE (audit_console env (cm_sub cl) (''update.apply_requested -> '' @ target)
              [(''update.target_tag'', target), (''update.channel'', up_channel us)])) (\<lambda>_.
     retE (us\<lparr>up_pending := True\<rparr>)))))))"

definition cancel_update ::
  "('i, pg_vault, 't, 'a) console_env \<Rightarrow> string \<Rightarrow> string \<Rightarrow> bool \<Rightarrow> vault_draw \<Rightarrow> millis \<Rightarrow> string option \<Rightarrow>
   (('i, pg_vault, 't, 'a, 'b) console, update_state, string) eff" where
  "cancel_update env version commit removed d now cookie =
     bindE (on_app (require_admin (ce_app env) now cookie)) (\<lambda>_.
     bindE (get_update_state env version commit d now cookie) (\<lambda>us.
     bindE (modifyE (\<lambda>w. if removed then w\<lparr>co_update_flag := None\<rparr> else w)) (\<lambda>_.
     retE (us\<lparr>up_pending := False\<rparr>))))"

section \<open>Lemmas\<close>

lemma config_find_map:
  "config_find k (map (\<lambda>x. if cf_key x = cf_key r then r else x) rows) =
     (if k = cf_key r then (if list_ex (\<lambda>x. cf_key x = cf_key r) rows then Some r else None) else config_find k rows)"
  by (induction rows) (auto simp: config_find_def)

lemma config_find_upsert [simp]:
  "config_find k (config_upsert r rows) = (if k = cf_key r then Some r else config_find k rows)"
proof -
  have "config_find (cf_key r) (rows @ [r]) = Some r" if "\<not> list_ex (\<lambda>x. cf_key x = cf_key r) rows"
    using that by (induction rows) (auto simp: config_find_def)
  moreover have "config_find k (rows @ [r]) = config_find k rows" if "k \<noteq> cf_key r"
    using that by (induction rows) (auto simp: config_find_def)
  ultimately show ?thesis by (simp add: config_upsert_def config_find_map)
qed

lemma on_app_config [simp]: "on_app f w = (r, w') \<Longrightarrow> co_config w' = co_config w"
  by (auto simp: on_app_def split: prod.splits)

lemma on_broker_config: "on_broker f w = (r, w') \<Longrightarrow> co_config w' = co_config w"
  unfolding on_broker_def by (cases "on_app (\<lambda>a. case f (wo_broker a) of (r, b) \<Rightarrow> (r, a\<lparr>wo_broker := b\<rparr>)) w") auto

lemma audit_console_config [simp]: "co_config (audit_console env actor summary ms w) = co_config w"
  unfolding audit_console_def by (rule on_broker_config) (rule prod.collapse [symmetric])

lemma apply_runtime_tunables_config [simp]:
  "co_config (apply_runtime_tunables env w) = co_config w" "co_snapshot (apply_runtime_tunables env w) = co_snapshot w"
  by (simp_all add: apply_runtime_tunables_def Let_def)

lemma config_reload_rows [simp]: "db_tables (co_config (config_reload w)) = db_tables (co_config w)"
proof -
  obtain r d where r: "load_snapshot (co_config w) = (r, d)" by fastforce
  then have "db_tables d = db_tables (co_config w)"
    unfolding load_snapshot_def by (cases "db_stmt (\<lambda>t. (from_pairs (map (\<lambda>r. (cf_key r, cf_value r)) t), t)) (co_config w)")
      (auto dest: db_stmt_tables)
  then show ?thesis using r by (cases r) (simp_all add: config_reload_def on_config_def)
qed

text \<open>What a statement of the page does to the rows.\<close>

lemma console_stmt_Ok:
  "console_stmt name f w = (Ok x, w') \<Longrightarrow>
   x = fst (f (db_tables (co_config w))) \<and> db_tables (co_config w') = snd (f (db_tables (co_config w))) \<and> co_app w' = co_app w"
  unfolding console_stmt_def on_config_def
  by (auto simp: mapE_Ok_iff db_stmt_Ok_iff split: prod.splits) (metis fst_conv snd_conv)+

lemma console_pool_rows: "console_pool w = (r, w') \<Longrightarrow> db_tables (co_config w') = db_tables (co_config w) \<and> co_app w' = co_app w"
  unfolding console_pool_def on_config_def
  by (cases "db_stmt (\<lambda>t. ((), t)) (co_config w)") (auto dest: db_stmt_tables)

lemma intercept_secret_config:
  "intercept_secret env d actor name txt w = (r, w') \<Longrightarrow> co_config w' = co_config w"
  unfolding intercept_secret_def Let_def
  by (auto simp: bindE_def retE_def split: prod.splits result.splits option.splits dest!: on_broker_config)

lemma persist_value_config:
  "persist_value env d actor key val s w = (r, w') \<Longrightarrow> co_config w' = co_config w"
  unfolding persist_value_def
  by (auto simp: bindE_def retE_def split: prod.splits result.splits option.splits if_splits dest!: intercept_secret_config)

text \<open>A secret is stored as a reference, or cleared.\<close>

lemma persist_value_secret:
  assumes "persist_value env d actor key val True w = (Ok v, w')"
  shows "\<exists>s. v = JStr s \<and> (s = '''' \<or> s = ''vault://settings.'' @ key \<or> starts_with ''vault://'' s \<and> secret_text val = Some s)"
  using assms unfolding persist_value_def
  by (auto simp: bindE_Ok_iff retE_def simp del: starts_with_def split: option.splits if_splits)

definition stored_for :: "string \<Rightarrow> json \<Rightarrow> bool \<Rightarrow> json \<Rightarrow> bool" where
  "stored_for key val is_secret v \<longleftrightarrow>
     (if is_secret
      then \<exists>s. v = JStr s \<and> (s = '''' \<or> s = ''vault://settings.'' @ key \<or> starts_with ''vault://'' s \<and> secret_text val = Some s)
      else v = val)"

lemma persist_value_stored:
  assumes "persist_value env d actor key val is_secret w = (Ok v, w')"
  shows "stored_for key val is_secret v"
  using assms persist_value_secret [of env d actor key val w v w'] unfolding stored_for_def
  by (cases is_secret) (simp_all add: persist_value_def retE_def)

lemma set_setting_Ok:
  assumes "set_setting env d now cookie key val is_secret w = (Ok (), w')"
  shows "\<exists>u v. stored_for key val is_secret v \<and>
    db_tables (co_config w') = config_upsert \<lparr>cf_key = key, cf_value = v, cf_is_secret = is_secret,
       cf_updated_by = Some u, cf_updated_at = now\<rparr> (db_tables (co_config w))"
proof -
  obtain cl w1 w2 v w3 w4 where s: "on_app (require_admin (ce_app env) now cookie) w = (Ok cl, w1)" "console_pool w1 = (Ok (), w2)"
    "persist_value env d (cm_sub cl) key val is_secret w2 = (Ok v, w3)"
    "console_stmt ''upsert'' (\<lambda>t. ((), config_upsert \<lparr>cf_key = key, cf_value = v, cf_is_secret = is_secret,
        cf_updated_by = Some (cm_user_id cl), cf_updated_at = now\<rparr> t)) w3 = (Ok (), w4)"
    "w' = apply_runtime_tunables env (config_reload (audit_console env (cm_sub cl) (''settings.upsert '' @ key)
       [(''settings.key'', key), (''settings.is_secret'', show_bool is_secret)] w4))"
    using assms unfolding set_setting_def bindE_Ok_iff by (auto simp: modifyE_def)
  have "db_tables (co_config w2) = db_tables (co_config w)"
    using on_app_config [OF s(1)] console_pool_rows [OF s(2)] by simp
  moreover have "co_config w3 = co_config w2" by (rule persist_value_config [OF s(3)])
  ultimately have "db_tables (co_config w') = config_upsert \<lparr>cf_key = key, cf_value = v, cf_is_secret = is_secret,
       cf_updated_by = Some (cm_user_id cl), cf_updated_at = now\<rparr> (db_tables (co_config w))"
    using s(5) console_stmt_Ok [OF s(4)] by simp
  with persist_value_stored [OF s(3)] show ?thesis by blast
qed

text \<open>The snapshot after a load holds what the table holds.\<close>

lemma map_of_from_pairs: "map_of (from_pairs ps) k = map_of (rev ps) k"
proof -
  have "map_of (foldl (\<lambda>m (k, v). hm_insert k v m) m ps) k = (case map_of (rev ps) k of Some v \<Rightarrow> Some v | None \<Rightarrow> map_of m k)" for m
    by (induction ps arbitrary: m) (auto simp: map_add_def hm_insert_get split: option.splits)
  from this [of "[]"] show ?thesis by (simp add: from_pairs_def split: option.splits)
qed

lemma config_find_map_of: "map_option cf_value (config_find k rows) = map_of (map (\<lambda>r. (cf_key r, cf_value r)) rows) k"
  by (induction rows) (auto simp: config_find_def)

lemma loaded_snapshot:
  assumes "distinct (map cf_key rows)"
  shows "map_of (from_pairs (map (\<lambda>r. (cf_key r, cf_value r)) rows)) k = map_option cf_value (config_find k rows)"
proof -
  have "distinct (map fst (map (\<lambda>r. (cf_key r, cf_value r)) rows))" using assms by (simp add: comp_def)
  then show ?thesis unfolding map_of_from_pairs config_find_map_of
    by (metis (no_types, lifting) distinct_rev map_of_inject_set rev_map set_rev)
qed

lemma config_upsert_distinct: "distinct (map cf_key rows) \<Longrightarrow> distinct (map cf_key (config_upsert r rows))"
proof -
  have "map cf_key (map (\<lambda>x. if cf_key x = cf_key r then r else x) rows) = map cf_key rows" by (induction rows) auto
  then show "distinct (map cf_key rows) \<Longrightarrow> distinct (map cf_key (config_upsert r rows))"
    by (auto simp: config_upsert_def list_ex_iff simp del: map_map)
qed

lemma config_reload_nofault:
  "db_faults (co_config w) = [] \<Longrightarrow>
   config_reload w = w\<lparr>co_snapshot := from_pairs (map (\<lambda>r. (cf_key r, cf_value r)) (db_tables (co_config w)))\<rparr>"
  by (simp add: config_reload_def on_config_def load_snapshot_def db_stmt_def)

text \<open>A save ends with a reload and the tunables.\<close>

lemma console_stmt_faults: "console_stmt name f w = (Ok x, w') \<Longrightarrow> db_faults (co_config w) = [] \<Longrightarrow> db_faults (co_config w') = []"
  unfolding console_stmt_def on_config_def by (auto simp: mapE_Ok_iff db_stmt_Ok_iff split: prod.splits)

lemma console_pool_faults: "console_pool w = (Ok x, w') \<Longrightarrow> db_faults (co_config w) = [] \<Longrightarrow> db_faults (co_config w') = []"
  unfolding console_pool_def on_config_def by (auto simp: mapE_Ok_iff db_stmt_Ok_iff split: prod.splits)

lemma set_setting_reloads:
  assumes "set_setting env d now cookie key val is_secret w = (Ok (), w')" "db_faults (co_config w) = []"
  obtains v where "w' = apply_runtime_tunables env (config_reload v)"
    "db_tables (co_config v) = db_tables (co_config w')" "db_faults (co_config v) = []"
proof -
  obtain cl w1 w2 v w3 w4 where s: "on_app (require_admin (ce_app env) now cookie) w = (Ok cl, w1)" "console_pool w1 = (Ok (), w2)"
    "persist_value env d (cm_sub cl) key val is_secret w2 = (Ok v, w3)"
    "console_stmt ''upsert'' (\<lambda>t. ((), config_upsert \<lparr>cf_key = key, cf_value = v, cf_is_secret = is_secret,
        cf_updated_by = Some (cm_user_id cl), cf_updated_at = now\<rparr> t)) w3 = (Ok (), w4)"
    "w' = apply_runtime_tunables env (config_reload (audit_console env (cm_sub cl) (''settings.upsert '' @ key)
       [(''settings.key'', key), (''settings.is_secret'', show_bool is_secret)] w4))"
    using assms(1) unfolding set_setting_def bindE_Ok_iff by (auto simp: modifyE_def)
  have "db_faults (co_config w3) = []"
    using on_app_config [OF s(1)] console_pool_faults [OF s(2)] persist_value_config [OF s(3)] assms(2) by simp
  then have "db_faults (co_config w4) = []" by (rule console_stmt_faults [OF s(4)])
  then show ?thesis using that [OF s(5)] s(5) by simp
qed

section \<open>Lemmas: the vault behind the page\<close>

abbreviation co_vault :: "('i, 'v, 't, 'a, 'b) console \<Rightarrow> 'v" where
  "co_vault w \<equiv> bw_vault (wo_broker (co_app w))"

text \<open>An administrative vault call over the console: the vault's own result, and its state after it.\<close>

lemma on_vault_admin_console:
  assumes "require_vault_admin br = Ok ve" "f ve (co_vault w) = (r, v)"
  shows "\<exists>w'. on_broker (on_vault_admin br actor action cred summary l f) w = (map_err show_broker_error (map_err BrVault r), w') \<and> co_vault w' = v"
  using assms by (auto simp: on_broker_def on_app_def on_vault_admin_def audit_action_def split: option.splits)

lemma vault_call_Ok:
  assumes "br_vault_admin br = Some ve" "on_broker (on_vault_admin br actor action cred summary l f) w = (Ok x, w')"
  shows "f ve (co_vault w) = (Ok x, co_vault w')"
proof -
  obtain r v where r: "f ve (co_vault w) = (r, v)" by fastforce
  have "require_vault_admin br = Ok ve" using assms(1) by (simp add: require_vault_admin_def ok_or_def)
  from on_vault_admin_console [where f = f, OF this r, of actor action cred summary l] show ?thesis
    using assms(2) r by (cases r) auto
qed

lemma audit_console_vault: "co_vault (audit_console env actor summary ms w) = co_vault w"
  by (auto simp: audit_console_def on_broker_def on_app_def audit_admin_action_def on_sink_def bindE_def retE_def split: prod.splits result.splits)

lemma config_reload_app [simp]: "co_app (config_reload w) = co_app w"
  by (auto simp: config_reload_def on_config_def split: prod.splits result.splits)

lemma apply_runtime_tunables_vault [simp]: "co_vault (apply_runtime_tunables env w) = co_vault w"
  by (simp add: apply_runtime_tunables_def Let_def)

text \<open>The page's vault write, by creation or by update, leaves the secret in the table under the name.\<close>

lemma intercept_secret_stored:
  assumes br: "br_vault_admin (app_broker (ce_app env)) = Some ve"
    and env: "vault_env_ok ve" and nonce: "length (vd_nonce d) = SEAL_NONCE_LEN"
    and names: "distinct (map cr_name (pv_rows (co_vault w)))"
    and run: "intercept_secret env d actor name txt w = (Ok (), w')"
  shows "stored_cred ve (pv_rows (co_vault w')) name = Some (Ok (ApiToken txt))"
proof -
  let ?br = "app_broker (ce_app env)"
  obtain ms w1 where l: "on_broker (admin_vault_list_metadata ?br actor (vd_latency d)) w = (Ok ms, w1)"
    using run unfolding intercept_secret_def Let_def bindE_Ok_iff by blast
  have rows: "pv_rows (co_vault w1) = pv_rows (co_vault w)"
    and ms: "\<forall>m \<in> set ms. \<exists>x \<in> set (pv_rows (co_vault w)). cr_id x = cm_id m \<and> cr_name x = cm_name m"
    using vault_list_metadata_rows [OF vault_call_Ok [OF br l [unfolded admin_vault_list_metadata_def]]] by auto
  show ?thesis
  proof (cases "find (\<lambda>m. cm_name m = name) ms")
    case (Some m)
    then have m: "m \<in> set ms" "cm_name m = name" by (auto simp: find_Some_iff)
    then obtain r where r: "r \<in> set (pv_rows (co_vault w))" "cr_id r = cm_id m" "cr_name r = name" using ms by auto
    have "on_broker (admin_vault_update ?br (vd_nonce d) (vd_now d) actor (cm_id m) (ApiToken txt) (vd_latency d)) w1 = (Ok (), w')"
      using run l Some by (simp add: intercept_secret_def Let_def bindE_def)
    from vault_call_Ok [OF br this [unfolded admin_vault_update_def]] show ?thesis
      using vault_update_stored [OF env nonce, of "vd_now d" r "ApiToken txt" "co_vault w1" "co_vault w'"] r rows names by simp
  next
    case None
    then obtain i where "on_broker (admin_vault_create ?br (vd_nonce d) (vd_id d) (vd_now d) actor name (ApiToken txt) (vd_latency d)) w1 = (Ok i, w')"
      using run l by (auto simp: intercept_secret_def Let_def bindE_def retE_def split: prod.splits result.splits)
    from vault_create_stored(2) [OF env nonce vault_call_Ok [OF br this [unfolded admin_vault_create_def]]] show ?thesis .
  qed
qed

section \<open>Properties\<close>

text \<open>What the row of a secret holds: nothing for a value that is no text, number or truth value and for the empty text, a vault
  reference as it was typed in, and the reference of its vault entry for everything else.\<close>

definition secret_row_text :: "string \<Rightarrow> json \<Rightarrow> string" where
  "secret_row_text key val =
     (case secret_text val of
        None \<Rightarrow> ''''
      | Some txt \<Rightarrow> if txt = '''' \<or> starts_with ''vault://'' txt then txt else ''vault://settings.'' @ key)"

lemma persist_secret:
  assumes "persist_value env d actor key val True w = (Ok v, w')"
  shows "v = JStr (secret_row_text key val) \<and>
    (\<forall>txt. secret_text val = Some txt \<and> txt \<noteq> '''' \<and> \<not> starts_with ''vault://'' txt \<longrightarrow>
       intercept_secret env d actor (''settings.'' @ key) txt w = (Ok (), w'))"
proof (cases "\<exists>txt. secret_text val = Some txt \<and> txt \<noteq> '''' \<and> \<not> starts_with ''vault://'' txt")
  case True
  then obtain q where q: "secret_text val = Some q" "q \<noteq> ''''" "\<not> starts_with ''vault://'' q" by blast
  obtain r w1 where i: "intercept_secret env d actor (''settings.'' @ key) q w = (r, w1)" by fastforce
  have "r = Ok ()" "w1 = w'" "v = JStr (''vault://settings.'' @ key)"
    using assms q i unfolding persist_value_def by (cases r; simp add: bindE_def retE_def)+
  then show ?thesis using q i unfolding secret_row_text_def by simp
qed (use assms in \<open>auto simp: persist_value_def secret_row_text_def retE_def simp del: starts_with_def split: option.splits if_splits\<close>)

text \<open>C24: a secret saved on the settings page never reaches the configuration table. Let the broker have the administration of the vault, the vault's
  cipher and codec undo themselves, the drawn nonce have its 24 bytes, and the names in the vault be unique (its table's key). When a save of a secret
  succeeds, the row of the key is marked as secret and holds the empty text (for no value, a structured one or the empty text), or a vault
  reference that was typed in as the value, or the reference \<open>vault://settings.<key>\<close>; in the last case the
  vault's table holds exactly the typed secret, as a token, under that name, whether there was an entry before or not. Every other key keeps its row.\<close>

theorem secret_setting_by_reference:
  assumes "set_setting env d now cookie key val True w = (Ok (), w')"
    and br: "br_vault_admin (app_broker (ce_app env)) = Some ve"
    and env: "vault_env_ok ve" and nonce: "length (vd_nonce d) = SEAL_NONCE_LEN"
    and names: "distinct (map cr_name (pv_rows (co_vault w)))"
  shows "(\<exists>r. config_find key (db_tables (co_config w')) = Some r \<and> cf_is_secret r \<and>
      cf_value r = JStr (case secret_text val of
          None \<Rightarrow> ''''
        | Some txt \<Rightarrow> if txt = '''' \<or> starts_with ''vault://'' txt then txt else ''vault://settings.'' @ key)) \<and>
    (\<forall>txt. secret_text val = Some txt \<and> txt \<noteq> '''' \<and> \<not> starts_with ''vault://'' txt \<longrightarrow>
       stored_cred ve (pv_rows (co_vault w')) (''settings.'' @ key) = Some (Ok (ApiToken txt))) \<and>
    (k \<noteq> key \<longrightarrow> config_find k (db_tables (co_config w')) = config_find k (db_tables (co_config w)))"
proof -
  obtain cl w1 w2 v w3 w4 where s: "on_app (require_admin (ce_app env) now cookie) w = (Ok cl, w1)" "console_pool w1 = (Ok (), w2)"
    "persist_value env d (cm_sub cl) key val True w2 = (Ok v, w3)"
    "console_stmt ''upsert'' (\<lambda>t. ((), config_upsert \<lparr>cf_key = key, cf_value = v, cf_is_secret = True,
        cf_updated_by = Some (cm_user_id cl), cf_updated_at = now\<rparr> t)) w3 = (Ok (), w4)"
    "w' = apply_runtime_tunables env (config_reload (audit_console env (cm_sub cl) (''settings.upsert '' @ key)
       [(''settings.key'', key), (''settings.is_secret'', show_bool True)] w4))"
    using assms(1) unfolding set_setting_def bindE_Ok_iff by (auto simp: modifyE_def)
  have vault: "co_vault w2 = co_vault w" "co_vault w' = co_vault w3"
    using s(1) console_pool_rows [OF s(2)] console_stmt_Ok [OF s(4)] require_admin_broker
    by (auto simp: on_app_def s(5) audit_console_vault split: prod.splits) fastforce
  have "db_tables (co_config w3) = db_tables (co_config w)"
    using on_app_config [OF s(1)] console_pool_rows [OF s(2)] persist_value_config [OF s(3)] by simp
  then have rows: "db_tables (co_config w') = config_upsert \<lparr>cf_key = key, cf_value = v, cf_is_secret = True,
        cf_updated_by = Some (cm_user_id cl), cf_updated_at = now\<rparr> (db_tables (co_config w))"
    using s(5) console_stmt_Ok [OF s(4)] by simp
  have "stored_cred ve (pv_rows (co_vault w3)) (''settings.'' @ key) = Some (Ok (ApiToken q))"
    if "secret_text val = Some q \<and> q \<noteq> '''' \<and> \<not> starts_with ''vault://'' q" for q
    using intercept_secret_stored [OF br env nonce, of w2 "cm_sub cl" "''settings.'' @ key" q w3] persist_secret [OF s(3)] that names vault
    by simp
  then show ?thesis using persist_secret [OF s(3)] unfolding rows vault secret_row_text_def by simp
qed

text \<open>An edit is live: when an admin saves a positive approval timeout while the database answers, the
  guard of the running broker waits that many seconds from then on, whatever the environment says.\<close>

lemma setting_applies_live:
  assumes "set_setting env d now cookie ''guard.approval_timeout_secs'' (JNum (JPos n)) False w = (Ok (), w')"
    "db_faults (co_config w) = []" "distinct (map cf_key (db_tables (co_config w)))"
    "br_policy (app_broker (ce_app env)) \<noteq> None" "0 < n" "n < 2 ^ 64"
  shows "approval_timeout (bw_guard (wo_broker (co_app w'))) = 1000 * n"
proof -
  obtain v where v: "w' = apply_runtime_tunables env (config_reload v)"
    "db_tables (co_config v) = db_tables (co_config w')" "db_faults (co_config v) = []"
    using assms(1,2) by (rule set_setting_reloads)
  obtain u where "db_tables (co_config w') = config_upsert \<lparr>cf_key = ''guard.approval_timeout_secs'', cf_value = JNum (JPos n),
       cf_is_secret = False, cf_updated_by = Some u, cf_updated_at = now\<rparr> (db_tables (co_config w))"
    using set_setting_Ok [OF assms(1)] by (auto simp: stored_for_def)
  then have "map_of (co_snapshot (config_reload v)) ''guard.approval_timeout_secs'' = Some (JNum (JPos n))"
    using v(2,3) assms(3) by (simp add: config_reload_nofault loaded_snapshot config_upsert_distinct)
  then have "config_u64 g (co_snapshot (config_reload v)) ''guard.approval_timeout_secs'' e t = n" for g e t
    by (simp add: config_u64_def Let_def)
  then show ?thesis
    using assms(4-6) unfolding v(1)
    by (auto simp: apply_runtime_tunables_def Let_def approval_timeout_def set_approval_timeout_secs_def
        unat_of_nat word_gt_0 unat_eq_0 [symmetric] unat_word_ariths)
qed
section \<open>Witnesses\<close>

definition ex_console_env :: "(mem_inventory, pg_vault, stub_record list, audit_db) console_env" where
  "ex_console_env = \<lparr>ce_app = \<lparr>app_crypto = ex_crypto, app_jwt_secret = ''k'', app_broker = with_guard ex_policy ex_admin\<rparr>,
     ce_getenv = \<lambda>_. None\<rparr>"

definition ex_console :: "(mem_inventory, pg_vault, stub_record list, audit_db, in_proc_bus) console" where
  "ex_console = \<lparr>co_app = \<lparr>wo_iam = wo_iam ex_session, wo_broker = ex_admin_world\<rparr>, co_config = db_of [], co_snapshot = [],
     co_observer_interval_secs = 30, co_update_flag = None\<rparr>"

text \<open>The checks read the account tables and the keys of the environment only.\<close>

lemma authenticate_headers_iam:
  assumes "app_crypto env = app_crypto env2" "app_jwt_secret env = app_jwt_secret env2" "wo_iam w = wo_iam w2"
  shows "fst (authenticate_headers env now cookie w) = fst (authenticate_headers env2 now cookie w2)"
    "wo_iam (snd (authenticate_headers env now cookie w)) = wo_iam (snd (authenticate_headers env2 now cookie w2))"
    "wo_broker (snd (authenticate_headers env now cookie w)) = wo_broker w"
  unfolding authenticate_headers_def on_iam_def assms
  by (auto simp: assms split: option.splits prod.splits result.splits)

lemma ex_console_admin:
  "\<exists>cl. on_app (require_admin (ce_app ex_console_env) 6000 (Some ex_cookie)) ex_console = (Ok cl, ex_console)"
proof -
  let ?env = "ce_app ex_console_env" and ?w = "co_app ex_console"
  have eq: "app_crypto ?env = app_crypto ex_app" "app_jwt_secret ?env = app_jwt_secret ex_app" "wo_iam ?w = wo_iam ex_session"
    by (simp_all add: ex_console_env_def ex_app_def ex_console_def)
  obtain c v where a: "authenticate_headers ?env 6000 (Some ex_cookie) ?w = (c, v)" by fastforce
  obtain c2 v2 where a2: "authenticate_headers ex_app 6000 (Some ex_cookie) ex_session = (c2, v2)" by fastforce
  have "c = c2" "wo_iam v = wo_iam v2" "wo_broker v = wo_broker ?w"
    using authenticate_headers_iam [OF eq, of 6000 "Some ex_cookie"] a a2 by simp_all
  moreover obtain cl where "c2 = Some cl" "list_ex (\<lambda>r. r = ''admin'') (cm_roles cl)" "v2 = ex_session"
    using ex_admin [of 6000] a2
    by (cases c2) (auto simp: require_admin_def require_some_role_def require_authenticated_def bindE_def ok_or_def retE_def failE_def split: if_splits)
  ultimately show ?thesis using a eq
    by (auto simp: require_admin_def require_some_role_def require_authenticated_def bindE_def ok_or_def retE_def on_app_def ex_console_def)
qed
lemma ex_vault_create: "\<exists>v. vault_create ex_vault_env ex_nonce ''u-1'' 1 name (ApiToken txt) ex_vault = (Ok ''u-1'', v)"
  by (simp add: vault_create_def ex_vault_def ex_vault_env_def seal_credential_def seal_def bindE_def liftE_def
      vault_stmt_nofault db_of_def retE_def)

lemma ex_vault_list: "vault_list_metadata ex_vault = (Ok [], ex_vault)"
  by (simp add: vault_list_metadata_def ex_vault_def bindE_def liftE_def vault_stmt_nofault db_of_def retE_def)

definition ex_draw :: vault_draw where
  "ex_draw = \<lparr>vd_id = ''u-1'', vd_nonce = ex_nonce, vd_now = 1, vd_latency = 3\<rparr>"

lemma ex_intercept:
  "\<exists>w. intercept_secret ex_console_env ex_draw actor name txt ex_console = (Ok (), w)"
proof -
  obtain v where v: "vault_create ex_vault_env ex_nonce ''u-1'' 1 name (ApiToken txt) ex_vault = (Ok ''u-1'', v)"
    using ex_vault_create by blast
  let ?br = "app_broker (ce_app ex_console_env)"
  have r: "require_vault_admin ?br = Ok ex_vault_env"
    by (simp add: ex_console_env_def require_vault_admin_def with_guard_def BrokerAdmin.ex_admin_def with_production_admin_def ok_or_def)
  obtain w1 where w1: "on_broker (admin_vault_list_metadata ?br actor 3) ex_console = (Ok [], w1)" "co_vault w1 = ex_vault"
    using on_vault_admin_console [OF r, of "\<lambda>_. vault_list_metadata" ex_console "Ok []" ex_vault actor VaultResolve None "''vault list''" 3]
    unfolding admin_vault_list_metadata_def by (simp add: ex_console_def ex_admin_world_def ex_vault_list) blast
  obtain w2 where "on_broker (admin_vault_create ?br ex_nonce ''u-1'' 1 actor name (ApiToken txt) 3) w1 = (Ok ''u-1'', w2)"
    using on_vault_admin_console [OF r, of "\<lambda>ve. vault_create ve ex_nonce ''u-1'' 1 name (ApiToken txt)" w1 "Ok ''u-1''" v actor VaultCreate "Some (''vault://'' @ name)" "''created credential kind='' @ cred_kind_to_str (credential_kind_of (ApiToken txt))" 3] v w1(2)
    unfolding admin_vault_create_def by (simp del: append.simps) blast
  with w1(1) show ?thesis
    by (simp add: intercept_secret_def Let_def bindE_def ex_draw_def retE_def)
qed

lemma ex_persist:
  obtains v w where "persist_value ex_console_env ex_draw actor key val is_secret ex_console = (Ok v, w)"
proof (cases "secret_text val")
  case (Some s)
  obtain w where "intercept_secret ex_console_env ex_draw actor (''settings.'' @ key) s ex_console = (Ok (), w)"
    using ex_intercept by blast
  then have "is_ok (fst (persist_value ex_console_env ex_draw actor key val is_secret ex_console))"
    unfolding persist_value_def using Some by (simp add: retE_def bindE_def del: append.simps)
  then show thesis using that by (cases "persist_value ex_console_env ex_draw actor key val is_secret ex_console") (auto simp: is_ok_iff)
next
  case None
  then show thesis using that by (cases is_secret) (auto simp: persist_value_def retE_def)
qed

lemma ex_set_setting:
  "\<exists>w. set_setting ex_console_env ex_draw 6000 (Some ex_cookie) key val is_secret ex_console = (Ok (), w)"
proof -
  obtain cl where a: "on_app (require_admin (ce_app ex_console_env) 6000 (Some ex_cookie)) ex_console = (Ok cl, ex_console)"
    using ex_console_admin by blast
  have p: "console_pool ex_console = (Ok (), ex_console)"
    by (simp add: console_pool_def on_config_def ex_console_def db_stmt_db_of)
  obtain v w1 where v: "persist_value ex_console_env ex_draw (cm_sub cl) key val is_secret ex_console = (Ok v, w1)"
    by (rule ex_persist)
  then have "co_config w1 = db_of []" using persist_value_config [OF v] by (simp add: ex_console_def)
  then have "\<exists>w2. console_stmt ''upsert'' (\<lambda>t. ((), config_upsert \<lparr>cf_key = key, cf_value = v, cf_is_secret = is_secret,
      cf_updated_by = Some (cm_user_id cl), cf_updated_at = 6000\<rparr> t)) w1 = (Ok (), w2)"
    by (simp add: console_stmt_def on_config_def db_stmt_db_of)
  then show ?thesis using a p v by (auto simp: set_setting_def bindE_def modifyE_def)
qed

theorem secret_setting_by_reference_witness:
  "\<exists>w r. set_setting ex_console_env ex_draw 6000 (Some ex_cookie) ''llm.openai_key'' (JStr ''sk-1'') True ex_console = (Ok (), w) \<and>
     config_find ''llm.openai_key'' (db_tables (co_config w)) = Some r \<and> cf_value r = JStr ''vault://settings.llm.openai_key'' \<and>
     stored_cred ex_vault_env (pv_rows (co_vault w)) ''settings.llm.openai_key'' = Some (Ok (ApiToken ''sk-1''))"
proof -
  obtain w where w: "set_setting ex_console_env ex_draw 6000 (Some ex_cookie) ''llm.openai_key'' (JStr ''sk-1'') True ex_console = (Ok (), w)"
    using ex_set_setting by blast
  have "br_vault_admin (app_broker (ce_app ex_console_env)) = Some ex_vault_env" "length (vd_nonce ex_draw) = SEAL_NONCE_LEN"
    "distinct (map cr_name (pv_rows (co_vault ex_console)))"
    by (simp_all add: ex_console_env_def with_guard_def BrokerAdmin.ex_admin_def with_production_admin_def ex_draw_def ex_nonce_def
        SEAL_NONCE_LEN_def ex_console_def ex_admin_world_def ex_vault_def db_of_def)
  note res = secret_setting_by_reference [OF w this(1) ex_vault_env_ok this(2,3)]
  have plain: "secret_text (JStr ''sk-1'') = Some ''sk-1''" "''sk-1'' \<noteq> ''''" "\<not> starts_with ''vault://'' ''sk-1''"
    by (simp_all add: starts_with_def)
  obtain r where "config_find ''llm.openai_key'' (db_tables (co_config w)) = Some r" "cf_value r = JStr (''vault://settings.'' @ ''llm.openai_key'')"
    using res plain by auto
  moreover have "stored_cred ex_vault_env (pv_rows (co_vault w)) (''settings.'' @ ''llm.openai_key'') = Some (Ok (ApiToken ''sk-1''))"
    using res plain by blast
  ultimately show ?thesis using w by (intro exI [of _ w] exI [of _ r]) simp
qed

lemma setting_applies_live_example:
  "\<exists>w. set_setting ex_console_env ex_draw 6000 (Some ex_cookie) ''guard.approval_timeout_secs'' (JNum (JPos 60)) False ex_console = (Ok (), w) \<and>
     approval_timeout (bw_guard (wo_broker (co_app w))) = 60000"
proof -
  obtain w where w: "set_setting ex_console_env ex_draw 6000 (Some ex_cookie) ''guard.approval_timeout_secs'' (JNum (JPos 60)) False ex_console = (Ok (), w)"
    using ex_set_setting by blast
  have "db_faults (co_config ex_console) = []" "distinct (map cf_key (db_tables (co_config ex_console)))"
    "br_policy (app_broker (ce_app ex_console_env)) \<noteq> None"
    by (simp_all add: ex_console_def ex_console_env_def db_of_def with_guard_def)
  then show ?thesis using setting_applies_live [OF w] w by (intro exI [of _ w]) simp
qed

text \<open>A prefix entry of the registry is matched without its final dot.\<close>

lemma is_consumed_sloppy: "is_consumed ''channels.matrixfoo''"
  by (simp add: is_consumed_def CONSUMED_KEYS_def strip_suffix_def starts_with_def)

end
