(* ===== verification/Channels.thy ===== *)
theory Channels
  imports Json Settings
begin

text \<open>
  Messaging channels (\<open>daimon-gateway\<close>): what a channel adapter takes in and gives out
  (\<open>gateway.rs\<close>), the reply sinks (\<open>reply_sink.rs\<close>), the authenticity checks (\<open>verify.rs\<close>), and the
  Telegram and Matrix adapters.

  The HTTP client is a parameter: a request is answered by an error text, or by a status and
  the body when it decodes as JSON. The JSON decoding of an update and of a sync answer is a
  parameter too; what the sources do with the decoded values is defined here. The pollers are
  steps on the answers the platform gives, with the inbound handler as an argument.
\<close>

section \<open>Turn events and sinks\<close>

datatype turn_event =
    TokenDelta string string
  | ToolUseEvent string string json
  | ToolResultEvent string string string bool
  | DoneEvent string string nat nat
  | ErrorEvent string

record buffer_sink =
  bs_buf :: string
  bs_had_error :: bool

definition buffer_sink_new :: buffer_sink where
  "buffer_sink_new = \<lparr>bs_buf = '''', bs_had_error = False\<rparr>"

definition warning_sign :: string where
  "warning_sign = [CHR 0xE2, CHR 0x9A, CHR 0xA0, CHR 0xEF, CHR 0xB8, CHR 0x8F]"

fun sink_emit :: "turn_event \<Rightarrow> buffer_sink \<Rightarrow> buffer_sink" where
  "sink_emit (TokenDelta sid content) s = s\<lparr>bs_buf := bs_buf s @ content\<rparr>"
| "sink_emit (ErrorEvent m) s =
     s\<lparr>bs_had_error := True,
       bs_buf := bs_buf s @ (if bs_buf s = '''' then '''' else [CHR 10]) @ warning_sign @ '' '' @ m\<rparr>"
| "sink_emit _ s = s"

text \<open>\<open>finish\<close>: the message that is posted, if any. A failed post is only logged.\<close>

definition sink_finish :: "buffer_sink \<Rightarrow> string option \<times> buffer_sink" where
  "sink_finish s =
     (let t = bs_buf s; s' = s\<lparr>bs_buf := ''''\<rparr>
      in if trim t = '''' then (if bs_had_error s then (None, s') else (Some ''(no reply)'', s'))
         else (Some t, s'))"

definition batched_reply :: "turn_event list \<Rightarrow> string option" where
  "batched_reply es = fst (sink_finish (fold sink_emit es buffer_sink_new))"

section \<open>Messages\<close>

record correlation =
  co_thread :: "string option"
  co_reply_to :: string

definition session_id_of :: "string \<Rightarrow> correlation \<Rightarrow> string" where
  "session_id_of channel c =
     ''gw:'' @ channel @ '':'' @ (case co_thread c of Some t \<Rightarrow> t | None \<Rightarrow> co_reply_to c)"

record inbound_message =
  im_channel :: string
  im_platform_handle :: string
  im_text :: string
  im_correlation :: correlation
  im_reply_to_message_id :: "string option"
  im_received_at :: millis

record inbound_http =
  ih_headers :: "(string, string) hmap"
  ih_body :: string

definition inbound_http_new :: "(string \<times> string) list \<Rightarrow> string \<Rightarrow> inbound_http" where
  "inbound_http_new hs body =
     \<lparr>ih_headers = foldl (\<lambda>m (k, v). hm_insert (to_ascii_lower k) v m) [] hs, ih_body = body\<rparr>"

definition http_header :: "inbound_http \<Rightarrow> string \<Rightarrow> string option" where
  "http_header r name = map_of (ih_headers r) (to_ascii_lower name)"

datatype ingress = Webhook | Poller

record alert_recipient =
  rc_channel :: string
  rc_to :: string

record alert_body =
  ab_title :: string
  ab_body :: string

definition alert_render :: "alert_body \<Rightarrow> string" where
  "alert_render b = (if ab_body b = '''' then ab_title b else ab_title b @ [CHR 10, CHR 10] @ ab_body b)"

datatype gateway_error =
    Unauthorized string
  | BadRequest string
  | Ignored string
  | ChannelFault string
  | NotImplemented

fun show_gateway_error :: "gateway_error \<Rightarrow> string" where
  "show_gateway_error (Unauthorized e) = ''unauthorized: '' @ e"
| "show_gateway_error (BadRequest e) = ''bad request: '' @ e"
| "show_gateway_error (Ignored e) = ''ignored: '' @ e"
| "show_gateway_error (ChannelFault e) = ''channel error: '' @ e"
| "show_gateway_error NotImplemented = ''not implemented''"

section \<open>Authenticity\<close>

text \<open>A comparison that does not leak by timing is still a comparison.\<close>

definition constant_time_eq :: "string \<Rightarrow> string \<Rightarrow> bool" where
  "constant_time_eq a b \<longleftrightarrow> length a = length b \<and> list_all2 (=) a b"

definition verify_secret_token :: "string \<Rightarrow> string option \<Rightarrow> bool" where
  "verify_secret_token expected provided = (case provided of Some p \<Rightarrow> constant_time_eq expected p | None \<Rightarrow> False)"

text \<open>\<open>hmac\<close> is the digest of the library, in lower-case hex.\<close>

definition verify_hmac_sha256 :: "(string \<Rightarrow> string \<Rightarrow> string) \<Rightarrow> string \<Rightarrow> string \<Rightarrow> string \<Rightarrow> bool" where
  "verify_hmac_sha256 hmac secret msg provided_hex = constant_time_eq (hmac secret msg) provided_hex"

section \<open>HTTP\<close>

datatype web_method = HttpGet | HttpPost | HttpPut

record http_request =
  hq_method :: web_method
  hq_url :: string
  hq_query :: "(string \<times> string) list"
  hq_bearer :: "string option"
  hq_json :: "json option"

text \<open>An answer: the status with its text, and the body as JSON.\<close>

record http_answer =
  ha_code :: nat
  ha_status :: string
  ha_json :: "(json, string) result"

definition http_success :: "http_answer \<Rightarrow> bool" where
  "http_success a \<longleftrightarrow> 200 \<le> ha_code a \<and> ha_code a < 300"

type_synonym 'n http_client = "http_request \<Rightarrow> ('n, http_answer, string) eff"

definition trim_slashes :: "string \<Rightarrow> string" where
  "trim_slashes s = rev (dropWhile (\<lambda>c. c = CHR ''/'') (rev s))"

section \<open>Telegram\<close>

record tg_message =
  tm_text :: "string option"
  tm_from :: "64 word option"
  tm_chat :: "64 word"
  tm_reply_to :: "64 word option"

record tg_update =
  tu_update_id :: "64 word"
  tu_message :: "tg_message option"

definition show_i64 :: "64 word \<Rightarrow> string" where
  "show_i64 x = show_int (sint x)"

definition update_to_inbound :: "millis \<Rightarrow> tg_update \<Rightarrow> (inbound_message, gateway_error) result" where
  "update_to_inbound now u =
     bind_result (ok_or (tu_message u) (Ignored ''update has no message'')) (\<lambda>m.
     bind_result (ok_or (case tm_text m of Some t \<Rightarrow> if trim t = '''' then None else Some t | None \<Rightarrow> None)
                    (Ignored ''message has no text'')) (\<lambda>t.
     bind_result (ok_or (tm_from m) (Ignored ''message has no sender'')) (\<lambda>frm.
     Ok \<lparr>im_channel = ''telegram'', im_platform_handle = show_i64 frm, im_text = t,
         im_correlation = \<lparr>co_thread = Some (show_i64 (tm_chat m)), co_reply_to = show_i64 (tm_chat m)\<rparr>,
         im_reply_to_message_id = map_option show_i64 (tm_reply_to m), im_received_at = now\<rparr>)))"

definition DEFAULT_API_BASE :: string where
  "DEFAULT_API_BASE = ''https://api.telegram.org''"

definition SECRET_HEADER :: string where
  "SECRET_HEADER = ''x-telegram-bot-api-secret-token''"

record telegram =
  tg_bot_token :: string
  tg_webhook_secret :: string
  tg_api_base :: string

definition telegram_new :: "string \<Rightarrow> string \<Rightarrow> string \<Rightarrow> telegram" where
  "telegram_new token secret base = \<lparr>tg_bot_token = token, tg_webhook_secret = secret, tg_api_base = trim_slashes base\<rparr>"

definition telegram_url :: "telegram \<Rightarrow> string \<Rightarrow> string" where
  "telegram_url t m = tg_api_base t @ ''/bot'' @ tg_bot_token t @ ''/'' @ m"

definition send_message_request :: "telegram \<Rightarrow> string \<Rightarrow> string \<Rightarrow> http_request" where
  "send_message_request t chat txt =
     \<lparr>hq_method = HttpPost, hq_url = telegram_url t ''sendMessage'', hq_query = [], hq_bearer = None,
      hq_json = Some (j_obj [(''chat_id'', JStr chat), (''text'', JStr txt)])\<rparr>"

fun j_as_i64 :: "json \<Rightarrow> int option" where
  "j_as_i64 (JNum (JPos n)) = (if n < 2 ^ 63 then Some (int n) else None)"
| "j_as_i64 (JNum (JNeg i)) = Some i"
| "j_as_i64 _ = None"

definition telegram_send_alert :: "'n http_client \<Rightarrow> telegram \<Rightarrow> string \<Rightarrow> string \<Rightarrow> ('n, string option, gateway_error) eff" where
  "telegram_send_alert http t chat txt =
     bindE (mapE (\<lambda>e. ChannelFault (''telegram deliver_alert: '' @ e)) (http (send_message_request t chat txt))) (\<lambda>a.
     if \<not> http_success a then failE (ChannelFault (''telegram deliver_alert HTTP '' @ ha_status a))
     else retE (map_option show_int
       (Option.bind (result_ok (ha_json a)) (\<lambda>v. Option.bind (j_get ''result'' v) (\<lambda>r. Option.bind (j_get ''message_id'' r) j_as_i64)))))"

definition telegram_outbound_send :: "'n http_client \<Rightarrow> telegram \<Rightarrow> string \<Rightarrow> string \<Rightarrow> ('n, unit, string) eff" where
  "telegram_outbound_send http t chat txt =
     bindE (mapE (\<lambda>e. ''telegram sendMessage: '' @ e) (http (send_message_request t chat txt))) (\<lambda>a.
     if http_success a then retE () else failE (''telegram sendMessage HTTP '' @ ha_status a))"

text \<open>The webhook: the secret first, then the body.\<close>

definition telegram_verify_and_parse ::
  "(string \<Rightarrow> (tg_update, string) result) \<Rightarrow> telegram \<Rightarrow> millis \<Rightarrow> inbound_http \<Rightarrow> (inbound_message, gateway_error) result" where
  "telegram_verify_and_parse decode t now r =
     (if \<not> verify_secret_token (tg_webhook_secret t) (http_header r SECRET_HEADER)
      then Err (Unauthorized ''telegram secret token mismatch'')
      else bind_result (map_err (\<lambda>e. BadRequest (''telegram update json: '' @ e)) (decode (ih_body r))) (update_to_inbound now))"

text \<open>The poller. The cursor store is a pair of functions; \<open>handle\<close> runs the inbound pipeline.\<close>

record 'w cursor_store =
  cs_load :: "'w \<Rightarrow> string option \<times> 'w"
  cs_save :: "string \<Rightarrow> 'w \<Rightarrow> 'w"

definition POLL_TIMEOUT_SECS :: nat where
  "POLL_TIMEOUT_SECS = 30"

definition get_updates_request :: "telegram \<Rightarrow> 64 word option \<Rightarrow> http_request" where
  "get_updates_request t offset =
     \<lparr>hq_method = HttpGet, hq_url = telegram_url t ''getUpdates'',
      hq_query = (''timeout'', show_nat POLL_TIMEOUT_SECS) # (case offset of Some x \<Rightarrow> [(''offset'', show_i64 x)] | None \<Rightarrow> []),
      hq_bearer = None, hq_json = None\<rparr>"

definition get_updates ::
  "'n http_client \<Rightarrow> (json \<Rightarrow> (tg_update list, string) result) \<Rightarrow> telegram \<Rightarrow> 64 word option \<Rightarrow> ('n, tg_update list, gateway_error) eff" where
  "get_updates http decode t offset =
     bindE (mapE (\<lambda>e. ChannelFault (''getUpdates: '' @ e)) (http (get_updates_request t offset))) (\<lambda>a.
     if \<not> http_success a then failE (ChannelFault (''getUpdates HTTP '' @ ha_status a))
     else liftE (map_err (\<lambda>e. ChannelFault (''getUpdates decode: '' @ e)) (bind_result (ha_json a) decode)))"

definition poll_offset :: "string option \<Rightarrow> 64 word option" where
  "poll_offset cursor = map_option word_of_int (Option.bind cursor parse_i64)"

fun poll_one ::
  "'w cursor_store \<Rightarrow> (inbound_message \<Rightarrow> 'w \<Rightarrow> 'w) \<Rightarrow> millis \<Rightarrow> tg_update \<Rightarrow> 64 word option \<times> 'w \<Rightarrow> 64 word option \<times> 'w" where
  "poll_one cs handle now u (offset, w) =
     (let next = tu_update_id u + 1;
          w' = (case update_to_inbound now u of Ok m \<Rightarrow> handle m w | Err _ \<Rightarrow> w)
      in (Some next, cs_save cs (show_i64 next) w'))"

definition poll_batch ::
  "'w cursor_store \<Rightarrow> (inbound_message \<Rightarrow> 'w \<Rightarrow> 'w) \<Rightarrow> millis \<Rightarrow> tg_update list \<Rightarrow> 64 word option \<times> 'w \<Rightarrow> 64 word option \<times> 'w" where
  "poll_batch cs handle now us st = fold (poll_one cs handle now) us st"

text \<open>One turn of the poll loop; a failed call is retried after a pause with the same offset.\<close>

definition poll_turn ::
  "'w http_client \<Rightarrow> (json \<Rightarrow> (tg_update list, string) result) \<Rightarrow> 'w cursor_store \<Rightarrow> (inbound_message \<Rightarrow> 'w \<Rightarrow> 'w) \<Rightarrow> telegram \<Rightarrow>
   millis \<Rightarrow> 64 word option \<times> 'w \<Rightarrow> 64 word option \<times> 'w" where
  "poll_turn http decode cs handle t now st =
     (case get_updates http decode t (fst st) (snd st) of
        (Ok us, w) \<Rightarrow> poll_batch cs handle now us (fst st, w)
      | (Err e, w) \<Rightarrow> (fst st, w))"

section \<open>Matrix\<close>

record mx_event =
  me_kind :: string
  me_sender :: string
  me_msgtype :: "string option"
  me_body :: "string option"
  me_in_reply_to :: "string option"

record mx_sync =
  ms_next_batch :: string
  ms_join :: "(string, mx_event list) hmap"

definition event_text :: "string \<Rightarrow> mx_event \<Rightarrow> (string \<times> string \<times> string \<times> string option) list" where
  "event_text room e =
     (if me_kind e \<noteq> ''m.room.message'' \<or> me_msgtype e \<noteq> Some ''m.text'' then []
      else (case me_body e of
              Some b \<Rightarrow> if trim b = '''' then [] else [(room, b, me_sender e, me_in_reply_to e)]
            | None \<Rightarrow> []))"

definition text_messages :: "mx_sync \<Rightarrow> (string \<times> string \<times> string \<times> string option) list" where
  "text_messages s = concat (map (\<lambda>(room, evs). concat (map (event_text room) evs)) (ms_join s))"

definition room_message :: "millis \<Rightarrow> string \<times> string \<times> string \<times> string option \<Rightarrow> inbound_message" where
  "room_message now m =
     (case m of (room, t, sender, reply) \<Rightarrow>
        \<lparr>im_channel = ''matrix'', im_platform_handle = sender, im_text = t,
         im_correlation = \<lparr>co_thread = Some room, co_reply_to = room\<rparr>, im_reply_to_message_id = reply, im_received_at = now\<rparr>)"

definition dispatch_sync :: "(inbound_message \<Rightarrow> 'w \<Rightarrow> 'w) \<Rightarrow> millis \<Rightarrow> string \<Rightarrow> mx_sync \<Rightarrow> 'w \<Rightarrow> 'w" where
  "dispatch_sync handle now bot_id s w =
     fold (\<lambda>m. handle (room_message now m)) (filter (\<lambda>(room, t, sender, reply). sender \<noteq> bot_id) (text_messages s)) w"

record matrix =
  mx_homeserver :: string
  mx_access_token :: string

definition matrix_new :: "string \<Rightarrow> string \<Rightarrow> matrix" where
  "matrix_new hs token = \<lparr>mx_homeserver = trim_slashes hs, mx_access_token = token\<rparr>"

definition whoami :: "'n http_client \<Rightarrow> matrix \<Rightarrow> ('n, string, gateway_error) eff" where
  "whoami http m =
     bindE (mapE (\<lambda>e. ChannelFault (''whoami: '' @ e))
       (http \<lparr>hq_method = HttpGet, hq_url = mx_homeserver m @ ''/_matrix/client/v3/account/whoami'', hq_query = [],
              hq_bearer = Some (mx_access_token m), hq_json = None\<rparr>)) (\<lambda>a.
     if \<not> http_success a then failE (Unauthorized (''matrix whoami HTTP '' @ ha_status a))
     else liftE (bind_result (map_err (\<lambda>e. ChannelFault (''whoami decode: '' @ e)) (ha_json a)) (\<lambda>v.
            ok_or (j_get_str ''user_id'' v) (ChannelFault ''whoami decode: missing field `user_id`''))))"

definition fetch_sync ::
  "'n http_client \<Rightarrow> (json \<Rightarrow> (mx_sync, string) result) \<Rightarrow> matrix \<Rightarrow> string option \<Rightarrow> ('n, mx_sync, gateway_error) eff" where
  "fetch_sync http decode m since =
     bindE (mapE (\<lambda>e. ChannelFault (''sync: '' @ e))
       (http \<lparr>hq_method = HttpGet, hq_url = mx_homeserver m @ ''/_matrix/client/v3/sync'',
              hq_query = (''timeout'', if since = None then ''0'' else ''30000'') # (case since of Some s \<Rightarrow> [(''since'', s)] | None \<Rightarrow> []),
              hq_bearer = Some (mx_access_token m), hq_json = None\<rparr>)) (\<lambda>a.
     if \<not> http_success a then failE (ChannelFault (''matrix sync HTTP '' @ ha_status a))
     else liftE (map_err (\<lambda>e. ChannelFault (''sync decode: '' @ e)) (bind_result (ha_json a) decode)))"

text \<open>Before the loop: a stored cursor is resumed, and without one the first answer's cursor is
  stored and its backlog is skipped.\<close>

definition matrix_start ::
  "'w http_client \<Rightarrow> (json \<Rightarrow> (mx_sync, string) result) \<Rightarrow> 'w cursor_store \<Rightarrow> matrix \<Rightarrow> ('w, string, gateway_error) eff" where
  "matrix_start http decode cs m w =
     (case cs_load cs w of
        (Some s, w') \<Rightarrow> (Ok s, w')
      | (None, w') \<Rightarrow>
          bindE (fetch_sync http decode m None) (\<lambda>s. \<lambda>w. (Ok (ms_next_batch s), cs_save cs (ms_next_batch s) w)) w')"

definition matrix_turn ::
  "'w http_client \<Rightarrow> (json \<Rightarrow> (mx_sync, string) result) \<Rightarrow> 'w cursor_store \<Rightarrow> (inbound_message \<Rightarrow> 'w \<Rightarrow> 'w) \<Rightarrow> matrix \<Rightarrow> string \<Rightarrow>
   millis \<Rightarrow> string \<times> 'w \<Rightarrow> string \<times> 'w" where
  "matrix_turn http decode cs handle m bot_id now st =
     (case fetch_sync http decode m (Some (fst st)) (snd st) of
        (Ok s, w) \<Rightarrow> (ms_next_batch s, cs_save cs (ms_next_batch s) (dispatch_sync handle now bot_id s w))
      | (Err e, w) \<Rightarrow> (fst st, w))"

definition hex_upper :: "nat \<Rightarrow> char" where
  "hex_upper n = (if n < 10 then char_of (48 + n) else char_of (55 + n))"

definition unreserved :: "char \<Rightarrow> bool" where
  "unreserved c \<longleftrightarrow> is_ascii_alphanumeric c \<or> c \<in> set ''-_.~''"

definition urlencode :: "string \<Rightarrow> string" where
  "urlencode s =
     concat (map (\<lambda>c. if unreserved c then [c] else [CHR ''%'', hex_upper (char_code c div 16), hex_upper (char_code c mod 16)]) s)"

text \<open>The transaction counter is a 64-bit atomic that wraps.\<close>

definition room_send_request :: "matrix \<Rightarrow> string \<Rightarrow> 64 word \<Rightarrow> string \<Rightarrow> http_request" where
  "room_send_request m room txn body =
     \<lparr>hq_method = HttpPut,
      hq_url = mx_homeserver m @ ''/_matrix/client/v3/rooms/'' @ urlencode room @ ''/send/m.room.message/'' @ show_nat (unat txn),
      hq_query = [], hq_bearer = Some (mx_access_token m),
      hq_json = Some (j_obj [(''msgtype'', JStr ''m.text''), (''body'', JStr body)])\<rparr>"

definition matrix_deliver_alert ::
  "'n http_client \<Rightarrow> matrix \<Rightarrow> alert_recipient \<Rightarrow> alert_body \<Rightarrow> (64 word \<times> 'n, string option, gateway_error) eff" where
  "matrix_deliver_alert http m rcpt b st =
     (case st of (txn, n) \<Rightarrow>
       (case http (room_send_request m (rc_to rcpt) txn (alert_render b)) n of
          (Err e, n') \<Rightarrow> (Err (ChannelFault (''matrix deliver_alert: '' @ e)), (txn + 1, n'))
        | (Ok a, n') \<Rightarrow>
            (if \<not> http_success a then (Err (ChannelFault (''matrix deliver_alert HTTP '' @ ha_status a)), (txn + 1, n'))
             else (Ok (Option.bind (result_ok (ha_json a)) (j_get_str ''event_id'')), (txn + 1, n')))))"

definition matrix_outbound_send :: "'n http_client \<Rightarrow> matrix \<Rightarrow> string \<Rightarrow> string \<Rightarrow> (64 word \<times> 'n, unit, string) eff" where
  "matrix_outbound_send http m room txt st =
     (case st of (txn, n) \<Rightarrow>
       (case http (room_send_request m room txn txt) n of
          (Err e, n') \<Rightarrow> (Err (''matrix room send: '' @ e), (txn + 1, n'))
        | (Ok a, n') \<Rightarrow>
            (if http_success a then (Ok (), (txn + 1, n')) else (Err (''matrix room send HTTP '' @ ha_status a), (txn + 1, n')))))"

section \<open>Lemmas on sinks\<close>

lemma trim_Nil_iff: "trim s = [] \<longleftrightarrow> list_all is_whitespace s"
proof -
  have "trim s = [] \<longleftrightarrow> (\<forall>x \<in> set (dropWhile is_whitespace s). is_whitespace x)" by (simp add: trim_def dropWhile_eq_Nil_conv)
  also have "\<dots> \<longleftrightarrow> dropWhile is_whitespace s = []"
    by (metis empty_iff hd_dropWhile hd_in_set list.set(1))
  also have "\<dots> \<longleftrightarrow> list_all is_whitespace s" by (simp add: dropWhile_eq_Nil_conv list_all_iff)
  finally show ?thesis .
qed

lemma sink_grows: "\<exists>x. bs_buf (fold sink_emit es s) = bs_buf s @ x"
proof (induction es arbitrary: s)
  case (Cons e es)
  obtain x where "bs_buf (sink_emit e s) = bs_buf s @ x" by (cases e) auto
  then show ?case using Cons [of "sink_emit e s"] by auto
qed simp

lemma sink_error_shown:
  "ErrorEvent m \<in> set es \<Longrightarrow> \<exists>a b. bs_buf (fold sink_emit es s) = a @ warning_sign @ '' '' @ m @ b"
proof (induction es arbitrary: s)
  case (Cons e es)
  show ?case
  proof (cases "e = ErrorEvent m")
    case True
    obtain x where "bs_buf (fold sink_emit es (sink_emit e s)) = bs_buf (sink_emit e s) @ x" using sink_grows by blast
    moreover have "bs_buf (sink_emit e s) = (bs_buf s @ (if bs_buf s = '''' then '''' else [CHR 10])) @ warning_sign @ '' '' @ m"
      using True by simp
    ultimately have "bs_buf (fold sink_emit (e # es) s) =
        (bs_buf s @ (if bs_buf s = '''' then '''' else [CHR 10])) @ warning_sign @ '' '' @ m @ x" by simp
    then show ?thesis by blast
  next
    case False
    then show ?thesis using Cons by simp
  qed
qed simp

lemma sink_had_error: "bs_had_error (fold sink_emit es s) \<longleftrightarrow> bs_had_error s \<or> (\<exists>m. ErrorEvent m \<in> set es)"
proof (induction es arbitrary: s)
  case (Cons e es)
  then show ?case by (cases e) auto
qed simp

lemma warning_not_blank: "\<not> list_all is_whitespace (a @ warning_sign @ b)"
  by (simp add: warning_sign_def is_whitespace_def char_code_def)

fun delta_text :: "turn_event \<Rightarrow> string" where
  "delta_text (TokenDelta sid content) = content"
| "delta_text _ = ''''"

lemma sink_deltas: "(\<forall>m. ErrorEvent m \<notin> set es) \<Longrightarrow> bs_buf (fold sink_emit es s) = bs_buf s @ concat (map delta_text es)"
proof (induction es arbitrary: s)
  case (Cons e es)
  then show ?case by (cases e) auto
qed simp

text \<open>A batched channel answers every turn with exactly one message: without errors it is the
  streamed text in order, or a fixed note when that is blank, and every error of the turn is in it.\<close>

lemma batched_reply_complete:
  "\<exists>t. batched_reply es = Some t \<and>
     ((\<exists>m. ErrorEvent m \<in> set es) \<or>
        t = (if list_all is_whitespace (concat (map delta_text es)) then ''(no reply)'' else concat (map delta_text es))) \<and>
     {m. ErrorEvent m \<in> set es} \<subseteq> {m. \<exists>a b. t = a @ warning_sign @ '' '' @ m @ b}"
proof (cases "\<exists>m. ErrorEvent m \<in> set es")
  case True
  let ?b = "bs_buf (fold sink_emit es buffer_sink_new)"
  have e: "\<exists>a b. ?b = a @ warning_sign @ '' '' @ m @ b" if "ErrorEvent m \<in> set es" for m
    using that by (rule sink_error_shown)
  then have "trim ?b \<noteq> ''''" using True warning_not_blank unfolding trim_Nil_iff by metis
  then have "batched_reply es = Some ?b" by (simp add: batched_reply_def sink_finish_def Let_def)
  then show ?thesis using True e by blast
next
  case False
  then have "bs_buf (fold sink_emit es buffer_sink_new) = concat (map delta_text es)" "\<not> bs_had_error (fold sink_emit es buffer_sink_new)"
    by (simp_all add: sink_deltas sink_had_error buffer_sink_new_def)
  then show ?thesis using False by (auto simp: batched_reply_def sink_finish_def Let_def trim_Nil_iff)
qed

section \<open>Authentic webhooks\<close>

lemma constant_time_eq_iff [simp]: "constant_time_eq a b \<longleftrightarrow> a = b"
  by (auto simp: constant_time_eq_def list.rel_eq)

text \<open>What the inbound route relies on of a webhook adapter: a message only from an authentic
  request, on the adapter's channel, with a text that is not blank.\<close>

locale webhook_adapter =
  fixes parse :: "millis \<Rightarrow> inbound_http \<Rightarrow> (inbound_message, gateway_error) result"
    and authentic :: "inbound_http \<Rightarrow> bool"
    and chan :: string
  assumes parse_authentic: "parse now r = Ok m \<Longrightarrow> authentic r"
    and parse_channel: "parse now r = Ok m \<Longrightarrow> im_channel m = chan"
    and parse_text: "parse now r = Ok m \<Longrightarrow> trim (im_text m) \<noteq> ''''"
    and parse_refuses: "\<not> authentic r \<Longrightarrow> \<exists>e. parse now r = Err (Unauthorized e)"
begin

text \<open>The answer to a forged request does not depend on its body.\<close>

lemma forged_unread:
  assumes "\<not> authentic r"
  shows "\<exists>e. parse now r = Err (Unauthorized e)" and "parse now r \<noteq> Ok m"
  using parse_refuses [OF assms] parse_authentic assms by blast+

end

lemma update_to_inbound_Ok:
  assumes "update_to_inbound now u = Ok m"
  shows "im_channel m = ''telegram'' \<and> trim (im_text m) \<noteq> '''' \<and> im_received_at m = now"
  using assms unfolding update_to_inbound_def bind_result_Ok_iff ok_or_Ok_iff
  by (elim exE conjE) (clarsimp split: option.splits if_splits)

interpretation tg: webhook_adapter "telegram_verify_and_parse decode t"
  "\<lambda>r. http_header r SECRET_HEADER = Some (tg_webhook_secret t)" "''telegram''" for decode t
  by unfold_locales
    (auto simp: telegram_verify_and_parse_def verify_secret_token_def bind_result_Ok_iff split: if_splits option.splits
      dest: update_to_inbound_Ok)
section \<open>Resuming a poller\<close>

text \<open>The cursor of the pollers is a key of the configuration table; a failed write is only logged.\<close>

definition app_config_cursor :: "millis \<Rightarrow> string \<Rightarrow> (('i, 'v, 't, 'a, 'b) console) cursor_store" where
  "app_config_cursor now key =
     \<lparr>cs_load = (\<lambda>w. case on_config (get_config key) w of (r, w') \<Rightarrow> (Option.bind (result_ok r) id, w')),
      cs_save = (\<lambda>c w. snd (on_config (set_config now key c) w))\<rparr>"

lemma poll_one_save: "\<exists>w'. poll_one cs handle now u st = (Some (tu_update_id u + 1), cs_save cs (show_i64 (tu_update_id u + 1)) w') \<and>
    (w' = snd st \<or> (\<exists>m. w' = handle m (snd st)))"
  by (cases st) (auto simp: Let_def split: result.splits)

lemma poll_batch_snoc:
  "poll_batch cs handle now (us @ [u]) st = poll_one cs handle now u (poll_batch cs handle now us st)"
  by (simp add: poll_batch_def del: poll_one.simps)

lemma sint_plus_one: 
  assumes "sint (x :: 64 word) < 2 ^ 63 - 1"
  shows "sint (x + 1) = sint x + 1"
proof -
  have "- (2 ^ 63) \<le> sint x" using sint_ge [of x] by simp
  then have "signed_take_bit 63 (sint x + 1) = sint x + 1" using assms by (intro signed_take_bit_int_eq_self) simp_all
  then show ?thesis by (simp add: sint_word_ariths)
qed

text \<open>The parser reads back the cursor the poller wrote.\<close>

lemma parse_i64_show_int:
  assumes "- (2 ^ 63) \<le> i" "i < 2 ^ 63"
  shows "parse_i64 (show_int i) = Some i"
proof (cases "i < 0")
  case True
  then show ?thesis using assms by (simp add: show_int_def parse_i64_def Let_def)
next
  case False
  obtain c t where ct: "show_nat (nat i) = c # t" by (cases "show_nat (nat i)") auto
  then have "is_digit c" using show_nat_digits [of "nat i"] by simp
  then have "c \<noteq> CHR ''-''" "c \<noteq> CHR ''+''" by (auto simp: is_digit_def char_code_def)
  then show ?thesis using assms False ct parse_digits_show_nat [of "nat i"]
    by (simp add: show_int_def parse_i64_def Let_def)
qed

lemma poll_offset_saved: "poll_offset (Some (show_i64 x)) = Some x"
proof -
  have "- (2 ^ 63) \<le> sint x" "sint x < 2 ^ 63" using sint_ge [of x] sint_lt [of x] by simp_all
  then have "parse_i64 (show_i64 x) = Some (sint x)" unfolding show_i64_def by (rule parse_i64_show_int)
  then show ?thesis by (simp add: poll_offset_def)
qed

text \<open>A store that gives back what was saved last, in the states in which it works.\<close>

locale resumable_store =
  fixes cs :: "'w cursor_store" and works :: "'w \<Rightarrow> bool"
  assumes load_saved: "works w \<Longrightarrow> fst (cs_load cs (cs_save cs c w)) = Some c"
    and save_works: "works w \<Longrightarrow> works (cs_save cs c w)"
begin

lemma poll_batch_works:
  assumes "\<And>m w. works w \<Longrightarrow> works (handle m w)" "works (snd st)"
  shows "works (snd (poll_batch cs handle now us st))"
proof (induction us rule: rev_induct)
  case Nil
  then show ?case using assms(2) by (simp add: poll_batch_def)
next
  case (snoc u us)
  then show ?case
    using poll_one_save [of cs handle now u "poll_batch cs handle now us st"] assms(1) save_works
    by (auto simp: poll_batch_snoc simp del: poll_one.simps)
qed

lemma cursor_after:
  assumes "\<And>m w. works w \<Longrightarrow> works (handle m w)" "works (snd st)" "us \<noteq> []"
  shows "poll_offset (fst (cs_load cs (snd (poll_batch cs handle now us st)))) = Some (tu_update_id (last us) + 1)"
proof -
  obtain vs u where us: "us = vs @ [u]" using assms(3) by (metis rev_exhaust)
  have "works (snd (poll_batch cs handle now vs st))" using assms(1,2) by (rule poll_batch_works)
  then obtain w' where w': "snd (poll_batch cs handle now us st) = cs_save cs (show_i64 (tu_update_id u + 1)) w'" "works w'"
    using poll_one_save [of cs handle now u "poll_batch cs handle now vs st"] assms(1)
    by (auto simp: us poll_batch_snoc simp del: poll_one.simps)
  then show ?thesis by (simp add: load_saved poll_offset_saved us)
qed

text \<open>After a crash behind the first \<open>k\<close> updates of a batch, asking from the cursor gives the rest.\<close>

lemma resumes:
  assumes h: "\<And>m w. works w \<Longrightarrow> works (handle m w)" and st: "works (snd st)"
    and asc: "sorted_wrt (\<lambda>u v. sint (tu_update_id u) < sint (tu_update_id v)) us"
    and bound: "\<And>u. u \<in> set us \<Longrightarrow> sint (tu_update_id u) < 2 ^ 63 - 1" and k: "0 < k" "k \<le> length us"
  shows "\<exists>c. poll_offset (fst (cs_load cs (snd (poll_batch cs handle now (take k us) st)))) = Some c \<and>
    filter (\<lambda>u. sint c \<le> sint (tu_update_id u)) us = drop k us"
proof -
  let ?c = "tu_update_id (last (take k us)) + 1"
  have l: "last (take k us) = us ! (k - 1)" using k by (subst last_conv_nth) (auto simp: min_def)
  have c: "sint ?c = sint (tu_update_id (us ! (k - 1))) + 1"
    unfolding l using k by (intro sint_plus_one bound) simp
  have lo: "sint (tu_update_id u) < sint ?c" if u: "u \<in> set (take k us)" for u
  proof -
    obtain i where i: "i < k" "u = us ! i" using u k by (auto simp: in_set_conv_nth)
    then have "i = k - 1 \<or> sint (tu_update_id u) < sint (tu_update_id (us ! (k - 1)))"
      using asc k by (cases "i = k - 1") (auto simp: sorted_wrt_iff_nth_less)
    then show ?thesis using c i by auto
  qed
  have hi: "sint ?c \<le> sint (tu_update_id u)" if u: "u \<in> set (drop k us)" for u
  proof -
    obtain i where "i < length us - k" "u = us ! (k + i)" using u by (auto simp: in_set_conv_nth)
    then have i: "k + i < length us" "u = us ! (k + i)" by simp_all
    have "sint (tu_update_id (us ! (k - 1))) < sint (tu_update_id u)"
      unfolding i(2) using asc k i(1) by (auto simp: sorted_wrt_iff_nth_less)
    then show ?thesis using c by simp
  qed
  have "filter (\<lambda>u. sint ?c \<le> sint (tu_update_id u)) (take k us @ drop k us) = drop k us"
    unfolding filter_append using lo hi by (auto simp: filter_empty_conv filter_id_conv linorder_not_le)
  moreover have "poll_offset (fst (cs_load cs (snd (poll_batch cs handle now (take k us) st)))) = Some ?c"
    using h st k by (intro cursor_after) auto
  ultimately show ?thesis by auto
qed

end

lemma config_find_set_config:
  "db_faults d = [] \<Longrightarrow> set_config now key c d = (r, d') \<Longrightarrow>
   db_faults d' = [] \<and> (\<exists>row. config_find key (db_tables d') = Some row \<and> cf_value row = JStr c)"
  by (auto simp: set_config_def config_stmt_def db_stmt_def split: option.splits)
    (auto simp: config_find_def find_Some_iff)

interpretation cfg: resumable_store "app_config_cursor now key :: (('i, 'v, 't, 'a, 'b) console) cursor_store"
  "\<lambda>w. db_faults (co_config w) = []" for now key
proof unfold_locales
  fix w :: "('i, 'v, 't, 'a, 'b) console" and c
  assume w: "db_faults (co_config w) = []"
  obtain r d where r: "set_config now key c (co_config w) = (r, d)" by fastforce
  note s = config_find_set_config [OF w r]
  then show "db_faults (co_config (cs_save (app_config_cursor now key) c w)) = []"
    using r by (simp add: app_config_cursor_def on_config_def)
  show "fst (cs_load (app_config_cursor now key) (cs_save (app_config_cursor now key) c w)) = Some c"
    using r s by (auto simp: app_config_cursor_def on_config_def get_config_def config_stmt_def db_stmt_def)
qed

text \<open>The Telegram poller neither loses nor repeats an update over a restart: when it stops after the
  first \<open>k\<close> updates of a batch and the configuration store answers, the cursor it reads back asks the
  platform for exactly the updates it has not handled.\<close>

lemma poller_resumes:
  fixes handle :: "inbound_message \<Rightarrow> ('i, 'v, 't, 'a, 'b) console \<Rightarrow> ('i, 'v, 't, 'a, 'b) console"
  assumes "\<And>m w. db_faults (co_config w) = [] \<Longrightarrow> db_faults (co_config (handle m w)) = []" "db_faults (co_config w) = []"
    "sorted_wrt (\<lambda>u v. sint (tu_update_id u) < sint (tu_update_id v)) us"
    "\<And>u. u \<in> set us \<Longrightarrow> sint (tu_update_id u) < 2 ^ 63 - 1" "0 < k" "k \<le> length us"
  shows "\<exists>c. poll_offset (fst (cs_load (app_config_cursor t key)
        (snd (poll_batch (app_config_cursor t key) handle now (take k us) (offset, w))))) = Some c \<and>
    filter (\<lambda>u. sint c \<le> sint (tu_update_id u)) us = drop k us"
  using assms by (intro cfg.resumes) simp_all
section \<open>Room ids in a path\<close>

definition unhex :: "char \<Rightarrow> nat" where
  "unhex c = (if char_code c < 65 then char_code c - 48 else char_code c - 55)"

fun urldecode :: "string \<Rightarrow> string" where
  "urldecode [] = []"
| "urldecode (c # s) =
     (if c = CHR ''%'' then (case s of a # b # t \<Rightarrow> char_of (16 * unhex a + unhex b) # urldecode t | _ \<Rightarrow> [])
      else c # urldecode s)"

lemma unhex_hex_upper: "n < 16 \<Longrightarrow> unhex (hex_upper n) = n"
  by (auto simp: unhex_def hex_upper_def char_code_def)

lemma hex_upper_unreserved: "n < 16 \<Longrightarrow> unreserved (hex_upper n)"
  by (auto simp: unreserved_def hex_upper_def is_ascii_alphanumeric_def is_digit_def char_code_def)

lemma char_code_less: "char_code c < 256"
  by (simp add: char_code_def)

lemma percent_not_unreserved: "\<not> unreserved (CHR ''%'')"
  by (simp add: unreserved_def is_ascii_alphanumeric_def is_digit_def char_code_def)

text \<open>A room id cannot leave its path segment: the encoding of any text has only unreserved characters
  and percent signs, and decoding gives the text back, so two rooms never share a path.\<close>

lemma urlencode_roundtrip:
  "urldecode (urlencode s) = s \<and> list_all (\<lambda>c. unreserved c \<or> c = CHR ''%'') (urlencode s)"
proof (induction s)
  case (Cons c s)
  have "16 * unhex (hex_upper (char_code c div 16)) + unhex (hex_upper (char_code c mod 16)) = char_code c"
    using char_code_less [of c] by (simp add: unhex_hex_upper)
  moreover have "unreserved (hex_upper (char_code c div 16))" "unreserved (hex_upper (char_code c mod 16))"
    using char_code_less [of c] by (simp_all add: hex_upper_unreserved)
  moreover have "char_of (char_code c) = c" by (simp add: char_code_def)
  ultimately show ?case using Cons percent_not_unreserved by (auto simp: urlencode_def)
qed (simp add: urlencode_def)

section \<open>Witnesses\<close>

definition ex_update :: "64 word \<Rightarrow> tg_update" where
  "ex_update i = \<lparr>tu_update_id = i, tu_message = None\<rparr>"

lemma poller_resumes_example:
  "\<exists>c. poll_offset (fst (cs_load (app_config_cursor 0 ''channels.telegram.offset'')
        (snd (poll_batch (app_config_cursor 0 ''channels.telegram.offset'') (\<lambda>_ w. w) 0 (take 1 [ex_update 7, ex_update 9]) (None, ex_console))))) = Some c \<and>
    filter (\<lambda>u. sint c \<le> sint (tu_update_id u)) [ex_update 7, ex_update 9] = [ex_update 9]"
proof -
  have "db_faults (co_config ex_console) = []" by (simp add: ex_console_def db_of_def)
  moreover have "sorted_wrt (\<lambda>u v. sint (tu_update_id u) < sint (tu_update_id v)) [ex_update 7, ex_update 9]"
    "\<And>u. u \<in> set [ex_update 7, ex_update 9] \<Longrightarrow> sint (tu_update_id u) < 2 ^ 63 - 1"
    by (auto simp: ex_update_def)
  ultimately have "\<exists>c. poll_offset (fst (cs_load (app_config_cursor 0 ''channels.telegram.offset'')
        (snd (poll_batch (app_config_cursor 0 ''channels.telegram.offset'') (\<lambda>_ w. w) 0 (take 1 [ex_update 7, ex_update 9]) (None, ex_console))))) = Some c \<and>
    filter (\<lambda>u. sint c \<le> sint (tu_update_id u)) [ex_update 7, ex_update 9] = drop 1 [ex_update 7, ex_update 9]"
    by (intro poller_resumes) simp_all
  then show ?thesis by (simp only: drop_Suc_Cons drop_0 One_nat_def)
qed

end
