(* ===== verification/Observing.thy ===== *)
theory Observing
  imports Channels Complex_Main
begin

text \<open>
  The observer (\<open>daimon-observer\<close>): the query library and its thresholds (\<open>queries.rs\<close>), the
  Prometheus client (\<open>prometheus.rs\<close>), the metric sink (\<open>sink.rs\<close>, \<open>vm_sink.rs\<close>), the anomaly event
  (\<open>event.rs\<close>) and the ingest cycle (\<open>ingest.rs\<close>).

  A float is a rational number, an infinity or not a number; comparisons are those of the
  standard. The two zeros are one value. Reading and printing floats is a parameter, as is the
  HTTP client. Ids and clock readings come from a numbered supply.
\<close>

section \<open>Floats\<close>

datatype f64 = Finite rat | PosInf | NegInf | NaN

fun f64_less :: "f64 \<Rightarrow> f64 \<Rightarrow> bool" where
  "f64_less NaN _ = False"
| "f64_less _ NaN = False"
| "f64_less (Finite x) (Finite y) = (x < y)"
| "f64_less NegInf y = (y \<noteq> NegInf)"
| "f64_less (Finite x) y = (y = PosInf)"
| "f64_less PosInf _ = False"

fun f64_le :: "f64 \<Rightarrow> f64 \<Rightarrow> bool" where
  "f64_le x y = (f64_less x y \<or> x = y \<and> x \<noteq> NaN)"

fun is_finite :: "f64 \<Rightarrow> bool" where
  "is_finite (Finite _) = True"
| "is_finite _ = False"

text \<open>\<open>str::parse\<close> at \<open>f64\<close>, the \<open>Display\<close> text, the text of a JSON number, and the conversion
  of an integer.\<close>

record float_text =
  fl_parse :: "string \<Rightarrow> f64 option"
  fl_display :: "f64 \<Rightarrow> string"
  fl_json :: "f64 \<Rightarrow> string"
  fl_of_int :: "int \<Rightarrow> f64"

definition f64_to_json :: "float_text \<Rightarrow> f64 \<Rightarrow> json" where
  "f64_to_json fl x = (if is_finite x then JNum (JFloat (fl_json fl x)) else JNull)"

fun j_as_f64 :: "float_text \<Rightarrow> json \<Rightarrow> f64 option" where
  "j_as_f64 fl (JNum (JPos n)) = Some (fl_of_int fl (int n))"
| "j_as_f64 fl (JNum (JNeg i)) = Some (fl_of_int fl i)"
| "j_as_f64 fl (JNum (JFloat s)) = fl_parse fl s"
| "j_as_f64 fl _ = None"

section \<open>Errors\<close>

datatype observer_error =
    ObHttp string
  | ObPg string
  | ObPool string
  | ObDecode string
  | ObApi string
  | ObOther string

fun observer_db_error :: "db_fault \<Rightarrow> observer_error" where
  "observer_db_error (PoolFault e) = ObPool e"
| "observer_db_error (PgFault e) = ObPg e"

section \<open>Queries\<close>

datatype threshold_op = OpGt | OpGte | OpLt | OpLte

record threshold =
  th_op :: threshold_op
  th_value :: f64
  th_severity :: string
  th_title :: string

definition breaches :: "threshold \<Rightarrow> f64 \<Rightarrow> bool" where
  "breaches t v =
     (case th_op t of
        OpGt \<Rightarrow> f64_less (th_value t) v
      | OpGte \<Rightarrow> f64_le (th_value t) v
      | OpLt \<Rightarrow> f64_less v (th_value t)
      | OpLte \<Rightarrow> f64_le v (th_value t))"

record named_query =
  nq_name :: string
  nq_promql :: string
  nq_source :: string
  nq_source_id_label :: "string option"
  nq_metric_name :: string
  nq_thresholds :: "threshold list"

definition instance_query :: "string \<Rightarrow> string \<Rightarrow> string \<Rightarrow> (rat \<times> string \<times> string) list \<Rightarrow> named_query" where
  "instance_query name promql metric ts =
     \<lparr>nq_name = name, nq_promql = promql, nq_source = ''prometheus'', nq_source_id_label = Some ''instance'',
      nq_metric_name = metric,
      nq_thresholds = map (\<lambda>(x, sev, title). \<lparr>th_op = OpGt, th_value = Finite x, th_severity = sev, th_title = title\<rparr>) ts\<rparr>"

definition dquote :: string where
  "dquote = [CHR 0x22]"

definition default_library :: "named_query list" where
  "default_library =
     [instance_query ''node_cpu_saturation''
        (''100 - (avg by (instance)(rate(node_cpu_seconds_total{mode='' @ dquote @ ''idle'' @ dquote @ ''}[5m])) * 100)'')
        ''node.cpu.saturation_pct''
        [(90, ''warning'', ''CPU saturation > 90%''), (98, ''critical'', ''CPU saturation > 98%'')],
      instance_query ''node_memory_pressure''
        ''(1 - (node_memory_MemAvailable_bytes / node_memory_MemTotal_bytes)) * 100''
        ''node.memory.pressure_pct'' [(90, ''warning'', ''Memory pressure > 90%'')],
      instance_query ''node_disk_full''
        (''100 - ((node_filesystem_avail_bytes{fstype!~'' @ dquote @ ''tmpfs|overlay'' @ dquote @
         ''} * 100) / node_filesystem_size_bytes{fstype!~'' @ dquote @ ''tmpfs|overlay'' @ dquote @ ''})'')
        ''node.disk.used_pct'' [(85, ''warning'', ''Disk usage > 85%'')],
      instance_query ''node_nic_errors''
        ''rate(node_network_receive_errs_total[5m]) + rate(node_network_transmit_errs_total[5m])''
        ''node.nic.error_rate'' [(1, ''warning'', ''NIC error rate > 1/s'')]]"

text \<open>The loop over the thresholds stops at the first breach.\<close>

definition first_breach :: "named_query \<Rightarrow> f64 \<Rightarrow> threshold option" where
  "first_breach q v = find (\<lambda>t. breaches t v) (nq_thresholds q)"

section \<open>The Prometheus client\<close>

record instant_sample =
  sa_metric :: json
  sa_timestamp_secs :: f64
  sa_value :: f64

definition debug_opt :: "string option \<Rightarrow> string" where
  "debug_opt x = (case x of Some s \<Rightarrow> ''Some('' @ debug_str s @ '')'' | None \<Rightarrow> ''None'')"

text \<open>The decoder of the answer: the status, the result type with the result when there are data, and
  the error text.\<close>

definition prom_response_of_json :: "json \<Rightarrow> (string \<times> (string \<times> json) option \<times> string option) option" where
  "prom_response_of_json v =
     Option.bind (j_get_str ''status'' v) (\<lambda>status.
     Option.bind
       (case j_get ''data'' v of
          None \<Rightarrow> Some None
        | Some JNull \<Rightarrow> Some None
        | Some d \<Rightarrow> Option.bind (j_get_str ''resultType'' d) (\<lambda>rt. Option.bind (j_get ''result'' d) (\<lambda>r. Some (Some (rt, r))))) (\<lambda>data.
     Option.bind (optional_member ''error'' v) (\<lambda>err. Some (status, data, err))))"

fun j_elems :: "json \<Rightarrow> json list" where
  "j_elems (JArr xs) = xs"
| "j_elems _ = []"

definition zero_f64 :: f64 where
  "zero_f64 = Finite 0"

definition sample_of :: "float_text \<Rightarrow> json \<Rightarrow> instant_sample option" where
  "sample_of fl r =
     (case j_elems (case j_get ''value'' r of Some v \<Rightarrow> v | None \<Rightarrow> JNull) of
        t # v # _ \<Rightarrow>
          Some \<lparr>sa_metric = (case j_get ''metric'' r of Some m \<Rightarrow> m | None \<Rightarrow> JObj []),
                sa_timestamp_secs = (case j_as_f64 fl t of Some x \<Rightarrow> x | None \<Rightarrow> zero_f64),
                sa_value = (case fl_parse fl (case j_as_str v of Some s \<Rightarrow> s | None \<Rightarrow> ''0'') of Some x \<Rightarrow> x | None \<Rightarrow> zero_f64)\<rparr>
      | _ \<Rightarrow> None)"

definition prom_instant ::
  "'n http_client \<Rightarrow> float_text \<Rightarrow> string \<Rightarrow> string \<Rightarrow> ('n, instant_sample list, observer_error) eff" where
  "prom_instant http fl base_url query =
     bindE (mapE ObHttp (http \<lparr>hq_method = HttpGet, hq_url = trim_slashes base_url @ ''/api/v1/query'', hq_query = [(''query'', query)],
              hq_bearer = None, hq_json = None\<rparr>)) (\<lambda>a.
     if \<not> http_success a then failE (ObApi (''instant '' @ query @ '': status '' @ ha_status a))
     else bindE (liftE (bind_result (map_err ObHttp (ha_json a)) (\<lambda>v.
              ok_or (prom_response_of_json v) (ObHttp ''error decoding response body'')))) (\<lambda>(status, data, err).
          if status \<noteq> ''success'' then failE (ObApi (''instant '' @ query @ '': '' @ debug_opt err))
          else (case data of
                  None \<Rightarrow> failE (ObApi ''no data'')
                | Some (rt, r) \<Rightarrow>
                    if rt \<noteq> ''vector'' then failE (ObApi (''instant '' @ query @ '': unexpected result type '' @ rt))
                    else retE (List.map_filter (sample_of fl) (j_elems r)))))"

section \<open>Metric points\<close>

record metric_point =
  mp_ts :: int
  mp_source :: string
  mp_source_id :: string
  mp_name :: string
  mp_value :: f64
  mp_labels :: json

fun sanitize_tail :: "string \<Rightarrow> string" where
  "sanitize_tail [] = []"
| "sanitize_tail (c # s) = (if is_ascii_alphanumeric c \<or> c = CHR ''_'' then c else CHR ''_'') # sanitize_tail s"

text \<open>The loop is over characters, so a character of several bytes becomes one underscore.\<close>

definition sanitize_metric_name :: "string \<Rightarrow> string" where
  "sanitize_metric_name s =
     (case filter (\<lambda>c. \<not> utf8_cont c) s of
        [] \<Rightarrow> ''unnamed''
      | c # s' \<Rightarrow> (if (is_ascii_alphanumeric c \<or> c = CHR ''_'') \<and> \<not> is_digit c then c else CHR ''_'') # sanitize_tail s')"

definition escape_char :: "char \<Rightarrow> string" where
  "escape_char c =
     (if c = CHR 0x5C then [CHR 0x5C, CHR 0x5C]
      else if c = CHR 0x22 then [CHR 0x5C, CHR 0x22]
      else if c = CHR 10 then [CHR 0x5C, CHR ''n'']
      else [c])"

definition write_label :: "string \<Rightarrow> string \<Rightarrow> bool \<Rightarrow> string" where
  "write_label key v first =
     (if first then '''' else '','') @ key @ ''='' @ dquote @ concat (map escape_char v) @ dquote"

text \<open>\<open>json_text\<close> is the compact text of a JSON value.\<close>

definition label_entry :: "(json \<Rightarrow> string) \<Rightarrow> string \<times> json \<Rightarrow> string" where
  "label_entry json_text kv =
     (case kv of (k, v) \<Rightarrow>
        (case v of
           JStr s \<Rightarrow> write_label (sanitize_metric_name k) s False
         | JNull \<Rightarrow> ''''
         | _ \<Rightarrow> write_label (sanitize_metric_name k) (json_text v) False))"

definition render_value :: "float_text \<Rightarrow> f64 \<Rightarrow> string" where
  "render_value fl v = (case v of Finite _ \<Rightarrow> fl_display fl v | NaN \<Rightarrow> ''NaN'' | PosInf \<Rightarrow> ''+Inf'' | NegInf \<Rightarrow> ''-Inf'')"

definition render_point :: "(json \<Rightarrow> string) \<Rightarrow> float_text \<Rightarrow> metric_point \<Rightarrow> string" where
  "render_point json_text fl p =
     sanitize_metric_name (mp_name p) @ ''{'' @ write_label ''source'' (mp_source p) True @
     write_label ''source_id'' (mp_source_id p) False @
     (case j_as_object (mp_labels p) of Some m \<Rightarrow> concat (map (label_entry json_text) m) | None \<Rightarrow> '''') @
     ''}'' @ '' '' @ render_value fl (mp_value p) @ '' '' @ show_int (mp_ts p) @ newline"

text \<open>The VictoriaMetrics sink. \<open>post\<close> sends a text body and answers with the status and the body of the
  answer.\<close>

definition vm_push_batch ::
  "(string \<Rightarrow> string \<Rightarrow> ('n, nat \<times> string, string) eff) \<Rightarrow> (json \<Rightarrow> string) \<Rightarrow> float_text \<Rightarrow> string \<Rightarrow> metric_point list \<Rightarrow>
   ('n, unit, observer_error) eff" where
  "vm_push_batch post json_text fl base_url points =
     (if points = [] then retE ()
      else (let url = trim_slashes base_url @ ''/api/v1/import/prometheus''
            in bindE (mapE (\<lambda>e. ObOther (''vm ingest send: '' @ e)) (post url (concat (map (render_point json_text fl) points)))) (\<lambda>(code, body).
               if 200 \<le> code \<and> code < 300 then retE ()
               else failE (ObOther (''vm ingest '' @ show_nat code @ '' from '' @ url @ '': '' @ take_chars 200 body)))))"

section \<open>Anomalies\<close>

record anomaly_row =
  aw_id :: uuid
  aw_source :: string
  aw_source_id :: string
  aw_severity :: string
  aw_title :: string
  aw_description :: "string option"
  aw_metric_name :: "string option"
  aw_metric_value :: f64
  aw_threshold :: f64
  aw_metadata :: json

record anomaly_detected =
  an_anomaly_id :: uuid
  an_source :: string
  an_source_id :: string
  an_severity :: string
  an_title :: string
  an_metric_name :: string
  an_metric_value :: f64
  an_threshold :: f64
  an_query :: string
  an_target_ref :: "string option"

definition TRIAGE_CAPABILITY :: string where
  "TRIAGE_CAPABILITY = ''harness.triage.anomaly''"

definition anomaly_to_json :: "float_text \<Rightarrow> anomaly_detected \<Rightarrow> json" where
  "anomaly_to_json fl a =
     j_obj ([(''anomaly_id'', JStr (an_anomaly_id a)), (''source'', JStr (an_source a)), (''source_id'', JStr (an_source_id a)),
             (''severity'', JStr (an_severity a)), (''title'', JStr (an_title a)), (''metric_name'', JStr (an_metric_name a)),
             (''metric_value'', f64_to_json fl (an_metric_value a)), (''threshold'', f64_to_json fl (an_threshold a)),
             (''query'', JStr (an_query a))] @
            (case an_target_ref a of Some t \<Rightarrow> [(''target_ref'', JStr t)] | None \<Rightarrow> []))"

text \<open>\<open>uuid_parse\<close> is the decoder of an id.\<close>

definition anomaly_of_json :: "float_text \<Rightarrow> (string \<Rightarrow> uuid option) \<Rightarrow> json \<Rightarrow> anomaly_detected option" where
  "anomaly_of_json fl uuid_parse body =
     Option.bind (of_struct [''anomaly_id'', ''source'', ''source_id'', ''severity'', ''title'', ''metric_name'', ''metric_value'', ''threshold'',
       ''query'', ''target_ref''] body) (\<lambda>v.
     Option.bind (Option.bind (j_get_str ''anomaly_id'' v) uuid_parse) (\<lambda>i.
     Option.bind (j_get_str ''source'' v) (\<lambda>src. Option.bind (j_get_str ''source_id'' v) (\<lambda>sid.
     Option.bind (j_get_str ''severity'' v) (\<lambda>sev. Option.bind (j_get_str ''title'' v) (\<lambda>title.
     Option.bind (j_get_str ''metric_name'' v) (\<lambda>name.
     Option.bind (Option.bind (j_get ''metric_value'' v) (j_as_f64 fl)) (\<lambda>x.
     Option.bind (Option.bind (j_get ''threshold'' v) (j_as_f64 fl)) (\<lambda>th.
     Option.bind (j_get_str ''query'' v) (\<lambda>q. Option.bind (optional_member ''target_ref'' v) (\<lambda>tref.
     Some \<lparr>an_anomaly_id = i, an_source = src, an_source_id = sid, an_severity = sev, an_title = title, an_metric_name = name,
           an_metric_value = x, an_threshold = th, an_query = q, an_target_ref = tref\<rparr>)))))))))))"

definition target_ref_from_source_id :: "string \<Rightarrow> string option" where
  "target_ref_from_source_id sid =
     (if sid = '''' \<or> sid = ''default'' then None
      else (let host = hd (split_on (CHR '':'') sid) in if host = '''' then None else Some (''target://'' @ host)))"

definition anomaly_envelope ::
  "semver \<Rightarrow> float_text \<Rightarrow> uuid \<Rightarrow> millis \<Rightarrow> anomaly_detected \<Rightarrow> (agent_envelope, observer_error) result" where
  "anomaly_envelope sv fl u ts a =
     (case sv_parse sv ''^1'' of
        None \<Rightarrow> Err (ObOther ''bad triage version_req'')
      | Some req \<Rightarrow> Ok (envelope_new u ts (agent_id_new ''observer'') (ByCapability TRIAGE_CAPABILITY req) (anomaly_to_json fl a)))"

section \<open>The ingest cycle\<close>

record ('n, 'b) observer_env =
  ov_float :: float_text
  ov_semver :: semver
  ov_http :: "'n http_client"
  ov_prom_url :: string
  ov_library :: "named_query list"
  ov_push :: "metric_point list \<Rightarrow> ('n, unit, observer_error) eff"
  ov_bus :: "(agent_envelope \<Rightarrow> ('b, unit, core_error) eff) option"
  ov_metrics :: bool
  ov_fresh :: "nat \<Rightarrow> uuid"
  ov_clock :: "nat \<Rightarrow> millis"
  ov_check_error :: string

record ('n, 'b) observer_world =
  ob_net :: 'n
  ob_db :: "anomaly_row list db"
  ob_bus :: 'b
  ob_ticks :: nat
  ob_ingest_cycles :: "64 word"
  ob_anomalies_raised :: "64 word"
  ob_sink_push_failures :: "64 word"

definition anomaly_row_of :: "uuid \<Rightarrow> named_query \<Rightarrow> threshold \<Rightarrow> string \<Rightarrow> f64 \<Rightarrow> anomaly_row" where
  "anomaly_row_of i q t sid v =
     \<lparr>aw_id = i, aw_source = nq_source q, aw_source_id = sid, aw_severity = th_severity t, aw_title = th_title t,
      aw_description = Some (''PromQL: '' @ nq_promql q), aw_metric_name = Some (nq_metric_name q), aw_metric_value = v,
      aw_threshold = th_value t, aw_metadata = j_obj [(''query'', JStr (nq_name q))]\<rparr>"

definition anomaly_event_of :: "uuid \<Rightarrow> named_query \<Rightarrow> threshold \<Rightarrow> string \<Rightarrow> f64 \<Rightarrow> anomaly_detected" where
  "anomaly_event_of i q t sid v =
     \<lparr>an_anomaly_id = i, an_source = nq_source q, an_source_id = sid, an_severity = th_severity t, an_title = th_title t,
      an_metric_name = nq_metric_name q, an_metric_value = v, an_threshold = th_value t, an_query = nq_name q,
      an_target_ref = target_ref_from_source_id sid\<rparr>"

text \<open>The severities the table takes; \<open>ov_check_error\<close> is the text of the database's refusal of another one.\<close>

definition ANOMALY_SEVERITIES :: "string list" where
  "ANOMALY_SEVERITIES = [''info'', ''warning'', ''error'', ''critical'']"

text \<open>The row first, then the event; a failure to build or to send the event is only logged.\<close>

definition raise_anomaly ::
  "('n, 'b) observer_env \<Rightarrow> named_query \<Rightarrow> threshold \<Rightarrow> string \<Rightarrow> f64 \<Rightarrow> (('n, 'b) observer_world, unit, observer_error) eff" where
  "raise_anomaly ov q t sid v w =
     (let i = ov_fresh ov (ob_ticks w)
      in case db_stmt (\<lambda>rows. if th_severity t \<in> set ANOMALY_SEVERITIES then (True, rows @ [anomaly_row_of i q t sid v]) else (False, rows)) (ob_db w) of
           (Err e, d) \<Rightarrow> (Err (observer_db_error e), w\<lparr>ob_db := d, ob_ticks := ob_ticks w + 2\<rparr>)
         | (Ok False, d) \<Rightarrow> (Err (ObPg (ov_check_error ov)), w\<lparr>ob_db := d, ob_ticks := ob_ticks w + 2\<rparr>)
         | (Ok True, d) \<Rightarrow>
             (let w1 = w\<lparr>ob_db := d, ob_ticks := ob_ticks w + 2\<rparr>
              in (Ok (),
                  case ov_bus ov of
                    None \<Rightarrow> w1
                  | Some send \<Rightarrow>
                      (case anomaly_envelope (ov_semver ov) (ov_float ov) (ov_fresh ov (Suc (ob_ticks w))) (ov_clock ov (ob_ticks w))
                              (anomaly_event_of i q t sid v) of
                         Ok e \<Rightarrow> w1\<lparr>ob_bus := snd (send e (ob_bus w1))\<rparr>
                       | Err _ \<Rightarrow> w1))))"

definition sample_source_id :: "named_query \<Rightarrow> instant_sample \<Rightarrow> string" where
  "sample_source_id q s =
     (case Option.bind (nq_source_id_label q) (\<lambda>l. j_get_str l (sa_metric s)) of Some x \<Rightarrow> x | None \<Rightarrow> ''default'')"

definition point_of :: "millis \<Rightarrow> named_query \<Rightarrow> instant_sample \<Rightarrow> metric_point" where
  "point_of now q s =
     \<lparr>mp_ts = int now, mp_source = nq_source q, mp_source_id = sample_source_id q s, mp_name = nq_metric_name q,
      mp_value = sa_value s, mp_labels = sa_metric s\<rparr>"

type_synonym ('n, 'b) ingest_state = "metric_point list \<times> nat \<times> ('n, 'b) observer_world"

definition ingest_sample ::
  "('n, 'b) observer_env \<Rightarrow> millis \<Rightarrow> named_query \<Rightarrow> instant_sample \<Rightarrow> ('n, 'b) ingest_state \<Rightarrow> ('n, 'b) ingest_state" where
  "ingest_sample ov now q s st =
     (case st of (points, raised, w) \<Rightarrow>
        (case first_breach q (sa_value s) of
           None \<Rightarrow> (points @ [point_of now q s], raised, w)
         | Some t \<Rightarrow>
             (case raise_anomaly ov q t (sample_source_id q s) (sa_value s) w of
                (Ok _, w') \<Rightarrow> (points @ [point_of now q s], Suc raised, w')
              | (Err _, w') \<Rightarrow> (points @ [point_of now q s], raised, w'))))"

definition ask_query :: "('n, 'b) observer_env \<Rightarrow> named_query \<Rightarrow> ('n, instant_sample list, observer_error) eff" where
  "ask_query ov q = prom_instant (ov_http ov) (ov_float ov) (ov_prom_url ov) (nq_promql q)"

definition ingest_query ::
  "('n, 'b) observer_env \<Rightarrow> millis \<Rightarrow> named_query \<Rightarrow> ('n, 'b) ingest_state \<Rightarrow> ('n, 'b) ingest_state" where
  "ingest_query ov now q st =
     (case st of (points, raised, w) \<Rightarrow>
        (case ask_query ov q (ob_net w) of
           (Err _, n) \<Rightarrow> (points, raised, w\<lparr>ob_net := n\<rparr>)
         | (Ok samples, n) \<Rightarrow> fold (ingest_sample ov now q) samples (points, raised, w\<lparr>ob_net := n\<rparr>)))"

definition count_cycle :: "('n, 'b) observer_env \<Rightarrow> nat \<Rightarrow> ('n, 'b) observer_world \<Rightarrow> ('n, 'b) observer_world" where
  "count_cycle ov raised w =
     (if ov_metrics ov
      then w\<lparr>ob_ingest_cycles := ob_ingest_cycles w + 1, ob_anomalies_raised := ob_anomalies_raised w + word_of_nat raised\<rparr>
      else w)"

definition run_once :: "('n, 'b) observer_env \<Rightarrow> (('n, 'b) observer_world, unit, observer_error) eff" where
  "run_once ov w0 =
     (case fold (ingest_query ov (ov_clock ov (ob_ticks w0))) (ov_library ov) ([], 0, w0\<lparr>ob_ticks := Suc (ob_ticks w0)\<rparr>) of
        (points, raised, w) \<Rightarrow>
          (if points = [] then (Ok (), count_cycle ov raised w)
           else (case ov_push ov points (ob_net w) of
                   (Err e, n) \<Rightarrow>
                     (Err e, (if ov_metrics ov then w\<lparr>ob_net := n, ob_sink_push_failures := ob_sink_push_failures w + 1\<rparr>
                              else w\<lparr>ob_net := n\<rparr>))
                 | (Ok _, n) \<Rightarrow> (Ok (), count_cycle ov raised (w\<lparr>ob_net := n\<rparr>)))))"

text \<open>The pause before a cycle: the live interval in seconds when it is wired and not zero.\<close>

definition observer_period :: "millis \<Rightarrow> nat option \<Rightarrow> millis" where
  "observer_period fixed live = (case live of Some s \<Rightarrow> if s = 0 then fixed else s * 1000 | None \<Rightarrow> fixed)"

section \<open>Lemmas\<close>

subsection \<open>Exposition text\<close>

definition name_char :: "char \<Rightarrow> bool" where
  "name_char c \<longleftrightarrow> is_ascii_alphanumeric c \<or> c = CHR ''_''"

definition metric_name_ok :: "string \<Rightarrow> bool" where
  "metric_name_ok s \<longleftrightarrow> s \<noteq> [] \<and> list_all name_char s \<and> \<not> is_digit (hd s)"

lemma sanitize_tail_name: "list_all name_char (sanitize_tail s)"
  by (induction s) (auto simp: name_char_def)

lemma sanitize_tail_id: "list_all name_char s \<Longrightarrow> sanitize_tail s = s"
  by (induction s) (auto simp: name_char_def)

lemma underscore_char: "name_char (CHR ''_'')" "\<not> is_digit (CHR ''_'')"
  by (simp_all add: name_char_def is_digit_def char_code_def)

lemma sanitize_ok: "metric_name_ok (sanitize_metric_name s)"
proof (cases "filter (\<lambda>c. \<not> utf8_cont c) s")
  case Nil
  then show ?thesis
    by (simp add: sanitize_metric_name_def metric_name_ok_def name_char_def is_ascii_alphanumeric_def is_digit_def char_code_def)
next
  case (Cons c t)
  then show ?thesis
    using underscore_char by (auto simp: sanitize_metric_name_def metric_name_ok_def sanitize_tail_name name_char_def)
qed

lemma name_chars_ascii: "list_all name_char s \<Longrightarrow> filter (\<lambda>c. \<not> utf8_cont c) s = s"
  by (auto simp: filter_id_conv list_all_iff name_char_def utf8_cont_def is_ascii_alphanumeric_def is_digit_def char_code_def)

lemma name_char_no_newline: "list_all name_char s \<Longrightarrow> CHR 10 \<notin> set s"
  by (auto simp: list_all_iff name_char_def is_ascii_alphanumeric_def is_digit_def char_code_def)

lemma sanitize_no_newline: "CHR 10 \<notin> set (sanitize_metric_name s)"
  using sanitize_ok [of s] by (simp add: metric_name_ok_def name_char_no_newline)

lemma show_no_newline: "CHR 10 \<notin> set (show_int i)"
proof -
  have "CHR 10 \<notin> set (show_nat n)" for n
    using show_nat_digits [of n] by (auto simp: list_all_iff is_digit_def char_code_def)
  then show ?thesis by (simp add: show_int_def)
qed

lemma escape_no_newline: "CHR 10 \<notin> set (concat (map escape_char v))"
  by (auto simp: escape_char_def split: if_splits)

lemma write_label_no_newline: "CHR 10 \<notin> set key \<Longrightarrow> CHR 10 \<notin> set (write_label key v first)"
  using escape_no_newline [of v] by (simp add: write_label_def dquote_def)

lemma label_entry_no_newline: "CHR 10 \<notin> set (label_entry json_text kv)"
  by (simp add: label_entry_def write_label_no_newline sanitize_no_newline split: prod.split json.split)

text \<open>The reader of a label value: what the escapes stand for.\<close>

fun unescape :: "string \<Rightarrow> string" where
  "unescape [] = []"
| "unescape (c # s) =
     (if c = CHR 0x5C
      then (case s of [] \<Rightarrow> [c] | d # r \<Rightarrow> (if d = CHR ''n'' then CHR 10 else d) # unescape r)
      else c # unescape s)"

lemma unescape_escape: "unescape (concat (map escape_char v)) = v"
  by (induction v) (auto simp: escape_char_def)

subsection \<open>Events\<close>

lemma anomaly_members:
  "j_get_str ''anomaly_id'' (anomaly_to_json fl a) = Some (an_anomaly_id a)"
  "j_get_str ''source'' (anomaly_to_json fl a) = Some (an_source a)"
  "j_get_str ''source_id'' (anomaly_to_json fl a) = Some (an_source_id a)"
  "j_get_str ''severity'' (anomaly_to_json fl a) = Some (an_severity a)"
  "j_get_str ''title'' (anomaly_to_json fl a) = Some (an_title a)"
  "j_get_str ''metric_name'' (anomaly_to_json fl a) = Some (an_metric_name a)"
  "j_get ''metric_value'' (anomaly_to_json fl a) = Some (f64_to_json fl (an_metric_value a))"
  "j_get ''threshold'' (anomaly_to_json fl a) = Some (f64_to_json fl (an_threshold a))"
  "j_get_str ''query'' (anomaly_to_json fl a) = Some (an_query a)"
  "optional_member ''target_ref'' (anomaly_to_json fl a) = Some (an_target_ref a)"
  by (simp_all add: anomaly_to_json_def j_get_str_def optional_member_def split: option.splits)

text \<open>What the code relies on of float printing: the JSON text of a finite float is read back as it.\<close>

definition float_reads :: "float_text \<Rightarrow> f64 \<Rightarrow> bool" where
  "float_reads fl x \<longleftrightarrow> is_finite x \<and> fl_parse fl (fl_json fl x) = Some x"

lemma f64_json_get: "float_reads fl x \<Longrightarrow> j_as_f64 fl (f64_to_json fl x) = Some x"
  by (simp add: f64_to_json_def float_reads_def)

lemma of_struct_anomaly: "of_struct names (anomaly_to_json fl a) = Some (anomaly_to_json fl a)"
  by (simp add: anomaly_to_json_def j_obj_def)

lemma anomaly_of_to_json:
  assumes "uuid_parse (an_anomaly_id a) = Some (an_anomaly_id a)" "float_reads fl (an_metric_value a)" "float_reads fl (an_threshold a)"
  shows "anomaly_of_json fl uuid_parse (anomaly_to_json fl a) = Some a"
  using assms by (simp add: anomaly_of_json_def of_struct_anomaly anomaly_members f64_json_get)

text \<open>An infinite value is serialised as null, and the event is unreadable for its consumers.\<close>

lemma infinite_anomaly_unreadable:
  assumes "\<not> is_finite (an_metric_value a)"
  shows "anomaly_of_json fl uuid_parse (anomaly_to_json fl a) = None"
  using assms by (cases "uuid_parse (an_anomaly_id a)") (simp_all add: anomaly_of_json_def of_struct_anomaly anomaly_members f64_to_json_def)

lemma infinite_breaches: "breaches \<lparr>th_op = OpGt, th_value = Finite x, th_severity = s, th_title = t\<rparr> PosInf"
  by (simp add: breaches_def)

text \<open>The critical threshold of the default library is never the first that is breached.\<close>

lemma default_library_never_critical:
  assumes "q \<in> set default_library" "first_breach q v = Some t"
  shows "th_severity t = ''warning''"
proof -
  have less: "f64_less (Finite 98) v \<Longrightarrow> f64_less (Finite 90) v" by (cases v) auto
  show ?thesis
    using assms less by (auto simp: default_library_def first_breach_def instance_query_def breaches_def split: if_splits)
qed

subsection \<open>The cycle\<close>

text \<open>What a cycle sees: the samples of the queries that are answered, in order.\<close>

fun observations :: "('n, 'b) observer_env \<Rightarrow> named_query list \<Rightarrow> 'n \<Rightarrow> (named_query \<times> instant_sample) list \<times> 'n" where
  "observations ov [] n = ([], n)"
| "observations ov (q # qs) n =
     (case ask_query ov q n of
        (Err _, n') \<Rightarrow> observations ov qs n'
      | (Ok ss, n') \<Rightarrow> (case observations ov qs n' of (obs, n'') \<Rightarrow> (map (Pair q) ss @ obs, n'')))"

text \<open>What they are to raise: for a sample the first threshold it breaches, in the order the query lists them, when the table takes
  its severity.\<close>

definition breach_of :: "named_query \<times> instant_sample \<Rightarrow> (named_query \<times> threshold \<times> string \<times> f64) list" where
  "breach_of x =
     (case x of (q, s) \<Rightarrow>
        map (\<lambda>t. (q, t, sample_source_id q s, sa_value s))
          (filter (\<lambda>t. th_severity t \<in> {''info'', ''warning'', ''error'', ''critical''})
            (take 1 (filter (\<lambda>t. breaches t (sa_value s)) (nq_thresholds q)))))"

lemma take1_filter: "take 1 (filter P xs) = (case find P xs of Some x \<Rightarrow> [x] | None \<Rightarrow> [])"
  by (induction xs) auto

lemma breach_of_first:
  "breach_of (q, s) =
     (case first_breach q (sa_value s) of
        Some t \<Rightarrow> if th_severity t \<in> set ANOMALY_SEVERITIES then [(q, t, sample_source_id q s, sa_value s)] else []
      | None \<Rightarrow> [])"
  by (simp only: breach_of_def first_breach_def take1_filter prod.case ANOMALY_SEVERITIES_def list.set) (simp split: option.splits)

definition breach_rows :: "uuid list \<Rightarrow> (named_query \<times> threshold \<times> string \<times> f64) list \<Rightarrow> anomaly_row list" where
  "breach_rows ids bs = map2 (\<lambda>i (q, t, sid, v). anomaly_row_of i q t sid v) ids bs"

definition breach_events :: "float_text \<Rightarrow> uuid list \<Rightarrow> (named_query \<times> threshold \<times> string \<times> f64) list \<Rightarrow> json list" where
  "breach_events fl ids bs = map2 (\<lambda>i (q, t, sid, v). anomaly_to_json fl (anomaly_event_of i q t sid v)) ids bs"

text \<open>On a database that answers, the breaches become rows, and an event for each row with its id.\<close>

definition persisted_and_sent ::
  "float_text \<Rightarrow> version_req \<Rightarrow> (named_query \<times> threshold \<times> string \<times> f64) list \<Rightarrow>
   ('n, agent_envelope list) observer_world \<Rightarrow> ('n, agent_envelope list) observer_world \<Rightarrow> bool" where
  "persisted_and_sent fl req bs w w' \<longleftrightarrow>
     (\<exists>ids evs. length ids = length bs \<and> db_tables (ob_db w') = db_tables (ob_db w) @ breach_rows ids bs \<and>
        ob_bus w' = ob_bus w @ evs \<and> map env_body evs = breach_events fl ids bs \<and>
        list_all (\<lambda>e. env_to e = ByCapability TRIAGE_CAPABILITY req \<and> env_from e = agent_id_new ''observer'') evs)"

lemma persisted_refl: "ob_db w' = ob_db w \<Longrightarrow> ob_bus w' = ob_bus w \<Longrightarrow> persisted_and_sent fl req [] w w'"
  by (simp add: persisted_and_sent_def breach_rows_def breach_events_def)

lemma persisted_trans:
  assumes "persisted_and_sent fl req bs1 w w1" "persisted_and_sent fl req bs2 w1 w2"
  shows "persisted_and_sent fl req (bs1 @ bs2) w w2"
proof -
  obtain i1 e1 where 1: "length i1 = length bs1" "db_tables (ob_db w1) = db_tables (ob_db w) @ breach_rows i1 bs1"
    "ob_bus w1 = ob_bus w @ e1" "map env_body e1 = breach_events fl i1 bs1"
    "list_all (\<lambda>e. env_to e = ByCapability TRIAGE_CAPABILITY req \<and> env_from e = agent_id_new ''observer'') e1"
    using assms(1) unfolding persisted_and_sent_def by blast
  obtain i2 e2 where 2: "length i2 = length bs2" "db_tables (ob_db w2) = db_tables (ob_db w1) @ breach_rows i2 bs2"
    "ob_bus w2 = ob_bus w1 @ e2" "map env_body e2 = breach_events fl i2 bs2"
    "list_all (\<lambda>e. env_to e = ByCapability TRIAGE_CAPABILITY req \<and> env_from e = agent_id_new ''observer'') e2"
    using assms(2) unfolding persisted_and_sent_def by blast
  show ?thesis unfolding persisted_and_sent_def
    by (rule exI [of _ "i1 @ i2"], rule exI [of _ "e1 @ e2"]) (use 1 2 in \<open>simp add: breach_rows_def breach_events_def\<close>)
qed

lemma raise_anomaly_sent:
  assumes "ov_bus ov = Some (\<lambda>e log. (answer e log, log @ [e]))" "sv_parse (ov_semver ov) ''^1'' = Some req"
    "db_faults (ob_db w) = []" "raise_anomaly ov q t sid v w = (r, w')"
  shows "is_ok r = (th_severity t \<in> set ANOMALY_SEVERITIES) \<and> db_faults (ob_db w') = [] \<and> ob_net w' = ob_net w \<and>
    persisted_and_sent (ov_float ov) req (if is_ok r then [(q, t, sid, v)] else []) w w'"
proof (cases "th_severity t \<in> set ANOMALY_SEVERITIES")
  case True
  let ?i = "ov_fresh ov (ob_ticks w)"
  let ?e = "envelope_new (ov_fresh ov (Suc (ob_ticks w))) (ov_clock ov (ob_ticks w)) (agent_id_new ''observer'')
    (ByCapability TRIAGE_CAPABILITY req) (anomaly_to_json (ov_float ov) (anomaly_event_of ?i q t sid v))"
  have s: "db_stmt (\<lambda>rows. if th_severity t \<in> set ANOMALY_SEVERITIES then (True, rows @ [anomaly_row_of ?i q t sid v]) else (False, rows)) (ob_db w) =
      (Ok True, (ob_db w)\<lparr>db_tables := db_tables (ob_db w) @ [anomaly_row_of ?i q t sid v]\<rparr>)"
    using assms(3) True by (simp add: db_stmt_def)
  have "r = Ok () \<and> w' = w\<lparr>ob_db := (ob_db w)\<lparr>db_tables := db_tables (ob_db w) @ [anomaly_row_of ?i q t sid v]\<rparr>,
      ob_ticks := ob_ticks w + 2, ob_bus := ob_bus w @ [?e]\<rparr>"
    using assms(1,2,4) s by (auto simp: raise_anomaly_def anomaly_envelope_def Let_def)
  then show ?thesis
    using assms(3) True unfolding persisted_and_sent_def
    by (auto simp: breach_rows_def breach_events_def envelope_new_def intro!: exI [of _ "[?i]"])
next
  case False
  then have "r = Err (ObPg (ov_check_error ov)) \<and> w' = w\<lparr>ob_db := ob_db w, ob_ticks := ob_ticks w + 2\<rparr>"
    using assms(3,4) by (auto simp: raise_anomaly_def db_stmt_def Let_def)
  then show ?thesis using assms(3) False persisted_refl [of w' w] by simp
qed

lemma ingest_samples_sent:
  assumes "ov_bus ov = Some (\<lambda>e log. (answer e log, log @ [e]))" "sv_parse (ov_semver ov) ''^1'' = Some req"
    "db_faults (ob_db w) = []" "fold (ingest_sample ov now q) ss (points, n, w) = (points', n', w')"
  shows "db_faults (ob_db w') = [] \<and> ob_net w' = ob_net w \<and>
    persisted_and_sent (ov_float ov) req (concat (map breach_of (map (Pair q) ss))) w w'"
  using assms(3,4)
proof (induction ss arbitrary: points n w)
  case Nil
  then show ?case by (simp add: persisted_refl)
next
  case (Cons s ss)
  obtain p1 n1 w1 where s: "ingest_sample ov now q s (points, n, w) = (p1, n1, w1)" using prod_cases3 by blast
  have "db_faults (ob_db w1) = [] \<and> ob_net w1 = ob_net w \<and> persisted_and_sent (ov_float ov) req (breach_of (q, s)) w w1"
  proof (cases "first_breach q (sa_value s)")
    case None
    then show ?thesis using s Cons.prems(1) by (auto simp: ingest_sample_def breach_of_first persisted_refl)
  next
    case (Some t)
    obtain r w2 where "raise_anomaly ov q t (sample_source_id q s) (sa_value s) w = (r, w2)" by fastforce
    with raise_anomaly_sent [OF assms(1,2) Cons.prems(1) this] Some s show ?thesis
      by (cases r) (auto simp: ingest_sample_def breach_of_first)
  qed
  with Cons.IH [of w1 p1 n1] Cons.prems(2) s show ?case using persisted_trans by (auto simp del: append.simps)
qed

lemma ingest_queries_sent:
  assumes "ov_bus ov = Some (\<lambda>e log. (answer e log, log @ [e]))" "sv_parse (ov_semver ov) ''^1'' = Some req"
    "db_faults (ob_db w) = []" "fold (ingest_query ov now) qs (points, n, w) = (points', n', w')"
  shows "db_faults (ob_db w') = [] \<and>
    persisted_and_sent (ov_float ov) req (concat (map breach_of (fst (observations ov qs (ob_net w))))) w w'"
  using assms(3,4)
proof (induction qs arbitrary: points n w)
  case Nil
  then show ?case by (simp add: persisted_refl)
next
  case (Cons q qs)
  obtain r net where q: "ask_query ov q (ob_net w) = (r, net)" by fastforce
  let ?w = "w\<lparr>ob_net := net\<rparr>"
  show ?case
  proof (cases r)
    case (Err e)
    then show ?thesis
      using Cons.IH [of ?w points n] Cons.prems q by (simp add: ingest_query_def persisted_and_sent_def)
  next
    case (Ok ss)
    obtain p1 n1 w1 where f: "fold (ingest_sample ov now q) ss (points, n, ?w) = (p1, n1, w1)" using prod_cases3 by blast
    have 1: "db_faults (ob_db w1) = []" "ob_net w1 = net"
        "persisted_and_sent (ov_float ov) req (concat (map breach_of (map (Pair q) ss))) ?w w1"
      using ingest_samples_sent [OF assms(1,2) _ f] Cons.prems(1) by simp_all
    have "persisted_and_sent (ov_float ov) req (concat (map breach_of (map (Pair q) ss))) w w1"
      using 1(3) by (simp add: persisted_and_sent_def)
    moreover have "ingest_query ov now q (points, n, w) = (p1, n1, w1)" using f q Ok by (simp add: ingest_query_def)
    then have "fold (ingest_query ov now) qs (p1, n1, w1) = (points', n', w')" using Cons.prems(2) by simp
    ultimately have "db_faults (ob_db w') = []" "persisted_and_sent (ov_float ov) req
        (concat (map breach_of (map (Pair q) ss)) @ concat (map breach_of (fst (observations ov qs net)))) w w'"
      using Cons.IH [of w1 p1 n1] 1(1,2) persisted_trans by auto
    then show ?thesis using q Ok by (cases "observations ov qs net") simp
  qed
qed

lemma run_once_sent:
  assumes "run_once ov w = (r, w')" "ov_bus ov = Some (\<lambda>e log. (answer e log, log @ [e]))"
    "sv_parse (ov_semver ov) ''^1'' = Some req" "db_faults (ob_db w) = []"
  shows "persisted_and_sent (ov_float ov) req (concat (map breach_of (fst (observations ov (ov_library ov) (ob_net w))))) w w'"
proof -
  let ?w = "w\<lparr>ob_ticks := Suc (ob_ticks w)\<rparr>"
  obtain points n w1 where f: "fold (ingest_query ov (ov_clock ov (ob_ticks w))) (ov_library ov) ([], 0, ?w) = (points, n, w1)"
    using prod_cases3 by blast
  have "persisted_and_sent (ov_float ov) req (concat (map breach_of (fst (observations ov (ov_library ov) (ob_net w))))) ?w w1"
    using ingest_queries_sent [OF assms(2,3) _ f] assms(4) by simp
  moreover have "ob_db w' = ob_db w1 \<and> ob_bus w' = ob_bus w1"
    using assms(1) f by (auto simp: run_once_def count_cycle_def split: prod.splits result.splits if_splits)
  ultimately show ?thesis by (simp add: persisted_and_sent_def)
qed

section \<open>Properties\<close>

text \<open>The order of the severities.\<close>

definition severity_rank :: "string \<Rightarrow> nat" where
  "severity_rank s = (if s = ''critical'' then 3 else if s = ''error'' then 2 else if s = ''warning'' then 1 else 0)"

lemma breach_of_most_severe:
  assumes "(q, t, sid, v) \<in> set (breach_of x)"
    and "sorted_wrt (\<lambda>a b. severity_rank (th_severity b) \<le> severity_rank (th_severity a)) (nq_thresholds q)"
    and "t' \<in> set (nq_thresholds q)" "breaches t' v"
  shows "severity_rank (th_severity t') \<le> severity_rank (th_severity t)"
proof -
  have "t \<in> set (take 1 (filter (\<lambda>t. breaches t v) (nq_thresholds q)))"
    using assms(1) by (cases x) (auto simp: breach_of_def)
  then obtain ts where ts: "filter (\<lambda>t. breaches t v) (nq_thresholds q) = t # ts"
    by (cases "filter (\<lambda>t. breaches t v) (nq_thresholds q)") auto
  have "sorted_wrt (\<lambda>a b. severity_rank (th_severity b) \<le> severity_rank (th_severity a)) (t # ts)"
    using sorted_wrt_filter [OF assms(2)] unfolding ts [symmetric] .
  moreover have "t' \<in> set (t # ts)" using assms(3,4) unfolding ts [symmetric] by simp
  ultimately show ?thesis by auto
qed

text \<open>C26: a cycle of the observer raises what it sees and nothing else. With a database that answers, the
  anomaly table gets exactly one row for each sample of an answered query that breaches a
  threshold whose severity the table takes (info, warning, error, critical; an insert with another one is refused and only logged): for the first breached threshold in
  the order in which the query lists them, and in the order of the samples. For each row, after it is stored, one event is
  sent to the triage capability, with the id of that row. Failing queries, a failing sink and a failing bus change nothing
  of this. Where a query lists its thresholds with the most severe first, the row is for the most severe one that is breached, as the comment in the loop says; the
  default library lists the warning before the critical threshold, so there the comment does not hold.\<close>

theorem observer_cycle:
  assumes "run_once ov w = (r, w')" "ov_bus ov = Some (\<lambda>e log. (answer e log, log @ [e]))"
    "sv_parse (ov_semver ov) ''^1'' = Some req" "db_faults (ob_db w) = []"
  shows "\<exists>ids evs. let bs = concat (map breach_of (fst (observations ov (ov_library ov) (ob_net w)))) in
    length ids = length bs \<and> db_tables (ob_db w') = db_tables (ob_db w) @ breach_rows ids bs \<and>
    ob_bus w' = ob_bus w @ evs \<and> map env_body evs = breach_events (ov_float ov) ids bs \<and>
    list_all (\<lambda>e. env_to e = ByCapability TRIAGE_CAPABILITY req \<and> env_from e = agent_id_new ''observer'') evs \<and>
    (\<forall>(q, t, sid, v) \<in> set bs. breaches t v \<and> t \<in> set (nq_thresholds q) \<and>
       (sorted_wrt (\<lambda>a b. severity_rank (th_severity b) \<le> severity_rank (th_severity a)) (nq_thresholds q) \<longrightarrow>
        (\<forall>t' \<in> set (nq_thresholds q). breaches t' v \<longrightarrow> severity_rank (th_severity t') \<le> severity_rank (th_severity t))))"
proof -
  let ?bs = "concat (map breach_of (fst (observations ov (ov_library ov) (ob_net w))))"
  have "breaches t v \<and> t \<in> set (nq_thresholds q)" if "(q, t, sid, v) \<in> set ?bs" for q t sid v
    using that by (auto simp: breach_of_def dest!: in_set_takeD)
  moreover have "severity_rank (th_severity t') \<le> severity_rank (th_severity t)"
    if raised: "(q, t, sid, v) \<in> set ?bs" and "sorted_wrt (\<lambda>a b. severity_rank (th_severity b) \<le> severity_rank (th_severity a)) (nq_thresholds q)"
      "t' \<in> set (nq_thresholds q)" "breaches t' v" for q t sid v t'
  proof -
    obtain x where "(q, t, sid, v) \<in> set (breach_of x)" using raised by auto
    then show ?thesis using breach_of_most_severe that(2-4) by blast
  qed
  ultimately have "\<forall>(q, t, sid, v) \<in> set ?bs. breaches t v \<and> t \<in> set (nq_thresholds q) \<and>
       (sorted_wrt (\<lambda>a b. severity_rank (th_severity b) \<le> severity_rank (th_severity a)) (nq_thresholds q) \<longrightarrow>
        (\<forall>t' \<in> set (nq_thresholds q). breaches t' v \<longrightarrow> severity_rank (th_severity t') \<le> severity_rank (th_severity t)))"
    by blast
  with run_once_sent [OF assms] show ?thesis unfolding persisted_and_sent_def Let_def by blast
qed

text \<open>A metric name the sink writes is a name of the exposition format: not empty, of letters, digits
  and underscores, and not starting with a digit; a name that is one already is kept.\<close>

lemma sanitize_metric_name_typed:
  "metric_name_ok (sanitize_metric_name s) \<and> (metric_name_ok s \<longrightarrow> sanitize_metric_name s = s)"
proof -
  have "sanitize_metric_name s = s" if "metric_name_ok s"
    using that name_chars_ascii [of s] by (cases s) (auto simp: sanitize_metric_name_def metric_name_ok_def sanitize_tail_id name_char_def)
  then show ?thesis using sanitize_ok by blast
qed

text \<open>Label values cannot break out of a metric line: whatever the labels of a point contain, its text is
  one line, with the one newline at its end, and the value of a label is read back as it was.\<close>

lemma exposition_line_safe:
  assumes "CHR 10 \<notin> set (fl_display fl (mp_value p))"
  shows "(\<exists>line. render_point json_text fl p = line @ [CHR 10] \<and> CHR 10 \<notin> set line) \<and>
    unescape (concat (map escape_char v)) = v"
proof -
  have "CHR 10 \<notin> set (render_value fl (mp_value p))"
    using assms by (cases "mp_value p") (simp_all add: render_value_def)
  then show ?thesis
    by (auto simp: render_point_def newline_def sanitize_no_newline write_label_no_newline show_no_newline
        label_entry_no_newline unescape_escape split: option.splits)
qed

section \<open>Witnesses\<close>

definition ex_float :: float_text where
  "ex_float = \<lparr>fl_parse = (\<lambda>s. map_of [(''99'', Finite 99), (''99.0'', Finite 99), (''90.0'', Finite 90)] s),
     fl_display = (\<lambda>x. if x = Finite 99 then ''99'' else ''90''), fl_json = (\<lambda>x. if x = Finite 99 then ''99.0'' else ''90.0''),
     fl_of_int = (\<lambda>i. Finite (of_int i))\<rparr>"

definition ex_point :: metric_point where
  "ex_point = \<lparr>mp_ts = 5, mp_source = ''pve'', mp_source_id = ''a'' @ [CHR 10] @ ''b'', mp_name = ''9foo'', mp_value = Finite 99, mp_labels = JObj []\<rparr>"

lemma sanitize_metric_name_example: "sanitize_metric_name ''node_cpu'' = ''node_cpu''"
proof -
  have "metric_name_ok ''node_cpu''"
    by (simp add: metric_name_ok_def name_char_def is_ascii_alphanumeric_def is_digit_def char_code_def)
  then show ?thesis using sanitize_metric_name_typed [of "''node_cpu''"] by blast
qed

lemma exposition_line_safe_example:
  "\<exists>line. render_point (\<lambda>_. '''') ex_float ex_point = line @ [CHR 10] \<and> CHR 10 \<notin> set line"
  using exposition_line_safe [of ex_float ex_point] by (simp add: ex_float_def)

definition ex_prom_answer :: http_answer where
  "ex_prom_answer = \<lparr>ha_code = 200, ha_status = ''200 OK'',
     ha_json = Ok (JObj [(''data'', JObj [(''result'', JArr [JObj [(''metric'', JObj [(''instance'', JStr ''n1:9100'')]),
       (''value'', JArr [JNum (JPos 5), JStr ''99''])]]), (''resultType'', JStr ''vector'')]), (''status'', JStr ''success'')])\<rparr>"

definition ex_observer_env :: "(unit, agent_envelope list) observer_env" where
  "ex_observer_env =
     \<lparr>ov_float = ex_float, ov_semver = star_semver, ov_http = (\<lambda>_ n. (Ok ex_prom_answer, n)), ov_prom_url = ''http://prom'',
      ov_library = take 1 default_library, ov_push = (\<lambda>_ n. (Ok (), n)), ov_bus = Some (\<lambda>e log. (Ok (), log @ [e])), ov_metrics = True,
      ov_fresh = (\<lambda>n. show_nat n), ov_clock = (\<lambda>n. n), ov_check_error = ''db error''\<rparr>"

definition ex_observer_world :: "(unit, agent_envelope list) observer_world" where
  "ex_observer_world = \<lparr>ob_net = (), ob_db = db_of [], ob_bus = [], ob_ticks = 0, ob_ingest_cycles = 0, ob_anomalies_raised = 0,
     ob_sink_push_failures = 0\<rparr>"

lemma ex_observer_breaches:
  "concat (map breach_of (fst (observations ex_observer_env (ov_library ex_observer_env) (ob_net ex_observer_world)))) =
     [(hd default_library, hd (nq_thresholds (hd default_library)), ''n1:9100'', Finite 99)]"
  by (simp add: ex_observer_env_def default_library_def ask_query_def prom_instant_def bindE_def ex_prom_answer_def http_success_def
      prom_response_of_json_def j_get_str_def optional_member_def sample_of_def map_filter_def instance_query_def ex_float_def
      breach_of_def breaches_def sample_source_id_def
      liftE_def ok_or_def retE_def)

theorem observer_cycle_witness:
  "\<exists>i. map aw_severity (db_tables (ob_db (snd (run_once ex_observer_env ex_observer_world)))) = [''warning''] \<and>
     map aw_id (db_tables (ob_db (snd (run_once ex_observer_env ex_observer_world)))) = [i] \<and>
     map (\<lambda>e. j_get_str ''anomaly_id'' (env_body e)) (ob_bus (snd (run_once ex_observer_env ex_observer_world))) = [Some i]"
proof -
  obtain r w' where r: "run_once ex_observer_env ex_observer_world = (r, w')" by fastforce
  have "ov_bus ex_observer_env = Some (\<lambda>e log. (Ok (), log @ [e]))" "sv_parse (ov_semver ex_observer_env) ''^1'' = Some (VersionReq ''^1'')"
    "db_faults (ob_db ex_observer_world) = []"
    by (simp_all add: ex_observer_env_def star_semver_def ex_observer_world_def db_of_def)
  from observer_cycle [OF r this, unfolded ex_observer_breaches Let_def]
  obtain ids evs where ids: "length ids = 1"
    "db_tables (ob_db w') = breach_rows ids [(hd default_library, hd (nq_thresholds (hd default_library)), ''n1:9100'', Finite 99)]"
    "ob_bus w' = evs"
    "map env_body evs = breach_events ex_float ids [(hd default_library, hd (nq_thresholds (hd default_library)), ''n1:9100'', Finite 99)]"
    by (auto simp: ex_observer_world_def ex_observer_env_def db_of_def)
  then obtain i where i: "ids = [i]" by (cases ids) auto
  have "map (\<lambda>e. j_get_str ''anomaly_id'' (env_body e)) evs = map (j_get_str ''anomaly_id'') (map env_body evs)" by simp
  also have "\<dots> = [Some i]" unfolding ids(4) by (simp add: i breach_events_def anomaly_members anomaly_event_of_def)
  finally show ?thesis
    using r ids(2,3) i by (simp add: breach_rows_def anomaly_row_of_def default_library_def instance_query_def)
qed

end
