(* ===== verification/Dedup.thy ===== *)
theory Dedup
  imports Prelude
begin

text \<open>
  The contract of the two de-duplication windows of the system: the triage agent's
  (\<open>daimon-triage\<close>, \<open>admit\<close>) and the alert router's (\<open>alert_router.rs\<close>, \<open>DedupCache\<close>). Both remember
  the last admission of a signature and refuse it again while it is younger than the window.
\<close>

text \<open>\<open>admit k now s\<close> answers whether the signature passes at that time; \<open>seen\<close> is when it was last let
  through. An entry of another signature may be dropped once its window is over.\<close>

locale ttl_gate =
  fixes admit :: "'k \<Rightarrow> millis \<Rightarrow> 's \<Rightarrow> bool \<times> 's" and seen :: "'s \<Rightarrow> 'k \<Rightarrow> millis option" and ttl :: millis
  assumes admit_iff: "fst (admit k now s) \<longleftrightarrow> (case seen s k of Some t \<Rightarrow> ttl \<le> now - t | None \<Rightarrow> True)"
    and admit_seen: "fst (admit k now s) \<Longrightarrow> seen (snd (admit k now s)) k = Some now"
    and admit_keeps: "seen s k' = Some t \<Longrightarrow> now - t < ttl \<Longrightarrow> seen (snd (admit k now s)) k' = Some t"
begin

text \<open>The admissions of a sequence of arrivals.\<close>

primrec admitted :: "('k \<times> millis) list \<Rightarrow> 's \<Rightarrow> ('k \<times> millis) list" where
  "admitted [] s = []"
| "admitted (x # xs) s =
     (if fst (admit (fst x) (snd x) s) then x # admitted xs (snd (admit (fst x) (snd x) s))
      else admitted xs (snd (admit (fst x) (snd x) s)))"

lemma set_admitted: "x \<in> set (admitted xs s) \<Longrightarrow> x \<in> set xs"
  by (induction xs arbitrary: s) (auto split: if_splits)

text \<open>While a signature is warm it is not admitted.\<close>

lemma admitted_warm:
  assumes "seen s k = Some t" "sorted (map snd xs)" "(k, now) \<in> set (admitted xs s)"
  shows "ttl \<le> now - t"
  using assms
proof (induction xs arbitrary: s)
  case (Cons x xs)
  obtain k1 n1 where x: "x = (k1, n1)" by fastforce
  have le: "n1 \<le> now" using Cons.prems(2,3) set_admitted [OF Cons.prems(3)] x by auto
  show ?case
  proof (cases "n1 - t < ttl")
    case True
    then have s: "seen (snd (admit k1 n1 s)) k = Some t" using admit_keeps Cons.prems(1) by blast
    have "\<not> (fst (admit k1 n1 s) \<and> k1 = k)" using Cons.prems(1) True by (auto simp: admit_iff)
    then have "(k, now) \<in> set (admitted xs (snd (admit k1 n1 s)))"
      using Cons.prems(3) x by (auto split: if_splits)
    then show ?thesis using Cons.IH s Cons.prems(2) by simp
  qed (use le in simp)
qed simp

lemma admitted_apart:
  assumes "sorted (map snd xs)"
  shows "sorted_wrt (\<lambda>(k, t) (k', t'). k = k' \<longrightarrow> ttl \<le> t' - t) (admitted xs s)"
  using assms
proof (induction xs arbitrary: s)
  case (Cons x xs)
  obtain k n where x: "x = (k, n)" by fastforce
  have "ttl \<le> n' - n" if "fst (admit k n s)" "(k, n') \<in> set (admitted xs (snd (admit k n s)))" for n'
    using admitted_warm [OF admit_seen [OF that(1)] _ that(2)] Cons.prems by simp
  then show ?case using Cons x by auto
qed simp

text \<open>The first arrival of a signature is admitted.\<close>

lemma first_admitted: "seen s k = None \<Longrightarrow> fst (admit k now s)"
  by (simp add: admit_iff)

end

end
