(* ===== verification/ChatStore.thy ===== *)
theory ChatStore
  imports Channels
begin

text \<open>
  Where chat turns are kept: the hot tier (\<open>daimon-redis\<close>, its in-process implementation), the
  durable history (\<open>db.rs\<close>, tables \<open>chat_sessions\<close> and \<open>chat_turns\<close>) and the server functions on it
  (\<open>admin_chat_sessions.rs\<close>).

  The owner of a session references a user; users are never deleted, so the reference holds.
\<close>

section \<open>Working memory\<close>

record conv_message =
  cv_role :: string
  cv_content :: string
  cv_tool_use_id :: "string option"
  cv_ts :: millis

record 'm working_memory =
  wm_conv_push :: "string \<Rightarrow> conv_message \<Rightarrow> ('m, unit, string) eff"
  wm_conv_recent :: "string \<Rightarrow> nat \<Rightarrow> ('m, conv_message list, string) eff"
  wm_kv_delete :: "string \<Rightarrow> string \<Rightarrow> ('m, unit, string) eff"

record inproc_memory =
  ip_conv :: "(string, conv_message list) hmap"
  ip_kv :: "(string, json \<times> millis option) hmap"

definition kv_key :: "string \<Rightarrow> string \<Rightarrow> string" where
  "kv_key agent key = agent @ '':'' @ key"

definition conv_list :: "string \<Rightarrow> inproc_memory \<Rightarrow> conv_message list" where
  "conv_list sid m = (case map_of (ip_conv m) sid of Some l \<Rightarrow> l | None \<Rightarrow> [])"

definition conv_push :: "string \<Rightarrow> conv_message \<Rightarrow> (inproc_memory, unit, string) eff" where
  "conv_push sid msg m = (Ok (), m\<lparr>ip_conv := hm_insert sid (conv_list sid m @ [msg]) (ip_conv m)\<rparr>)"

definition conv_recent :: "string \<Rightarrow> nat \<Rightarrow> (inproc_memory, conv_message list, string) eff" where
  "conv_recent sid n m = (Ok (drop (length (conv_list sid m) - n) (conv_list sid m)), m)"

definition kv_set :: "millis \<Rightarrow> string \<Rightarrow> string \<Rightarrow> json \<Rightarrow> millis \<Rightarrow> (inproc_memory, unit, string) eff" where
  "kv_set now agent key v ttl m =
     (Ok (), m\<lparr>ip_kv := hm_insert (kv_key agent key) (v, if ttl = 0 then None else Some (now + ttl)) (ip_kv m)\<rparr>)"

definition kv_get :: "millis \<Rightarrow> string \<Rightarrow> string \<Rightarrow> (inproc_memory, json option, string) eff" where
  "kv_get now agent key m =
     (let k = kv_key agent key;
          m' = (case map_of (ip_kv m) k of
                  Some (_, Some d) \<Rightarrow> if d < now then m\<lparr>ip_kv := hm_remove k (ip_kv m)\<rparr> else m
                | _ \<Rightarrow> m)
      in (Ok (map_option fst (map_of (ip_kv m') k)), m'))"

definition kv_delete :: "string \<Rightarrow> string \<Rightarrow> (inproc_memory, unit, string) eff" where
  "kv_delete agent key m = (Ok (), m\<lparr>ip_kv := hm_remove (kv_key agent key) (ip_kv m)\<rparr>)"

definition inproc :: "inproc_memory working_memory" where
  "inproc = \<lparr>wm_conv_push = conv_push, wm_conv_recent = conv_recent, wm_kv_delete = kv_delete\<rparr>"

section \<open>Durable history\<close>

record chat_session_row =
  cse_id :: string
  cse_owner_id :: uuid
  cse_title :: string
  cse_created_at :: millis
  cse_updated_at :: millis

record chat_turn_row =
  ctu_session_id :: string
  ctu_role :: string
  ctu_content :: string
  ctu_tool_use_id :: "string option"
  ctu_created_at :: millis

record chat_tables =
  ht_sessions :: "chat_session_row list"
  ht_turns :: "chat_turn_row list"

definition hist_stmt :: "string \<Rightarrow> (chat_tables \<Rightarrow> 'x \<times> chat_tables) \<Rightarrow> (chat_tables db, 'x, string) eff" where
  "hist_stmt ctx f = mapE (iam_fault ctx) (db_stmt f)"

definition find_session :: "string \<Rightarrow> chat_tables \<Rightarrow> chat_session_row option" where
  "find_session sid t = find (\<lambda>s. cse_id s = sid) (ht_sessions t)"

text \<open>The upsert: an existing session of another owner is not touched and returns no row.\<close>

definition upsert_session :: "millis \<Rightarrow> string \<Rightarrow> uuid \<Rightarrow> string \<Rightarrow> chat_tables \<Rightarrow> bool \<times> chat_tables" where
  "upsert_session now sid owner title t =
     (case find_session sid t of
        None \<Rightarrow> (True, t\<lparr>ht_sessions := ht_sessions t @ [\<lparr>cse_id = sid, cse_owner_id = owner, cse_title = title,
                    cse_created_at = now, cse_updated_at = now\<rparr>]\<rparr>)
      | Some s \<Rightarrow>
          (if cse_owner_id s = owner
           then (True, t\<lparr>ht_sessions := map (\<lambda>r. if cse_id r = sid then r\<lparr>cse_updated_at := now\<rparr> else r) (ht_sessions t)\<rparr>)
           else (False, t)))"

definition append_chat_turn ::
  "millis \<Rightarrow> string \<Rightarrow> uuid \<Rightarrow> string \<Rightarrow> string \<Rightarrow> string option \<Rightarrow> (chat_tables db, unit, string) eff" where
  "append_chat_turn now sid owner role content tool_use_id =
     bindE (hist_stmt ''upsert chat_session'' (upsert_session now sid owner (if role = ''user'' then take_chars 60 content else ''''))) (\<lambda>owned.
     if \<not> owned then retE ()
     else hist_stmt ''insert chat_turn'' (\<lambda>t.
       ((), t\<lparr>ht_turns := ht_turns t @ [\<lparr>ctu_session_id = sid, ctu_role = role, ctu_content = content,
              ctu_tool_use_id = tool_use_id, ctu_created_at = now\<rparr>]\<rparr>)))"

definition remove_sessions :: "(chat_session_row \<Rightarrow> bool) \<Rightarrow> chat_tables \<Rightarrow> nat \<times> chat_tables" where
  "remove_sessions P t =
     (let gone = filter P (ht_sessions t)
      in (length gone,
          t\<lparr>ht_sessions := filter (\<lambda>s. \<not> P s) (ht_sessions t),
            ht_turns := filter (\<lambda>u. ctu_session_id u \<notin> cse_id ` set gone) (ht_turns t)\<rparr>))"

text \<open>The window is capped to a 32-bit number of days; a window that reaches before the first
  timestamp of the database is refused by it.\<close>

definition MIN_TIMESTAMP_MS :: int where
  "MIN_TIMESTAMP_MS = - 210866803200000"

definition prune_chat_history :: "millis \<Rightarrow> nat \<Rightarrow> (chat_tables db, nat, string) eff" where
  "prune_chat_history now retention_days =
     (if retention_days = 0 then retE 0
      else (let days = min retention_days (2 ^ 31 - 1); since = int now - int days * 86400000
            in bindE (hist_stmt ''prune chat history'' (\<lambda>t.
                 if since < MIN_TIMESTAMP_MS then (None, t)
                 else (case remove_sessions (\<lambda>s. int (cse_updated_at s) < since) t of (n, t') \<Rightarrow> (Some n, t')))) (\<lambda>r.
               liftE (ok_or r ''prune chat history''))))"

definition user_id_for_actor :: "string \<Rightarrow> iam_tables db \<Rightarrow> uuid option \<times> iam_tables db" where
  "user_id_for_actor actor d =
     (let username = (case strip_prefix ''user:'' actor of Some u \<Rightarrow> u | None \<Rightarrow> actor)
      in case db_stmt (\<lambda>t. (map_option us_id (find (\<lambda>u. us_username u = username) (it_users t)), t)) d of
           (Ok r, d') \<Rightarrow> (r, d')
         | (Err _, d') \<Rightarrow> (None, d'))"

section \<open>Session server functions\<close>

record ('m, 'i, 'v, 't, 'a, 'b) chat_store =
  st_console :: "('i, 'v, 't, 'a, 'b) console"
  st_history :: "chat_tables db"
  st_working :: 'm

definition on_console :: "(('i, 'v, 't, 'a, 'b) console, 'x, 'e) eff \<Rightarrow> (('m, 'i, 'v, 't, 'a, 'b) chat_store, 'x, 'e) eff" where
  "on_console f w = (case f (st_console w) of (r, c) \<Rightarrow> (r, w\<lparr>st_console := c\<rparr>))"

definition on_history :: "(chat_tables db, 'x, 'e) eff \<Rightarrow> (('m, 'i, 'v, 't, 'a, 'b) chat_store, 'x, 'e) eff" where
  "on_history f w = (case f (st_history w) of (r, d) \<Rightarrow> (r, w\<lparr>st_history := d\<rparr>))"

definition on_working :: "('m, 'x, 'e) eff \<Rightarrow> (('m, 'i, 'v, 't, 'a, 'b) chat_store, 'x, 'e) eff" where
  "on_working f w = (case f (st_working w) of (r, m) \<Rightarrow> (r, w\<lparr>st_working := m\<rparr>))"

definition page_pool :: "(('m, 'i, 'v, 't, 'a, 'b) chat_store, unit, string) eff" where
  "page_pool = on_history (mapE (\<lambda>f. ''pool: '' @ fault_text f) (db_stmt (\<lambda>t. ((), t))))"

definition page_stmt :: "string \<Rightarrow> (chat_tables \<Rightarrow> 'x \<times> chat_tables) \<Rightarrow> (('m, 'i, 'v, 't, 'a, 'b) chat_store, 'x, string) eff" where
  "page_stmt name f = on_history (mapE (\<lambda>e. name @ '': '' @ fault_text e) (db_stmt f))"

definition caller ::
  "('i, 'v, 't, 'a) console_env \<Rightarrow> millis \<Rightarrow> string option \<Rightarrow> (('m, 'i, 'v, 't, 'a, 'b) chat_store, claims, string) eff" where
  "caller env now cookie = on_console (on_app (require_authenticated (ce_app env) now cookie))"

definition list_my_sessions ::
  "('i, 'v, 't, 'a) console_env \<Rightarrow> (millis \<Rightarrow> string) \<Rightarrow> millis \<Rightarrow> string option \<Rightarrow>
   (('m, 'i, 'v, 't, 'a, 'b) chat_store, (string \<times> string \<times> string) list, string) eff" where
  "list_my_sessions env rfc3339 now cookie =
     bindE (caller env now cookie) (\<lambda>cl.
     bindE page_pool (\<lambda>_.
     page_stmt ''list sessions'' (\<lambda>t.
       (map (\<lambda>s. (cse_id s, cse_title s, rfc3339 (cse_updated_at s)))
          (take 200 (sort_key (\<lambda>s. - int (cse_updated_at s)) (filter (\<lambda>s. cse_owner_id s = cm_user_id cl) (ht_sessions t)))), t))))"

definition session_owner :: "string \<Rightarrow> (('m, 'i, 'v, 't, 'a, 'b) chat_store, uuid option, string) eff" where
  "session_owner sid =
     bindE page_pool (\<lambda>_. page_stmt ''owner lookup'' (\<lambda>t. (map_option cse_owner_id (find_session sid t), t)))"

definition turns_of :: "string \<Rightarrow> chat_tables \<Rightarrow> chat_turn_row list" where
  "turns_of sid t = filter (\<lambda>u. ctu_session_id u = sid) (ht_turns t)"

definition load_chat_session ::
  "('i, 'v, 't, 'a) console_env \<Rightarrow> millis \<Rightarrow> string option \<Rightarrow> string \<Rightarrow>
   (('m, 'i, 'v, 't, 'a, 'b) chat_store, (string \<times> string \<times> string option) list, string) eff" where
  "load_chat_session env now cookie sid =
     bindE (caller env now cookie) (\<lambda>cl.
     bindE (session_owner sid) (\<lambda>owner.
     case owner of
       None \<Rightarrow> retE []
     | Some u \<Rightarrow>
         if u \<noteq> cm_user_id cl \<and> \<not> list_ex (\<lambda>r. r = ''admin'' \<or> r = ''auditor'') (cm_roles cl)
         then failE ''not authorized for this session''
         else bindE page_pool (\<lambda>_.
              page_stmt ''load turns'' (\<lambda>t.
                (map (\<lambda>u. (ctu_role u, ctu_content u, ctu_tool_use_id u)) (take 500 (turns_of sid t)), t)))))"

definition delete_chat_session ::
  "('i, 'v, 't, 'a) console_env \<Rightarrow> 'm working_memory \<Rightarrow> millis \<Rightarrow> string option \<Rightarrow> string \<Rightarrow>
   (('m, 'i, 'v, 't, 'a, 'b) chat_store, unit, string) eff" where
  "delete_chat_session env wm now cookie sid =
     bindE (caller env now cookie) (\<lambda>cl.
     bindE (session_owner sid) (\<lambda>owner.
     if (case owner of Some u \<Rightarrow> u \<noteq> cm_user_id cl \<and> \<not> list_ex (\<lambda>r. r = ''admin'') (cm_roles cl) | None \<Rightarrow> False)
     then failE ''not authorized to delete this session''
     else bindE page_pool (\<lambda>_.
          bindE (page_stmt ''delete session'' (\<lambda>t. ((), snd (remove_sessions (\<lambda>s. cse_id s = sid) t)))) (\<lambda>_.
          \<lambda>w. (Ok (), snd (on_working (wm_kv_delete wm ''chat'' sid) w))))))"

section \<open>Lemmas\<close>

text \<open>What the turn relies on of a conversation store: pushes of a session are appended, and the
  recent messages are the last ones, oldest first.\<close>

locale conversation_store =
  fixes wm :: "'m working_memory" and view :: "'m \<Rightarrow> string \<Rightarrow> conv_message list"
  assumes push: "wm_conv_push wm sid msg m = (Ok (), m') \<Longrightarrow> view m' = (view m)(sid := view m sid @ [msg])"
    and push_failed: "wm_conv_push wm sid msg m = (Err e, m') \<Longrightarrow> view m' = view m"
    and recent: "wm_conv_recent wm sid n m = (Ok l, m') \<Longrightarrow> l = drop (length (view m sid) - n) (view m sid)"
    and recent_view: "wm_conv_recent wm sid n m = (r, m') \<Longrightarrow> view m' = view m"
begin

lemma push_recent:
  assumes "wm_conv_push wm sid msg m = (Ok (), m1)" "wm_conv_recent wm sid n m1 = (Ok l, m2)" "0 < n"
  shows "l \<noteq> [] \<and> last l = msg"
  using recent [OF assms(2)] assms(3) by (auto simp: push [OF assms(1)])

lemma push_other:
  assumes "wm_conv_push wm sid msg m = (r, m1)" "sid' \<noteq> sid"
  shows "view m1 sid' = view m sid'"
  using assms by (cases r) (auto dest: push push_failed)

end

lemma conv_list_push: "conv_push sid msg m = (r, m') \<Longrightarrow> conv_list sid' m' = (if sid' = sid then conv_list sid m @ [msg] else conv_list sid' m)"
  by (auto simp: conv_push_def conv_list_def hm_insert_get)

interpretation ipm: conversation_store inproc "\<lambda>m sid. conv_list sid m"
  by unfold_locales
    (auto simp: inproc_def conv_list_push fun_eq_iff, auto simp: conv_push_def conv_recent_def)

lemma hist_stmt_tables:
  "hist_stmt ctx f d = (r, d') \<Longrightarrow> db_tables d' = (if is_ok r then snd (f (db_tables d)) else db_tables d)"
  unfolding hist_stmt_def by (cases "db_stmt f d") (auto dest: db_stmt_tables)

lemma hist_stmt_Ok: "hist_stmt ctx f d = (Ok x, d') \<Longrightarrow> x = fst (f (db_tables d)) \<and> db_tables d' = snd (f (db_tables d))"
  unfolding hist_stmt_def mapE_Ok_iff by (auto simp: db_stmt_Ok_iff) (metis fst_conv snd_conv)+

lemma page_stmt_Ok:
  "page_stmt name f w = (Ok x, w') \<Longrightarrow>
   x = fst (f (db_tables (st_history w))) \<and> db_tables (st_history w') = snd (f (db_tables (st_history w)))"
  unfolding page_stmt_def on_history_def
  by (auto simp: mapE_Ok_iff db_stmt_Ok_iff split: prod.splits) (metis fst_conv snd_conv)+

lemma page_pool_Ok: "page_pool w = (Ok x, w') \<Longrightarrow> db_tables (st_history w') = db_tables (st_history w)"
  unfolding page_pool_def on_history_def by (auto simp: mapE_Ok_iff db_stmt_Ok_iff split: prod.splits)

lemma caller_history: "caller env now cookie w = (r, w') \<Longrightarrow> st_history w' = st_history w"
  by (auto simp: caller_def on_console_def split: prod.splits)

lemma session_owner_Ok:
  "session_owner sid w = (Ok x, w') \<Longrightarrow>
   x = map_option cse_owner_id (find_session sid (db_tables (st_history w))) \<and> db_tables (st_history w') = db_tables (st_history w)"
  unfolding session_owner_def by (auto simp: bindE_Ok_iff dest!: page_pool_Ok page_stmt_Ok)

lemma find_session_map:
  "find_session sid (t\<lparr>ht_sessions := map (\<lambda>r. if cse_id r = k then r\<lparr>cse_updated_at := now\<rparr> else r) (ht_sessions t)\<rparr>) =
     map_option (\<lambda>r. if cse_id r = k then r\<lparr>cse_updated_at := now\<rparr> else r) (find_session sid t)"
proof -
  have "find (\<lambda>s. cse_id s = sid) (map (\<lambda>r. if cse_id r = k then r\<lparr>cse_updated_at := now\<rparr> else r) xs) =
      map_option (\<lambda>r. if cse_id r = k then r\<lparr>cse_updated_at := now\<rparr> else r) (find (\<lambda>s. cse_id s = sid) xs)" for xs
    by (induction xs) auto
  then show ?thesis by (simp add: find_session_def)
qed

lemma find_session_append: "find_session sid t = Some s \<Longrightarrow> find_session sid (t\<lparr>ht_sessions := ht_sessions t @ xs\<rparr>) = Some s"
proof -
  have "find P ys = Some s \<Longrightarrow> find P (ys @ xs) = Some s" for P and ys :: "chat_session_row list"
    by (induction ys) auto
  then show "find_session sid t = Some s \<Longrightarrow> find_session sid (t\<lparr>ht_sessions := ht_sessions t @ xs\<rparr>) = Some s"
    by (simp add: find_session_def)
qed

lemma find_session_id: "find_session sid t = Some s \<Longrightarrow> cse_id s = sid"
  by (auto simp: find_session_def find_Some_iff)

lemma upsert_session_other:
  assumes "find_session sid' t = Some s" "cse_owner_id s \<noteq> owner"
  shows "find_session sid' (snd (upsert_session now sid owner title t)) = Some s \<and>
    ht_turns (snd (upsert_session now sid owner title t)) = ht_turns t \<and>
    (sid' = sid \<longrightarrow> \<not> fst (upsert_session now sid owner title t))"
  using assms find_session_id [OF assms(1)]
  by (auto simp: upsert_session_def find_session_map find_session_append split: option.splits)

section \<open>Properties\<close>

text \<open>C32: a turn is never written into somebody else's conversation: whatever session id a request names, and
  whatever statements fail, appending a turn for one owner leaves the session row and the turns of
  every session of another owner as they were.\<close>

theorem history_owner_only:
  assumes "append_chat_turn now sid owner role content tid d = (r, d')"
    "find_session sid' (db_tables d) = Some s" "cse_owner_id s \<noteq> owner"
  shows "find_session sid' (db_tables d') = Some s \<and> turns_of sid' (db_tables d') = turns_of sid' (db_tables d)"
proof -
  let ?f = "upsert_session now sid owner (if role = ''user'' then take_chars 60 content else '''')"
  obtain x d1 where x: "hist_stmt ''upsert chat_session'' ?f d = (x, d1)" by fastforce
  note u = upsert_session_other [OF assms(2,3), of now sid "if role = ''user'' then take_chars 60 content else ''''"]
  have t1: "find_session sid' (db_tables d1) = Some s \<and> ht_turns (db_tables d1) = ht_turns (db_tables d)"
    using hist_stmt_tables [OF x] u assms(2) by auto
  show ?thesis
  proof (cases "x = Ok True")
    case True
    then have "sid' \<noteq> sid" using hist_stmt_Ok [of _ _ d True d1] x u by auto
    moreover have "hist_stmt ''insert chat_turn'' (\<lambda>t. ((), t\<lparr>ht_turns := ht_turns t @ [\<lparr>ctu_session_id = sid, ctu_role = role,
        ctu_content = content, ctu_tool_use_id = tid, ctu_created_at = now\<rparr>]\<rparr>)) d1 = (r, d')"
      using assms(1) x True by (simp add: append_chat_turn_def bindE_def)
    ultimately show ?thesis
      using t1 hist_stmt_tables [of _ _ d1 r d'] by (auto simp: turns_of_def find_session_def)
  next
    case False
    then have "d' = d1" using assms(1) x by (cases x) (auto simp: append_chat_turn_def bindE_def retE_def split: if_splits)
    then show ?thesis using t1 by (simp add: turns_of_def)
  qed
qed

text \<open>The history shows a conversation only to its owner, an admin or an auditor: when a request loads
  turns, the caller has a valid session and is one of these.\<close>

lemma history_read_authorized:
  assumes "load_chat_session env now cookie sid w = (Ok turns, w')" "turns \<noteq> []"
  shows "\<exists>cl s. fst (caller env now cookie w) = Ok cl \<and> find_session sid (db_tables (st_history w)) = Some s \<and>
    (cse_owner_id s = cm_user_id cl \<or> ''admin'' \<in> set (cm_roles cl) \<or> ''auditor'' \<in> set (cm_roles cl))"
proof -
  obtain cl w1 u w2 where c: "caller env now cookie w = (Ok cl, w1)" "session_owner sid w1 = (Ok (Some u), w2)"
    and a: "u = cm_user_id cl \<or> list_ex (\<lambda>r. r = ''admin'' \<or> r = ''auditor'') (cm_roles cl)"
    using assms unfolding load_chat_session_def
    by (auto simp: bindE_Ok_iff retE_def failE_def split: option.splits if_splits)
  obtain s where "find_session sid (db_tables (st_history w)) = Some s" "cse_owner_id s = u"
    using session_owner_Ok [OF c(2)] caller_history [OF c(1)] by (auto simp: eq_commute [of "Some u"])
  then show ?thesis using c(1) a by (auto simp: list_ex_iff)
qed

text \<open>The hot copy of a deleted session stays: the key that is removed is not the one the turns
  are under.\<close>

lemma delete_keeps_hot_copy:
  assumes "delete_chat_session env inproc now cookie sid w = (r, w')"
  shows "conv_list k (st_working w') = conv_list k (st_working w)"
proof -
  have p: "page_pool v = (x, v') \<Longrightarrow> st_working v' = st_working v" for v v' :: "(inproc_memory, 'a, 'b, 'c, 'd, 'e) chat_store" and x
    by (auto simp: page_pool_def on_history_def split: prod.splits)
  have s: "page_stmt n f v = (x, v') \<Longrightarrow> st_working v' = st_working v"
    for n and f :: "chat_tables \<Rightarrow> 'y \<times> chat_tables" and v v' :: "(inproc_memory, 'a, 'b, 'c, 'd, 'e) chat_store" and x
    by (auto simp: page_stmt_def on_history_def split: prod.splits)
  have c: "caller env now cookie v = (x, v') \<Longrightarrow> st_working v' = st_working v"
    for v v' :: "(inproc_memory, 'a, 'b, 'c, 'd, 'e) chat_store" and x
    by (auto simp: caller_def on_console_def split: prod.splits)
  have o: "session_owner sid v = (x, v') \<Longrightarrow> st_working v' = st_working v"
    for v v' :: "(inproc_memory, 'a, 'b, 'c, 'd, 'e) chat_store" and x
    by (auto simp: session_owner_def bindE_def split: prod.splits result.splits dest!: p s)
  show ?thesis
    using assms unfolding delete_chat_session_def
    by (auto simp: bindE_def failE_def on_working_def inproc_def kv_delete_def conv_list_def
        split: prod.splits result.splits if_splits dest!: c o p s)
qed

section \<open>Witnesses\<close>

definition ex_history :: chat_tables where
  "ex_history =
     \<lparr>ht_sessions = [\<lparr>cse_id = ''s-9'', cse_owner_id = ''u-2'', cse_title = ''hello'', cse_created_at = 1, cse_updated_at = 1\<rparr>],
      ht_turns = [\<lparr>ctu_session_id = ''s-9'', ctu_role = ''user'', ctu_content = ''hello'', ctu_tool_use_id = None, ctu_created_at = 1\<rparr>]\<rparr>"

definition ex_store :: "(inproc_memory, mem_inventory, pg_vault, stub_record list, audit_db, in_proc_bus) chat_store" where
  "ex_store = \<lparr>st_console = ex_console, st_history = db_of ex_history, st_working = \<lparr>ip_conv = [], ip_kv = []\<rparr>\<rparr>"

theorem history_owner_only_witness:
  "turns_of ''s-9'' (db_tables (snd (append_chat_turn 5 ''s-9'' ''u-1'' ''user'' ''injected'' None (db_of ex_history)))) =
     turns_of ''s-9'' ex_history"
proof -
  obtain r d where r: "append_chat_turn 5 ''s-9'' ''u-1'' ''user'' ''injected'' None (db_of ex_history) = (r, d)" by fastforce
  have "find_session ''s-9'' (db_tables (db_of ex_history)) = Some (hd (ht_sessions ex_history))"
    "cse_owner_id (hd (ht_sessions ex_history)) \<noteq> ''u-1''"
    by (simp_all add: ex_history_def db_of_def find_session_def)
  from history_owner_only [OF r this] r show ?thesis by (simp add: db_of_def)
qed

lemma ex_store_caller:
  "\<exists>cl. caller ex_console_env 6000 (Some ex_cookie) ex_store = (Ok cl, ex_store) \<and> ''admin'' \<in> set (cm_roles cl)"
proof -
  obtain cl where a: "on_app (require_admin (ce_app ex_console_env) 6000 (Some ex_cookie)) ex_console = (Ok cl, ex_console)"
    using ex_console_admin by blast
  then have "on_app (require_authenticated (ce_app ex_console_env) 6000 (Some ex_cookie)) ex_console = (Ok cl, ex_console) \<and> ''admin'' \<in> set (cm_roles cl)"
    by (auto simp: on_app_def require_admin_def require_some_role_def bindE_Ok_iff retE_def failE_def list_ex_iff
        split: prod.splits if_splits)
  then show ?thesis by (auto simp: caller_def on_console_def ex_store_def)
qed

lemma history_read_authorized_example:
  "\<exists>turns w cl s. load_chat_session ex_console_env 6000 (Some ex_cookie) ''s-9'' ex_store = (Ok turns, w) \<and> turns \<noteq> [] \<and>
     fst (caller ex_console_env 6000 (Some ex_cookie) ex_store) = Ok cl \<and>
     find_session ''s-9'' (db_tables (st_history ex_store)) = Some s \<and>
     (cse_owner_id s = cm_user_id cl \<or> ''admin'' \<in> set (cm_roles cl) \<or> ''auditor'' \<in> set (cm_roles cl))"
proof -
  obtain cl where a: "caller ex_console_env 6000 (Some ex_cookie) ex_store = (Ok cl, ex_store)" "''admin'' \<in> set (cm_roles cl)"
    using ex_store_caller by blast
  then have "list_ex (\<lambda>r. r = ''admin'' \<or> r = ''auditor'') (cm_roles cl)" by (auto simp: list_ex_iff)
  then have "\<exists>turns w. load_chat_session ex_console_env 6000 (Some ex_cookie) ''s-9'' ex_store = (Ok turns, w) \<and> turns \<noteq> []"
    using a by (simp add: load_chat_session_def bindE_def session_owner_def page_pool_def page_stmt_def on_history_def ex_store_def
        db_stmt_db_of find_session_def ex_history_def turns_of_def)
  then show ?thesis using history_read_authorized by blast
qed

end
