(* ===== verification/Triage.thy ===== *)
theory Triage
  imports Observing Dedup Chat Saga
begin

text \<open>
  The triage agent (\<open>daimon-triage\<close>): it turns an anomaly event into a persisted plan without
  steps and an incident record, at most once per signature and window, and never runs anything.

  The memory service is an effect on a state of its own; the clock and the id of a new plan are
  arguments.
\<close>

section \<open>The agent\<close>

definition DEDUPE_TTL :: millis where
  "DEDUPE_TTL = 600000"

record ('d, 'g, 'm, 'c) triage_env =
  te_orch :: "('d, 'g, 'm) orch_env"
  te_capture :: "typed_record \<Rightarrow> ('c, string, string) eff"
  te_float :: float_text
  te_uuid_parse :: "string \<Rightarrow> uuid option"
  te_serde :: "json \<Rightarrow> string"
  te_dedupe_ttl :: millis

record ('d, 'g, 'm, 'c) triage_world =
  tw_seen :: "(string \<times> string, millis) hmap"
  tw_orch :: "('d, 'g, 'm) orch_world"
  tw_memory :: 'c

definition triage_id :: agent_id where
  "triage_id = agent_id_new ''agent:triage''"

definition triage_caps :: "capability list" where
  "triage_caps = [read_only TRIAGE_CAPABILITY (version_new 1 0 0)]"

definition triage_admit :: "millis \<Rightarrow> string \<times> string \<Rightarrow> millis \<Rightarrow> (string \<times> string, millis) hmap \<Rightarrow> bool \<times> (string \<times> string, millis) hmap" where
  "triage_admit ttl key now seen =
     (case map_of seen key of
        Some prev \<Rightarrow> if now - prev < ttl then (False, seen) else (True, hm_insert key now seen)
      | None \<Rightarrow> (True, hm_insert key now seen))"

definition triage_intent :: "float_text \<Rightarrow> anomaly_detected \<Rightarrow> string" where
  "triage_intent fl a =
     ''triage: '' @ an_title a @ '' ('' @ an_metric_name a @ '' = '' @ fl_display fl (an_metric_value a) @ '' > '' @
     fl_display fl (an_threshold a) @ '')''"

definition incident_record :: "float_text \<Rightarrow> anomaly_detected \<Rightarrow> uuid \<Rightarrow> typed_record" where
  "incident_record fl a plan_id =
     \<lparr>tr_body = IncidentBody (''anomaly: '' @ an_title a)
        (an_title a @ '' on '' @ an_source_id a @ '' '' @ em_dash @ '' '' @ an_metric_name a @ '' = '' @ fl_display fl (an_metric_value a) @
         '' (breached threshold '' @ fl_display fl (an_threshold a) @ '')'')
        (''triage plan '' @ plan_id @ '' created (pending operator)''),
      tr_namespace = None\<rparr>"

definition capture_incident ::
  "('d, 'g, 'm, 'c) triage_env \<Rightarrow> anomaly_detected \<Rightarrow> uuid \<Rightarrow> ('d, 'g, 'm, 'c) triage_world \<Rightarrow> ('d, 'g, 'm, 'c) triage_world" where
  "capture_incident te a plan_id w =
     w\<lparr>tw_memory := snd (te_capture te (incident_record (te_float te) a plan_id) (tw_memory w))\<rparr>"

text \<open>\<open>handle\<close>: an unreadable body is the only error; a failing plan insert is only logged.\<close>

definition triage_handle ::
  "('d, 'g, 'm, 'c) triage_env \<Rightarrow> millis \<Rightarrow> uuid \<Rightarrow> agent_envelope \<Rightarrow> (('d, 'g, 'm, 'c) triage_world, unit, core_error) eff" where
  "triage_handle te now u e w =
     (case anomaly_of_json (te_float te) (te_uuid_parse te) (env_body e) of
        None \<Rightarrow> (Err (CoreSerde (te_serde te (env_body e))), w)
      | Some a \<Rightarrow>
          (case triage_admit (te_dedupe_ttl te) (an_source_id a, an_metric_name a) now (tw_seen w) of
             (False, s) \<Rightarrow> (Ok (), w\<lparr>tw_seen := s\<rparr>)
           | (True, s) \<Rightarrow>
               (case create_plan (te_orch te) u [] None (triage_intent (te_float te) a) [] (tw_orch w) of
                  (Err _, ow) \<Rightarrow> (Ok (), w\<lparr>tw_seen := s, tw_orch := ow\<rparr>)
                | (Ok p, ow) \<Rightarrow> (Ok (), capture_incident te a (pl_id p) (w\<lparr>tw_seen := s, tw_orch := ow\<rparr>)))))"

section \<open>Lemmas\<close>

interpretation tgate: ttl_gate "triage_admit ttl" map_of ttl for ttl
  by unfold_locales (auto simp: triage_admit_def hm_insert_get split: option.splits if_splits)

text \<open>A plan without steps: the tables get one plan row, or stay.\<close>

definition opens_plan :: "string \<Rightarrow> uuid \<Rightarrow> orch_tables \<Rightarrow> orch_tables \<Rightarrow> bool" where
  "opens_plan intent u t t' \<longleftrightarrow>
     (\<exists>row. t' = t\<lparr>ot_plans := ot_plans t @ [row]\<rparr> \<and> pl_id row = u \<and> pl_intent row = intent \<and> pl_status row = ''planning'' \<and>
        pl_created_by row = None)"

lemma mirror_plan_disp [simp]: "ow_disp (mirror_plan oe p ids ds w) = ow_disp w"
  by (simp add: mirror_plan_def split: option.splits)

lemma ostmt_disp: "ostmt f w = (r, w') \<Longrightarrow> ow_disp w' = ow_disp w"
  by (auto simp: ostmt_def split: prod.splits)

lemma create_empty_plan:
  assumes "create_plan oe u [] None intent [] w = (r, w')"
  shows "ow_disp w' = ow_disp w \<and>
    (case r of Ok p \<Rightarrow> opens_plan intent u (ow_tables w) (ow_tables w') \<and> pl_id p = u | Err _ \<Rightarrow> ow_tables w' = ow_tables w)"
proof -
  obtain r1 w1 where i: "insert_plan u None intent w = (r1, w1)" by fastforce
  have d1: "ow_disp w1 = ow_disp w" using ostmt_disp i unfolding insert_plan_def by fast
  show ?thesis
  proof (cases r1)
    case (Err e)
    then show ?thesis
      using assms i d1 by (auto simp: create_plan_def otxn_def bindE_def)
  next
    case (Ok p)
    then have p: "pl_id p = u" "opens_plan intent u (ow_tables w) (ow_tables w1)"
      using ostmt_Ok(1) [OF i [unfolded Ok insert_plan_def]] by (auto simp: Let_def opens_plan_def row_to_plan_def)
    obtain r2 w2 where c: "ostmt (\<lambda>_ t. ((), t)) w1 = (r2, w2)" by fastforce
    have d2: "ow_disp w2 = ow_disp w1" using ostmt_disp [OF c] .
    show ?thesis
    proof (cases r2)
      case (Err e)
      then show ?thesis
        using assms i Ok c d1 d2 by (auto simp: create_plan_def otxn_def bindE_def retE_def)
    next
      case (Ok x)
      then have "ow_tables w2 = ow_tables w1" using ostmt_Ok(1) [OF c [unfolded Ok]] by simp
      with Ok \<open>r1 = Ok p\<close> show ?thesis
        using assms i c d1 d2 p by (auto simp: create_plan_def otxn_def bindE_def retE_def modifyE_def)
    qed
  qed
qed

lemma create_empty_plan_ok:
  assumes "db_faults (ow_db w) = []"
  shows "is_ok (fst (create_plan oe u [] None intent [] w))"
  using assms by (simp add: create_plan_def otxn_def bindE_def retE_def modifyE_def insert_plan_def ostmt_nofault Let_def)

lemma triage_handle_cases:
  assumes "triage_handle te now u e w = (r, w')"
  shows "ow_disp (tw_orch w') = ow_disp (tw_orch w) \<and>
    (case anomaly_of_json (te_float te) (te_uuid_parse te) (env_body e) of
       None \<Rightarrow> r = Err (CoreSerde (te_serde te (env_body e))) \<and> w' = w
     | Some a \<Rightarrow>
         r = Ok () \<and> tw_seen w' = snd (triage_admit (te_dedupe_ttl te) (an_source_id a, an_metric_name a) now (tw_seen w)) \<and>
         (ow_tables (tw_orch w') = ow_tables (tw_orch w) \<or>
          fst (triage_admit (te_dedupe_ttl te) (an_source_id a, an_metric_name a) now (tw_seen w)) \<and>
          opens_plan (triage_intent (te_float te) a) u (ow_tables (tw_orch w)) (ow_tables (tw_orch w'))))"
proof (cases "anomaly_of_json (te_float te) (te_uuid_parse te) (env_body e)")
  case None
  then show ?thesis using assms by (simp add: triage_handle_def)
next
  case (Some a)
  obtain b s where s: "triage_admit (te_dedupe_ttl te) (an_source_id a, an_metric_name a) now (tw_seen w) = (b, s)" by fastforce
  obtain x ow where c: "create_plan (te_orch te) u [] None (triage_intent (te_float te) a) [] (tw_orch w) = (x, ow)" by fastforce
  show ?thesis
    using assms Some s c create_empty_plan [OF c]
    by (cases b; cases x) (auto simp: triage_handle_def capture_incident_def)
qed

text \<open>The anomaly of an event that is admitted: one that was not seen, or at least the window ago.\<close>

definition triage_admits :: "('d, 'g, 'm, 'c) triage_env \<Rightarrow> millis \<Rightarrow> agent_envelope \<Rightarrow> (string \<times> string, millis) hmap \<Rightarrow> anomaly_detected option" where
  "triage_admits te now e seen =
     (case anomaly_of_json (te_float te) (te_uuid_parse te) (env_body e) of
        None \<Rightarrow> None
      | Some a \<Rightarrow>
          (case map_of seen (an_source_id a, an_metric_name a) of
             None \<Rightarrow> Some a
           | Some t \<Rightarrow> if te_dedupe_ttl te \<le> now - t then Some a else None))"

lemma triage_handle_not_admitted:
  assumes "triage_admits te now e (tw_seen w) = None" "triage_handle te now u e w = (r, w')"
  shows "w' = w"
  using assms by (auto simp: triage_admits_def triage_handle_def triage_admit_def split: option.splits if_splits)

lemma triage_handle_admitted:
  assumes "triage_admits te now e (tw_seen w) = Some a" "triage_handle te now u e w = (r, w')"
  shows "r = Ok () \<and> map_of (tw_seen w') (an_source_id a, an_metric_name a) = Some now \<and> ow_disp (tw_orch w') = ow_disp (tw_orch w) \<and>
    (if is_ok (fst (create_plan (te_orch te) u [] None (triage_intent (te_float te) a) [] (tw_orch w)))
     then opens_plan (triage_intent (te_float te) a) u (ow_tables (tw_orch w)) (ow_tables (tw_orch w'))
     else ow_tables (tw_orch w') = ow_tables (tw_orch w))"
proof -
  have adm: "anomaly_of_json (te_float te) (te_uuid_parse te) (env_body e) = Some a"
    "triage_admit (te_dedupe_ttl te) (an_source_id a, an_metric_name a) now (tw_seen w) =
       (True, hm_insert (an_source_id a, an_metric_name a) now (tw_seen w))"
    using assms(1) by (auto simp: triage_admits_def triage_admit_def split: option.splits if_splits)
  obtain x ow where c: "create_plan (te_orch te) u [] None (triage_intent (te_float te) a) [] (tw_orch w) = (x, ow)" by fastforce
  show ?thesis
    using assms(2) adm c create_empty_plan [OF c] by (cases x) (auto simp: triage_handle_def capture_incident_def hm_insert_get)
qed

text \<open>A sequence of deliveries (when, with which id for a plan, and which envelope), and the plans it opens.\<close>

definition signature_of :: "('d, 'g, 'm, 'c) triage_env \<Rightarrow> agent_envelope \<Rightarrow> (string \<times> string) option" where
  "signature_of te e =
     map_option (\<lambda>a. (an_source_id a, an_metric_name a)) (anomaly_of_json (te_float te) (te_uuid_parse te) (env_body e))"

fun plans_opened ::
  "('d, 'g, 'm, 'c) triage_env \<Rightarrow> (millis \<times> uuid \<times> agent_envelope) list \<Rightarrow> ('d, 'g, 'm, 'c) triage_world \<Rightarrow>
   ((string \<times> string) \<times> millis) list" where
  "plans_opened te [] w = []"
| "plans_opened te ((now, u, e) # xs) w =
     (let w' = snd (triage_handle te now u e w)
      in (case signature_of te e of
            Some k \<Rightarrow> if ot_plans (ow_tables (tw_orch w')) = ot_plans (ow_tables (tw_orch w)) then [] else [(k, now)]
          | None \<Rightarrow> []) @ plans_opened te xs w')"

definition arrivals :: "('d, 'g, 'm, 'c) triage_env \<Rightarrow> (millis \<times> uuid \<times> agent_envelope) list \<Rightarrow> ((string \<times> string) \<times> millis) list" where
  "arrivals te xs = concat (map (\<lambda>(now, u, e). case signature_of te e of Some k \<Rightarrow> [(k, now)] | None \<Rightarrow> []) xs)"

lemma plans_opened_admitted: "subseq (plans_opened te xs w) (tgate.admitted (te_dedupe_ttl te) (arrivals te xs) (tw_seen w))"
proof (induction xs arbitrary: w)
  case (Cons x xs)
  obtain now u e where x: "x = (now, u, e)" using prod_cases3 by blast
  obtain r w' where h: "triage_handle te now u e w = (r, w')" by fastforce
  note c = triage_handle_cases [OF h]
  show ?case
  proof (cases "anomaly_of_json (te_float te) (te_uuid_parse te) (env_body e)")
    case None
    then show ?thesis using c Cons.IH [of w'] h x by (simp add: signature_of_def arrivals_def)
  next
    case (Some a)
    then show ?thesis
      using c Cons.IH [of w'] h x by (auto simp: signature_of_def arrivals_def intro: list_emb_Cons)
  qed
qed (simp add: arrivals_def)

lemma arrivals_sorted: "sorted (map fst xs) \<Longrightarrow> sorted (map snd (arrivals te xs))"
proof (induction xs)
  case (Cons x xs)
  obtain now u e where x: "x = (now, u, e)" using prod_cases3 by blast
  have "set (map snd (arrivals te xs)) \<subseteq> set (map fst xs)"
    by (auto simp: arrivals_def split: option.splits) force
  with Cons x show ?case by (auto simp: arrivals_def split: option.splits)
qed (simp add: arrivals_def)

lemma sorted_wrt_subseq: "subseq xs ys \<Longrightarrow> sorted_wrt P ys \<Longrightarrow> sorted_wrt P xs"
  by (induction rule: list_emb.induct) (auto dest: list_emb_set)

section \<open>Properties\<close>

text \<open>C25: the loop cannot close on itself: whatever event arrives and whatever fails, triage dispatches nothing, writes no step and
  leaves every row as it is. It opens at most one plan, in status planning, without an author and with the intent of the anomaly, and it opens one or
  records an incident only for an event that it admits: its body is an anomaly, and its signature (source and metric)
  was not seen before or at least the window ago. The admission is on record at once, so the next event of the signature waits for the window.\<close>

theorem triage_never_acts:
  assumes "triage_handle te now u e w = (r, w')"
  shows "ow_disp (tw_orch w') = ow_disp (tw_orch w) \<and> ot_steps (ow_tables (tw_orch w')) = ot_steps (ow_tables (tw_orch w)) \<and>
    (\<exists>new. ot_plans (ow_tables (tw_orch w')) = ot_plans (ow_tables (tw_orch w)) @ new \<and> length new \<le> 1 \<and>
       (new \<noteq> [] \<or> tw_memory w' \<noteq> tw_memory w \<longrightarrow>
          (\<exists>a. anomaly_of_json (te_float te) (te_uuid_parse te) (env_body e) = Some a \<and>
             (case map_of (tw_seen w) (an_source_id a, an_metric_name a) of None \<Rightarrow> True | Some t \<Rightarrow> te_dedupe_ttl te \<le> now - t) \<and>
             map_of (tw_seen w') (an_source_id a, an_metric_name a) = Some now \<and>
             (\<forall>p \<in> set new. pl_id p = u \<and> pl_status p = ''planning'' \<and> pl_created_by p = None \<and>
                pl_intent p = triage_intent (te_float te) a))))"
proof (cases "triage_admits te now e (tw_seen w)")
  case None
  from triage_handle_not_admitted [OF None assms]
  have "tw_orch w' = tw_orch w" "tw_memory w' = tw_memory w" by simp_all
  then show ?thesis by simp
next
  case (Some a)
  have adm: "anomaly_of_json (te_float te) (te_uuid_parse te) (env_body e) = Some a"
    "case map_of (tw_seen w) (an_source_id a, an_metric_name a) of None \<Rightarrow> True | Some t \<Rightarrow> te_dedupe_ttl te \<le> now - t"
    using Some by (auto simp: triage_admits_def split: option.splits if_splits)
  from triage_handle_admitted [OF Some assms]
  have seen: "map_of (tw_seen w') (an_source_id a, an_metric_name a) = Some now" and disp: "ow_disp (tw_orch w') = ow_disp (tw_orch w)"
    and tables: "ow_tables (tw_orch w') = ow_tables (tw_orch w) \<or>
      opens_plan (triage_intent (te_float te) a) u (ow_tables (tw_orch w)) (ow_tables (tw_orch w'))" by (auto split: if_splits)
  from tables show ?thesis
  proof
    assume "ow_tables (tw_orch w') = ow_tables (tw_orch w)"
    then show ?thesis using adm seen disp by auto
  next
    assume "opens_plan (triage_intent (te_float te) a) u (ow_tables (tw_orch w)) (ow_tables (tw_orch w'))"
    then obtain row where "ow_tables (tw_orch w') = (ow_tables (tw_orch w))\<lparr>ot_plans := ot_plans (ow_tables (tw_orch w)) @ [row]\<rparr>"
      "pl_id row = u" "pl_intent row = triage_intent (te_float te) a" "pl_status row = ''planning''" "pl_created_by row = None"
      unfolding opens_plan_def by blast
    then show ?thesis using adm seen disp by (intro conjI exI [of _ "[row]"]) auto
  qed
qed

text \<open>Repeats do not pile up: in any sequence of deliveries, two plans for the same source and metric are
  opened at least the window apart.\<close>

lemma triage_plans_apart:
  assumes "sorted (map fst xs)"
  shows "sorted_wrt (\<lambda>(k, t) (k', t'). k = k' \<longrightarrow> te_dedupe_ttl te \<le> t' - t) (plans_opened te xs w)"
  by (rule sorted_wrt_subseq [OF plans_opened_admitted tgate.admitted_apart]) (rule arrivals_sorted [OF assms])

text \<open>C27: detection reaches triage: the event the observer builds for a breach whose value and threshold the JSON text of a
  float reads back, delivered to triage while its signature was not seen before or was last admitted at least the window ago, and with a database that answers,
  opens a plan that names the breach, and starts the window of the signature anew.\<close>

theorem anomaly_reaches_triage:
  assumes "anomaly_envelope sv (te_float te) c ts (anomaly_event_of i q t sid v) = Ok e"
    "te_uuid_parse te i = Some i" "float_reads (te_float te) v" "float_reads (te_float te) (th_value t)"
    "case map_of (tw_seen w) (sid, nq_metric_name q) of None \<Rightarrow> True | Some t0 \<Rightarrow> te_dedupe_ttl te \<le> now - t0"
    "db_faults (ow_db (tw_orch w)) = []"
    "triage_handle te now u e w = (r, w')"
  shows "r = Ok () \<and> map_of (tw_seen w') (sid, nq_metric_name q) = Some now \<and>
    opens_plan (triage_intent (te_float te) (anomaly_event_of i q t sid v)) u
      (ow_tables (tw_orch w)) (ow_tables (tw_orch w'))"
proof -
  let ?a = "anomaly_event_of i q t sid v"
  have "env_body e = anomaly_to_json (te_float te) ?a"
    using assms(1) by (auto simp: anomaly_envelope_def envelope_new_def split: option.splits)
  then have "anomaly_of_json (te_float te) (te_uuid_parse te) (env_body e) = Some ?a"
    using anomaly_of_to_json assms(2-4) by (simp add: anomaly_event_of_def)
  then have "triage_admits te now e (tw_seen w) = Some ?a"
    using assms(5) by (auto simp: triage_admits_def anomaly_event_of_def split: option.splits)
  from triage_handle_admitted [OF this assms(7)] show ?thesis
    using create_empty_plan_ok [OF assms(6)] by (simp add: anomaly_event_of_def)
qed

text \<open>An anomaly with an infinite value is stored, but triage cannot read its event.\<close>

lemma infinite_anomaly_untriaged:
  assumes "anomaly_envelope sv (te_float te) c ts (anomaly_event_of i q t sid v) = Ok e" "\<not> is_finite v"
  shows "triage_handle te now u e w = (Err (CoreSerde (te_serde te (env_body e))), w)"
proof -
  have "env_body e = anomaly_to_json (te_float te) (anomaly_event_of i q t sid v)"
    using assms(1) by (auto simp: anomaly_envelope_def envelope_new_def split: option.splits)
  then show ?thesis
    using infinite_anomaly_unreadable [of "anomaly_event_of i q t sid v"] assms(2) by (simp add: triage_handle_def anomaly_event_of_def)
qed

section \<open>Witnesses\<close>

definition ex_triage_env :: "(unit, unit, unit, nat) triage_env" where
  "ex_triage_env = \<lparr>te_orch = ex_orch (\<lambda>_. True), te_capture = (\<lambda>_ n. (Ok ''mem://1'', Suc n)), te_float = ex_float,
     te_uuid_parse = Some, te_serde = (\<lambda>_. ''bad''), te_dedupe_ttl = DEDUPE_TTL\<rparr>"

definition ex_triage_world :: "(unit, unit, unit, nat) triage_world" where
  "ex_triage_world = \<lparr>tw_seen = [], tw_orch = ex_orch_world () (db_of \<lparr>ot_plans = [], ot_steps = []\<rparr>), tw_memory = 0\<rparr>"

definition ex_breach :: anomaly_detected where
  "ex_breach = anomaly_event_of ''a-1'' (hd default_library) (hd (nq_thresholds (hd default_library))) ''n1:9100'' (Finite 99)"

definition ex_anomaly_env :: agent_envelope where
  "ex_anomaly_env = envelope_new ''c-1'' 1 (agent_id_new ''observer'') (ByCapability TRIAGE_CAPABILITY (VersionReq ''^1''))
     (anomaly_to_json ex_float ex_breach)"

text \<open>The second delivery of a breach, a window after the first.\<close>

definition ex_triage_later :: "(unit, unit, unit, nat) triage_world" where
  "ex_triage_later = ex_triage_world\<lparr>tw_seen := [((''n1:9100'', ''node.cpu.saturation_pct''), 5)]\<rparr>"

theorem anomaly_reaches_triage_witness:
  "fst (triage_handle ex_triage_env 600005 ''p-1'' ex_anomaly_env ex_triage_later) = Ok () \<and>
   opens_plan (triage_intent ex_float ex_breach) ''p-1'' (ow_tables (tw_orch ex_triage_later))
     (ow_tables (tw_orch (snd (triage_handle ex_triage_env 600005 ''p-1'' ex_anomaly_env ex_triage_later))))"
proof -
  obtain r w' where h: "triage_handle ex_triage_env 600005 ''p-1'' ex_anomaly_env ex_triage_later = (r, w')" by fastforce
  have f: "te_float ex_triage_env = ex_float" by (simp add: ex_triage_env_def)
  let ?q = "hd default_library"
  have "r = Ok () \<and> map_of (tw_seen w') (''n1:9100'', nq_metric_name ?q) = Some 600005 \<and>
      opens_plan (triage_intent (te_float ex_triage_env) ex_breach) ''p-1'' (ow_tables (tw_orch ex_triage_later)) (ow_tables (tw_orch w'))"
    unfolding ex_breach_def
  proof (rule anomaly_reaches_triage [OF _ _ _ _ _ _ h])
    show "anomaly_envelope star_semver (te_float ex_triage_env) ''c-1'' 1
        (anomaly_event_of ''a-1'' (hd default_library) (hd (nq_thresholds (hd default_library))) ''n1:9100'' (Finite 99)) = Ok ex_anomaly_env"
      by (simp add: anomaly_envelope_def star_semver_def ex_anomaly_env_def ex_breach_def f)
  qed (simp_all add: ex_triage_env_def ex_triage_later_def ex_triage_world_def float_reads_def ex_float_def default_library_def instance_query_def
      ex_orch_world_def db_of_def DEDUPE_TTL_def)
  then show ?thesis using h f by simp
qed

theorem triage_never_acts_witness:
  "ot_steps (ow_tables (tw_orch (snd (triage_handle ex_triage_env 6 ''p-1'' ex_anomaly_env ex_triage_later)))) = [] \<and>
   ot_plans (ow_tables (tw_orch (snd (triage_handle ex_triage_env 6 ''p-1'' ex_anomaly_env ex_triage_later)))) = []"
proof -
  obtain r w' where h: "triage_handle ex_triage_env 6 ''p-1'' ex_anomaly_env ex_triage_later = (r, w')" by fastforce
  have "anomaly_of_json ex_float Some (env_body ex_anomaly_env) = Some ex_breach"
    unfolding ex_anomaly_env_def ex_breach_def
    by (simp add: envelope_new_def anomaly_of_to_json anomaly_event_of_def float_reads_def ex_float_def default_library_def instance_query_def)
  moreover have "an_source_id ex_breach = ''n1:9100''" "an_metric_name ex_breach = ''node.cpu.saturation_pct''"
    by (simp_all add: ex_breach_def anomaly_event_of_def default_library_def instance_query_def)
  ultimately show ?thesis
    using triage_never_acts [OF h] h
    by (auto simp: ex_triage_env_def ex_triage_later_def ex_triage_world_def ex_orch_world_def db_of_def DEDUPE_TTL_def)
qed

lemma triage_plans_apart_example:
  "plans_opened ex_triage_env [(5, ''p-1'', ex_anomaly_env), (6, ''p-2'', ex_anomaly_env)] ex_triage_world \<noteq> [((''n1:9100'', ''node.cpu.saturation_pct''), 5), ((''n1:9100'', ''node.cpu.saturation_pct''), 6)]"
  using triage_plans_apart [of "[(5, ''p-1'', ex_anomaly_env), (6, ''p-2'', ex_anomaly_env)]" ex_triage_env ex_triage_world]
  by (auto simp: ex_triage_env_def DEDUPE_TTL_def)

end
