(* ===== verification/Inbound.thy ===== *)
theory Inbound
  imports Chat
begin

text \<open>
  From a channel to the system (\<open>gw.rs\<close>): the registry of webhook adapters, the inbound pipeline
  with its identity check, decisions on approvals over chat, and the webhook route. With it the other
  places that decide or administer: the approval inbox (\<open>admin_approvals.rs\<close>, and the
  blast radius of \<open>daimon-guard\<close>), and the identity bindings (\<open>admin_gateways.rs\<close>).

  The parsing of ids (\<open>uuid_parse\<close>) and the graph client are parameters. A webhook's turn runs in the
  background after the answer; here it has run to its end.
\<close>

section \<open>Commands in messages\<close>

fun split_whitespace_once :: "string \<Rightarrow> (string \<times> string) option" where
  "split_whitespace_once [] = None"
| "split_whitespace_once (c # s) =
     (if is_whitespace c then Some ([], s) else map_option (\<lambda>(a, b). (c # a, b)) (split_whitespace_once s))"

definition parse_approval_command :: "(string \<Rightarrow> uuid option) \<Rightarrow> string \<Rightarrow> (bool \<times> uuid) option" where
  "parse_approval_command uuid_parse t =
     Option.bind (split_whitespace_once (trim t)) (\<lambda>(verb, rest).
     let v = to_ascii_lower verb
     in if v = ''approve'' \<or> v = ''/approve'' then map_option (Pair True) (uuid_parse (trim rest))
        else if v = ''deny'' \<or> v = ''/deny'' then map_option (Pair False) (uuid_parse (trim rest))
        else None)"

text \<open>\<open>str::lines\<close>, and the first word of \<open>split_whitespace\<close>.\<close>

definition str_lines :: "string \<Rightarrow> string list" where
  "str_lines s =
     (let ls = split_on (CHR 10) s; ls' = (if last ls = [] then butlast ls else ls)
      in map (\<lambda>l. case strip_suffix [CHR 13] l of Some l' \<Rightarrow> l' | None \<Rightarrow> l) ls')"

definition first_word :: "string \<Rightarrow> string option" where
  "first_word s = (case takeWhile (\<lambda>c. \<not> is_whitespace c) (dropWhile is_whitespace s) of [] \<Rightarrow> None | w \<Rightarrow> Some w)"

definition parse_bare_decision :: "string \<Rightarrow> bool option" where
  "parse_bare_decision t =
     (let cleaned = join '' '' (filter (\<lambda>l. \<not> starts_with ''>'' (dropWhile is_whitespace l)) (str_lines t))
      in Option.bind (first_word cleaned) (\<lambda>w.
         let v = to_ascii_lower w
         in if v \<in> set [''approve'', ''/approve'', ''approved''] then Some True
            else if v \<in> set [''deny'', ''/deny'', ''denied''] then Some False
            else None))"

section \<open>The pipeline\<close>

definition no_entry :: string where
  "no_entry = [CHR 0xF0, CHR 0x9F, CHR 0x9A, CHR 0xAB]"

definition check_mark :: string where
  "check_mark = [CHR 0xE2, CHR 0x9C, CHR 0x85]"

definition stop_sign :: string where
  "stop_sign = [CHR 0xF0, CHR 0x9F, CHR 0x9B, CHR 0x91]"

text \<open>Operations on the parts of a turn's state.\<close>

definition on_iam_part ::
  "(iam_tables db, 'r, string) eff \<Rightarrow> (('x, 'm, 'i, 't, 'a, 'b) chat_world, 'r, string) eff" where
  "on_iam_part f = on_store (on_console (on_app (on_iam f)))"

definition is_approver :: "gateway_actor \<Rightarrow> bool" where
  "is_approver actor = list_ex (\<lambda>r. r = ''approver'' \<or> r = ''admin'') (ga_roles actor)"

definition decide_over_chat ::
  "(('x, 'm, 'i, 't, 'a, 'b) chat_world, 'm, 'i, 't, 'a) chat_env \<Rightarrow> gateway_actor \<Rightarrow> bool \<Rightarrow> uuid \<Rightarrow> string \<Rightarrow>
   ('x, 'm, 'i, 't, 'a, 'b) chat_world \<Rightarrow> turn_event list \<times> ('x, 'm, 'i, 't, 'a, 'b) chat_world" where
  "decide_over_chat cx actor approved i sid w =
     (let br = app_broker (ce_app (cx_console cx)); reply = (\<lambda>t. [TokenDelta sid t])
      in if \<not> is_approver actor
         then (reply (no_entry @ '' Not authorized: approving requires the `approver` or `admin` role.''), w)
         else if \<not> is_ok (require_guard br) then (reply ''internal error: no guard configured'', w)
         else (case on_store (on_console (on_broker (approvals_decide br (now_of cx w) i (ga_user_id actor)
                      (if approved then Approved else Denied)))) w of
                 (Ok _, w') \<Rightarrow> (reply ((if approved then check_mark @ '' Approved'' else stop_sign @ '' Denied'') @ '' approval `'' @ i @ ''`.''), w')
               | (Err _, w') \<Rightarrow> (reply (''No pending approval `'' @ i @ ''` (already decided, expired, or unknown id).''), w')))"

text \<open>The decision a message carries: a reply to an alert with a bare verb, or a command with an id.\<close>

definition inbound_decision ::
  "(string \<Rightarrow> uuid option) \<Rightarrow> inbound_message \<Rightarrow> ('x, 'm, 'i, 't, 'a, 'b) chat_world \<Rightarrow>
   (bool \<times> uuid) option \<times> ('x, 'm, 'i, 't, 'a, 'b) chat_world" where
  "inbound_decision uuid_parse msg w =
     (case (im_reply_to_message_id msg, parse_bare_decision (im_text msg)) of
        (Some reply_id, Some approved) \<Rightarrow>
          (case on_iam_part (resolve_approval_by_reply uuid_parse (im_channel msg) reply_id) w of
             (Ok (Some i), w') \<Rightarrow> (Some (approved, i), w')
           | (_, w') \<Rightarrow> (parse_approval_command uuid_parse (im_text msg), w'))
      | _ \<Rightarrow> (parse_approval_command uuid_parse (im_text msg), w))"

definition inbound_handle ::
  "(('x, 'm, 'i, 't, 'a, 'b) chat_world, 'm, 'i, 't, 'a) chat_env \<Rightarrow> (string \<Rightarrow> uuid option) \<Rightarrow> inbound_message \<Rightarrow>
   ('x, 'm, 'i, 't, 'a, 'b) chat_world \<Rightarrow> turn_event list \<times> ('x, 'm, 'i, 't, 'a, 'b) chat_world" where
  "inbound_handle cx uuid_parse msg w =
     (case on_iam_part (resolve_gateway_identity (im_channel msg) (im_platform_handle msg)) w of
        (Err _, w1) \<Rightarrow> ([ErrorEvent ''internal error resolving identity''], w1)
      | (Ok None, w1) \<Rightarrow>
          ([ErrorEvent (''Not authorized: your '' @ im_channel msg @ '' identity is not enrolled with daimon. '' @
              ''Ask an admin to bind your handle.'')], w1)
      | (Ok (Some actor), w1) \<Rightarrow>
          (let sid = session_id_of (im_channel msg) (im_correlation msg)
           in case inbound_decision uuid_parse msg w1 of
                (Some (approved, i), w2) \<Rightarrow> decide_over_chat cx actor approved i sid w2
              | (None, w2) \<Rightarrow> handle_chat_send cx (''user:'' @ ga_username actor) sid (im_text msg) None None w2))"

section \<open>Webhooks\<close>

record 'n gateway_adapter =
  gy_channel :: string
  gy_verify_and_parse :: "inbound_http \<Rightarrow> (inbound_message, gateway_error) result"
  gy_deliver_alert :: "alert_recipient \<Rightarrow> alert_body \<Rightarrow> ('n, string option, gateway_error) eff"

type_synonym 'n gateway_registry = "(string, 'n gateway_adapter) hmap"

definition gateway_register :: "'n gateway_adapter \<Rightarrow> 'n gateway_registry \<Rightarrow> 'n gateway_registry" where
  "gateway_register a g = hm_insert (gy_channel a) a g"

definition gateway_get :: "'n gateway_registry \<Rightarrow> string \<Rightarrow> 'n gateway_adapter option" where
  "gateway_get g channel = map_of g channel"

definition enabled_channels :: "'n gateway_registry \<Rightarrow> string list" where
  "enabled_channels g = sort (map fst g)"

text \<open>The answer of the route, and the events of the turn it starts.\<close>

definition gateway_webhook ::
  "(('x, 'm, 'i, 't, 'a, 'b) chat_world, 'm, 'i, 't, 'a) chat_env \<Rightarrow> (string \<Rightarrow> uuid option) \<Rightarrow> 'n gateway_registry \<Rightarrow> string \<Rightarrow>
   (string \<times> string) list \<Rightarrow> string \<Rightarrow> ('x, 'm, 'i, 't, 'a, 'b) chat_world \<Rightarrow>
   (nat \<times> string) \<times> turn_event list \<times> ('x, 'm, 'i, 't, 'a, 'b) chat_world" where
  "gateway_webhook cx uuid_parse g channel headers body w =
     (case gateway_get g channel of
        None \<Rightarrow> ((404, ''no such gateway''), [], w)
      | Some a \<Rightarrow>
          (case gy_verify_and_parse a (inbound_http_new headers body) of
             Ok msg \<Rightarrow> ((200, ''ok''), inbound_handle cx uuid_parse msg w)
           | Err (Unauthorized _) \<Rightarrow> ((401, ''unauthorized''), [], w)
           | Err (Ignored _) \<Rightarrow> ((200, ''ignored''), [], w)
           | Err (BadRequest m) \<Rightarrow> ((400, m), [], w)
           | Err _ \<Rightarrow> ((500, ''gateway error''), [], w)))"

section \<open>The approval inbox\<close>

record blast_radius_entry =
  be_kind :: string
  be_id :: string
  be_label :: string
  be_depth :: nat

type_synonym 'g blast_graph = "string \<Rightarrow> 32 word \<Rightarrow> ('g, blast_radius_entry list, string) eff"

definition blast_radius_for_target :: "'g blast_graph \<Rightarrow> string \<Rightarrow> 32 word \<Rightarrow> 'g \<Rightarrow> blast_radius_entry list \<times> 'g" where
  "blast_radius_for_target graph tref depth g =
     (case graph tref depth g of (Ok es, g') \<Rightarrow> (es, g') | (Err _, g') \<Rightarrow> ([], g'))"

fun enrich_with_blast_radius ::
  "'g blast_graph \<Rightarrow> 32 word \<Rightarrow> approval_record list \<Rightarrow> 'g \<Rightarrow> (approval_record \<times> blast_radius_entry list) list \<times> 'g" where
  "enrich_with_blast_radius graph depth [] g = ([], g)"
| "enrich_with_blast_radius graph depth (a # as) g =
     (case (case apr_target_ref a of Some t \<Rightarrow> blast_radius_for_target graph t depth g | None \<Rightarrow> ([], g)) of
        (es, g1) \<Rightarrow> (case enrich_with_blast_radius graph depth as g1 of (out, g2) \<Rightarrow> ((a, es) # out, g2)))"

record inbox_row =
  ix_id :: string
  ix_actor_id :: string
  ix_capability :: string
  ix_target_ref :: "string option"
  ix_params_pretty :: string
  ix_created_at :: string
  ix_blast_radius :: "blast_radius_entry list"

text \<open>\<open>pretty\<close> and \<open>rfc3339\<close> render the parameters and the time. The depth is read from the configuration at every call
  and narrowed to 32 bits.\<close>

definition list_pending_approvals_with_blast_radius ::
  "('i, 'v, 't, 'a) console_env \<Rightarrow> 'g blast_graph option \<Rightarrow> (json \<Rightarrow> string) \<Rightarrow> (millis \<Rightarrow> string) \<Rightarrow> millis \<Rightarrow> string option \<Rightarrow>
   nat option \<Rightarrow> (('i, 'v, 't, 'a, 'b) console \<times> 'g, inbox_row list, string) eff" where
  "list_pending_approvals_with_blast_radius env graph pretty rfc3339 now cookie limit st =
     (case st of (w, g) \<Rightarrow>
        (case bindE (on_app (require_admin (ce_app env) now cookie)) (\<lambda>_.
              mapE (\<lambda>e. ''list_pending: '' @ e) (on_broker (approvals_pending (app_broker (ce_app env)) (case limit of Some l \<Rightarrow> l | None \<Rightarrow> 50)))) w of
           (Err e, w') \<Rightarrow> (Err e, (w', g))
         | (Ok approvals, w') \<Rightarrow>
             (let depth = word_of_nat (config_u64 (ce_getenv env) (co_snapshot w') ''guard.blast_radius_depth'' (Some ''DAIMON_BLAST_RADIUS_DEPTH'') 4)
              in case (case graph of Some gr \<Rightarrow> enrich_with_blast_radius gr depth approvals g | None \<Rightarrow> (map (\<lambda>a. (a, [])) approvals, g)) of
                   (rows, g') \<Rightarrow>
                     (Ok (map (\<lambda>(a, es). \<lparr>ix_id = apr_id a, ix_actor_id = apr_actor_id a, ix_capability = apr_capability a,
                            ix_target_ref = apr_target_ref a, ix_params_pretty = pretty (apr_params a),
                            ix_created_at = rfc3339 (apr_created_at a), ix_blast_radius = es\<rparr>) rows), (w', g')))))"

definition decide_approval ::
  "('i, 'v, 't, 'a) console_env \<Rightarrow> (string \<Rightarrow> (uuid, string) result) \<Rightarrow> millis \<Rightarrow> string option \<Rightarrow> string \<Rightarrow> bool \<Rightarrow>
   (('i, 'v, 't, 'a, 'b) console, string, string) eff" where
  "decide_approval env uuid_parse now cookie i approved =
     bindE (on_app (require_approver (ce_app env) now cookie)) (\<lambda>cl.
     bindE (liftE (map_err (\<lambda>e. ''parse id: '' @ e) (uuid_parse i))) (\<lambda>u.
     bindE (mapE (\<lambda>e. ''decide: '' @ e) (on_broker (approvals_decide (app_broker (ce_app env)) now u (cm_user_id cl)
              (if approved then Approved else Denied)))) (\<lambda>rec.
     retE (approval_status_as_str (apr_status rec)))))"

section \<open>Identity bindings\<close>

definition list_gateway_bindings ::
  "('i, 'v, 't, 'a) console_env \<Rightarrow> (millis \<Rightarrow> string) \<Rightarrow> millis \<Rightarrow> string option \<Rightarrow>
   (('i, 'v, 't, 'a, 'b) console, (uuid \<times> string \<times> string \<times> string \<times> string) list, string) eff" where
  "list_gateway_bindings env rfc3339 now cookie =
     bindE (on_app (require_admin (ce_app env) now cookie)) (\<lambda>_.
     bindE (on_app (iam_call ''list_gateway_identities'' list_gateway_identities)) (\<lambda>rows.
     retE (map (\<lambda>r. (gr_id r, gr_channel r, gr_platform_handle r, gr_username r, rfc3339 (gr_enrolled_at r))) rows)))"

text \<open>\<open>u\<close> is the id the database draws for the binding.\<close>

definition add_gateway_binding ::
  "('i, 'v, 't, 'a) console_env \<Rightarrow> uuid \<Rightarrow> millis \<Rightarrow> string option \<Rightarrow> string \<Rightarrow> string \<Rightarrow> string \<Rightarrow>
   (('i, 'v, 't, 'a, 'b) console, unit, string) eff" where
  "add_gateway_binding env u now cookie channel handle username =
     bindE (on_app (require_admin (ce_app env) now cookie)) (\<lambda>cl.
     let ch = to_ascii_lower (trim channel); h = trim handle; un = trim username
     in if ch = '''' \<or> h = '''' \<or> un = '''' then failE ''channel, platform handle, and username are all required''
        else bindE (on_app (iam_call ''find_user'' (find_user un))) (\<lambda>found.
             bindE (liftE (ok_or found (''no such user: '' @ un))) (\<lambda>user.
             bindE (on_app (iam_call ''create_gateway_identity'' (create_gateway_identity u now ch h (ui_id user) (Some (cm_user_id cl))))) (\<lambda>_.
             modifyE (audit_console env (cm_sub cl) (''gateway.identity.enrol '' @ ch @ '':'' @ h @ '' -> '' @ un)
               [(''gateway.channel'', ch), (''gateway.handle'', h), (''gateway.user'', un)])))))"

definition delete_gateway_binding ::
  "('i, 'v, 't, 'a) console_env \<Rightarrow> millis \<Rightarrow> string option \<Rightarrow> uuid \<Rightarrow> (('i, 'v, 't, 'a, 'b) console, unit, string) eff" where
  "delete_gateway_binding env now cookie i =
     bindE (on_app (require_admin (ce_app env) now cookie)) (\<lambda>cl.
     bindE (on_app (iam_call ''delete_gateway_identity'' (delete_gateway_identity i))) (\<lambda>_.
     modifyE (audit_console env (cm_sub cl) ''gateway.identity.revoke'' [(''gateway.binding_id'', i)])))"

section \<open>Lemmas\<close>

abbreviation broker_of :: "('x, 'm, 'i, 't, 'a, 'b) chat_world \<Rightarrow> ('i, pg_vault, 't, 'a, 'b) broker_world" where
  "broker_of w \<equiv> wo_broker (co_app (st_console (ch_store w)))"

abbreviation accounts_of :: "('x, 'm, 'i, 't, 'a, 'b) chat_world \<Rightarrow> iam_tables" where
  "accounts_of w \<equiv> wo_tables (co_app (st_console (ch_store w)))"

abbreviation approvals_of :: "('x, 'm, 'i, 't, 'a, 'b) chat_world \<Rightarrow> approval_row list" where
  "approvals_of w \<equiv> aw_rows (bw_guard (broker_of w))"

text \<open>A read of the account tables changes nothing else.\<close>

lemma on_iam_part_frame:
  assumes "on_iam_part f w = (r, w')"
  shows "broker_of w' = broker_of w \<and> st_history (ch_store w') = st_history (ch_store w) \<and>
    st_working (ch_store w') = st_working (ch_store w) \<and> ch_ext w' = ch_ext w \<and>
    f (wo_iam (co_app (st_console (ch_store w)))) = (r, wo_iam (co_app (st_console (ch_store w'))))"
  using assms by (auto simp: on_iam_part_def on_store_def on_console_def on_app_def on_iam_def split: prod.splits)

lemma iam_read:
  assumes "on_iam_part (iam_stmt ctx (\<lambda>t. (g t, t))) w = (r, w')"
  shows "accounts_of w' = accounts_of w \<and> (case r of Ok x \<Rightarrow> x = g (accounts_of w) | Err _ \<Rightarrow> True)"
proof -
  note f = on_iam_part_frame [OF assms]
  show ?thesis
    using iam_stmt_tables [of ctx _ _ r] f iam_stmt_Ok [of ctx "\<lambda>t. (g t, t)"] by (cases r) auto
qed

lemma inbound_decision_frame:
  assumes "inbound_decision uuid_parse msg w = (d, w')"
  shows "broker_of w' = broker_of w"
  using assms
  by (auto simp: inbound_decision_def split: option.splits prod.splits result.splits dest: on_iam_part_frame)

lemma decide_rows:
  assumes "decide now i usr st w = (r, w')"
  shows "aw_rows w' = aw_rows w \<or> aw_rows w' = update_pending i (decide_row st usr now) (aw_rows w)"
  using assms unfolding decide_def
  by (auto simp: Let_def split: prod.splits result.splits option.splits db_fault.splits dest!: db_stmt_tables)

lemma decide_over_chat_rows:
  assumes "decide_over_chat cx actor approved i sid w = (es, w')"
  shows "approvals_of w' = approvals_of w \<or>
    is_approver actor \<and>
    (\<exists>now. approvals_of w' = update_pending i (decide_row (if approved then Approved else Denied) (ga_user_id actor) now) (approvals_of w))"
proof (cases "is_approver actor \<and> is_ok (require_guard (app_broker (ce_app (cx_console cx))))")
  case True
  let ?st = "if approved then Approved else Denied"
  obtain r g where d: "decide (now_of cx w) i (ga_user_id actor) ?st (bw_guard (broker_of w)) = (r, g)" by fastforce
  have "bw_guard (broker_of w') = g"
    using assms True d
    by (auto simp: decide_over_chat_def Let_def on_store_def on_console_def on_broker_def on_app_def approvals_decide_def on_guard_def is_ok_iff
        split: prod.splits result.splits)
  then show ?thesis using True decide_rows [OF d] by auto
next
  case False
  then show ?thesis using assms by (auto simp: decide_over_chat_def Let_def split: if_splits)
qed

lemma bound_actor_active:
  assumes "bound_actor t channel handle = Some actor"
  shows "\<exists>gi u. gi \<in> set (it_identities t) \<and> gi_channel gi = channel \<and> gi_platform_handle gi = handle \<and>
    u \<in> set (it_users t) \<and> us_id u = gi_user_id gi \<and> us_status u = ''active'' \<and>
    ga_user_id actor = us_id u \<and> ga_username actor = us_username u \<and> ga_roles actor = user_roles t (us_id u)"
proof -
  obtain gi u where f: "find (\<lambda>(gi, u). us_id u = gi_user_id gi \<and> gi_channel gi = channel \<and> gi_platform_handle gi = handle \<and>
      us_status u = ''active'') (List.product (it_identities t) (it_users t)) = Some (gi, u)"
    and a: "actor = \<lparr>ga_user_id = us_id u, ga_username = us_username u, ga_roles = user_roles t (us_id u)\<rparr>"
    using assms by (auto simp: bound_actor_def)
  have "(gi, u) \<in> set (List.product (it_identities t) (it_users t))"
    using f unfolding find_Some_iff by (metis nth_mem)
  moreover have "us_id u = gi_user_id gi \<and> gi_channel gi = channel \<and> gi_platform_handle gi = handle \<and> us_status u = ''active''"
    using f by (auto simp: find_Some_iff)
  ultimately show ?thesis using a by (intro exI [of _ gi] exI [of _ u]) auto
qed

section \<open>Properties\<close>

text \<open>C9: an approval decided over chat was decided by somebody who may: when a message that carries a decision changes the approval
  table, its sender is bound to an active user with the approver or admin role, and the only change is
  that the pending row the message names gets the decision, in that user's name.\<close>

theorem chat_decision_authorized:
  assumes "inbound_handle cx uuid_parse msg w = (es, w')"
    "fst (inbound_decision uuid_parse msg (snd (on_iam_part (resolve_gateway_identity (im_channel msg) (im_platform_handle msg)) w))) =
       Some (approved, i)"
    "approvals_of w' \<noteq> approvals_of w"
  shows "\<exists>gi u now. gi \<in> set (it_identities (accounts_of w)) \<and> gi_channel gi = im_channel msg \<and>
    gi_platform_handle gi = im_platform_handle msg \<and> u \<in> set (it_users (accounts_of w)) \<and> us_id u = gi_user_id gi \<and>
    us_status u = ''active'' \<and>
    (''approver'' \<in> set (user_roles (accounts_of w) (us_id u)) \<or> ''admin'' \<in> set (user_roles (accounts_of w) (us_id u))) \<and>
    approvals_of w' = update_pending i (decide_row (if approved then Approved else Denied) (us_id u) now) (approvals_of w)"
proof -
  obtain r w1 where r: "on_iam_part (resolve_gateway_identity (im_channel msg) (im_platform_handle msg)) w = (r, w1)" by fastforce
  note f1 = on_iam_part_frame [OF r] and t1 = iam_read [OF r [unfolded resolve_gateway_identity_def]]
  obtain actor where a: "r = Ok (Some actor)"
    using assms(1,3) r f1 by (auto simp: inbound_handle_def split: result.splits option.splits)
  then have b: "bound_actor (accounts_of w) (im_channel msg) (im_platform_handle msg) = Some actor" using t1 by simp
  obtain w2 where d: "inbound_decision uuid_parse msg w1 = (Some (approved, i), w2)"
    using assms(2) r by (cases "inbound_decision uuid_parse msg w1") auto
  have "decide_over_chat cx actor approved i (session_id_of (im_channel msg) (im_correlation msg)) w2 = (es, w')"
    using assms(1) r a d by (simp add: inbound_handle_def)
  from decide_over_chat_rows [OF this] obtain now where "is_approver actor"
    "approvals_of w' = update_pending i (decide_row (if approved then Approved else Denied) (ga_user_id actor) now) (approvals_of w)"
    using assms(3) f1 inbound_decision_frame [OF d] by auto
  moreover obtain gi u where "gi \<in> set (it_identities (accounts_of w))" "gi_channel gi = im_channel msg"
    "gi_platform_handle gi = im_platform_handle msg" "u \<in> set (it_users (accounts_of w))" "us_id u = gi_user_id gi"
    "us_status u = ''active''" "ga_user_id actor = us_id u" "ga_roles actor = user_roles (accounts_of w) (us_id u)"
    using bound_actor_active [OF b] by blast
  ultimately show ?thesis
    by (intro exI [of _ gi] exI [of _ u] exI [of _ now]) (auto simp: is_approver_def list_ex_iff)
qed

text \<open>An unknown sender reaches nothing: a message whose handle is not bound to an active user is answered with
  one error; no turn runs, and approvals, audit log and every other part of the broker, the accounts, the
  conversations and everything outside are as before.\<close>

lemma unbound_sender_refused:
  assumes "inbound_handle cx uuid_parse msg w = (es, w')"
    "bound_actor (accounts_of w) (im_channel msg) (im_platform_handle msg) = None"
  shows "(\<exists>m. es = [ErrorEvent m]) \<and> broker_of w' = broker_of w \<and> accounts_of w' = accounts_of w \<and>
    st_history (ch_store w') = st_history (ch_store w) \<and> st_working (ch_store w') = st_working (ch_store w) \<and> ch_ext w' = ch_ext w"
proof -
  obtain r w1 where r: "on_iam_part (resolve_gateway_identity (im_channel msg) (im_platform_handle msg)) w = (r, w1)" by fastforce
  note f1 = on_iam_part_frame [OF r] and t1 = iam_read [OF r [unfolded resolve_gateway_identity_def]]
  have "(\<exists>m. es = [ErrorEvent m]) \<and> w' = w1"
    using assms r t1 by (cases r) (auto simp: inbound_handle_def split: option.splits)
  then show ?thesis using f1 t1 by simp
qed

section \<open>Witnesses\<close>

definition ex_bound_iam :: iam_tables where
  "ex_bound_iam =
     \<lparr>it_users = [\<lparr>us_id = ''u-7'', us_username = ''ann'', us_email = None, us_password_hash = '''', us_status = ''active'', us_last_login_at = None\<rparr>],
      it_roles = [\<lparr>ro_id = ''r-1'', ro_slug = ''approver'', ro_is_system = True\<rparr>], it_grants = [(''u-7'', ''r-1'')], it_sessions = [],
      it_identities = [\<lparr>gi_id = ''g-1'', gi_channel = ''telegram'', gi_platform_handle = ''42'', gi_user_id = ''u-7'', gi_enrolled_at = 1,
        gi_enrolled_by = None\<rparr>],
      it_deliveries = []\<rparr>"

definition ex_message :: "string \<Rightarrow> inbound_message" where
  "ex_message handle = \<lparr>im_channel = ''telegram'', im_platform_handle = handle, im_text = ''approve a-1'',
     im_correlation = \<lparr>co_thread = None, co_reply_to = ''7''\<rparr>, im_reply_to_message_id = None, im_received_at = 5\<rparr>"

definition ex_pending :: approval_row where
  "ex_pending = \<lparr>ar_id = ''a-1'', ar_actor_id = ''alice'', ar_capability = ''network.fw.add'', ar_target_ref = None, ar_params = JNull,
     ar_status = ''pending'', ar_created_at = 1, ar_decided_at = None, ar_decided_by = None\<rparr>"

definition ex_inbound :: ex_turn_world where
  "ex_inbound = ex_turn\<lparr>ch_store := ex_store\<lparr>st_console := ex_console\<lparr>co_app := \<lparr>wo_iam = db_of ex_bound_iam,
     wo_broker = ex_admin_world\<lparr>bw_guard := (bw_guard ex_admin_world)\<lparr>aw_db := db_of [ex_pending]\<rparr>\<rparr>\<rparr>\<rparr>\<rparr>\<rparr>"

lemma ex_command: "parse_approval_command Some ''approve a-1'' = Some (True, ''a-1'')" "parse_bare_decision ''approve a-1'' = Some True"
  by code_simp+

lemma ex_bound: "bound_actor ex_bound_iam ''telegram'' ''42'' = Some \<lparr>ga_user_id = ''u-7'', ga_username = ''ann'', ga_roles = [''approver'']\<rparr>"
  by code_simp

lemma ex_unbound: "bound_actor ex_bound_iam ''telegram'' ''43'' = None"
  by code_simp

lemma ex_inbound_resolve:
  "on_iam_part (resolve_gateway_identity ''telegram'' h) ex_inbound =
     (Ok (bound_actor ex_bound_iam ''telegram'' h), ex_inbound\<lparr>ch_ticks := Suc 0\<rparr>)"
  by (simp add: on_iam_part_def on_store_def on_console_def on_app_def on_iam_def resolve_gateway_identity_def iam_stmt_def
      db_stmt_db_of ex_inbound_def ex_turn_def ex_console_def)

lemma ex_inbound_decision:
  "inbound_decision Some (ex_message h) w = (Some (True, ''a-1''), w)"
  by (simp add: inbound_decision_def ex_message_def ex_command)

lemma ex_inbound_approves:
  "approvals_of (snd (inbound_handle ex_chat_env Some (ex_message ''42'') ex_inbound)) = [decide_row Approved ''u-7'' 1 ex_pending]"
proof -
  have g: "is_ok (require_guard (app_broker (ce_app (cx_console ex_chat_env))))"
    by (simp add: ex_chat_env_def ex_console_env_def require_guard_def with_guard_def ok_or_def)
  have m: "im_channel (ex_message ''42'') = ''telegram''" "im_platform_handle (ex_message ''42'') = ''42''"
    by (simp_all add: ex_message_def)
  have "inbound_handle ex_chat_env Some (ex_message ''42'') ex_inbound =
      decide_over_chat ex_chat_env \<lparr>ga_user_id = ''u-7'', ga_username = ''ann'', ga_roles = [''approver'']\<rparr> True ''a-1''
        (session_id_of ''telegram'' (im_correlation (ex_message ''42''))) (ex_inbound\<lparr>ch_ticks := Suc 0\<rparr>)"
    by (simp add: inbound_handle_def m ex_inbound_resolve ex_bound ex_inbound_decision)
  moreover have "decide (now_of ex_chat_env (ex_inbound\<lparr>ch_ticks := Suc 0\<rparr>)) ''a-1'' ''u-7'' Approved (bw_guard (broker_of (ex_inbound\<lparr>ch_ticks := Suc 0\<rparr>))) =
      (Ok (row_to_record (decide_row Approved ''u-7'' 1 ex_pending)),
       (bw_guard ex_admin_world)\<lparr>aw_db := db_of [decide_row Approved ''u-7'' 1 ex_pending]\<rparr>)"
    by (simp add: decide_def ex_inbound_def db_stmt_db_of now_of_def ex_chat_env_def update_pending_def ex_pending_def)
  ultimately show ?thesis
    using g by (auto simp: Let_def decide_over_chat_def is_approver_def on_store_def on_console_def on_broker_def on_app_def
        approvals_decide_def on_guard_def is_ok_iff db_of_def split: prod.splits)
qed

theorem chat_decision_authorized_witness:
  "\<exists>gi u. gi \<in> set (it_identities (accounts_of ex_inbound)) \<and> gi_platform_handle gi = ''42'' \<and>
     u \<in> set (it_users (accounts_of ex_inbound)) \<and> us_id u = gi_user_id gi \<and> us_status u = ''active'' \<and>
     (''approver'' \<in> set (user_roles (accounts_of ex_inbound) (us_id u)) \<or> ''admin'' \<in> set (user_roles (accounts_of ex_inbound) (us_id u)))"
proof -
  obtain es w' where h: "inbound_handle ex_chat_env Some (ex_message ''42'') ex_inbound = (es, w')" by fastforce
  have "approvals_of w' \<noteq> approvals_of ex_inbound"
    using ex_inbound_approves h by (simp add: ex_inbound_def db_of_def ex_pending_def decide_row_def)
  note this [THEN chat_decision_authorized [OF h, of True "''a-1''", unfolded ex_inbound_decision fst_conv, OF refl]]
  then show ?thesis
    by (elim exE conjE, intro exI conjI) (assumption | simp add: ex_message_def)+
qed

lemma unbound_sender_refused_example:
  "approvals_of (snd (inbound_handle ex_chat_env Some (ex_message ''43'') ex_inbound)) = [ex_pending]"
proof -
  obtain es w' where h: "inbound_handle ex_chat_env Some (ex_message ''43'') ex_inbound = (es, w')" by fastforce
  have "bound_actor (accounts_of ex_inbound) (im_channel (ex_message ''43'')) (im_platform_handle (ex_message ''43'')) = None"
    by (simp add: ex_inbound_def db_of_def ex_message_def ex_unbound)
  from unbound_sender_refused [OF h this] h show ?thesis by (simp add: ex_inbound_def db_of_def)
qed

end
