(* ===== verification/Alerts.thy ===== *)
theory Alerts
  imports Inbound Observing Dedup
begin

text \<open>
  Outbound alerts (\<open>alert_router.rs\<close>): which bus envelopes become alerts, the de-duplication window,
  who receives them, and the delivery through the registered channel adapters; and how the
  registry is filled at boot (\<open>build_gateways\<close> of \<open>main.rs\<close>).

  The cache of the window is a map from signatures to times; \<open>now\<close> arguments are clock readings.
\<close>

section \<open>Classification\<close>

definition ALERT_DEDUP_TTL :: millis where
  "ALERT_DEDUP_TTL = 300000"

record alert =
  al_class :: string
  al_severity :: string
  al_signature :: string
  al_body :: alert_body

definition warning_char :: string where
  "warning_char = [CHR 0xE2, CHR 0x9A, CHR 0xA0]"

definition middle_dot :: string where
  "middle_dot = [CHR 0xC2, CHR 0xB7]"

definition lock_sign :: string where
  "lock_sign = [CHR 0xF0, CHR 0x9F, CHR 0x94, CHR 0x90]"

definition classify_anomaly :: "float_text \<Rightarrow> anomaly_detected \<Rightarrow> alert" where
  "classify_anomaly fl a =
     \<lparr>al_class = ''anomaly'', al_severity = an_severity a, al_signature = an_anomaly_id a,
      al_body = \<lparr>ab_title = warning_char @ '' anomaly '' @ middle_dot @ '' '' @ an_severity a,
                 ab_body = an_title a @ newline @ ''metric '' @ an_metric_name a @ '' = '' @ fl_display fl (an_metric_value a) @
                   '' (threshold '' @ fl_display fl (an_threshold a) @ '')'' @ newline @ ''target '' @
                   (case an_target_ref a of Some t \<Rightarrow> t | None \<Rightarrow> an_source_id a)\<rparr>\<rparr>"

definition member_or :: "string \<Rightarrow> json \<Rightarrow> string \<Rightarrow> string" where
  "member_or k v dflt = (case j_get_str k v of Some s \<Rightarrow> s | None \<Rightarrow> dflt)"

definition classify_approval :: "agent_envelope \<Rightarrow> alert option" where
  "classify_approval e =
     (let v = env_body e
      in if j_get_str ''kind'' v \<noteq> Some ''awaiting_approval'' then None
         else map_option (\<lambda>i.
           \<lparr>al_class = ''approval'', al_severity = ''default'', al_signature = i,
            al_body = \<lparr>ab_title = lock_sign @ '' approval required'',
                       ab_body = member_or ''capability'' v ''?'' @ '' on '' @ member_or ''target_ref'' v ''-'' @
                         '' (requested by '' @ member_or ''actor'' v ''?'' @ '')'' @ newline @
                         ''Reply `approve '' @ i @ ''` or `deny '' @ i @ ''` to decide.''\<rparr>\<rparr>) (j_get_str ''approval_id'' v))"

definition classify :: "float_text \<Rightarrow> (string \<Rightarrow> uuid option) \<Rightarrow> agent_envelope \<Rightarrow> alert option" where
  "classify fl uuid_parse e =
     (case anomaly_of_json fl uuid_parse (env_body e) of
        Some a \<Rightarrow> Some (classify_anomaly fl a)
      | None \<Rightarrow> classify_approval e)"

section \<open>The window\<close>

type_synonym dedup_cache = "string \<Rightarrow> millis option"

definition dedup_retain :: "millis \<Rightarrow> millis \<Rightarrow> dedup_cache \<Rightarrow> dedup_cache" where
  "dedup_retain ttl now seen = (\<lambda>k. case seen k of Some t \<Rightarrow> if now - t < ttl then Some t else None | None \<Rightarrow> None)"

definition dedup_admit :: "millis \<Rightarrow> string \<Rightarrow> millis \<Rightarrow> dedup_cache \<Rightarrow> bool \<times> dedup_cache" where
  "dedup_admit ttl sig now seen =
     (let s = dedup_retain ttl now seen
      in case s sig of
           Some t \<Rightarrow> if now - t < ttl then (False, s) else (True, s(sig := Some now))
         | None \<Rightarrow> (True, s(sig := Some now)))"

section \<open>Routing\<close>

record ('n, 'i, 'v, 't, 'a, 'b) alert_world =
  aq_console :: "('i, 'v, 't, 'a, 'b) console"
  aq_net :: 'n
  aq_seen :: dedup_cache

definition enrolled_active :: "iam_tables \<Rightarrow> string \<Rightarrow> string \<Rightarrow> bool" where
  "enrolled_active t channel handle =
     list_ex (\<lambda>gi. gi_channel gi = channel \<and> gi_platform_handle gi = handle \<and>
                list_ex (\<lambda>u. us_id u = gi_user_id gi \<and> us_status u = ''active'') (it_users t)) (it_identities t)"

definition on_accounts ::
  "(iam_tables \<Rightarrow> 'r \<times> iam_tables) \<Rightarrow> (('n, 'i, 'v, 't, 'a, 'b) alert_world, 'r, string) eff" where
  "on_accounts f w =
     (case on_app (on_iam (mapE fault_text (db_stmt f))) (aq_console w) of (r, c) \<Rightarrow> (r, w\<lparr>aq_console := c\<rparr>))"

definition is_enrolled_active :: "string \<Rightarrow> string \<Rightarrow> (('n, 'i, 'v, 't, 'a, 'b) alert_world, bool, string) eff" where
  "is_enrolled_active channel handle = on_accounts (\<lambda>t. (enrolled_active t channel handle, t))"

definition routing_rule :: "(string \<Rightarrow> string option) \<Rightarrow> config_snapshot \<Rightarrow> string \<Rightarrow> string \<Rightarrow> string option" where
  "routing_rule getenv cfg cls severity =
     (case opt_string getenv cfg (''channels.alerts.'' @ cls @ ''.'' @ severity) None of
        Some r \<Rightarrow> Some r
      | None \<Rightarrow> opt_string getenv cfg ''channels.alerts.default'' None)"

definition rule_entries :: "string \<Rightarrow> (string \<times> string) list" where
  "rule_entries raw =
     List.map_filter (\<lambda>entry. map_option (\<lambda>(c, h). (trim c, trim h)) (split_once (CHR '':'') entry))
       (filter (\<lambda>s. s \<noteq> '''') (map trim (split_on (CHR '','') raw)))"

fun enrolled_recipients ::
  "(string \<times> string) list \<Rightarrow> ('n, 'i, 'v, 't, 'a, 'b) alert_world \<Rightarrow> alert_recipient list \<times> ('n, 'i, 'v, 't, 'a, 'b) alert_world" where
  "enrolled_recipients [] w = ([], w)"
| "enrolled_recipients ((c, h) # es) w =
     (case is_enrolled_active c h w of
        (r, w1) \<Rightarrow>
          (case enrolled_recipients es w1 of
             (rs, w2) \<Rightarrow> (if r = Ok True then \<lparr>rc_channel = c, rc_to = h\<rparr> # rs else rs, w2)))"

definition resolve_recipients ::
  "(string \<Rightarrow> string option) \<Rightarrow> string \<Rightarrow> string \<Rightarrow> ('n, 'i, 'v, 't, 'a, 'b) alert_world \<Rightarrow>
   alert_recipient list \<times> ('n, 'i, 'v, 't, 'a, 'b) alert_world" where
  "resolve_recipients getenv cls severity w =
     (case routing_rule getenv (co_snapshot (aq_console w)) cls severity of
        None \<Rightarrow> ([], w)
      | Some raw \<Rightarrow> enrolled_recipients (rule_entries raw) w)"

text \<open>The evidence of a delivery; a failure to store it is only logged.\<close>

definition record_delivery ::
  "millis \<Rightarrow> alert \<Rightarrow> alert_recipient \<Rightarrow> string \<Rightarrow> string option \<Rightarrow> string option \<Rightarrow>
   ('n, 'i, 'v, 't, 'a, 'b) alert_world \<Rightarrow> ('n, 'i, 'v, 't, 'a, 'b) alert_world" where
  "record_delivery now a r status detail msg_id w =
     snd (on_accounts (\<lambda>t. ((), t\<lparr>it_deliveries := it_deliveries t @
       [\<lparr>ad_alert_class = al_class a, ad_severity = (if al_severity a = ''default'' then None else Some (al_severity a)),
         ad_signature = al_signature a, ad_channel = rc_channel r, ad_recipient = rc_to r, ad_status = status, ad_detail = detail,
         ad_provider_message_id = msg_id, ad_created_at = now\<rparr>]\<rparr>)) w)"

definition deliver_one ::
  "'n gateway_registry \<Rightarrow> millis \<Rightarrow> alert \<Rightarrow> alert_recipient \<Rightarrow> ('n, 'i, 'v, 't, 'a, 'b) alert_world \<Rightarrow>
   ('n, 'i, 'v, 't, 'a, 'b) alert_world" where
  "deliver_one g now a r w =
     (case gateway_get g (rc_channel r) of
        None \<Rightarrow> w
      | Some adapter \<Rightarrow>
          (case gy_deliver_alert adapter r (al_body a) (aq_net w) of
             (Ok msg_id, n) \<Rightarrow> record_delivery now a r ''delivered'' None msg_id (w\<lparr>aq_net := n\<rparr>)
           | (Err e, n) \<Rightarrow> record_delivery now a r ''failed'' (Some (show_gateway_error e)) None (w\<lparr>aq_net := n\<rparr>)))"

definition route ::
  "(string \<Rightarrow> string option) \<Rightarrow> 'n gateway_registry \<Rightarrow> millis \<Rightarrow> alert \<Rightarrow> ('n, 'i, 'v, 't, 'a, 'b) alert_world \<Rightarrow>
   ('n, 'i, 'v, 't, 'a, 'b) alert_world" where
  "route getenv g now a w =
     (case resolve_recipients getenv (al_class a) (al_severity a) w of (rs, w1) \<Rightarrow> fold (deliver_one g now a) rs w1)"

text \<open>One item of the bus subscription, and the whole task: without a registered adapter it does not run.\<close>

definition router_step ::
  "float_text \<Rightarrow> (string \<Rightarrow> uuid option) \<Rightarrow> (string \<Rightarrow> string option) \<Rightarrow> 'n gateway_registry \<Rightarrow> millis \<times> recv \<Rightarrow>
   ('n, 'i, 'v, 't, 'a, 'b) alert_world \<Rightarrow> ('n, 'i, 'v, 't, 'a, 'b) alert_world" where
  "router_step fl uuid_parse getenv g item w =
     (case item of
        (now, RecvEnv e) \<Rightarrow>
          (case classify fl uuid_parse e of
             None \<Rightarrow> w
           | Some a \<Rightarrow>
               (case dedup_admit ALERT_DEDUP_TTL (al_signature a) now (aq_seen w) of
                  (True, s) \<Rightarrow> route getenv g now a (w\<lparr>aq_seen := s\<rparr>)
                | (False, s) \<Rightarrow> w\<lparr>aq_seen := s\<rparr>))
      | _ \<Rightarrow> w)"

fun router_loop ::
  "float_text \<Rightarrow> (string \<Rightarrow> uuid option) \<Rightarrow> (string \<Rightarrow> string option) \<Rightarrow> 'n gateway_registry \<Rightarrow> (millis \<times> recv) list \<Rightarrow>
   ('n, 'i, 'v, 't, 'a, 'b) alert_world \<Rightarrow> ('n, 'i, 'v, 't, 'a, 'b) alert_world" where
  "router_loop fl uuid_parse getenv g [] w = w"
| "router_loop fl uuid_parse getenv g (item # items) w =
     (if snd item = RecvClosed then w else router_loop fl uuid_parse getenv g items (router_step fl uuid_parse getenv g item w))"

definition spawn_alert_router ::
  "float_text \<Rightarrow> (string \<Rightarrow> uuid option) \<Rightarrow> (string \<Rightarrow> string option) \<Rightarrow> 'n gateway_registry \<Rightarrow> (millis \<times> recv) list \<Rightarrow>
   ('n, 'i, 'v, 't, 'a, 'b) alert_world \<Rightarrow> ('n, 'i, 'v, 't, 'a, 'b) alert_world" where
  "spawn_alert_router fl uuid_parse getenv g items w = (if g = [] then w else router_loop fl uuid_parse getenv g items w)"

section \<open>The registry at boot\<close>

datatype poller = TelegramPoller string | MatrixPoller string string

definition boot_flag :: "string \<Rightarrow> (config_row list db, bool, string) eff" where
  "boot_flag key d =
     (case get_config_json key d of
        (Ok (Some (JBool b)), d') \<Rightarrow> (Ok b, d')
      | (Ok (Some (JStr s)), d') \<Rightarrow> (Ok (to_ascii_lower s \<in> set [''true'', ''1'', ''yes'', ''on'']), d')
      | (_, d') \<Rightarrow> (Ok False, d'))"

definition boot_str :: "string \<Rightarrow> (config_row list db, string option, string) eff" where
  "boot_str key d =
     (case get_config_json key d of
        (Ok (Some (JStr s)), d') \<Rightarrow> (Ok (if trim s \<noteq> '''' then Some s else None), d')
      | (_, d') \<Rightarrow> (Ok None, d'))"

text \<open>A token by the name of a vault credential, else from the environment.\<close>

definition boot_token ::
  "('i, pg_vault, 't, 'a) console_env \<Rightarrow> 64 word \<times> 64 word \<Rightarrow> string option \<Rightarrow> string option \<Rightarrow>
   (('i, pg_vault, 't, 'a, 'b) console, string option, string) eff" where
  "boot_token env l cred env_var w =
     (case (case cred of Some c \<Rightarrow> resolve_vault_api_token (app_broker (ce_app env)) l c ''system:boot'' w | None \<Rightarrow> (None, w)) of
        (Some t, w') \<Rightarrow> (Ok (Some t), w')
      | (None, w') \<Rightarrow>
          (Ok (case env_var of
                 Some v \<Rightarrow> (case ce_getenv env v of Some s \<Rightarrow> if s = '''' then None else Some s | None \<Rightarrow> None)
               | None \<Rightarrow> None), w'))"

text \<open>\<open>adapter\<close> makes the webhook adapter of a bot token and a webhook secret.\<close>

definition build_telegram ::
  "('i, pg_vault, 't, 'a) console_env \<Rightarrow> 64 word \<times> 64 word \<Rightarrow> (string \<Rightarrow> string \<Rightarrow> 'n gateway_adapter) \<Rightarrow>
   (('i, pg_vault, 't, 'a, 'b) console, 'n gateway_registry \<times> poller list, string) eff" where
  "build_telegram env l adapter =
     bindE (on_config (boot_flag ''channels.telegram.enabled'')) (\<lambda>enabled.
     if \<not> enabled then retE ([], [])
     else bindE (on_config (boot_str ''channels.telegram.mode'')) (\<lambda>mode.
       bindE (on_config (boot_str ''channels.telegram.bot_token_cred'')) (\<lambda>cred.
       bindE (boot_token env l cred (Some ''DAIMON_GW_TELEGRAM_TOKEN'')) (\<lambda>token.
       case token of
         None \<Rightarrow> retE ([], [])
       | Some t \<Rightarrow>
           if to_ascii_lower (case mode of Some m \<Rightarrow> m | None \<Rightarrow> ''poll'') = ''webhook'' then
             bindE (on_config (boot_str ''channels.telegram.webhook_secret_cred'')) (\<lambda>scred.
             bindE (boot_token env l scred (Some ''DAIMON_GW_TELEGRAM_WEBHOOK_SECRET'')) (\<lambda>secret.
             retE (case secret of Some s \<Rightarrow> gateway_register (adapter t s) [] | None \<Rightarrow> [], [])))
           else retE ([], [TelegramPoller t])))))"

definition build_matrix ::
  "('i, pg_vault, 't, 'a) console_env \<Rightarrow> 64 word \<times> 64 word \<Rightarrow> (('i, pg_vault, 't, 'a, 'b) console, poller list, string) eff" where
  "build_matrix env l =
     bindE (on_config (boot_flag ''channels.matrix.enabled'')) (\<lambda>enabled.
     if \<not> enabled then retE []
     else bindE (on_config (boot_str ''channels.matrix.homeserver'')) (\<lambda>hs.
       bindE (on_config (boot_str ''channels.matrix.access_token_cred'')) (\<lambda>cred.
       case (hs, cred) of
         (Some h, Some c) \<Rightarrow>
           bindE (boot_token env l (Some c) None) (\<lambda>token. retE (case token of Some t \<Rightarrow> [MatrixPoller h t] | None \<Rightarrow> []))
       | _ \<Rightarrow> retE [])))"

definition build_gateways ::
  "('i, pg_vault, 't, 'a) console_env \<Rightarrow> 64 word \<times> 64 word \<Rightarrow> (string \<Rightarrow> string \<Rightarrow> 'n gateway_adapter) \<Rightarrow>
   (('i, pg_vault, 't, 'a, 'b) console, 'n gateway_registry \<times> poller list, string) eff" where
  "build_gateways env l adapter =
     bindE (build_telegram env l adapter) (\<lambda>(g, ps). bindE (build_matrix env l) (\<lambda>ms. retE (g, ps @ ms)))"

section \<open>Lemmas\<close>

interpretation agate: ttl_gate "dedup_admit ttl" "\<lambda>s. s" ttl for ttl
  by unfold_locales (auto simp: dedup_admit_def dedup_retain_def Let_def split: option.splits if_splits)

abbreviation alert_accounts :: "('n, 'i, 'v, 't, 'a, 'b) alert_world \<Rightarrow> iam_tables" where
  "alert_accounts w \<equiv> wo_tables (co_app (aq_console w))"

lemma on_accounts_tables:
  assumes "on_accounts f w = (r, w')"
  shows "alert_accounts w' = (if is_ok r then snd (f (alert_accounts w)) else alert_accounts w) \<and> aq_net w' = aq_net w \<and>
    (case r of Ok x \<Rightarrow> x = fst (f (alert_accounts w)) | Err _ \<Rightarrow> True)"
proof -
  obtain x d where d: "db_stmt f (wo_iam (co_app (aq_console w))) = (x, d)" by fastforce
  have "r = map_err fault_text x \<and> w' = w\<lparr>aq_console := (aq_console w)\<lparr>co_app := (co_app (aq_console w))\<lparr>wo_iam := d\<rparr>\<rparr>\<rparr>"
    using assms d by (auto simp: on_accounts_def on_app_def on_iam_def)
  then show ?thesis
    using db_stmt_tables [OF d] d by (cases x) (auto simp: db_stmt_Ok_iff dest: arg_cong [of _ _ fst])
qed

lemma enrolled_recipients_enrolled:
  assumes "enrolled_recipients es w = (rs, w')"
  shows "list_all (\<lambda>r. enrolled_active (alert_accounts w) (rc_channel r) (rc_to r)) rs \<and> alert_accounts w' = alert_accounts w \<and>
    aq_net w' = aq_net w"
  using assms
proof (induction es arbitrary: w rs w')
  case (Cons e es)
  obtain c h where e: "e = (c, h)" by fastforce
  obtain x w1 where x: "is_enrolled_active c h w = (x, w1)" by fastforce
  obtain rs1 w2 where r: "enrolled_recipients es w1 = (rs1, w2)" by fastforce
  have t: "alert_accounts w1 = alert_accounts w" "aq_net w1 = aq_net w" "x = Ok True \<Longrightarrow> enrolled_active (alert_accounts w) c h"
    using on_accounts_tables [OF x [unfolded is_enrolled_active_def]] by (auto split: if_splits)
  show ?case using Cons.IH [OF r] Cons.prems e x r t by (auto split: if_splits)
qed simp

lemma enrolled_active_deliveries [simp]: "enrolled_active (t\<lparr>it_deliveries := ds\<rparr>) = enrolled_active t"
  by (simp add: fun_eq_iff enrolled_active_def)

text \<open>What deliveries to given recipients do: attempts for them only, and evidence of them only.\<close>

definition delivered_to ::
  "(string \<Rightarrow> string \<Rightarrow> bool) \<Rightarrow> ((alert_recipient \<times> alert_body) list, 'i, 'v, 't, 'a, 'b) alert_world \<Rightarrow>
   ((alert_recipient \<times> alert_body) list, 'i, 'v, 't, 'a, 'b) alert_world \<Rightarrow> bool" where
  "delivered_to P w w' \<longleftrightarrow>
     (\<exists>sent rows. aq_net w' = aq_net w @ sent \<and> list_all (\<lambda>(r, b). P (rc_channel r) (rc_to r)) sent \<and>
        alert_accounts w' = (alert_accounts w)\<lparr>it_deliveries := it_deliveries (alert_accounts w) @ rows\<rparr> \<and>
        list_all (\<lambda>d. P (ad_channel d) (ad_recipient d)) rows)"

lemma delivered_refl: "alert_accounts w' = alert_accounts w \<Longrightarrow> aq_net w' = aq_net w \<Longrightarrow> delivered_to P w w'"
  unfolding delivered_to_def by (intro exI [of _ "[]"]) simp

lemma delivered_trans: "delivered_to P w w1 \<Longrightarrow> delivered_to P w1 w2 \<Longrightarrow> delivered_to P w w2"
  unfolding delivered_to_def
  by (elim exE conjE, rule_tac x = "sent @ senta" in exI, rule_tac x = "rows @ rowsa" in exI) simp

lemma record_delivery_to:
  assumes "P (rc_channel r) (rc_to r)"
  shows "delivered_to P w (record_delivery now a r status detail msg_id w)"
proof -
  let ?row = "\<lparr>ad_alert_class = al_class a, ad_severity = (if al_severity a = ''default'' then None else Some (al_severity a)),
         ad_signature = al_signature a, ad_channel = rc_channel r, ad_recipient = rc_to r, ad_status = status, ad_detail = detail,
         ad_provider_message_id = msg_id, ad_created_at = now\<rparr>"
  obtain x w' where o: "on_accounts (\<lambda>t. ((), t\<lparr>it_deliveries := it_deliveries t @ [?row]\<rparr>)) w = (x, w')" by fastforce
  note t = on_accounts_tables [OF o]
  have "record_delivery now a r status detail msg_id w = w'" using o by (simp add: record_delivery_def)
  moreover have "delivered_to P w w'"
  proof (cases x)
    case (Ok y)
    then show ?thesis unfolding delivered_to_def using t assms by (intro exI [of _ "[]"] exI [of _ "[?row]"]) simp
  next
    case (Err e)
    then show ?thesis using t by (simp add: delivered_refl)
  qed
  ultimately show ?thesis by simp
qed

lemma deliver_one_to:
  assumes "\<And>ch a r b log. gateway_get g ch = Some a \<Longrightarrow> gy_deliver_alert a r b log = (answer a r b log, log @ [(r, b)])"
    "P (rc_channel r) (rc_to r)"
  shows "delivered_to P w (deliver_one g now a r w)"
proof (cases "gateway_get g (rc_channel r)")
  case None
  then show ?thesis by (simp add: deliver_one_def delivered_refl)
next
  case (Some ad)
  let ?w = "w\<lparr>aq_net := aq_net w @ [(r, al_body a)]\<rparr>"
  have "delivered_to P w ?w"
    unfolding delivered_to_def using assms(2) by (intro exI [of _ "[(r, al_body a)]"] exI [of _ "[]"]) simp
  then have "delivered_to P w (record_delivery now a r st d m ?w)" for st d m
    using delivered_trans record_delivery_to [of P r, OF assms(2)] by blast
  then show ?thesis using Some assms(1) [OF Some] by (simp add: deliver_one_def split: result.split)
qed

lemma deliver_all_to:
  assumes "\<And>ch a r b log. gateway_get g ch = Some a \<Longrightarrow> gy_deliver_alert a r b log = (answer a r b log, log @ [(r, b)])"
    "list_all (\<lambda>r. P (rc_channel r) (rc_to r)) rs"
  shows "delivered_to P w (fold (deliver_one g now a) rs w)"
  using assms(2)
proof (induction rs arbitrary: w)
  case (Cons r rs)
  have "delivered_to P w (deliver_one g now a r w)"
    by (rule deliver_one_to [where answer = answer]) (use assms(1) Cons.prems in auto)
  from delivered_trans [OF this Cons.IH] Cons.prems show ?case by simp
qed (simp add: delivered_refl)

lemma get_config_absent:
  assumes "db_faults d = []" "config_find key (db_tables d) = None"
  shows "boot_str key d = (Ok None, d)"
  using assms by (simp add: boot_str_def get_config_json_def config_stmt_def db_stmt_def)

text \<open>A boot token is found by the literal name in the configuration: a reference \<open>vault://name\<close>, which the settings page writes
  for a secret, is not the name of the credential behind it.\<close>

lemma boot_token_literal_name:
  assumes "resolve_vault_api_token br l name actor w = (Some t, w')"
  shows "\<exists>metas m. fst (on_broker (admin_vault_list_metadata br actor (fst l)) w) = Ok metas \<and> m \<in> set metas \<and> cm_name m = name"
  using assms
  by (auto simp: resolve_vault_api_token_def find_Some_iff split: prod.splits result.splits option.splits)
    (metis nth_mem)

section \<open>Properties\<close>

text \<open>C28: an alert goes to enrolled people only: whatever the routing rules name, every delivery that is attempted, and every
  delivery that is recorded, is for a handle bound to an active user; routing changes no other row.\<close>

theorem alert_recipients_enrolled:
  assumes "\<And>ch a r b log. gateway_get g ch = Some a \<Longrightarrow> gy_deliver_alert a r b log = (answer a r b log, log @ [(r, b)])"
  shows "\<exists>sent rows. aq_net (route getenv g now al w) = aq_net w @ sent \<and>
    list_all (\<lambda>(r, b). enrolled_active (alert_accounts w) (rc_channel r) (rc_to r)) sent \<and>
    alert_accounts (route getenv g now al w) = (alert_accounts w)\<lparr>it_deliveries := it_deliveries (alert_accounts w) @ rows\<rparr> \<and>
    list_all (\<lambda>d. enrolled_active (alert_accounts w) (ad_channel d) (ad_recipient d)) rows"
proof -
  obtain rs w1 where r: "resolve_recipients getenv (al_class al) (al_severity al) w = (rs, w1)" by fastforce
  have "list_all (\<lambda>r. enrolled_active (alert_accounts w) (rc_channel r) (rc_to r)) rs \<and> alert_accounts w1 = alert_accounts w \<and> aq_net w1 = aq_net w"
    using r enrolled_recipients_enrolled [of _ w rs w1] by (auto simp: resolve_recipients_def split: option.splits)
  then show ?thesis
    using deliver_all_to [of g answer "enrolled_active (alert_accounts w)" rs w1 now al, OF assms] r
    by (simp add: route_def delivered_to_def)
qed

text \<open>With the Telegram mode left at its default the registry is empty, whatever channels are enabled, and the router never runs:
  neither anomalies nor approval requests are sent to anybody.\<close>

lemma poll_mode_no_alerts:
  assumes "build_gateways env l adapter w = (Ok (g, ps), w')" "db_faults (co_config w) = []"
    "config_find ''channels.telegram.mode'' (db_tables (co_config w)) = None"
  shows "spawn_alert_router fl uuid_parse getenv g items aw = aw"
proof -
  obtain b w1 where e: "on_config (boot_flag ''channels.telegram.enabled'') w = (Ok b, w1)"
    using assms(1) by (auto simp: build_gateways_def build_telegram_def bindE_Ok_iff)
  have c: "co_config w1 = co_config w"
    using e assms(2) by (auto simp: on_config_def boot_flag_def get_config_json_def config_stmt_def db_stmt_def
        split: prod.splits option.splits json.splits)
  have m: "on_config (boot_str ''channels.telegram.mode'') w1 = (Ok None, w1)"
    using get_config_absent [of "co_config w"] assms(2,3) by (simp add: on_config_def c)
  have "to_ascii_lower ''poll'' \<noteq> ''webhook''" by code_simp
  then have "g = []"
    using assms(1) e m
    by (auto simp: build_gateways_def build_telegram_def bindE_Ok_iff retE_def split: if_splits option.splits)
  then show ?thesis by (simp add: spawn_alert_router_def)
qed

section \<open>Witnesses\<close>

definition ex_registry :: "(alert_recipient \<times> alert_body) list gateway_registry" where
  "ex_registry = gateway_register \<lparr>gy_channel = ''telegram'', gy_verify_and_parse = (\<lambda>_. Err NotImplemented),
     gy_deliver_alert = (\<lambda>r b log. (Ok (Some ''m-1''), log @ [(r, b)]))\<rparr> []"

definition ex_alert_world ::
  "((alert_recipient \<times> alert_body) list, mem_inventory, pg_vault, stub_record list, audit_db, in_proc_bus) alert_world" where
  "ex_alert_world = \<lparr>aq_console = ex_console\<lparr>co_app := \<lparr>wo_iam = db_of ex_bound_iam, wo_broker = ex_admin_world\<rparr>,
     co_snapshot := [(''channels.alerts.default'', JStr ''telegram:42, telegram:43'')]\<rparr>, aq_net = [], aq_seen = (\<lambda>_. None)\<rparr>"

definition ex_alert :: alert where
  "ex_alert = \<lparr>al_class = ''approval'', al_severity = ''default'', al_signature = ''a-1'', al_body = \<lparr>ab_title = ''approval required'', ab_body = ''''\<rparr>\<rparr>"

lemma ex_rule: "routing_rule (\<lambda>_. None) [(''channels.alerts.default'', JStr ''telegram:42, telegram:43'')] ''approval'' ''default'' =
    Some ''telegram:42, telegram:43''"
  "rule_entries ''telegram:42, telegram:43'' = [(''telegram'', ''42''), (''telegram'', ''43'')]"
  "enrolled_active ex_bound_iam ''telegram'' ''42''" "\<not> enrolled_active ex_bound_iam ''telegram'' ''43''"
  by code_simp+

theorem alert_recipients_enrolled_witness:
  "list_all (\<lambda>(r, b). enrolled_active ex_bound_iam (rc_channel r) (rc_to r)) (aq_net (route (\<lambda>_. None) ex_registry 9 ex_alert ex_alert_world)) \<and>
   map fst (aq_net (route (\<lambda>_. None) ex_registry 9 ex_alert ex_alert_world)) = [\<lparr>rc_channel = ''telegram'', rc_to = ''42''\<rparr>]"
proof -
  have g: "gateway_get ex_registry ch = Some a \<Longrightarrow> gy_deliver_alert a r b log = ((\<lambda>_ _ _ _. Ok (Some ''m-1'')) a r b log, log @ [(r, b)])"
    for ch a r b log
    by (auto simp: ex_registry_def gateway_register_def gateway_get_def split: if_splits)
  have "list_all (\<lambda>(r, b). enrolled_active ex_bound_iam (rc_channel r) (rc_to r)) (aq_net (route (\<lambda>_. None) ex_registry 9 ex_alert ex_alert_world))"
    using alert_recipients_enrolled [of ex_registry "\<lambda>_ _ _ _. Ok (Some ''m-1'')" "\<lambda>_. None" 9 ex_alert ex_alert_world, OF g]
    by (auto simp: ex_alert_world_def db_of_def)
  moreover have "map fst (aq_net (route (\<lambda>_. None) ex_registry 9 ex_alert ex_alert_world)) = [\<lparr>rc_channel = ''telegram'', rc_to = ''42''\<rparr>]"
    by (simp add: route_def resolve_recipients_def ex_alert_world_def ex_alert_def ex_rule is_enrolled_active_def on_accounts_def
        on_app_def on_iam_def db_stmt_db_of deliver_one_def ex_registry_def gateway_register_def gateway_get_def record_delivery_def)
  ultimately show ?thesis by simp
qed

end
