(* ===== verification/LlmWire.thy ===== *)
theory LlmWire
  imports Chat Utf8 "HOL-Library.Countable"
begin

text \<open>
  The model providers (\<open>daimon-llm\<close>): how a request becomes the body of each provider's API and how
  its answer, whole or as a stream, becomes the provider-neutral content of \<open>types.rs\<close>: \<open>anthropic.rs\<close>,
  \<open>openai.rs\<close>, \<open>local.rs\<close> (Ollama) and \<open>chatgpt.rs\<close> with its session file.

  The HTTP client is an effect on the state \<open>'w\<close>. An answer holds what can be read of it: the status, the
  body as text (empty when it cannot be read) and as JSON, the server-sent events, and the chunks of bytes as they
  arrive. The JSON library is a record of its parser, its printer, the text of its errors
  and the text of a 32-bit float widened to 64 bits. The structs of the session file and of its refresh are decoded from an object or an array, as the
  derived decoders do; those of the providers' answers from the object form. A text with a repeated member, which the decoders of structs refuse, is outside.
\<close>

section \<open>Errors, requests and answers\<close>

datatype llm_error =
    MissingApiKey string
  | LlmHttp string
  | ApiError nat string
  | LlmDecode string
  | LlmStream string
  | LlmOther string

fun show_llm_error :: "llm_error \<Rightarrow> string" where
  "show_llm_error (MissingApiKey p) =
     ''missing API key for provider `'' @ p @ ''` '' @ em_dash @ '' set the matching env var''"
| "show_llm_error (LlmHttp e) = ''http error: '' @ e"
| "show_llm_error (ApiError status body) = ''provider returned '' @ show_nat status @ '': '' @ body"
| "show_llm_error (LlmDecode e) = ''decode response: '' @ e"
| "show_llm_error (LlmStream e) = ''stream error: '' @ e"
| "show_llm_error (LlmOther e) = e"

record serde_lib =
  sd_parse :: "string \<Rightarrow> json option"
  sd_error :: "string \<Rightarrow> string"
  sd_print :: "json \<Rightarrow> string"
  sd_widen :: "string \<Rightarrow> string"

record llm_post =
  lp_url :: string
  lp_headers :: "(string \<times> string) list"
  lp_body :: json

record llm_answer =
  la_code :: nat
  la_text :: string
  la_json :: "(json, string) result"
  la_events :: "(string \<times> string, string) result list"
  la_chunks :: "(string, string) result list"

type_synonym 'w llm_http = "llm_post \<Rightarrow> ('w, llm_answer, string) eff"

datatype assistant_content = ContentText string | ContentToolUse string string json

record completion_response =
  cp_id :: string
  cp_model :: string
  cp_content :: "assistant_content list"
  cp_stop_reason :: stop_reason
  cp_usage :: usage

text \<open>The exchange the three key-based clients share: an answer outside 2xx is an error with its text.\<close>

definition post_ok :: "'w llm_http \<Rightarrow> llm_post \<Rightarrow> ('w, llm_answer, llm_error) eff" where
  "post_ok http p =
     bindE (mapE LlmHttp (http p)) (\<lambda>a.
       if 200 \<le> la_code a \<and> la_code a < 300 then retE a else failE (ApiError (la_code a) (la_text a)))"

definition or_default_model :: "string \<Rightarrow> completion_request \<Rightarrow> completion_request" where
  "or_default_model dflt r = (if rq_model r = '''' then r\<lparr>rq_model := dflt\<rparr> else r)"

text \<open>Assignment to a member of a JSON object; \<open>null\<close> becomes an object, every other value panics.\<close>

fun j_set :: "string \<Rightarrow> json \<Rightarrow> json \<Rightarrow> json option" where
  "j_set k v (JObj m) = Some (JObj (bt_insert k v m))"
| "j_set k v JNull = Some (JObj [(k, v)])"
| "j_set k v _ = None"

definition with_members :: "(string \<times> json option) list \<Rightarrow> (string \<times> json) list" where
  "with_members ms = List.map_filter (\<lambda>(k, v). map_option (Pair k) v) ms"

definition json_f32 :: "serde_lib \<Rightarrow> string \<Rightarrow> json" where
  "json_f32 sd t = JNum (JFloat (sd_widen sd t))"

definition j_as_u32 :: "json \<Rightarrow> nat option" where
  "j_as_u32 v = (case j_as_u64 v of Some n \<Rightarrow> if n < 2 ^ 32 then Some n else None | None \<Rightarrow> None)"

text \<open>A count with a default: absent is zero, any other form than a 32-bit number an error.\<close>

definition count_member :: "string \<Rightarrow> json \<Rightarrow> nat option" where
  "count_member k v = (case j_get k v of None \<Rightarrow> Some 0 | Some x \<Rightarrow> j_as_u32 x)"

fun j_as_array :: "json \<Rightarrow> json list option" where
  "j_as_array (JArr xs) = Some xs"
| "j_as_array _ = None"

fun all_some :: "'a option list \<Rightarrow> 'a list option" where
  "all_some [] = Some []"
| "all_some (None # xs) = None"
| "all_some (Some x # xs) = map_option ((#) x) (all_some xs)"

definition array_of :: "(json \<Rightarrow> 'a option) \<Rightarrow> json \<Rightarrow> 'a list option" where
  "array_of f v = Option.bind (j_as_array v) (\<lambda>xs. all_some (map f xs))"

definition optional_of :: "(json \<Rightarrow> 'a option) \<Rightarrow> string \<Rightarrow> json \<Rightarrow> 'a option option" where
  "optional_of f k v = (case j_get k v of None \<Rightarrow> Some None | Some JNull \<Rightarrow> Some None | Some x \<Rightarrow> map_option Some (f x))"

text \<open>Items of a mapped stream: nothing for an event without content.\<close>

fun keep_deltas :: "(content_delta option, llm_error) result list \<Rightarrow> (content_delta, llm_error) result list" where
  "keep_deltas [] = []"
| "keep_deltas (Ok (Some d) # xs) = Ok d # keep_deltas xs"
| "keep_deltas (Ok None # xs) = keep_deltas xs"
| "keep_deltas (Err e # xs) = Err e # keep_deltas xs"

section \<open>Anthropic\<close>

definition an_tool_use :: "tool_call \<Rightarrow> json" where
  "an_tool_use tc =
     j_obj [(''type'', JStr ''tool_use''), (''id'', JStr (tc_id tc)), (''name'', JStr (tc_name tc)), (''input'', tc_arguments tc)]"

definition an_map_message :: "chat_message \<Rightarrow> json option" where
  "an_map_message m =
     (case cg_role m of
        RoleSystem \<Rightarrow> None
      | RoleUser \<Rightarrow> Some (j_obj [(''role'', JStr ''user''), (''content'', JStr (cg_content m))])
      | RoleAssistant \<Rightarrow>
          Some (j_obj [(''role'', JStr ''assistant''),
            (''content'',
             if cg_tool_calls m = [] then JStr (cg_content m)
             else JArr ((if cg_content m = '''' then [] else [j_obj [(''type'', JStr ''text''), (''text'', JStr (cg_content m))]]) @
                        map an_tool_use (cg_tool_calls m)))])
      | RoleTool \<Rightarrow>
          Some (j_obj [(''role'', JStr ''user''),
            (''content'',
             JArr [j_obj [(''type'', JStr ''tool_result''),
                          (''tool_use_id'', JStr (case cg_tool_use_id m of Some i \<Rightarrow> i | None \<Rightarrow> '''')),
                          (''content'', JStr (cg_content m))]])]))"

definition an_map_messages :: "chat_message list \<Rightarrow> json list" where
  "an_map_messages ms = List.map_filter an_map_message ms"

definition an_build_request_body :: "serde_lib \<Rightarrow> completion_request \<Rightarrow> bool \<Rightarrow> json" where
  "an_build_request_body sd r stream =
     j_obj ([(''model'', JStr (rq_model r)), (''max_tokens'', JNum (JPos (rq_max_tokens r))),
             (''messages'', JArr (an_map_messages (rq_messages r))), (''stream'', JBool stream)] @
       with_members
         [(''system'', map_option JStr (rq_system r)),
          (''temperature'', map_option (json_f32 sd) (rq_temperature r)),
          (''tools'',
           if rq_tools r = [] then None
           else Some (JArr (map (\<lambda>t. j_obj [(''name'', JStr (td_name t)), (''description'', JStr (td_description t)),
                                            (''input_schema'', td_input_schema t)]) (rq_tools r))))])"

fun an_stop_reason :: "string option \<Rightarrow> stop_reason" where
  "an_stop_reason s =
     (if s = Some ''end_turn'' then StopEndTurn else if s = Some ''max_tokens'' then StopMaxTokens
      else if s = Some ''stop_sequence'' then StopSequence else if s = Some ''tool_use'' then StopToolUse else StopError)"

definition an_content_block :: "json \<Rightarrow> assistant_content option" where
  "an_content_block v =
     (case j_get_str ''type'' v of
        Some t \<Rightarrow>
          (if t = ''text'' then map_option ContentText (j_get_str ''text'' v)
           else if t = ''tool_use'' then
             Option.bind (j_get_str ''id'' v) (\<lambda>i. Option.bind (j_get_str ''name'' v) (\<lambda>n.
             map_option (ContentToolUse i n) (j_get ''input'' v)))
           else None)
      | None \<Rightarrow> None)"

definition an_usage :: "json \<Rightarrow> usage option" where
  "an_usage v =
     (case v of
        JObj _ \<Rightarrow>
          Option.bind (count_member ''input_tokens'' v) (\<lambda>a. Option.bind (count_member ''output_tokens'' v) (\<lambda>b.
          Option.bind (count_member ''cache_read_input_tokens'' v) (\<lambda>c. Option.bind (count_member ''cache_creation_input_tokens'' v) (\<lambda>d.
          Some \<lparr>ug_input_tokens = a, ug_output_tokens = b, ug_cache_read_input_tokens = c, ug_cache_creation_input_tokens = d\<rparr>))))
      | _ \<Rightarrow> None)"

definition an_response :: "json \<Rightarrow> completion_response option" where
  "an_response v =
     Option.bind (j_get_str ''id'' v) (\<lambda>i. Option.bind (j_get_str ''model'' v) (\<lambda>m.
     Option.bind (Option.bind (j_get ''content'' v) (array_of an_content_block)) (\<lambda>c.
     Option.bind (optional_member ''stop_reason'' v) (\<lambda>s. Option.bind (Option.bind (j_get ''usage'' v) an_usage) (\<lambda>u.
     Some \<lparr>cp_id = i, cp_model = m, cp_content = c, cp_stop_reason = an_stop_reason s, cp_usage = u\<rparr>)))))"

text \<open>The four events with content, decoded from their data.\<close>

definition an_block_start :: "json \<Rightarrow> content_delta option option" where
  "an_block_start v =
     Option.bind (Option.bind (j_get ''index'' v) j_as_u32) (\<lambda>_.
     Option.bind (Option.bind (j_get ''content_block'' v) an_content_block) (\<lambda>b.
     Some (case b of ContentText _ \<Rightarrow> None | ContentToolUse i n _ \<Rightarrow> Some (ToolUseStart i n))))"

definition an_block_delta :: "json \<Rightarrow> content_delta option option" where
  "an_block_delta v =
     Option.bind (j_get ''delta'' v) (\<lambda>d.
       (case j_get_str ''type'' d of
          Some t \<Rightarrow>
            (if t = ''text_delta'' then map_option (\<lambda>x. Some (TextDelta x)) (j_get_str ''text'' d)
             else if t = ''input_json_delta'' then map_option (\<lambda>x. Some (ToolUseInputDelta x)) (j_get_str ''partial_json'' d)
             else None)
        | None \<Rightarrow> None))"

definition an_block_stop :: "json \<Rightarrow> content_delta option option" where
  "an_block_stop v = map_option (\<lambda>_. Some (ToolUseStop '''')) (Option.bind (j_get ''index'' v) j_as_u32)"

definition an_message_delta :: "json \<Rightarrow> content_delta option option" where
  "an_message_delta v =
     Option.bind (j_get ''delta'' v) (\<lambda>d.
       (case d of
          JObj _ \<Rightarrow>
            Option.bind (optional_member ''stop_reason'' d) (\<lambda>s. Option.bind (optional_of an_usage ''usage'' v) (\<lambda>u.
            Some (Some (MessageStop (an_stop_reason s) (case u of Some x \<Rightarrow> x | None \<Rightarrow> usage_default)))))
        | _ \<Rightarrow> None))"

definition decode_event ::
  "serde_lib \<Rightarrow> string \<Rightarrow> (json \<Rightarrow> content_delta option option) \<Rightarrow> string \<Rightarrow> (content_delta option, llm_error) result" where
  "decode_event sd label f data =
     ok_or (Option.bind (sd_parse sd data) f) (LlmDecode (label @ '': '' @ sd_error sd data))"

fun an_event :: "serde_lib \<Rightarrow> (string \<times> string, string) result \<Rightarrow> (content_delta option, llm_error) result" where
  "an_event sd (Err e) = Err (LlmStream (''sse: '' @ e))"
| "an_event sd (Ok (event, data)) =
     (if event = ''content_block_start'' then decode_event sd event an_block_start data
      else if event = ''content_block_delta'' then decode_event sd event an_block_delta data
      else if event = ''content_block_stop'' then decode_event sd event an_block_stop data
      else if event = ''message_delta'' then decode_event sd event an_message_delta data
      else Ok None)"

definition an_post :: "serde_lib \<Rightarrow> string \<Rightarrow> completion_request \<Rightarrow> bool \<Rightarrow> llm_post" where
  "an_post sd key r stream =
     \<lparr>lp_url = ''https://api.anthropic.com/v1/messages'',
      lp_headers = [(''x-api-key'', key), (''anthropic-version'', ''2023-06-01''), (''content-type'', ''application/json'')] @
        (if stream then [(''accept'', ''text/event-stream'')] else []),
      lp_body = an_build_request_body sd r stream\<rparr>"

definition an_complete ::
  "serde_lib \<Rightarrow> 'w llm_http \<Rightarrow> string \<Rightarrow> string \<Rightarrow> completion_request \<Rightarrow> ('w, completion_response, llm_error) eff" where
  "an_complete sd http key model req =
     bindE (post_ok http (an_post sd key (or_default_model model req) False)) (\<lambda>a.
       liftE (bind_result (map_err (\<lambda>e. LlmDecode (''messages body: '' @ e)) (la_json a)) (\<lambda>v.
         ok_or (an_response v) (LlmDecode (''messages body: '' @ sd_error sd (la_text a))))))"

definition an_stream ::
  "serde_lib \<Rightarrow> 'w llm_http \<Rightarrow> string \<Rightarrow> string \<Rightarrow> completion_request \<Rightarrow> ('w, (content_delta, llm_error) result list, llm_error) eff" where
  "an_stream sd http key model req =
     bindE (post_ok http (an_post sd key (or_default_model model req) True)) (\<lambda>a.
       retE (keep_deltas (map (an_event sd) (la_events a))))"

section \<open>OpenAI and compatible servers\<close>

definition oa_message :: "string \<Rightarrow> string \<Rightarrow> json" where
  "oa_message role content = j_obj [(''role'', JStr role), (''content'', JStr content)]"

definition oa_tool_call :: "serde_lib \<Rightarrow> tool_call \<Rightarrow> json" where
  "oa_tool_call sd tc =
     j_obj [(''id'', JStr (tc_id tc)), (''type'', JStr ''function''),
            (''function'', j_obj [(''name'', JStr (tc_name tc)), (''arguments'', JStr (sd_print sd (tc_arguments tc)))])]"

definition oa_map_message :: "serde_lib \<Rightarrow> chat_message \<Rightarrow> json" where
  "oa_map_message sd m =
     (case cg_role m of
        RoleSystem \<Rightarrow> oa_message ''system'' (cg_content m)
      | RoleUser \<Rightarrow> oa_message ''user'' (cg_content m)
      | RoleAssistant \<Rightarrow>
          (if cg_tool_calls m = [] then oa_message ''assistant'' (cg_content m)
           else j_obj ([(''role'', JStr ''assistant''), (''tool_calls'', JArr (map (oa_tool_call sd) (cg_tool_calls m)))] @
                       (if cg_content m = '''' then [] else [(''content'', JStr (cg_content m))])))
      | RoleTool \<Rightarrow>
          j_obj [(''role'', JStr ''tool''), (''tool_call_id'', JStr (case cg_tool_use_id m of Some i \<Rightarrow> i | None \<Rightarrow> '''')),
                 (''content'', JStr (cg_content m))])"

definition system_first :: "completion_request \<Rightarrow> json list" where
  "system_first r = (case rq_system r of Some s \<Rightarrow> [oa_message ''system'' s] | None \<Rightarrow> [])"

definition oa_build_request_body :: "serde_lib \<Rightarrow> completion_request \<Rightarrow> bool \<Rightarrow> json" where
  "oa_build_request_body sd r stream =
     j_obj ([(''model'', JStr (rq_model r)), (''max_tokens'', JNum (JPos (rq_max_tokens r))),
             (''messages'', JArr (system_first r @ map (oa_map_message sd) (rq_messages r))), (''stream'', JBool stream)] @
       with_members
         [(''temperature'', map_option (json_f32 sd) (rq_temperature r)),
          (''tools'',
           if rq_tools r = [] then None
           else Some (JArr (map (\<lambda>t. j_obj [(''type'', JStr ''function''),
                  (''function'', j_obj [(''name'', JStr (td_name t)), (''description'', JStr (td_description t)),
                                        (''parameters'', td_input_schema t)])]) (rq_tools r)))),
          (''stream_options'', if stream then Some (j_obj [(''include_usage'', JBool True)]) else None)])"

fun oa_stop_reason :: "string option \<Rightarrow> stop_reason" where
  "oa_stop_reason s =
     (if s = Some ''stop'' then StopEndTurn else if s = Some ''length'' then StopMaxTokens
      else if s = Some ''tool_calls'' then StopToolUse else StopError)"

definition token_usage :: "nat \<Rightarrow> nat \<Rightarrow> usage" where
  "token_usage i n = usage_default\<lparr>ug_input_tokens := i, ug_output_tokens := n\<rparr>"

definition oa_usage :: "json \<Rightarrow> usage option" where
  "oa_usage v =
     (case v of
        JObj _ \<Rightarrow> Option.bind (count_member ''prompt_tokens'' v) (\<lambda>a. map_option (token_usage a) (count_member ''completion_tokens'' v))
      | _ \<Rightarrow> None)"

record oa_choice_call =
  oc_id :: string
  oc_name :: string
  oc_arguments :: string

record oa_choice =
  oc_content :: "string option"
  oc_tool_calls :: "oa_choice_call list"
  oc_finish_reason :: "string option"

definition oa_choice_call_of :: "json \<Rightarrow> oa_choice_call option" where
  "oa_choice_call_of v =
     Option.bind (j_get_str ''id'' v) (\<lambda>i. Option.bind (j_get ''function'' v) (\<lambda>f.
     Option.bind (j_get_str ''name'' f) (\<lambda>n. Option.bind (j_get_str ''arguments'' f) (\<lambda>a.
     Some \<lparr>oc_id = i, oc_name = n, oc_arguments = a\<rparr>))))"

definition oa_choice_of :: "json \<Rightarrow> oa_choice option" where
  "oa_choice_of v =
     Option.bind (j_get ''message'' v) (\<lambda>m.
       (case m of
          JObj _ \<Rightarrow>
            Option.bind (optional_member ''content'' m) (\<lambda>c.
            Option.bind (case j_get ''tool_calls'' m of None \<Rightarrow> Some [] | Some x \<Rightarrow> array_of oa_choice_call_of x) (\<lambda>ts.
            Option.bind (optional_member ''finish_reason'' v) (\<lambda>f.
            Some \<lparr>oc_content = c, oc_tool_calls = ts, oc_finish_reason = f\<rparr>)))
        | _ \<Rightarrow> None))"

record oa_completion =
  ok_id :: string
  ok_model :: string
  ok_choices :: "oa_choice list"
  ok_usage :: "usage option"

definition oa_completion_of :: "json \<Rightarrow> oa_completion option" where
  "oa_completion_of v =
     Option.bind (j_get_str ''id'' v) (\<lambda>i. Option.bind (j_get_str ''model'' v) (\<lambda>m.
     Option.bind (Option.bind (j_get ''choices'' v) (array_of oa_choice_of)) (\<lambda>cs.
     Option.bind (optional_of oa_usage ''usage'' v) (\<lambda>u.
     Some \<lparr>ok_id = i, ok_model = m, ok_choices = cs, ok_usage = u\<rparr>))))"

text \<open>The first choice; the first arguments that do not parse fail the whole answer.\<close>

fun oa_tool_uses :: "serde_lib \<Rightarrow> oa_choice_call list \<Rightarrow> (assistant_content list, llm_error) result" where
  "oa_tool_uses sd [] = Ok []"
| "oa_tool_uses sd (c # cs) =
     (case sd_parse sd (oc_arguments c) of
        None \<Rightarrow> Err (LlmDecode (''openai tool args: '' @ sd_error sd (oc_arguments c)))
      | Some v \<Rightarrow> bind_result (oa_tool_uses sd cs) (\<lambda>r. Ok (ContentToolUse (oc_id c) (oc_name c) v # r)))"

definition oa_response :: "serde_lib \<Rightarrow> oa_completion \<Rightarrow> (completion_response, llm_error) result" where
  "oa_response sd k =
     (case ok_choices k of
        [] \<Rightarrow> Err (LlmDecode ''openai: no choices in response'')
      | c # _ \<Rightarrow>
          bind_result (oa_tool_uses sd (oc_tool_calls c)) (\<lambda>ts.
            Ok \<lparr>cp_id = ok_id k, cp_model = ok_model k,
                cp_content = (case oc_content c of Some t \<Rightarrow> if t = '''' then [] else [ContentText t] | None \<Rightarrow> []) @ ts,
                cp_stop_reason = oa_stop_reason (oc_finish_reason c),
                cp_usage = (case ok_usage k of Some u \<Rightarrow> u | None \<Rightarrow> usage_default)\<rparr>))"

text \<open>A chunk of the stream: of a choice only the text and the reason to finish are decoded.\<close>

definition oa_stream_choice :: "json \<Rightarrow> (string option \<times> string option) option" where
  "oa_stream_choice v =
     Option.bind (j_get ''delta'' v) (\<lambda>d.
       (case d of
          JObj _ \<Rightarrow> Option.bind (optional_member ''content'' d) (\<lambda>c. map_option (Pair c) (optional_member ''finish_reason'' v))
        | _ \<Rightarrow> None))"

definition oa_chunk_delta :: "(string option \<times> string option) list \<Rightarrow> usage option \<Rightarrow> content_delta option" where
  "oa_chunk_delta choices u =
     (case choices of
        [] \<Rightarrow> map_option (MessageStop StopEndTurn) u
      | (c, f) # _ \<Rightarrow>
          (case c of
             Some (x # xs) \<Rightarrow> Some (TextDelta (x # xs))
           | _ \<Rightarrow> map_option (\<lambda>r. MessageStop (oa_stop_reason (Some r)) (case u of Some x \<Rightarrow> x | None \<Rightarrow> usage_default)) f))"

definition oa_chunk :: "json \<Rightarrow> content_delta option option" where
  "oa_chunk v =
     Option.bind (Option.bind (j_get ''choices'' v) (array_of oa_stream_choice)) (\<lambda>cs.
     Option.bind (optional_of oa_usage ''usage'' v) (\<lambda>u. Some (oa_chunk_delta cs u)))"

fun oa_event :: "serde_lib \<Rightarrow> (string \<times> string, string) result \<Rightarrow> (content_delta option, llm_error) result" where
  "oa_event sd (Err e) = Err (LlmStream (''sse: '' @ e))"
| "oa_event sd (Ok (event, data)) =
     (if data = ''[DONE]'' then Ok None else decode_event sd ''chat stream chunk'' oa_chunk data)"

definition oa_post :: "serde_lib \<Rightarrow> string \<Rightarrow> string \<Rightarrow> completion_request \<Rightarrow> bool \<Rightarrow> llm_post" where
  "oa_post sd key url r stream =
     \<lparr>lp_url = url,
      lp_headers = [(''authorization'', ''Bearer '' @ key), (''content-type'', ''application/json'')] @
        (if stream then [(''accept'', ''text/event-stream'')] else []),
      lp_body = oa_build_request_body sd r stream\<rparr>"

definition oa_complete ::
  "serde_lib \<Rightarrow> 'w llm_http \<Rightarrow> string \<Rightarrow> string \<Rightarrow> string \<Rightarrow> completion_request \<Rightarrow> ('w, completion_response, llm_error) eff" where
  "oa_complete sd http key url model req =
     bindE (post_ok http (oa_post sd key url (or_default_model model req) False)) (\<lambda>a.
       liftE (bind_result (map_err (\<lambda>e. LlmDecode (''chat body: '' @ e)) (la_json a)) (\<lambda>v.
         bind_result (ok_or (oa_completion_of v) (LlmDecode (''chat body: '' @ sd_error sd (la_text a)))) (oa_response sd))))"

definition oa_stream ::
  "serde_lib \<Rightarrow> 'w llm_http \<Rightarrow> string \<Rightarrow> string \<Rightarrow> string \<Rightarrow> completion_request \<Rightarrow>
   ('w, (content_delta, llm_error) result list, llm_error) eff" where
  "oa_stream sd http key url model req =
     bindE (post_ok http (oa_post sd key url (or_default_model model req) True)) (\<lambda>a.
       retE (keep_deltas (map (oa_event sd) (la_events a))))"

section \<open>Local models\<close>

fun ol_role :: "chat_role \<Rightarrow> string" where
  "ol_role RoleSystem = ''system''"
| "ol_role RoleUser = ''user''"
| "ol_role RoleAssistant = ''assistant''"
| "ol_role RoleTool = ''tool''"

definition ol_build_request_body :: "serde_lib \<Rightarrow> completion_request \<Rightarrow> bool \<Rightarrow> json" where
  "ol_build_request_body sd r stream =
     j_obj [(''model'', JStr (rq_model r)),
            (''messages'', JArr (system_first r @ map (\<lambda>m. oa_message (ol_role (cg_role m)) (cg_content m)) (rq_messages r))),
            (''stream'', JBool stream),
            (''options'', j_obj ((''num_predict'', JNum (JPos (rq_max_tokens r))) #
               with_members [(''temperature'', map_option (json_f32 sd) (rq_temperature r))]))]"

fun ol_stop_reason :: "string option \<Rightarrow> stop_reason" where
  "ol_stop_reason s = (if s = Some ''stop'' then StopEndTurn else if s = Some ''length'' then StopMaxTokens else StopError)"

definition ol_message_of :: "json \<Rightarrow> string option" where
  "ol_message_of v = j_get_str ''content'' v"

text \<open>The name of the answer is a fresh identifier.\<close>

definition ol_response :: "uuid \<Rightarrow> json \<Rightarrow> completion_response option" where
  "ol_response fresh v =
     Option.bind (j_get_str ''model'' v) (\<lambda>m. Option.bind (Option.bind (j_get ''message'' v) ol_message_of) (\<lambda>c.
     Option.bind (optional_member ''done_reason'' v) (\<lambda>r. Option.bind (count_member ''prompt_eval_count'' v) (\<lambda>p.
     Option.bind (count_member ''eval_count'' v) (\<lambda>e.
     Some \<lparr>cp_id = ''ollama-'' @ fresh, cp_model = m, cp_content = [ContentText c], cp_stop_reason = ol_stop_reason r,
           cp_usage = token_usage p e\<rparr>)))))"

definition ol_chunk :: "json \<Rightarrow> content_delta option option" where
  "ol_chunk v =
     Option.bind (optional_of ol_message_of ''message'' v) (\<lambda>m. Option.bind (Option.bind (j_get ''done'' v) j_as_bool) (\<lambda>fin.
     Option.bind (optional_member ''done_reason'' v) (\<lambda>r. Option.bind (count_member ''prompt_eval_count'' v) (\<lambda>p.
     Option.bind (count_member ''eval_count'' v) (\<lambda>e.
     Some (if fin then Some (MessageStop (ol_stop_reason r) (token_usage p e))
           else (case m of Some (x # xs) \<Rightarrow> Some (TextDelta (x # xs)) | _ \<Rightarrow> None)))))))"

definition ol_line :: "serde_lib \<Rightarrow> string \<Rightarrow> (content_delta option, llm_error) result" where
  "ol_line sd line =
     ok_or (Option.bind (sd_parse sd line) ol_chunk)
       (LlmDecode (''ollama line: '' @ sd_error sd line @ '': line=`'' @ line @ ''`''))"

text \<open>The lines of one chunk; the first that does not decode discards what the chunk gave before.\<close>

fun ol_lines :: "serde_lib \<Rightarrow> string list \<Rightarrow> (content_delta list, llm_error) result" where
  "ol_lines sd [] = Ok []"
| "ol_lines sd (l # ls) =
     bind_result (ol_line sd l) (\<lambda>d. bind_result (ol_lines sd ls) (\<lambda>ds. Ok (case d of Some x \<Rightarrow> x # ds | None \<Rightarrow> ds)))"

fun ol_bytes :: "serde_lib \<Rightarrow> (string, string) result \<Rightarrow> (content_delta, llm_error) result list" where
  "ol_bytes sd (Err e) = [Err (LlmStream (''ollama bytes: '' @ e))]"
| "ol_bytes sd (Ok bytes) =
     (case utf8_error 0 bytes of
        Some e \<Rightarrow> [Err (LlmDecode (''ollama bytes utf8: '' @ e))]
      | None \<Rightarrow>
          (case ol_lines sd (filter (\<lambda>l. trim l \<noteq> '''') (split_on (CHR 0x0A) bytes)) of
             Ok ds \<Rightarrow> map Ok ds
           | Err e \<Rightarrow> [Err e]))"

definition ol_post :: "serde_lib \<Rightarrow> string \<Rightarrow> completion_request \<Rightarrow> bool \<Rightarrow> llm_post" where
  "ol_post sd base r stream =
     \<lparr>lp_url = trim_slashes base @ ''/api/chat'', lp_headers = [(''content-type'', ''application/json'')],
      lp_body = ol_build_request_body sd r stream\<rparr>"

definition ol_complete ::
  "serde_lib \<Rightarrow> 'w llm_http \<Rightarrow> uuid \<Rightarrow> string \<Rightarrow> string \<Rightarrow> completion_request \<Rightarrow> ('w, completion_response, llm_error) eff" where
  "ol_complete sd http fresh base model req =
     bindE (post_ok http (ol_post sd base (or_default_model model req) False)) (\<lambda>a.
       liftE (bind_result (map_err (\<lambda>e. LlmDecode (''ollama body: '' @ e)) (la_json a)) (\<lambda>v.
         ok_or (ol_response fresh v) (LlmDecode (''ollama body: '' @ sd_error sd (la_text a))))))"

definition ol_stream ::
  "serde_lib \<Rightarrow> 'w llm_http \<Rightarrow> string \<Rightarrow> string \<Rightarrow> completion_request \<Rightarrow> ('w, (content_delta, llm_error) result list, llm_error) eff" where
  "ol_stream sd http base model req =
     bindE (post_ok http (ol_post sd base (or_default_model model req) True)) (\<lambda>a.
       retE (concat (map (ol_bytes sd) (la_chunks a))))"

section \<open>ChatGPT\<close>

text \<open>The session file. The files and the outcomes of the file operations to come are in the
  state, with the rest of the world (\<open>'n\<close>): \<open>None\<close> is a success, a failure has the text of the error and
  what a failed write leaves of the file.\<close>

record 'n llm_world =
  lw_files :: "string \<Rightarrow> string option"
  lw_faults :: "(string \<times> string option) option list"
  lw_net :: 'n

definition next_fault :: "'n llm_world \<Rightarrow> (string \<times> string option) option \<times> 'n llm_world" where
  "next_fault w = (case lw_faults w of [] \<Rightarrow> (None, w) | f # fs \<Rightarrow> (f, w\<lparr>lw_faults := fs\<rparr>))"

definition fs_read :: "string \<Rightarrow> ('n llm_world, string, string) eff" where
  "fs_read path w =
     (case next_fault w of
        (Some (e, _), w') \<Rightarrow> (Err e, w')
      | (None, w') \<Rightarrow> (ok_or (lw_files w' path) ''No such file or directory (os error 2)'', w'))"

definition fs_write :: "string \<Rightarrow> string \<Rightarrow> ('n llm_world, unit, string) eff" where
  "fs_write path data w =
     (case next_fault w of
        (Some (e, left), w') \<Rightarrow> (Err e, w'\<lparr>lw_files := (lw_files w')(path := left)\<rparr>)
      | (None, w') \<Rightarrow> (Ok (), w'\<lparr>lw_files := (lw_files w')(path \<mapsto> data)\<rparr>))"

definition fs_rename :: "string \<Rightarrow> string \<Rightarrow> ('n llm_world, unit, string) eff" where
  "fs_rename src dst w =
     (case next_fault w of
        (Some (e, _), w') \<Rightarrow> (Err e, w')
      | (None, w') \<Rightarrow>
          (case lw_files w' src of
             None \<Rightarrow> (Err ''No such file or directory (os error 2)'', w')
           | Some t \<Rightarrow> (Ok (), w'\<lparr>lw_files := ((lw_files w')(src := None))(dst \<mapsto> t)\<rparr>)))"

definition split_last :: "char \<Rightarrow> string \<Rightarrow> (string \<times> string) option" where
  "split_last d s = map_option (\<lambda>(a, b). (rev b, rev a)) (split_once d (rev s))"

text \<open>\<open>Path::with_extension\<close> on a path without a slash at its end.\<close>

definition path_name :: "string \<Rightarrow> string \<times> string" where
  "path_name path = (case split_last (CHR ''/'') path of Some (d, n) \<Rightarrow> (d @ ''/'', n) | None \<Rightarrow> ('''', path))"

definition with_extension :: "string \<Rightarrow> string \<Rightarrow> string" where
  "with_extension ext path =
     (case path_name path of
        (dir, name) \<Rightarrow>
          (if name = '''' \<or> name = ''.'' \<or> name = ''..'' then path
           else dir @ (case split_last (CHR ''.'') name of Some (b, _) \<Rightarrow> if b = '''' then name else b | None \<Rightarrow> name) @ ''.'' @ ext))"

definition codex_auth_path :: "(string \<Rightarrow> string option) \<Rightarrow> string" where
  "codex_auth_path getenv =
     (case getenv ''CODEX_AUTH_FILE'' of
        Some p \<Rightarrow> p
      | None \<Rightarrow>
          path_join (path_join (case getenv ''HOME'' of Some h \<Rightarrow> h | None \<Rightarrow> env_or getenv ''USERPROFILE'' '''') ''.codex'') ''auth.json'')"

record auth_tokens =
  at_access_token :: string
  at_refresh_token :: string
  at_account_id :: string

definition auth_tokens_of :: "json \<Rightarrow> auth_tokens option" where
  "auth_tokens_of v =
     Option.bind (of_struct [''tokens''] v) (\<lambda>af. Option.bind (j_get ''tokens'' af) (\<lambda>ts.
     Option.bind (of_struct [''access_token'', ''refresh_token'', ''account_id''] ts) (\<lambda>t.
     Option.bind (j_get_str ''access_token'' t) (\<lambda>a. Option.bind (member_or_empty ''refresh_token'' t) (\<lambda>r.
     Option.bind (member_or_empty ''account_id'' t) (\<lambda>i.
     Some \<lparr>at_access_token = a, at_refresh_token = r, at_account_id = i\<rparr>))))))"

definition load_tokens :: "serde_lib \<Rightarrow> string \<Rightarrow> ('n llm_world, auth_tokens, llm_error) eff" where
  "load_tokens sd path =
     bindE (mapE (\<lambda>e. LlmOther (''read '' @ path @ '': '' @ e)) (fs_read path)) (\<lambda>raw.
       liftE (ok_or (Option.bind (sd_parse sd raw) auth_tokens_of) (LlmOther (''parse auth.json: '' @ sd_error sd raw))))"

record refresh_resp =
  rf_access_token :: string
  rf_refresh_token :: "string option"
  rf_id_token :: "string option"

definition refresh_resp_of :: "json \<Rightarrow> refresh_resp option" where
  "refresh_resp_of x =
     Option.bind (of_struct [''access_token'', ''refresh_token'', ''id_token''] x) (\<lambda>v.
     Option.bind (j_get_str ''access_token'' v) (\<lambda>a. Option.bind (optional_member ''refresh_token'' v) (\<lambda>r.
     Option.bind (optional_member ''id_token'' v) (\<lambda>i.
     Some \<lparr>rf_access_token = a, rf_refresh_token = r, rf_id_token = i\<rparr>))))"

text \<open>The document with the rotated tokens: every other member stays. \<open>None\<close> is the panic of an index into a
  value that is neither an object nor \<open>null\<close>.\<close>

definition j_index :: "string \<Rightarrow> json \<Rightarrow> json" where
  "j_index k v = (case j_get k v of Some x \<Rightarrow> x | None \<Rightarrow> JNull)"

definition set_token :: "string \<Rightarrow> string \<Rightarrow> json \<Rightarrow> json option" where
  "set_token k t root = Option.bind (j_set k (JStr t) (j_index ''tokens'' root)) (\<lambda>toks. j_set ''tokens'' toks root)"

definition set_token_opt :: "string \<Rightarrow> string option \<Rightarrow> json \<Rightarrow> json option" where
  "set_token_opt k t root = (case t of Some x \<Rightarrow> set_token k x root | None \<Rightarrow> Some root)"

definition rotate_document :: "refresh_resp \<Rightarrow> string \<Rightarrow> json \<Rightarrow> json option" where
  "rotate_document r now root =
     Option.bind (set_token ''access_token'' (rf_access_token r) root) (\<lambda>d1.
     Option.bind (set_token_opt ''refresh_token'' (rf_refresh_token r) d1) (\<lambda>d2.
     Option.bind (set_token_opt ''id_token'' (rf_id_token r) d2) (j_set ''last_refresh'' (JStr now))))"

text \<open>A failure of an operation, or a panic of its task.\<close>

datatype llm_failure = Failed llm_error | Panicked

definition refresh_post :: "string \<Rightarrow> llm_post" where
  "refresh_post token =
     \<lparr>lp_url = ''https://auth.openai.com/oauth/token'', lp_headers = [(''content-type'', ''application/json'')],
      lp_body = j_obj [(''client_id'', JStr ''app_EMoamEEZ73f0CkXaXp7hrann''), (''grant_type'', JStr ''refresh_token''),
        (''refresh_token'', JStr token), (''scope'', JStr ''openid profile email'')]\<rparr>"

text \<open>The file is read a second time after the exchange, and swapped by a rename. \<open>now\<close> is the time as text.\<close>

definition persist_tokens :: "serde_lib \<Rightarrow> string \<Rightarrow> string \<Rightarrow> refresh_resp \<Rightarrow> ('n llm_world, unit, llm_failure) eff" where
  "persist_tokens sd path now r =
     bindE (mapE (\<lambda>e. Failed (LlmOther (''read auth.json: '' @ e))) (fs_read path)) (\<lambda>raw.
     bindE (liftE (ok_or (sd_parse sd raw) (Failed (LlmOther (''parse auth.json: '' @ sd_error sd raw))))) (\<lambda>root.
     bindE (liftE (ok_or (rotate_document r now root) Panicked)) (\<lambda>doc.
     bindE (mapE (\<lambda>e. Failed (LlmOther (''write auth.json: '' @ e))) (fs_write (with_extension ''json.tmp'' path) (sd_print sd doc))) (\<lambda>_.
     mapE (\<lambda>e. Failed (LlmOther (''swap auth.json: '' @ e))) (fs_rename (with_extension ''json.tmp'' path) path)))))"

definition refresh :: "serde_lib \<Rightarrow> 'n llm_world llm_http \<Rightarrow> string \<Rightarrow> string \<Rightarrow> ('n llm_world, auth_tokens, llm_failure) eff" where
  "refresh sd http now path =
     bindE (mapE Failed (load_tokens sd path)) (\<lambda>cur.
     bindE (mapE Failed (post_ok http (refresh_post (at_refresh_token cur)))) (\<lambda>a.
     bindE (liftE (bind_result (map_err (\<lambda>e. Failed (LlmDecode (''oauth refresh: '' @ e))) (la_json a)) (\<lambda>v.
              ok_or (refresh_resp_of v) (Failed (LlmDecode (''oauth refresh: '' @ sd_error sd (la_text a))))))) (\<lambda>r.
     bindE (persist_tokens sd path now r) (\<lambda>_.
       retE (cur\<lparr>at_access_token := rf_access_token r,
                 at_refresh_token := (case rf_refresh_token r of Some t \<Rightarrow> t | None \<Rightarrow> at_refresh_token cur)\<rparr>)))))"

text \<open>Tool names: every character outside the provider's alphabet becomes an underscore. A character
  is the bytes up to the next one that does not continue it.\<close>

definition tool_name_char :: "char \<Rightarrow> bool" where
  "tool_name_char c \<longleftrightarrow> is_ascii_alphanumeric c \<or> c = CHR ''-'' \<or> c = CHR ''_''"

definition sanitize_tool_name :: "string \<Rightarrow> string" where
  "sanitize_tool_name name =
     map (\<lambda>c. if tool_name_char c then c else CHR ''_'') (filter (\<lambda>c. \<not> utf8_cont c) name)"

definition gp_text_item :: "string \<Rightarrow> string \<Rightarrow> string \<Rightarrow> json" where
  "gp_text_item role kind t =
     j_obj [(''type'', JStr ''message''), (''role'', JStr role),
            (''content'', JArr [j_obj [(''type'', JStr kind), (''text'', JStr t)]])]"

definition gp_input :: "serde_lib \<Rightarrow> chat_message \<Rightarrow> json list" where
  "gp_input sd m =
     (case cg_role m of
        RoleAssistant \<Rightarrow>
          (if cg_content m = '''' then [] else [gp_text_item ''assistant'' ''output_text'' (cg_content m)]) @
          map (\<lambda>tc. j_obj [(''type'', JStr ''function_call''), (''call_id'', JStr (tc_id tc)),
                           (''name'', JStr (sanitize_tool_name (tc_name tc))), (''arguments'', JStr (sd_print sd (tc_arguments tc)))])
            (cg_tool_calls m)
      | RoleTool \<Rightarrow>
          [j_obj [(''type'', JStr ''function_call_output''), (''call_id'', JStr (case cg_tool_use_id m of Some i \<Rightarrow> i | None \<Rightarrow> '''')),
                  (''output'', JStr (cg_content m))]]
      | _ \<Rightarrow> [gp_text_item ''user'' ''input_text'' (cg_content m)])"

definition gp_build_body :: "serde_lib \<Rightarrow> string \<Rightarrow> string \<Rightarrow> completion_request \<Rightarrow> bool \<Rightarrow> json" where
  "gp_build_body sd model effort r stream =
     j_obj ([(''model'', JStr (if rq_model r = '''' then model else rq_model r)),
             (''input'', JArr (concat (map (gp_input sd) (rq_messages r)))), (''stream'', JBool stream),
             (''store'', JBool False), (''parallel_tool_calls'', JBool False), (''reasoning'', j_obj [(''effort'', JStr effort)])] @
       with_members
         [(''instructions'', map_option JStr (rq_system r)),
          (''tools'',
           if rq_tools r = [] then None
           else Some (JArr (map (\<lambda>t. j_obj [(''type'', JStr ''function''), (''name'', JStr (sanitize_tool_name (td_name t))),
                  (''description'', JStr (td_description t)), (''parameters'', td_input_schema t)]) (rq_tools r)))),
          (''tool_choice'', if rq_tools r = [] then None else Some (JStr ''auto''))])"

definition gp_post :: "auth_tokens \<Rightarrow> json \<Rightarrow> llm_post" where
  "gp_post t body =
     \<lparr>lp_url = ''https://chatgpt.com/backend-api/codex/responses'',
      lp_headers = [(''authorization'', ''Bearer '' @ at_access_token t), (''chatgpt-account-id'', at_account_id t),
        (''OpenAI-Beta'', ''responses=experimental''), (''originator'', ''codex_cli_rs''), (''content-type'', ''application/json''),
        (''accept'', ''text/event-stream'')],
      lp_body = body\<rparr>"

definition send_with_refresh ::
  "serde_lib \<Rightarrow> 'n llm_world llm_http \<Rightarrow> string \<Rightarrow> string \<Rightarrow> json \<Rightarrow> ('n llm_world, llm_answer, llm_failure) eff" where
  "send_with_refresh sd http now path body =
     bindE (mapE Failed (load_tokens sd path)) (\<lambda>t.
     bindE (mapE (\<lambda>e. Failed (LlmHttp e)) (http (gp_post t body))) (\<lambda>a.
       if la_code a = 401
       then bindE (refresh sd http now path) (\<lambda>fresh. mapE (\<lambda>e. Failed (LlmHttp e)) (http (gp_post fresh body)))
       else retE a))"

definition call_id :: "json \<Rightarrow> string" where
  "call_id item =
     (case j_get_str ''call_id'' item of Some c \<Rightarrow> c | None \<Rightarrow> (case j_get_str ''id'' item of Some c \<Rightarrow> c | None \<Rightarrow> ''''))"

definition str_or_empty :: "string \<Rightarrow> json \<Rightarrow> string" where
  "str_or_empty k v = (case j_get_str k v of Some s \<Rightarrow> s | None \<Rightarrow> '''')"

definition is_function_call :: "json \<Rightarrow> bool" where
  "is_function_call v \<longleftrightarrow> j_get_str ''type'' v = Some ''function_call''"

definition name_map :: "tool_definition list \<Rightarrow> (string, string) hmap" where
  "name_map ts = foldl (\<lambda>m t. hm_insert (sanitize_tool_name (td_name t)) (td_name t) m) [] ts"

definition truncated_u32 :: "string \<Rightarrow> json \<Rightarrow> nat" where
  "truncated_u32 k v = (case Option.bind (j_get k v) j_as_u64 of Some n \<Rightarrow> n mod 2 ^ 32 | None \<Rightarrow> 0)"

definition gp_completed :: "json \<Rightarrow> content_delta" where
  "gp_completed response =
     MessageStop
       (case Option.bind (j_get ''output'' response) j_as_array of
          Some xs \<Rightarrow> if list_ex is_function_call xs then StopToolUse else StopEndTurn
        | None \<Rightarrow> StopEndTurn)
       (token_usage (truncated_u32 ''input_tokens'' (j_index ''usage'' response))
          (truncated_u32 ''output_tokens'' (j_index ''usage'' response)))"

definition gp_failure_text :: "json \<Rightarrow> string" where
  "gp_failure_text v =
     (case j_get_str ''message'' (j_index ''error'' (j_index ''response'' v)) of
        Some m \<Rightarrow> m
      | None \<Rightarrow>
          (case j_get_str ''message'' (j_index ''error'' v) of
             Some m \<Rightarrow> m
           | None \<Rightarrow> (case j_get_str ''message'' v of Some m \<Rightarrow> m | None \<Rightarrow> ''responses stream failed'')))"

definition gp_value :: "(string, string) hmap \<Rightarrow> json \<Rightarrow> (content_delta, llm_error) result list" where
  "gp_value nm v =
     (let t = str_or_empty ''type'' v; item = j_index ''item'' v in
      if t = ''response.output_text.delta'' then [Ok (TextDelta (str_or_empty ''delta'' v))]
      else if t = ''response.output_item.added'' then
        (if is_function_call item
         then [Ok (ToolUseStart (call_id item)
                (let raw = str_or_empty ''name'' item in case map_of nm raw of Some n \<Rightarrow> n | None \<Rightarrow> raw))]
         else [])
      else if t = ''response.function_call_arguments.delta'' then [Ok (ToolUseInputDelta (str_or_empty ''delta'' v))]
      else if t = ''response.output_item.done'' then (if is_function_call item then [Ok (ToolUseStop (call_id item))] else [])
      else if t = ''response.completed'' then [Ok (gp_completed (j_index ''response'' v))]
      else if t = ''response.failed'' \<or> t = ''response.incomplete'' \<or> t = ''error'' then [Err (LlmStream (gp_failure_text v))]
      else [])"

definition parse_event :: "serde_lib \<Rightarrow> (string, string) hmap \<Rightarrow> string \<Rightarrow> (content_delta, llm_error) result list" where
  "parse_event sd nm data =
     (if trim data = '''' \<or> data = ''[DONE]'' then []
      else case sd_parse sd data of
             None \<Rightarrow> [Err (LlmDecode (''responses event: '' @ sd_error sd data))]
           | Some v \<Rightarrow> gp_value nm v)"

fun gp_event :: "serde_lib \<Rightarrow> (string, string) hmap \<Rightarrow> (string \<times> string, string) result \<Rightarrow> (content_delta, llm_error) result list" where
  "gp_event sd nm (Ok (_, data)) = parse_event sd nm data"
| "gp_event sd nm (Err e) = [Err (LlmStream (''sse: '' @ e))]"

definition gp_stream ::
  "serde_lib \<Rightarrow> 'n llm_world llm_http \<Rightarrow> string \<Rightarrow> string \<Rightarrow> string \<Rightarrow> string \<Rightarrow> completion_request \<Rightarrow>
   ('n llm_world, (content_delta, llm_error) result list, llm_failure) eff" where
  "gp_stream sd http now path model effort req =
     bindE (send_with_refresh sd http now path (gp_build_body sd model effort req True)) (\<lambda>a.
       if 200 \<le> la_code a \<and> la_code a < 300
       then retE (concat (map (gp_event sd (name_map (rq_tools req))) (la_events a)))
       else failE (Failed (ApiError (la_code a) (la_text a))))"

text \<open>The whole answer, gathered from the stream.\<close>

record gathered =
  ga_text :: string
  ga_tool :: "(string \<times> string \<times> string) option"
  ga_tools :: "assistant_content list"
  ga_stop :: stop_reason
  ga_usage :: usage

fun gather :: "serde_lib \<Rightarrow> content_delta \<Rightarrow> gathered \<Rightarrow> gathered" where
  "gather sd (TextDelta t) g = g\<lparr>ga_text := ga_text g @ t\<rparr>"
| "gather sd (ToolUseStart i n) g = g\<lparr>ga_tool := Some (i, n, '''')\<rparr>"
| "gather sd (ToolUseInputDelta p) g = g\<lparr>ga_tool := map_option (\<lambda>(i, n, a). (i, n, a @ p)) (ga_tool g)\<rparr>"
| "gather sd (ToolUseStop _) g =
     (case ga_tool g of
        Some (i, n, a) \<Rightarrow>
          g\<lparr>ga_tool := None,
            ga_tools := ga_tools g @ [ContentToolUse i n (case sd_parse sd a of Some v \<Rightarrow> v | None \<Rightarrow> JObj [])]\<rparr>
      | None \<Rightarrow> g)"
| "gather sd (MessageStop r u) g = g\<lparr>ga_stop := r, ga_usage := u\<rparr>"

fun gather_all :: "serde_lib \<Rightarrow> (content_delta, llm_error) result list \<Rightarrow> gathered \<Rightarrow> (gathered, llm_error) result" where
  "gather_all sd [] g = Ok g"
| "gather_all sd (Ok d # xs) g = gather_all sd xs (gather sd d g)"
| "gather_all sd (Err e # xs) g = Err e"

definition gather_start :: gathered where
  "gather_start = \<lparr>ga_text = '''', ga_tool = None, ga_tools = [], ga_stop = StopEndTurn, ga_usage = usage_default\<rparr>"

definition gp_complete ::
  "serde_lib \<Rightarrow> 'n llm_world llm_http \<Rightarrow> string \<Rightarrow> string \<Rightarrow> string \<Rightarrow> string \<Rightarrow> completion_request \<Rightarrow>
   ('n llm_world, completion_response, llm_failure) eff" where
  "gp_complete sd http now path model effort req =
     bindE (gp_stream sd http now path model effort req) (\<lambda>items.
     bindE (liftE (map_err Failed (gather_all sd items gather_start))) (\<lambda>g.
       retE \<lparr>cp_id = '''', cp_model = (if rq_model req = '''' then model else rq_model req),
             cp_content = (if ga_text g = '''' then [] else [ContentText (ga_text g)]) @ ga_tools g,
             cp_stop_reason = ga_stop g, cp_usage = ga_usage g\<rparr>))"

section \<open>Lemmas: files\<close>

lemma bindE_liftE: "bindE (liftE r) f w = (case r of Ok x \<Rightarrow> f x w | Err e \<Rightarrow> (Err e, w))"
  by (simp add: bindE_def liftE_run split: result.split)

lemma split_last_Some_iff: "split_last d s = Some (a, b) \<longleftrightarrow> s = a @ d # b \<and> d \<notin> set b"
proof -
  have "rev s = rev b @ d # rev a \<longleftrightarrow> s = a @ d # b" by (simp add: rev_swap)
  moreover have "split_last d s = Some (a, b) \<longleftrightarrow> split_once d (rev s) = Some (rev b, rev a)"
    by (cases "split_once d (rev s)") (auto simp: split_last_def rev_swap)
  ultimately show ?thesis by (simp add: split_once_Some_iff)
qed

lemma path_name_append: "path_name p = (d, n) \<Longrightarrow> p = d @ n"
  by (auto simp: path_name_def split_last_Some_iff split: option.splits)

lemma with_extension_other:
  assumes "snd (path_name p) \<notin> {'''', ''.'', ''..''}" "CHR ''.'' \<in> set ext"
  shows "with_extension ext p \<noteq> p"
proof -
  obtain d n where p: "path_name p = (d, n)" by (cases "path_name p")
  have pn: "p = d @ n" by (rule path_name_append [OF p])
  have "n = a @ CHR ''.'' # b \<Longrightarrow> CHR ''.'' \<notin> set b \<Longrightarrow> a @ CHR ''.'' # ext \<noteq> n" for a b
    using assms(2) by auto
  moreover have "n @ CHR ''.'' # ext \<noteq> n" by simp
  ultimately show ?thesis
    using assms(1) p by (auto simp: with_extension_def split_last_Some_iff dest!: path_name_append split: option.splits if_splits)
qed

lemma next_fault_files: "next_fault w = (f, w') \<Longrightarrow> lw_files w' = lw_files w \<and> lw_net w' = lw_net w"
  by (auto simp: next_fault_def split: list.splits)

lemma fs_read_files: "fs_read p w = (r, w') \<Longrightarrow> lw_files w' = lw_files w"
  by (auto simp: fs_read_def split: prod.splits option.splits dest: next_fault_files)

lemma fs_write_files: "fs_write p t w = (r, w') \<Longrightarrow> q \<noteq> p \<Longrightarrow> lw_files w' q = lw_files w q"
  by (auto simp: fs_write_def split: prod.splits option.splits dest: next_fault_files)

lemma fs_write_Ok: "fs_write p t w = (Ok x, w') \<Longrightarrow> lw_files w' p = Some t"
  by (auto simp: fs_write_def split: prod.splits option.splits)

lemma fs_rename_Err: "fs_rename p q w = (Err e, w') \<Longrightarrow> lw_files w' = lw_files w"
  by (auto simp: fs_rename_def split: prod.splits option.splits dest: next_fault_files)

lemma fs_rename_Ok: "fs_rename p q w = (Ok x, w') \<Longrightarrow> lw_files w' q = lw_files w p"
  by (auto simp: fs_rename_def split: prod.splits option.splits dest: next_fault_files)

lemma j_set_get: "j_set k v j = Some j' \<Longrightarrow> json_wf j \<Longrightarrow> j_get k' j' = (if k' = k then Some v else j_get k' j)"
  by (cases "(k, v, j)" rule: j_set.cases) (auto simp: bt_insert_get)

lemma bt_wf_single: "bt_wf [(k, v)]"
  by (simp add: bt_wf_def)

lemma j_set_wf: "j_set k v j = Some j' \<Longrightarrow> json_wf j \<Longrightarrow> json_wf v \<Longrightarrow> json_wf j'"
  using bt_wf_single by (cases "(k, v, j)" rule: j_set.cases) (auto simp: bt_insert_wf intro: bt_insert_all_intro)

lemma j_get_wf: "json_wf j \<Longrightarrow> j_get k j = Some v \<Longrightarrow> json_wf v"
  by (cases j) (auto simp: list_all_iff dest!: map_of_SomeD)

lemma j_index_wf: "json_wf j \<Longrightarrow> json_wf (j_index k j)"
  by (auto simp: j_index_def j_get_wf split: option.splits)

text \<open>What assigning a token changes.\<close>

lemma set_token_effect:
  assumes "set_token k t d = Some d'" "json_wf d"
  shows "json_wf d' \<and> (\<forall>m. m \<noteq> ''tokens'' \<longrightarrow> j_get m d' = j_get m d) \<and>
    (\<forall>m. j_get m (j_index ''tokens'' d') = (if m = k then Some (JStr t) else j_get m (j_index ''tokens'' d)))"
proof -
  obtain toks where s: "j_set k (JStr t) (j_index ''tokens'' d) = Some toks" "j_set ''tokens'' toks d = Some d'"
    using assms(1) by (auto simp: set_token_def bind_eq_Some_conv)
  have w: "json_wf (j_index ''tokens'' d)" by (rule j_index_wf [OF assms(2)])
  have "json_wf toks" using j_set_wf [OF s(1) w] by simp
  then show ?thesis
    using j_set_wf [OF s(2) assms(2)] j_set_get [OF s(1) w] j_set_get [OF s(2) assms(2)] by (simp add: j_index_def)
qed

lemma set_token_opt_effect:
  assumes "set_token_opt k t d = Some d'" "json_wf d"
  shows "json_wf d' \<and> (\<forall>m. m \<noteq> ''tokens'' \<longrightarrow> j_get m d' = j_get m d) \<and>
    (\<forall>m. j_get m (j_index ''tokens'' d') = (if m = k \<and> t \<noteq> None then map_option JStr t else j_get m (j_index ''tokens'' d)))"
  using assms set_token_effect [of k "the t" d d'] by (cases t) (auto simp: set_token_opt_def)

lemma rotate_document_effect:
  assumes "rotate_document r now root = Some doc" "json_wf root"
  shows "json_wf doc \<and> (\<forall>m. m \<notin> {''tokens'', ''last_refresh''} \<longrightarrow> j_get m doc = j_get m root) \<and>
    (\<forall>m. j_get m (j_index ''tokens'' doc) =
       (if m = ''access_token'' then Some (JStr (rf_access_token r))
        else if m = ''refresh_token'' \<and> rf_refresh_token r \<noteq> None then map_option JStr (rf_refresh_token r)
        else if m = ''id_token'' \<and> rf_id_token r \<noteq> None then map_option JStr (rf_id_token r)
        else j_get m (j_index ''tokens'' root)))"
proof -
  obtain d1 d2 d3 where d: "set_token ''access_token'' (rf_access_token r) root = Some d1"
      "set_token_opt ''refresh_token'' (rf_refresh_token r) d1 = Some d2"
      "set_token_opt ''id_token'' (rf_id_token r) d2 = Some d3" "j_set ''last_refresh'' (JStr now) d3 = Some doc"
    using assms(1) by (auto simp: rotate_document_def bind_eq_Some_conv)
  note e1 = set_token_effect [OF d(1) assms(2)]
  note e2 = set_token_opt_effect [OF d(2) conjunct1 [OF e1]]
  note e3 = set_token_opt_effect [OF d(3) conjunct1 [OF e2]]
  have "json_wf doc" using j_set_wf [OF d(4)] e3 by simp
  moreover have "j_index ''tokens'' doc = j_index ''tokens'' d3" using j_set_get [OF d(4)] e3 by (simp add: j_index_def)
  moreover have "j_get m doc = j_get m d3" if "m \<noteq> ''last_refresh''" for m using j_set_get [OF d(4)] e3 that by simp
  ultimately show ?thesis using e1 e2 e3 by auto
qed

text \<open>The decoder takes more than the assignments: they go through on objects and panic on an array.\<close>

lemma auth_tokens_shape:
  assumes "auth_tokens_of root = Some cur"
  shows "(\<exists>m n. root = JObj m \<and> map_of m ''tokens'' = Some (JObj n)) \<or> (\<exists>xs. root = JArr xs \<or> j_get ''tokens'' root = Some (JArr xs))"
proof -
  obtain af ts t where s: "of_struct [''tokens''] root = Some af" "j_get ''tokens'' af = Some ts"
    "of_struct [''access_token'', ''refresh_token'', ''account_id''] ts = Some t"
    using assms unfolding auth_tokens_of_def bind_eq_Some_conv by blast
  show ?thesis using of_struct_cases [OF s(1)] of_struct_cases [OF s(3)] s(2) by auto
qed

lemma set_token_shape:
  "set_token k t root = Some d \<Longrightarrow> \<not> (\<exists>xs. root = JArr xs \<or> j_get ''tokens'' root = Some (JArr xs))"
  by (auto simp: set_token_def bind_eq_Some_conv j_index_def)

lemma rotated_tokens:
  assumes "rotate_document r now root = Some doc" "json_wf root" "auth_tokens_of root = Some cur"
  shows "auth_tokens_of doc =
    Some (cur\<lparr>at_access_token := rf_access_token r,
              at_refresh_token := (case rf_refresh_token r of Some t \<Rightarrow> t | None \<Rightarrow> at_refresh_token cur)\<rparr>)"
proof -
  note e = rotate_document_effect [OF assms(1,2)]
  have "\<not> (\<exists>xs. root = JArr xs \<or> j_get ''tokens'' root = Some (JArr xs))"
    using assms(1) set_token_shape unfolding rotate_document_def bind_eq_Some_conv by blast
  then obtain m n where root: "root = JObj m" "map_of m ''tokens'' = Some (JObj n)" using auth_tokens_shape [OF assms(3)] by blast
  let ?ts = "JObj n"
  have a: "j_get ''access_token'' (j_index ''tokens'' doc) = Some (JStr (rf_access_token r))" using e by simp
  then obtain n' where o: "j_index ''tokens'' doc = JObj n'" by (cases "j_index ''tokens'' doc") auto
  then have t: "j_get ''tokens'' doc = Some (JObj n')" by (auto simp: j_index_def split: option.splits)
  then obtain m' where d: "doc = JObj m'" by (cases doc) auto
  have ts: "j_index ''tokens'' root = ?ts" using root by (simp add: j_index_def)
  have i: "j_get ''account_id'' (JObj n') = j_get ''account_id'' ?ts" using e unfolding ts o by simp
  have f: "j_get ''refresh_token'' (JObj n') =
      (if rf_refresh_token r = None then j_get ''refresh_token'' ?ts else map_option JStr (rf_refresh_token r))"
    using e unfolding ts o by simp
  have c: "member_or_empty ''account_id'' ?ts = Some (at_account_id cur)" "member_or_empty ''refresh_token'' ?ts = Some (at_refresh_token cur)"
    using assms(3) root by (auto simp: auth_tokens_of_def bind_eq_Some_conv)
  have "member_or_empty ''account_id'' (JObj n') = Some (at_account_id cur)" using c(1) i by (simp add: member_or_empty_def)
  moreover have "member_or_empty ''refresh_token'' (JObj n') =
      Some (case rf_refresh_token r of Some t \<Rightarrow> t | None \<Rightarrow> at_refresh_token cur)"
    using c(2) f by (cases "rf_refresh_token r") (simp_all add: member_or_empty_def)
  moreover have "j_get_str ''access_token'' (JObj n') = Some (rf_access_token r)" using a by (simp add: j_get_str_def o)
  ultimately show ?thesis using t d by (simp add: auth_tokens_of_def)
qed

lemma rotate_document_Some:
  assumes root: "root = JObj m" "map_of m ''tokens'' = Some (JObj n)"
  shows "\<exists>doc. rotate_document r now root = Some doc"
proof -
  define ok where "ok d \<longleftrightarrow> (\<exists>m n. d = JObj m \<and> j_index ''tokens'' d = JObj n)" for d
  have step: "\<exists>d'. set_token k t d = Some d' \<and> ok d'" if o: "ok d" for k t d
  proof -
    obtain m n where d: "d = JObj m" "j_index ''tokens'' d = JObj n" using o by (auto simp: ok_def)
    have "map_of (bt_insert ''tokens'' v m) ''tokens'' = Some v" for v :: json
      by (induction "''tokens''" v m rule: bt_insert.induct) auto
    then show ?thesis using d by (simp add: set_token_def ok_def j_index_def)
  qed
  then have opt: "\<exists>d'. set_token_opt k t d = Some d' \<and> ok d'" if "ok d" for k t d
    using that by (cases t) (auto simp: set_token_opt_def)
  have "ok root" using root by (simp add: ok_def j_index_def)
  then obtain d1 where 1: "set_token ''access_token'' (rf_access_token r) root = Some d1" "ok d1" using step by blast
  obtain d2 where 2: "set_token_opt ''refresh_token'' (rf_refresh_token r) d1 = Some d2" "ok d2" using opt [OF 1(2)] by blast
  obtain d3 where 3: "set_token_opt ''id_token'' (rf_id_token r) d2 = Some d3" "ok d3" using opt [OF 2(2)] by blast
  show ?thesis using 3(2) by (auto simp: rotate_document_def 1 2 3 ok_def)
qed

lemma load_tokens_Ok:
  "load_tokens sd path w = (Ok cur, w') \<Longrightarrow>
   \<exists>raw root. lw_files w path = Some raw \<and> sd_parse sd raw = Some root \<and> auth_tokens_of root = Some cur \<and> lw_files w' = lw_files w"
  by (auto simp: load_tokens_def fs_read_def bindE_Ok_iff liftE_run bind_eq_Some_conv split: prod.splits option.splits result.splits
      dest!: next_fault_files)

lemma load_tokens_files: "load_tokens sd path w = (r, w') \<Longrightarrow> lw_files w' = lw_files w"
  by (auto simp: load_tokens_def bindE_def liftE_run split: prod.splits result.splits dest: fs_read_files)

lemma persist_tokens_panics:
  assumes "persist_tokens sd path now r w = (x, w')"
    and "lw_files w path = Some raw" "sd_parse sd raw = Some root" "rotate_document r now root = None"
  shows "((\<exists>e. x = Err (Failed e)) \<or> x = Err Panicked) \<and> lw_files w' path = Some raw"
proof -
  obtain r1 w1 where 1: "fs_read path w = (r1, w1)" by (cases "fs_read path w")
  have f1: "lw_files w1 = lw_files w" by (rule fs_read_files [OF 1])
  show ?thesis
  proof (cases r1)
    case (Err e)
    then show ?thesis using assms(1,2) 1 f1 by (auto simp: persist_tokens_def bindE_def)
  next
    case (Ok raw')
    have "raw' = raw" using 1 Ok assms(2) by (auto simp: fs_read_def split: prod.splits option.splits dest!: next_fault_files)
    then show ?thesis
      using assms 1 Ok f1 by (auto simp: persist_tokens_def bindE_def [of "mapE _ (fs_read path)"] bindE_liftE ok_or_def)
  qed
qed

lemma persist_tokens_outcome:
  assumes "persist_tokens sd path now r w = (x, w')" "with_extension ''json.tmp'' path \<noteq> path"
    and "lw_files w path = Some raw" "sd_parse sd raw = Some root" "rotate_document r now root = Some doc"
  shows "(\<exists>e. x = Err (Failed e) \<and> lw_files w' path = lw_files w path) \<or> x = Ok () \<and> lw_files w' path = Some (sd_print sd doc)"
proof -
  let ?tmp = "with_extension ''json.tmp'' path"
  obtain r1 w1 where 1: "fs_read path w = (r1, w1)" by (cases "fs_read path w")
  have f1: "lw_files w1 = lw_files w" by (rule fs_read_files [OF 1])
  show ?thesis
  proof (cases r1)
    case (Err e)
    then show ?thesis using assms(1) 1 f1 by (auto simp: persist_tokens_def bindE_def)
  next
    case (Ok raw')
    have raw': "raw' = raw" using 1 Ok assms(3) by (auto simp: fs_read_def split: prod.splits option.splits dest!: next_fault_files)
    obtain r2 w2 where 2: "fs_write ?tmp (sd_print sd doc) w1 = (r2, w2)" by (cases "fs_write ?tmp (sd_print sd doc) w1")
    have f2: "lw_files w2 path = lw_files w path" using fs_write_files [OF 2] assms(2) f1 by metis
    obtain r3 w3 where 3: "fs_rename ?tmp path w2 = (r3, w3)" by (cases "fs_rename ?tmp path w2")
    have run: "(x, w') = bindE (mapE (\<lambda>e. Failed (LlmOther (''write auth.json: '' @ e))) (fs_write ?tmp (sd_print sd doc))) (\<lambda>_.
        mapE (\<lambda>e. Failed (LlmOther (''swap auth.json: '' @ e))) (fs_rename ?tmp path)) w1"
      using assms(1) 1 Ok raw' assms(4,5) by (simp add: persist_tokens_def bindE_def [of "mapE _ (fs_read path)"] bindE_liftE ok_or_def)
    show ?thesis
    proof (cases r2)
      case (Err e)
      then show ?thesis using run 2 f2 by (simp add: bindE_def)
    next
      case Ok2: (Ok u)
      then have "(x, w') = (map_err (\<lambda>e. Failed (LlmOther (''swap auth.json: '' @ e))) r3, w3)" using run 2 3 by (simp add: bindE_def)
      then show ?thesis
        using 3 f2 fs_rename_Err [of ?tmp path w2 _ w3] fs_rename_Ok [of ?tmp path w2 _ w3] fs_write_Ok [OF 2 [unfolded Ok2]]
        by (cases r3) auto
    qed
  qed
qed

lemma post_ok_files:
  assumes "\<And>p w r w'. http p w = (r, w') \<Longrightarrow> lw_files w' path = lw_files w path" "post_ok http p w = (r, w')"
  shows "lw_files w' path = lw_files w path"
proof -
  obtain r1 w1 where 1: "http p w = (r1, w1)" by (cases "http p w")
  then have "w' = w1" using assms(2) by (cases r1) (auto simp: post_ok_def bindE_def retE_run failE_run split: if_splits)
  then show ?thesis using assms(1) [OF 1] by simp
qed

definition refreshed :: "auth_tokens \<Rightarrow> refresh_resp \<Rightarrow> auth_tokens" where
  "refreshed cur r =
     cur\<lparr>at_access_token := rf_access_token r,
         at_refresh_token := (case rf_refresh_token r of Some t \<Rightarrow> t | None \<Rightarrow> at_refresh_token cur)\<rparr>"

text \<open>A refresh fails before it writes, or it has the old tokens, the answer of the exchange and the file to swap.\<close>

lemma refresh_stages:
  assumes "\<And>p w r w'. http p w = (r, w') \<Longrightarrow> lw_files w' path = lw_files w path"
    and "lw_files w path = Some raw" "sd_parse sd raw = Some root" "refresh sd http now path w = (x, w')"
  obtains e where "x = Err (Failed e)" "lw_files w' path = Some raw"
  | cur r w2 where "auth_tokens_of root = Some cur" "lw_files w2 path = Some raw"
      "bindE (persist_tokens sd path now r) (\<lambda>_. retE (refreshed cur r)) w2 = (x, w')"
proof -
  obtain r1 w1 where 1: "load_tokens sd path w = (r1, w1)" by (cases "load_tokens sd path w")
  have f1: "lw_files w1 = lw_files w" by (rule load_tokens_files [OF 1])
  show thesis
  proof (cases r1)
    case (Err e)
    then show ?thesis using assms(2,4) 1 f1 that(1) by (auto simp: refresh_def bindE_def)
  next
    case (Ok cur)
    have cur: "auth_tokens_of root = Some cur" using load_tokens_Ok [OF 1 [unfolded Ok]] assms(2,3) by auto
    obtain r2 w2 where 2: "post_ok http (refresh_post (at_refresh_token cur)) w1 = (r2, w2)"
      by (cases "post_ok http (refresh_post (at_refresh_token cur)) w1")
    have f2: "lw_files w2 path = Some raw" using post_ok_files [OF assms(1) 2] f1 assms(2) by simp
    show ?thesis
    proof (cases r2)
      case (Err e)
      then show ?thesis using assms(4) 1 2 Ok f2 that(1) by (auto simp: refresh_def bindE_def)
    next
      case Ok2: (Ok a)
      let ?dec = "bind_result (map_err (\<lambda>e. Failed (LlmDecode (''oauth refresh: '' @ e))) (la_json a)) (\<lambda>v.
              ok_or (refresh_resp_of v) (Failed (LlmDecode (''oauth refresh: '' @ sd_error sd (la_text a)))))"
      have run: "bindE (liftE ?dec) (\<lambda>r. bindE (persist_tokens sd path now r) (\<lambda>_. retE (refreshed cur r))) w2 = (x, w')"
        using assms(4) 1 2 Ok Ok2 by (simp add: refresh_def bindE_def refreshed_def)
      have "?dec = Err e \<Longrightarrow> \<exists>e'. e = Failed e'" for e by (cases "la_json a") (auto simp: ok_or_def split: option.splits)
      then show ?thesis using run f2 cur that by (cases ?dec) (auto simp: bindE_liftE)
    qed
  qed
qed

text \<open>C29: a refresh of the ChatGPT session never damages the session file. While no other program
  writes it, and whichever file operation or exchange fails, either an error is returned and the file holds what it
  held, or the file holds a whole new document, in which the members outside the tokens and the time stamp are the
  old ones and from which the next load reads exactly the tokens that were returned. The task panics, with the file as it was, only when the file holds an array where the
  document or its tokens should be an object: the decoder takes such a file, the assignment of the new token does not.\<close>

theorem session_file_swapped:
  assumes "snd (path_name path) \<notin> {'''', ''.'', ''..''}"
    and "\<And>p w r w'. http p w = (r, w') \<Longrightarrow> lw_files w' path = lw_files w path"
    and "\<And>t j. sd_parse sd t = Some j \<Longrightarrow> json_wf j"
    and "\<And>j. json_wf j \<Longrightarrow> sd_parse sd (sd_print sd j) = Some j"
    and "lw_files w path = Some raw" "sd_parse sd raw = Some root"
    and "refresh sd http now path w = (x, w')"
  shows "(\<exists>e. x = Err (Failed e) \<and> lw_files w' path = Some raw) \<or>
    (\<exists>doc tokens. x = Ok tokens \<and> lw_files w' path = Some (sd_print sd doc) \<and>
       sd_parse sd (sd_print sd doc) = Some doc \<and> auth_tokens_of doc = Some tokens \<and>
       (\<forall>m. m = ''tokens'' \<or> m = ''last_refresh'' \<or> j_get m doc = j_get m root)) \<or>
    (x = Err Panicked \<and> lw_files w' path = Some raw \<and> (\<exists>xs. root = JArr xs \<or> j_get ''tokens'' root = Some (JArr xs)))"
proof (rule refresh_stages [OF assms(2,5,6,7)])
  fix cur r w2
  assume s: "auth_tokens_of root = Some cur" "lw_files w2 path = Some raw"
    "bindE (persist_tokens sd path now r) (\<lambda>_. retE (refreshed cur r)) w2 = (x, w')"
  obtain r3 w3 where 3: "persist_tokens sd path now r w2 = (r3, w3)" by (cases "persist_tokens sd path now r w2")
  have x: "r3 = Err e \<Longrightarrow> x = Err e \<and> w' = w3" "r3 = Ok () \<Longrightarrow> x = Ok (refreshed cur r) \<and> w' = w3" for e
    using s(3) 3 by (auto simp: bindE_def retE_run)
  show ?thesis
  proof (cases "rotate_document r now root")
    case None
    have "\<exists>xs. root = JArr xs \<or> j_get ''tokens'' root = Some (JArr xs)"
      using auth_tokens_shape [OF s(1)]
    proof
      assume "\<exists>m n. root = JObj m \<and> map_of m ''tokens'' = Some (JObj n)"
      then obtain m n where "root = JObj m" "map_of m ''tokens'' = Some (JObj n)" by blast
      from rotate_document_Some [OF this, of r now] None show ?thesis by simp
    qed
    then show ?thesis using persist_tokens_panics [OF 3 s(2) assms(6) None] x by metis
  next
    case doc: (Some doc)
    have tmp: "with_extension ''json.tmp'' path \<noteq> path" by (rule with_extension_other [OF assms(1)]) simp
    note wf = assms(3) [OF assms(6)]
    have "auth_tokens_of doc = Some (refreshed cur r)" using rotated_tokens [OF doc wf s(1)] by (simp add: refreshed_def)
    moreover have "\<forall>m. m = ''tokens'' \<or> m = ''last_refresh'' \<or> j_get m doc = j_get m root" "sd_parse sd (sd_print sd doc) = Some doc"
      using rotate_document_effect [OF doc wf] assms(4) by blast+
    ultimately show ?thesis using persist_tokens_outcome [OF 3 tmp s(2) assms(6) doc] s(2) x by metis
  qed
next
  fix e assume "x = Err (Failed e)" "lw_files w' path = Some raw"
  then show ?thesis by (intro disjI1 exI conjI)
qed

text \<open>A JSON library for the witnesses: its texts are the numbers of the values.\<close>

instance jnum :: countable
  by countable_datatype

instance json :: countable
  by countable_datatype

definition numbered_json :: serde_lib where
  "numbered_json =
     \<lparr>sd_parse = (\<lambda>t. case parse_digits t of
                        Some n \<Rightarrow> if json_wf (from_nat n) then Some (from_nat n) else None | None \<Rightarrow> None),
      sd_error = (\<lambda>_. ''invalid JSON''), sd_print = (\<lambda>j. show_nat (to_nat j)), sd_widen = (\<lambda>t. t)\<rparr>"

lemma numbered_json_laws:
  "sd_parse numbered_json t = Some j \<Longrightarrow> json_wf j"
  "json_wf j \<Longrightarrow> sd_parse numbered_json (sd_print numbered_json j) = Some j"
  by (auto simp: numbered_json_def split: option.splits if_splits)

definition session_example :: json where
  "session_example =
     j_obj [(''tokens'', j_obj [(''access_token'', JStr ''old''), (''refresh_token'', JStr ''r1''), (''account_id'', JStr ''acct'')]),
            (''mode'', JStr ''chatgpt'')]"

definition answer_example :: "json \<Rightarrow> llm_answer" where
  "answer_example j = \<lparr>la_code = 200, la_text = '''', la_json = Ok j, la_events = [], la_chunks = []\<rparr>"

definition world_example :: "(string \<times> string option) option list \<Rightarrow> unit llm_world" where
  "world_example faults =
     \<lparr>lw_files = [''/h/auth.json'' \<mapsto> sd_print numbered_json session_example], lw_faults = faults, lw_net = ()\<rparr>"

lemma session_example_wf: "json_wf session_example"
  unfolding session_example_def by (intro j_obj_wf) (simp add: j_obj_wf)

definition refresh_example :: "(auth_tokens, llm_failure) result \<times> unit llm_world" where
  "refresh_example =
     refresh numbered_json (\<lambda>_ w. (Ok (answer_example (j_obj [(''access_token'', JStr ''new'')])), w)) ''now'' ''/h/auth.json''
       (world_example [None, None, Some (''disk full'', Some ''{'')])"

lemma session_example_objects: "\<not> (\<exists>xs. session_example = JArr xs \<or> j_get ''tokens'' session_example = Some (JArr xs))"
  by (simp add: session_example_def) (simp add: j_obj_def)

theorem session_file_swapped_witness:
  "(\<exists>e. fst refresh_example = Err (Failed e) \<and>
        lw_files (snd refresh_example) ''/h/auth.json'' = Some (sd_print numbered_json session_example)) \<or>
   (\<exists>doc tokens. fst refresh_example = Ok tokens \<and> lw_files (snd refresh_example) ''/h/auth.json'' = Some (sd_print numbered_json doc) \<and>
      sd_parse numbered_json (sd_print numbered_json doc) = Some doc \<and> auth_tokens_of doc = Some tokens \<and>
      (\<forall>m. m = ''tokens'' \<or> m = ''last_refresh'' \<or> j_get m doc = j_get m session_example))"
  (is "?A \<or> ?B")
proof -
  have "?A \<or> ?B \<or> (fst refresh_example = Err Panicked \<and>
      lw_files (snd refresh_example) ''/h/auth.json'' = Some (sd_print numbered_json session_example) \<and>
      (\<exists>xs. session_example = JArr xs \<or> j_get ''tokens'' session_example = Some (JArr xs)))"
  proof (rule session_file_swapped)
    show "snd (path_name ''/h/auth.json'') \<notin> {'''', ''.'', ''..''}" by code_simp
    show "refresh numbered_json (\<lambda>_ w. (Ok (answer_example (j_obj [(''access_token'', JStr ''new'')])), w)) ''now'' ''/h/auth.json''
        (world_example [None, None, Some (''disk full'', Some ''{'')]) = (fst refresh_example, snd refresh_example)"
      by (simp add: refresh_example_def)
    show "sd_parse numbered_json (sd_print numbered_json session_example) = Some session_example"
      by (rule numbered_json_laws(2) [OF session_example_wf])
  qed (auto simp: world_example_def dest: numbered_json_laws(1) intro: numbered_json_laws(2))
  then show ?thesis using session_example_objects by (elim disjE conjE) simp_all
qed

section \<open>Lemmas: tool names\<close>

lemma sanitize_alphabet: "list_all tool_name_char (sanitize_tool_name n)"
  by (auto simp: sanitize_tool_name_def list_all_iff tool_name_char_def)

lemma sanitize_id: "list_all tool_name_char n \<Longrightarrow> sanitize_tool_name n = n"
proof (induction n)
  case (Cons c n)
  then have "tool_name_char c" by simp
  then have "\<not> utf8_cont c" by (auto simp: tool_name_char_def utf8_cont_def is_ascii_alphanumeric_def is_digit_def char_code_def)
  with Cons show ?case by (simp add: sanitize_tool_name_def)
qed (simp add: sanitize_tool_name_def)

lemma foldl_names_get:
  assumes "\<forall>u \<in> set ts. sanitize_tool_name (td_name u) = sanitize_tool_name n \<longrightarrow> td_name u = n"
    and "n \<in> td_name ` set ts \<or> map_of m (sanitize_tool_name n) = Some n"
  shows "map_of (foldl (\<lambda>m t. hm_insert (sanitize_tool_name (td_name t)) (td_name t) m) m ts) (sanitize_tool_name n) = Some n"
  using assms
proof (induction ts arbitrary: m)
  case (Cons u ts)
  have "n \<in> td_name ` set ts \<or>
      map_of (hm_insert (sanitize_tool_name (td_name u)) (td_name u) m) (sanitize_tool_name n) = Some n"
    using Cons.prems by (auto simp: hm_insert_get)
  then show ?case using Cons.IH Cons.prems(1) by simp
qed simp

lemma name_map_restores:
  assumes "inj_on sanitize_tool_name (td_name ` set ts)" "t \<in> set ts"
  shows "map_of (name_map ts) (sanitize_tool_name (td_name t)) = Some (td_name t)"
  unfolding name_map_def by (rule foldl_names_get) (use assms in \<open>auto dest: inj_onD\<close>)

text \<open>The event in which the provider names a tool.\<close>

definition tool_call_item :: "string \<Rightarrow> string \<Rightarrow> json" where
  "tool_call_item i n =
     j_obj [(''type'', JStr ''response.output_item.added''),
            (''item'', j_obj [(''type'', JStr ''function_call''), (''call_id'', JStr i), (''name'', JStr n)])]"

lemma gp_value_tool_call:
  "gp_value nm (tool_call_item i n) = [Ok (ToolUseStart i (case map_of nm n of Some m \<Rightarrow> m | None \<Rightarrow> n))]"
  by (simp add: gp_value_def tool_call_item_def str_or_empty_def j_get_str_def is_function_call_def call_id_def j_index_def Let_def)

text \<open>The ChatGPT client offers every tool under a name of the provider's alphabet, and when the names of
  the offered tools stay different, a call of an offered name reaches the chat loop under the tool's own name:
  the turn dispatches the capability the model was shown.\<close>

lemma chatgpt_names_restored:
  assumes "inj_on sanitize_tool_name (td_name ` set tools)" "t \<in> set tools"
  shows "list_all tool_name_char (sanitize_tool_name (td_name t)) \<and>
    gp_value (name_map tools) (tool_call_item i (sanitize_tool_name (td_name t))) = [Ok (ToolUseStart i (td_name t))]"
  by (simp add: sanitize_alphabet gp_value_tool_call name_map_restores [OF assms])

lemma chatgpt_names_restored_example:
  "gp_value (name_map memory_tool_definitions) (tool_call_item ''c1'' ''memory_log_incident'') =
     [Ok (ToolUseStart ''c1'' ''memory.log_incident'')]"
proof -
  have n: "map td_name memory_tool_definitions = [''memory.log_decision'', ''memory.log_incident'', ''memory.log_lesson'']"
    by (simp add: memory_tool_definitions_def)
  have s: "sanitize_tool_name ''memory.log_decision'' = ''memory_log_decision''"
    "sanitize_tool_name ''memory.log_incident'' = ''memory_log_incident''" "sanitize_tool_name ''memory.log_lesson'' = ''memory_log_lesson''"
    by code_simp+
  have i: "inj_on sanitize_tool_name (td_name ` set memory_tool_definitions)"
    unfolding image_set n by (simp add: s)
  have "''memory.log_incident'' \<in> td_name ` set memory_tool_definitions" unfolding image_set n by simp
  then obtain t where t: "t \<in> set memory_tool_definitions" "td_name t = ''memory.log_incident''" by (elim imageE) simp
  show ?thesis using chatgpt_names_restored [OF i t(1), of "''c1''"] by (simp add: t(2) s)
qed

text \<open>Two tools whose names differ only in a separator share an offered name, and a call of it is always a call of
  the one that comes later.\<close>

lemma chatgpt_names_collide:
  assumes "sanitize_tool_name (td_name a) = sanitize_tool_name (td_name b)"
  shows "gp_value (name_map [a, b]) (tool_call_item i (sanitize_tool_name (td_name a))) = [Ok (ToolUseStart i (td_name b))]"
  by (simp add: gp_value_tool_call name_map_def hm_insert_get assms)

lemma chatgpt_names_collide_example:
  "sanitize_tool_name ''fw.list'' = sanitize_tool_name ''fw_list''"
  by code_simp

section \<open>Lemmas: streams\<close>

fun text_or_stop :: "content_delta \<Rightarrow> bool" where
  "text_or_stop (TextDelta _) = True"
| "text_or_stop (MessageStop _ _) = True"
| "text_or_stop _ = False"

definition no_tool_items :: "(content_delta, 'e) result list \<Rightarrow> bool" where
  "no_tool_items items \<longleftrightarrow> (\<forall>d. Ok d \<in> set items \<longrightarrow> text_or_stop d)"

lemma keep_deltas_Ok: "Ok d \<in> set (keep_deltas xs) \<longleftrightarrow> Ok (Some d) \<in> set xs"
  by (induction xs rule: keep_deltas.induct) auto

lemma oa_event_no_tool: "oa_event sd ev = Ok (Some d) \<Longrightarrow> text_or_stop d"
proof (cases ev)
  case (Ok p)
  assume e: "oa_event sd ev = Ok (Some d)"
  obtain event data where p: "p = (event, data)" by (cases p)
  have "data \<noteq> ''[DONE]''" using e Ok p by (auto split: if_splits)
  then have "decode_event sd ''chat stream chunk'' oa_chunk data = Ok (Some d)" using e Ok p by simp
  then obtain v where "oa_chunk v = Some (Some d)" by (auto simp: decode_event_def bind_eq_Some_conv)
  then obtain cs u where "oa_chunk_delta cs u = Some d" by (auto simp: oa_chunk_def bind_eq_Some_conv)
  then show ?thesis by (auto simp: oa_chunk_delta_def split: list.splits option.splits prod.splits)
qed simp

lemma oa_stream_no_tools: "oa_stream sd http key url model req w = (Ok items, w') \<Longrightarrow> no_tool_items items"
  by (auto simp: oa_stream_def no_tool_items_def bindE_Ok_iff retE_run keep_deltas_Ok dest!: oa_event_no_tool [OF sym])

lemma ol_chunk_no_tool: "ol_chunk v = Some (Some d) \<Longrightarrow> text_or_stop d"
  by (auto simp: ol_chunk_def bind_eq_Some_conv split: if_splits option.splits list.splits)

lemma ol_lines_no_tool: "ol_lines sd ls = Ok ds \<Longrightarrow> d \<in> set ds \<Longrightarrow> text_or_stop d"
proof (induction ls arbitrary: ds)
  case (Cons l ls)
  from Cons.prems(1) obtain x ds' where x: "ol_line sd l = Ok x" "ol_lines sd ls = Ok ds'" "ds = (case x of Some y \<Rightarrow> y # ds' | None \<Rightarrow> ds')"
    by (auto simp: bind_result_Ok_iff)
  from x(1) have "x = Some y \<Longrightarrow> text_or_stop y" for y by (auto simp: ol_line_def bind_eq_Some_conv ol_chunk_no_tool)
  with x(2,3) Cons show ?case by (auto split: option.splits)
qed simp

lemma ol_stream_no_tools: "ol_stream sd http base model req w = (Ok items, w') \<Longrightarrow> no_tool_items items"
proof -
  have "Ok d \<in> set (ol_bytes sd c) \<Longrightarrow> text_or_stop d" for c d
    by (cases c) (auto split: option.splits result.splits dest: ol_lines_no_tool)
  then show "ol_stream sd http base model req w = (Ok items, w') \<Longrightarrow> no_tool_items items"
    by (auto simp: ol_stream_def no_tool_items_def bindE_Ok_iff retE_run)
qed

lemma run_stream_no_calls:
  assumes "run_stream parse sid items s = (s', b)" "no_tool_items items" "ss_calls s = []" "ss_pending s = None"
  shows "ss_calls s' = []"
  using assms
proof (induction parse sid items s rule: run_stream.induct)
  case (2 parse sid d items s)
  have "text_or_stop d" "no_tool_items items" using "2.prems"(2) by (auto simp: no_tool_items_def)
  moreover have "ss_calls (stream_delta parse sid d s) = [] \<and> ss_pending (stream_delta parse sid d s) = None"
    using calculation(1) "2.prems"(3,4) by (cases d) (auto simp: emit_event_def)
  ultimately show ?case using "2.IH" "2.prems"(1) by simp
qed (auto simp: emit_event_def)

text \<open>A model stream as the chat loop sees it: the errors are texts.\<close>

definition shown_stream ::
  "('w, (content_delta, llm_error) result list, llm_error) eff \<Rightarrow> ('w, (content_delta, string) result list, string) eff" where
  "shown_stream m w = (case m w of (r, w') \<Rightarrow>
     (case r of Ok items \<Rightarrow> Ok (map (map_err show_llm_error) items) | Err e \<Rightarrow> Err (show_llm_error e), w'))"

lemma shown_no_tools:
  assumes "\<And>items w'. m w = (Ok items, w') \<Longrightarrow> no_tool_items items" "shown_stream m w = (Ok items, w')"
  shows "no_tool_items items"
proof -
  obtain items0 where i: "m w = (Ok items0, w')" "items = map (map_err show_llm_error) items0"
    using assms(2) by (auto simp: shown_stream_def split: prod.splits result.splits)
  have "Ok d = map_err show_llm_error x \<Longrightarrow> x = Ok d" for d and x :: "(content_delta, llm_error) result" by (cases x) simp_all
  then show ?thesis using assms(1) [OF i(1)] by (auto simp: i(2) no_tool_items_def)
qed

lemma chat_rounds_no_tools:
  assumes "\<And>h w items w'. cx_stream cx llm (request h) w = (Ok items, w') \<Longrightarrow> no_tool_items items"
  shows "chat_rounds (swap_calls d (cx_stream cx) cx) actor owner sid llm request n history w =
    chat_rounds cx actor owner sid llm request n history w"
proof (induction n arbitrary: history w)
  case (Suc n)
  have calls: "ss_calls s = []" if "cx_stream cx llm (request history) w = (Ok items, w')" "run_stream (cx_parse cx) sid items stream_start = (s, b)" for items w' s b
    by (rule run_stream_no_calls [OF that(2) assms [OF that(1)]]) (simp_all add: stream_start_def)
  obtain r w1 where 1: "cx_stream cx llm (request history) w = (r, w1)" by (cases "cx_stream cx llm (request history) w")
  show ?case
  proof (cases r)
    case (Ok items)
    obtain s b where 2: "run_stream (cx_parse cx) sid items stream_start = (s, b)" by (cases "run_stream (cx_parse cx) sid items stream_start")
    show ?thesis using 1 2 Ok calls [OF 1 [unfolded Ok] 2] by (cases b) (simp_all add: Suc.IH Let_def)
  qed (simp add: 1)
qed simp

text \<open>A chat turn over an OpenAI-compatible or a local model never calls a tool: the streams of the
  two clients carry text and the end of the answer only, so whatever the model asks for, the turn is the same for
  every dispatcher.\<close>

lemma openai_and_local_turns_toolless:
  assumes "\<And>req. cx_stream cx (OpenAiClient key url model) req = shown_stream (oa_stream sd http key url model req)"
    and "\<And>req. cx_stream cx (LocalClient base lmodel) req = shown_stream (ol_stream sd http base lmodel req)"
    and "llm = OpenAiClient key url model \<or> llm = LocalClient base lmodel"
  shows "chat_rounds (swap_calls d (cx_stream cx) cx) actor owner sid llm request n history w =
    chat_rounds cx actor owner sid llm request n history w"
proof (rule chat_rounds_no_tools)
  fix h w items w'
  assume a: "cx_stream cx llm (request h) w = (Ok items, w')"
  from assms(3) show "no_tool_items items"
  proof
    assume "llm = OpenAiClient key url model"
    with a have "shown_stream (oa_stream sd http key url model (request h)) w = (Ok items, w')" by (simp add: assms(1))
    then show ?thesis by (rule shown_no_tools [rotated]) (rule oa_stream_no_tools)
  next
    assume "llm = LocalClient base lmodel"
    with a have "shown_stream (ol_stream sd http base lmodel (request h)) w = (Ok items, w')" by (simp add: assms(2))
    then show ?thesis by (rule shown_no_tools [rotated]) (rule ol_stream_no_tools)
  qed
qed

text \<open>The last chunk of an OpenAI stream has no choices but the usage that the request asks for; the chat loop then
  takes the answer as ended by the model, whatever reason an earlier chunk gave.\<close>

lemma run_stream_append:
  "run_stream parse sid (xs @ ys) s =
   (case run_stream parse sid xs s of (s', True) \<Rightarrow> run_stream parse sid ys s' | (s', False) \<Rightarrow> (s', False))"
  by (induction parse sid xs s rule: run_stream.induct) auto

lemma keep_deltas_append [simp]: "keep_deltas (xs @ ys) = keep_deltas xs @ keep_deltas ys"
  by (induction xs rule: keep_deltas.induct) auto

lemma openai_stop_reason_lost:
  assumes "decode_event sd ''chat stream chunk'' oa_chunk data = Ok (oa_chunk_delta [] (Some u))" "data \<noteq> ''[DONE]''"
    and "run_stream parse sid (map (map_err show_llm_error) (keep_deltas (map (oa_event sd) (evs @ [Ok (e, data)])))) s = (s', True)"
  shows "ss_stop s' = StopEndTurn"
proof -
  have "oa_event sd (Ok (e, data)) = Ok (Some (MessageStop StopEndTurn u))" using assms(1,2) by (simp add: oa_chunk_delta_def)
  then have "run_stream parse sid (map (map_err show_llm_error) (keep_deltas (map (oa_event sd) evs)) @ [Ok (MessageStop StopEndTurn u)]) s = (s', True)"
    using assms(3) by (simp del: oa_event.simps)
  then show ?thesis by (auto simp: run_stream_append split: prod.splits bool.splits)
qed

section \<open>Lemmas: the whole answer and the stream\<close>

definition same_answer :: "stream_state \<Rightarrow> gathered \<Rightarrow> bool" where
  "same_answer s g \<longleftrightarrow> ga_text g = ss_text s \<and>
     ga_tool g = map_option (\<lambda>p. (pt_id p, pt_name p, pt_input_json p)) (ss_pending s) \<and>
     ga_tools g = map (\<lambda>c. ContentToolUse (tc_id c) (tc_name c) (tc_arguments c)) (ss_calls s) \<and> ga_usage g = ss_usage s"

lemma gather_step: "same_answer s g \<Longrightarrow> same_answer (stream_delta (sd_parse sd) sid d s) (gather sd d g)"
  by (cases d; cases "ss_pending s") (simp_all add: same_answer_def emit_event_def Let_def)

lemma gather_stop: "ss_stop (stream_delta p sid d s) = (case d of MessageStop r u \<Rightarrow> r | _ \<Rightarrow> ss_stop s)"
    "ga_stop (gather sd d g) = (case d of MessageStop r u \<Rightarrow> r | _ \<Rightarrow> ga_stop g)"
  by (cases d; simp add: emit_event_def Let_def split: option.splits)+

lemma gather_runs:
  assumes "gather_all sd items g = Ok g'" "same_answer s g"
  shows "\<exists>s'. run_stream (sd_parse sd) sid (map (map_err f) items) s = (s', True) \<and> same_answer s' g' \<and>
    (ss_stop s' = ga_stop g' \<or> (\<forall>r u. Ok (MessageStop r u) \<notin> set items) \<and> ss_stop s' = ss_stop s \<and> ga_stop g' = ga_stop g)"
  using assms
proof (induction sd items g arbitrary: s rule: gather_all.induct)
  case (2 sd d xs g)
  obtain s' where s': "run_stream (sd_parse sd) sid (map (map_err f) xs) (stream_delta (sd_parse sd) sid d s) = (s', True)" "same_answer s' g'"
    "ss_stop s' = ga_stop g' \<or> (\<forall>r u. Ok (MessageStop r u) \<notin> set xs) \<and> ss_stop s' = ss_stop (stream_delta (sd_parse sd) sid d s) \<and>
       ga_stop g' = ga_stop (gather sd d g)"
    using "2.IH" [OF _ gather_step [OF "2.prems"(2), where sid = sid]] "2.prems"(1) by auto
  then show ?case by (cases d) (auto simp: gather_stop simp del: stream_delta.simps gather.simps)
qed auto

text \<open>The batch completion of the ChatGPT client agrees with the chat loop. Whenever the completion
  gathers an answer from a stream, the loop runs through the same stream without an error and ends with the
  same text, the same tool calls with the same arguments and the same usage, and with the same stop reason once the provider has
  sent one.\<close>

lemma chatgpt_complete_agrees:
  assumes "gather_all sd items gather_start = Ok g"
  shows "\<exists>s. run_stream (sd_parse sd) sid (map (map_err show_llm_error) items) stream_start = (s, True) \<and>
    ss_text s = ga_text g \<and> map (\<lambda>c. ContentToolUse (tc_id c) (tc_name c) (tc_arguments c)) (ss_calls s) = ga_tools g \<and>
    ss_usage s = ga_usage g \<and> (ss_stop s = ga_stop g \<or> (\<forall>r u. Ok (MessageStop r u) \<notin> set items))"
  using gather_runs [OF assms, of stream_start sid show_llm_error]
  by (auto simp: same_answer_def gather_start_def stream_start_def)

lemma chatgpt_complete_agrees_example:
  "let items = [Ok (TextDelta ''hi''), Ok (ToolUseStart ''c1'' ''fw.list''), Ok (ToolUseInputDelta ''x''), Ok (ToolUseStop ''c1''),
                Ok (MessageStop StopToolUse usage_default)] :: (content_delta, llm_error) result list
   in \<exists>s. run_stream (sd_parse numbered_json) ''sid'' (map (map_err show_llm_error) items) stream_start = (s, True) \<and>
        ss_text s = ''hi'' \<and> ss_stop s = StopToolUse \<and>
        map (\<lambda>c. ContentToolUse (tc_id c) (tc_name c) (tc_arguments c)) (ss_calls s) = [ContentToolUse ''c1'' ''fw.list'' (JObj [])]"
proof -
  let ?items = "[Ok (TextDelta ''hi''), Ok (ToolUseStart ''c1'' ''fw.list''), Ok (ToolUseInputDelta ''x''), Ok (ToolUseStop ''c1''),
                Ok (MessageStop StopToolUse usage_default)] :: (content_delta, llm_error) result list"
  have p: "parse_digits ''x'' = None" by code_simp
  obtain g where g: "gather_all numbered_json ?items gather_start = Ok g" "ga_text g = ''hi''" "ga_stop g = StopToolUse"
      "ga_tools g = [ContentToolUse ''c1'' ''fw.list'' (JObj [])]"
    by (simp add: gather_start_def numbered_json_def p)
  show ?thesis using chatgpt_complete_agrees [OF g(1), of "''sid''"] g(2-4) by (auto simp: Let_def)
qed

section \<open>Lemmas: lines of a local model\<close>

text \<open>A line with its end: it decodes to \<open>d\<close>, has no line break inside and is valid UTF-8.\<close>

definition good_line :: "serde_lib \<Rightarrow> string \<Rightarrow> content_delta option \<Rightarrow> bool" where
  "good_line sd l d \<longleftrightarrow> CHR 0x0A \<notin> set l \<and> trim l \<noteq> '''' \<and> (\<forall>c \<in> set l. char_code c < 128) \<and> ol_line sd l = Ok d"

definition line_text :: "string list \<Rightarrow> string" where
  "line_text ls = concat (map (\<lambda>l. l @ [CHR 0x0A]) ls)"

lemma split_line_text: "list_all (\<lambda>l. CHR 0x0A \<notin> set l) ls \<Longrightarrow> split_on (CHR 0x0A) (line_text ls) = ls @ [[]]"
  by (induction ls) (simp_all add: line_text_def split_on_append_delim)

lemma ol_lines_all:
  "list_all2 (good_line sd) ls ds \<Longrightarrow> ol_lines sd ls = Ok (List.map_filter id ds)"
  by (induction rule: list_all2_induct) (auto simp: good_line_def List.map_filter_simps split: option.splits)

lemma ol_bytes_lines:
  assumes "list_all2 (good_line sd) ls ds"
  shows "ol_bytes sd (Ok (line_text ls)) = map Ok (List.map_filter id ds)"
proof -
  have all: "\<forall>l \<in> set ls. CHR 0x0A \<notin> set l \<and> trim l \<noteq> '''' \<and> (\<forall>c \<in> set l. char_code c < 128)"
    using assms by (induction rule: list_all2_induct) (auto simp: good_line_def)
  have u: "utf8_error 0 (line_text ls) = None"
    by (rule utf8_error_ascii) (use all in \<open>auto simp: line_text_def char_code_def\<close>)
  have "filter (\<lambda>l. trim l \<noteq> '''') (split_on (CHR 0x0A) (line_text ls)) = ls"
    using all by (simp add: split_line_text list_all_iff filter_id_conv) (simp add: trim_def)
  then show ?thesis using u ol_lines_all [OF assms] by simp
qed

text \<open>The stream of a local model does not depend on how the network groups whole lines: for every
  grouping of the lines into chunks that end with a line, the deltas are those of the lines, in order, and no
  error appears.\<close>

lemma local_stream_by_lines:
  assumes "list_all2 (list_all2 (good_line sd)) groups deltas"
    and "http (ol_post sd base (or_default_model model req) True) w = (Ok a, w')" "la_code a = 200"
    and "la_chunks a = map (\<lambda>ls. Ok (line_text ls)) groups"
  shows "ol_stream sd http base model req w = (Ok (map Ok (List.map_filter id (concat deltas))), w')"
proof -
  have "concat (map (ol_bytes sd) (map (\<lambda>ls. Ok (line_text ls)) groups)) = map Ok (List.map_filter id (concat deltas))"
    using assms(1) by (induction rule: list_all2_induct) (simp_all add: ol_bytes_lines List.map_filter_def map_concat del: ol_bytes.simps)
  then show ?thesis using assms(2-4) by (simp add: ol_stream_def post_ok_def bindE_def retE_run)
qed

lemma openai_and_local_turns_toolless_example:
  "let http = (\<lambda>p w. (Ok \<lparr>la_code = 200, la_text = '''', la_json = Err '''', la_events = [], la_chunks = []\<rparr>, w));
       cx = ex_chat_env\<lparr>cx_stream := (\<lambda>c req.
              case c of OpenAiClient key url model \<Rightarrow> shown_stream (oa_stream numbered_json http key url model req)
                      | LocalClient base model \<Rightarrow> shown_stream (ol_stream numbered_json http base model req)
                      | _ \<Rightarrow> failE '''')\<rparr>;
       d = (\<lambda>_ _ _ _ _ w. (Ok JNull, w))
   in chat_rounds (swap_calls d (cx_stream cx) cx) ''user:admin'' None ''s-1'' (OpenAiClient ''k'' ''u'' ''m'') (turn_request None '''' [] ''s-1'') 8 [] ex_turn =
      chat_rounds cx ''user:admin'' None ''s-1'' (OpenAiClient ''k'' ''u'' ''m'') (turn_request None '''' [] ''s-1'') 8 [] ex_turn"
  unfolding Let_def
  by (rule openai_and_local_turns_toolless
      [where sd = numbered_json and http = "\<lambda>p w. (Ok \<lparr>la_code = 200, la_text = '''', la_json = Err '''', la_events = [], la_chunks = []\<rparr>, w)"
         and key = "''k''" and url = "''u''" and model = "''m''" and base = "''b''" and lmodel = "''l''"]) simp_all

text \<open>A line that arrives in two chunks fails: its first part is decoded alone.\<close>

lemma local_split_line_fails:
  assumes "CHR 0x0A \<notin> set a" "\<forall>c \<in> set a. char_code c < 128" "trim a \<noteq> ''''" "sd_parse sd a = None"
  shows "\<exists>e. ol_bytes sd (Ok a) = [Err (LlmDecode e)]"
  using assms by (simp add: utf8_error_ascii split_on_fresh ol_line_def ok_or_def)

lemma show_nat_line: "CHR 0x0A \<notin> set (show_nat n) \<and> trim (show_nat n) \<noteq> '''' \<and> (\<forall>c \<in> set (show_nat n). char_code c < 128)"
proof -
  have d: "\<forall>c \<in> set (show_nat n). is_digit c" using show_nat_digits [of n] by (simp add: list_all_iff)
  then have "\<forall>c \<in> set (show_nat n). \<not> is_whitespace c" by (auto simp: is_digit_def is_whitespace_def)
  then have "trim (show_nat n) = show_nat n" unfolding trim_def by (metis dropWhile_eq_self_iff hd_in_set rev_rev_ident set_rev)
  then show ?thesis using d by (auto simp: is_digit_def char_code_def)
qed

definition line_example :: string where
  "line_example =
     sd_print numbered_json (j_obj [(''done'', JBool False), (''message'', j_obj [(''content'', JStr ''hi'')])])"

lemma line_example_good: "good_line numbered_json line_example (Some (TextDelta ''hi''))"
proof -
  let ?v = "j_obj [(''done'', JBool False), (''message'', j_obj [(''content'', JStr ''hi'')])]"
  have "json_wf ?v" by (intro j_obj_wf) (simp add: j_obj_wf)
  then have "sd_parse numbered_json line_example = Some ?v" unfolding line_example_def by (rule numbered_json_laws(2))
  moreover have "ol_chunk ?v = Some (Some (TextDelta ''hi''))"
    by (simp add: ol_chunk_def optional_of_def ol_message_of_def j_get_str_def optional_member_def count_member_def j_obj_def bt_of_def)
  ultimately show ?thesis
    using show_nat_line unfolding good_line_def ol_line_def by (simp add: line_example_def numbered_json_def)
qed

lemma local_stream_by_lines_example:
  "let http = (\<lambda>p w. (Ok \<lparr>la_code = 200, la_text = '''', la_json = Err '''', la_events = [],
                 la_chunks = [Ok (line_text [line_example]), Ok (line_text [line_example, line_example])]\<rparr>, w)) :: unit llm_http
   in ol_stream numbered_json http ''http://localhost:11434'' ''llama3.2'' (turn_request None '''' [] ''s-1'' []) () =
        (Ok [Ok (TextDelta ''hi''), Ok (TextDelta ''hi''), Ok (TextDelta ''hi'')], ())"
proof -
  let ?d = "Some (TextDelta ''hi'')"
  have g: "list_all2 (list_all2 (good_line numbered_json)) [[line_example], [line_example, line_example]] [[?d], [?d, ?d]]"
    by (simp add: line_example_good)
  show ?thesis unfolding Let_def
    by (rule trans, rule local_stream_by_lines [OF g]) (auto simp: List.map_filter_def)
qed

section \<open>Lemmas: messages there and back\<close>

lemma all_some_map: "(\<And>x. x \<in> set xs \<Longrightarrow> f x = Some (g x)) \<Longrightarrow> all_some (map f xs) = Some (map g xs)"
  by (induction xs) simp_all

definition message_content :: "chat_message \<Rightarrow> assistant_content list" where
  "message_content m =
     (if cg_content m = '''' then [] else [ContentText (cg_content m)]) @
     map (\<lambda>tc. ContentToolUse (tc_id tc) (tc_name tc) (tc_arguments tc)) (cg_tool_calls m)"

lemma an_tool_use_back: "an_content_block (an_tool_use tc) = Some (ContentToolUse (tc_id tc) (tc_name tc) (tc_arguments tc))"
  by (simp add: an_content_block_def an_tool_use_def j_get_str_def)

lemma oa_tool_call_back:
  "oa_choice_call_of (oa_tool_call sd tc) = Some \<lparr>oc_id = tc_id tc, oc_name = tc_name tc, oc_arguments = sd_print sd (tc_arguments tc)\<rparr>"
  by (simp add: oa_choice_call_of_def oa_tool_call_def j_get_str_def)

lemma oa_tool_uses_back:
  assumes "\<forall>tc \<in> set tcs. sd_parse sd (sd_print sd (tc_arguments tc)) = Some (tc_arguments tc)"
  shows "oa_tool_uses sd (map (\<lambda>tc. \<lparr>oc_id = tc_id tc, oc_name = tc_name tc, oc_arguments = sd_print sd (tc_arguments tc)\<rparr>) tcs) =
    Ok (map (\<lambda>tc. ContentToolUse (tc_id tc) (tc_name tc) (tc_arguments tc)) tcs)"
  using assms by (induction tcs) simp_all

lemma an_message_back:
  assumes "cg_role m = RoleAssistant" "cg_tool_calls m \<noteq> []"
  shows "\<exists>v c. an_map_message m = Some v \<and> j_get ''content'' v = Some c \<and> array_of an_content_block c = Some (message_content m)"
proof -
  have "an_content_block (j_obj [(''type'', JStr ''text''), (''text'', JStr t)]) = Some (ContentText t)" for t
    by (simp add: an_content_block_def j_get_str_def)
  moreover have "all_some (map an_content_block (map an_tool_use tcs)) =
      Some (map (\<lambda>tc. ContentToolUse (tc_id tc) (tc_name tc) (tc_arguments tc)) tcs)" for tcs
    by (induction tcs) (simp_all add: an_tool_use_back)
  ultimately show ?thesis using assms by (simp add: an_map_message_def message_content_def array_of_def)
qed

lemma oa_message_back:
  assumes "cg_role m = RoleAssistant" "cg_tool_calls m \<noteq> []"
  shows "oa_choice_of (j_obj [(''message'', oa_map_message sd m), (''finish_reason'', JStr ''tool_calls'')]) =
    Some \<lparr>oc_content = (if cg_content m = '''' then None else Some (cg_content m)),
          oc_tool_calls = map (\<lambda>tc. \<lparr>oc_id = tc_id tc, oc_name = tc_name tc, oc_arguments = sd_print sd (tc_arguments tc)\<rparr>) (cg_tool_calls m),
          oc_finish_reason = Some ''tool_calls''\<rparr>"
proof -
  have "all_some (map oa_choice_call_of (map (oa_tool_call sd) tcs)) =
      Some (map (\<lambda>tc. \<lparr>oc_id = tc_id tc, oc_name = tc_name tc, oc_arguments = sd_print sd (tc_arguments tc)\<rparr>) tcs)" for tcs
    by (induction tcs) (simp_all add: oa_tool_call_back)
  moreover obtain ms where "oa_map_message sd m = JObj ms" using assms by (simp add: oa_map_message_def j_obj_def)
  moreover have "optional_member ''content'' (oa_map_message sd m) = Some (if cg_content m = '''' then None else Some (cg_content m))"
    "j_get ''tool_calls'' (oa_map_message sd m) = Some (JArr (map (oa_tool_call sd) (cg_tool_calls m)))"
    using assms by (simp_all add: oa_map_message_def optional_member_def)
  ultimately show ?thesis by (simp add: oa_choice_of_def array_of_def optional_member_def [of "''finish_reason''"])
qed

text \<open>An assistant message with tool calls survives the encoding of both providers: its text and its calls,
  with their identifiers, names and arguments, are what the client would decode from the same
  content in an answer.\<close>

lemma assistant_message_roundtrip:
  assumes "cg_role m = RoleAssistant" "cg_tool_calls m \<noteq> []"
    and "\<forall>tc \<in> set (cg_tool_calls m). sd_parse sd (sd_print sd (tc_arguments tc)) = Some (tc_arguments tc)"
  shows "(\<exists>v c. an_map_message m = Some v \<and> j_get ''content'' v = Some c \<and> array_of an_content_block c = Some (message_content m)) \<and>
    (\<exists>ch. oa_choice_of (j_obj [(''message'', oa_map_message sd m), (''finish_reason'', JStr ''tool_calls'')]) = Some ch \<and>
       bind_result (oa_response sd \<lparr>ok_id = '''', ok_model = '''', ok_choices = [ch], ok_usage = None\<rparr>) (\<lambda>r. Ok (cp_content r, cp_stop_reason r)) =
         Ok (message_content m, StopToolUse))"
  using an_message_back [OF assms(1,2)] oa_message_back [OF assms(1,2), of sd] oa_tool_uses_back [OF assms(3)]
  by (simp add: oa_response_def message_content_def)

lemma assistant_message_roundtrip_example:
  "let m = \<lparr>cg_role = RoleAssistant, cg_content = ''looking'', cg_tool_use_id = None,
            cg_tool_calls = [\<lparr>tc_id = ''c1'', tc_name = ''fw.list'', tc_arguments = JObj []\<rparr>]\<rparr>
   in \<exists>v c. an_map_message m = Some v \<and> j_get ''content'' v = Some c \<and>
        array_of an_content_block c = Some [ContentText ''looking'', ContentToolUse ''c1'' ''fw.list'' (JObj [])]"
proof -
  let ?m = "\<lparr>cg_role = RoleAssistant, cg_content = ''looking'', cg_tool_use_id = None,
            cg_tool_calls = [\<lparr>tc_id = ''c1'', tc_name = ''fw.list'', tc_arguments = JObj []\<rparr>]\<rparr>"
  have "sd_parse numbered_json (sd_print numbered_json (JObj [])) = Some (JObj [])"
    by (rule numbered_json_laws(2)) (simp add: bt_wf_def)
  then show ?thesis using assistant_message_roundtrip [of ?m numbered_json] by (simp add: message_content_def Let_def)
qed

end
