(* ===== verification/Transports.thy ===== *)
theory Transports
  imports Transport Utf8
begin

text \<open>
  The three transports of \<open>daimon-transport\<close>: SSH (\<open>ssh.rs\<close>) with its host key policies, REST (\<open>rest.rs\<close>) with the
  URL and the authentication header, and read-only SNMP (\<open>snmp.rs\<close>). The client libraries are
  records of effects on a state \<open>'s\<close>; what the messages, answers and values of these libraries hold are
  datatypes here. A timer of the runtime cuts an operation off: it takes the operation and gives its
  result, or nothing, with the state at that moment.
\<close>

fun op_name :: "op \<Rightarrow> string" where
  "op_name (OpShellCommand _ _) = ''shell_command''"
| "op_name (OpHttp _ _ _ _ _) = ''http''"
| "op_name (OpSnmpGet _) = ''snmp_get''"
| "op_name (OpSnmpSet _ _) = ''snmp_set''"
| "op_name (OpSnmpWalk _) = ''snmp_walk''"

fun debug_credential_kind :: "credential_kind \<Rightarrow> string" where
  "debug_credential_kind CkSshKey = ''SshKey''"
| "debug_credential_kind CkSshPassword = ''SshPassword''"
| "debug_credential_kind CkApiToken = ''ApiToken''"
| "debug_credential_kind CkGeneric = ''Generic''"

section \<open>SSH\<close>

definition DEFAULT_KNOWN_HOSTS_PATH :: string where
  "DEFAULT_KNOWN_HOSTS_PATH = ''/var/lib/daimon/known_hosts''"

datatype host_key_policy =
    KnownHosts string string "16 word"
  | AcceptAny
  | AcceptAnyAndLearn string string "16 word"

record ssh_transport =
  sh_known_hosts_path :: "string option"
  sh_accept_any :: bool
  sh_learn_to :: "string option"

definition with_known_hosts_path :: "string \<Rightarrow> ssh_transport" where
  "with_known_hosts_path path = \<lparr>sh_known_hosts_path = Some path, sh_accept_any = False, sh_learn_to = None\<rparr>"

definition ssh_new :: ssh_transport where
  "ssh_new = with_known_hosts_path DEFAULT_KNOWN_HOSTS_PATH"

definition with_accept_any :: ssh_transport where
  "with_accept_any = \<lparr>sh_known_hosts_path = None, sh_accept_any = True, sh_learn_to = None\<rparr>"

definition with_accept_any_and_learn :: "string \<Rightarrow> ssh_transport" where
  "with_accept_any_and_learn path = \<lparr>sh_known_hosts_path = None, sh_accept_any = True, sh_learn_to = Some path\<rparr>"

definition policy_for :: "ssh_transport \<Rightarrow> string \<Rightarrow> 16 word \<Rightarrow> host_key_policy" where
  "policy_for t host port =
     (if sh_accept_any t
      then (case sh_learn_to t of Some path \<Rightarrow> AcceptAnyAndLearn path host port | None \<Rightarrow> AcceptAny)
      else KnownHosts (case sh_known_hosts_path t of Some p \<Rightarrow> p | None \<Rightarrow> DEFAULT_KNOWN_HOSTS_PATH) host port)"

datatype channel_msg =
    MsgData string
  | MsgExtendedData "32 word" string
  | MsgExitStatus "32 word"
  | MsgEof
  | MsgClose
  | MsgOther

text \<open>The library: known-hosts files, the connection (which calls back with the key of the server), key decoding,
  authentication, and a session channel whose messages end with the channel. \<open>'k\<close> are server keys,
  \<open>'h\<close> connections, \<open>'p\<close> key pairs and \<open>'c\<close> channels.\<close>

record ('s, 'k, 'h, 'p, 'c) ssh_lib =
  sl_check :: "string \<Rightarrow> 16 word \<Rightarrow> 'k \<Rightarrow> string \<Rightarrow> ('s, bool, string) eff"
  sl_learn :: "string \<Rightarrow> 16 word \<Rightarrow> 'k \<Rightarrow> string \<Rightarrow> ('s, unit, string) eff"
  sl_connect :: "string \<Rightarrow> 16 word \<Rightarrow> ('k \<Rightarrow> 's \<Rightarrow> bool \<times> 's) \<Rightarrow> ('s, 'h, string) eff"
  sl_decode_key :: "string \<Rightarrow> string option \<Rightarrow> ('p, string) result"
  sl_auth_key :: "'h \<Rightarrow> string \<Rightarrow> 'p \<Rightarrow> ('s, bool, string) eff"
  sl_auth_password :: "'h \<Rightarrow> string \<Rightarrow> string \<Rightarrow> ('s, bool, string) eff"
  sl_open :: "'h \<Rightarrow> ('s, 'c, string) eff"
  sl_exec :: "'c \<Rightarrow> string \<Rightarrow> ('s, unit, string) eff"
  sl_messages :: "'c \<Rightarrow> 's \<Rightarrow> channel_msg list \<times> 's"
  sl_disconnect :: "'h \<Rightarrow> 's \<Rightarrow> 's"

text \<open>The verdict on a server key. A failure of the check refuses, a failure to learn does not.\<close>

fun check_server_key :: "('s, 'k, 'h, 'p, 'c) ssh_lib \<Rightarrow> host_key_policy \<Rightarrow> 'k \<Rightarrow> 's \<Rightarrow> bool \<times> 's" where
  "check_server_key lib (KnownHosts path host port) key s =
     (case sl_check lib host port key path s of (Ok b, s') \<Rightarrow> (b, s') | (Err _, s') \<Rightarrow> (False, s'))"
| "check_server_key lib AcceptAny key s = (True, s)"
| "check_server_key lib (AcceptAnyAndLearn path host port) key s = (True, snd (sl_learn lib host port key path s))"

definition accepted :: "string \<Rightarrow> bool \<Rightarrow> (unit, transport_error) result" where
  "accepted what ok = (if ok then Ok () else Err (TransAuth (what @ '' auth rejected by server'')))"

definition ssh_authenticate ::
  "('s, 'k, 'h, 'p, 'c) ssh_lib \<Rightarrow> 'h \<Rightarrow> credential \<Rightarrow> ('s, unit, transport_error) eff" where
  "ssh_authenticate lib handle cred =
     (case cred of
        SshKey user pem pass \<Rightarrow>
          bindE (liftE (map_err (\<lambda>e. TransAuth (''decode key: '' @ e)) (sl_decode_key lib pem pass))) (\<lambda>kp.
          bindE (mapE (\<lambda>e. TransAuth (''publickey auth: '' @ e)) (sl_auth_key lib handle user kp)) (\<lambda>ok.
          liftE (accepted ''public-key'' ok)))
      | SshPassword user pw \<Rightarrow>
          bindE (mapE (\<lambda>e. TransAuth (''password auth: '' @ e)) (sl_auth_password lib handle user pw)) (\<lambda>ok.
          liftE (accepted ''password'' ok))
      | _ \<Rightarrow> failE (TransOpMismatch ''ssh_shell_command'' (''credential_kind='' @ debug_credential_kind (credential_kind_of cred))))"

text \<open>Draining the channel: output, error output, the exit status (0 when none comes) and whether one came.\<close>

record drained =
  dn_stdout :: string
  dn_stderr :: string
  dn_exit_status :: "32 word"
  dn_got_exit :: bool

definition drain_start :: drained where
  "drain_start = \<lparr>dn_stdout = '''', dn_stderr = '''', dn_exit_status = 0, dn_got_exit = False\<rparr>"

fun drain :: "channel_msg list \<Rightarrow> drained \<Rightarrow> drained" where
  "drain [] d = d"
| "drain (MsgData x # ms) d = drain ms (d\<lparr>dn_stdout := dn_stdout d @ x\<rparr>)"
| "drain (MsgExtendedData ext x # ms) d = drain ms (if ext = 1 then d\<lparr>dn_stderr := dn_stderr d @ x\<rparr> else d)"
| "drain (MsgExitStatus x # ms) d = drain ms (d\<lparr>dn_exit_status := x, dn_got_exit := True\<rparr>)"
| "drain (MsgEof # ms) d = drain ms d"
| "drain (MsgClose # ms) d = d"
| "drain (MsgOther # ms) d = drain ms d"

definition exec_shell ::
  "('s, 'k, 'h, 'p, 'c) ssh_lib \<Rightarrow> ssh_transport \<Rightarrow> transport_target \<Rightarrow> string \<Rightarrow> credential \<Rightarrow> ('s, op_result, transport_error) eff" where
  "exec_shell lib t tgt command cred =
     bindE (mapE (\<lambda>e. TransConnect (''ssh connect: '' @ e))
       (sl_connect lib (tt_host tgt) (tt_port tgt) (check_server_key lib (policy_for t (tt_host tgt) (tt_port tgt))))) (\<lambda>handle.
     bindE (ssh_authenticate lib handle cred) (\<lambda>_.
     bindE (mapE (\<lambda>e. TransIo (''open channel: '' @ e)) (sl_open lib handle)) (\<lambda>channel.
     bindE (mapE (\<lambda>e. TransIo (''exec: '' @ e)) (sl_exec lib channel command)) (\<lambda>_.
     (\<lambda>s. case sl_messages lib channel s of
            (ms, s') \<Rightarrow>
              (let d = drain ms drain_start
               in (Ok (ResShell (from_utf8_lossy (dn_stdout d)) (from_utf8_lossy (dn_stderr d)) (dn_exit_status d)),
                   sl_disconnect lib handle s')))))))"

type_synonym ('s, 'a, 'e) timer = "32 word \<Rightarrow> ('s, 'a, 'e) eff \<Rightarrow> 's \<Rightarrow> ('a, 'e) result option \<times> 's"

definition ssh_execute ::
  "('s, op_result, transport_error) timer \<Rightarrow> ('s, 'k, 'h, 'p, 'c) ssh_lib \<Rightarrow> ssh_transport \<Rightarrow> 's transport" where
  "ssh_execute timer lib t tgt op cred s =
     (case op of
        OpShellCommand command timeout_secs \<Rightarrow>
          (case timer timeout_secs (exec_shell lib t tgt command cred) s of
             (Some r, s') \<Rightarrow> (r, s')
           | (None, s') \<Rightarrow> (Err (TransTimeout timeout_secs), s'))
      | _ \<Rightarrow> (Err (TransOpMismatch (op_name op) ''ssh''), s))"

section \<open>REST\<close>

text \<open>What the HTTP library reports: whether a header value or name is well formed (\<open>None\<close>, or the text of the
  error), and a failed request by its kind.\<close>

datatype rest_failure = RestTimeout string | RestConnect string | RestOther string

record rest_request =
  rr_method :: http_method
  rr_url :: string
  rr_headers :: "(string \<times> string) list"
  rr_body :: "json option"

record rest_answer =
  ra_status :: "16 word"
  ra_headers :: "(string \<times> string option) list"
  ra_text :: "(string, string) result"

record 's rest_lib =
  rl_bad_value :: "string \<Rightarrow> string option"
  rl_bad_name :: "string \<Rightarrow> string option"
  rl_send :: "rest_request \<Rightarrow> ('s, rest_answer, rest_failure) eff"
  rl_parse :: "string \<Rightarrow> json option"

definition full_url :: "transport_target \<Rightarrow> string \<Rightarrow> string" where
  "full_url tgt path =
     (if starts_with ''http://'' path \<or> starts_with ''https://'' path then path
      else ''https://'' @ tt_host tgt @ '':'' @ show_nat (unat (tt_port tgt)) @ (if starts_with ''/'' path then '''' else ''/'') @ path)"

text \<open>\<open>str::replace\<close> of a non-empty pattern.\<close>

fun replace_all :: "string \<Rightarrow> string \<Rightarrow> nat \<Rightarrow> string \<Rightarrow> string" where
  "replace_all pat by_text skip [] = []"
| "replace_all pat by_text (Suc n) (c # s) = replace_all pat by_text n s"
| "replace_all pat by_text 0 (c # s) =
     (if starts_with pat (c # s) then by_text @ replace_all pat by_text (length pat - 1) s else c # replace_all pat by_text 0 s)"

definition auth_headers :: "'s rest_lib \<Rightarrow> auth_scheme \<Rightarrow> credential \<Rightarrow> ((string \<times> string) list, transport_error) result" where
  "auth_headers lib auth cred =
     (case cred of
        ApiToken token \<Rightarrow>
          (case auth of
             AuthNone \<Rightarrow> Ok []
           | AuthBearer \<Rightarrow>
               (case rl_bad_value lib (''Bearer '' @ token) of
                  Some e \<Rightarrow> Err (TransAuth (''invalid bearer token: '' @ e))
                | None \<Rightarrow> Ok [(''authorization'', ''Bearer '' @ token)])
           | AuthHeader header val \<Rightarrow>
               (let rendered = replace_all ''{token}'' token 0 val
                in case rl_bad_value lib rendered of
                     Some e \<Rightarrow> Err (TransAuth (''invalid auth header value: '' @ e))
                   | None \<Rightarrow>
                       (case rl_bad_name lib header of
                          Some e \<Rightarrow> Err (TransAuth (''invalid auth header name: '' @ e))
                        | None \<Rightarrow> Ok [(header, rendered)])))
      | _ \<Rightarrow> Err (TransOpMismatch ''http''
               (''rest requires ApiToken credential, got '' @ debug_credential_kind (credential_kind_of cred))))"

fun map_reqwest_err :: "rest_failure \<Rightarrow> transport_error" where
  "map_reqwest_err (RestTimeout e) = TransTimeout 30"
| "map_reqwest_err (RestConnect e) = TransConnect (''rest connect: '' @ e)"
| "map_reqwest_err (RestOther e) = TransIo (''rest: '' @ e)"

text \<open>Headers that are not text are left out; a repeated one keeps its last value.\<close>

definition collect_headers :: "(string \<times> string option) list \<Rightarrow> (string, string) bmap" where
  "collect_headers hs = bt_of (List.map_filter (\<lambda>(k, v). map_option (Pair k) v) hs)"

definition body_json :: "'s rest_lib \<Rightarrow> string \<Rightarrow> json" where
  "body_json lib txt = (if txt = '''' then JNull else case rl_parse lib txt of Some v \<Rightarrow> v | None \<Rightarrow> JStr txt)"

definition exec_http ::
  "'s rest_lib \<Rightarrow> transport_target \<Rightarrow> http_method \<Rightarrow> string \<Rightarrow> (string, string) bmap \<Rightarrow> json option \<Rightarrow> auth_scheme \<Rightarrow> credential \<Rightarrow>
   ('s, op_result, transport_error) eff" where
  "exec_http lib tgt meth path headers body auth cred =
     bindE (liftE (auth_headers lib auth cred)) (\<lambda>hs.
     bindE (mapE map_reqwest_err
       (rl_send lib \<lparr>rr_method = meth, rr_url = full_url tgt path, rr_headers = headers @ hs, rr_body = body\<rparr>)) (\<lambda>a.
     liftE (bind_result (map_err (\<lambda>e. TransIo (''read body: '' @ e)) (ra_text a)) (\<lambda>txt.
       Ok (ResHttp (ra_status a) (body_json lib txt) (collect_headers (ra_headers a)))))))"

definition rest_execute :: "'s rest_lib \<Rightarrow> 's transport" where
  "rest_execute lib tgt op cred =
     (case op of
        OpHttp meth path headers body auth \<Rightarrow> exec_http lib tgt meth path headers body auth cred
      | _ \<Rightarrow> failE (TransOpMismatch (op_name op) ''rest''))"

section \<open>SNMP\<close>

datatype 'o object_value =
    ValInteger "32 word"
  | ValCounter32 "32 word"
  | ValUnsigned32 "32 word"
  | ValTimeTicks "32 word"
  | ValCounter64 "64 word"
  | ValString string
  | ValObjectId 'o
  | ValIpAddress "nat \<times> nat \<times> nat \<times> nat"
  | ValOpaque string

text \<open>The library and the resolver: \<open>'a\<close> are socket addresses, \<open>'c\<close> clients, \<open>'o\<close> object identifiers.\<close>

record ('s, 'a, 'c, 'o) snmp_lib =
  sn_ip :: "string \<Rightarrow> 16 word \<Rightarrow> 'a option"
  sn_lookup :: "string \<Rightarrow> 16 word \<Rightarrow> ('s, 'a list, string) eff"
  sn_show_addr :: "'a \<Rightarrow> string"
  sn_client :: "'a \<Rightarrow> string \<Rightarrow> ('s, 'c, string) eff"
  sn_parse_oid :: "string \<Rightarrow> ('o, string) result"
  sn_show_oid :: "'o \<Rightarrow> string"
  sn_get :: "'c \<Rightarrow> 'o \<Rightarrow> ('s, 'o object_value, string) eff"
  sn_walk :: "'c \<Rightarrow> 'o \<Rightarrow> ('s, ('o \<times> 'o object_value) list, string) eff"

definition hex_lower :: "nat \<Rightarrow> char" where
  "hex_lower n = (if n < 10 then char_of (48 + n) else char_of (87 + n))"

definition hex_byte :: "char \<Rightarrow> string" where
  "hex_byte c = [hex_lower (char_code c div 16), hex_lower (char_code c mod 16)]"

fun map_value :: "('o \<Rightarrow> string) \<Rightarrow> 'o object_value \<Rightarrow> snmp_value" where
  "map_value show_oid (ValInteger i) = SnmpInt (scast i)"
| "map_value show_oid (ValCounter32 u) = SnmpInt (ucast u)"
| "map_value show_oid (ValUnsigned32 u) = SnmpInt (ucast u)"
| "map_value show_oid (ValTimeTicks u) = SnmpInt (ucast u)"
| "map_value show_oid (ValCounter64 u) = SnmpUInt u"
| "map_value show_oid (ValString bytes) = SnmpString (from_utf8_lossy bytes)"
| "map_value show_oid (ValObjectId i) = SnmpOid (show_oid i)"
| "map_value show_oid (ValIpAddress (a, b, c, d)) =
     SnmpString (show_nat a @ ''.'' @ show_nat b @ ''.'' @ show_nat c @ ''.'' @ show_nat d)"
| "map_value show_oid (ValOpaque bytes) = SnmpString (concat (map hex_byte bytes))"

definition community_from_cred :: "credential \<Rightarrow> (string, transport_error) result" where
  "community_from_cred cred =
     (case cred of
        ApiToken token \<Rightarrow> Ok token
      | Generic fs \<Rightarrow> ok_or (map_of fs ''community'') (TransAuth ''snmp Generic credential missing `community`'')
      | _ \<Rightarrow> Err (TransOpMismatch ''snmp''
               (''snmp requires ApiToken (community) or Generic{community}, got '' @ debug_credential_kind (credential_kind_of cred))))"

definition resolve_addr :: "('s, 'a, 'c, 'o) snmp_lib \<Rightarrow> string \<Rightarrow> 16 word \<Rightarrow> ('s, 'a, transport_error) eff" where
  "resolve_addr lib host port0 =
     (let port = (if port0 = 0 then 161 else port0); at = host @ '':'' @ show_nat (unat port)
      in case sn_ip lib host port of
           Some a \<Rightarrow> retE a
         | None \<Rightarrow>
             bindE (mapE (\<lambda>e. TransConnect (''resolve '' @ at @ '': '' @ e)) (sn_lookup lib host port)) (\<lambda>as.
             (case as of a # _ \<Rightarrow> retE a | [] \<Rightarrow> failE (TransConnect (''no address for '' @ at)))))"

definition parse_oid :: "('s, 'a, 'c, 'o) snmp_lib \<Rightarrow> string \<Rightarrow> ('o, transport_error) result" where
  "parse_oid lib t = map_err (\<lambda>e. TransOther (''bad OID `'' @ t @ ''`: '' @ e)) (sn_parse_oid lib t)"

definition snmp_connect ::
  "('s, 'a, 'c, 'o) snmp_lib \<Rightarrow> transport_target \<Rightarrow> credential \<Rightarrow> ('s, 'c, transport_error) eff" where
  "snmp_connect lib tgt cred =
     bindE (liftE (community_from_cred cred)) (\<lambda>community.
     bindE (resolve_addr lib (tt_host tgt) (tt_port tgt)) (\<lambda>addr.
     mapE (\<lambda>e. TransConnect (''snmp connect '' @ sn_show_addr lib addr @ '': '' @ e)) (sn_client lib addr community)))"

definition snmp_execute :: "('s, 'a, 'c, 'o) snmp_lib \<Rightarrow> 's transport" where
  "snmp_execute lib tgt op cred =
     (case op of
        OpSnmpGet oid \<Rightarrow>
          bindE (snmp_connect lib tgt cred) (\<lambda>client.
          bindE (liftE (parse_oid lib oid)) (\<lambda>i.
          bindE (mapE (\<lambda>e. TransIo (''snmp get '' @ oid @ '': '' @ e)) (sn_get lib client i)) (\<lambda>v.
          retE (ResSnmp [(oid, map_value (sn_show_oid lib) v)]))))
      | OpSnmpWalk root \<Rightarrow>
          bindE (snmp_connect lib tgt cred) (\<lambda>client.
          bindE (liftE (parse_oid lib root)) (\<lambda>i.
          bindE (mapE (\<lambda>e. TransIo (''snmp walk '' @ root @ '': '' @ e)) (sn_walk lib client i)) (\<lambda>m.
          retE (ResSnmp (bt_of (map (\<lambda>(k, v). (sn_show_oid lib k, map_value (sn_show_oid lib) v)) m))))))
      | OpSnmpSet _ _ \<Rightarrow> failE (TransOpMismatch ''snmp_set'' ''snmp is READ-ONLY in this build (SET disabled)'')
      | _ \<Rightarrow> failE (TransOpMismatch ''non-snmp'' ''snmp requires an SNMP op (get/walk)''))"

section \<open>Lemmas\<close>

lemma bindE_Err_stop: "m s = (Err e, s') \<Longrightarrow> bindE m f s = (Err e, s')"
  by (simp add: bindE_def)

subsection \<open>SSH\<close>

text \<open>A connection is made only to a server whose key the callback accepted: what the client library promises
  of the key \<open>peer h\<close> of the server at the other end of a connection.\<close>

definition connect_asks :: "('h \<Rightarrow> 'k) \<Rightarrow> ('s, 'k, 'h, 'p, 'c) ssh_lib \<Rightarrow> bool" where
  "connect_asks peer lib \<longleftrightarrow>
     (\<forall>host port check s h s'. sl_connect lib host port check s = (Ok h, s') \<longrightarrow> (\<exists>s1. fst (check (peer h) s1)))"

lemma policy_strict: "policy_for (with_known_hosts_path path) host port = KnownHosts path host port"
  by (simp add: policy_for_def with_known_hosts_path_def)

lemma strict_key_known:
  "fst (check_server_key lib (KnownHosts path host port) key s) \<longleftrightarrow> (\<exists>s'. sl_check lib host port key path s = (Ok True, s'))"
  by (auto split: prod.splits result.splits)

text \<open>A server that the known-hosts file has: its check accepts the server's key for the host and the port.\<close>

definition known_server :: "('s, 'k, 'h, 'p, 'c) ssh_lib \<Rightarrow> ('h \<Rightarrow> 'k) \<Rightarrow> string \<Rightarrow> transport_target \<Rightarrow> 'h \<Rightarrow> bool" where
  "known_server lib peer path tgt h \<longleftrightarrow> (\<exists>s1 s2. sl_check lib (tt_host tgt) (tt_port tgt) (peer h) path s1 = (Ok True, s2))"

text \<open>The library as far as it is for the target and for such servers, and anything else elsewhere: another library \<open>other\<close> for connections to another host or
  port, for every use of a connection to a server that is not known, and for every use of a channel (\<open>conn\<close> is its connection) to one.\<close>

definition confined_ssh ::
  "('h \<Rightarrow> bool) \<Rightarrow> ('c \<Rightarrow> 'h) \<Rightarrow> transport_target \<Rightarrow> ('s, 'k, 'h, 'p, 'c) ssh_lib \<Rightarrow> ('s, 'k, 'h, 'p, 'c) ssh_lib \<Rightarrow> ('s, 'k, 'h, 'p, 'c) ssh_lib" where
  "confined_ssh known conn tgt other lib =
     lib\<lparr>sl_connect := (\<lambda>host port. if host = tt_host tgt \<and> port = tt_port tgt then sl_connect lib host port else sl_connect other host port),
         sl_auth_key := (\<lambda>h. if known h then sl_auth_key lib h else sl_auth_key other h),
         sl_auth_password := (\<lambda>h. if known h then sl_auth_password lib h else sl_auth_password other h),
         sl_open := (\<lambda>h. if known h then sl_open lib h else sl_open other h),
         sl_exec := (\<lambda>c. if known (conn c) then sl_exec lib c else sl_exec other c),
         sl_messages := (\<lambda>c. if known (conn c) then sl_messages lib c else sl_messages other c),
         sl_disconnect := (\<lambda>h. if known h then sl_disconnect lib h else sl_disconnect other h)\<rparr>"

lemma check_server_key_confined: "check_server_key (confined_ssh known conn tgt other lib) policy = check_server_key lib policy"
  by (cases policy) (simp_all add: fun_eq_iff confined_ssh_def)

lemma ssh_authenticate_confined:
  "known h \<Longrightarrow> ssh_authenticate (confined_ssh known conn tgt other lib) h cred = ssh_authenticate lib h cred"
  by (simp add: ssh_authenticate_def confined_ssh_def split: credential.splits)

lemma connect_known:
  assumes "connect_asks peer lib"
    and "sl_connect lib (tt_host tgt) (tt_port tgt) (check_server_key lib (KnownHosts path (tt_host tgt) (tt_port tgt))) s = (Ok h, s')"
  shows "known_server lib peer path tgt h"
proof -
  obtain s1 where "fst (check_server_key lib (KnownHosts path (tt_host tgt) (tt_port tgt)) (peer h) s1)"
    using assms unfolding connect_asks_def by blast
  then show ?thesis unfolding strict_key_known known_server_def by blast
qed

lemma exec_shell_confined:
  assumes asks: "connect_asks peer lib" and conn: "\<And>h s c s'. sl_open lib h s = (Ok c, s') \<Longrightarrow> conn c = h"
  shows "exec_shell (confined_ssh (known_server lib peer path tgt) conn tgt other lib) (with_known_hosts_path path) tgt command cred =
    exec_shell lib (with_known_hosts_path path) tgt command cred"
proof
  fix s
  let ?known = "known_server lib peer path tgt"
  let ?lib = "confined_ssh ?known conn tgt other lib"
  let ?check = "check_server_key lib (KnownHosts path (tt_host tgt) (tt_port tgt))"
  obtain r s1 where c: "sl_connect lib (tt_host tgt) (tt_port tgt) ?check s = (r, s1)" by fastforce
  have c': "sl_connect ?lib (tt_host tgt) (tt_port tgt) ?check s = (r, s1)" using c by (simp add: confined_ssh_def)
  note run = exec_shell_def bindE_def [of "mapE _ (sl_connect _ _ _ _)"] policy_strict check_server_key_confined c c'
  show "exec_shell ?lib (with_known_hosts_path path) tgt command cred s = exec_shell lib (with_known_hosts_path path) tgt command cred s"
  proof (cases r)
    case (Err e)
    then show ?thesis by (simp add: run)
  next
    case (Ok h)
    have h: "?known h" by (rule connect_known [OF asks c [unfolded Ok]])
    obtain r2 s2 where a: "ssh_authenticate lib h cred s1 = (r2, s2)" by fastforce
    show ?thesis
    proof (cases r2)
      case (Err e)
      then show ?thesis using Ok a h by (simp add: run bindE_def ssh_authenticate_confined)
    next
      case Ok2: (Ok u)
      have o: "sl_open ?lib h = sl_open lib h" "sl_disconnect ?lib h = sl_disconnect lib h" using h by (simp_all add: confined_ssh_def)
      obtain r3 s3 where r3: "sl_open lib h s2 = (r3, s3)" by fastforce
      have "sl_exec ?lib ch = sl_exec lib ch" "sl_messages ?lib ch = sl_messages lib ch" if "r3 = Ok ch" for ch
        using h conn [OF r3 [unfolded that]] by (simp_all add: confined_ssh_def)
      then show ?thesis using Ok Ok2 a h o r3 by (cases r3) (simp_all add: run bindE_def ssh_authenticate_confined)
    qed
  qed
qed

text \<open>C30: with a strict host key policy a credential and a command leave only for a known server. Assume of the client library that it connects only to a server
  whose key the callback accepted in some state, and that a channel belongs to the connection it was opened on. Then an operation over SSH is the same when
  the library does anything else whenever it is asked for a connection to another host or port, or to authenticate, open a channel, run a command, read or
  disconnect on a connection to a server whose key the known-hosts file does not have for the host and port of the target: so it never does any of these. And when the
  connection fails (a file that cannot be read, an entry that is missing and a key that has changed all refuse the key), the operation ends with that
  failure, in the state of that attempt.\<close>

theorem ssh_strict_host_key:
  assumes "connect_asks peer lib" and "\<And>h s c s'. sl_open lib h s = (Ok c, s') \<Longrightarrow> conn c = h"
  shows "ssh_execute timer (confined_ssh (\<lambda>h. \<exists>s1 s2. sl_check lib (tt_host tgt) (tt_port tgt) (peer h) path s1 = (Ok True, s2)) conn tgt other lib)
      (with_known_hosts_path path) tgt op cred s = ssh_execute timer lib (with_known_hosts_path path) tgt op cred s \<and>
    (case sl_connect lib (tt_host tgt) (tt_port tgt) (check_server_key lib (KnownHosts path (tt_host tgt) (tt_port tgt))) s of
       (Err e, s1) \<Rightarrow> exec_shell lib (with_known_hosts_path path) tgt command cred s = (Err (TransConnect (''ssh connect: '' @ e)), s1)
     | (Ok h, s1) \<Rightarrow> \<exists>s2 s3. sl_check lib (tt_host tgt) (tt_port tgt) (peer h) path s2 = (Ok True, s3))"
proof
  note same = exec_shell_confined [where conn = conn and path = path and tgt = tgt and other = other, OF assms, unfolded known_server_def [abs_def]]
  show "ssh_execute timer (confined_ssh (\<lambda>h. \<exists>s1 s2. sl_check lib (tt_host tgt) (tt_port tgt) (peer h) path s1 = (Ok True, s2)) conn tgt other lib)
      (with_known_hosts_path path) tgt op cred s = ssh_execute timer lib (with_known_hosts_path path) tgt op cred s"
    by (simp add: ssh_execute_def same split: op.splits)
  let ?check = "check_server_key lib (KnownHosts path (tt_host tgt) (tt_port tgt))"
  obtain h s1 where c: "sl_connect lib (tt_host tgt) (tt_port tgt) ?check s = (h, s1)"
    by (cases "sl_connect lib (tt_host tgt) (tt_port tgt) ?check s")
  show "case sl_connect lib (tt_host tgt) (tt_port tgt) ?check s of
       (Err e, s1) \<Rightarrow> exec_shell lib (with_known_hosts_path path) tgt command cred s = (Err (TransConnect (''ssh connect: '' @ e)), s1)
     | (Ok h, s1) \<Rightarrow> \<exists>s2 s3. sl_check lib (tt_host tgt) (tt_port tgt) (peer h) path s2 = (Ok True, s3)"
    using c connect_known [OF assms(1)] by (cases h) (auto simp: exec_shell_def policy_strict bindE_def known_server_def)
qed

text \<open>A file that learned a key accepts it: what the known-hosts library promises of its two operations.\<close>

definition learn_then_check :: "('s, 'k, 'h, 'p, 'c) ssh_lib \<Rightarrow> bool" where
  "learn_then_check lib \<longleftrightarrow>
     (\<forall>host port key path s s'. sl_learn lib host port key path s = (Ok (), s') \<longrightarrow>
        (\<exists>s''. sl_check lib host port key path s' = (Ok True, s'')))"

text \<open>The bootstrap of the module's documentation: a first connection that learns, then the strict policy.\<close>

lemma tofu_then_strict:
  assumes "learn_then_check lib" "sl_learn lib host port key path s = (Ok (), s')"
  shows "fst (check_server_key lib (policy_for (with_accept_any_and_learn path) host port) key s) \<and>
    fst (check_server_key lib (policy_for (with_known_hosts_path path) host port) key
      (snd (check_server_key lib (policy_for (with_accept_any_and_learn path) host port) key s)))"
  using assms unfolding learn_then_check_def policy_strict
  by (auto simp: policy_for_def with_accept_any_and_learn_def strict_key_known simp del: check_server_key.simps(1))

text \<open>The output is what the messages before the close carried, in order, and the status is the last one.\<close>

fun stdout_of :: "channel_msg \<Rightarrow> string" where
  "stdout_of (MsgData x) = x"
| "stdout_of _ = ''''"

fun stderr_of :: "channel_msg \<Rightarrow> string" where
  "stderr_of (MsgExtendedData ext x) = (if ext = 1 then x else '''')"
| "stderr_of _ = ''''"

lemma drain_append:
  "dn_stdout (drain ms d) = dn_stdout d @ concat (map stdout_of (takeWhile (\<lambda>m. m \<noteq> MsgClose) ms))"
  "dn_stderr (drain ms d) = dn_stderr d @ concat (map stderr_of (takeWhile (\<lambda>m. m \<noteq> MsgClose) ms))"
  by (induction ms d rule: drain.induct) auto

lemma drain_status:
  "dn_exit_status (drain ms d) =
     fold (\<lambda>m x. case m of MsgExitStatus y \<Rightarrow> y | _ \<Rightarrow> x) (takeWhile (\<lambda>m. m \<noteq> MsgClose) ms) (dn_exit_status d)"
  by (induction ms d rule: drain.induct) auto

text \<open>A command that ends without an exit status, such as one killed by a signal, reads as a success.\<close>

lemma killed_command_succeeds:
  assumes "\<forall>m \<in> set ms. \<forall>x. m \<noteq> MsgExitStatus x"
  shows "dn_exit_status (drain ms drain_start) = 0 \<and> \<not> dn_got_exit (drain ms drain_start)"
proof -
  have "dn_exit_status (drain ms d) = dn_exit_status d \<and> dn_got_exit (drain ms d) = dn_got_exit d" for d
    using assms by (induction ms d rule: drain.induct) auto
  then show ?thesis by (simp add: drain_start_def)
qed

subsection \<open>REST\<close>

definition absolute_url :: "string \<Rightarrow> bool" where
  "absolute_url path \<longleftrightarrow> starts_with ''http://'' path \<or> starts_with ''https://'' path"

text \<open>The URLs of a target: HTTPS, its host and port, then a slash.\<close>

definition of_target :: "transport_target \<Rightarrow> string \<Rightarrow> bool" where
  "of_target tgt url \<longleftrightarrow> starts_with (''https://'' @ tt_host tgt @ '':'' @ show_nat (unat (tt_port tgt)) @ ''/'') url"

lemma full_url_of_target:
  assumes "\<not> absolute_url path"
  shows "of_target tgt (full_url tgt path)"
proof (cases "starts_with ''/'' path")
  case True
  then obtain q where "path = CHR ''/'' # q" by (cases path) auto
  then show ?thesis using assms unfolding absolute_url_def of_target_def full_url_def starts_with_iff by auto
next
  case False
  then show ?thesis using assms unfolding absolute_url_def of_target_def full_url_def starts_with_iff by auto
qed

text \<open>C31: the REST transport sends a request with the token of a target to this target only. With a path that is not a
  URL of its own, the request it makes goes over HTTPS to the host and port of the target: whatever the network does
  for requests to other URLs has no influence on the result. (Redirects that a server answers are followed
  by the client library.) Every operation that is not an HTTP request, and every credential that is not a token,
  is refused before anything is sent.\<close>

theorem rest_confined:
  assumes "\<And>r. of_target tgt (rr_url r) \<Longrightarrow> send r = rl_send lib r"
    and "\<And>meth path headers body auth. op = OpHttp meth path headers body auth \<Longrightarrow> \<not> absolute_url path"
  shows "rest_execute (lib\<lparr>rl_send := send\<rparr>) tgt op cred s = rest_execute lib tgt op cred s \<and>
    ((\<exists>meth path headers body auth token. op = OpHttp meth path headers body auth \<and> cred = ApiToken token) \<or>
     (\<exists>o' t. rest_execute lib tgt op cred s = (Err (TransOpMismatch o' t), s)))"
proof (cases op)
  case (OpHttp meth path headers body auth)
  have "send \<lparr>rr_method = meth, rr_url = full_url tgt path, rr_headers = hs, rr_body = body\<rparr> =
      rl_send lib \<lparr>rr_method = meth, rr_url = full_url tgt path, rr_headers = hs, rr_body = body\<rparr>" for hs
    by (rule assms(1)) (simp add: full_url_of_target assms(2) [OF OpHttp])
  moreover have "auth_headers (lib\<lparr>rl_send := send\<rparr>) auth cred = auth_headers lib auth cred"
    by (cases cred; cases auth) (simp_all add: auth_headers_def Let_def split: option.split)
  moreover have "body_json (lib\<lparr>rl_send := send\<rparr>) = body_json lib" by (simp add: body_json_def fun_eq_iff)
  ultimately have "rest_execute (lib\<lparr>rl_send := send\<rparr>) tgt op cred s = rest_execute lib tgt op cred s"
    by (simp add: rest_execute_def OpHttp exec_http_def)
  moreover have "(\<exists>token. cred = ApiToken token) \<or> (\<exists>t. rest_execute lib tgt op cred s = (Err (TransOpMismatch ''http'' t), s))"
    by (cases cred) (auto simp: rest_execute_def OpHttp exec_http_def auth_headers_def bindE_def liftE_run)
  ultimately show ?thesis using OpHttp by blast
qed (simp_all add: rest_execute_def failE_run)

text \<open>A path that is a URL overrides the target: the token of one host goes to another, even in the clear.\<close>

lemma rest_absolute_path_leaves_target: "absolute_url path \<Longrightarrow> full_url tgt path = path"
  by (simp add: absolute_url_def full_url_def)

text \<open>A token that is no header value is refused without a request, and the error does not depend on it.\<close>

lemma rest_bad_token_refused:
  assumes "rl_bad_value lib (''Bearer '' @ token) = Some e"
  shows "rest_execute lib tgt (OpHttp meth path headers body AuthBearer) (ApiToken token) s =
    (Err (TransAuth (''invalid bearer token: '' @ e)), s)"
  using assms by (simp add: rest_execute_def exec_http_def auth_headers_def bindE_def liftE_run)

lemma replace_all_plain: "\<not> contains_str s pat \<Longrightarrow> replace_all pat t 0 s = s"
  by (induction s) auto

subsection \<open>SNMP\<close>

lemma sint_ucast_wide: "sint (ucast (u :: 32 word) :: 64 word) = uint u"
proof -
  have "uint u < 2 ^ 32" using uint_lt2p [of u] by simp
  then have "take_bit 64 (uint u) = uint u" "signed_take_bit 63 (uint u) = uint u"
    using take_bit_int_eq_self [of "uint u" 64] signed_take_bit_int_eq_self [of 63 "uint u"] uint_ge_0 [of u] by simp_all
  then show ?thesis by (simp add: sint_uint unsigned_ucast_eq)
qed

text \<open>SNMP is read-only. A write, and every operation of another transport, is refused before an address is
  resolved or a socket opened, so nothing has changed; and a number read from a device keeps its value:
  a signed 32-bit value by its sign, every unsigned one up to the full 64 bits.\<close>

lemma snmp_read_only:
  shows "(\<forall>lib :: ('s, 'a, 'c, 'o) snmp_lib. \<forall>tgt op cred s.
      (\<exists>oid. op = OpSnmpGet oid \<or> op = OpSnmpWalk oid) \<or> (\<exists>o' t. snmp_execute lib tgt op cred s = (Err (TransOpMismatch o' t), s))) \<and>
    (\<forall>show_oid :: 'o \<Rightarrow> string. \<forall>i u c.
      (\<exists>x. map_value show_oid (ValInteger i) = SnmpInt x \<and> sint x = sint i) \<and>
      (\<exists>x. map_value show_oid (ValCounter32 u) = SnmpInt x \<and> sint x = uint u) \<and>
      (\<exists>x. map_value show_oid (ValCounter64 c) = SnmpUInt x \<and> uint x = uint c))"
proof (intro conjI allI)
  fix lib :: "('s, 'a, 'c, 'o) snmp_lib" and tgt op cred s
  show "(\<exists>oid. op = OpSnmpGet oid \<or> op = OpSnmpWalk oid) \<or> (\<exists>o' t. snmp_execute lib tgt op cred s = (Err (TransOpMismatch o' t), s))"
    by (cases op) (simp_all add: snmp_execute_def failE_run)
next
  fix show_oid :: "'o \<Rightarrow> string" and i :: "32 word" and u :: "32 word" and c :: "64 word"
  have "sint (scast i :: 64 word) = sint i" by (simp add: sint_up_scast is_up)
  then show "\<exists>x. map_value show_oid (ValInteger i) = SnmpInt x \<and> sint x = sint i" by simp
  have "sint (ucast u :: 64 word) = uint u" by (rule sint_ucast_wide)
  then show "\<exists>x. map_value show_oid (ValCounter32 u) = SnmpInt x \<and> sint x = uint u" by simp
  show "\<exists>x. map_value show_oid (ValCounter64 c) = SnmpUInt x \<and> uint x = uint c" by simp
qed

section \<open>Witnesses\<close>

text \<open>A server with one known key, and a library without network.\<close>

definition ex_ssh_lib :: "(unit, nat, unit, unit, unit) ssh_lib" where
  "ex_ssh_lib =
     \<lparr>sl_check = (\<lambda>host port key path s. (Ok (key = 7 \<and> path = ''kh''), s)), sl_learn = (\<lambda>_ _ _ _ s. (Ok (), s)),
      sl_connect = (\<lambda>host port check s. if fst (check 7 s) then (Ok (), s) else (Err ''refused'', s)),
      sl_decode_key = (\<lambda>_ _. Ok ()), sl_auth_key = (\<lambda>_ _ _ s. (Ok True, s)), sl_auth_password = (\<lambda>_ _ _ s. (Ok True, s)),
      sl_open = (\<lambda>_ s. (Ok (), s)), sl_exec = (\<lambda>_ _ s. (Ok (), s)),
      sl_messages = (\<lambda>_ s. ([MsgData ''ok'', MsgExitStatus 0, MsgEof, MsgClose], s)), sl_disconnect = (\<lambda>_ s. s)\<rparr>"

definition ex_foe :: "(unit, nat, unit, unit, unit) ssh_lib" where
  "ex_foe = ex_ssh_lib\<lparr>sl_auth_password := (\<lambda>_ _ _ s. (Err ''intercepted'', s)), sl_messages := (\<lambda>_ s. ([], s))\<rparr>"

theorem ssh_strict_host_key_witness:
  "ssh_execute (\<lambda>_ m s. case m s of (r, s') \<Rightarrow> (Some r, s'))
     (confined_ssh (\<lambda>h. \<exists>s1 s2. sl_check ex_ssh_lib ''edge'' 22 7 ''kh'' s1 = (Ok True, s2)) id \<lparr>tt_host = ''edge'', tt_port = 22\<rparr> ex_foe ex_ssh_lib)
     (with_known_hosts_path ''kh'') \<lparr>tt_host = ''edge'', tt_port = 22\<rparr> (OpShellCommand ''uptime'' 5) (SshPassword ''u'' ''p'') () =
     (Ok (ResShell ''ok'' '''' 0), ()) \<and>
   exec_shell ex_ssh_lib (with_known_hosts_path ''other'') \<lparr>tt_host = ''edge'', tt_port = 22\<rparr> ''uptime'' (SshPassword ''u'' ''p'') () =
     (Err (TransConnect ''ssh connect: refused''), ())"
proof -
  let ?t = "\<lparr>tt_host = ''edge'', tt_port = 22\<rparr>" and ?timer = "\<lambda>_ m s. case m s of (r, s') \<Rightarrow> (Some r, s')"
  have c: "connect_asks (\<lambda>_. 7) ex_ssh_lib" unfolding connect_asks_def
    by (auto simp: ex_ssh_lib_def split: if_splits)
  have bad: "sl_connect ex_ssh_lib ''edge'' 22 (check_server_key ex_ssh_lib (KnownHosts ''other'' ''edge'' 22)) () = (Err ''refused'', ())" by code_simp
  have ok: "ssh_execute ?timer ex_ssh_lib (with_known_hosts_path ''kh'') ?t (OpShellCommand ''uptime'' 5) (SshPassword ''u'' ''p'') () =
      (Ok (ResShell ''ok'' '''' 0), ())" by code_simp
  note use = ssh_strict_host_key [OF c, where conn = id and tgt = ?t and s = "()" and command = "''uptime''" and cred = "SshPassword ''u'' ''p''"
      and other = ex_foe and timer = ?timer and op = "OpShellCommand ''uptime'' 5"]
  show ?thesis using use [where path = "''kh''"] use [where path = "''other''"] ok bad by simp
qed

definition ex_rest_lib :: "nat rest_lib" where
  "ex_rest_lib =
     \<lparr>rl_bad_value = (\<lambda>_. None), rl_bad_name = (\<lambda>_. None),
      rl_send = (\<lambda>r n. (Ok \<lparr>ra_status = 200, ra_headers = [], ra_text = Ok (rr_url r)\<rparr>, Suc n)), rl_parse = (\<lambda>_. None)\<rparr>"

theorem rest_confined_witness:
  "let tgt = \<lparr>tt_host = ''api'', tt_port = 8006\<rparr>; op = OpHttp HttpGet ''/version'' [] None AuthBearer
   in rest_execute (ex_rest_lib\<lparr>rl_send := (\<lambda>r. if of_target tgt (rr_url r) then rl_send ex_rest_lib r else failE (RestOther ''elsewhere''))\<rparr>)
        tgt op (ApiToken ''t'') 0 = (Ok (ResHttp 200 (JStr ''https://api:8006/version'') []), 1)"
proof -
  let ?tgt = "\<lparr>tt_host = ''api'', tt_port = 8006\<rparr>" and ?op = "OpHttp HttpGet ''/version'' [] None AuthBearer"
  let ?send = "\<lambda>r. if of_target ?tgt (rr_url r) then rl_send ex_rest_lib r else failE (RestOther ''elsewhere'')"
  have p: "show_nat 8006 = ''8006''" by (simp add: show_nat.simps digit_char_def char_of_def bit_0)
  have "rest_execute ex_rest_lib ?tgt ?op (ApiToken ''t'') 0 = (Ok (ResHttp 200 (JStr ''https://api:8006/version'') []), 1)"
    by (simp add: rest_execute_def exec_http_def auth_headers_def ex_rest_lib_def bindE_def liftE_run full_url_def body_json_def
        collect_headers_def bt_of_def List.map_filter_def p)
  moreover have "\<not> absolute_url ''/version''" by code_simp
  ultimately show ?thesis
    using rest_confined [of ?tgt ?send ex_rest_lib ?op "ApiToken ''t''" 0] by (simp add: Let_def)
qed

end
