(* ===== verification/StableSort.thy ===== *)
theory StableSort
  imports Prelude "HOL-Library.Multiset"
begin

text \<open>
  \<open>slice::sort_by\<close>: a stable sort by a comparison function. For a comparison that is a total order on the elements the result of every
  stable sort is the same list; it is computed by insertion here (\<open>stable_sort\<close>). For one that is none, the library may panic or leave
  the elements in any order: \<open>sort_by\<close> has no result then. The contract of a comparison is
  a locale over the elements it is used on.
\<close>

datatype ordering = OLess | OEqual | OGreater

fun reverse_ord :: "ordering \<Rightarrow> ordering" where
  "reverse_ord OLess = OGreater"
| "reverse_ord OEqual = OEqual"
| "reverse_ord OGreater = OLess"

fun then_ord :: "ordering \<Rightarrow> ordering \<Rightarrow> ordering" where
  "then_ord OEqual o' = o'"
| "then_ord o1 _ = o1"

definition ord_of :: "'a::linorder \<Rightarrow> 'a \<Rightarrow> ordering" where
  "ord_of x y = (if x < y then OLess else if x = y then OEqual else OGreater)"

text \<open>Insertion before the first element that does not have to come earlier.\<close>

fun insert_by :: "('a \<Rightarrow> 'a \<Rightarrow> ordering) \<Rightarrow> 'a \<Rightarrow> 'a list \<Rightarrow> 'a list" where
  "insert_by cmp x [] = [x]"
| "insert_by cmp x (y # ys) = (if cmp x y = OGreater then y # insert_by cmp x ys else x # y # ys)"

definition stable_sort :: "('a \<Rightarrow> 'a \<Rightarrow> ordering) \<Rightarrow> 'a list \<Rightarrow> 'a list" where
  "stable_sort cmp xs = foldr (insert_by cmp) xs []"

definition orders_list :: "('a \<Rightarrow> 'a \<Rightarrow> ordering) \<Rightarrow> 'a list \<Rightarrow> bool" where
  "orders_list cmp xs \<longleftrightarrow>
     list_all (\<lambda>x. list_all (\<lambda>y. cmp y x = reverse_ord (cmp x y) \<and>
       list_all (\<lambda>z. cmp x y \<noteq> OGreater \<and> cmp y z \<noteq> OGreater \<longrightarrow> cmp x z \<noteq> OGreater) xs) xs) xs"

definition sort_by :: "('a \<Rightarrow> 'a \<Rightarrow> ordering) \<Rightarrow> 'a list \<Rightarrow> 'a list option" where
  "sort_by cmp xs = (if orders_list cmp xs then Some (stable_sort cmp xs) else None)"

lemma stable_sort_simps [simp]: "stable_sort cmp [] = []" "stable_sort cmp (x # xs) = insert_by cmp x (stable_sort cmp xs)"
  by (simp_all add: stable_sort_def)

lemma insert_by_mset [simp]: "mset (insert_by cmp x xs) = add_mset x (mset xs)"
  by (induction xs) auto

lemma insert_by_set [simp]: "set (insert_by cmp x xs) = insert x (set xs)"
  by (induction xs) auto

lemma stable_sort_mset [simp]: "mset (stable_sort cmp xs) = mset xs"
  by (induction xs) simp_all

lemma stable_sort_set [simp]: "set (stable_sort cmp xs) = set xs"
  by (induction xs) simp_all

lemma reverse_ord_iff [simp]:
  "reverse_ord o' = OEqual \<longleftrightarrow> o' = OEqual" "reverse_ord o' = OGreater \<longleftrightarrow> o' = OLess" "reverse_ord o' = OLess \<longleftrightarrow> o' = OGreater"
  by (cases o'; simp)+

lemma ord_of_iff [simp]:
  "ord_of x y = OLess \<longleftrightarrow> x < y" "ord_of x y = OEqual \<longleftrightarrow> x = y" "ord_of x y = OGreater \<longleftrightarrow> y < x"
  by (auto simp: ord_of_def)

section \<open>The contract of a comparison\<close>

text \<open>On the elements \<open>ok\<close>: swapping the arguments reverses the result, and not being greater is transitive.\<close>

locale comparison =
  fixes ok :: "'a \<Rightarrow> bool" and cmp :: "'a \<Rightarrow> 'a \<Rightarrow> ordering"
  assumes swap: "ok x \<Longrightarrow> ok y \<Longrightarrow> cmp y x = reverse_ord (cmp x y)"
    and trans: "ok x \<Longrightarrow> ok y \<Longrightarrow> ok z \<Longrightarrow> cmp x y \<noteq> OGreater \<Longrightarrow> cmp y z \<noteq> OGreater \<Longrightarrow> cmp x z \<noteq> OGreater"
begin

lemma insert_sorted:
  "ok x \<Longrightarrow> list_all ok ys \<Longrightarrow> sorted_wrt (\<lambda>a b. cmp a b \<noteq> OGreater) ys \<Longrightarrow>
   sorted_wrt (\<lambda>a b. cmp a b \<noteq> OGreater) (insert_by cmp x ys)"
proof (induction ys)
  case (Cons y ys)
  show ?case
  proof (cases "cmp x y = OGreater")
    case True
    then have "cmp y x = OLess" using swap [of x y] Cons.prems by simp
    then show ?thesis using True Cons by auto
  next
    case False
    then show ?thesis using Cons.prems trans [of x y] by (auto simp: list_all_iff)
  qed
qed simp

lemma stable_sort_sorted: "list_all ok xs \<Longrightarrow> sorted_wrt (\<lambda>a b. cmp a b \<noteq> OGreater) (stable_sort cmp xs)"
  by (induction xs) (simp_all add: insert_sorted list_all_iff)

lemma equal_pair: "ok p \<Longrightarrow> ok x \<Longrightarrow> ok y \<Longrightarrow> cmp p x = OEqual \<Longrightarrow> cmp p y = OEqual \<Longrightarrow> cmp x y \<noteq> OGreater"
  using swap [of p x] trans [of x p y] by simp

lemma insert_stable:
  "ok p \<Longrightarrow> ok x \<Longrightarrow> list_all ok ys \<Longrightarrow>
   filter (\<lambda>y. cmp p y = OEqual) (insert_by cmp x ys) = filter (\<lambda>y. cmp p y = OEqual) (x # ys)"
  by (induction ys) (use equal_pair in auto)

text \<open>Elements that compare as equal keep their order.\<close>

lemma stable_sort_stable:
  "ok p \<Longrightarrow> list_all ok xs \<Longrightarrow> filter (\<lambda>y. cmp p y = OEqual) (stable_sort cmp xs) = filter (\<lambda>y. cmp p y = OEqual) xs"
  by (induction xs) (simp_all add: insert_stable list_all_iff)

text \<open>The reversed comparison is one as well.\<close>

lemma reversed: "comparison ok (\<lambda>x y. reverse_ord (cmp x y))"
proof
  show "reverse_ord (cmp y x) = reverse_ord (reverse_ord (cmp x y))" if "ok x" "ok y" for x y
    using swap [OF that] by simp
  show "reverse_ord (cmp x z) \<noteq> OGreater" if "ok x" "ok y" "ok z" "reverse_ord (cmp x y) \<noteq> OGreater" "reverse_ord (cmp y z) \<noteq> OGreater" for x y z
    using that trans [of z y x] swap [of x y] swap [of y z] swap [of x z] by simp
qed

end

lemma orders_list_comparison: "orders_list cmp xs \<longleftrightarrow> comparison (\<lambda>x. x \<in> set xs) cmp"
  unfolding comparison_def orders_list_def list_all_iff by blast

lemma comparison_subset: "comparison ok cmp \<Longrightarrow> list_all ok xs \<Longrightarrow> orders_list cmp xs"
  unfolding comparison_def orders_list_def list_all_iff by blast

text \<open>What a sort that returns gives: the same elements, in order, equal ones as they came.\<close>

lemma sort_by_Some:
  assumes "sort_by cmp xs = Some ys"
  shows "mset ys = mset xs \<and> sorted_wrt (\<lambda>a b. cmp a b \<noteq> OGreater) ys \<and>
    (\<forall>p \<in> set xs. filter (\<lambda>y. cmp p y = OEqual) ys = filter (\<lambda>y. cmp p y = OEqual) xs)"
proof -
  have c: "comparison (\<lambda>x. x \<in> set xs) cmp" and ys: "ys = stable_sort cmp xs"
    using assms by (auto simp: sort_by_def orders_list_comparison split: if_splits)
  have all: "list_all (\<lambda>x. x \<in> set xs) xs" by (simp add: list_all_iff)
  show ?thesis
    using comparison.stable_sort_sorted [OF c all] comparison.stable_sort_stable [OF c _ all] by (simp add: ys)
qed

text \<open>Comparing by a key, and by a second one between equals.\<close>

interpretation by_key: comparison "\<lambda>_. True" "\<lambda>x y. ord_of (f x) (f y)" for f :: "'a \<Rightarrow> 'k::linorder"
  by unfold_locales (auto simp: ord_of_def split: if_splits)

lemma comparison_then:
  assumes "comparison ok c1" "comparison ok c2"
  shows "comparison ok (\<lambda>x y. then_ord (c1 x y) (c2 x y))"
proof -
  have lex: "then_ord a b \<noteq> OGreater \<longleftrightarrow> a = OLess \<or> (a = OEqual \<and> b \<noteq> OGreater)" for a b by (cases a) simp_all
  show ?thesis
  proof
    show "then_ord (c1 y x) (c2 y x) = reverse_ord (then_ord (c1 x y) (c2 x y))" if "ok x" "ok y" for x y
      using comparison.swap [OF assms(1) that] comparison.swap [OF assms(2) that] by (cases "c1 x y") simp_all
    show "then_ord (c1 x z) (c2 x z) \<noteq> OGreater"
      if k: "ok x" "ok y" "ok z" and le: "then_ord (c1 x y) (c2 x y) \<noteq> OGreater" "then_ord (c1 y z) (c2 y z) \<noteq> OGreater" for x y z
      using le comparison.trans [OF assms(1) k] comparison.trans [OF assms(1), of z x y] comparison.trans [OF assms(1), of y z x]
        comparison.trans [OF assms(2) k] k
        comparison.swap [OF assms(1), of x y] comparison.swap [OF assms(1), of y z] comparison.swap [OF assms(1), of x z]
      unfolding lex by (cases "c1 x y"; cases "c1 y z"; cases "c1 x z"; simp)
  qed
qed

end
