(* ===== verification/AdminConsole.thy ===== *)
theory AdminConsole
  imports Chat Orchestrator Utf8 StableSort
begin

text \<open>
  The server functions of the admin console: targets (\<open>admin_targets.rs\<close>), credentials
  (\<open>admin_credentials.rs\<close>), the audit log (\<open>admin_audit.rs\<close>), plans (\<open>admin_plans.rs\<close>) and memory
  (\<open>admin_memory.rs\<close>). Each asks for an admin session and then forwards to the broker, the orchestrator or
  the memory service. The wire types are the broker's own where the source only mirrors
  them (kinds, transports, actions, results). The clock readings, ids, nonces and latencies a call
  draws are arguments.
\<close>

section \<open>State and environment\<close>

record ('i, 't, 'a, 'b, 'd, 'g, 'm, 'r) admin_console =
  ac_console :: "('i, pg_vault, 't, 'a, 'b) console"
  ac_orch :: "('d, 'g, 'm) orch_world"
  ac_memory :: 'r

record ingest_doc =
  id_source_id :: string
  id_source_kind :: string
  id_content :: string

record ingest_stats =
  is_source_id :: string
  is_chunks :: nat
  is_collection :: string

record 'f retrieved_chunk =
  rc_uri :: string
  rc_source_id :: string
  rc_source_kind :: string
  rc_content :: string
  rc_score :: 'f

text \<open>Beside the console's environment and the orchestrator's: the registry behind the harness, the memory service, how the libraries print times and
  JSON, read epoch seconds (none when out of range) and ids and hash a query (trimmed and in lower case), and the order of versions. Scores are of a type \<open>'f\<close> the code only
  passes on.\<close>

record ('i, 't, 'a, 'd, 'g, 'm, 'r, 'f) admin_env =
  an_console :: "('i, pg_vault, 't, 'a) console_env"
  an_orch :: "('d, 'g, 'm) orch_env"
  an_registry :: registry
  an_ingest :: "ingest_doc \<Rightarrow> ('r, ingest_stats, string) eff"
  an_retrieve :: "string \<Rightarrow> 32 word \<Rightarrow> ('r, 'f retrieved_chunk list, string) eff"
  an_rfc3339 :: "millis \<Rightarrow> string"
  an_from_timestamp :: "64 word \<Rightarrow> millis option"
  an_json_text :: "json \<Rightarrow> string"
  an_uuid_parse :: "string \<Rightarrow> (uuid, string) result"
  an_hash_query :: "string \<Rightarrow> string"
  an_version_cmp :: "version \<Rightarrow> version \<Rightarrow> ordering"

definition on_ac_console ::
  "(('i, pg_vault, 't, 'a, 'b) console, 'x, string) eff \<Rightarrow> (('i, 't, 'a, 'b, 'd, 'g, 'm, 'r) admin_console, 'x, string) eff" where
  "on_ac_console f w = (case f (ac_console w) of (r, c) \<Rightarrow> (r, w\<lparr>ac_console := c\<rparr>))"

definition on_ac_orch ::
  "string \<Rightarrow> (('d, 'g, 'm) orch_world, 'x, orch_error) eff \<Rightarrow> (('i, 't, 'a, 'b, 'd, 'g, 'm, 'r) admin_console, 'x, string) eff" where
  "on_ac_orch name f w =
     (case f (ac_orch w) of (r, o') \<Rightarrow> (map_err (\<lambda>e. name @ '': '' @ show_orch_error e) r, w\<lparr>ac_orch := o'\<rparr>))"

text \<open>A call of the broker; its error gets the name of the call in front.\<close>

definition on_ac_broker ::
  "string \<Rightarrow> (('i, pg_vault, 't, 'a, 'b) broker_world, 'x, broker_error) eff \<Rightarrow>
   (('i, 't, 'a, 'b, 'd, 'g, 'm, 'r) admin_console, 'x, string) eff" where
  "on_ac_broker name f = on_ac_console (mapE (\<lambda>e. name @ '': '' @ e) (on_broker f))"

abbreviation an_app :: "('i, 't, 'a, 'd, 'g, 'm, 'r, 'f) admin_env \<Rightarrow> ('i, pg_vault, 't, 'a) app_env" where
  "an_app env \<equiv> ce_app (an_console env)"

abbreviation an_broker :: "('i, 't, 'a, 'd, 'g, 'm, 'r, 'f) admin_env \<Rightarrow> ('i, pg_vault, 't, 'a) broker" where
  "an_broker env \<equiv> app_broker (an_app env)"

definition admin_gate ::
  "('i, 't, 'a, 'd, 'g, 'm, 'r, 'f) admin_env \<Rightarrow> millis \<Rightarrow> string option \<Rightarrow>
   (('i, 't, 'a, 'b, 'd, 'g, 'm, 'r) admin_console, claims, string) eff" where
  "admin_gate env now cookie = on_ac_console (on_app (require_admin (an_app env) now cookie))"

section \<open>Targets\<close>

fun kind_label :: "target_kind \<Rightarrow> string" where
  "kind_label TkPlatform = ''Platform''"
| "kind_label TkNetwork = ''Network''"
| "kind_label TkHost = ''Host''"
| "kind_label TkApp = ''App''"

fun console_home :: "target_kind \<Rightarrow> string" where
  "console_home TkPlatform = ''Kubernetes''"
| "console_home TkNetwork = ''Network''"
| "console_home TkHost = ''Infrastructure''"
| "console_home TkApp = ''Infrastructure''"

fun console_hint :: "target_kind \<Rightarrow> string" where
  "console_hint TkPlatform = ''Kubernetes / orchestrator endpoints (kubectl via kubeconfig, cluster API).''"
| "console_hint TkNetwork = ''Network + firewall devices (RouterOS, switches '' @ em_dash @ '' SSH/SNMP/REST).''"
| "console_hint TkHost = ''Baremetal / VM / mini-PC hosts (SSH).''"
| "console_hint TkApp = ''Application-level endpoints running on hosts (REST/gRPC).''"

definition all_kinds :: "target_kind list" where
  "all_kinds = [TkPlatform, TkNetwork, TkHost, TkApp]"

fun transport_label :: "transport_kind \<Rightarrow> string" where
  "transport_label TrSsh = ''SSH''"
| "transport_label TrRest = ''REST''"
| "transport_label TrSnmp = ''SNMP''"
| "transport_label TrGrpc = ''gRPC''"

definition all_transports :: "transport_kind list" where
  "all_transports = [TrSsh, TrRest, TrSnmp, TrGrpc]"

fun default_port :: "transport_kind \<Rightarrow> 16 word" where
  "default_port TrSsh = 22"
| "default_port TrRest = 443"
| "default_port TrSnmp = 161"
| "default_port TrGrpc = 50051"

record target_list_row =
  tlr_ref_name :: string
  tlr_kind :: target_kind
  tlr_transport :: transport_kind
  tlr_host :: string
  tlr_port :: "16 word"
  tlr_label_count :: nat
  tlr_capability_count :: nat

record target_dto =
  td_ref_name :: string
  td_kind :: target_kind
  td_transport :: transport_kind
  td_host :: string
  td_port :: "16 word"
  td_credential_ref :: string
  td_labels :: "(string, string) bmap"
  td_capabilities :: "string list"

definition target_row_of :: "target_metadata \<Rightarrow> target_list_row" where
  "target_row_of m =
     \<lparr>tlr_ref_name = target_name (tm_ref m), tlr_kind = tm_kind m, tlr_transport = tm_transport m, tlr_host = tm_host m,
      tlr_port = tm_port m, tlr_label_count = length (tm_labels m), tlr_capability_count = length (tm_capabilities m)\<rparr>"

definition target_dto_of :: "managed_target \<Rightarrow> target_dto" where
  "target_dto_of t =
     \<lparr>td_ref_name = target_name (mt_ref t), td_kind = mt_kind t, td_transport = mt_transport t, td_host = mt_host t,
      td_port = mt_port t, td_credential_ref = mt_credential_ref t, td_labels = mt_labels t, td_capabilities = mt_capabilities t\<rparr>"

definition parse_ref :: "string \<Rightarrow> (target_ref, string) result" where
  "parse_ref name = map_err (\<lambda>e. ''invalid ref: '' @ show_ref_parse_error e) (target_ref_parse (''target://'' @ name))"

definition dto_to_managed :: "target_dto \<Rightarrow> (managed_target, string) result" where
  "dto_to_managed d =
     bind_result (parse_ref (td_ref_name d)) (\<lambda>r.
       Ok \<lparr>mt_ref = r, mt_kind = td_kind d, mt_transport = td_transport d, mt_host = td_host d, mt_port = td_port d,
           mt_credential_ref = td_credential_ref d, mt_labels = td_labels d, mt_capabilities = td_capabilities d\<rparr>)"

definition list_targets ::
  "('i, 't, 'a, 'd, 'g, 'm, 'r, 'f) admin_env \<Rightarrow> millis \<Rightarrow> string option \<Rightarrow>
   (('i, 't, 'a, 'b, 'd, 'g, 'm, 'r) admin_console, target_list_row list, string) eff" where
  "list_targets env now cookie =
     bindE (admin_gate env now cookie) (\<lambda>cl.
     bindE (on_ac_broker ''inventory_list'' (\<lambda>b. case inventory_list (an_broker env) (cm_sub cl) None b of (ms, b') \<Rightarrow> (Ok ms, b'))) (\<lambda>ms.
     retE (map target_row_of ms)))"

definition get_target ::
  "('i, 't, 'a, 'd, 'g, 'm, 'r, 'f) admin_env \<Rightarrow> 64 word \<Rightarrow> millis \<Rightarrow> string option \<Rightarrow> string \<Rightarrow>
   (('i, 't, 'a, 'b, 'd, 'g, 'm, 'r) admin_console, target_dto, string) eff" where
  "get_target env l now cookie ref_name =
     bindE (admin_gate env now cookie) (\<lambda>cl.
     bindE (liftE (parse_ref ref_name)) (\<lambda>r.
     bindE (on_ac_broker ''inventory_get_managed'' (inventory_get_managed (an_broker env) (cm_sub cl) r l)) (\<lambda>t.
     retE (target_dto_of t))))"

definition upsert_target ::
  "('i, 't, 'a, 'd, 'g, 'm, 'r, 'f) admin_env \<Rightarrow> 64 word \<Rightarrow> millis \<Rightarrow> string option \<Rightarrow> target_dto \<Rightarrow>
   (('i, 't, 'a, 'b, 'd, 'g, 'm, 'r) admin_console, unit, string) eff" where
  "upsert_target env l now cookie dto =
     bindE (admin_gate env now cookie) (\<lambda>cl.
     bindE (liftE (dto_to_managed dto)) (\<lambda>t.
     on_ac_broker ''inventory_upsert'' (inventory_upsert (an_broker env) (cm_sub cl) t l)))"

definition delete_target ::
  "('i, 't, 'a, 'd, 'g, 'm, 'r, 'f) admin_env \<Rightarrow> 64 word \<Rightarrow> millis \<Rightarrow> string option \<Rightarrow> string \<Rightarrow>
   (('i, 't, 'a, 'b, 'd, 'g, 'm, 'r) admin_console, unit, string) eff" where
  "delete_target env l now cookie ref_name =
     bindE (admin_gate env now cookie) (\<lambda>cl.
     bindE (liftE (parse_ref ref_name)) (\<lambda>r.
     on_ac_broker ''inventory_remove'' (inventory_remove (an_broker env) (cm_sub cl) r l)))"

section \<open>Credentials\<close>

datatype credential_dto =
    DtoSshKey string string "string option"
  | DtoSshPassword string string
  | DtoApiToken string
  | DtoGeneric "(string, string) bmap"

fun dto_kind :: "credential_dto \<Rightarrow> credential_kind" where
  "dto_kind (DtoSshKey _ _ _) = CkSshKey"
| "dto_kind (DtoSshPassword _ _) = CkSshPassword"
| "dto_kind (DtoApiToken _) = CkApiToken"
| "dto_kind (DtoGeneric _) = CkGeneric"

fun credential_kind_label :: "credential_kind \<Rightarrow> string" where
  "credential_kind_label CkSshKey = ''SSH Key''"
| "credential_kind_label CkSshPassword = ''SSH Password''"
| "credential_kind_label CkApiToken = ''API Token''"
| "credential_kind_label CkGeneric = ''Generic''"

fun dto_of_credential :: "credential \<Rightarrow> credential_dto" where
  "dto_of_credential (SshKey username pem pass) = DtoSshKey username pem pass"
| "dto_of_credential (SshPassword username password) = DtoSshPassword username password"
| "dto_of_credential (ApiToken token) = DtoApiToken token"
| "dto_of_credential (Generic fs) = DtoGeneric fs"

fun credential_of_dto :: "credential_dto \<Rightarrow> credential" where
  "credential_of_dto (DtoSshKey username pem pass) = SshKey username pem pass"
| "credential_of_dto (DtoSshPassword username password) = SshPassword username password"
| "credential_of_dto (DtoApiToken token) = ApiToken token"
| "credential_of_dto (DtoGeneric fs) = Generic fs"

record credential_list_row =
  clr_id :: uuid
  clr_name :: string
  clr_kind :: credential_kind
  clr_created_at :: string
  clr_updated_at :: string

definition credential_row_of :: "(millis \<Rightarrow> string) \<Rightarrow> credential_metadata \<Rightarrow> credential_list_row" where
  "credential_row_of rfc3339 m =
     \<lparr>clr_id = credential_metadata.cm_id m, clr_name = credential_metadata.cm_name m, clr_kind = credential_metadata.cm_kind m,
      clr_created_at = rfc3339 (cm_created_at m), clr_updated_at = rfc3339 (cm_updated_at m)\<rparr>"

definition list_credentials ::
  "('i, 't, 'a, 'd, 'g, 'm, 'r, 'f) admin_env \<Rightarrow> 64 word \<Rightarrow> millis \<Rightarrow> string option \<Rightarrow>
   (('i, 't, 'a, 'b, 'd, 'g, 'm, 'r) admin_console, credential_list_row list, string) eff" where
  "list_credentials env l now cookie =
     bindE (admin_gate env now cookie) (\<lambda>cl.
     bindE (on_ac_broker ''vault_list_metadata'' (admin_vault_list_metadata (an_broker env) (cm_sub cl) l)) (\<lambda>ms.
     retE (map (credential_row_of (an_rfc3339 env)) ms)))"

definition create_credential ::
  "('i, 't, 'a, 'd, 'g, 'm, 'r, 'f) admin_env \<Rightarrow> vault_draw \<Rightarrow> millis \<Rightarrow> string option \<Rightarrow> string \<Rightarrow> credential_dto \<Rightarrow>
   (('i, 't, 'a, 'b, 'd, 'g, 'm, 'r) admin_console, uuid, string) eff" where
  "create_credential env d now cookie name cred =
     bindE (admin_gate env now cookie) (\<lambda>cl.
     on_ac_broker ''vault_create''
       (admin_vault_create (an_broker env) (vd_nonce d) (vd_id d) (vd_now d) (cm_sub cl) name (credential_of_dto cred) (vd_latency d)))"

definition update_credential ::
  "('i, 't, 'a, 'd, 'g, 'm, 'r, 'f) admin_env \<Rightarrow> vault_draw \<Rightarrow> millis \<Rightarrow> string option \<Rightarrow> uuid \<Rightarrow> credential_dto \<Rightarrow>
   (('i, 't, 'a, 'b, 'd, 'g, 'm, 'r) admin_console, unit, string) eff" where
  "update_credential env d now cookie i cred =
     bindE (admin_gate env now cookie) (\<lambda>cl.
     on_ac_broker ''vault_update''
       (admin_vault_update (an_broker env) (vd_nonce d) (vd_now d) (cm_sub cl) i (credential_of_dto cred) (vd_latency d)))"

definition rename_credential ::
  "('i, 't, 'a, 'd, 'g, 'm, 'r, 'f) admin_env \<Rightarrow> vault_draw \<Rightarrow> millis \<Rightarrow> string option \<Rightarrow> uuid \<Rightarrow> string \<Rightarrow>
   (('i, 't, 'a, 'b, 'd, 'g, 'm, 'r) admin_console, unit, string) eff" where
  "rename_credential env d now cookie i new_name =
     bindE (admin_gate env now cookie) (\<lambda>cl.
     on_ac_broker ''vault_rename'' (admin_vault_rename (an_broker env) (vd_now d) (cm_sub cl) i new_name (vd_latency d)))"

definition delete_credential ::
  "('i, 't, 'a, 'd, 'g, 'm, 'r, 'f) admin_env \<Rightarrow> 64 word \<Rightarrow> millis \<Rightarrow> string option \<Rightarrow> uuid \<Rightarrow>
   (('i, 't, 'a, 'b, 'd, 'g, 'm, 'r) admin_console, unit, string) eff" where
  "delete_credential env l now cookie i =
     bindE (admin_gate env now cookie) (\<lambda>cl.
     on_ac_broker ''vault_delete'' (admin_vault_delete (an_broker env) (cm_sub cl) i l))"

definition reveal_credential ::
  "('i, 't, 'a, 'd, 'g, 'm, 'r, 'f) admin_env \<Rightarrow> 64 word \<Rightarrow> millis \<Rightarrow> string option \<Rightarrow> uuid \<Rightarrow>
   (('i, 't, 'a, 'b, 'd, 'g, 'm, 'r) admin_console, credential_dto, string) eff" where
  "reveal_credential env l now cookie i =
     bindE (admin_gate env now cookie) (\<lambda>cl.
     bindE (on_ac_broker ''vault_reveal'' (admin_vault_reveal (an_broker env) (cm_sub cl) i l)) (\<lambda>cred.
     retE (dto_of_credential cred)))"

section \<open>The audit log\<close>

fun action_label :: "action_kind \<Rightarrow> string" where
  "action_label BrokerExecute = ''broker.execute''"
| "action_label VaultResolve = ''vault.resolve''"
| "action_label VaultReveal = ''vault.reveal''"
| "action_label VaultCreate = ''vault.create''"
| "action_label VaultUpdate = ''vault.update''"
| "action_label VaultRename = ''vault.rename''"
| "action_label VaultDelete = ''vault.delete''"
| "action_label InventoryUpsert = ''inventory.upsert''"
| "action_label InventoryRemove = ''inventory.remove''"
| "action_label InventoryResolve = ''inventory.resolve''"
| "action_label TransportDispatch = ''transport.dispatch''"
| "action_label GuardApprove = ''guard.approve''"
| "action_label GuardDeny = ''guard.deny''"
| "action_label MemoryIngest = ''memory.ingest''"
| "action_label MemoryRetrieve = ''memory.retrieve''"
| "action_label MemoryWrite = ''memory.write''"
| "action_label ActionOther = ''other''"

definition all_actions :: "action_kind list" where
  "all_actions =
     [BrokerExecute, VaultResolve, VaultReveal, VaultCreate, VaultUpdate, VaultRename, VaultDelete, InventoryUpsert, InventoryRemove,
      InventoryResolve, TransportDispatch, GuardApprove, GuardDeny, MemoryIngest, MemoryRetrieve, MemoryWrite, ActionOther]"

record audit_filter_dto =
  fd_actor_id :: "string option"
  fd_action :: "action_kind option"
  fd_target_ref :: "string option"
  fd_result :: "audit_result option"
  fd_since_epoch_s :: "64 word option"
  fd_until_epoch_s :: "64 word option"

record audit_list_row =
  alr_id :: uuid
  alr_ts_rfc3339 :: string
  alr_actor_id :: string
  alr_action :: action_kind
  alr_target_ref :: "string option"
  alr_credential_ref :: "string option"
  alr_op_summary :: "string option"
  alr_result :: audit_result
  alr_latency_ms :: "64 word option"
  alr_metadata :: "(string, string) bmap"

definition audit_row_of :: "(millis \<Rightarrow> string) \<Rightarrow> audit_event \<Rightarrow> audit_list_row" where
  "audit_row_of rfc3339 e =
     \<lparr>alr_id = ae_id e, alr_ts_rfc3339 = rfc3339 (ae_ts e), alr_actor_id = ae_actor_id e, alr_action = ae_action e,
      alr_target_ref = ae_target_ref e, alr_credential_ref = ae_credential_ref e, alr_op_summary = ae_op_summary e,
      alr_result = ae_result e, alr_latency_ms = ae_latency_ms e, alr_metadata = ae_metadata e\<rparr>"

definition non_empty :: "string option \<Rightarrow> string option" where
  "non_empty x = Option.bind x (\<lambda>s. if s = '''' then None else Some s)"

definition dto_to_filter :: "(64 word \<Rightarrow> millis option) \<Rightarrow> audit_filter_dto \<Rightarrow> audit_filter" where
  "dto_to_filter from_timestamp d =
     \<lparr>af_actor_id = non_empty (fd_actor_id d), af_action = fd_action d, af_target_ref = non_empty (fd_target_ref d),
      af_result = fd_result d, af_since = Option.bind (fd_since_epoch_s d) from_timestamp,
      af_until = Option.bind (fd_until_epoch_s d) from_timestamp\<rparr>"

definition list_audit_events ::
  "('i, 't, 'a, 'd, 'g, 'm, 'r, 'f) admin_env \<Rightarrow> millis \<Rightarrow> string option \<Rightarrow> audit_filter_dto \<Rightarrow> 32 word \<Rightarrow> 32 word \<Rightarrow>
   (('i, 't, 'a, 'b, 'd, 'g, 'm, 'r) admin_console, audit_list_row list, string) eff" where
  "list_audit_events env now cookie flt limit offset =
     bindE (admin_gate env now cookie) (\<lambda>cl.
     bindE (on_ac_broker ''audit_query'' (admin_audit_query (an_broker env) (cm_sub cl)
              (dto_to_filter (an_from_timestamp env) flt) (unat limit) (unat offset))) (\<lambda>es.
     retE (map (audit_row_of (an_rfc3339 env)) es)))"

definition count_audit_events ::
  "('i, 't, 'a, 'd, 'g, 'm, 'r, 'f) admin_env \<Rightarrow> millis \<Rightarrow> string option \<Rightarrow> audit_filter_dto \<Rightarrow>
   (('i, 't, 'a, 'b, 'd, 'g, 'm, 'r) admin_console, nat, string) eff" where
  "count_audit_events env now cookie flt =
     bindE (admin_gate env now cookie) (\<lambda>cl.
     on_ac_broker ''audit_count'' (admin_audit_count (an_broker env) (cm_sub cl) (dto_to_filter (an_from_timestamp env) flt)))"

section \<open>Plans\<close>

text \<open>The status as the pages get it: the name of the variant in lower case.\<close>

fun plan_status_wire :: "plan_status \<Rightarrow> string" where
  "plan_status_wire PlPlanning = ''planning''"
| "plan_status_wire PlAwaitingApproval = ''awaitingapproval''"
| "plan_status_wire PlExecuting = ''executing''"
| "plan_status_wire PlSucceeded = ''succeeded''"
| "plan_status_wire PlFailed = ''failed''"
| "plan_status_wire PlCancelled = ''cancelled''"
| "plan_status_wire PlRolledBack = ''rolledback''"

fun step_status_wire :: "step_status \<Rightarrow> string" where
  "step_status_wire StPending = ''pending''"
| "step_status_wire StRunning = ''running''"
| "step_status_wire StSucceeded = ''succeeded''"
| "step_status_wire StFailed = ''failed''"
| "step_status_wire StSkipped = ''skipped''"
| "step_status_wire StCompensated = ''compensated''"

record plan_list_row =
  plr_id :: string
  plr_intent :: string
  plr_status :: string
  plr_created_at :: string
  plr_finished_at :: "string option"

record step_list_row =
  slr_id :: string
  slr_step_index :: "32 word"
  slr_capability_name :: string
  slr_target_ref :: "string option"
  slr_depends_on :: "string list"
  slr_status :: string
  slr_result_summary :: "string option"

definition plan_row_of :: "(millis \<Rightarrow> string) \<Rightarrow> plan \<Rightarrow> plan_list_row" where
  "plan_row_of rfc3339 p =
     \<lparr>plr_id = pl_id p, plr_intent = pl_intent p, plr_status = plan_status_wire (pl_status p),
      plr_created_at = rfc3339 (pl_created_at p), plr_finished_at = map_option rfc3339 (pl_finished_at p)\<rparr>"

text \<open>Slicing a string inside a character panics: \<open>None\<close>.\<close>

definition slice_to :: "nat \<Rightarrow> string \<Rightarrow> string option" where
  "slice_to n s = (if n \<le> length s \<and> (n = length s \<or> \<not> utf8_cont (s ! n)) then Some (take n s) else None)"

definition result_summary :: "string \<Rightarrow> string option" where
  "result_summary s = (if length s > 200 then map_option (\<lambda>p. p @ ellipsis) (slice_to 200 s) else Some s)"

definition step_row_wire :: "(json \<Rightarrow> string) \<Rightarrow> step \<Rightarrow> step_list_row option" where
  "step_row_wire json_text s =
     (let row = (\<lambda>summary. \<lparr>slr_id = st_id s, slr_step_index = st_step_index s, slr_capability_name = st_capability_name s,
            slr_target_ref = st_target_ref s, slr_depends_on = st_depends_on s, slr_status = step_status_wire (st_status s),
            slr_result_summary = summary\<rparr>)
      in case st_result s of
           None \<Rightarrow> Some (row None)
         | Some v \<Rightarrow> map_option (\<lambda>t. row (Some t)) (result_summary (json_text v)))"

definition list_plans_page ::
  "('i, 't, 'a, 'd, 'g, 'm, 'r, 'f) admin_env \<Rightarrow> millis \<Rightarrow> string option \<Rightarrow>
   (('i, 't, 'a, 'b, 'd, 'g, 'm, 'r) admin_console, plan_list_row list, string) eff" where
  "list_plans_page env now cookie =
     bindE (admin_gate env now cookie) (\<lambda>_.
     bindE (on_ac_orch ''list_plans'' (list_plans 100)) (\<lambda>ps.
     retE (map (plan_row_of (an_rfc3339 env)) ps)))"

definition parse_plan_id :: "('i, 't, 'a, 'd, 'g, 'm, 'r, 'f) admin_env \<Rightarrow> string \<Rightarrow> (uuid, string) result" where
  "parse_plan_id env i = map_err (\<lambda>e. ''parse plan_id: '' @ e) (an_uuid_parse env i)"

text \<open>A call that panics gives no value to the client: the inner result is then \<open>None\<close>.\<close>

definition get_plan_steps ::
  "('i, 't, 'a, 'd, 'g, 'm, 'r, 'f) admin_env \<Rightarrow> millis \<Rightarrow> string option \<Rightarrow> string \<Rightarrow>
   (('i, 't, 'a, 'b, 'd, 'g, 'm, 'r) admin_console, step_list_row list option, string) eff" where
  "get_plan_steps env now cookie plan_id =
     bindE (admin_gate env now cookie) (\<lambda>_.
     bindE (liftE (parse_plan_id env plan_id)) (\<lambda>i.
     bindE (on_ac_orch ''list_steps'' (list_steps i)) (\<lambda>ss.
     retE (those (map (step_row_wire (an_json_text env)) ss)))))"

record create_plan_request =
  cpr_intent :: string
  cpr_steps :: "step_def list"

text \<open>\<open>u\<close> is the id drawn for the plan, \<open>ids\<close> are those of its steps.\<close>

definition create_plan_page ::
  "('i, 't, 'a, 'd, 'g, 'm, 'r, 'f) admin_env \<Rightarrow> uuid \<Rightarrow> uuid list \<Rightarrow> millis \<Rightarrow> string option \<Rightarrow> create_plan_request \<Rightarrow>
   (('i, 't, 'a, 'b, 'd, 'g, 'm, 'r) admin_console, string, string) eff" where
  "create_plan_page env u ids now cookie req =
     bindE (admin_gate env now cookie) (\<lambda>cl.
     bindE (on_ac_orch ''create_plan'' (create_plan (an_orch env) u ids (Some (cm_user_id cl)) (cpr_intent req) (cpr_steps req))) (\<lambda>p.
     retE (pl_id p)))"

definition run_plan_page ::
  "('i, 't, 'a, 'd, 'g, 'm, 'r, 'f) admin_env \<Rightarrow> millis \<Rightarrow> string option \<Rightarrow> string \<Rightarrow>
   (('i, 't, 'a, 'b, 'd, 'g, 'm, 'r) admin_console, string, string) eff" where
  "run_plan_page env now cookie plan_id =
     bindE (admin_gate env now cookie) (\<lambda>cl.
     bindE (liftE (parse_plan_id env plan_id)) (\<lambda>i.
     bindE (on_ac_orch ''run_plan'' (run_plan (an_orch env) i (cm_sub cl))) (\<lambda>status.
     retE (plan_status_wire status))))"

text \<open>The planner's catalogue: by name, and the newer version first.\<close>

definition cap_cmp :: "(version \<Rightarrow> version \<Rightarrow> ordering) \<Rightarrow> capability \<Rightarrow> capability \<Rightarrow> ordering" where
  "cap_cmp vcmp a b = then_ord (ord_of (cap_name a) (cap_name b)) (vcmp (cap_version b) (cap_version a))"

definition catalog_entry :: "capability \<Rightarrow> string" where
  "catalog_entry c =
     ''- '' @ cap_name c @ '' v'' @ show_version (cap_version c) @ '' '' @ em_dash @ '' '' @
     (case cap_description c of Some d \<Rightarrow> d | None \<Rightarrow> ''(no description)'') @ newline @
     (case Option.bind (Option.bind (cap_schema c) (j_get ''properties'')) j_as_object of
        Some (p # ps) \<Rightarrow> ''  params: '' @ join '', '' (map fst (p # ps)) @ newline
      | _ \<Rightarrow> ''  params: target_ref only (read capability)'' @ newline)"

definition capability_catalog :: "('i, 't, 'a, 'd, 'g, 'm, 'r, 'f) admin_env \<Rightarrow> string" where
  "capability_catalog env =
     ''Capabilities (use capability_name EXACTLY; put the TYPED params under `params`):'' @ newline @
     concat (map catalog_entry (stable_sort (cap_cmp (an_version_cmp env)) (harness_capabilities (an_registry env)))) @
     newline @ ''Available targets: any registered target_ref (e.g. target://mikrotik-edge).'' @ newline"

text \<open>The client of the model is made from the environment first (\<open>client\<close>: an error text, or the model's answers).\<close>

definition plan_from_intent_page ::
  "('i, 't, 'a, 'd, 'g, 'm, 'r, 'f) admin_env \<Rightarrow> (string \<Rightarrow> (string list, string) result, string) result \<Rightarrow>
   (string \<Rightarrow> (step_def list, string) result) \<Rightarrow> uuid \<Rightarrow> (nat \<Rightarrow> uuid) \<Rightarrow> millis \<Rightarrow> string option \<Rightarrow> string \<Rightarrow>
   (('i, 't, 'a, 'b, 'd, 'g, 'm, 'r) admin_console, string, string) eff" where
  "plan_from_intent_page env client decode u fresh now cookie intent =
     bindE (admin_gate env now cookie) (\<lambda>cl.
     bindE (liftE (map_err (\<lambda>e. ''llm init: '' @ e) client)) (\<lambda>llm.
     bindE (on_ac_orch ''plan_from_intent'' (plan_from_intent (an_orch env) llm decode u fresh (Some (cm_user_id cl)) intent
              (capability_catalog env))) (\<lambda>p.
     retE (pl_id p))))"

section \<open>Memory\<close>

definition audit_memory ::
  "('i, 't, 'a, 'd, 'g, 'm, 'r, 'f) admin_env \<Rightarrow> string \<Rightarrow> action_kind \<Rightarrow> string \<Rightarrow> string \<Rightarrow> 64 word \<Rightarrow> bool \<Rightarrow> (string \<times> string) list \<Rightarrow>
   ('i, 't, 'a, 'b, 'd, 'g, 'm, 'r) admin_console \<Rightarrow> ('i, 't, 'a, 'b, 'd, 'g, 'm, 'r) admin_console" where
  "audit_memory env actor action tgt summary l success ms w =
     snd (on_ac_broker '''' (audit_memory_op (an_broker env) actor action (Some tgt) (Some summary) l success ms) w)"

definition on_memory ::
  "('r, 'x, string) eff \<Rightarrow> ('i, 't, 'a, 'b, 'd, 'g, 'm, 'r) admin_console \<Rightarrow>
   ('x, string) result \<times> ('i, 't, 'a, 'b, 'd, 'g, 'm, 'r) admin_console" where
  "on_memory f w = (case f (ac_memory w) of (r, m) \<Rightarrow> (r, w\<lparr>ac_memory := m\<rparr>))"

definition admin_memory_ingest ::
  "('i, 't, 'a, 'd, 'g, 'm, 'r, 'f) admin_env \<Rightarrow> 64 word \<Rightarrow> millis \<Rightarrow> string option \<Rightarrow> ingest_doc \<Rightarrow>
   (('i, 't, 'a, 'b, 'd, 'g, 'm, 'r) admin_console, ingest_stats, string) eff" where
  "admin_memory_ingest env l now cookie req =
     bindE (admin_gate env now cookie) (\<lambda>cl w.
     case on_memory (an_ingest env req) w of
       (r, w1) \<Rightarrow>
         (let sm = (case r of Ok st \<Rightarrow> (''ingested '' @ show_nat (is_chunks st) @ '' chunks'', show_nat (is_chunks st))
                            | Err e \<Rightarrow> (''ingest failed: '' @ e, ''0''))
          in (map_err (\<lambda>e. ''ingest: '' @ e) r,
              audit_memory env (cm_sub cl) MemoryIngest (''memory://'' @ id_source_id req) (fst sm) l (is_ok r)
                [(''source_id'', id_source_id req), (''source_kind'', id_source_kind req), (''chunks'', snd sm)] w1)))"

record 'f search_hit =
  sh_id :: nat
  sh_score :: 'f
  sh_source_id :: string
  sh_source_kind :: string
  sh_chunk_index :: nat
  sh_text :: string

definition search_hit_of :: "'f retrieved_chunk \<Rightarrow> 'f search_hit" where
  "search_hit_of h =
     \<lparr>sh_id = 0, sh_score = rc_score h, sh_source_id = rc_source_id h, sh_source_kind = rc_source_kind h, sh_chunk_index = 0,
      sh_text = rc_content h\<rparr>"

definition admin_memory_search ::
  "('i, 't, 'a, 'd, 'g, 'm, 'r, 'f) admin_env \<Rightarrow> 64 word \<Rightarrow> millis \<Rightarrow> string option \<Rightarrow> string \<Rightarrow> 32 word \<Rightarrow>
   (('i, 't, 'a, 'b, 'd, 'g, 'm, 'r) admin_console, 'f search_hit list, string) eff" where
  "admin_memory_search env l now cookie query top_k =
     bindE (admin_gate env now cookie) (\<lambda>cl w.
     case on_memory (an_retrieve env query top_k) w of
       (r, w1) \<Rightarrow>
         (let sm = (case r of Ok hs \<Rightarrow> (''returned '' @ show_nat (length hs) @ '' hits'', show_nat (length hs))
                            | Err e \<Rightarrow> (''retrieve failed: '' @ e, ''0''))
          in (bind_result (map_err (\<lambda>e. ''retrieve: '' @ e) r) (\<lambda>hs. Ok (map search_hit_of hs)),
              audit_memory env (cm_sub cl) MemoryRetrieve ''memory://_search'' (fst sm) l (is_ok r)
                [(''query_hash'', an_hash_query env query), (''top_k'', show_nat (unat top_k)), (''returned'', snd sm)] w1)))"

section \<open>Calls\<close>

text \<open>What a client sees of a call beside its value: nothing, or the text of the error.\<close>

fun error_text :: "('x, string) result \<Rightarrow> string option" where
  "error_text (Ok _) = None"
| "error_text (Err e) = Some e"

text \<open>One call of a server function, with the action it is to be audited under, if any.\<close>

inductive console_call ::
  "('i, 't, 'a, 'd, 'g, 'm, 'r, 'f) admin_env \<Rightarrow> millis \<Rightarrow> string option \<Rightarrow> action_kind option \<Rightarrow>
   ('i, 't, 'a, 'b, 'd, 'g, 'm, 'r) admin_console \<Rightarrow> string option \<Rightarrow> ('i, 't, 'a, 'b, 'd, 'g, 'm, 'r) admin_console \<Rightarrow> bool"
  for env :: "('i, 't, 'a, 'd, 'g, 'm, 'r, 'f) admin_env" and now :: millis and cookie :: "string option" where
  cc_list_targets: "list_targets env now cookie w = (x, w') \<Longrightarrow> console_call env now cookie None w (error_text x) w'"
| cc_get_target: "get_target env l now cookie name w = (x, w') \<Longrightarrow> console_call env now cookie (Some InventoryResolve) w (error_text x) w'"
| cc_upsert_target: "upsert_target env l now cookie dto w = (x, w') \<Longrightarrow> console_call env now cookie (Some InventoryUpsert) w (error_text x) w'"
| cc_delete_target: "delete_target env l now cookie name w = (x, w') \<Longrightarrow> console_call env now cookie (Some InventoryRemove) w (error_text x) w'"
| cc_list_credentials: "list_credentials env l now cookie w = (x, w') \<Longrightarrow> console_call env now cookie (Some VaultResolve) w (error_text x) w'"
| cc_create_credential: "create_credential env d now cookie name cred w = (x, w') \<Longrightarrow> console_call env now cookie (Some VaultCreate) w (error_text x) w'"
| cc_update_credential: "update_credential env d now cookie i cred w = (x, w') \<Longrightarrow> console_call env now cookie (Some VaultUpdate) w (error_text x) w'"
| cc_rename_credential: "rename_credential env d now cookie i name w = (x, w') \<Longrightarrow> console_call env now cookie (Some VaultRename) w (error_text x) w'"
| cc_delete_credential: "delete_credential env l now cookie i w = (x, w') \<Longrightarrow> console_call env now cookie (Some VaultDelete) w (error_text x) w'"
| cc_reveal_credential: "reveal_credential env l now cookie i w = (x, w') \<Longrightarrow> console_call env now cookie (Some VaultReveal) w (error_text x) w'"
| cc_list_audit: "list_audit_events env now cookie flt limit offset w = (x, w') \<Longrightarrow> console_call env now cookie None w (error_text x) w'"
| cc_count_audit: "count_audit_events env now cookie flt w = (x, w') \<Longrightarrow> console_call env now cookie None w (error_text x) w'"
| cc_list_plans: "list_plans_page env now cookie w = (x, w') \<Longrightarrow> console_call env now cookie None w (error_text x) w'"
| cc_plan_steps: "get_plan_steps env now cookie pid w = (x, w') \<Longrightarrow> console_call env now cookie None w (error_text x) w'"
| cc_create_plan: "create_plan_page env u ids now cookie req w = (x, w') \<Longrightarrow> console_call env now cookie None w (error_text x) w'"
| cc_run_plan: "run_plan_page env now cookie pid w = (x, w') \<Longrightarrow> console_call env now cookie None w (error_text x) w'"
| cc_plan_intent: "plan_from_intent_page env client decode u fresh now cookie intent w = (x, w') \<Longrightarrow> console_call env now cookie None w (error_text x) w'"
| cc_ingest: "admin_memory_ingest env l now cookie doc w = (x, w') \<Longrightarrow> console_call env now cookie (Some MemoryIngest) w (error_text x) w'"
| cc_search: "admin_memory_search env l now cookie query top_k w = (x, w') \<Longrightarrow> console_call env now cookie (Some MemoryRetrieve) w (error_text x) w'"

abbreviation ac_broker :: "('i, 't, 'a, 'b, 'd, 'g, 'm, 'r) admin_console \<Rightarrow> ('i, 't, 'a, 'b) admin_world" where
  "ac_broker w \<equiv> wo_broker (co_app (ac_console w))"

definition set_app ::
  "('i, pg_vault, 't, 'a, 'b) app_world \<Rightarrow> ('i, 't, 'a, 'b, 'd, 'g, 'm, 'r) admin_console \<Rightarrow> ('i, 't, 'a, 'b, 'd, 'g, 'm, 'r) admin_console" where
  "set_app a w = w\<lparr>ac_console := (ac_console w)\<lparr>co_app := a\<rparr>\<rparr>"

lemmas server_function_defs = list_targets_def get_target_def upsert_target_def delete_target_def list_credentials_def
  create_credential_def update_credential_def rename_credential_def delete_credential_def reveal_credential_def
  list_audit_events_def count_audit_events_def list_plans_page_def get_plan_steps_def create_plan_page_def run_plan_page_def
  plan_from_intent_page_def admin_memory_ingest_def admin_memory_search_def

lemma admin_gate_run:
  "require_admin (an_app env) now cookie (co_app (ac_console w)) = (r, a) \<Longrightarrow> admin_gate env now cookie w = (r, set_app a w)"
  by (simp add: admin_gate_def on_ac_console_def on_app_def set_app_def)

lemma gate_refused:
  "require_admin (an_app env) now cookie (co_app (ac_console w)) = (Err e, a) \<Longrightarrow>
   bindE (admin_gate env now cookie) f w = (Err e, set_app a w)"
  by (simp add: bindE_def admin_gate_run)

lemma gate_passed:
  "require_admin (an_app env) now cookie (co_app (ac_console w)) = (Ok cl, a) \<Longrightarrow>
   bindE (admin_gate env now cookie) f w = f cl (set_app a w)"
  by (simp add: bindE_def admin_gate_run)

lemma console_call_refused:
  assumes "console_call env now cookie act w r w'" "require_admin (an_app env) now cookie (co_app (ac_console w)) = (Err e, a)"
  shows "r = Some e \<and> w' = set_app a w"
  using assms(1) by cases (auto simp: server_function_defs gate_refused [OF assms(2)])

lemma set_app_broker: "ac_broker (set_app a w) = wo_broker a"
  by (simp add: set_app_def)

lemma on_ac_broker_run:
  "on_ac_broker name f w =
     (case f (ac_broker w) of (y, b) \<Rightarrow>
        (map_err (\<lambda>e. name @ '': '' @ show_broker_error e) y, set_app ((co_app (ac_console w))\<lparr>wo_broker := b\<rparr>) w))"
proof (cases "f (ac_broker w)")
  case (Pair y b)
  then show ?thesis
    by (cases y) (simp_all add: on_ac_broker_def on_ac_console_def on_broker_def on_app_def mapE.simps set_app_def)
qed

text \<open>A forwarded call whose value is only repackaged: what the broker did of its audit log is what the call did.\<close>

lemma forward_audited:
  assumes "br_audit br = Some sink" "br_vault_admin br = Some ve"
    and "\<And>y b. f (ac_broker w) = (y, b) \<Longrightarrow> admin_call br actor action (is_ok y) (ac_broker w) b"
    and "bindE (on_ac_broker name f) (\<lambda>y. retE (g y)) w = (x, w')"
  shows "audited_as sink actor action (error_text x = None) (bw_audit (ac_broker w)) (bw_audit (ac_broker w'))"
proof -
  obtain y b where fb: "f (ac_broker w) = (y, b)" by fastforce
  have "audited_as sink actor action (is_ok y) (bw_audit (ac_broker w)) (bw_audit b)"
    using assms(1,2) assms(3) [OF fb] by (rule admin_call_audited_as [rotated])
  moreover have "(error_text x = None) = is_ok y \<and> ac_broker w' = b"
    using assms(4) fb by (cases y) (auto simp: bindE_def on_ac_broker_run retE_def set_app_broker)
  ultimately show ?thesis by simp
qed

lemma bindE_ret: "bindE m (\<lambda>y. retE y) = m"
  by (auto simp: fun_eq_iff bindE_def retE_def split: prod.splits result.splits)

lemmas forward_audited_plain = forward_audited [where g = "\<lambda>y. y", unfolded bindE_ret]

lemma add_metadata_core:
  "ne_actor_id (add_metadata ms ev) = ne_actor_id ev \<and> ne_action (add_metadata ms ev) = ne_action ev \<and>
   ne_result (add_metadata ms ev) = ne_result ev"
  by (induction ms arbitrary: ev) (auto simp: add_metadata_def with_metadata_def)

lemma memory_audited:
  assumes "br_audit (an_broker env) = Some sink" "bw_audit (ac_broker w) = a"
  shows "audited_as sink actor action ok a (bw_audit (ac_broker (audit_memory env actor action tgt summary l ok ms w)))"
  unfolding audited_as_def
  by (rule exI [of _ "add_metadata ms (opt_with with_op_summary (Some summary) (opt_with with_target (Some tgt)
        (with_latency_ms l (audit_event_new actor action (if ok then AuditSuccess else AuditError)))))"])
    (auto simp: audit_memory_def on_ac_broker_run audit_memory_op_def bindE_def on_sink_def require_audit_sink_def ok_or_def assms
      set_app_broker retE_def add_metadata_core opt_with_fields with_latency_ms_def audit_event_new_def split: prod.splits result.splits)

lemma on_memory_broker: "on_memory f w = (r, w') \<Longrightarrow> ac_broker w' = ac_broker w"
  by (auto simp: on_memory_def split: prod.splits)

text \<open>A call that is given a reference which does not parse ends before it reaches the broker.\<close>

lemma parsed_first:
  assumes "bindE (liftE p) f w = (x, w')"
  shows "(\<exists>e. p = Err e \<and> x = Err e \<and> w' = w) \<or> (\<exists>v. p = Ok v \<and> f v w = (x, w'))"
  using assms by (cases p) (auto simp: bindE_def liftE_run)

lemma console_call_audited:
  assumes "console_call env now cookie (Some action) w r w'"
    and gate: "require_admin (an_app env) now cookie (co_app (ac_console w)) = (Ok cl, a)"
    and br: "br_audit (an_broker env) = Some sink" "br_vault_admin (an_broker env) = Some ve"
  shows "(r \<noteq> None \<and> ac_broker w' = ac_broker w) \<or>
    audited_as sink (cm_sub cl) action (r = None) (bw_audit (ac_broker w)) (bw_audit (ac_broker w'))"
proof -
  have same: "ac_broker (set_app a w) = ac_broker w" using require_admin_broker [OF gate] by (simp add: set_app_broker)
  note pass = gate_passed [OF gate] and fwd = forward_audited [OF br, where w = "set_app a w", unfolded same]
    and fwd' = forward_audited_plain [OF br, where w = "set_app a w", unfolded same]
  show ?thesis using assms(1)
  proof cases
    case (cc_get_target l name x)
    then have "bindE (liftE (parse_ref name)) (\<lambda>r. bindE (on_ac_broker ''inventory_get_managed''
        (inventory_get_managed (an_broker env) (cm_sub cl) r l)) (\<lambda>t. retE (target_dto_of t))) (set_app a w) = (x, w')"
      by (simp add: get_target_def pass)
    from parsed_first [OF this] show ?thesis using cc_get_target(1,2) same
      by (auto intro: fwd [rotated] ac_inventory_get)
  next
    case (cc_upsert_target l dto x)
    then have "bindE (liftE (dto_to_managed dto)) (\<lambda>t. on_ac_broker ''inventory_upsert''
        (inventory_upsert (an_broker env) (cm_sub cl) t l)) (set_app a w) = (x, w')"
      by (simp add: upsert_target_def pass)
    from parsed_first [OF this] show ?thesis using cc_upsert_target(1,2) same
      by (auto intro: fwd' [rotated] ac_inventory_upsert)
  next
    case (cc_delete_target l name x)
    then have "bindE (liftE (parse_ref name)) (\<lambda>r. on_ac_broker ''inventory_remove''
        (inventory_remove (an_broker env) (cm_sub cl) r l)) (set_app a w) = (x, w')"
      by (simp add: delete_target_def pass)
    from parsed_first [OF this] show ?thesis using cc_delete_target(1,2) same
      by (auto intro: fwd' [rotated] ac_inventory_remove)
  next
    case (cc_ingest l doc x)
    obtain r1 w1 where om: "on_memory (an_ingest env doc) (set_app a w) = (r1, w1)" by fastforce
    have au: "bw_audit (ac_broker w1) = bw_audit (ac_broker w)" using on_memory_broker [OF om] same by simp
    show ?thesis using cc_ingest
      by (cases r1) (auto simp: admin_memory_ingest_def pass om Let_def memory_audited [OF br(1) au])
  next
    case (cc_search l query top_k x)
    obtain r1 w1 where om: "on_memory (an_retrieve env query top_k) (set_app a w) = (r1, w1)" by fastforce
    have au: "bw_audit (ac_broker w1) = bw_audit (ac_broker w)" using on_memory_broker [OF om] same by simp
    show ?thesis using cc_search
      by (cases r1) (auto simp: admin_memory_search_def pass om Let_def memory_audited [OF br(1) au])
  qed (auto simp: server_function_defs pass intro: fwd [rotated] fwd' [rotated] admin_call.intros)
qed

section \<open>Properties\<close>

text \<open>The append of the PostgreSQL log: one row more, or, when its statement meets a fault, none.\<close>

lemma pg_append_rows:
  "case db_faults d of
     Some f # fs \<Rightarrow> db_tables (snd (as_append (pg_audit_sink ilike u ts) ev d)) = db_tables d
   | _ \<Rightarrow> db_tables (snd (as_append (pg_audit_sink ilike u ts) ev d)) = db_tables d @ [event_row u ts ev]"
  by (simp add: pg_audit_sink_def audit_append_def db_stmt_def split: list.splits option.splits)

text \<open>C21: the admin console does nothing without an admin session, and what it does is on record. Taken are the nineteen server functions
  for targets, credentials, the audit log, plans and memory (the five files named at the head of this theory; the decision on an approval, the settings, the gateways,
  the skills and the accounts have their own gates, elsewhere), with a broker that has the administration of the vault and logs to PostgreSQL.
  Each that is called without a valid session of an admin answers with the error of the check and leaves everything as it was: the broker with its vault,
  inventory and approvals, the plans, the memory and the accounts. With a session, each call of \<open>get_target\<close>, \<open>upsert_target\<close> and \<open>delete_target\<close>, of
  the six functions for credentials, and of the two for memory either fails without touching the broker (a malformed reference), or adds exactly one
  row to the audit log: under the name of the session's user, the action of the call, and \<open>success\<close> exactly when the call succeeded. The one
  exception is a fault of the database at the append itself: the append is then dropped, the call goes on, and the log stays as it was.\<close>

theorem console_gated_and_audited:
  assumes "console_call env now cookie act w r w'"
    and "br_audit (an_broker env) = Some (pg_audit_sink ilike u ts)" "br_vault_admin (an_broker env) = Some ve"
  shows "case require_admin (an_app env) now cookie (co_app (ac_console w)) of
      (Err e, a) \<Rightarrow> r = Some e \<and> w' = set_app a w \<and> wo_broker a = ac_broker w \<and> wo_tables a = wo_tables (co_app (ac_console w))
    | (Ok cl, a) \<Rightarrow> (\<forall>action. act = Some action \<longrightarrow> (r \<noteq> None \<and> ac_broker w' = ac_broker w) \<or>
        (case db_faults (bw_audit (ac_broker w)) of
           Some f # fs \<Rightarrow> db_tables (bw_audit (ac_broker w')) = db_tables (bw_audit (ac_broker w))
         | _ \<Rightarrow> (\<exists>row. db_tables (bw_audit (ac_broker w')) = db_tables (bw_audit (ac_broker w)) @ [row] \<and>
             au_id row = u \<and> au_ts row = ts \<and> au_actor_id row = cm_sub cl \<and> au_action row = action_as_str action \<and>
             au_result row = (if r = None then ''success'' else ''error''))))"
proof (cases "require_admin (an_app env) now cookie (co_app (ac_console w))")
  case (Pair q a)
  show ?thesis
  proof (cases q)
    case (Err e)
    then show ?thesis
      using Pair console_call_refused [OF assms(1)] require_admin_broker [OF Pair] require_admin_tables [OF Pair] by simp
  next
    case (Ok cl)
    let ?d = "bw_audit (ac_broker w)" and ?d' = "bw_audit (ac_broker w')"
    have "case db_faults ?d of Some f # fs \<Rightarrow> db_tables ?d' = db_tables ?d
        | _ \<Rightarrow> (\<exists>row. db_tables ?d' = db_tables ?d @ [row] \<and> au_id row = u \<and> au_ts row = ts \<and> au_actor_id row = cm_sub cl \<and>
             au_action row = action_as_str action \<and> au_result row = (if r = None then ''success'' else ''error''))"
      if act: "act = Some action" and touched: "\<not> (r \<noteq> None \<and> ac_broker w' = ac_broker w)" for action
    proof -
      obtain ev where d': "?d' = snd (as_append (pg_audit_sink ilike u ts) ev ?d)" and ev: "ne_actor_id ev = cm_sub cl" "ne_action ev = action"
        "ne_result ev = (if r = None then AuditSuccess else AuditError)"
        using console_call_audited [OF assms(1) [unfolded act] _ assms(2,3)] touched Pair Ok unfolding audited_as_def by blast
      show ?thesis
        using pg_append_rows [where d = ?d and ilike = ilike and u = u and ts = ts and ev = ev] ev unfolding d'
        by (auto simp: event_row_def split: list.splits option.splits)
    qed
    then show ?thesis unfolding Pair Ok prod.case result.case by blast
  qed
qed

text \<open>The forms: what a client edits and sends back is the target or the credential it was shown.\<close>

lemma target_dto_roundtrip: "target_ref_valid (mt_ref t) \<Longrightarrow> dto_to_managed (target_dto_of t) = Ok t"
proof -
  assume "target_ref_valid (mt_ref t)"
  then have "target_ref_parse (''target://'' @ target_name (mt_ref t)) = Ok (mt_ref t)"
    by (cases "mt_ref t") (simp add: target_ref_parse_iff)
  then show ?thesis by (simp add: dto_to_managed_def parse_ref_def target_dto_of_def)
qed

lemma credential_dto_roundtrip:
  "credential_of_dto (dto_of_credential c) = c" "dto_of_credential (credential_of_dto d) = d"
  "credential_kind_of (credential_of_dto d) = dto_kind d"
  by (cases c; cases d; simp)+

text \<open>A form with a name that holds a slash, or none at all, is refused without a call of the broker.\<close>

lemma upsert_bad_name:
  assumes "require_admin (an_app env) now cookie (co_app (ac_console w)) = (Ok cl, a)"
    and "td_ref_name dto = '''' \<or> CHR ''/'' \<in> set (td_ref_name dto)"
  shows "\<exists>e. upsert_target env l now cookie dto w = (Err e, set_app a w)"
proof -
  have "\<not> (\<exists>t. parse_ref (td_ref_name dto) = Ok t)"
  proof
    assume "\<exists>t. parse_ref (td_ref_name dto) = Ok t"
    then obtain t where "target_ref_parse (''target://'' @ td_ref_name dto) = Ok t"
      by (auto simp: parse_ref_def elim: map_err.elims)
    then show False using assms(2) by (cases t) (auto simp: target_ref_parse_iff target_ref_valid_def)
  qed
  then obtain e where "parse_ref (td_ref_name dto) = Err e" by (cases "parse_ref (td_ref_name dto)") auto
  then show ?thesis using assms(1) by (simp add: upsert_target_def gate_passed dto_to_managed_def liftE_run bindE_run_Err)
qed

text \<open>The names of the actions and their order in the filter: every action once.\<close>

lemma all_actions_complete: "distinct all_actions \<and> set all_actions = UNIV"
proof
  show "distinct all_actions" by (simp add: all_actions_def)
  have "x \<in> set all_actions" for x by (cases x) (simp_all add: all_actions_def)
  then show "set all_actions = UNIV" by blast
qed

text \<open>An empty text in a filter is no filter.\<close>

lemma empty_filter_matches:
  "af_actor_id (dto_to_filter ft (d\<lparr>fd_actor_id := Some ''''\<rparr>)) = None"
  "af_target_ref (dto_to_filter ft (d\<lparr>fd_target_ref := Some ''''\<rparr>)) = None"
  by (simp_all add: dto_to_filter_def non_empty_def)

text \<open>The status sent to the pages is not the one stored for two of the seven statuses; for steps it is.\<close>

lemma plan_status_wire_differs:
  "plan_status_wire s = plan_status_as_str s \<longleftrightarrow> s \<noteq> PlAwaitingApproval \<and> s \<noteq> PlRolledBack"
  by (cases s) simp_all

lemma step_status_wire_stored: "step_status_wire s = step_status_as_str s"
  by (cases s) simp_all

text \<open>A long result whose 200th byte lies within a character ends the call in a panic.\<close>

lemma result_summary_panics:
  "result_summary s = None \<longleftrightarrow> 200 < length s \<and> utf8_cont (s ! 200)"
  by (auto simp: result_summary_def slice_to_def)

lemma plan_steps_panic:
  assumes "st \<in> set ss" "st_result st = Some v" "result_summary (jt v) = None"
  shows "those (map (step_row_wire jt) ss) = None"
  using assms by (induction ss) (auto simp: step_row_wire_def Let_def split: option.splits)

text \<open>The catalogue lists every capability, by name and the newer version first.\<close>

lemma catalog_order:
  assumes "comparison (\<lambda>_. True) vcmp"
  shows "mset (stable_sort (cap_cmp vcmp) cs) = mset cs \<and>
    sorted_wrt (\<lambda>a b. cap_name a < cap_name b \<or> (cap_name a = cap_name b \<and> vcmp (cap_version a) (cap_version b) \<noteq> OLess))
      (stable_sort (cap_cmp vcmp) cs)"
proof -
  have v: "comparison (\<lambda>_. True) (\<lambda>a b. vcmp (cap_version b) (cap_version a))"
    using comparison.swap [OF assms] comparison.trans [OF assms] by unfold_locales blast+
  have "comparison (\<lambda>_. True) (cap_cmp vcmp)"
    using comparison_then [OF by_key.comparison_axioms v, of cap_name] unfolding cap_cmp_def .
  then have s: "sorted_wrt (\<lambda>a b. cap_cmp vcmp a b \<noteq> OGreater) (stable_sort (cap_cmp vcmp) cs)"
    by (rule comparison.stable_sort_sorted) (simp add: list_all_iff)
  have imp: "cap_name a < cap_name b \<or> (cap_name a = cap_name b \<and> vcmp (cap_version a) (cap_version b) \<noteq> OLess)"
    if "cap_cmp vcmp a b \<noteq> OGreater" for a b
    using that comparison.swap [OF assms, of "cap_version a" "cap_version b"]
    by (cases "ord_of (cap_name a) (cap_name b)") (auto simp: cap_cmp_def)
  show ?thesis using sorted_wrt_mono_rel [OF imp s] by simp
qed

section \<open>Witness\<close>

definition ex_admin_env :: "(mem_inventory, stub_record list, audit_db, unit, unit, unit, unit, unit) admin_env" where
  "ex_admin_env =
     \<lparr>an_console = ex_console_env,
      an_orch = \<lparr>oe_semver = star_semver, oe_version_error = (\<lambda>_. ''''), oe_registry = [], oe_dispatch = (\<lambda>_ _ _ _ _ d. (Ok JNull, d)),
                 oe_graph = None, oe_memory = None\<rparr>,
      an_registry = [], an_ingest = (\<lambda>_ m. (Err ''down'', m)), an_retrieve = (\<lambda>_ _ m. (Ok [], m)), an_rfc3339 = (\<lambda>_. ''''),
      an_from_timestamp = (\<lambda>_. None), an_json_text = (\<lambda>_. ''''), an_uuid_parse = Ok, an_hash_query = (\<lambda>_. ''''),
      an_version_cmp = (\<lambda>_ _. OEqual)\<rparr>"

definition ex_admin_console :: "(mem_inventory, stub_record list, audit_db, in_proc_bus, unit, unit, unit, unit) admin_console" where
  "ex_admin_console =
     \<lparr>ac_console = ex_console,
      ac_orch = \<lparr>ow_db = db_of \<lparr>ot_plans = [], ot_steps = []\<rparr>, ow_clock = id, ow_ticks = 0, ow_disp = (), ow_graph = (), ow_memory = ()\<rparr>,
      ac_memory = ()\<rparr>"

definition ex_admin_draw :: vault_draw where
  "ex_admin_draw = \<lparr>vd_id = ''u-1'', vd_nonce = ex_nonce, vd_now = 1, vd_latency = 3\<rparr>"

theorem console_gated_and_audited_witness:
  "create_credential ex_admin_env ex_admin_draw 6000 None ''edge'' (DtoApiToken ''old'') ex_admin_console = (Err ''unauthenticated'', ex_admin_console) \<and>
   (\<exists>cl row. fst (require_admin (ce_app ex_console_env) 6000 (Some ex_cookie) (co_app ex_console)) = Ok cl \<and>
     db_tables (bw_audit (ac_broker (snd (create_credential ex_admin_env ex_admin_draw 6000 (Some ex_cookie) ''edge'' (DtoApiToken ''old'') ex_admin_console)))) = [row] \<and>
     au_actor_id row = cm_sub cl \<and> au_action row = action_as_str VaultCreate \<and> au_result row = ''success'')"
  (is "?refused \<and> ?audited")
proof
  let ?env = ex_admin_env and ?w = ex_admin_console
  let ?call = "\<lambda>cookie. create_credential ?env ex_admin_draw 6000 cookie ''edge'' (DtoApiToken ''old'') ?w"
  have br: "br_audit (an_broker ?env) = Some (pg_audit_sink (\<lambda>_ _. True) ''a-1'' 9)" "br_vault_admin (an_broker ?env) = Some ex_vault_env"
    by (simp_all add: ex_admin_env_def ex_console_env_def with_guard_def ex_admin_def with_production_admin_def)
  note use = console_gated_and_audited [OF cc_create_credential br, of ex_admin_draw 6000 _ "''edge''" "DtoApiToken ''old''" ?w]
  show ?refused
  proof (cases "?call None")
    case (Pair x w')
    have "require_admin (an_app ?env) 6000 None (co_app (ac_console ?w)) = (Err ''unauthenticated'', co_app (ac_console ?w))"
      by (simp add: require_admin_def require_some_role_def require_authenticated_def authenticate_headers_def bindE_def ok_or_def)
    with use [OF Pair] have "error_text x = Some ''unauthenticated'' \<and> w' = ?w" by (simp add: set_app_def)
    then show ?thesis using Pair by (cases x) simp_all
  qed
  obtain cl where gate: "require_admin (an_app ?env) 6000 (Some ex_cookie) (co_app (ac_console ?w)) = (Ok cl, co_app (ac_console ?w))"
    using ex_console_admin by (auto simp: ex_admin_env_def ex_admin_console_def on_app_def ex_console_def split: prod.splits)
  have b: "ac_broker ?w = ex_admin_world" by (simp add: ex_admin_console_def ex_console_def)
  have d: "bw_audit ex_admin_world = db_of []" by (simp add: ex_admin_world_def)
  show ?audited
  proof (cases "?call (Some ex_cookie)")
    case (Pair x w')
    have "set_app (co_app (ac_console ?w)) ?w = ?w" by (simp add: set_app_def)
    then have "error_text x = None"
      using Pair ex_vault1_run br(2)
      by (auto simp: create_credential_def gate_passed [OF gate] on_ac_broker_run b ex_admin_draw_def admin_vault_create_def on_vault_admin_def
          require_vault_admin_def ok_or_def ex_admin_world_def split: prod.splits)
    with use [OF Pair, unfolded gate b d] Pair gate show ?thesis
      by (auto simp: ex_admin_env_def ex_admin_console_def db_of_def)
  qed
qed

end
