(* ===== verification/Skills.thy ===== *)
theory Skills
  imports AdminConsole Connector
begin

text \<open>
  Skills (\<open>skills.rs\<close>, \<open>admin_skills.rs\<close>): plan templates with parameters. An instance is made by
  validating the declared parameters and filling the slots of each step; running a skill creates the
  plan and starts its run in the background. The TOML decoder is a parameter; the directory is read as the connector's
  profiles are (\<open>dir_view\<close>).
\<close>

datatype skill_error =
    SkUnknown string
  | SkMissingParam string
  | SkParam string param_error
  | SkIo string string
  | SkParse string string
  | SkUndeclaredSlot string nat string

fun show_skill_error :: "skill_error \<Rightarrow> string" where
  "show_skill_error (SkUnknown n) = ''unknown skill `'' @ n @ ''`''"
| "show_skill_error (SkMissingParam p) = ''missing required param `'' @ p @ ''`''"
| "show_skill_error (SkParam p e) = ''param `'' @ p @ ''` invalid: '' @ show_param_error e"
| "show_skill_error (SkIo path e) = ''io reading skills dir `'' @ path @ ''`: '' @ e"
| "show_skill_error (SkParse path e) = ''parse skill `'' @ path @ ''`: '' @ e"
| "show_skill_error (SkUndeclaredSlot skill i p) =
     ''skill `'' @ skill @ ''` step '' @ show_nat i @ '' references undeclared param `'' @ p @ ''`''"

record skill_param =
  skp_name :: string
  skp_class :: "string option"
  skp_description :: "string option"

record skill_step =
  sks_capability :: string
  sks_version :: string
  sks_target :: "string option"
  sks_params :: json
  sks_depends_on :: "nat list"

record skill =
  sk_name :: string
  sk_description :: string
  sk_params :: "skill_param list"
  sk_steps :: "skill_step list"

definition skill_class :: "string option \<Rightarrow> param_class" where
  "skill_class s =
     (if s = Some ''cidr'' then Cidr
      else if s = Some ''identifier'' then Identifier
      else if s = Some ''int'' then IntClass
      else SafeText)"

section \<open>Instances\<close>

fun validate_inputs ::
  "(string, string) bmap \<Rightarrow> skill_param list \<Rightarrow> (string, string) bmap \<Rightarrow> ((string, string) bmap, skill_error) result" where
  "validate_inputs inputs [] vals = Ok vals"
| "validate_inputs inputs (p # ps) vals =
     bind_result (ok_or (map_of inputs (skp_name p)) (SkMissingParam (skp_name p))) (\<lambda>raw.
     bind_result (map_err (SkParam (skp_name p)) (validate raw (skill_class (skp_class p)))) (\<lambda>_.
     validate_inputs inputs ps (bt_insert (skp_name p) raw vals)))"

function slot_loop ::
  "string \<Rightarrow> nat \<Rightarrow> (string, string) bmap \<Rightarrow> string \<Rightarrow> string \<Rightarrow> (string, skill_error) result" where
  "slot_loop skill step vals out rest =
     (case split_once (CHR ''{'') rest of
        None \<Rightarrow> Ok (out @ rest)
      | Some (lit, after) \<Rightarrow>
          (case split_once (CHR ''}'') after of
             None \<Rightarrow> Err (SkUndeclaredSlot skill step after)
           | Some (name, rest') \<Rightarrow>
               (case map_of vals name of
                  None \<Rightarrow> Err (SkUndeclaredSlot skill step name)
                | Some v \<Rightarrow> slot_loop skill step vals (out @ lit @ v) rest')))"
  by pat_completeness auto
termination
  by (relation "measure (\<lambda>(_, _, _, _, rest). length rest)") (auto dest!: split_once_shorter)

declare slot_loop.simps [simp del]

definition fill_slots :: "string \<Rightarrow> string \<Rightarrow> nat \<Rightarrow> (string, string) bmap \<Rightarrow> (string, skill_error) result" where
  "fill_slots template skill step vals = slot_loop skill step vals '''' template"

fun fill_json :: "string \<Rightarrow> nat \<Rightarrow> (string, string) bmap \<Rightarrow> json \<Rightarrow> (json, skill_error) result"
  and fill_items :: "string \<Rightarrow> nat \<Rightarrow> (string, string) bmap \<Rightarrow> json list \<Rightarrow> (json list, skill_error) result"
  and fill_members :: "string \<Rightarrow> nat \<Rightarrow> (string, string) bmap \<Rightarrow> (string \<times> json) list \<Rightarrow> ((string \<times> json) list, skill_error) result" where
  "fill_json skill step vals (JStr s) = bind_result (fill_slots s skill step vals) (\<lambda>t. Ok (JStr t))"
| "fill_json skill step vals (JArr xs) = bind_result (fill_items skill step vals xs) (\<lambda>ys. Ok (JArr ys))"
| "fill_json skill step vals (JObj m) = bind_result (fill_members skill step vals m) (\<lambda>m'. Ok (JObj m'))"
| "fill_json skill step vals v = Ok v"
| "fill_items skill step vals [] = Ok []"
| "fill_items skill step vals (x # xs) =
     bind_result (fill_json skill step vals x) (\<lambda>y. bind_result (fill_items skill step vals xs) (\<lambda>ys. Ok (y # ys)))"
| "fill_members skill step vals [] = Ok []"
| "fill_members skill step vals ((k, x) # m) =
     bind_result (fill_json skill step vals x) (\<lambda>y. bind_result (fill_members skill step vals m) (\<lambda>m'. Ok ((k, y) # m')))"

definition fill_target :: "string \<Rightarrow> nat \<Rightarrow> (string, string) bmap \<Rightarrow> string option \<Rightarrow> (string option, skill_error) result" where
  "fill_target skill step vals t =
     (case t of None \<Rightarrow> Ok None | Some s \<Rightarrow> bind_result (fill_slots s skill step vals) (\<lambda>x. Ok (Some x)))"

definition fill_step :: "string \<Rightarrow> nat \<Rightarrow> (string, string) bmap \<Rightarrow> skill_step \<Rightarrow> (step_def, skill_error) result" where
  "fill_step skill i vals st =
     bind_result (fill_target skill i vals (sks_target st)) (\<lambda>target.
     bind_result (fill_json skill i vals (sks_params st)) (\<lambda>params.
     Ok \<lparr>sd_capability_name = sks_capability st, sd_capability_version = sks_version st, sd_target_ref = target,
         sd_credential_ref = None, sd_params = params, sd_depends_on_index = sks_depends_on st\<rparr>))"

fun fill_steps :: "string \<Rightarrow> nat \<Rightarrow> (string, string) bmap \<Rightarrow> skill_step list \<Rightarrow> (step_def list, skill_error) result" where
  "fill_steps skill i vals [] = Ok []"
| "fill_steps skill i vals (st # sts) =
     bind_result (fill_step skill i vals st) (\<lambda>d. bind_result (fill_steps skill (Suc i) vals sts) (\<lambda>ds. Ok (d # ds)))"

definition instantiate :: "skill \<Rightarrow> (string, string) bmap \<Rightarrow> (step_def list, skill_error) result" where
  "instantiate sk inputs =
     bind_result (validate_inputs inputs (sk_params sk) []) (\<lambda>vals. fill_steps (sk_name sk) 0 vals (sk_steps sk))"

section \<open>The library\<close>

fun read_skills ::
  "(string \<Rightarrow> (skill, string) result) \<Rightarrow> string \<Rightarrow> (dir_file, string) result list \<Rightarrow> (string, skill) bmap \<Rightarrow>
   ((string, skill) bmap, skill_error) result" where
  "read_skills toml dir [] m = Ok m"
| "read_skills toml dir (Err e # es) m = Err (SkIo dir e)"
| "read_skills toml dir (Ok f # es) m =
     (if df_extension f \<noteq> Some ''toml'' then read_skills toml dir es m
      else bind_result (map_err (SkIo (df_path f)) (df_text f)) (\<lambda>txt.
           bind_result (map_err (SkParse (df_path f)) (toml txt)) (\<lambda>sk.
           read_skills toml dir es (bt_insert (sk_name sk) sk m))))"

definition skills_from_dir ::
  "(string \<Rightarrow> (skill, string) result) \<Rightarrow> string \<Rightarrow> dir_view \<Rightarrow> ((string, skill) bmap, skill_error) result" where
  "skills_from_dir toml dir view =
     (case view of None \<Rightarrow> Ok [] | Some (Err e) \<Rightarrow> Err (SkIo dir e) | Some (Ok entries) \<Rightarrow> read_skills toml dir entries [])"

definition skills_list :: "(string, skill) bmap \<Rightarrow> (string \<times> string) list" where
  "skills_list m = map (\<lambda>(_, s). (sk_name s, sk_description s)) m"

section \<open>Server functions\<close>

definition list_skills ::
  "('i, 't, 'a, 'd, 'g, 'm, 'r, 'f) admin_env \<Rightarrow> (string, skill) bmap \<Rightarrow> millis \<Rightarrow> string option \<Rightarrow>
   (('i, 't, 'a, 'b, 'd, 'g, 'm, 'r) admin_console, (string \<times> string) list, string) eff" where
  "list_skills env lib now cookie =
     bindE (on_ac_console (on_app (require_authenticated (an_app env) now cookie))) (\<lambda>_. retE (skills_list lib))"

text \<open>The value is the plan's id, with the task that is left running: the plan and the user it runs for.\<close>

definition run_skill ::
  "('i, 't, 'a, 'd, 'g, 'm, 'r, 'f) admin_env \<Rightarrow> (string, skill) bmap \<Rightarrow> uuid \<Rightarrow> uuid list \<Rightarrow> millis \<Rightarrow> string option \<Rightarrow>
   string \<Rightarrow> (string, string) bmap \<Rightarrow> (('i, 't, 'a, 'b, 'd, 'g, 'm, 'r) admin_console, string \<times> (uuid \<times> string), string) eff" where
  "run_skill env lib u ids now cookie name params =
     bindE (admin_gate env now cookie) (\<lambda>cl.
     bindE (liftE (ok_or (map_of lib name) (''unknown skill: '' @ name))) (\<lambda>sk.
     bindE (liftE (map_err (\<lambda>e. ''skill `'' @ name @ ''`: '' @ show_skill_error e) (instantiate sk params))) (\<lambda>steps.
     bindE (on_ac_orch ''create_plan'' (create_plan (an_orch env) u ids (Some (cm_user_id cl)) (''skill:'' @ name) steps)) (\<lambda>p.
     retE (pl_id p, (pl_id p, cm_sub cl))))))"

text \<open>The task: a failure is only logged.\<close>

definition background_run ::
  "('i, 't, 'a, 'd, 'g, 'm, 'r, 'f) admin_env \<Rightarrow> uuid \<times> string \<Rightarrow>
   ('i, 't, 'a, 'b, 'd, 'g, 'm, 'r) admin_console \<Rightarrow> ('i, 't, 'a, 'b, 'd, 'g, 'm, 'r) admin_console" where
  "background_run env task w = snd (on_ac_orch ''run_plan'' (run_plan (an_orch env) (fst task) (snd task)) w)"

section \<open>Lemmas\<close>

text \<open>The slots are filled as the connector fills those of its templates: the two functions differ in their errors only.\<close>

lemma slot_loop_agrees: "result_ok (slot_loop skill i vals out rest) = result_ok (substitute_loop cap vals out rest)"
proof (induction skill i vals out rest rule: slot_loop.induct)
  case (1 skill i vals out rest)
  show ?case
  proof (cases "split_once (CHR ''{'') rest")
    case None
    then show ?thesis by (subst slot_loop.simps, subst substitute_loop.simps) simp
  next
    case (Some la)
    obtain lit after where la: "la = (lit, after)" by (cases la)
    show ?thesis using "1.IH" [OF Some la [symmetric]]
      by (subst slot_loop.simps, subst substitute_loop.simps) (simp add: Some la split: option.split)
  qed
qed

lemma fill_slots_agrees: "fill_slots template skill i vals = Ok t \<longleftrightarrow> substitute template cap vals = Ok t"
  using slot_loop_agrees [of skill i vals "''''" template cap] unfolding fill_slots_def substitute_def
  by (cases "slot_loop skill i vals '''' template"; cases "substitute_loop cap vals '''' template") auto

lemma skill_class_safe: "class_safe (skill_class s)"
  by (simp add: skill_class_def)

definition clean_vals :: "(string, string) bmap \<Rightarrow> bool" where
  "clean_vals vals \<longleftrightarrow> bt_wf vals \<and> (\<forall>n v. map_of vals n = Some v \<longrightarrow> \<not> list_ex is_metachar v)"

lemma clean_vals_insert: "clean_vals vals \<Longrightarrow> \<not> list_ex is_metachar raw \<Longrightarrow> clean_vals (bt_insert n raw vals)"
  unfolding clean_vals_def by (auto simp: bt_insert_wf bt_insert_get)

lemma validate_inputs_clean: "validate_inputs inputs ps vals = Ok vals' \<Longrightarrow> clean_vals vals \<Longrightarrow> clean_vals vals'"
proof (induction ps arbitrary: vals)
  case Nil
  then show ?case by simp
next
  case (Cons p ps)
  from Cons.prems(1) obtain raw where raw: "validate raw (skill_class (skp_class p)) = Ok ()"
    and rest: "validate_inputs inputs ps (bt_insert (skp_name p) raw vals) = Ok vals'"
    by (auto simp: bind_result_Ok_iff map_err_Ok_iff)
  have "\<not> list_ex is_metachar raw" using validate_no_metachar [OF raw skill_class_safe] .
  then show ?case by (rule Cons.IH [OF rest clean_vals_insert [OF Cons.prems(2)]])
qed

text \<open>Two JSON values of the same form whose strings are related one by one; member names and everything that is not a string are equal.\<close>

inductive json_rel :: "(string \<Rightarrow> string \<Rightarrow> bool) \<Rightarrow> json \<Rightarrow> json \<Rightarrow> bool" for R :: "string \<Rightarrow> string \<Rightarrow> bool" where
  jr_str: "R s t \<Longrightarrow> json_rel R (JStr s) (JStr t)"
| jr_arr: "list_all2 (json_rel R) xs ys \<Longrightarrow> json_rel R (JArr xs) (JArr ys)"
| jr_obj: "list_all2 (\<lambda>p q. fst p = fst q \<and> json_rel R (snd p) (snd q)) m m' \<Longrightarrow> json_rel R (JObj m) (JObj m')"
| jr_null: "json_rel R JNull JNull"
| jr_bool: "json_rel R (JBool b) (JBool b)"
| jr_num: "json_rel R (JNum n) (JNum n)"

text \<open>The text was rendered from the template, and its command characters are those of the template's own text.\<close>

definition clean_fill :: "string \<Rightarrow> string \<Rightarrow> bool" where
  "clean_fill template t \<longleftrightarrow>
     (\<exists>ps. template_pieces template ps \<and> filter is_metachar t = filter is_metachar (literal_text ps))"

lemma fill_slots_clean:
  assumes "fill_slots template skill i vals = Ok t" "clean_vals vals"
  shows "clean_fill template t"
proof -
  have "substitute template skill vals = Ok t" using assms(1) fill_slots_agrees by blast
  then obtain ps where "template_pieces template ps" "fill (map_of vals) ps = Some t" by (rule substitute_spec)
  then show ?thesis using fill_metachars [of "map_of vals" ps t] assms(2) unfolding clean_fill_def clean_vals_def by blast
qed

lemma fill_json_clean:
  assumes "clean_vals vals"
  shows "fill_json skill i vals v = Ok v' \<Longrightarrow> json_rel clean_fill v v'"
    and "fill_items skill i vals xs = Ok ys \<Longrightarrow> list_all2 (json_rel clean_fill) xs ys"
    and "fill_members skill i vals m = Ok m' \<Longrightarrow> list_all2 (\<lambda>p q. fst p = fst q \<and> json_rel clean_fill (snd p) (snd q)) m m'"
  using assms
proof (induction skill i vals v and skill i vals xs and skill i vals m arbitrary: v' and ys and m' rule: fill_json_fill_items_fill_members.induct)
  case (1 skill step vals s)
  then show ?case by (auto simp: bind_result_Ok_iff intro: jr_str fill_slots_clean)
qed (auto simp: bind_result_Ok_iff intro: json_rel.intros)

definition filled_step :: "skill_step \<Rightarrow> step_def \<Rightarrow> bool" where
  "filled_step st d \<longleftrightarrow>
     sd_capability_name d = sks_capability st \<and> sd_capability_version d = sks_version st \<and> sd_credential_ref d = None \<and>
     sd_depends_on_index d = sks_depends_on st \<and> rel_option clean_fill (sks_target st) (sd_target_ref d) \<and>
     json_rel clean_fill (sks_params st) (sd_params d)"

lemma fill_step_clean:
  assumes "fill_step skill i vals st = Ok d" "clean_vals vals"
  shows "filled_step st d"
  using assms fill_json_clean(1) [of vals skill i "sks_params st"]
  by (auto simp: fill_step_def filled_step_def fill_target_def bind_result_Ok_iff intro: fill_slots_clean split: option.splits)

lemma fill_steps_clean:
  assumes "clean_vals vals"
  shows "fill_steps skill i vals sts = Ok ds \<Longrightarrow> list_all2 filled_step sts ds"
  by (induction sts arbitrary: i ds) (auto simp: bind_result_Ok_iff intro: fill_step_clean assms)

text \<open>A parameter that is missing or not valid fails before a plan is stored.\<close>

lemma run_skill_bad_params:
  assumes "require_admin (an_app env) now cookie (co_app (ac_console w)) = (Ok cl, a)"
    and "map_of lib name = Some sk" "instantiate sk params = Err e"
  shows "run_skill env lib u ids now cookie name params w = (Err (''skill `'' @ name @ ''`: '' @ show_skill_error e), set_app a w)"
  using assms by (simp add: run_skill_def gate_passed ok_or_def liftE_run bindE_run_Ok bindE_run_Err)

lemma missing_input_refused:
  assumes "p \<in> set ps" "map_of inputs (skp_name p) = None"
  shows "\<not> is_ok (validate_inputs inputs ps vals)"
  using assms by (induction inputs ps vals rule: validate_inputs.induct) (auto simp: is_ok_iff bind_result_Ok_iff ok_or_def)

text \<open>The class \<open>safe_text\<close>, which is the default, accepts dots and slashes: a value may climb out of a directory.\<close>

lemma safe_text_traversal: "validate ''../../etc/passwd'' (skill_class None) = Ok ()"
  by code_simp

section \<open>Property\<close>

text \<open>C7: a skill cannot be given a value that turns into a command. In every plan made of a skill, for all inputs, each step has
  the capability, the version and the dependencies of its template and no credential of its own, its target and parameters have the form of
  the template, and each text in them has, in order, exactly the command characters of the template's own text: no
  input contributes one.\<close>

theorem skill_no_injection:
  assumes "instantiate sk inputs = Ok defs"
  shows "list_all2 filled_step (sk_steps sk) defs"
proof -
  from assms obtain vals where v: "validate_inputs inputs (sk_params sk) [] = Ok vals"
    and f: "fill_steps (sk_name sk) 0 vals (sk_steps sk) = Ok defs"
    by (auto simp: instantiate_def bind_result_Ok_iff)
  have "clean_vals vals" using validate_inputs_clean [OF v] by (simp add: clean_vals_def bt_wf_def)
  from fill_steps_clean [OF this f] show ?thesis .
qed

definition ex_skill :: skill where
  "ex_skill =
     \<lparr>sk_name = ''restart'', sk_description = '''', sk_params = [\<lparr>skp_name = ''svc'', skp_class = Some ''identifier'', skp_description = None\<rparr>],
      sk_steps = [\<lparr>sks_capability = ''compute.service.restart'', sks_version = ''1.0.0'', sks_target = None,
        sks_params = JStr ''{svc}; true'', sks_depends_on = []\<rparr>]\<rparr>"

theorem skill_no_injection_witness:
  "\<exists>defs. instantiate ex_skill [(''svc'', ''nginx'')] = Ok defs \<and> map sd_params defs = [JStr ''nginx; true''] \<and>
     list_all2 filled_step (sk_steps ex_skill) defs \<and> \<not> is_ok (instantiate ex_skill [(''svc'', ''a;b'')])"
proof -
  have "\<exists>defs. instantiate ex_skill [(''svc'', ''nginx'')] = Ok defs \<and> map sd_params defs = [JStr ''nginx; true'']"
    by (rule exI [of _ "get_ok (instantiate ex_skill [(''svc'', ''nginx'')])"]) code_simp
  then obtain defs where i: "instantiate ex_skill [(''svc'', ''nginx'')] = Ok defs" and d: "map sd_params defs = [JStr ''nginx; true'']"
    by (elim exE conjE)
  have "\<not> is_ok (instantiate ex_skill [(''svc'', ''a;b'')])" by code_simp
  with i d skill_no_injection [OF i] show ?thesis by (intro exI conjI)
qed

end
