(* ===== verification/Tables.thy ===== *)
theory Tables
  imports AdminConsole Observing
begin

text \<open>
  The logic of the console pages that is not rendering: the table component with its search, sort, pages and exports
  (\<open>components/sortable_table.rs\<close>), the figures of the dashboard (\<open>components/viz.rs\<close>, \<open>pages/dashboard.rs\<close>), and the forms of the
  target, credential and audit pages (\<open>pages/admin\<close>). The rows of a table are of any type with a text for each column.
  Lower-casing, float texts and JSON printing are those of the library, as parameters. Sizes are natural numbers: a product
  of page and page size that the browser could not represent needs more rows than it can hold.
\<close>

section \<open>The table\<close>

datatype sort_type = SortText | SortNumeric | SortPercentage

datatype sort_dir = SortAsc | SortDesc

record column_def =
  col_key :: string
  col_label :: string
  col_sortable :: bool
  col_default_hidden :: bool
  col_sort_type :: sort_type

definition cell_number :: "float_text \<Rightarrow> string \<Rightarrow> f64" where
  "cell_number fl v = (case fl_parse fl v of Some x \<Rightarrow> x | None \<Rightarrow> Finite 0)"

text \<open>\<open>partial_cmp\<close>, where not a number counts as equal to everything.\<close>

definition f64_cmp :: "f64 \<Rightarrow> f64 \<Rightarrow> ordering" where
  "f64_cmp x y = (if f64_less x y then OLess else if f64_less y x then OGreater else OEqual)"

definition cell_cmp :: "(string \<Rightarrow> string) \<Rightarrow> float_text \<Rightarrow> sort_type \<Rightarrow> string \<Rightarrow> string \<Rightarrow> ordering" where
  "cell_cmp lower fl ty va vb =
     (case ty of
        SortText \<Rightarrow> ord_of (lower va) (lower vb)
      | _ \<Rightarrow> f64_cmp (cell_number fl va) (cell_number fl vb))"

definition row_cmp ::
  "(string \<Rightarrow> string) \<Rightarrow> float_text \<Rightarrow> ('r \<Rightarrow> string \<Rightarrow> string) \<Rightarrow> string \<Rightarrow> sort_dir \<Rightarrow> sort_type \<Rightarrow> 'r \<Rightarrow> 'r \<Rightarrow> ordering" where
  "row_cmp lower fl cell col dir ty a b =
     (let o' = cell_cmp lower fl ty (cell a col) (cell b col) in case dir of SortAsc \<Rightarrow> o' | SortDesc \<Rightarrow> reverse_ord o')"

text \<open>No result for a comparison that is no total order on the rows: the sort may panic then, or leave them in any order.\<close>

definition sort_rows ::
  "(string \<Rightarrow> string) \<Rightarrow> float_text \<Rightarrow> ('r \<Rightarrow> string \<Rightarrow> string) \<Rightarrow> 'r list \<Rightarrow> string \<Rightarrow> sort_dir \<Rightarrow> sort_type \<Rightarrow> 'r list option" where
  "sort_rows lower fl cell rows col dir ty = sort_by (row_cmp lower fl cell col dir ty) rows"

definition row_matches :: "(string \<Rightarrow> string) \<Rightarrow> ('r \<Rightarrow> string \<Rightarrow> string) \<Rightarrow> string \<Rightarrow> string list \<Rightarrow> 'r \<Rightarrow> bool" where
  "row_matches lower cell query cols row \<longleftrightarrow> list_ex (\<lambda>col. contains_str (lower (cell row col)) (lower query)) cols"

definition filter_rows :: "(string \<Rightarrow> string) \<Rightarrow> ('r \<Rightarrow> string \<Rightarrow> string) \<Rightarrow> 'r list \<Rightarrow> string \<Rightarrow> string list \<Rightarrow> 'r list" where
  "filter_rows lower cell rows query cols = (if query = '''' then rows else filter (row_matches lower cell query cols) rows)"

definition paginate :: "'r list \<Rightarrow> nat \<Rightarrow> nat \<Rightarrow> 'r list" where
  "paginate rows page page_size =
     (let start = page * page_size
      in if length rows \<le> start then []
         else let stop = min (start + page_size) (length rows) in take (stop - start) (drop start rows))"

definition total_pages :: "nat \<Rightarrow> nat \<Rightarrow> nat" where
  "total_pages row_count page_size = (if page_size = 0 then 0 else (row_count + page_size - 1) div page_size)"

text \<open>A comma or a quotation mark puts the value in quotation marks, with its own ones doubled.\<close>

definition double_quotes :: "string \<Rightarrow> string" where
  "double_quotes v = concat (map (\<lambda>c. if c = CHR 0x22 then [CHR 0x22, CHR 0x22] else [c]) v)"

definition csv_cell :: "string \<Rightarrow> string" where
  "csv_cell v = (if CHR '','' \<in> set v \<or> CHR 0x22 \<in> set v then CHR 0x22 # double_quotes v @ [CHR 0x22] else v)"

definition csv_line :: "string list \<Rightarrow> string" where
  "csv_line cells = join '','' cells @ newline"

definition export_csv :: "('r \<Rightarrow> string \<Rightarrow> string) \<Rightarrow> 'r list \<Rightarrow> column_def list \<Rightarrow> string" where
  "export_csv cell rows columns =
     csv_line (map col_label columns) @
     concat (map (\<lambda>row. csv_line (map (\<lambda>c. csv_cell (cell row (col_key c))) columns)) rows)"

definition export_json :: "(json \<Rightarrow> string) \<Rightarrow> ('r \<Rightarrow> string \<Rightarrow> string) \<Rightarrow> 'r list \<Rightarrow> column_def list \<Rightarrow> string" where
  "export_json pretty cell rows columns =
     pretty (JArr (map (\<lambda>row. j_obj (map (\<lambda>c. (col_key c, JStr (cell row (col_key c)))) columns)) rows))"

text \<open>What the browser has stored for a table (\<open>stored\<close>, its decoder \<open>decode\<close>), or the columns hidden by default.\<close>

definition load_hidden_cols :: "(string \<Rightarrow> string list option) \<Rightarrow> string option \<Rightarrow> column_def list \<Rightarrow> string list" where
  "load_hidden_cols decode stored columns =
     (case Option.bind stored decode of
        Some keys \<Rightarrow> keys
      | None \<Rightarrow> map col_key (filter col_default_hidden columns))"

definition visible_keys :: "string list \<Rightarrow> column_def list \<Rightarrow> string list" where
  "visible_keys hidden columns = map col_key (filter (\<lambda>c. col_key c \<notin> set hidden) columns)"

definition type_of_column :: "column_def list \<Rightarrow> string \<Rightarrow> sort_type" where
  "type_of_column columns col = (case find (\<lambda>c. col_key c = col) columns of Some c \<Rightarrow> col_sort_type c | None \<Rightarrow> SortText)"

definition compute_processed ::
  "(string \<Rightarrow> string) \<Rightarrow> float_text \<Rightarrow> ('r \<Rightarrow> string \<Rightarrow> string) \<Rightarrow> 'r list \<Rightarrow> column_def list \<Rightarrow> string list \<Rightarrow> string \<Rightarrow>
   string option \<Rightarrow> sort_dir option \<Rightarrow> 'r list option" where
  "compute_processed lower fl cell rows columns hidden query sort_col dir =
     (let filtered = filter_rows lower cell rows query (visible_keys hidden columns)
      in case (sort_col, dir) of
           (Some col, Some d) \<Rightarrow>
             sort_rows lower fl cell filtered col d (type_of_column columns col)
         | _ \<Rightarrow> Some filtered)"

section \<open>Figures\<close>

record dist_seg =
  ds_label :: string
  ds_count :: nat

definition plan_dist :: "plan_list_row list \<Rightarrow> dist_seg list" where
  "plan_dist plans =
     (let count = (\<lambda>ss. length (filter (\<lambda>p. plr_status p \<in> set ss) plans));
          known = [''succeeded'', ''planning'', ''awaiting_approval'', ''executing'', ''failed'', ''rolled_back'', ''cancelled''];
          other = length (filter (\<lambda>p. plr_status p \<notin> set known) plans)
      in [\<lparr>ds_label = ''Succeeded'', ds_count = count [''succeeded'']\<rparr>,
          \<lparr>ds_label = ''Active'', ds_count = count [''planning'', ''awaiting_approval'', ''executing'']\<rparr>,
          \<lparr>ds_label = ''Failed'', ds_count = count [''failed'']\<rparr>,
          \<lparr>ds_label = ''Rolled back'', ds_count = count [''rolled_back'', ''cancelled'']\<rparr>] @
         (if other > 0 then [\<lparr>ds_label = ''Other'', ds_count = other\<rparr>] else []))"

definition severity_dist :: "string list \<Rightarrow> dist_seg list" where
  "severity_dist severities =
     (let crit = length (filter (\<lambda>s. s = ''critical'') severities); warn = length (filter (\<lambda>s. s = ''warning'') severities)
      in [\<lparr>ds_label = ''Critical'', ds_count = crit\<rparr>, \<lparr>ds_label = ''Warning'', ds_count = warn\<rparr>,
          \<lparr>ds_label = ''Info'', ds_count = length severities - (crit + warn)\<rparr>])"

text \<open>Counts by day, the days in order and the last \<open>max_buckets\<close> of them. Slicing in the middle of a character panics.\<close>

definition bump :: "string \<Rightarrow> (string, nat) bmap \<Rightarrow> (string, nat) bmap" where
  "bump d m = bt_insert d ((case map_of m d of Some n \<Rightarrow> n | None \<Rightarrow> 0) + 1) m"

fun count_days :: "string list \<Rightarrow> (string, nat) bmap \<Rightarrow> (string, nat) bmap option" where
  "count_days [] m = Some m"
| "count_days (ts # tss) m =
     (if 10 \<le> length ts then Option.bind (slice_to 10 ts) (\<lambda>d. count_days tss (bump d m)) else count_days tss m)"

definition bucket_by_day :: "string list \<Rightarrow> nat \<Rightarrow> nat list option" where
  "bucket_by_day timestamps max_buckets =
     map_option (\<lambda>m. let counts = map snd m
                     in if length counts > max_buckets then drop (length counts - max_buckets) counts else counts)
       (count_days timestamps [])"

definition format_uptime :: "nat \<Rightarrow> string" where
  "format_uptime secs =
     (if secs = 0 then ''-''
      else let days = secs div 86400; hours = (secs mod 86400) div 3600; mins = (secs mod 3600) div 60
           in if days > 0 then show_nat days @ ''d '' @ show_nat hours @ ''h''
              else if hours > 0 then show_nat hours @ ''h '' @ show_nat mins @ ''m''
              else show_nat mins @ ''m'')"

section \<open>Forms\<close>

definition parse_action :: "string \<Rightarrow> action_kind" where
  "parse_action label =
     (case map_of (map (\<lambda>a. (action_label a, a))
        [BrokerExecute, VaultResolve, VaultReveal, VaultCreate, VaultUpdate, VaultRename, VaultDelete, InventoryUpsert, InventoryRemove,
         InventoryResolve, TransportDispatch, GuardApprove, GuardDeny]) label of
        Some a \<Rightarrow> a | None \<Rightarrow> ActionOther)"

text \<open>Rows of a form: blank keys are left out, the last value of a key counts.\<close>

definition collect_rows :: "(string \<times> string) list \<Rightarrow> (string, string) bmap" where
  "collect_rows rows = foldl (\<lambda>m (k, v). if trim k = '''' then m else bt_insert (trim k) v m) [] rows"

record credential_draft =
  cdr_kind :: credential_kind
  cdr_ssh_key_username :: string
  cdr_ssh_key_pem :: string
  cdr_ssh_key_passphrase :: string
  cdr_ssh_password_username :: string
  cdr_ssh_password_password :: string
  cdr_api_token :: string
  cdr_generic_rows :: "(string \<times> string) list"

definition credential_draft_default :: credential_draft where
  "credential_draft_default =
     \<lparr>cdr_kind = CkSshKey, cdr_ssh_key_username = '''', cdr_ssh_key_pem = '''', cdr_ssh_key_passphrase = '''',
      cdr_ssh_password_username = '''', cdr_ssh_password_password = '''', cdr_api_token = '''', cdr_generic_rows = [('''', '''')]\<rparr>"

definition try_to_dto :: "credential_draft \<Rightarrow> (credential_dto, string) result" where
  "try_to_dto d =
     (case cdr_kind d of
        CkSshKey \<Rightarrow>
          (if trim (cdr_ssh_key_username d) = '''' then Err ''Username is required''
           else if trim (cdr_ssh_key_pem d) = '''' then Err ''Private key PEM is required''
           else Ok (DtoSshKey (cdr_ssh_key_username d) (cdr_ssh_key_pem d)
                      (if cdr_ssh_key_passphrase d = '''' then None else Some (cdr_ssh_key_passphrase d))))
      | CkSshPassword \<Rightarrow>
          (if trim (cdr_ssh_password_username d) = '''' then Err ''Username is required''
           else if cdr_ssh_password_password d = '''' then Err ''Password is required''
           else Ok (DtoSshPassword (cdr_ssh_password_username d) (cdr_ssh_password_password d)))
      | CkApiToken \<Rightarrow> (if cdr_api_token d = '''' then Err ''Token is required'' else Ok (DtoApiToken (cdr_api_token d)))
      | CkGeneric \<Rightarrow>
          (let fs = collect_rows (cdr_generic_rows d)
           in if fs = [] then Err ''At least one key/value pair is required'' else Ok (DtoGeneric fs)))"

definition format_secret_for_clipboard :: "credential_dto \<Rightarrow> string" where
  "format_secret_for_clipboard s =
     (case s of
        DtoSshKey username pem pass \<Rightarrow>
          ''username: '' @ username @ newline @ ''private_key_pem:'' @ newline @ pem @
          (case pass of Some p \<Rightarrow> newline @ ''passphrase: '' @ p | None \<Rightarrow> '''')
      | DtoSshPassword username password \<Rightarrow> ''username: '' @ username @ newline @ ''password: '' @ password
      | DtoApiToken token \<Rightarrow> token
      | DtoGeneric fs \<Rightarrow> join newline (map (\<lambda>(k, v). k @ '': '' @ v) fs))"

record target_draft =
  tdr_ref_name :: string
  tdr_kind :: target_kind
  tdr_transport :: transport_kind
  tdr_host :: string
  tdr_port :: string
  tdr_port_touched :: bool
  tdr_credential_ref :: string
  tdr_labels :: "(string \<times> string) list"
  tdr_capabilities :: "string list"

definition target_draft_default :: target_draft where
  "target_draft_default =
     \<lparr>tdr_ref_name = '''', tdr_kind = TkHost, tdr_transport = TrSsh, tdr_host = '''', tdr_port = show_nat (unat (default_port TrSsh)),
      tdr_port_touched = False, tdr_credential_ref = '''', tdr_labels = [], tdr_capabilities = []\<rparr>"

definition draft_of_dto :: "target_dto \<Rightarrow> target_draft" where
  "draft_of_dto dto =
     \<lparr>tdr_ref_name = td_ref_name dto, tdr_kind = td_kind dto, tdr_transport = td_transport dto, tdr_host = td_host dto,
      tdr_port = show_nat (unat (td_port dto)), tdr_port_touched = True, tdr_credential_ref = td_credential_ref dto,
      tdr_labels = td_labels dto, tdr_capabilities = td_capabilities dto\<rparr>"

text \<open>\<open>str::parse\<close> at \<open>u16\<close>: digits with an optional plus sign, at most 65535.\<close>

definition parse_u16 :: "string \<Rightarrow> 16 word option" where
  "parse_u16 s =
     (case parse_digits (case s of c # cs \<Rightarrow> if c = CHR ''+'' then cs else s | [] \<Rightarrow> s) of
        Some n \<Rightarrow> if n < 65536 then Some (word_of_nat n) else None
      | None \<Rightarrow> None)"

definition draft_to_dto :: "target_draft \<Rightarrow> (target_dto, string) result" where
  "draft_to_dto d =
     (if trim (tdr_ref_name d) = '''' then Err ''Ref name is required''
      else if trim (tdr_host d) = '''' then Err ''Host is required''
      else bind_result (ok_or (parse_u16 (trim (tdr_port d))) ''Port must be a number between 1 and 65535'') (\<lambda>port.
           Ok \<lparr>td_ref_name = trim (tdr_ref_name d), td_kind = tdr_kind d, td_transport = tdr_transport d, td_host = trim (tdr_host d),
               td_port = port, td_credential_ref = trim (tdr_credential_ref d), td_labels = collect_rows (tdr_labels d),
               td_capabilities = tdr_capabilities d\<rparr>))"

section \<open>Lemmas: sorting and pages\<close>

lemma f64_less_trans: "f64_less x y \<Longrightarrow> f64_less y z \<Longrightarrow> f64_less x z"
  by (cases x; cases y; cases z) simp_all

lemma f64_less_asym: "f64_less x y \<Longrightarrow> \<not> f64_less y x"
  by (cases x; cases y) simp_all

lemma f64_le_trans: "x \<noteq> NaN \<Longrightarrow> y \<noteq> NaN \<Longrightarrow> z \<noteq> NaN \<Longrightarrow> \<not> f64_less y x \<Longrightarrow> \<not> f64_less z y \<Longrightarrow> \<not> f64_less z x"
  by (cases x; cases y; cases z) simp_all

lemma f64_comparison: "comparison (\<lambda>x. x \<noteq> NaN) f64_cmp"
proof
  show "f64_cmp y x = reverse_ord (f64_cmp x y)" for x y using f64_less_asym [of x y] by (auto simp: f64_cmp_def)
  show "f64_cmp x z \<noteq> OGreater" if "x \<noteq> NaN" "y \<noteq> NaN" "z \<noteq> NaN" "f64_cmp x y \<noteq> OGreater" "f64_cmp y z \<noteq> OGreater" for x y z
    using that f64_le_trans [of x y z] f64_less_asym [of x y] f64_less_asym [of y z] by (auto simp: f64_cmp_def split: if_splits)
qed

text \<open>The rows a column orders: all of them for text, those that do not read as \<open>NaN\<close> otherwise.\<close>

definition sortable_row :: "float_text \<Rightarrow> ('r \<Rightarrow> string \<Rightarrow> string) \<Rightarrow> string \<Rightarrow> sort_type \<Rightarrow> 'r \<Rightarrow> bool" where
  "sortable_row fl cell col ty r \<longleftrightarrow> ty = SortText \<or> cell_number fl (cell r col) \<noteq> NaN"

lemma cell_comparison:
  "comparison (sortable_row fl cell col ty) (\<lambda>a b. cell_cmp lower fl ty (cell a col) (cell b col))"
proof (cases "ty = SortText")
  case True
  have "sortable_row fl cell col SortText = (\<lambda>_. True)" by (simp add: sortable_row_def fun_eq_iff)
  then show ?thesis using True by_key.comparison_axioms [of "\<lambda>r. lower (cell r col)"] by (simp add: cell_cmp_def)
next
  case False
  then have eq: "cell_cmp lower fl ty va vb = f64_cmp (cell_number fl va) (cell_number fl vb)" for va vb
    by (cases ty) (simp_all add: cell_cmp_def)
  show ?thesis unfolding eq
  proof
    let ?n = "\<lambda>r. cell_number fl (cell r col)"
    show "f64_cmp (?n b) (?n a) = reverse_ord (f64_cmp (?n a) (?n b))"
      if "sortable_row fl cell col ty a" "sortable_row fl cell col ty b" for a b
      by (rule comparison.swap [OF f64_comparison]) (use that False in \<open>simp_all add: sortable_row_def\<close>)
    show "f64_cmp (?n a) (?n c) \<noteq> OGreater"
      if "sortable_row fl cell col ty a" "sortable_row fl cell col ty b" "sortable_row fl cell col ty c"
        and "f64_cmp (?n a) (?n b) \<noteq> OGreater" "f64_cmp (?n b) (?n c) \<noteq> OGreater" for a b c
      by (rule comparison.trans [OF f64_comparison, of _ "?n b"]) (use that False in \<open>simp_all add: sortable_row_def\<close>)
  qed
qed

interpretation rows: comparison "sortable_row fl cell col ty" "row_cmp lower fl cell col dir ty" for lower fl cell col dir ty
proof (cases dir)
  case SortAsc
  then show "comparison (sortable_row fl cell col ty) (row_cmp lower fl cell col dir ty)"
    using cell_comparison [of fl cell col ty lower] by (simp add: row_cmp_def [abs_def])
next
  case SortDesc
  then show "comparison (sortable_row fl cell col ty) (row_cmp lower fl cell col dir ty)"
    using comparison.reversed [OF cell_comparison [of fl cell col ty lower]] by (simp add: row_cmp_def [abs_def])
qed

text \<open>With a cell that reads as \<open>NaN\<close> the comparison is no order: three rows compare in a circle.\<close>

lemma nan_breaks_order: "f64_cmp (Finite 2) NaN = OEqual \<and> f64_cmp NaN (Finite 1) = OEqual \<and> f64_cmp (Finite 2) (Finite 1) = OGreater"
  by (simp add: f64_cmp_def)

lemma paginate_slice: "paginate rows p k = take k (drop (p * k) rows)"
  by (auto simp: paginate_def Let_def min_def)

lemma pages_prefix: "concat (map (\<lambda>p. paginate rows p k) [0..<n]) = take (n * k) rows"
  by (induction n) (simp_all add: paginate_slice take_add [symmetric] add.commute)

lemma total_pages_enough: "0 < k \<Longrightarrow> n \<le> total_pages n k * k"
proof -
  assume "0 < k"
  then have "n + k - 1 < (n + k - 1) div k * k + k" using mod_less_divisor [of k "n + k - 1"] div_mult_mod_eq [of "n + k - 1" k] by linarith
  then show ?thesis using \<open>0 < k\<close> unfolding total_pages_def by simp
qed

lemma pages_complete: "0 < k \<Longrightarrow> concat (map (\<lambda>p. paginate rows p k) [0..<total_pages (length rows) k]) = rows"
  using total_pages_enough [of k "length rows"] by (simp add: pages_prefix)

text \<open>The order of a column, without a direction: by the lower-cased text, or by the number, where a text that is none counts as 0.\<close>

definition cell_below :: "(string \<Rightarrow> string) \<Rightarrow> float_text \<Rightarrow> sort_type \<Rightarrow> string \<Rightarrow> string \<Rightarrow> bool" where
  "cell_below lower fl ty va vb =
     (case ty of
        SortText \<Rightarrow> lower va < lower vb
      | SortNumeric \<Rightarrow> f64_less (cell_number fl va) (cell_number fl vb)
      | SortPercentage \<Rightarrow> f64_less (cell_number fl va) (cell_number fl vb))"

lemma cell_cmp_below:
  "cell_cmp lower fl ty va vb = OLess \<longleftrightarrow> cell_below lower fl ty va vb"
  "cell_cmp lower fl ty va vb = OGreater \<longleftrightarrow> cell_below lower fl ty vb va"
  "cell_cmp lower fl ty va vb = OEqual \<longleftrightarrow> \<not> cell_below lower fl ty va vb \<and> \<not> cell_below lower fl ty vb va"
  using f64_less_asym [of "cell_number fl va" "cell_number fl vb"]
  by (cases ty; auto simp: cell_cmp_def cell_below_def f64_cmp_def ord_of_def)+

lemma row_cmp_below:
  "row_cmp lower fl cell col d ty a b \<noteq> OGreater \<longleftrightarrow>
     (case d of SortAsc \<Rightarrow> \<not> cell_below lower fl ty (cell b col) (cell a col) | SortDesc \<Rightarrow> \<not> cell_below lower fl ty (cell a col) (cell b col))"
  "row_cmp lower fl cell col d ty a b = OEqual \<longleftrightarrow>
     \<not> cell_below lower fl ty (cell a col) (cell b col) \<and> \<not> cell_below lower fl ty (cell b col) (cell a col)"
  by (cases d; simp add: row_cmp_def Let_def cell_cmp_below)+

text \<open>A row matches when one of the columns that are not hidden has the search text in it, in lower case.\<close>

definition shows_query :: "(string \<Rightarrow> string) \<Rightarrow> ('r \<Rightarrow> string \<Rightarrow> string) \<Rightarrow> column_def list \<Rightarrow> string list \<Rightarrow> string \<Rightarrow> 'r \<Rightarrow> bool" where
  "shows_query lower cell columns hidden query r \<longleftrightarrow> query = '''' \<or>
     (\<exists>c \<in> set columns. col_key c \<notin> set hidden \<and> (\<exists>pre post. lower (cell r (col_key c)) = pre @ lower query @ post))"

lemma filter_rows_spec:
  "filter_rows lower cell rows query (visible_keys hidden columns) = filter (shows_query lower cell columns hidden query) rows"
proof -
  have "row_matches lower cell query (visible_keys hidden columns) r = shows_query lower cell columns hidden query r" if "query \<noteq> ''''" for r
    using that by (auto simp: row_matches_def shows_query_def visible_keys_def list_ex_iff contains_str_iff)
  then show ?thesis by (auto simp: filter_rows_def shows_query_def intro: filter_cong)
qed

lemma processed_None:
  assumes "compute_processed lower fl cell rows columns hidden query sort_col dir = None"
  shows "\<exists>col d. sort_col = Some col \<and> dir = Some d \<and> type_of_column columns col \<noteq> SortText \<and>
    (\<exists>r \<in> set rows. fl_parse fl (cell r col) = Some NaN)"
proof -
  obtain col d where c: "sort_col = Some col" "dir = Some d"
    "sort_rows lower fl cell (filter (shows_query lower cell columns hidden query) rows) col d (type_of_column columns col) = None"
    using assms by (auto simp: compute_processed_def Let_def filter_rows_spec split: option.splits)
  let ?ty = "type_of_column columns col"
  have "\<not> list_all (sortable_row fl cell col ?ty) (filter (shows_query lower cell columns hidden query) rows)"
    using c(3) comparison_subset [OF rows.comparison_axioms [of fl cell col ?ty lower d]] by (auto simp: sort_rows_def sort_by_def split: if_splits)
  then obtain r where "r \<in> set rows" "?ty \<noteq> SortText" "cell_number fl (cell r col) = NaN"
    by (auto simp: list_all_iff sortable_row_def)
  then show ?thesis using c(1,2) by (auto simp: cell_number_def split: option.splits)
qed

section \<open>Lemmas: the export\<close>

text \<open>The format as a reader takes it: a field that starts with a quotation mark ends with the next single one; otherwise
  a comma ends a field and a line feed a record.\<close>

function read_csv :: "bool \<Rightarrow> string \<Rightarrow> string list \<Rightarrow> string \<Rightarrow> string list list" where
  "read_csv q cur rec [] = (if cur = '''' \<and> rec = [] then [] else [rec @ [cur]])"
| "read_csv False cur rec (c # s) =
     (if c = CHR 0x22 \<and> cur = '''' then read_csv True '''' rec s
      else if c = CHR '','' then read_csv False '''' (rec @ [cur]) s
      else if c = CHR 0x0A then (rec @ [cur]) # read_csv False '''' [] s
      else read_csv False (cur @ [c]) rec s)"
| "read_csv True cur rec (c # s) =
     (if c \<noteq> CHR 0x22 then read_csv True (cur @ [c]) rec s
      else if s \<noteq> [] \<and> hd s = CHR 0x22 then read_csv True (cur @ [c]) rec (tl s)
      else read_csv False cur rec s)"
  by pat_completeness auto
termination by (relation "measure (\<lambda>(_, _, _, s). length s)") auto

text \<open>The cells that survive: a line feed only together with a comma or a quotation mark.\<close>

definition csv_safe :: "string \<Rightarrow> bool" where
  "csv_safe v \<longleftrightarrow> CHR 0x0A \<notin> set v \<or> CHR '','' \<in> set v \<or> CHR 0x22 \<in> set v"

lemma read_plain:
  "CHR '','' \<notin> set v \<Longrightarrow> CHR 0x22 \<notin> set v \<Longrightarrow> CHR 0x0A \<notin> set v \<Longrightarrow> read_csv False cur rec (v @ s) = read_csv False (cur @ v) rec s"
  by (induction v arbitrary: cur) auto

lemma read_quoted:
  "s \<noteq> [] \<Longrightarrow> hd s \<noteq> CHR 0x22 \<Longrightarrow>
   read_csv True cur rec (double_quotes v @ CHR 0x22 # s) = read_csv False (cur @ v) rec s"
  by (induction v arbitrary: cur) (auto simp: double_quotes_def)

lemma read_cell:
  assumes "csv_safe v" "s \<noteq> []" "hd s \<noteq> CHR 0x22"
  shows "read_csv False '''' rec (csv_cell v @ s) = read_csv False v rec s"
  using assms read_plain [of v "''''" rec s] read_quoted [of s "''''" rec v] by (auto simp: csv_cell_def csv_safe_def)

lemma read_line:
  "cells \<noteq> [] \<Longrightarrow> list_all csv_safe cells \<Longrightarrow>
   read_csv False '''' rec (csv_line (map csv_cell cells) @ s) = (rec @ cells) # read_csv False '''' [] s"
proof (induction cells arbitrary: rec)
  case (Cons v cells)
  show ?case
  proof (cases cells)
    case Nil
    then show ?thesis using Cons.prems read_cell [of v "CHR 0x0A # s" rec] by (simp add: csv_line_def newline_def)
  next
    case (Cons v' cells')
    have "read_csv False '''' rec (csv_line (map csv_cell (v # cells)) @ s) =
        read_csv False '''' rec (csv_cell v @ CHR '','' # csv_line (map csv_cell cells) @ s)"
      using Cons by (simp add: csv_line_def)
    also have "\<dots> = read_csv False '''' (rec @ [v]) (csv_line (map csv_cell cells) @ s)"
      using Cons.prems read_cell [of v "CHR '','' # csv_line (map csv_cell cells) @ s" rec] by simp
    also have "\<dots> = (rec @ v # cells) # read_csv False '''' [] s" using Cons.IH [of "rec @ [v]"] Cons.prems \<open>cells = v' # cells'\<close> by simp
    finally show ?thesis .
  qed
qed simp

lemma read_lines:
  assumes "columns \<noteq> []" "\<And>row c. row \<in> set rows \<Longrightarrow> c \<in> set columns \<Longrightarrow> csv_safe (cell row (col_key c))"
  shows "read_csv False '''' [] (concat (map (\<lambda>row. csv_line (map (\<lambda>c. csv_cell (cell row (col_key c))) columns)) rows)) =
    map (\<lambda>row. map (\<lambda>c. cell row (col_key c)) columns) rows"
  using assms(2)
proof (induction rows)
  case (Cons row rows)
  have "list_all csv_safe (map (\<lambda>c. cell row (col_key c)) columns)" using Cons.prems by (simp add: list_all_iff)
  from read_line [OF _ this, of "[]"] Cons assms(1) show ?case by (simp add: comp_def)
qed simp

text \<open>A cell with a line feed alone is split over two records.\<close>

lemma csv_line_feed_splits:
  "read_csv False '''' [] (export_csv (\<lambda>_ _. ''a'' @ [CHR 0x0A] @ ''b'') [()] [\<lparr>col_key = ''k'', col_label = ''K'', col_sortable = True,
     col_default_hidden = False, col_sort_type = SortText\<rparr>]) = [[''K''], [''a''], [''b'']]"
  by (simp add: export_csv_def csv_line_def csv_cell_def newline_def)

section \<open>Lemmas: figures and forms\<close>

lemma plan_dist_total: "sum_list (map ds_count (plan_dist plans)) = length plans"
  by (induction plans) (auto simp: plan_dist_def Let_def)

text \<open>A plan that waits for an approval reaches the dashboard under a name it does not know.\<close>

lemma awaiting_plan_not_active:
  "map (\<lambda>s. (ds_label s, ds_count s)) (plan_dist [plan_row_of rfc (p\<lparr>pl_status := PlAwaitingApproval\<rparr>)]) =
     [(''Succeeded'', 0), (''Active'', 0), (''Failed'', 0), (''Rolled back'', 0), (''Other'', 1)]"
  by (simp add: plan_dist_def Let_def plan_row_of_def)

lemma severity_dist_total: "sum_list (map ds_count (severity_dist ss)) = length ss"
proof -
  have "length (filter (\<lambda>s. s = ''critical'') ss) + length (filter (\<lambda>s. s = ''warning'') ss) \<le> length ss"
    by (induction ss) auto
  then show ?thesis by (simp add: severity_dist_def Let_def)
qed

text \<open>The filter of the audit page finds every action but the three of the memory.\<close>

lemma parse_action_label:
  "parse_action (action_label a) = (if a \<in> {MemoryIngest, MemoryRetrieve, MemoryWrite} then ActionOther else a)"
  by (cases a) (simp_all add: parse_action_def)

text \<open>Opening the form of a target and saving it unchanged sends the target as it was.\<close>

lemma bt_insert_last: "list_all (\<lambda>(k', _). k' < k) m \<Longrightarrow> bt_insert k v m = m @ [(k, v)]"
  by (induction m) auto

lemma collect_sorted:
  assumes "sorted_wrt (<) (map fst (m @ rows))" "list_all (\<lambda>(k, _). trim k = k \<and> k \<noteq> '''') rows"
  shows "foldl (\<lambda>m (k, v). if trim k = '''' then m else bt_insert (trim k) v m) m rows = m @ rows"
  using assms
proof (induction rows arbitrary: m)
  case (Cons r rows)
  obtain k v where r: "r = (k, v)" by (cases r)
  have "list_all (\<lambda>(k', _). k' < k) m" using Cons.prems(1) r by (auto simp: list_all_iff sorted_wrt_append)
  then have "bt_insert k v m = m @ [(k, v)]" by (rule bt_insert_last)
  then show ?case using Cons.IH [of "m @ [(k, v)]"] Cons.prems r by simp
qed simp

lemma trim_digits: "list_all is_digit s \<Longrightarrow> trim s = s"
proof -
  assume "list_all is_digit s"
  then have "\<forall>c \<in> set s. \<not> is_whitespace c" by (auto simp: list_all_iff is_digit_def is_whitespace_def char_code_def)
  then have "dropWhile is_whitespace s = s" "dropWhile is_whitespace (rev s) = rev s"
    by (auto simp: dropWhile_eq_self_iff hd_in_set) (metis hd_in_set set_rev rev_is_Nil_conv)
  then show ?thesis by (simp add: trim_def)
qed

lemma parse_u16_show: "parse_u16 (show_nat (unat p)) = Some p"
proof -
  have d: "list_all is_digit (show_nat (unat p))" by (rule show_nat_digits)
  have "(case show_nat (unat p) of c # cs \<Rightarrow> if c = CHR ''+'' then cs else show_nat (unat p) | [] \<Rightarrow> show_nat (unat p)) = show_nat (unat p)"
    using d by (cases "show_nat (unat p)") (auto simp: is_digit_def char_code_def)
  moreover have "unat p < 65536" using unsigned_less [of p] by simp
  ultimately show ?thesis by (simp add: parse_u16_def parse_digits_show_nat)
qed

lemma target_form_roundtrip:
  assumes "trim (td_ref_name dto) = td_ref_name dto" "td_ref_name dto \<noteq> ''''" "trim (td_host dto) = td_host dto" "td_host dto \<noteq> ''''"
    and "trim (td_credential_ref dto) = td_credential_ref dto" "bt_wf (td_labels dto)"
    and "list_all (\<lambda>(k, _). trim k = k \<and> k \<noteq> '''') (td_labels dto)"
  shows "draft_to_dto (draft_of_dto dto) = Ok dto"
proof -
  have "collect_rows (td_labels dto) = td_labels dto"
    using collect_sorted [of "[]" "td_labels dto"] assms(6,7) by (simp add: collect_rows_def bt_wf_def)
  then show ?thesis
    using assms(1-5) by (simp add: draft_to_dto_def draft_of_dto_def trim_digits show_nat_digits parse_u16_show ok_or_def)
qed

text \<open>The port 0 passes the check, whose message asks for 1 to 65535.\<close>

lemma port_zero_accepted: "parse_u16 ''0'' = Some 0"
  by (simp add: parse_u16_def parse_digits_def is_digit_def char_code_def)

section \<open>Properties\<close>

text \<open>C40: a table shows what it should. Whatever is typed into the search and whichever columns are hidden, the pages together hold each row
  that matches the search (one of its visible cells has the search text in it, both in lower case), once, and no other. With a sort column and a direction they are in the order of that
  column: forwards no row is below an earlier one, backwards no row is above an earlier one, by the lower-cased text or, in a numeric column, by the
  number, a text that is no number counting as 0; and rows neither of which is below the other stay in the order in which they came. The one exception is a numeric sort
  column with a cell that reads as \<open>NaN\<close>: the comparison may be no order then, and the sort may panic or leave any order.\<close>

theorem table_shows_matches:
  fixes rows :: "'r list"
  assumes "0 < k"
  shows "case compute_processed lower fl cell rows columns hidden query sort_col dir of
      None \<Rightarrow> (\<exists>col d. sort_col = Some col \<and> dir = Some d \<and> type_of_column columns col \<noteq> SortText \<and>
        (\<exists>r \<in> set rows. fl_parse fl (cell r col) = Some NaN))
    | Some processed \<Rightarrow>
        (let shown = concat (map (\<lambda>p. paginate processed p k) [0..<total_pages (length processed) k]);
             matches = (\<lambda>r. query = '''' \<or>
               (\<exists>c \<in> set columns. col_key c \<notin> set hidden \<and> (\<exists>pre post. lower (cell r (col_key c)) = pre @ lower query @ post)))
         in mset shown = mset (filter matches rows) \<and>
            (\<forall>col d. sort_col = Some col \<and> dir = Some d \<longrightarrow>
               (let below = (\<lambda>a b. cell_below lower fl (type_of_column columns col) (cell a col) (cell b col))
                in sorted_wrt (\<lambda>a b. case d of SortAsc \<Rightarrow> \<not> below b a | SortDesc \<Rightarrow> \<not> below a b) shown \<and>
                   (\<forall>r \<in> set shown. filter (\<lambda>x. \<not> below r x \<and> \<not> below x r) shown =
                      filter (\<lambda>x. \<not> below r x \<and> \<not> below x r) (filter matches rows)))))"
proof (cases "compute_processed lower fl cell rows columns hidden query sort_col dir")
  case None
  then show ?thesis using processed_None [OF None] by simp
next
  case (Some processed)
  let ?all = "filter (shows_query lower cell columns hidden query) rows"
  have shown: "concat (map (\<lambda>p. paginate processed p k) [0..<total_pages (length processed) k]) = processed"
    by (rule pages_complete [OF assms])
  have sorted: "mset processed = mset ?all \<and>
      sorted_wrt (\<lambda>a b. row_cmp lower fl cell col d (type_of_column columns col) a b \<noteq> OGreater) processed \<and>
      (\<forall>r \<in> set ?all. filter (\<lambda>x. row_cmp lower fl cell col d (type_of_column columns col) r x = OEqual) processed =
         filter (\<lambda>x. row_cmp lower fl cell col d (type_of_column columns col) r x = OEqual) ?all)"
    if "sort_col = Some col" "dir = Some d" for col d
    using sort_by_Some [of "row_cmp lower fl cell col d (type_of_column columns col)" ?all processed] Some that
    by (simp add: compute_processed_def Let_def sort_rows_def filter_rows_spec)
  have "mset processed = mset ?all"
    using sorted Some by (cases sort_col; cases dir) (auto simp: compute_processed_def Let_def filter_rows_spec)
  moreover from this have "set processed = set ?all" by (rule mset_eq_setD)
  ultimately show ?thesis
    using sorted unfolding Some option.case Let_def shown shows_query_def [symmetric] row_cmp_below by auto
qed

text \<open>An export can be read back. When the labels are plain and no cell has a line feed without a comma or a quotation mark beside
  it, reading the exported text gives the labels and then, row by row, the cells with all their commas and quotation marks.\<close>

lemma csv_roundtrip:
  assumes "columns \<noteq> []" "\<And>c. c \<in> set columns \<Longrightarrow> csv_cell (col_label c) = col_label c \<and> csv_safe (col_label c)"
    and "\<And>row c. row \<in> set rows \<Longrightarrow> c \<in> set columns \<Longrightarrow> csv_safe (cell row (col_key c))"
  shows "read_csv False '''' [] (export_csv cell rows columns) =
    map col_label columns # map (\<lambda>row. map (\<lambda>c. cell row (col_key c)) columns) rows"
proof -
  have "map csv_cell (map col_label columns) = map col_label columns" "list_all csv_safe (map col_label columns)"
    using assms(2) by (simp_all add: list_all_iff)
  then show ?thesis
    using read_line [of "map col_label columns" "[]"] read_lines [OF assms(1), of rows cell] assms(1,3)
    by (simp add: export_csv_def del: map_map)
qed

section \<open>Witnesses\<close>

definition ex_column :: column_def where
  "ex_column = \<lparr>col_key = ''n'', col_label = ''Name'', col_sortable = True, col_default_hidden = False, col_sort_type = SortText\<rparr>"

definition ex_floats :: float_text where
  "ex_floats = \<lparr>fl_parse = (\<lambda>_. None), fl_display = (\<lambda>_. ''''), fl_json = (\<lambda>_. ''''), fl_of_int = (\<lambda>_. NaN)\<rparr>"

theorem table_shows_matches_witness:
  "\<exists>processed. compute_processed id ex_floats (\<lambda>r _. r) [''ab'', ''x'', ''bc''] [ex_column] [] ''b'' (Some ''n'') (Some SortDesc) = Some processed \<and>
     concat (map (\<lambda>p. paginate processed p 1) [0..<2]) = [''bc'', ''ab''] \<and> mset processed = {# ''ab'', ''bc'' #} \<and>
     sorted_wrt (\<lambda>a b. \<not> a < b) processed"
proof -
  let ?rows = "[''ab'', ''x'', ''bc'']"
  let ?ps = "[''bc'', ''ab'']"
  have p: "compute_processed id ex_floats (\<lambda>r _. r) ?rows [ex_column] [] ''b'' (Some ''n'') (Some SortDesc) = Some ?ps" by code_simp
  have s: "concat (map (\<lambda>q. paginate ?ps q 1) [0..<total_pages (length ?ps) 1]) = ?ps" by (rule pages_complete) simp
  have n: "total_pages (length ?ps) 1 = 2" by (simp add: total_pages_def)
  have ty: "type_of_column [ex_column] ''n'' = SortText" by (simp add: ex_column_def type_of_column_def)
  note shown = table_shows_matches [OF zero_less_one, where lower = id and fl = ex_floats and cell = "\<lambda>r _. r" and rows = ?rows and columns = "[ex_column]"
      and hidden = "[]" and query = "''b''" and sort_col = "Some ''n''" and dir = "Some SortDesc", unfolded p option.case Let_def s]
  have "sorted_wrt (\<lambda>a b. case SortDesc of
      SortAsc \<Rightarrow> \<not> cell_below id ex_floats (type_of_column [ex_column] ''n'') b a
    | SortDesc \<Rightarrow> \<not> cell_below id ex_floats (type_of_column [ex_column] ''n'') a b) ?ps"
    using shown by blast
  then have "sorted_wrt (\<lambda>a b. \<not> a < b) ?ps" by (simp only: ty cell_below_def sort_dir.case sort_type.case id_apply)
  moreover have "mset ?ps = {# ''ab'', ''bc'' #}" by (simp only: mset.simps add_mset_commute)
  ultimately show ?thesis using p s [unfolded n] by blast
qed

lemma csv_roundtrip_example:
  "read_csv False '''' [] (export_csv (\<lambda>r _. r) [''a,'' @ [CHR 0x22] @ ''b'', ''c''] [ex_column]) =
     [[''Name''], [''a,'' @ [CHR 0x22] @ ''b''], [''c'']]"
  by (subst csv_roundtrip) (auto simp: ex_column_def csv_cell_def csv_safe_def)

end
