(* ===== verification/Graph.thy ===== *)
theory Graph
  imports Inbound Saga
begin

text \<open>
  The graph client (\<open>daimon-graph\<close>): the Cypher statements it sends over the transactional HTTP interface and the rows it reads back.
  HTTP, the JSON text library and the URL parser are parameters; the database is not modelled, so the lemmas are about what is sent and how answers
  are read.
\<close>

section \<open>Types\<close>

datatype node_kind =
    NkTenant | NkAgent | NkCapability | NkTarget | NkCredential | NkPlan | NkPlanStep | NkAuditEvent | NkUser

fun node_kind_label :: "node_kind \<Rightarrow> string" where
  "node_kind_label NkTenant = ''Tenant''"
| "node_kind_label NkAgent = ''Agent''"
| "node_kind_label NkCapability = ''Capability''"
| "node_kind_label NkTarget = ''Target''"
| "node_kind_label NkCredential = ''Credential''"
| "node_kind_label NkPlan = ''Plan''"
| "node_kind_label NkPlanStep = ''PlanStep''"
| "node_kind_label NkAuditEvent = ''AuditEvent''"
| "node_kind_label NkUser = ''User''"

definition node_kind_from_label :: "string \<Rightarrow> node_kind option" where
  "node_kind_from_label s =
     (if s = ''Tenant'' then Some NkTenant
      else if s = ''Agent'' then Some NkAgent
      else if s = ''Capability'' then Some NkCapability
      else if s = ''Target'' then Some NkTarget
      else if s = ''Credential'' then Some NkCredential
      else if s = ''Plan'' then Some NkPlan
      else if s = ''PlanStep'' then Some NkPlanStep
      else if s = ''AuditEvent'' then Some NkAuditEvent
      else if s = ''User'' then Some NkUser
      else None)"

datatype rel_kind =
    RkOwns | RkExecutesAs | RkProvidesCapability | RkDependsOnTarget | RkRequiresCredential | RkEmittedBy | RkStepOf | RkBlastRadius

fun rel_kind_label :: "rel_kind \<Rightarrow> string" where
  "rel_kind_label RkOwns = ''OWNS''"
| "rel_kind_label RkExecutesAs = ''EXECUTES_AS''"
| "rel_kind_label RkProvidesCapability = ''PROVIDES_CAPABILITY''"
| "rel_kind_label RkDependsOnTarget = ''DEPENDS_ON_TARGET''"
| "rel_kind_label RkRequiresCredential = ''REQUIRES_CREDENTIAL''"
| "rel_kind_label RkEmittedBy = ''EMITTED_BY''"
| "rel_kind_label RkStepOf = ''STEP_OF''"
| "rel_kind_label RkBlastRadius = ''BLAST_RADIUS''"

datatype graph_error = GeHttp string | GeCypher string string | GeDecode string | GeSchema string | GeOther string

fun show_graph_error :: "graph_error \<Rightarrow> string" where
  "show_graph_error (GeHttp e) = ''http: '' @ e"
| "show_graph_error (GeCypher code message) = ''cypher error: '' @ code @ '': '' @ message"
| "show_graph_error (GeDecode e) = ''decode: '' @ e"
| "show_graph_error (GeSchema e) = ''schema: '' @ e"
| "show_graph_error (GeOther e) = e"

record cypher_result =
  cy_columns :: "string list"
  cy_data :: "json list list"

record cypher_error =
  ce_code :: string
  ce_message :: string

record tx_response =
  tx_results :: "cypher_result list"
  tx_errors :: "cypher_error list"

section \<open>The client\<close>

text \<open>A post gives the text of a successful answer, or the error of the HTTP library; the decoder is the one serde derives.\<close>

record 'g graph_lib =
  gl_post :: "string \<Rightarrow> json \<Rightarrow> ('g, string, string) eff"
  gl_decode :: "string \<Rightarrow> (tx_response, string) result"
  gl_print :: "json \<Rightarrow> string"
  gl_rfc3339 :: "millis \<Rightarrow> string"
  gl_parse_url :: "string \<Rightarrow> (string option \<times> nat option, string) result"

record graph_client =
  gc_base_url :: string
  gc_database :: string

definition graph_client_new :: "string \<Rightarrow> string \<Rightarrow> graph_client" where
  "graph_client_new base_url database = \<lparr>gc_base_url = trim_end_matches ''/'' base_url, gc_database = database\<rparr>"

definition bolt_to_http :: "'g graph_lib \<Rightarrow> string \<Rightarrow> (string, graph_error) result" where
  "bolt_to_http gl uri =
     bind_result (map_err (\<lambda>e. GeOther (''uri parse: '' @ e)) (gl_parse_url gl uri)) (\<lambda>(host, port).
     bind_result (ok_or host (GeOther ''uri missing host'')) (\<lambda>h.
     Ok (''http://'' @ h @ '':'' @ show_nat (case port of Some p \<Rightarrow> if p = 7687 then 7474 else p | None \<Rightarrow> 7474))))"

definition graph_connect :: "'g graph_lib \<Rightarrow> string \<Rightarrow> string \<Rightarrow> string \<Rightarrow> (graph_client, graph_error) result" where
  "graph_connect gl uri auth_user auth_pass = bind_result (bolt_to_http gl uri) (\<lambda>url. Ok (graph_client_new url ''nornic''))"

definition tx_url :: "graph_client \<Rightarrow> string" where
  "tx_url c = gc_base_url c @ ''/db/'' @ gc_database c @ ''/tx/commit''"

type_synonym statement = "string \<times> json"

definition statements_body :: "statement list \<Rightarrow> json" where
  "statements_body sts =
     j_obj [(''statements'', JArr (map (\<lambda>(stmt, params). j_obj [(''statement'', JStr stmt), (''parameters'', params)]) sts))]"

definition graph_run :: "'g graph_lib \<Rightarrow> graph_client \<Rightarrow> statement list \<Rightarrow> ('g, cypher_result list, graph_error) eff" where
  "graph_run gl c sts =
     (if sts = [] then retE []
      else bindE (mapE GeHttp (gl_post gl (tx_url c) (statements_body sts))) (\<lambda>raw.
           liftE (bind_result (map_err (\<lambda>e. GeDecode (''tx response parse: '' @ e @ ''; body: '' @ take_chars 500 raw)) (gl_decode gl raw)) (\<lambda>resp.
                  case tx_errors resp of
                    err # _ \<Rightarrow> Err (GeCypher (ce_code err) (ce_message err))
                  | [] \<Rightarrow> Ok (tx_results resp)))))"

definition graph_run_one :: "'g graph_lib \<Rightarrow> graph_client \<Rightarrow> string \<Rightarrow> json \<Rightarrow> ('g, cypher_result, graph_error) eff" where
  "graph_run_one gl c stmt params =
     bindE (graph_run gl c [(stmt, params)]) (\<lambda>rs. if rs = [] then failE (GeDecode ''no result returned'') else retE (last rs))"

subsection \<open>Plans\<close>

definition MERGE_PLAN :: string where
  "MERGE_PLAN = ''MERGE (p:Plan {id: $pid}) ON CREATE SET p.intent = $intent, p.created_at = $created_at''"

definition MERGE_STEP :: string where
  "MERGE_STEP = ''MERGE (s:PlanStep {id: $sid}) ON CREATE SET s.capability_name = $cname, s.capability_version = $cver, s.target_ref = $tref''"

definition LINK_STEP :: string where
  "LINK_STEP = ''MATCH (p:Plan {id: $pid}), (s:PlanStep {id: $sid}) MERGE (s)-[:STEP_OF]->(p)''"

definition MERGE_CAPABILITY :: string where
  "MERGE_CAPABILITY = ''MERGE (c:Capability {name: $cname, version: $cver})''"

definition LINK_CAPABILITY :: string where
  "LINK_CAPABILITY =
     ''MATCH (s:PlanStep {id: $sid}), (c:Capability {name: $cname, version: $cver}) MERGE (s)-[:PROVIDES_CAPABILITY]->(c)''"

definition MERGE_TARGET :: string where
  "MERGE_TARGET = ''MERGE (t:Target {ref: $tref})''"

definition LINK_TARGET :: string where
  "LINK_TARGET = ''MATCH (s:PlanStep {id: $sid}), (t:Target {ref: $tref}) MERGE (s)-[:DEPENDS_ON_TARGET]->(t)''"

definition LINK_STEPS :: string where
  "LINK_STEPS = ''MATCH (a:PlanStep {id: $from_sid}), (b:PlanStep {id: $to_sid}) MERGE (a)-[:DEPENDS_ON]->(b)''"

definition step_statements :: "graph_plan \<Rightarrow> graph_step \<Rightarrow> statement list" where
  "step_statements p s =
     [(MERGE_STEP, j_obj [(''sid'', JStr (gs_id s)), (''cname'', JStr (gs_capability_name s)), (''cver'', JStr (gs_capability_version s)),
        (''tref'', JStr (gs_target_ref s))]),
      (LINK_STEP, j_obj [(''pid'', JStr (gp_id p)), (''sid'', JStr (gs_id s))]),
      (MERGE_CAPABILITY, j_obj [(''cname'', JStr (gs_capability_name s)), (''cver'', JStr (gs_capability_version s))]),
      (LINK_CAPABILITY, j_obj [(''sid'', JStr (gs_id s)), (''cname'', JStr (gs_capability_name s)), (''cver'', JStr (gs_capability_version s))]),
      (MERGE_TARGET, j_obj [(''tref'', JStr (gs_target_ref s))]),
      (LINK_TARGET, j_obj [(''sid'', JStr (gs_id s)), (''tref'', JStr (gs_target_ref s))])]"

definition depends_statements :: "graph_step \<Rightarrow> statement list" where
  "depends_statements s = map (\<lambda>dep. (LINK_STEPS, j_obj [(''from_sid'', JStr (gs_id s)), (''to_sid'', JStr dep)])) (gs_depends_on s)"

definition persist_batch :: "'g graph_lib \<Rightarrow> graph_plan \<Rightarrow> statement list" where
  "persist_batch gl p =
     (MERGE_PLAN, j_obj [(''pid'', JStr (gp_id p)), (''intent'', JStr (gp_intent p)), (''created_at'', JStr (gl_rfc3339 gl (gp_created_at p)))]) #
     concat (map (step_statements p) (gp_steps p)) @ concat (map depends_statements (gp_steps p))"

definition persist_plan :: "'g graph_lib \<Rightarrow> graph_client \<Rightarrow> graph_plan \<Rightarrow> ('g, unit, graph_error) eff" where
  "persist_plan gl c p = bindE (graph_run gl c (persist_batch gl p)) (\<lambda>_. retE ())"

subsection \<open>Targets and the blast radius\<close>

definition blast_query :: "nat \<Rightarrow> string" where
  "blast_query depth =
     ''MATCH (t:Target {ref: $tref}) MATCH path = (t)-[*1..'' @ show_nat depth @ '']-(n) RETURN labels(n) AS labels, '' @
     ''coalesce(n.id, n.ref, n.name) AS nid, coalesce(n.name, n.ref, n.id) AS nlabel, min(length(path)) AS depth '' @
     ''ORDER BY depth ASC, nlabel ASC LIMIT 200''"

fun value_to_string :: "(json \<Rightarrow> string) \<Rightarrow> json \<Rightarrow> string" where
  "value_to_string print (JStr s) = s"
| "value_to_string print JNull = ''''"
| "value_to_string print v = print v"

text \<open>\<open>as_i64\<close> with 0 for anything else, cut at 0 from below and to 32 bits.\<close>

fun depth_of :: "json \<Rightarrow> nat" where
  "depth_of (JNum (JPos n)) = (if n < 2 ^ 63 then n mod 2 ^ 32 else 0)"
| "depth_of _ = 0"

fun labels_of :: "json \<Rightarrow> string list" where
  "labels_of (JArr vs) = List.map_filter j_as_str vs"
| "labels_of _ = []"

fun blast_entry :: "(json \<Rightarrow> string) \<Rightarrow> json list \<Rightarrow> blast_radius_entry option" where
  "blast_entry print (ls # i # l # d # _) =
     (let kind = (case labels_of ls of
                    [] \<Rightarrow> NkTarget
                  | x # _ \<Rightarrow> (case node_kind_from_label x of Some k \<Rightarrow> k | None \<Rightarrow> NkTarget))
      in Some \<lparr>be_kind = node_kind_label kind, be_id = value_to_string print i, be_label = value_to_string print l, be_depth = depth_of d\<rparr>)"
| "blast_entry print _ = None"

definition graph_blast_radius ::
  "'g graph_lib \<Rightarrow> graph_client \<Rightarrow> string \<Rightarrow> 32 word \<Rightarrow> ('g, blast_radius_entry list, graph_error) eff" where
  "graph_blast_radius gl c tref max_depth =
     bindE (graph_run_one gl c (blast_query (min 8 (max 1 (unat max_depth)))) (j_obj [(''tref'', JStr tref)])) (\<lambda>res.
     retE (List.map_filter (blast_entry (gl_print gl)) (cy_data res)))"

definition UPSERT_TARGET :: string where
  "UPSERT_TARGET = ''MERGE (t:Target {ref: $tref}) ON CREATE SET t.labels = $lbl ON MATCH SET t.labels = $lbl''"

definition graph_upsert_target :: "'g graph_lib \<Rightarrow> graph_client \<Rightarrow> string \<Rightarrow> json \<Rightarrow> ('g, unit, graph_error) eff" where
  "graph_upsert_target gl c tref labels =
     bindE (graph_run_one gl c UPSERT_TARGET (j_obj [(''tref'', JStr tref), (''lbl'', JStr (gl_print gl labels))])) (\<lambda>_. retE ())"

definition DECLARE_DEPENDENCY :: string where
  "DECLARE_DEPENDENCY = ''MATCH (a:Target {ref: $from_tref}), (b:Target {ref: $to_tref}) MERGE (a)-[:DEPENDS_ON_TARGET]->(b)''"

definition declare_dependency :: "'g graph_lib \<Rightarrow> graph_client \<Rightarrow> string \<Rightarrow> string \<Rightarrow> ('g, unit, graph_error) eff" where
  "declare_dependency gl c a b =
     bindE (graph_run_one gl c DECLARE_DEPENDENCY (j_obj [(''from_tref'', JStr a), (''to_tref'', JStr b)])) (\<lambda>_. retE ())"

subsection \<open>The schema\<close>

definition SCHEMA_CYPHER :: "string list" where
  "SCHEMA_CYPHER =
     [''CREATE CONSTRAINT agent_id_unique IF NOT EXISTS FOR (a:Agent) REQUIRE a.id IS UNIQUE'',
      ''CREATE CONSTRAINT target_ref_unique IF NOT EXISTS FOR (t:Target) REQUIRE t.ref IS UNIQUE'',
      ''CREATE CONSTRAINT credential_ref_unique IF NOT EXISTS FOR (c:Credential) REQUIRE c.ref IS UNIQUE'',
      ''CREATE CONSTRAINT plan_id_unique IF NOT EXISTS FOR (p:Plan) REQUIRE p.id IS UNIQUE'',
      ''CREATE CONSTRAINT planstep_id_unique IF NOT EXISTS FOR (s:PlanStep) REQUIRE s.id IS UNIQUE'',
      ''CREATE CONSTRAINT auditevent_id_unique IF NOT EXISTS FOR (e:AuditEvent) REQUIRE e.id IS UNIQUE'',
      ''CREATE CONSTRAINT user_id_unique IF NOT EXISTS FOR (u:User) REQUIRE u.id IS UNIQUE'',
      ''CREATE INDEX capability_name_idx IF NOT EXISTS FOR (c:Capability) ON (c.name)'']"

fun run_each :: "'g graph_lib \<Rightarrow> graph_client \<Rightarrow> string list \<Rightarrow> ('g, unit, graph_error) eff" where
  "run_each gl c [] s = (Ok (), s)"
| "run_each gl c (st # sts) s = bindE (graph_run gl c [(st, j_obj [])]) (\<lambda>_. run_each gl c sts) s"

definition ensure_schema :: "'g graph_lib \<Rightarrow> graph_client \<Rightarrow> ('g, unit, graph_error) eff" where
  "ensure_schema gl c = run_each gl c SCHEMA_CYPHER"

section \<open>Lemmas\<close>

lemma node_kind_roundtrip: "node_kind_from_label (node_kind_label k) = Some k"
  by (cases k) (simp_all add: node_kind_from_label_def)

lemma node_kind_from_label_Some: "node_kind_from_label s = Some k \<longleftrightarrow> s = node_kind_label k"
proof
  show "s = node_kind_label k" if "node_kind_from_label s = Some k"
    using that by (auto simp: node_kind_from_label_def split: if_splits)
qed (simp add: node_kind_roundtrip)

text \<open>No value enters the text of a statement: what is sent for a plan are the eight texts, and for a blast radius one of eight.\<close>

lemmas plan_texts = MERGE_PLAN_def MERGE_STEP_def LINK_STEP_def MERGE_CAPABILITY_def LINK_CAPABILITY_def MERGE_TARGET_def LINK_TARGET_def LINK_STEPS_def

lemma persist_batch_texts:
  "fst ` set (persist_batch gl p) \<subseteq>
     {MERGE_PLAN, MERGE_STEP, LINK_STEP, MERGE_CAPABILITY, LINK_CAPABILITY, MERGE_TARGET, LINK_TARGET, LINK_STEPS}"
  by (auto simp: persist_batch_def step_statements_def depends_statements_def)

lemma blast_depth_bounded: "min 8 (max 1 n) \<in> {1..8 :: nat}"
  by auto

text \<open>A plan is one request: with its text decoded without an error, one post has been made, and nothing is retried.\<close>

lemma graph_run_posts_once:
  assumes "sts \<noteq> []"
  shows "snd (graph_run gl c sts s) = snd (gl_post gl (tx_url c) (statements_body sts) s)"
  using assms by (simp add: graph_run_def bindE_def liftE_def mapE.simps split: prod.split result.split)

lemma persist_plan_one_request:
  "snd (persist_plan gl c p s) = snd (gl_post gl (tx_url c) (statements_body (persist_batch gl p)) s)"
proof -
  have "snd (persist_plan gl c p s) = snd (graph_run gl c (persist_batch gl p) s)"
    by (simp add: persist_plan_def bindE_def retE_def split: prod.split result.split)
  then show ?thesis using graph_run_posts_once [of "persist_batch gl p" gl c s] by (simp add: persist_batch_def)
qed

text \<open>Within the batch every node is merged before a relationship names it: for an edge between steps both ends are, when the dependency is a step of
  the plan.\<close>

definition merge_step_statement :: "graph_step \<Rightarrow> statement" where
  "merge_step_statement s =
     (MERGE_STEP, j_obj [(''sid'', JStr (gs_id s)), (''cname'', JStr (gs_capability_name s)), (''cver'', JStr (gs_capability_version s)),
        (''tref'', JStr (gs_target_ref s))])"

lemma not_link_steps: "st \<in> set (step_statements p s) \<Longrightarrow> fst st \<noteq> LINK_STEPS"
  by (auto simp: step_statements_def plan_texts)

lemma split_after_prefix: "xs @ ys = before @ x # after \<Longrightarrow> x \<notin> set xs \<Longrightarrow> set xs \<subseteq> set before"
  by (auto simp: append_eq_append_conv2 append_eq_Cons_conv)

lemma edge_after_nodes:
  assumes "persist_batch gl p = before @ (LINK_STEPS, params) # after" "s \<in> set (gp_steps p)"
  shows "merge_step_statement s \<in> set before"
proof -
  let ?head = "(MERGE_PLAN, j_obj [(''pid'', JStr (gp_id p)), (''intent'', JStr (gp_intent p)), (''created_at'', JStr (gl_rfc3339 gl (gp_created_at p)))]) #
     concat (map (step_statements p) (gp_steps p))"
  have b: "persist_batch gl p = ?head @ concat (map depends_statements (gp_steps p))" by (simp add: persist_batch_def)
  have n: "\<forall>st \<in> set ?head. fst st \<noteq> LINK_STEPS" using not_link_steps by (auto simp: plan_texts)
  then have "(LINK_STEPS, params) \<notin> set ?head" by fastforce
  then have "set ?head \<subseteq> set before" using split_after_prefix assms(1) b by metis
  moreover have "merge_step_statement s \<in> set ?head" using assms(2) by (auto simp: merge_step_statement_def step_statements_def)
  ultimately show ?thesis by blast
qed

text \<open>What the inbox shows of an answer: no more entries than rows, each of a known kind.\<close>

lemma blast_entry_kind: "blast_entry print row = Some e \<Longrightarrow> \<exists>k. be_kind e = node_kind_label k"
  by (induction print row rule: blast_entry.induct) (auto simp: Let_def)

lemma depth_bound: "depth_of v < 2 ^ 32"
  by (induction v rule: depth_of.induct) simp_all

lemma blast_radius_rows:
  assumes "graph_run_one gl c (blast_query (min 8 (max 1 (unat d)))) (j_obj [(''tref'', JStr tref)]) s = (Ok res, s')"
  shows "\<exists>es. graph_blast_radius gl c tref d s = (Ok es, s') \<and> length es \<le> length (cy_data res) \<and>
    (\<forall>e \<in> set es. (\<exists>k. be_kind e = node_kind_label k) \<and> be_depth e < 2 ^ 32)"
proof -
  have "blast_entry print row = Some e \<Longrightarrow> be_depth e < 2 ^ 32" for print row e
    by (induction print row rule: blast_entry.induct) (auto simp: Let_def depth_bound [simplified])
  then show ?thesis using assms blast_entry_kind
    by (auto simp: graph_blast_radius_def bindE_def retE_def List.map_filter_def)
qed

text \<open>A failed statement of the schema stops the bootstrap: the ones after it are not sent.\<close>

lemma schema_stops:
  assumes "graph_run gl c [(hd SCHEMA_CYPHER, j_obj [])] s = (Err e, s')"
  shows "ensure_schema gl c s = (Err e, s')"
  using assms by (simp add: ensure_schema_def SCHEMA_CYPHER_def bindE_def)

text \<open>The client as the graph of the inbox and of the orchestrator.\<close>

definition graph_for_inbox :: "'g graph_lib \<Rightarrow> graph_client \<Rightarrow> 'g blast_graph" where
  "graph_for_inbox gl c tref depth = mapE show_graph_error (graph_blast_radius gl c tref depth)"

lemma inbox_depth_clamped: "8 \<le> unat d \<Longrightarrow> graph_for_inbox gl c tref d = graph_for_inbox gl c tref 8"
  by (simp add: graph_for_inbox_def graph_blast_radius_def max_def)

end
