(* ===== verification/KeyCustody.thy ===== *)
theory KeyCustody
  imports Vault Orchestrator Utf8
begin

text \<open>
  Where the vault's key comes from: the master key read at start-up (\<open>daimon-vault/src/master_key.rs\<close>) and the key-management
  providers that wrap it (\<open>daimon-kms\<close>). Files, the environment, HTTP and the base64 codec are parameters. What every provider
  promises is the locale \<open>kms\<close>: unwrapping a wrapped key gives that key or fails.
\<close>

section \<open>The master key\<close>

definition SEAL_KEY_LEN :: nat where
  "SEAL_KEY_LEN = 32"

datatype master_key_error = MkIo string string | MkInvalidLength nat nat | MkBootstrap string

fun show_master_key_error :: "master_key_error \<Rightarrow> string" where
  "show_master_key_error (MkIo path e) = ''failed to read master key from `'' @ path @ ''`: '' @ e"
| "show_master_key_error (MkInvalidLength expected actual) =
     ''master key file has wrong length: expected '' @ show_nat expected @ '' bytes, got '' @ show_nat actual"
| "show_master_key_error (MkBootstrap e) = ''master key bootstrap: '' @ e"

definition key_from_path :: "(string \<Rightarrow> (bytes, string) result) \<Rightarrow> string \<Rightarrow> (bytes, master_key_error) result" where
  "key_from_path read path =
     bind_result (map_err (MkIo path) (read path)) (\<lambda>bytes.
     if length bytes \<noteq> SEAL_KEY_LEN then Err (MkInvalidLength SEAL_KEY_LEN (length bytes)) else Ok bytes)"

text \<open>\<open>std::env::var\<close> has no value for a variable that is not valid UTF-8; \<open>var_os\<close>, here \<open>getenv\<close>, has.\<close>

definition env_var :: "(string \<Rightarrow> string option) \<Rightarrow> string \<Rightarrow> string option" where
  "env_var getenv name = Option.bind (getenv name) (\<lambda>v. if utf8_error 0 v = None then Some v else None)"

definition key_from_systemd_credential ::
  "(string \<Rightarrow> (bytes, string) result) \<Rightarrow> (string \<Rightarrow> string option) \<Rightarrow> (bytes, master_key_error) result" where
  "key_from_systemd_credential read getenv =
     key_from_path read
       (case env_var getenv ''CREDENTIALS_DIRECTORY'' of
          Some dir \<Rightarrow> path_join dir ''vault-master''
        | None \<Rightarrow> ''/run/credentials/daimon.service/vault-master'')"

definition key_from_systemd_or_dev_env ::
  "(string \<Rightarrow> (bytes, string) result) \<Rightarrow> (string \<Rightarrow> string option) \<Rightarrow> (bytes, master_key_error) result" where
  "key_from_systemd_or_dev_env read getenv =
     (if getenv ''CREDENTIALS_DIRECTORY'' \<noteq> None then key_from_systemd_credential read getenv
      else case env_var getenv ''DAIMON_MASTER_KEY_FILE'' of
             Some path \<Rightarrow> key_from_path read path
           | None \<Rightarrow> Err (MkBootstrap (''no CREDENTIALS_DIRECTORY (systemd) and no DAIMON_MASTER_KEY_FILE '' @
                       ''(development fallback) '' @ em_dash @ '' master key cannot be loaded'')))"

text \<open>The other source of a key: a hexadecimal text. The hex decoder is a crate.\<close>

definition seal_key_from_hex :: "(string \<Rightarrow> bytes option) \<Rightarrow> string \<Rightarrow> (bytes, seal_error) result" where
  "seal_key_from_hex hex_decode text =
     bind_result (ok_or (hex_decode (trim text)) InvalidHex) (\<lambda>bytes.
     if length bytes \<noteq> SEAL_KEY_LEN then Err (InvalidKeyLength (length bytes)) else Ok bytes)"

definition seal_key_from_env ::
  "(string \<Rightarrow> bytes option) \<Rightarrow> (string \<Rightarrow> string option) \<Rightarrow> (bytes, seal_error) result" where
  "seal_key_from_env hex_decode getenv =
     bind_result (ok_or (env_var getenv ''DAIMON_VAULT_SEAL_KEY'') EnvKeyMissing) (seal_key_from_hex hex_decode)"

section \<open>Key management\<close>

datatype kms_error = KmsNotImplemented string | KmsConfig string | KmsTransport string | KmsCrypto string | KmsIo string

fun show_kms_error :: "kms_error \<Rightarrow> string" where
  "show_kms_error (KmsNotImplemented p) = ''kms `'' @ p @ ''` not implemented yet '' @ em_dash @ '' install the matching provider crate''"
| "show_kms_error (KmsConfig e) = ''kms provider misconfigured: '' @ e"
| "show_kms_error (KmsTransport e) = ''kms transport error: '' @ e"
| "show_kms_error (KmsCrypto e) = ''kms wrap/unwrap failed: '' @ e"
| "show_kms_error (KmsIo e) = ''kms i/o: '' @ e"

text \<open>A provider: unwrapping, wrapping and its name.\<close>

record 's kms_client =
  km_unwrap :: "bytes \<Rightarrow> ('s, bytes, kms_error) eff"
  km_wrap :: "bytes \<Rightarrow> ('s, bytes, kms_error) eff"
  km_id :: string

definition local_file_kms :: "'s kms_client" where
  "local_file_kms = \<lparr>km_unwrap = retE, km_wrap = retE, km_id = ''local_file''\<rparr>"

definition aws_kms_new :: "string \<Rightarrow> (unit, kms_error) result" where
  "aws_kms_new key_id = Err (KmsNotImplemented ''aws_kms'')"

definition aws_kms :: "'s kms_client" where
  "aws_kms = \<lparr>km_unwrap = (\<lambda>_. failE (KmsNotImplemented ''aws_kms'')), km_wrap = (\<lambda>_. failE (KmsNotImplemented ''aws_kms'')), km_id = ''aws_kms''\<rparr>"

definition pkcs11_kms_new :: "string \<Rightarrow> 32 word \<Rightarrow> string \<Rightarrow> (unit, kms_error) result" where
  "pkcs11_kms_new module_path slot_id key_label = Err (KmsNotImplemented ''pkcs11'')"

definition pkcs11_kms :: "'s kms_client" where
  "pkcs11_kms = \<lparr>km_unwrap = (\<lambda>_. failE (KmsNotImplemented ''pkcs11'')), km_wrap = (\<lambda>_. failE (KmsNotImplemented ''pkcs11'')), km_id = ''pkcs11''\<rparr>"

text \<open>Bytes as text and back.\<close>

definition text_of_bytes :: "bytes \<Rightarrow> string" where
  "text_of_bytes = map (\<lambda>b. char_of (unat b))"

definition bytes_of_text :: "string \<Rightarrow> bytes" where
  "bytes_of_text = map (\<lambda>c. word_of_nat (of_char c))"

subsection \<open>Vault Transit\<close>

record vault_transit =
  vt_vault_url :: string
  vt_mount :: string
  vt_key_name :: string
  vt_token :: string

text \<open>The answer of the server: the status, and the decoded body, of which either member may be missing.\<close>

record transit_answer =
  ta_success :: bool
  ta_status :: string
  ta_body :: "(string option \<times> string option, string) result"

record 's transit_lib =
  tl_post :: "string \<Rightarrow> string \<Rightarrow> json \<Rightarrow> ('s, transit_answer, string) eff"
  tl_b64_encode :: "bytes \<Rightarrow> string"
  tl_b64_decode :: "string \<Rightarrow> (bytes, string) result"

definition encrypt_url :: "vault_transit \<Rightarrow> string" where
  "encrypt_url v = trim_end_matches ''/'' (vt_vault_url v) @ ''/v1/'' @ vt_mount v @ ''/encrypt/'' @ vt_key_name v"

definition decrypt_url :: "vault_transit \<Rightarrow> string" where
  "decrypt_url v = trim_end_matches ''/'' (vt_vault_url v) @ ''/v1/'' @ vt_mount v @ ''/decrypt/'' @ vt_key_name v"

definition transit_call ::
  "'s transit_lib \<Rightarrow> vault_transit \<Rightarrow> string \<Rightarrow> string \<Rightarrow> json \<Rightarrow> ('s, string option \<times> string option, kms_error) eff" where
  "transit_call lib v what url body =
     bindE (mapE (\<lambda>e. KmsTransport (what @ '': '' @ e)) (tl_post lib url (vt_token v) body)) (\<lambda>a.
     liftE (if \<not> ta_success a then Err (KmsCrypto (''vault transit '' @ what @ '' status '' @ ta_status a))
            else map_err (\<lambda>e. KmsCrypto (what @ '' body: '' @ e)) (ta_body a)))"

definition transit_unwrap :: "'s transit_lib \<Rightarrow> vault_transit \<Rightarrow> bytes \<Rightarrow> ('s, bytes, kms_error) eff" where
  "transit_unwrap lib v wrapped =
     bindE (liftE (case utf8_error 0 (text_of_bytes wrapped) of
                     Some e \<Rightarrow> Err (KmsCrypto (''vault ciphertext not utf-8: '' @ e))
                   | None \<Rightarrow> Ok (trim (text_of_bytes wrapped)))) (\<lambda>ciphertext.
     bindE (transit_call lib v ''decrypt'' (decrypt_url v) (j_obj [(''ciphertext'', JStr ciphertext)])) (\<lambda>(_, plaintext).
     bindE (liftE (ok_or plaintext (KmsCrypto ''vault decrypt: no plaintext''))) (\<lambda>b64.
     liftE (map_err (\<lambda>e. KmsCrypto (''decrypt b64: '' @ e)) (tl_b64_decode lib b64)))))"

definition transit_wrap :: "'s transit_lib \<Rightarrow> vault_transit \<Rightarrow> bytes \<Rightarrow> ('s, bytes, kms_error) eff" where
  "transit_wrap lib v plaintext =
     bindE (transit_call lib v ''encrypt'' (encrypt_url v) (j_obj [(''plaintext'', JStr (tl_b64_encode lib plaintext))])) (\<lambda>(ciphertext, _).
     bindE (liftE (ok_or ciphertext (KmsCrypto ''vault encrypt: no ciphertext''))) (\<lambda>c.
     retE (bytes_of_text c)))"

definition transit_kms :: "'s transit_lib \<Rightarrow> vault_transit \<Rightarrow> 's kms_client" where
  "transit_kms lib v = \<lparr>km_unwrap = transit_unwrap lib v, km_wrap = transit_wrap lib v, km_id = ''vault_transit''\<rparr>"

subsection \<open>The envelope on disk\<close>

record wrapped_dek =
  wd_provider :: string
  wd_kek_ref :: string
  wd_version :: "32 word"
  wd_ciphertext_b64 :: string

definition wrapped_dek_new :: "(bytes \<Rightarrow> string) \<Rightarrow> string \<Rightarrow> string \<Rightarrow> bytes \<Rightarrow> wrapped_dek" where
  "wrapped_dek_new b64_encode provider kek_ref ciphertext =
     \<lparr>wd_provider = provider, wd_kek_ref = kek_ref, wd_version = 1, wd_ciphertext_b64 = b64_encode ciphertext\<rparr>"

definition wrapped_ciphertext :: "(string \<Rightarrow> (bytes, string) result) \<Rightarrow> wrapped_dek \<Rightarrow> (bytes, kms_error) result" where
  "wrapped_ciphertext b64_decode e = map_err (\<lambda>m. KmsCrypto (''base64: '' @ m)) (b64_decode (wd_ciphertext_b64 e))"

section \<open>Lemmas: loading\<close>

text \<open>A key that is loaded has 32 bytes and is the content of one file; in production (with the credentials directory set) it is the file
  of that directory, whatever the development variable says.\<close>

lemma key_from_path_Ok: "key_from_path read path = Ok k \<longleftrightarrow> read path = Ok k \<and> length k = SEAL_KEY_LEN"
  by (auto simp: key_from_path_def bind_result_Ok_iff split: if_splits)

lemma loaded_key_length: "key_from_systemd_or_dev_env read getenv = Ok k \<Longrightarrow> length k = SEAL_KEY_LEN"
  by (auto simp: key_from_systemd_or_dev_env_def key_from_systemd_credential_def key_from_path_Ok split: if_splits option.splits)

lemma production_ignores_dev_file:
  assumes "getenv ''CREDENTIALS_DIRECTORY'' = Some dir"
  shows "key_from_systemd_or_dev_env read (getenv(''DAIMON_MASTER_KEY_FILE'' := f)) = key_from_systemd_or_dev_env read getenv"
  using assms by (simp add: key_from_systemd_or_dev_env_def key_from_systemd_credential_def env_var_def)

lemma no_source_no_key:
  "getenv ''CREDENTIALS_DIRECTORY'' = None \<Longrightarrow> getenv ''DAIMON_MASTER_KEY_FILE'' = None \<Longrightarrow>
   \<exists>m. key_from_systemd_or_dev_env read getenv = Err (MkBootstrap m)"
  by (simp add: key_from_systemd_or_dev_env_def env_var_def)

lemma seal_key_length: "seal_key_from_env hex getenv = Ok k \<Longrightarrow> length k = SEAL_KEY_LEN"
  by (auto simp: seal_key_from_env_def seal_key_from_hex_def bind_result_Ok_iff split: if_splits)

section \<open>The contract of a provider\<close>

locale kms =
  fixes client :: "'s kms_client"
  assumes unwrap_wrapped: "fst (km_wrap client dek s) = Ok c \<Longrightarrow> fst (km_unwrap client c s') = Ok k \<Longrightarrow> k = dek"
begin

text \<open>A key that was wrapped and put into the envelope is the key that a later start unwraps from it, if it unwraps one.\<close>

lemma envelope_recovers:
  assumes "\<And>b. b64_decode (b64_encode b) = Ok b"
    and "fst (km_wrap client dek s) = Ok c"
    and "wrapped_ciphertext b64_decode (wrapped_dek_new b64_encode (km_id client) kek c) = Ok c'"
    and "fst (km_unwrap client c' s') = Ok k"
  shows "k = dek"
proof -
  have "c' = c" using assms(1) [of c] assms(3) by (simp add: wrapped_ciphertext_def wrapped_dek_new_def)
  then show ?thesis using unwrap_wrapped [OF assms(2)] assms(4) by blast
qed

lemma wrap_injective:
  assumes "fst (km_wrap client d1 s) = Ok c" "fst (km_wrap client d2 s') = Ok c" "fst (km_unwrap client c s'') = Ok k"
  shows "d1 = d2"
  using unwrap_wrapped [OF assms(1,3)] unwrap_wrapped [OF assms(2,3)] by simp

end

interpretation local_file: kms local_file_kms
  by unfold_locales (simp add: local_file_kms_def retE_def)

interpretation aws: kms aws_kms
  by unfold_locales (simp add: aws_kms_def failE_def)

interpretation pkcs11: kms pkcs11_kms
  by unfold_locales (simp add: pkcs11_kms_def failE_def)

lemma local_file_total: "fst (km_unwrap local_file_kms c s) = Ok c" "fst (km_wrap local_file_kms c s) = Ok c"
  by (simp_all add: local_file_kms_def retE_def)

subsection \<open>Vault Transit\<close>

text \<open>What is documented of the server and the codec: what decryption answers for a text that encryption answered is the
  plaintext it was given, such a text is ASCII without surrounding blanks, and base64 undoes itself.\<close>

definition transit_ok :: "'s transit_lib \<Rightarrow> vault_transit \<Rightarrow> bool" where
  "transit_ok lib v \<longleftrightarrow>
     (\<forall>b. tl_b64_decode lib (tl_b64_encode lib b) = Ok b) \<and>
     (\<forall>p s a c q. fst (tl_post lib (encrypt_url v) (vt_token v) (j_obj [(''plaintext'', JStr p)]) s) = Ok a \<and> ta_success a \<and> ta_body a = Ok (Some c, q) \<longrightarrow>
        (\<forall>x \<in> set c. char_code x < 128) \<and> trim c = c \<and>
        (\<forall>s' a' r p'. fst (tl_post lib (decrypt_url v) (vt_token v) (j_obj [(''ciphertext'', JStr c)]) s') = Ok a' \<and> ta_success a' \<and>
           ta_body a' = Ok (r, Some p') \<longrightarrow> p' = p))"

lemma text_of_bytes_of_text: "text_of_bytes (bytes_of_text s) = s"
proof -
  have "char_of (unat (word_of_nat (of_char c) :: 8 word)) = c" for c
    by (simp add: unat_of_nat)
  then show ?thesis by (simp add: text_of_bytes_def bytes_of_text_def map_idI)
qed

lemma transit_call_Ok:
  "fst (transit_call lib v what url body s) = Ok b \<longleftrightarrow>
   (\<exists>a. fst (tl_post lib url (vt_token v) body s) = Ok a \<and> ta_success a \<and> ta_body a = Ok b)"
  by (auto simp: transit_call_def bindE_def liftE_def mapE.simps split: prod.split result.split)

lemma fst_bindE_Ok: "fst (bindE f g s) = Ok y \<longleftrightarrow> (\<exists>x s'. f s = (Ok x, s') \<and> fst (g x s') = Ok y)"
  by (auto simp: bindE_def split: prod.split result.split)

text \<open>Over such a server the Transit provider keeps the contract.\<close>

lemma transit_keeps_contract:
  assumes "transit_ok lib v"
  shows "kms (transit_kms lib v)"
proof
  fix dek c k s s'
  assume w: "fst (km_wrap (transit_kms lib v) dek s) = Ok c" and u: "fst (km_unwrap (transit_kms lib v) c s') = Ok k"
  obtain a t q where a: "fst (tl_post lib (encrypt_url v) (vt_token v) (j_obj [(''plaintext'', JStr (tl_b64_encode lib dek))]) s) = Ok a"
    "ta_success a" "ta_body a = Ok (Some t, q)" and c: "c = bytes_of_text t"
  proof -
    obtain t q where t: "fst (transit_call lib v ''encrypt'' (encrypt_url v) (j_obj [(''plaintext'', JStr (tl_b64_encode lib dek))]) s) = Ok (Some t, q)"
      "c = bytes_of_text t"
      using w by (auto simp: transit_kms_def transit_wrap_def fst_bindE_Ok liftE_def retE_def ok_or_def split: option.splits)
    then show ?thesis using that by (auto simp: transit_call_Ok)
  qed
  have t: "\<forall>x \<in> set t. char_code x < 128" "trim t = t"
    using assms a unfolding transit_ok_def by blast+
  obtain r p' where "fst (transit_call lib v ''decrypt'' (decrypt_url v) (j_obj [(''ciphertext'', JStr t)]) s') = Ok (r, Some p')"
    and k: "tl_b64_decode lib p' = Ok k"
    using u by (auto simp: transit_kms_def transit_unwrap_def c text_of_bytes_of_text utf8_error_ascii [OF t(1)] t(2) fst_bindE_Ok liftE_def ok_or_def
        split: option.splits)
  then have "p' = tl_b64_encode lib dek"
    using assms a unfolding transit_ok_def transit_call_Ok by blast
  then show "k = dek" using k assms by (simp add: transit_ok_def)
qed

text \<open>Such a server exists: one that marks an ASCII text on both sides and refuses any other.\<close>

definition ex_transit :: vault_transit where
  "ex_transit = \<lparr>vt_vault_url = ''https://v/'', vt_mount = ''transit'', vt_key_name = ''daimon'', vt_token = ''t''\<rparr>"

definition ex_transit_post :: "string \<Rightarrow> string \<Rightarrow> json \<Rightarrow> (unit, transit_answer, string) eff" where
  "ex_transit_post url token body s =
     (Ok (case (j_get_str ''plaintext'' body, j_get_str ''ciphertext'' body) of
            (Some p, _) \<Rightarrow>
              \<lparr>ta_success = list_all (\<lambda>x. char_code x < 128) p, ta_status = ''400'', ta_body = Ok (Some (''v'' @ p @ ''.''), None)\<rparr>
          | (None, Some c) \<Rightarrow> \<lparr>ta_success = True, ta_status = ''200'', ta_body = Ok (None, Some (butlast (drop 1 c)))\<rparr>
          | (None, None) \<Rightarrow> \<lparr>ta_success = False, ta_status = ''400'', ta_body = Err ''bad''\<rparr>), s)"

definition ex_transit_lib :: "unit transit_lib" where
  "ex_transit_lib = \<lparr>tl_post = ex_transit_post, tl_b64_encode = text_of_bytes, tl_b64_decode = (\<lambda>s. Ok (bytes_of_text s))\<rparr>"

lemma bytes_of_text_of_bytes: "bytes_of_text (text_of_bytes b) = b"
proof -
  have "word_of_nat (of_char (char_of (unat x) :: char)) = x" for x :: "8 word"
    using unsigned_less [of x, where 'a = nat] by (simp add: of_char_of)
  then show ?thesis by (simp add: text_of_bytes_def bytes_of_text_def map_idI)
qed

lemma transit_ok_example: "transit_ok ex_transit_lib ex_transit"
  unfolding transit_ok_def
  by (auto simp: ex_transit_lib_def ex_transit_post_def j_get_str_def bytes_of_text_of_bytes list_all_iff char_code_def trim_def is_whitespace_def)

end
