(* ===== verification/MemoryClient.thy ===== *)
theory MemoryClient
  imports AdminConsole Complex_Main
begin

text \<open>
  The client of the memory sidecar (\<open>daimon-memory\<close>: \<open>dmem_http.rs\<close>) and the null memory that stands in for it. The sidecar
  is an effect on a state \<open>'s\<close>: a request by its path and body, answered with a status and a JSON body or not at all. What both
  implementations of the service promise is the locale \<open>memory_tier\<close>. Scores are exact fractions; the
  code rounds them to single precision.
\<close>

section \<open>The sidecar\<close>

datatype memory_error = MeHttp string | MeDecode string | MeUnreachable string | MeSerde string

fun show_memory_error :: "memory_error \<Rightarrow> string" where
  "show_memory_error (MeHttp e) = ''dmem http error: '' @ e"
| "show_memory_error (MeDecode e) = ''dmem decode error: '' @ e"
| "show_memory_error (MeUnreachable e) = ''dmem unreachable: '' @ e"
| "show_memory_error (MeSerde e) = ''serialization error: '' @ e"

text \<open>The status with its text, and the body: its text for an error, its JSON otherwise, each of which may fail to arrive.\<close>

record sidecar_answer =
  sa_success :: bool
  sa_status :: string
  sa_text :: "string option"
  sa_json :: "(json, string) result"

record 's sidecar =
  sc_post :: "string \<Rightarrow> json \<Rightarrow> ('s, sidecar_answer, string) eff"
  sc_health :: "('s, bool \<times> string, string) eff"

definition dmem_post :: "'s sidecar \<Rightarrow> (json \<Rightarrow> ('x, string) result) \<Rightarrow> string \<Rightarrow> json \<Rightarrow> ('s, 'x, memory_error) eff" where
  "dmem_post sc decode path body =
     bindE (mapE (\<lambda>e. MeUnreachable (''POST '' @ path @ '': '' @ e)) (sc_post sc path body)) (\<lambda>a.
     liftE (if \<not> sa_success a
            then Err (MeHttp (''POST '' @ path @ '' -> '' @ sa_status a @ '': '' @
                        take_chars 200 (case sa_text a of Some t \<Rightarrow> t | None \<Rightarrow> '''')))
            else map_err (\<lambda>e. MeDecode (''decode '' @ path @ '' response: '' @ e)) (bind_result (sa_json a) decode)))"

record dm_entry =
  de_uri :: string
  de_kind :: string
  de_namespace :: string
  de_title :: string
  de_body :: string

text \<open>The decoders are the ones serde derives; the text of their errors is left open.\<close>

record dmem_decoders =
  dd_entries :: "json \<Rightarrow> (dm_entry list, string) result"
  dd_uri :: "json \<Rightarrow> (string, string) result"
  dd_forgotten :: "json \<Rightarrow> (bool, string) result"

definition is_typed_kind :: "string \<Rightarrow> bool" where
  "is_typed_kind kind \<longleftrightarrow> kind \<in> set [''decision'', ''incident_summary'', ''incident'', ''agent_lesson'', ''lesson'']"

definition est_tokens :: "string \<Rightarrow> nat" where
  "est_tokens s = max (char_count s div 4) 1"

definition recall_entries :: "'s sidecar \<Rightarrow> dmem_decoders \<Rightarrow> string \<Rightarrow> nat \<Rightarrow> ('s, dm_entry list, memory_error) eff" where
  "recall_entries sc dd query limit =
     dmem_post sc (dd_entries dd) ''/recall'' (j_obj [(''query'', JStr query), (''limit'', JNum (JPos limit))])"

definition rank_score :: "nat \<Rightarrow> nat \<Rightarrow> rat" where
  "rank_score i len = (if len = 0 then 0 else 1 - of_nat i / of_nat len)"

section \<open>The service\<close>

record recall_budget =
  rb_max_tokens :: nat
  rb_top_k :: nat
  rb_rerank :: bool

definition recall_budget_default :: recall_budget where
  "recall_budget_default = \<lparr>rb_max_tokens = 3000, rb_top_k = 6, rb_rerank = True\<rparr>"

record scored_record =
  sr_uri :: string
  sr_title :: string
  sr_content :: string
  sr_score :: rat

definition dmem_ingest :: "'s sidecar \<Rightarrow> dmem_decoders \<Rightarrow> ingest_doc \<Rightarrow> ('s, ingest_stats, memory_error) eff" where
  "dmem_ingest sc dd doc =
     (let namespace = ''resources/'' @ id_source_kind doc; content = ''['' @ id_source_id doc @ ''] '' @ id_content doc
      in bindE (dmem_post sc (dd_uri dd) ''/remember'' (j_obj [(''text'', JStr content), (''namespace'', JStr namespace)])) (\<lambda>_.
         retE \<lparr>is_source_id = id_source_id doc, is_chunks = 1, is_collection = namespace\<rparr>))"

definition dmem_delete :: "'s sidecar \<Rightarrow> dmem_decoders \<Rightarrow> string \<Rightarrow> ('s, unit, memory_error) eff" where
  "dmem_delete sc dd uri = bindE (dmem_post sc (dd_forgotten dd) ''/forget'' (j_obj [(''uri'', JStr uri)])) (\<lambda>_. retE ())"

definition chunk_of_entry :: "nat \<Rightarrow> nat \<times> dm_entry \<Rightarrow> rat retrieved_chunk" where
  "chunk_of_entry len ie =
     (case ie of (i, e) \<Rightarrow> \<lparr>rc_uri = de_uri e, rc_source_id = de_namespace e, rc_source_kind = de_kind e, rc_content = de_body e,
                           rc_score = rank_score i len\<rparr>)"

definition dmem_retrieve :: "'s sidecar \<Rightarrow> dmem_decoders \<Rightarrow> string \<Rightarrow> 32 word \<Rightarrow> ('s, rat retrieved_chunk list, memory_error) eff" where
  "dmem_retrieve sc dd query top_k =
     bindE (recall_entries sc dd query (unat top_k)) (\<lambda>es. retE (map (chunk_of_entry (length es)) (enumerate 0 es)))"

fun capture_request :: "typed_body \<Rightarrow> string \<times> (string \<times> json) list" where
  "capture_request (DecisionBody title context dec rationale) =
     (''/log_decision'', [(''title'', JStr title), (''context'', JStr context), (''decision'', JStr dec), (''rationale'', JStr rationale)])"
| "capture_request (IncidentBody title impact resolution) =
     (''/log_incident'', [(''title'', JStr title), (''impact'', JStr impact), (''resolution'', JStr resolution)])"
| "capture_request (LessonBody title lesson) = (''/log_lesson'', [(''title'', JStr title), (''lesson'', JStr lesson)])"

definition dmem_capture :: "'s sidecar \<Rightarrow> dmem_decoders \<Rightarrow> typed_record \<Rightarrow> ('s, string, memory_error) eff" where
  "dmem_capture sc dd rec =
     (case capture_request (tr_body rec) of
        (path, ms) \<Rightarrow> dmem_post sc (dd_uri dd) path (j_obj (ms @ (case tr_namespace rec of Some ns \<Rightarrow> [(''namespace'', JStr ns)] | None \<Rightarrow> []))))"

definition record_of_entry :: "nat \<Rightarrow> nat \<times> dm_entry \<Rightarrow> scored_record" where
  "record_of_entry len ie =
     (case ie of (i, e) \<Rightarrow> \<lparr>sr_uri = de_uri e, sr_title = de_title e, sr_content = de_body e, sr_score = rank_score i len\<rparr>)"

definition dmem_recall :: "'s sidecar \<Rightarrow> dmem_decoders \<Rightarrow> string \<Rightarrow> recall_budget \<Rightarrow> ('s, scored_record list, memory_error) eff" where
  "dmem_recall sc dd query budget =
     (let k = max (rb_top_k budget) 1
      in bindE (recall_entries sc dd query (k * 2)) (\<lambda>es.
         let typed = take k (filter (\<lambda>e. is_typed_kind (de_kind e)) es)
         in retE (map (record_of_entry (length typed)) (enumerate 0 typed))))"

definition entry_line :: "dm_entry \<Rightarrow> string" where
  "entry_line e = ''- ('' @ de_kind e @ '') '' @ de_title e @ '': '' @ de_body e"

text \<open>Packing: each record once, in order, until one does not fit.\<close>

fun pack :: "string list \<Rightarrow> nat \<Rightarrow> dm_entry list \<Rightarrow> string list" where
  "pack seen left [] = []"
| "pack seen left (e # es) =
     (if de_uri e \<in> set seen then pack seen left es
      else let line = entry_line e; cost = est_tokens line
           in if cost > left then [] else line # pack (de_uri e # seen) (left - cost) es)"

definition pre_turn_recall :: "'s sidecar \<Rightarrow> dmem_decoders \<Rightarrow> string \<Rightarrow> recall_budget \<Rightarrow> 's \<Rightarrow> pre_turn_context \<times> 's" where
  "pre_turn_recall sc dd msg budget s =
     (let limit = max (rb_top_k budget) 1
      in case recall_entries sc dd msg limit s of
           (Err _, s1) \<Rightarrow> (degraded_context, s1)
         | (Ok docs, s1) \<Rightarrow>
             (case recall_entries sc dd msg (limit * 2) s1 of
                (Err _, s2) \<Rightarrow> (degraded_context, s2)
              | (Ok pool, s2) \<Rightarrow>
                  (let packed = pack [] (rb_max_tokens budget) (filter (\<lambda>e. is_typed_kind (de_kind e)) pool @ docs)
                   in (\<lparr>pc_block = join newline packed, pc_degraded = False, pc_hits = length packed\<rparr>, s2))))"

record memory_health =
  mh_reachable :: bool
  mh_detail :: "string option"

definition dmem_health :: "'s sidecar \<Rightarrow> 's \<Rightarrow> memory_health \<times> 's" where
  "dmem_health sc s =
     (case sc_health sc s of
        (Ok (ok, status), s') \<Rightarrow>
          (if ok then \<lparr>mh_reachable = True, mh_detail = None\<rparr>
           else \<lparr>mh_reachable = False, mh_detail = Some (''healthz -> '' @ status)\<rparr>, s')
      | (Err e, s') \<Rightarrow> (\<lparr>mh_reachable = False, mh_detail = Some (''healthz unreachable: '' @ e)\<rparr>, s'))"

section \<open>The null memory\<close>

definition null_ingest :: "ingest_doc \<Rightarrow> ('s, ingest_stats, memory_error) eff" where
  "null_ingest doc = retE \<lparr>is_source_id = id_source_id doc, is_chunks = 0, is_collection = ''(null-memory)''\<rparr>"

definition null_delete :: "string \<Rightarrow> ('s, unit, memory_error) eff" where
  "null_delete uri = retE ()"

definition null_retrieve :: "string \<Rightarrow> 32 word \<Rightarrow> ('s, rat retrieved_chunk list, memory_error) eff" where
  "null_retrieve query top_k = retE []"

definition null_capture :: "typed_record \<Rightarrow> ('s, string, memory_error) eff" where
  "null_capture rec = retE (''daimon://null-memory/'' @ record_kind (tr_body rec))"

definition null_recall :: "string \<Rightarrow> recall_budget \<Rightarrow> ('s, scored_record list, memory_error) eff" where
  "null_recall query budget = retE []"

definition null_pre_turn_recall :: "string \<Rightarrow> recall_budget \<Rightarrow> 's \<Rightarrow> pre_turn_context \<times> 's" where
  "null_pre_turn_recall msg budget s = (degraded_context, s)"

definition null_health :: "'s \<Rightarrow> memory_health \<times> 's" where
  "null_health s = (\<lparr>mh_reachable = False, mh_detail = Some ''null memory (sidecar unconfigured or unreachable at boot)''\<rparr>, s)"

section \<open>Lemmas: packing\<close>

lemma est_tokens_pos: "1 \<le> est_tokens s"
  by (simp add: est_tokens_def)

lemma char_count_est: "char_count s \<le> 4 * est_tokens s + 3"
  by (simp add: est_tokens_def max_def) linarith

text \<open>What is packed: some of the records in their order, none twice, within the budget.\<close>

lemma pack_spec:
  "\<exists>es'. pack seen left es = map entry_line es' \<and> subseq es' es \<and> distinct (map de_uri es') \<and> set (map de_uri es') \<inter> set seen = {} \<and>
     sum_list (map est_tokens (pack seen left es)) \<le> left"
proof (induction seen left es rule: pack.induct)
  case (1 seen left)
  show ?case by (intro exI [of _ "[]"]) simp
next
  case (2 seen left e es)
  show ?case
  proof (cases "de_uri e \<in> set seen")
    case True
    with 2(1) obtain es' where "pack seen left es = map entry_line es'" "subseq es' es" "distinct (map de_uri es')"
      "set (map de_uri es') \<inter> set seen = {}" "sum_list (map est_tokens (pack seen left es)) \<le> left" by blast
    then show ?thesis using True by (intro exI [of _ es']) auto
  next
    case False
    show ?thesis
    proof (cases "est_tokens (entry_line e) > left")
      case True
      then show ?thesis using False by (intro exI [of _ "[]"]) (simp add: Let_def)
    next
      case fits: False
      from 2(2) [OF False refl refl] fits obtain es' where p: "pack (de_uri e # seen) (left - est_tokens (entry_line e)) es = map entry_line es'"
        "subseq es' es" "distinct (map de_uri es')" "set (map de_uri es') \<inter> set (de_uri e # seen) = {}"
        "sum_list (map est_tokens (pack (de_uri e # seen) (left - est_tokens (entry_line e)) es)) \<le> left - est_tokens (entry_line e)" by blast
      then show ?thesis using False fits by (intro exI [of _ "e # es'"]) (auto simp: Let_def)
    qed
  qed
qed

lemma char_count_lines: "char_count (join newline ls) + length ls \<le> 8 * sum_list (map est_tokens ls) + (if ls = [] then 0 else length ls)"
proof -
  have "char_count (join newline ls) + (if ls = [] then 0 else 1) \<le> sum_list (map (\<lambda>l. 4 * est_tokens l + 4) ls)"
  proof (induction newline ls rule: join.induct)
    case (2 s)
    then show ?case using char_count_est [of s] by simp
  next
    case (3 s t r)
    then show ?case using char_count_est [of s] by (simp add: char_count_append) (simp add: char_count_def newline_def utf8_cont_def char_code_def)
  qed (simp add: char_count_def)
  moreover have "sum_list (map (\<lambda>l. 4 * est_tokens l + 4) ls) \<le> 8 * sum_list (map est_tokens ls)"
  proof (induction ls)
    case (Cons l ls)
    then show ?case using est_tokens_pos [of l] by simp
  qed simp
  ultimately show ?thesis by (cases "ls = []") simp_all
qed

lemma rank_score_bounds: "i < len \<Longrightarrow> 0 < rank_score i len \<and> rank_score i len \<le> 1"
  by (simp add: rank_score_def field_simps)

lemma rank_score_decreasing: "i < j \<Longrightarrow> j < len \<Longrightarrow> rank_score j len < rank_score i len"
  by (simp add: rank_score_def divide_strict_right_mono)

section \<open>The contract of the memory\<close>

locale memory_tier =
  fixes recall :: "string \<Rightarrow> recall_budget \<Rightarrow> ('s, scored_record list, memory_error) eff"
    and pre_turn :: "string \<Rightarrow> recall_budget \<Rightarrow> 's \<Rightarrow> pre_turn_context \<times> 's"
  assumes degraded_empty: "pc_degraded (fst (pre_turn msg b s)) \<Longrightarrow> fst (pre_turn msg b s) = degraded_context"
    and block_lines: "\<exists>ls. pc_block (fst (pre_turn msg b s)) = join newline ls \<and> length ls = pc_hits (fst (pre_turn msg b s)) \<and>
      sum_list (map est_tokens ls) \<le> rb_max_tokens b"
    and recall_bounded: "fst (recall q b s) = Ok rs \<Longrightarrow> length rs \<le> max (rb_top_k b) 1"
    and recall_scored: "fst (recall q b s) = Ok rs \<Longrightarrow> r \<in> set rs \<Longrightarrow> 0 < sr_score r \<and> sr_score r \<le> 1"
begin

lemma block_chars: "char_count (pc_block (fst (pre_turn msg b s))) \<le> 8 * rb_max_tokens b"
proof -
  obtain ls where ls: "pc_block (fst (pre_turn msg b s)) = join newline ls" "sum_list (map est_tokens ls) \<le> rb_max_tokens b"
    using block_lines by blast
  then show ?thesis using char_count_lines [of ls] by (cases "ls = []") (simp_all add: char_count_def)
qed

lemma hits_bounded: "pc_hits (fst (pre_turn msg b s)) \<le> rb_max_tokens b"
proof -
  obtain ls where ls: "length ls = pc_hits (fst (pre_turn msg b s))" "sum_list (map est_tokens ls) \<le> rb_max_tokens b"
    using block_lines by blast
  have "length ls \<le> sum_list (map est_tokens ls)"
  proof (induction ls)
    case (Cons l ls)
    then show ?case using est_tokens_pos [of l] by simp
  qed simp
  with ls show ?thesis by simp
qed

lemma nothing_injected: "pc_degraded (fst (pre_turn msg b s)) \<Longrightarrow> \<not> has_context (fst (pre_turn msg b s))"
  using degraded_empty [of msg b s] by (simp add: has_context_def degraded_context_def trim_def)

end

lemma pre_turn_cases:
  "fst (pre_turn_recall sc dd msg b s) = degraded_context \<or>
   (\<exists>docs pool. fst (pre_turn_recall sc dd msg b s) =
      (let packed = pack [] (rb_max_tokens b) (filter (\<lambda>e. is_typed_kind (de_kind e)) pool @ docs)
       in \<lparr>pc_block = join newline packed, pc_degraded = False, pc_hits = length packed\<rparr>) \<and>
      (\<exists>s1. recall_entries sc dd msg (max (rb_top_k b) 1) s = (Ok docs, s1) \<and>
        fst (recall_entries sc dd msg (max (rb_top_k b) 1 * 2) s1) = Ok pool))"
  by (auto simp: pre_turn_recall_def Let_def split: prod.split result.split)

interpretation dmem: memory_tier "dmem_recall sc dd" "pre_turn_recall sc dd" for sc :: "'s sidecar" and dd
proof
  fix msg b and s :: 's
  show "fst (pre_turn_recall sc dd msg b s) = degraded_context" if "pc_degraded (fst (pre_turn_recall sc dd msg b s))"
    using pre_turn_cases [of sc dd msg b s] that by (auto simp: Let_def)
  show "\<exists>ls. pc_block (fst (pre_turn_recall sc dd msg b s)) = join newline ls \<and> length ls = pc_hits (fst (pre_turn_recall sc dd msg b s)) \<and>
      sum_list (map est_tokens ls) \<le> rb_max_tokens b"
    using pre_turn_cases [of sc dd msg b s]
  proof (elim disjE exE conjE)
    assume "fst (pre_turn_recall sc dd msg b s) = degraded_context"
    then show ?thesis by (intro exI [of _ "[]"]) (simp add: degraded_context_def)
  next
    fix docs pool
    let ?p = "pack [] (rb_max_tokens b) (filter (\<lambda>e. is_typed_kind (de_kind e)) pool @ docs)"
    assume "fst (pre_turn_recall sc dd msg b s) = (let packed = ?p in \<lparr>pc_block = join newline packed, pc_degraded = False, pc_hits = length packed\<rparr>)"
    then show ?thesis using pack_spec [of "[]" "rb_max_tokens b" "filter (\<lambda>e. is_typed_kind (de_kind e)) pool @ docs"]
      by (intro exI [of _ ?p]) (auto simp: Let_def)
  qed
next
  fix q b rs and s :: 's assume r: "fst (dmem_recall sc dd q b s) = Ok rs"
  let ?typed = "\<lambda>es. take (max (rb_top_k b) 1) (filter (\<lambda>e. is_typed_kind (de_kind e)) es)"
  obtain es where rs: "rs = map (record_of_entry (length (?typed es))) (enumerate 0 (?typed es))"
    using r by (auto simp del: length_take simp: dmem_recall_def Let_def bindE_def retE_def split: prod.splits result.splits)
  show "length rs \<le> max (rb_top_k b) 1" using rs by simp
  show "0 < sr_score r \<and> sr_score r \<le> 1" if "r \<in> set rs" for r
    using that rs rank_score_bounds by (auto simp del: length_take simp: in_set_enumerate_eq record_of_entry_def)
qed

interpretation null: memory_tier null_recall null_pre_turn_recall
  by unfold_locales (auto simp: null_recall_def null_pre_turn_recall_def degraded_context_def retE_def intro: exI [of _ "[]"])

end
