(* ===== verification/Socket.thy ===== *)
theory Socket
  imports Chat
begin

text \<open>
  The browser's WebSocket (\<open>ws.rs\<close>): the messages in both directions and their JSON, the sink that turns the events of a
  chat turn into messages, and the loop of a connection. What arrives on a connection, from the client and from the
  broadcast channel, is a list in the order in which the loop takes it; the list ends when the client's stream does. JSON text is read and
  printed by parameters.
\<close>

section \<open>Messages\<close>

datatype ws_scope = Placeholder

datatype ws_client_msg =
    WsSubscribe ws_scope
  | WsUnsubscribe ws_scope
  | WsPing
  | WsChatSend string string "string option" "string option"

datatype ws_server_msg =
    WsSnapshot ws_scope json
  | WsUpdate ws_scope json
  | WsPong
  | WsError string
  | AgentTokenDelta string string string
  | AgentToolUse string string string json
  | AgentToolResult string string string string bool
  | AgentDone string string string nat nat

fun scope_to_json :: "ws_scope \<Rightarrow> json" where
  "scope_to_json Placeholder = j_obj [(''kind'', JStr ''Placeholder'')]"

definition scope_of_json :: "json \<Rightarrow> ws_scope option" where
  "scope_of_json v = (if j_get_str ''kind'' v = Some ''Placeholder'' then Some Placeholder else None)"

definition tagged :: "string \<Rightarrow> (string \<times> json) list \<Rightarrow> json" where
  "tagged t ms = j_obj ((''type'', JStr t) # ms)"

fun server_to_json :: "ws_server_msg \<Rightarrow> json" where
  "server_to_json (WsSnapshot sc d) = tagged ''Snapshot'' [(''scope'', scope_to_json sc), (''data'', d)]"
| "server_to_json (WsUpdate sc d) = tagged ''Update'' [(''scope'', scope_to_json sc), (''data'', d)]"
| "server_to_json WsPong = tagged ''Pong'' []"
| "server_to_json (WsError m) = tagged ''Error'' [(''message'', JStr m)]"
| "server_to_json (AgentTokenDelta a s c) =
     tagged ''AgentTokenDelta'' [(''agent_id'', JStr a), (''session_id'', JStr s), (''content_delta'', JStr c)]"
| "server_to_json (AgentToolUse a s t p) =
     tagged ''AgentToolUse'' [(''agent_id'', JStr a), (''session_id'', JStr s), (''tool'', JStr t), (''params'', p)]"
| "server_to_json (AgentToolResult a s t out e) =
     tagged ''AgentToolResult'' [(''agent_id'', JStr a), (''session_id'', JStr s), (''tool'', JStr t), (''output'', JStr out), (''is_error'', JBool e)]"
| "server_to_json (AgentDone a s r i out) =
     tagged ''AgentDone'' [(''agent_id'', JStr a), (''session_id'', JStr s), (''stop_reason'', JStr r),
       (''input_tokens'', JNum (JPos i)), (''output_tokens'', JNum (JPos out))]"

definition opt_bind2 :: "('x \<Rightarrow> 'y \<Rightarrow> 'z) \<Rightarrow> 'x option \<Rightarrow> 'y option \<Rightarrow> 'z option" where
  "opt_bind2 f x y = Option.bind x (\<lambda>a. map_option (f a) y)"

text \<open>The decoders of the two enums: by the tag, every required member present and of its type.\<close>

definition server_of_json :: "json \<Rightarrow> ws_server_msg option" where
  "server_of_json v =
     (let str = (\<lambda>k. j_get_str k v); num = (\<lambda>k. Option.bind (Option.bind (j_get k v) j_as_u64) (\<lambda>n. if n < 2 ^ 32 then Some n else None));
          with_scope = (\<lambda>con. opt_bind2 con (Option.bind (j_get ''scope'' v) scope_of_json) (j_get ''data'' v))
      in case str ''type'' of
           None \<Rightarrow> None
         | Some t \<Rightarrow>
             if t = ''Snapshot'' then with_scope WsSnapshot
             else if t = ''Update'' then with_scope WsUpdate
             else if t = ''Pong'' then Some WsPong
             else if t = ''Error'' then map_option WsError (str ''message'')
             else if t = ''AgentTokenDelta'' then
               Option.bind (opt_bind2 AgentTokenDelta (str ''agent_id'') (str ''session_id'')) (\<lambda>f. map_option f (str ''content_delta''))
             else if t = ''AgentToolUse'' then
               Option.bind (opt_bind2 AgentToolUse (str ''agent_id'') (str ''session_id'')) (\<lambda>f. opt_bind2 f (str ''tool'') (j_get ''params'' v))
             else if t = ''AgentToolResult'' then
               Option.bind (Option.bind (opt_bind2 AgentToolResult (str ''agent_id'') (str ''session_id''))
                 (\<lambda>f. opt_bind2 f (str ''tool'') (str ''output''))) (\<lambda>f. map_option f (Option.bind (j_get ''is_error'' v) j_as_bool))
             else if t = ''AgentDone'' then
               Option.bind (Option.bind (opt_bind2 AgentDone (str ''agent_id'') (str ''session_id'')) (\<lambda>f. map_option f (str ''stop_reason'')))
                 (\<lambda>f. opt_bind2 f (num ''input_tokens'') (num ''output_tokens''))
             else None)"

definition client_of_json :: "json \<Rightarrow> ws_client_msg option" where
  "client_of_json v =
     (case j_get_str ''type'' v of
        None \<Rightarrow> None
      | Some t \<Rightarrow>
          if t = ''Subscribe'' then map_option WsSubscribe (Option.bind (j_get ''scope'' v) scope_of_json)
          else if t = ''Unsubscribe'' then map_option WsUnsubscribe (Option.bind (j_get ''scope'' v) scope_of_json)
          else if t = ''Ping'' then Some WsPing
          else if t = ''ChatSend'' then
            Option.bind (opt_bind2 WsChatSend (j_get_str ''session_id'' v) (j_get_str ''user_message'' v))
              (\<lambda>f. opt_bind2 f (optional_member ''model'' v) (optional_member ''effort'' v))
          else None)"

section \<open>The sink\<close>

fun ws_sink :: "turn_event \<Rightarrow> ws_server_msg" where
  "ws_sink (TokenDelta s c) = AgentTokenDelta ''chat'' s c"
| "ws_sink (ToolUseEvent s t p) = AgentToolUse ''chat'' s t p"
| "ws_sink (ToolResultEvent s t out e) = AgentToolResult ''chat'' s t out e"
| "ws_sink (DoneEvent s r i out) = AgentDone ''chat'' s r i out"
| "ws_sink (ErrorEvent m) = WsError m"

section \<open>The connection\<close>

datatype ws_frame = FrameText string | FrameClose | FrameOther

datatype ws_input =
    FromClient "(ws_frame, string) result"
  | FromBroadcast "(string, string) result"

text \<open>The texts sent to the client. A message of the broadcast goes through only when it has a scope the client subscribed to.\<close>

definition forward :: "(string \<Rightarrow> json option) \<Rightarrow> ws_scope set \<Rightarrow> string \<Rightarrow> string list" where
  "forward parse subs text =
     (case Option.bind (parse text) server_of_json of
        Some (WsUpdate sc _) \<Rightarrow> if sc \<in> subs then [text] else []
      | Some (WsSnapshot sc _) \<Rightarrow> if sc \<in> subs then [text] else []
      | _ \<Rightarrow> [])"

fun handle_ws ::
  "(('x, 'm, 'i, 't, 'a, 'b) chat_world, 'm, 'i, 't, 'a) chat_env \<Rightarrow> (json \<Rightarrow> string) \<Rightarrow> (string \<Rightarrow> json option) \<Rightarrow> string \<Rightarrow>
   ws_input list \<Rightarrow> ws_scope set \<Rightarrow> ('x, 'm, 'i, 't, 'a, 'b) chat_world \<Rightarrow> string list \<times> ('x, 'm, 'i, 't, 'a, 'b) chat_world" where
  "handle_ws cx print parse actor [] subs w = ([], w)"
| "handle_ws cx print parse actor (FromBroadcast (Err _) # ins) subs w = handle_ws cx print parse actor ins subs w"
| "handle_ws cx print parse actor (FromBroadcast (Ok text) # ins) subs w =
     (case handle_ws cx print parse actor ins subs w of (out, w') \<Rightarrow> (forward parse subs text @ out, w'))"
| "handle_ws cx print parse actor (FromClient (Err _) # ins) subs w = handle_ws cx print parse actor ins subs w"
| "handle_ws cx print parse actor (FromClient (Ok FrameClose) # ins) subs w = ([], w)"
| "handle_ws cx print parse actor (FromClient (Ok FrameOther) # ins) subs w = handle_ws cx print parse actor ins subs w"
| "handle_ws cx print parse actor (FromClient (Ok (FrameText text)) # ins) subs w =
     (case Option.bind (parse text) client_of_json of
        None \<Rightarrow> handle_ws cx print parse actor ins subs w
      | Some (WsSubscribe sc) \<Rightarrow> handle_ws cx print parse actor ins (insert sc subs) w
      | Some (WsUnsubscribe sc) \<Rightarrow> handle_ws cx print parse actor ins (subs - {sc}) w
      | Some WsPing \<Rightarrow>
          (case handle_ws cx print parse actor ins subs w of (out, w') \<Rightarrow> (print (server_to_json WsPong) # out, w'))
      | Some (WsChatSend sid msg model effort) \<Rightarrow>
          (case handle_chat_send cx actor sid msg model effort w of
             (evs, w1) \<Rightarrow>
               (case handle_ws cx print parse actor ins subs w1 of
                  (out, w2) \<Rightarrow> (map (\<lambda>e. print (server_to_json (ws_sink e))) evs @ out, w2))))"

text \<open>The upgrade: without a session the answer is 401 (\<open>None\<close>), and no connection is made.\<close>

definition ws_handler ::
  "(('x, 'm, 'i, 't, 'a, 'b) chat_world, 'm, 'i, 't, 'a) chat_env \<Rightarrow> (json \<Rightarrow> string) \<Rightarrow> (string \<Rightarrow> json option) \<Rightarrow> millis \<Rightarrow>
   string option \<Rightarrow> ws_input list \<Rightarrow> ('x, 'm, 'i, 't, 'a, 'b) chat_world \<Rightarrow>
   string list option \<times> ('x, 'm, 'i, 't, 'a, 'b) chat_world" where
  "ws_handler cx print parse now cookie ins w =
     (case authenticate_headers (ce_app (cx_console cx)) now cookie (co_app (st_console (ch_store w))) of
        (c, a) \<Rightarrow>
          (let w1 = w\<lparr>ch_store := (ch_store w)\<lparr>st_console := (st_console (ch_store w))\<lparr>co_app := a\<rparr>\<rparr>\<rparr>
           in case c of
                None \<Rightarrow> (None, w1)
              | Some cl \<Rightarrow> (case handle_ws cx print parse (''user:'' @ cm_sub cl) ins {} w1 of (out, w') \<Rightarrow> (Some out, w'))))"

section \<open>Lemmas\<close>

text \<open>What the server sends is what the page reads.\<close>

lemma server_msg_roundtrip:
  assumes "case m of AgentDone _ _ _ i out \<Rightarrow> i < 2 ^ 32 \<and> out < 2 ^ 32 | _ \<Rightarrow> True"
  shows "server_of_json (server_to_json m) = Some m"
proof (cases m)
  case (WsSnapshot sc d)
  then show ?thesis by (cases sc) (simp add: server_of_json_def tagged_def Let_def j_get_str_def opt_bind2_def scope_of_json_def)
next
  case (WsUpdate sc d)
  then show ?thesis by (cases sc) (simp add: server_of_json_def tagged_def Let_def j_get_str_def opt_bind2_def scope_of_json_def)
qed (use assms in \<open>simp_all add: server_of_json_def tagged_def Let_def j_get_str_def opt_bind2_def\<close>)

text \<open>Swapping the dispatcher for one that agrees on the actor's own id changes nothing in a connection.\<close>

lemma handle_ws_swap:
  assumes agree: "d (agent_id_new actor) = cx_dispatch cx (agent_id_new actor)"
  shows "handle_ws (swap_calls d (cx_stream cx) cx) print parse actor ins subs w = handle_ws cx print parse actor ins subs w"
proof -
  have turn: "handle_chat_send (swap_calls d (cx_stream cx) cx) actor sid t model effort v = handle_chat_send cx actor sid t model effort v"
    for sid t model effort v
    by (rule handle_chat_send_swap) (simp_all add: agree)
  show ?thesis
  proof (induction ins arbitrary: subs w)
    case (Cons i ins)
    show ?case
    proof (cases i)
      case (FromClient r)
      then show ?thesis
      proof (cases r)
        case (Ok f)
        with FromClient show ?thesis by (cases f) (simp_all add: Cons turn split: option.split ws_client_msg.split prod.split)
      qed (simp add: Cons)
    next
      case (FromBroadcast r)
      then show ?thesis by (cases r) (simp_all add: Cons)
    qed
  qed simp
qed

text \<open>Whatever is broadcast, a client without a subscription is sent only pongs and the events of its own turns.\<close>

lemma forward_unsubscribed: "forward parse {} text = []"
  by (simp add: forward_def split: option.split ws_server_msg.split)

lemma ws_handler_connects:
  assumes "authenticate_headers (ce_app (cx_console cx)) now cookie (co_app (st_console (ch_store w))) = (Some cl, a)"
  shows "\<exists>out w'. ws_handler cx print parse now cookie ins w = (Some out, w')"
proof -
  obtain out w' where "handle_ws cx print parse (''user:'' @ cm_sub cl) ins {}
      (w\<lparr>ch_store := (ch_store w)\<lparr>st_console := (st_console (ch_store w))\<lparr>co_app := a\<rparr>\<rparr>\<rparr>) = (out, w')" by fastforce
  then show ?thesis using assms by (simp add: ws_handler_def)
qed

section \<open>Properties\<close>

text \<open>C11: no anonymous connection exists, and a connection acts as its operator. Without a session that is on record and
  unexpired the upgrade is refused, and nothing is written: at most the account database has been asked. Otherwise, whatever the
  client sends and the model answers, the dispatcher is only ever called under the id of the user of the token: replacing it by one that agrees
  on that sender changes neither what is sent to the browser nor the state after the connection.\<close>

theorem socket_confined:
  assumes "ws_handler cx print parse now cookie ins w = (out, w')"
  shows "case out of
      None \<Rightarrow> \<exists>a. w' = w\<lparr>ch_store := (ch_store w)\<lparr>st_console := (st_console (ch_store w))\<lparr>co_app := a\<rparr>\<rparr>\<rparr> \<and>
        wo_tables a = wo_tables (co_app (st_console (ch_store w))) \<and> wo_broker a = wo_broker (co_app (st_console (ch_store w)))
    | Some _ \<Rightarrow> \<exists>cl s. fst (authenticate_headers (ce_app (cx_console cx)) now cookie (co_app (st_console (ch_store w)))) = Some cl \<and>
        s \<in> set (it_sessions (wo_tables (co_app (st_console (ch_store w))))) \<and> se_id s = cm_session_id cl \<and> now < se_expires_at s \<and>
        (\<forall>d. d (agent_id_new (''user:'' @ cm_sub cl)) = cx_dispatch cx (agent_id_new (''user:'' @ cm_sub cl)) \<longrightarrow>
           ws_handler (cx\<lparr>cx_dispatch := d\<rparr>) print parse now cookie ins w = (out, w'))"
proof -
  obtain c a where a: "authenticate_headers (ce_app (cx_console cx)) now cookie (co_app (st_console (ch_store w))) = (c, a)" by fastforce
  show ?thesis
  proof (cases c)
    case None
    then have "out = None" "w' = w\<lparr>ch_store := (ch_store w)\<lparr>st_console := (st_console (ch_store w))\<lparr>co_app := a\<rparr>\<rparr>\<rparr>"
      using assms a by (simp_all add: ws_handler_def)
    then show ?thesis using authenticate_tables [OF a] by auto
  next
    case (Some cl)
    obtain s where s: "s \<in> set (it_sessions (wo_tables (co_app (st_console (ch_store w)))))" "se_id s = cm_session_id cl" "now < se_expires_at s"
      using authenticate_Some [OF a [unfolded Some]] by blast
    have swap: "ws_handler (cx\<lparr>cx_dispatch := d\<rparr>) print parse now cookie ins w = (out, w')"
      if "d (agent_id_new (''user:'' @ cm_sub cl)) = cx_dispatch cx (agent_id_new (''user:'' @ cm_sub cl))" for d
    proof -
      have "ws_handler (swap_calls d (cx_stream cx) cx) print parse now cookie ins w = ws_handler cx print parse now cookie ins w"
        unfolding ws_handler_def swap_calls_sel a Some using handle_ws_swap [of d "''user:'' @ cm_sub cl" cx, OF that] by simp
      then show ?thesis using assms by (simp add: swap_calls_def)
    qed
    obtain texts where o: "out = Some texts" using ws_handler_connects [OF a [unfolded Some], of print parse ins] assms by auto
    show ?thesis unfolding o option.case a fst_conv
      by (intro exI [of _ cl] exI [of _ s] conjI allI impI) (use Some s o in simp, use s in simp_all, simp add: swap [unfolded o])
  qed
qed

section \<open>Witnesses\<close>

lemma ex_socket_claims:
  "\<exists>cl a. authenticate_headers (ce_app (cx_console ex_chat_env)) 6000 (Some ex_cookie) (co_app (st_console (ch_store ex_turn))) = (Some cl, a)"
proof -
  have env: "ce_app (cx_console ex_chat_env) = ce_app ex_console_env" "co_app (st_console (ch_store ex_turn)) = co_app ex_console"
    by (simp_all add: ex_chat_env_def ex_turn_def ex_store_def)
  obtain c a where a: "authenticate_headers (ce_app ex_console_env) 6000 (Some ex_cookie) (co_app ex_console) = (c, a)" by fastforce
  obtain cl where "fst (caller ex_console_env 6000 (Some ex_cookie) ex_store) = Ok cl" using ex_store_caller by auto
  then have "ok_or c ''unauthenticated'' = Ok cl"
    using a by (simp add: caller_def on_console_def on_app_def require_authenticated_def ex_store_def)
  then show ?thesis using a unfolding env by (cases c) (simp_all add: ok_or_def)
qed

definition ex_send :: json where
  "ex_send = tagged ''ChatSend'' [(''session_id'', JStr ''s-1''), (''user_message'', JStr ''ping'')]"

theorem socket_confined_witness:
  "\<exists>(cl :: claims) out w'. client_of_json ex_send = Some (WsChatSend ''s-1'' ''ping'' None None) \<and>
     ws_handler ex_chat_env (\<lambda>_. '''') (\<lambda>_. Some ex_send) 6000 (Some ex_cookie) [FromClient (Ok (FrameText ''{}''))] ex_turn = (Some out, w') \<and>
     ws_handler (ex_chat_env\<lparr>cx_dispatch := \<lambda>frm. if frm = agent_id_new (''user:'' @ cm_sub cl) then cx_dispatch ex_chat_env frm
         else (\<lambda>_ _ _ _ w. (Ok JNull, w))\<rparr>)
       (\<lambda>_. '''') (\<lambda>_. Some ex_send) 6000 (Some ex_cookie) [FromClient (Ok (FrameText ''{}''))] ex_turn = (Some out, w')"
proof -
  let ?h = "\<lambda>cx. ws_handler cx (\<lambda>_. '''') (\<lambda>_. Some ex_send) 6000 (Some ex_cookie) [FromClient (Ok (FrameText ''{}''))] ex_turn"
  obtain cl a where cl: "authenticate_headers (ce_app (cx_console ex_chat_env)) 6000 (Some ex_cookie) (co_app (st_console (ch_store ex_turn))) =
     (Some cl, a)" using ex_socket_claims by blast
  have m: "client_of_json ex_send = Some (WsChatSend ''s-1'' ''ping'' None None)"
    by (simp add: client_of_json_def ex_send_def tagged_def j_get_str_def opt_bind2_def optional_member_def)
  obtain out w' where h: "?h ex_chat_env = (Some out, w')" using ws_handler_connects [OF cl] by blast
  have "\<forall>d. d (agent_id_new (''user:'' @ cm_sub cl)) = cx_dispatch ex_chat_env (agent_id_new (''user:'' @ cm_sub cl)) \<longrightarrow>
      ?h (ex_chat_env\<lparr>cx_dispatch := d\<rparr>) = (Some out, w')"
    using socket_confined [OF h] cl by (auto simp del: append.simps)
  then have "?h (ex_chat_env\<lparr>cx_dispatch := \<lambda>frm. if frm = agent_id_new (''user:'' @ cm_sub cl) then cx_dispatch ex_chat_env frm
      else (\<lambda>_ _ _ _ w. (Ok JNull, w))\<rparr>) = (Some out, w')" by (rule allE) (erule mp, simp only: if_True simp_thms)
  with m h show ?thesis by (intro exI conjI)
qed

end
