(* ===== verification/StatusPages.thy ===== *)
theory StatusPages
  imports Alerts MemoryClient
begin

text \<open>
  What the console and the probes read of the running system: the server functions of the observer page
  (\<open>admin_observer.rs\<close>), and the self-observability routes (\<open>observability.rs\<close>). The metrics database is reached by the HTTP
  parameter; turning seconds into a timestamp is a parameter.
\<close>

section \<open>The observer page\<close>

text \<open>The columns of an anomaly the page reads besides those the observer writes.\<close>

record stored_anomaly = anomaly_row +
  aw_detected_at :: millis
  aw_resolved_at :: "millis option"

record shown_anomaly =
  sw_id :: string
  sw_detected_at :: string
  sw_source :: string
  sw_source_id :: string
  sw_severity :: string
  sw_title :: string
  sw_description :: "string option"
  sw_metric_name :: "string option"
  sw_metric_value :: f64
  sw_threshold :: f64
  sw_resolved :: bool

record shown_delivery =
  sv_alert_class :: string
  sv_severity :: "string option"
  sv_signature :: string
  sv_channel :: string
  sv_recipient :: string
  sv_status :: string
  sv_detail :: "string option"
  sv_created_at :: string

record metric_summary_row =
  ms_source :: string
  ms_source_id :: string
  ms_name :: string
  ms_last_value :: f64
  ms_last_ts :: string
  ms_sample_count :: nat

record ('n, 'i, 'v, 't, 'a, 'b) status_world =
  sx_console :: "('i, 'v, 't, 'a, 'b) console"
  sx_anomalies :: "stored_anomaly list db"
  sx_net :: 'n

definition status_admin ::
  "('i, 'v, 't, 'a) console_env \<Rightarrow> millis \<Rightarrow> string option \<Rightarrow> (('n, 'i, 'v, 't, 'a, 'b) status_world, claims, string) eff" where
  "status_admin env now cookie w =
     (case on_app (require_admin (ce_app env) now cookie) (sx_console w) of (r, c) \<Rightarrow> (r, w\<lparr>sx_console := c\<rparr>))"

fun page_fault :: "db_fault \<Rightarrow> string" where
  "page_fault (PoolFault e) = ''pool: '' @ e"
| "page_fault (PgFault e) = ''query: '' @ e"

definition newest :: "('r \<Rightarrow> millis) \<Rightarrow> 32 word \<Rightarrow> 'r list \<Rightarrow> 'r list" where
  "newest key limit rows = take (unat limit) (sort_key (\<lambda>r. - int (key r)) rows)"

definition show_delivery :: "(millis \<Rightarrow> string) \<Rightarrow> delivery_row \<Rightarrow> shown_delivery" where
  "show_delivery rfc3339 r =
     \<lparr>sv_alert_class = ad_alert_class r, sv_severity = ad_severity r, sv_signature = ad_signature r, sv_channel = ad_channel r,
      sv_recipient = ad_recipient r, sv_status = ad_status r, sv_detail = ad_detail r, sv_created_at = rfc3339 (ad_created_at r)\<rparr>"

definition list_alert_deliveries ::
  "('i, 'v, 't, 'a) console_env \<Rightarrow> (millis \<Rightarrow> string) \<Rightarrow> millis \<Rightarrow> string option \<Rightarrow> 32 word \<Rightarrow>
   (('n, 'i, 'v, 't, 'a, 'b) status_world, shown_delivery list, string) eff" where
  "list_alert_deliveries env rfc3339 now cookie limit =
     bindE (status_admin env now cookie) (\<lambda>_ w.
       case on_app (on_iam (mapE page_fault (db_stmt (\<lambda>t. (newest ad_created_at limit (it_deliveries t), t))))) (sx_console w) of
         (r, c) \<Rightarrow> (bind_result r (\<lambda>rows. Ok (map (show_delivery rfc3339) rows)), w\<lparr>sx_console := c\<rparr>))"

definition show_anomaly :: "(millis \<Rightarrow> string) \<Rightarrow> stored_anomaly \<Rightarrow> shown_anomaly" where
  "show_anomaly rfc3339 r =
     \<lparr>sw_id = aw_id r, sw_detected_at = rfc3339 (aw_detected_at r), sw_source = aw_source r, sw_source_id = aw_source_id r,
      sw_severity = aw_severity r, sw_title = aw_title r, sw_description = aw_description r, sw_metric_name = aw_metric_name r,
      sw_metric_value = aw_metric_value r, sw_threshold = aw_threshold r, sw_resolved = (aw_resolved_at r \<noteq> None)\<rparr>"

definition list_anomalies ::
  "('i, 'v, 't, 'a) console_env \<Rightarrow> (millis \<Rightarrow> string) \<Rightarrow> millis \<Rightarrow> string option \<Rightarrow> 32 word \<Rightarrow>
   (('n, 'i, 'v, 't, 'a, 'b) status_world, shown_anomaly list, string) eff" where
  "list_anomalies env rfc3339 now cookie limit =
     bindE (status_admin env now cookie) (\<lambda>_ w.
       case mapE page_fault (db_stmt (\<lambda>rows. (newest aw_detected_at limit rows, rows))) (sx_anomalies w) of
         (r, d) \<Rightarrow> (bind_result r (\<lambda>rows. Ok (map (show_anomaly rfc3339) rows)), w\<lparr>sx_anomalies := d\<rparr>))"

subsection \<open>The metric summary\<close>

definition text_member :: "string \<Rightarrow> json \<Rightarrow> string" where
  "text_member k v = (case j_get_str k v of Some s \<Rightarrow> s | None \<Rightarrow> '''')"

text \<open>The keys of the series: the name, source and source id of each, once, until the limit is reached.\<close>

fun series_keys :: "nat \<Rightarrow> (string \<times> string \<times> string) list \<Rightarrow> json list \<Rightarrow> (string \<times> string \<times> string) list" where
  "series_keys limit keys [] = keys"
| "series_keys limit keys (s # ss) =
     (let name = text_member ''__name__'' s; key = (name, text_member ''source'' s, text_member ''source_id'' s) in
      if name = '''' then series_keys limit keys ss
      else (let keys' = (if key \<in> set keys then keys else keys @ [key])
            in if limit \<le> length keys' then keys' else series_keys limit keys' ss))"

definition summary_query :: "string \<times> string \<times> string \<Rightarrow> string" where
  "summary_query key =
     (case key of (name, source, sid) \<Rightarrow>
        name @ ''{source='' @ dquote @ source @ dquote @ '',source_id='' @ dquote @ sid @ dquote @ ''}[1h]'')"

definition summary_row :: "float_text \<Rightarrow> (f64 \<Rightarrow> string) \<Rightarrow> string \<times> string \<times> string \<Rightarrow> json \<Rightarrow> metric_summary_row option" where
  "summary_row fl stamp key body =
     (case key of (name, source, sid) \<Rightarrow>
        (case Option.bind (Option.bind (j_get ''data'' body) (j_get ''result'')) (\<lambda>r. case r of JArr (f # _) \<Rightarrow> j_get ''values'' f | _ \<Rightarrow> None) of
           Some (JArr (v # vs)) \<Rightarrow>
             (let cells = j_elems (last (v # vs));
                  ts = (case cells of t # _ \<Rightarrow> (case j_as_f64 fl t of Some x \<Rightarrow> x | None \<Rightarrow> zero_f64) | [] \<Rightarrow> zero_f64);
                  val = (case cells of _ # x # _ \<Rightarrow> (case j_as_str x of Some s \<Rightarrow> s | None \<Rightarrow> ''0'') | _ \<Rightarrow> ''0'')
              in Some \<lparr>ms_source = source, ms_source_id = sid, ms_name = name,
                   ms_last_value = (case fl_parse fl val of Some x \<Rightarrow> x | None \<Rightarrow> zero_f64), ms_last_ts = stamp ts, ms_sample_count = length (v # vs)\<rparr>)
         | _ \<Rightarrow> None))"

definition vm_get :: "'n http_client \<Rightarrow> string \<Rightarrow> string \<Rightarrow> string \<Rightarrow> ('n, http_answer, string) eff" where
  "vm_get http url k v = http \<lparr>hq_method = HttpGet, hq_url = url, hq_query = [(k, v)], hq_bearer = None, hq_json = None\<rparr>"

fun summary_rows ::
  "'n http_client \<Rightarrow> float_text \<Rightarrow> (f64 \<Rightarrow> string) \<Rightarrow> string \<Rightarrow> (string \<times> string \<times> string) list \<Rightarrow> ('n, metric_summary_row list, string) eff" where
  "summary_rows http fl stamp base [] n = (Ok [], n)"
| "summary_rows http fl stamp base (key # keys) n =
     bindE (mapE (\<lambda>e. ''vm query: '' @ e) (vm_get http (base @ ''/api/v1/query'') ''query'' (summary_query key))) (\<lambda>a.
       if \<not> http_success a then summary_rows http fl stamp base keys
       else bindE (liftE (map_err (\<lambda>e. ''vm query json: '' @ e) (ha_json a))) (\<lambda>body.
            bindE (summary_rows http fl stamp base keys) (\<lambda>rows.
            retE ((case summary_row fl stamp key body of Some r \<Rightarrow> [r] | None \<Rightarrow> []) @ rows)))) n"

definition vm_series :: "'n http_client \<Rightarrow> string \<Rightarrow> ('n, json, string) eff" where
  "vm_series http base =
     bindE (mapE (\<lambda>e. ''vm series: '' @ e) (vm_get http (base @ ''/api/v1/series'') ''match[]'' (''{source!='' @ dquote @ dquote @ ''}''))) (\<lambda>a.
     if \<not> http_success a then failE (''vm series status: '' @ ha_status a)
     else liftE (map_err (\<lambda>e. ''vm series json: '' @ e) (ha_json a)))"

definition metric_summary ::
  "('i, 'v, 't, 'a) console_env \<Rightarrow> 'n http_client \<Rightarrow> float_text \<Rightarrow> (f64 \<Rightarrow> string) \<Rightarrow> millis \<Rightarrow> string option \<Rightarrow> 32 word \<Rightarrow>
   (('n, 'i, 'v, 't, 'a, 'b) status_world, metric_summary_row list, string) eff" where
  "metric_summary env http fl stamp now cookie limit =
     bindE (status_admin env now cookie) (\<lambda>_ w.
       let base = trim_slashes (case ce_getenv env ''DAIMON_VM_URL'' of Some u \<Rightarrow> u | None \<Rightarrow> ''http://localhost:8428'') in
       case bindE (vm_series http base) (\<lambda>resp.
              summary_rows http fl stamp base (series_keys (unat limit) [] (j_elems (case j_get ''data'' resp of Some d \<Rightarrow> d | None \<Rightarrow> JNull)))) (sx_net w) of
         (r, n) \<Rightarrow> (r, w\<lparr>sx_net := n\<rparr>))"

section \<open>Self-observability\<close>

record self_metrics =
  sm_ingest_cycles :: "64 word"
  sm_anomalies_raised :: "64 word"
  sm_sink_push_failures :: "64 word"
  sm_plan_dispatches :: "64 word"
  sm_memory_recall_degraded :: "64 word"

definition self_metrics_new :: self_metrics where
  "self_metrics_new =
     \<lparr>sm_ingest_cycles = 0, sm_anomalies_raised = 0, sm_sink_push_failures = 0, sm_plan_dispatches = 0, sm_memory_recall_degraded = 0\<rparr>"

definition inc_recall_degraded :: "self_metrics \<Rightarrow> self_metrics" where
  "inc_recall_degraded m = m\<lparr>sm_memory_recall_degraded := sm_memory_recall_degraded m + 1\<rparr>"

definition self_series :: "self_metrics \<Rightarrow> (string \<times> string \<times> 64 word) list" where
  "self_series m =
     [(''daimon_ingest_cycles_total'', ''Observer ingest cycles completed.'', sm_ingest_cycles m),
      (''daimon_anomalies_raised_total'', ''Anomalies persisted and emitted by the observer.'', sm_anomalies_raised m),
      (''daimon_sink_push_failures_total'', ''Metric-sink push_batch failures in the observer.'', sm_sink_push_failures m),
      (''daimon_plan_dispatches_total'', ''Orchestrator plan dispatches.'', sm_plan_dispatches m),
      (''daimon_memory_recall_degraded_total'', ''Chat pre-turn recalls that returned degraded.'', sm_memory_recall_degraded m)]"

definition series_text :: "string \<times> string \<times> 64 word \<Rightarrow> string" where
  "series_text s =
     (case s of (name, help, v) \<Rightarrow>
        ''# HELP '' @ name @ '' '' @ help @ newline @ ''# TYPE '' @ name @ '' counter'' @ newline @ name @ '' '' @ show_nat (unat v) @ newline)"

definition render_prometheus :: "self_metrics \<Rightarrow> string" where
  "render_prometheus m = concat (map series_text (self_series m))"

definition metrics_route :: "self_metrics \<Rightarrow> nat \<times> string \<times> string" where
  "metrics_route m = (200, ''text/plain; version=0.0.4; charset=utf-8'', render_prometheus m)"

text \<open>Taking a connection without running a statement.\<close>

definition pool_get :: "'t db \<Rightarrow> bool \<times> 't db" where
  "pool_get d = (case db_faults d of Some (PoolFault _) # fs \<Rightarrow> (False, d\<lparr>db_faults := fs\<rparr>) | _ \<Rightarrow> (True, d))"

definition healthz :: "('s \<Rightarrow> memory_health \<times> 's) \<Rightarrow> 't db \<Rightarrow> 's \<Rightarrow> (nat \<times> json) \<times> 't db \<times> 's" where
  "healthz health d s =
     (case pool_get d of
        (db_ok, d') \<Rightarrow>
          (case health s of
             (mh, s') \<Rightarrow>
               ((if db_ok then 200 else 503,
                 j_obj [(''db'', JStr (if db_ok then ''ok'' else ''err'')), (''memory'', JStr (if mh_reachable mh then ''ok'' else ''degraded''))]), d', s')))"

section \<open>Lemmas\<close>

lemma newest_spec:
  "length (newest key limit rows) \<le> unat limit" "set (newest key limit rows) \<subseteq> set rows"
  "sorted_wrt (\<lambda>a b. key b \<le> key a) (newest key limit rows)"
proof -
  have "sorted_wrt (\<lambda>a b. key b \<le> key a) (sort_key (\<lambda>r. - int (key r)) rows)"
    using sorted_sort_key [of "\<lambda>r. - int (key r)" rows] by (simp add: sorted_map)
  then show "sorted_wrt (\<lambda>a b. key b \<le> key a) (newest key limit rows)" by (simp add: newest_def sorted_wrt_take)
  show "length (newest key limit rows) \<le> unat limit" "set (newest key limit rows) \<subseteq> set rows"
    using set_take_subset [of "unat limit" "sort_key (\<lambda>r. - int (key r)) rows"] by (auto simp: newest_def)
qed

text \<open>Only an admin is shown anything, and nothing is written: the tables of both pages are as before.\<close>

lemma status_admin_frame:
  "status_admin env now cookie w = (r, w') \<Longrightarrow>
   sx_anomalies w' = sx_anomalies w \<and> sx_net w' = sx_net w \<and> fst (require_admin (ce_app env) now cookie (co_app (sx_console w))) = r"
  by (auto simp: status_admin_def on_app_def split: prod.splits)

lemma anomalies_admin_only:
  assumes "list_anomalies env rfc3339 now cookie limit w = (Ok rows, w')"
  shows "(\<exists>cl. fst (require_admin (ce_app env) now cookie (co_app (sx_console w))) = Ok cl) \<and> length rows \<le> unat limit \<and>
    db_tables (sx_anomalies w') = db_tables (sx_anomalies w) \<and>
    rows = map (show_anomaly rfc3339) (newest aw_detected_at limit (db_tables (sx_anomalies w)))"
proof -
  obtain cl w1 where a: "status_admin env now cookie w = (Ok cl, w1)"
    and q: "(case mapE page_fault (db_stmt (\<lambda>rows. (newest aw_detected_at limit rows, rows))) (sx_anomalies w1) of
       (r, d) \<Rightarrow> (bind_result r (\<lambda>rows. Ok (map (show_anomaly rfc3339) rows)), w1\<lparr>sx_anomalies := d\<rparr>)) = (Ok rows, w')"
    using assms unfolding list_anomalies_def bindE_Ok_iff by blast
  obtain r d where s: "db_stmt (\<lambda>rows. (newest aw_detected_at limit rows, rows)) (sx_anomalies w1) = (r, d)" by fastforce
  have "r = Ok (newest aw_detected_at limit (db_tables (sx_anomalies w1)))" "db_tables d = db_tables (sx_anomalies w1)"
    using q s by (cases r; auto simp: mapE.simps db_stmt_Ok_iff)+
  then show ?thesis using q s status_admin_frame [OF a] newest_spec(1) [of aw_detected_at limit "db_tables (sx_anomalies w)"]
    by (auto simp: mapE.simps)
qed

text \<open>The summary asks for each series once, and for no more than the limit, or one.\<close>

lemma series_keys_spec:
  assumes "distinct keys" "length keys \<le> max limit 1" "keys = [] \<or> length keys < limit"
  shows "distinct (series_keys limit keys ss) \<and> length (series_keys limit keys ss) \<le> max limit 1"
  using assms
proof (induction limit keys ss rule: series_keys.induct)
  case (2 limit keys s ss)
  show ?case
  proof (cases "text_member ''__name__'' s = ''''")
    case True
    then show ?thesis using 2(1) [OF refl refl True] 2(3-5) by (simp add: Let_def)
  next
    case False
    let ?k = "(text_member ''__name__'' s, text_member ''source'' s, text_member ''source_id'' s)"
    let ?ks = "if ?k \<in> set keys then keys else keys @ [?k]"
    have "distinct ?ks" "length ?ks \<le> max limit 1" using 2(3-5) by auto
    then show ?thesis using 2(2) [OF refl refl False refl] False by (auto simp: Let_def not_le)
  qed
qed simp

lemma limit_zero_shows_one:
  "series_keys 0 [] [j_obj [(''__name__'', JStr ''up'')], j_obj [(''__name__'', JStr ''down'')]] = [(''up'', '''', '''')]"
  by (simp add: text_member_def j_get_str_def)

text \<open>Labels are put into the query as they are: two different series can have the same query.\<close>

lemma summary_query_unescaped:
  "summary_query (''up'', ''a'' @ dquote @ '',source_id='' @ dquote @ ''b'', ''c'') =
   summary_query (''up'', ''a'', ''b'' @ dquote @ '',source_id='' @ dquote @ ''c'')"
  by (simp add: summary_query_def)

text \<open>The probes: the status depends on the database alone, and every counter is in the text with its value.\<close>

lemma healthz_database_only: "fst (fst (healthz health d s)) = 200 \<longleftrightarrow> fst (pool_get d)"
  by (simp add: healthz_def split: prod.split)

lemma counter_in_text:
  assumes "(name, help, v) \<in> set (self_series m)"
  shows "\<exists>a b. render_prometheus m = a @ newline @ name @ '' '' @ show_nat (unat v) @ newline @ b"
proof -
  obtain xs ys where "self_series m = xs @ (name, help, v) # ys" using assms split_list by fast
  then have "render_prometheus m =
      (concat (map series_text xs) @ ''# HELP '' @ name @ '' '' @ help @ newline @ ''# TYPE '' @ name @ '' counter'') @
      newline @ name @ '' '' @ show_nat (unat v) @ newline @ concat (map series_text ys)"
    by (simp add: render_prometheus_def series_text_def)
  then show ?thesis by blast
qed

text \<open>A counter goes up by one until it wraps.\<close>

lemma degraded_counted:
  assumes "sm_memory_recall_degraded m \<noteq> - 1"
  shows "unat (sm_memory_recall_degraded (inc_recall_degraded m)) = Suc (unat (sm_memory_recall_degraded m))"
proof -
  have "1 + sm_memory_recall_degraded m \<noteq> 0" using assms by (metis add.commute eq_neg_iff_add_eq_0)
  then show ?thesis using unatSuc [of "sm_memory_recall_degraded m"] by (simp add: inc_recall_degraded_def add.commute)
qed

end
