(* ===== verification/Boot.thy ===== *)
theory Boot
  imports Alerts Skills Graph KeyCustody Transports MemoryClient Supervising Triage
begin

text \<open>
  The start of the process (\<open>main.rs\<close>, \<open>daimon-broker/src/production.rs\<close>): what is loaded in which order, what stops the start and what only
  disables a tier. The result is the assembled system, over the types of the other theories. Files, the environment, the database driver, random
  draws and the clients' constructors are parameters. Serving requests and the background tasks begin after it.
\<close>

section \<open>The environment of the start\<close>

text \<open>What ends the start: \<open>exit(1)\<close> after a message, or the panic of an \<open>unwrap\<close>.\<close>

datatype boot_stop = BootExit string | BootPanic string

record ('i, 't, 'a, 'g, 'n) boot_lib =
  bl_getenv :: "string \<Rightarrow> string option"
  bl_run_migrations :: "string \<Rightarrow> (unit, string) result"
  bl_build_pool :: "string \<Rightarrow> (unit, string) result"
  bl_read_bytes :: "string \<Rightarrow> (bytes, string) result"
  bl_exists :: "string \<Rightarrow> bool"
  bl_read_file :: "string \<Rightarrow> (string, string) result"
  bl_dir :: "string \<Rightarrow> dir_view"
  bl_policy_toml :: "string \<Rightarrow> (policy_config, string) result"
  bl_connector_toml :: "string \<Rightarrow> (connector_profile, string) result"
  bl_skill_toml :: "string \<Rightarrow> (skill, string) result"
  bl_cipher :: "bytes \<Rightarrow> vault_env"
  bl_inventory :: "'i inventory_ops"
  bl_audit :: "'a audit_sink"
  bl_ssh :: "ssh_transport \<Rightarrow> 't transport"
  bl_rest :: "'t transport"
  bl_snmp :: "'t transport"
  bl_crypto :: crypto
  bl_clock :: "millis \<times> millis"
  bl_jwt_draw :: bytes
  bl_password_draw :: bytes
  bl_salt :: string
  bl_user_id :: uuid
  bl_latency :: "64 word \<times> 64 word"
  bl_redis :: "string \<Rightarrow> bool"
  bl_dmem_new :: "string \<Rightarrow> string \<Rightarrow> (unit, string) result"
  bl_graph :: "'g graph_lib"
  bl_adapter :: "string \<Rightarrow> string \<Rightarrow> 'n gateway_adapter"

abbreviation boot_var :: "('i, 't, 'a, 'g, 'n) boot_lib \<Rightarrow> string \<Rightarrow> string option" where
  "boot_var bl \<equiv> env_var (bl_getenv bl)"

definition var_or :: "('i, 't, 'a, 'g, 'n) boot_lib \<Rightarrow> string \<Rightarrow> string \<Rightarrow> string" where
  "var_or bl name dflt = (case boot_var bl name of Some v \<Rightarrow> v | None \<Rightarrow> dflt)"

record ('i, 't, 'a, 'b, 'g) boot_world =
  bt_console :: "('i, pg_vault, 't, 'a, 'b) console"
  bt_sup :: supervisor
  bt_graph :: 'g

definition on_boot_console ::
  "(('i, pg_vault, 't, 'a, 'b) console, 'x, 'e) eff \<Rightarrow> (('i, 't, 'a, 'b, 'g) boot_world, 'x, 'e) eff" where
  "on_boot_console f w = (case f (bt_console w) of (r, c) \<Rightarrow> (r, w\<lparr>bt_console := c\<rparr>))"

section \<open>The broker\<close>

definition resolve_pg_url :: "('i, 't, 'a, 'g, 'n) boot_lib \<Rightarrow> string" where
  "resolve_pg_url bl =
     (case boot_var bl ''DAIMON_PG_URL'' of
        Some u \<Rightarrow> u
      | None \<Rightarrow> ''postgres://'' @ var_or bl ''USER'' ''postgres'' @ ''@localhost:5432/daimon'')"

definition init_pool :: "('i, 't, 'a, 'g, 'n) boot_lib \<Rightarrow> string \<Rightarrow> (unit, string) result" where
  "init_pool bl url =
     bind_result (map_err (\<lambda>e. ''run migrations: '' @ e) (bl_run_migrations bl url)) (\<lambda>_.
     map_err (\<lambda>e. ''build pool: '' @ e) (bl_build_pool bl url))"

text \<open>The URL as it is logged: what stands between the scheme and the last \<open>@\<close> is hidden.\<close>

fun before_scheme_end :: "string \<Rightarrow> string option" where
  "before_scheme_end [] = None"
| "before_scheme_end (c # cs) = (if take 3 (c # cs) = ''://'' then Some [] else map_option ((#) c) (before_scheme_end cs))"

definition scrub_pg_url :: "string \<Rightarrow> string" where
  "scrub_pg_url url =
     (if CHR 0x40 \<notin> set url then url
      else case before_scheme_end url of
             Some scheme \<Rightarrow> scheme @ ''://'' @ ''*****'' @ [CHR 0x40] @ rev (takeWhile (\<lambda>c. c \<noteq> CHR 0x40) (rev url))
           | None \<Rightarrow> url)"

record boot_config =
  bc_pg_url :: string
  bc_known_hosts_path :: string
  bc_master_key :: bytes
  bc_kill_path :: string
  bc_policy_path :: string

fun guard_load_error :: "policy_load_error \<Rightarrow> string" where
  "guard_load_error (PolicyIo e) = ''guard: io: '' @ e"
| "guard_load_error (PolicyToml e) = ''guard: toml: '' @ e"

definition production_transports :: "('i, 't, 'a, 'g, 'n) boot_lib \<Rightarrow> string \<Rightarrow> (transport_kind, 't transport) hmap" where
  "production_transports bl known_hosts =
     hm_insert TrSnmp (bl_snmp bl) (hm_insert TrRest (bl_rest bl)
       (hm_insert TrSsh (bl_ssh bl (with_known_hosts_path known_hosts)) []))"

definition build_production_broker ::
  "('i, 't, 'a, 'g, 'n) boot_lib \<Rightarrow> boot_config \<Rightarrow> (('i, pg_vault, 't, 'a) broker, string) result" where
  "build_production_broker bl cfg =
     bind_result (map_err (\<lambda>e. ''db: '' @ e) (bl_build_pool bl (bc_pg_url cfg))) (\<lambda>_.
     bind_result (map_err guard_load_error
       (policy_from_toml_file (bl_policy_toml bl) (bl_exists bl) (bl_read_file bl) (bc_policy_path cfg))) (\<lambda>policy.
     Ok (with_guard policy
          (with_production_admin (bl_inventory bl) (bl_cipher bl (bc_master_key cfg)) (fst (bl_clock bl)) (snd (bl_clock bl)) (bl_audit bl)
            (production_transports bl (bc_known_hosts_path cfg))))))"

definition boot_paths :: "('i, 't, 'a, 'g, 'n) boot_lib \<Rightarrow> bytes \<Rightarrow> boot_config" where
  "boot_paths bl key =
     (let data_dir = var_or bl ''DAIMON_DATA_DIR'' ''daimon-data'' in
      \<lparr>bc_pg_url = resolve_pg_url bl,
       bc_known_hosts_path = var_or bl ''DAIMON_KNOWN_HOSTS_PATH'' (data_dir @ ''/known_hosts''),
       bc_master_key = key,
       bc_kill_path = var_or bl ''DAIMON_KILL_PATH'' (data_dir @ ''/KILL''),
       bc_policy_path = var_or bl ''DAIMON_POLICY_PATH'' (data_dir @ ''/policy.toml'')\<rparr>)"

definition boot_broker :: "('i, 't, 'a, 'g, 'n) boot_lib \<Rightarrow> (('i, pg_vault, 't, 'a) broker, string) result" where
  "boot_broker bl =
     bind_result
       (map_err (\<lambda>e. ''load master key (set CREDENTIALS_DIRECTORY in systemd, or DAIMON_MASTER_KEY_FILE for dev): '' @ show_master_key_error e)
         (key_from_systemd_or_dev_env (bl_read_bytes bl) (bl_getenv bl))) (\<lambda>key.
     map_err (\<lambda>e. ''build_production_broker: '' @ e) (build_production_broker bl (boot_paths bl key)))"

section \<open>Secrets and the first account\<close>

definition generate_secret :: "bytes \<Rightarrow> string" where
  "generate_secret bs = concat (map (\<lambda>b. hex_byte (char_of (unat b))) bs)"

text \<open>A read that fails counts as no secret.\<close>

definition ensure_jwt_secret :: "('i, 't, 'a, 'g, 'n) boot_lib \<Rightarrow> (('i, pg_vault, 't, 'a, 'b) console, string, boot_stop) eff" where
  "ensure_jwt_secret bl w =
     (case on_config (get_config ''jwt_secret'') w of
        (Ok (Some secret), w') \<Rightarrow> (Ok secret, w')
      | (_, w') \<Rightarrow>
          (let secret = generate_secret (bl_jwt_draw bl)
           in case on_config (set_config (fst (bl_clock bl)) ''jwt_secret'' secret) w' of
                (Ok _, w'') \<Rightarrow> (Ok secret, w'')
              | (Err e, w'') \<Rightarrow> (Err (BootPanic e), w'')))"

definition seed_admin :: "('i, 't, 'a, 'g, 'n) boot_lib \<Rightarrow> (('i, pg_vault, 't, 'a, 'b) console, unit, boot_stop) eff" where
  "seed_admin bl w =
     (case on_app (on_iam (find_user ''admin'')) w of
        (Ok (Some _), w') \<Rightarrow> (Ok (), w')
      | (_, w') \<Rightarrow>
          (let password = (case boot_var bl ''DAIMON_ADMIN_PASSWORD'' of Some p \<Rightarrow> p | None \<Rightarrow> take 16 (generate_secret (bl_password_draw bl)))
           in mapE BootPanic (bindE (on_app (on_iam (db_create_user (bl_user_id bl) ''admin''
                (bcrypt_hash (bl_crypto bl) (bl_salt bl) password) [''admin'']))) (\<lambda>_. retE ())) w'))"

definition load_config :: "('i, pg_vault, 't, 'a, 'b) console \<Rightarrow> ('i, pg_vault, 't, 'a, 'b) console" where
  "load_config w =
     (case on_config load_snapshot w of
        (Ok m, w') \<Rightarrow> w'\<lparr>co_snapshot := m\<rparr>
      | (Err _, w') \<Rightarrow> w'\<lparr>co_snapshot := []\<rparr>)"

section \<open>Agents\<close>

fun show_runtime :: "runtime_error \<Rightarrow> string" where
  "show_runtime (DuplicateAgent a) = ''agent `'' @ a @ ''` is already registered''"
| "show_runtime (AgentPanic a e) = ''agent `'' @ a @ ''` panicked: '' @ e"
| "show_runtime RtShutdown = ''supervisor shutdown''"
| "show_runtime (RtCore e) = show_core_error e"
| "show_runtime (RtOther e) = e"

definition boot_spawn :: "string \<Rightarrow> agent \<Rightarrow> (('i, 't, 'a, 'b, 'g) boot_world, unit, boot_stop) eff" where
  "boot_spawn what ag w =
     (case sup_spawn ag (bt_sup w) of
        (r, s) \<Rightarrow> (map_err (\<lambda>e. BootExit (''failed to spawn '' @ what @ '': '' @ show_runtime e)) r, w\<lparr>bt_sup := s\<rparr>))"

fun spawn_all :: "string \<Rightarrow> agent list \<Rightarrow> (('i, 't, 'a, 'b, 'g) boot_world, unit, boot_stop) eff" where
  "spawn_all what [] w = (Ok (), w)"
| "spawn_all what (ag # ags) w = bindE (boot_spawn what ag) (\<lambda>_. spawn_all what ags) w"

definition routeros_agent :: agent where
  "routeros_agent = (let d = routeros_new (agent_id_new ''agent:routeros'') ''agent:routeros'' in \<lparr>ag_id = rd_id d, ag_capabilities = rd_capabilities d\<rparr>)"

definition triage_agent :: agent where
  "triage_agent = \<lparr>ag_id = triage_id, ag_capabilities = triage_caps\<rparr>"

definition boot_connectors :: "('i, 't, 'a, 'g, 'n) boot_lib \<Rightarrow> (('i, 't, 'a, 'b, 'g) boot_world, connector_driver list, boot_stop) eff" where
  "boot_connectors bl =
     (let dir = var_or bl ''DAIMON_CONNECTORS_DIR'' ''deploy/connectors''
      in case from_dir (bl_connector_toml bl) ''agent:connector'' dir (bl_dir bl dir) ''agent:connector'' of
           Err e \<Rightarrow> failE (BootExit (''failed to load connector profiles from '' @ dir @ '': '' @ show_connector_error e))
         | Ok drivers \<Rightarrow>
             bindE (spawn_all ''ConnectorDriver'' (map (\<lambda>d. \<lparr>ag_id = cd_id d, ag_capabilities = cd_capabilities d\<rparr>) drivers)) (\<lambda>_. retE drivers))"

definition boot_lint :: "('i, pg_vault, 't, 'a) broker \<Rightarrow> (('i, 't, 'a, 'b, 'g) boot_world, unit, boot_stop) eff" where
  "boot_lint br w =
     (map_err (\<lambda>e. BootExit (''boot policy-coherence check failed: '' @ e))
        (lint_write_capabilities br (harness_capabilities (sup_registry (bt_sup w)))), w)"

section \<open>Tiers that may be missing\<close>

datatype working_tier = RedisTier string | InProcessTier

datatype memory_tier_choice = DmemTier string string | NullTier

definition connect_working_memory :: "('i, 't, 'a, 'g, 'n) boot_lib \<Rightarrow> string \<Rightarrow> working_tier" where
  "connect_working_memory bl url = (if bl_redis bl url then RedisTier url else InProcessTier)"

definition boot_working :: "('i, 't, 'a, 'g, 'n) boot_lib \<Rightarrow> working_tier" where
  "boot_working bl =
     (case boot_var bl ''DAIMON_REDIS_URL'' of
        Some s \<Rightarrow> if s = ''disabled'' then InProcessTier else connect_working_memory bl s
      | None \<Rightarrow> connect_working_memory bl ''redis://localhost:6379'')"

definition boot_graph :: "('i, 't, 'a, 'g, 'n) boot_lib \<Rightarrow> 'g \<Rightarrow> graph_client option \<times> 'g" where
  "boot_graph bl g =
     (case boot_var bl ''DAIMON_GRAPH_URL'' of
        Some uri \<Rightarrow>
          if uri = '''' then (None, g)
          else (case graph_connect (bl_graph bl) uri (var_or bl ''DAIMON_GRAPH_USER'' '''') (var_or bl ''DAIMON_GRAPH_PASS'' '''') of
                  Err _ \<Rightarrow> (None, g)
                | Ok c \<Rightarrow> (case ensure_schema (bl_graph bl) c g of (Ok _, g') \<Rightarrow> (Some c, g') | (Err _, g') \<Rightarrow> (None, g')))
      | None \<Rightarrow> (None, g))"

definition boot_memory ::
  "('i, 't, 'a, 'g, 'n) boot_lib \<Rightarrow> ('i, pg_vault, 't, 'a) console_env \<Rightarrow> ('i, pg_vault, 't, 'a, 'b) console \<Rightarrow>
   memory_tier_choice \<times> ('i, pg_vault, 't, 'a, 'b) console" where
  "boot_memory bl env w =
     (let url = var_or bl ''DAIMON_DMEM_URL'' ''http://localhost:7071''
      in case boot_token env (bl_latency bl) (Some ''dmem-bearer'') (Some ''DAIMON_DMEM_TOKEN'') w of
           (Ok (Some token), w') \<Rightarrow> (case bl_dmem_new bl url token of Ok _ \<Rightarrow> DmemTier url token | Err _ \<Rightarrow> NullTier, w')
         | (_, w') \<Rightarrow> (NullTier, w'))"

section \<open>The start\<close>

record ('i, 't, 'a, 'n) booted =
  bd_env :: "('i, pg_vault, 't, 'a) console_env"
  bd_connectors :: "connector_driver list"
  bd_working :: working_tier
  bd_graph :: "graph_client option"
  bd_memory :: memory_tier_choice
  bd_gateways :: "'n gateway_registry"
  bd_pollers :: "poller list"
  bd_skills :: "(string, skill) bmap"

text \<open>The supervisor with its registry, and the guard with the bus.\<close>

definition boot_runtime :: "'b \<Rightarrow> ('i, 't, 'a, 'b, 'g) boot_world \<Rightarrow> ('i, 't, 'a, 'b, 'g) boot_world" where
  "boot_runtime bus w =
     (let b = wo_broker (co_app (bt_console w));
          b' = b\<lparr>bw_guard := guard_set_bus bus (guard_new kill_state_new (aw_db (bw_guard b)))\<rparr>
      in w\<lparr>bt_sup := supervisor_with_config registry_new supervisor_config_default,
           bt_console := (bt_console w)\<lparr>co_app := (co_app (bt_console w))\<lparr>wo_broker := b'\<rparr>\<rparr>\<rparr>)"

definition boot_gateways ::
  "('i, 't, 'a, 'g, 'n) boot_lib \<Rightarrow> ('i, pg_vault, 't, 'a) console_env \<Rightarrow> (('i, 't, 'a, 'b, 'g) boot_world, 'n gateway_registry \<times> poller list, boot_stop) eff" where
  "boot_gateways bl env w =
     (case build_gateways env (bl_latency bl) (bl_adapter bl) (bt_console w) of
        (Ok gp, c) \<Rightarrow> (Ok gp, w\<lparr>bt_console := c\<rparr>)
      | (Err _, c) \<Rightarrow> (Ok ([], []), w\<lparr>bt_console := c\<rparr>))"

definition boot_skills :: "('i, 't, 'a, 'g, 'n) boot_lib \<Rightarrow> ((string, skill) bmap, boot_stop) result" where
  "boot_skills bl =
     (let dir = var_or bl ''DAIMON_SKILLS_DIR'' ''deploy/skills''
      in map_err (\<lambda>e. BootExit (''failed to load skills from '' @ dir @ '': '' @ show_skill_error e)) (skills_from_dir (bl_skill_toml bl) dir (bl_dir bl dir)))"

text \<open>Up to the lint: the broker, the settings, the secret, the first account, and the drivers.\<close>

definition boot_core ::
  "('i, 't, 'a, 'g, 'n) boot_lib \<Rightarrow> 'b \<Rightarrow>
   (('i, 't, 'a, 'b, 'g) boot_world, ('i, pg_vault, 't, 'a) console_env \<times> connector_driver list, boot_stop) eff" where
  "boot_core bl bus =
     bindE (liftE (map_err (\<lambda>e. BootExit (''failed to initialise Postgres pool ('' @ resolve_pg_url bl @ ''): '' @ e)) (init_pool bl (resolve_pg_url bl)))) (\<lambda>_.
     bindE (liftE (map_err (\<lambda>e. BootExit (''failed to assemble broker stack: '' @ e)) (boot_broker bl))) (\<lambda>br.
     bindE (modifyE (\<lambda>w. w\<lparr>bt_console := load_config (bt_console w)\<rparr>)) (\<lambda>_.
     bindE (on_boot_console (ensure_jwt_secret bl)) (\<lambda>jwt.
     bindE (on_boot_console (seed_admin bl)) (\<lambda>_.
     bindE (modifyE (boot_runtime bus)) (\<lambda>_.
     bindE (boot_spawn ''RouterOS driver'' routeros_agent) (\<lambda>_.
     bindE (boot_connectors bl) (\<lambda>drivers.
     bindE (boot_lint br) (\<lambda>_.
     retE (\<lparr>ce_app = \<lparr>app_crypto = bl_crypto bl, app_jwt_secret = jwt, app_broker = br\<rparr>, ce_getenv = boot_var bl\<rparr>, drivers))))))))))"

definition boot_tiers ::
  "('i, 't, 'a, 'g, 'n) boot_lib \<Rightarrow> ('i, pg_vault, 't, 'a) console_env \<Rightarrow> connector_driver list \<Rightarrow>
   (('i, 't, 'a, 'b, 'g) boot_world, ('i, 't, 'a, 'n) booted, boot_stop) eff" where
  "boot_tiers bl env drivers w =
     (case boot_graph bl (bt_graph w) of
        (graph, g) \<Rightarrow>
          (case boot_memory bl env (bt_console w) of
             (memory, c1) \<Rightarrow>
               bindE (boot_spawn ''TriageAgent'' triage_agent) (\<lambda>_.
               bindE (boot_gateways bl env) (\<lambda>(gateways, pollers).
               bindE (liftE (boot_skills bl)) (\<lambda>skills.
               bindE (modifyE (\<lambda>w. w\<lparr>bt_console := apply_runtime_tunables env (bt_console w)\<rparr>)) (\<lambda>_.
               retE \<lparr>bd_env = env, bd_connectors = drivers, bd_working = boot_working bl, bd_graph = graph, bd_memory = memory,
                     bd_gateways = gateways, bd_pollers = pollers, bd_skills = skills\<rparr>)))) (w\<lparr>bt_graph := g, bt_console := c1\<rparr>)))"

definition boot ::
  "('i, 't, 'a, 'g, 'n) boot_lib \<Rightarrow> 'b \<Rightarrow> (('i, 't, 'a, 'b, 'g) boot_world, ('i, 't, 'a, 'n) booted, boot_stop) eff" where
  "boot bl bus = bindE (boot_core bl bus) (\<lambda>(env, drivers). boot_tiers bl env drivers)"

section \<open>Lemmas: the registry\<close>

lemma hm_insert_fresh: "map_of m k = None \<Longrightarrow> set (hm_insert k v m) = insert (k, v) (set m)"
  by (induction k v m rule: hm_insert.induct) auto

lemma sup_spawn_caps:
  assumes "sup_inv s" "sup_spawn ag s = (Ok (), s')"
  shows "sup_inv s'" "set (harness_capabilities (sup_registry s')) = set (harness_capabilities (sup_registry s)) \<union> set (ag_capabilities ag)"
proof -
  show "sup_inv s'" using sup_spawn_inv [OF assms] .
  have n: "map_of (sup_agents s) (ag_id ag) = None" using assms(2) by (auto simp: sup_spawn_def split: if_splits)
  then have "map_of (sup_registry s) (ag_id ag) = None" using assms(1) by (auto simp: sup_inv_def same_dom_None)
  moreover have "sup_registry s' = registry_register (ag_id ag) (ag_capabilities ag) (sup_registry s)"
    using assms(2) n by (auto simp: sup_spawn_def)
  ultimately show "set (harness_capabilities (sup_registry s')) = set (harness_capabilities (sup_registry s)) \<union> set (ag_capabilities ag)"
    by (auto simp: harness_capabilities_def registry_all_def registry_register_def hm_insert_fresh)
qed

lemma boot_spawn_Ok:
  "boot_spawn what ag w = (Ok u, w') \<longleftrightarrow> (\<exists>s. sup_spawn ag (bt_sup w) = (Ok (), s) \<and> w' = w\<lparr>bt_sup := s\<rparr>)"
  by (auto simp: boot_spawn_def split: prod.splits)

lemma spawn_all_Ok:
  assumes "spawn_all what ags w = (Ok u, w')" "sup_inv (bt_sup w)"
  shows "sup_inv (bt_sup w') \<and> set (harness_capabilities (sup_registry (bt_sup w'))) =
    set (harness_capabilities (sup_registry (bt_sup w))) \<union> (\<Union>ag \<in> set ags. set (ag_capabilities ag))"
  using assms
proof (induction what ags w rule: spawn_all.induct)
  case (2 what ag ags w)
  obtain s where s: "sup_spawn ag (bt_sup w) = (Ok (), s)" and rest: "spawn_all what ags (w\<lparr>bt_sup := s\<rparr>) = (Ok u, w')"
    using 2(2) by (auto simp: bindE_Ok_iff boot_spawn_Ok)
  note sp = sup_spawn_caps [OF 2(3) s]
  have "boot_spawn what ag w = (Ok (), w\<lparr>bt_sup := s\<rparr>)" using s by (simp add: boot_spawn_def)
  then show ?case using 2(1) [of "w\<lparr>bt_sup := s\<rparr>"] rest sp by auto
qed simp

section \<open>Lemmas: the start\<close>

lemma boot_connectors_Ok:
  assumes "boot_connectors bl w = (Ok drivers, w')" "sup_inv (bt_sup w)"
  shows "sup_inv (bt_sup w') \<and> set (harness_capabilities (sup_registry (bt_sup w'))) =
    set (harness_capabilities (sup_registry (bt_sup w))) \<union> (\<Union>d \<in> set drivers. set (cd_capabilities d))"
proof -
  have "spawn_all ''ConnectorDriver'' (map (\<lambda>d. \<lparr>ag_id = cd_id d, ag_capabilities = cd_capabilities d\<rparr>) drivers) w = (Ok (), w')"
    using assms(1) by (auto simp: boot_connectors_def Let_def failE_def retE_def bindE_Ok_iff split: result.splits)
  from spawn_all_Ok [OF this assms(2)] show ?thesis by simp
qed

lemma boot_broker_Ok:
  assumes "boot_broker bl = Ok br"
  shows "\<exists>key policy. key_from_systemd_or_dev_env (bl_read_bytes bl) (bl_getenv bl) = Ok key \<and> length key = SEAL_KEY_LEN \<and>
    policy_from_toml_file (bl_policy_toml bl) (bl_exists bl) (bl_read_file bl) (bc_policy_path (boot_paths bl key)) = Ok policy \<and>
    br = with_guard policy (with_production_admin (bl_inventory bl) (bl_cipher bl key) (fst (bl_clock bl)) (snd (bl_clock bl)) (bl_audit bl)
      (production_transports bl (bc_known_hosts_path (boot_paths bl key))))"
proof -
  obtain key where k: "key_from_systemd_or_dev_env (bl_read_bytes bl) (bl_getenv bl) = Ok key"
    and b: "build_production_broker bl (boot_paths bl key) = Ok br"
    using assms by (auto simp: boot_broker_def bind_result_Ok_iff)
  have "bc_master_key (boot_paths bl key) = key" by (simp add: boot_paths_def Let_def)
  then show ?thesis using k b loaded_key_length [OF k] by (auto simp: build_production_broker_def bind_result_Ok_iff)
qed

text \<open>What the start has established when it reaches the lint and passes it.\<close>

lemma boot_core_Ok:
  assumes "boot_core bl bus w = (Ok (env, drivers), w')"
  shows "\<exists>br. boot_broker bl = Ok br \<and> app_broker (ce_app env) = br \<and> sup_inv (bt_sup w') \<and>
    lint_write_capabilities br (harness_capabilities (sup_registry (bt_sup w'))) = Ok () \<and>
    set (harness_capabilities (sup_registry (bt_sup w'))) = set build_capabilities \<union> (\<Union>d \<in> set drivers. set (cd_capabilities d))"
proof -
  let ?s0 = "supervisor_with_config registry_new supervisor_config_default"
  obtain br jwt w1 w2 w3 where br: "boot_broker bl = Ok br" and env: "app_broker (ce_app env) = br"
    and s0: "bt_sup w1 = ?s0" and ros: "boot_spawn ''RouterOS driver'' routeros_agent w1 = (Ok (), w2)"
    and con: "boot_connectors bl w2 = (Ok drivers, w3)" and lint: "boot_lint br w3 = (Ok (), w')"
  proof -
    obtain br jwt v w2 w3 where "boot_broker bl = Ok br" "app_broker (ce_app env) = br"
      "boot_spawn ''RouterOS driver'' routeros_agent (boot_runtime bus v) = (Ok (), w2)"
      "boot_connectors bl w2 = (Ok drivers, w3)" "boot_lint br w3 = (Ok (), w')"
      using assms by (auto simp: boot_core_def bindE_Ok_iff liftE_def modifyE_def retE_def)
    then show ?thesis using that [of br "boot_runtime bus v"] by (simp add: boot_runtime_def Let_def)
  qed
  obtain s where s: "sup_spawn routeros_agent ?s0 = (Ok (), s)" "w2 = w1\<lparr>bt_sup := s\<rparr>" using ros s0 by (auto simp: boot_spawn_Ok)
  note sp = sup_spawn_caps [OF sup_init_inv s(1)]
  have r: "ag_capabilities routeros_agent = build_capabilities" by (simp add: routeros_agent_def routeros_new_def Let_def)
  have "harness_capabilities (sup_registry ?s0) = []"
    by (simp add: supervisor_with_config_def registry_new_def harness_capabilities_def registry_all_def)
  then have "sup_inv (bt_sup w3)" "set (harness_capabilities (sup_registry (bt_sup w3))) = set build_capabilities \<union> (\<Union>d \<in> set drivers. set (cd_capabilities d))"
    using boot_connectors_Ok [OF con] sp s(2) r by simp_all
  moreover have "w' = w3" "lint_write_capabilities br (harness_capabilities (sup_registry (bt_sup w3))) = Ok ()"
    using lint by (auto simp: boot_lint_def)
  ultimately show ?thesis using br env by blast
qed

lemma boot_tiers_Ok:
  assumes "boot_tiers bl env drivers w = (Ok b, w')"
  shows "bd_env b = env \<and> bd_connectors b = drivers \<and> sup_spawn triage_agent (bt_sup w) = (Ok (), bt_sup w')"
proof -
  obtain graph g memory c1 where g: "boot_graph bl (bt_graph w) = (graph, g)" and m: "boot_memory bl env (bt_console w) = (memory, c1)"
    by fastforce
  let ?w = "w\<lparr>bt_graph := g, bt_console := c1\<rparr>"
  obtain w1 gp w2 where t: "boot_spawn ''TriageAgent'' triage_agent ?w = (Ok (), w1)" and gw: "boot_gateways bl env w1 = (Ok gp, w2)"
    and r: "bindE (liftE (boot_skills bl)) (\<lambda>skills.
      bindE (modifyE (\<lambda>w. w\<lparr>bt_console := apply_runtime_tunables env (bt_console w)\<rparr>)) (\<lambda>_.
      retE \<lparr>bd_env = env, bd_connectors = drivers, bd_working = boot_working bl, bd_graph = graph, bd_memory = memory,
        bd_gateways = fst gp, bd_pollers = snd gp, bd_skills = skills\<rparr>)) w2 = (Ok b, w')"
    using assms unfolding boot_tiers_def g m by (auto simp: bindE_Ok_iff)
  have "bt_sup w2 = bt_sup w1" using gw by (auto simp: boot_gateways_def split: prod.splits result.splits)
  moreover have "sup_spawn triage_agent (bt_sup w) = (Ok (), bt_sup w1)" using t by (auto simp: boot_spawn_Ok)
  ultimately show ?thesis using r by (auto simp: bindE_Ok_iff liftE_def modifyE_def retE_def)
qed

text \<open>The JWT secret in use is the one on record; a read that fails makes a new one and replaces the old.\<close>

lemma set_config_stored:
  assumes "set_config now key v d = (Ok u, d')"
  shows "\<exists>r. config_find key (db_tables d') = Some r \<and> cf_value r = JStr v"
proof -
  have t: "db_tables d' = (case config_find key (db_tables d) of
      Some r \<Rightarrow> config_upsert (r\<lparr>cf_value := JStr v, cf_updated_at := now\<rparr>) (db_tables d)
    | None \<Rightarrow> config_upsert \<lparr>cf_key = key, cf_value = JStr v, cf_is_secret = False, cf_updated_by = None, cf_updated_at = now\<rparr> (db_tables d))"
    using assms by (auto simp: set_config_def config_stmt_def mapE.simps db_stmt_Ok_iff split: prod.splits)
  have "\<exists>r. cf_key r = key \<and> cf_value r = JStr v \<and> db_tables d' = config_upsert r (db_tables d)"
  proof (cases "config_find key (db_tables d)")
    case None
    then show ?thesis using t by (auto intro!: exI [of _ "\<lparr>cf_key = key, cf_value = JStr v, cf_is_secret = False, cf_updated_by = None, cf_updated_at = now\<rparr>"])
  next
    case (Some r)
    then have "cf_key r = key" by (auto simp: config_find_def find_Some_iff)
    then show ?thesis using t Some by (intro exI [of _ "r\<lparr>cf_value := JStr v, cf_updated_at := now\<rparr>"]) simp
  qed
  then show ?thesis by (metis config_find_upsert)
qed

lemma jwt_secret_stored:
  assumes "ensure_jwt_secret bl w = (Ok secret, w')"
  shows "\<exists>r. config_find ''jwt_secret'' (db_tables (co_config w')) = Some r \<and> j_as_str (cf_value r) = Some secret"
proof -
  obtain r d where g: "get_config ''jwt_secret'' (co_config w) = (r, d)" by fastforce
  show ?thesis
  proof (cases "\<exists>s. r = Ok (Some s)")
    case True
    then have "Option.bind (config_find ''jwt_secret'' (db_tables (co_config w))) (\<lambda>r. j_as_str (cf_value r)) = Some secret \<and>
        db_tables (co_config w') = db_tables (co_config w)"
      using assms g by (auto simp: ensure_jwt_secret_def on_config_def get_config_def config_stmt_def mapE.simps db_stmt_Ok_iff split: prod.splits)
    then show ?thesis by (auto simp: bind_eq_Some_conv)
  next
    case False
    let ?s = "generate_secret (bl_jwt_draw bl)"
    obtain x d' where s: "set_config (fst (bl_clock bl)) ''jwt_secret'' ?s d = (x, d')" by fastforce
    have "secret = ?s \<and> x = Ok () \<and> co_config w' = d'"
      using assms g s False by (cases r; cases x) (auto simp: ensure_jwt_secret_def on_config_def Let_def split: option.splits)
    then show ?thesis using set_config_stored [of "fst (bl_clock bl)" "''jwt_secret''" ?s d "()" d'] s by auto
  qed
qed

lemma jwt_secret_replaced_on_fault:
  assumes "db_faults (co_config w) = [Some f]"
  shows "\<exists>w' r. ensure_jwt_secret bl w = (Ok (generate_secret (bl_jwt_draw bl)), w') \<and>
    config_find ''jwt_secret'' (db_tables (co_config w')) = Some r \<and> cf_value r = JStr (generate_secret (bl_jwt_draw bl))"
proof -
  let ?s = "generate_secret (bl_jwt_draw bl)"
  let ?d = "(co_config w)\<lparr>db_faults := []\<rparr>"
  have g: "get_config ''jwt_secret'' (co_config w) = (Err (iam_fault ''get_config'' f), ?d)"
    using assms by (simp add: get_config_def config_stmt_def mapE.simps db_stmt_def)
  obtain d' where s: "set_config (fst (bl_clock bl)) ''jwt_secret'' ?s ?d = (Ok (), d')"
    by (simp add: set_config_def config_stmt_def mapE.simps db_stmt_def)
  then have "ensure_jwt_secret bl w = (Ok ?s, w\<lparr>co_config := d'\<rparr>)" using g by (simp add: ensure_jwt_secret_def on_config_def Let_def)
  then show ?thesis using set_config_stored [OF s] by auto
qed

text \<open>What is logged of the database URL does not depend on the credentials in it; what is printed when the pool cannot be made is the URL itself.\<close>

lemma before_scheme_end_app: "CHR '':'' \<notin> set s \<Longrightarrow> before_scheme_end (s @ ''://'' @ r) = Some s"
proof (induction s)
  case (Cons c s)
  then show ?case by (cases s) (auto simp: numeral_eq_Suc)
qed simp

lemma scrub_hides_credentials:
  assumes "CHR '':'' \<notin> set scheme" "CHR 0x40 \<notin> set host"
  shows "scrub_pg_url (scheme @ ''://'' @ cred @ [CHR 0x40] @ host) = scheme @ ''://*****'' @ [CHR 0x40] @ host"
proof -
  have "takeWhile (\<lambda>c. c \<noteq> CHR 0x40) (rev host @ CHR 0x40 # rest) = rev host" for rest
    using assms(2) by (subst takeWhile_append2) auto
  then show ?thesis using before_scheme_end_app [OF assms(1), of "cred @ [CHR 0x40] @ host"] by (simp add: scrub_pg_url_def)
qed

lemma pool_failure_prints_url:
  assumes "bl_run_migrations bl (resolve_pg_url bl) = Err e"
  shows "\<exists>a b. fst (boot bl bus w) = Err (BootExit (a @ resolve_pg_url bl @ b))"
proof -
  have "fst (boot bl bus w) = Err (BootExit (''failed to initialise Postgres pool ('' @ resolve_pg_url bl @ ''): '' @ ''run migrations: '' @ e))"
    using assms by (simp add: boot_def boot_core_def init_pool_def bindE_def liftE_def)
  then show ?thesis by (metis append_assoc)
qed

text \<open>The triage agent is spawned after the lint, and its one capability counts as a write by its name.\<close>

lemma triage_capability_is_write: "list_all (\<lambda>c. \<not> is_read c) triage_caps"
  by code_simp

section \<open>Properties\<close>

text \<open>C3: a system that starts is closed. When the start succeeds, the vault's key was read and has 32 bytes, the broker has the guard with the policy
  of the file, the audit sink and the vault's admin side, its SSH transport checks host keys against the known-hosts file and has no other mode,
  and what is registered are the capabilities of the drivers and of the triage agent, where of all the drivers', every connector's included, no write is
  allowed outright by the policy and no compensator is missing.\<close>

theorem boot_fail_closed:
  assumes "boot bl bus w = (Ok b, w')"
  shows "\<exists>key policy. key_from_systemd_or_dev_env (bl_read_bytes bl) (bl_getenv bl) = Ok key \<and> length key = 32 \<and>
    policy_from_toml_file (bl_policy_toml bl) (bl_exists bl) (bl_read_file bl) (bc_policy_path (boot_paths bl key)) = Ok policy \<and>
    br_policy (app_broker (ce_app (bd_env b))) = Some policy \<and>
    br_vault_admin (app_broker (ce_app (bd_env b))) = Some (bl_cipher bl key) \<and>
    br_audit (app_broker (ce_app (bd_env b))) = Some (bl_audit bl) \<and>
    map_of (br_transports (app_broker (ce_app (bd_env b)))) TrSsh =
      Some (bl_ssh bl \<lparr>sh_known_hosts_path = Some (bc_known_hosts_path (boot_paths bl key)), sh_accept_any = False, sh_learn_to = None\<rparr>) \<and>
    set (harness_capabilities (sup_registry (bt_sup w'))) =
      set build_capabilities \<union> set triage_caps \<union> (\<Union>d \<in> set (bd_connectors b). set (cd_capabilities d)) \<and>
    (\<forall>cap \<in> set build_capabilities \<union> (\<Union>d \<in> set (bd_connectors b). set (cd_capabilities d)).
       (is_read cap \<or> pv_decision (evaluate policy (cap_name cap)) \<noteq> Allow) \<and>
       (case cap_compensating cap of
          Some cc \<Rightarrow> comp_name cc \<in> cap_name ` set (harness_capabilities (sup_registry (bt_sup w')))
        | None \<Rightarrow> True))"
proof -
  obtain env drivers w1 where core: "boot_core bl bus w = (Ok (env, drivers), w1)" and tiers: "boot_tiers bl env drivers w1 = (Ok b, w')"
    using assms by (auto simp: boot_def bindE_Ok_iff)
  obtain br where br: "boot_broker bl = Ok br" "app_broker (ce_app env) = br" "sup_inv (bt_sup w1)"
    and lint: "lint_write_capabilities br (harness_capabilities (sup_registry (bt_sup w1))) = Ok ()"
    and caps: "set (harness_capabilities (sup_registry (bt_sup w1))) = set build_capabilities \<union> (\<Union>d \<in> set drivers. set (cd_capabilities d))"
    using boot_core_Ok [OF core] by blast
  note t = boot_tiers_Ok [OF tiers]
  have more: "set (harness_capabilities (sup_registry (bt_sup w'))) = set (harness_capabilities (sup_registry (bt_sup w1))) \<union> set triage_caps"
    using sup_spawn_caps(2) [OF br(3), of triage_agent "bt_sup w'"] t by (simp add: triage_agent_def)
  then have all: "set (harness_capabilities (sup_registry (bt_sup w'))) =
      set build_capabilities \<union> set triage_caps \<union> (\<Union>d \<in> set (bd_connectors b). set (cd_capabilities d))" using caps t by auto
  obtain key policy where k: "key_from_systemd_or_dev_env (bl_read_bytes bl) (bl_getenv bl) = Ok key" "length key = SEAL_KEY_LEN"
    "policy_from_toml_file (bl_policy_toml bl) (bl_exists bl) (bl_read_file bl) (bc_policy_path (boot_paths bl key)) = Ok policy"
    and b: "br = with_guard policy (with_production_admin (bl_inventory bl) (bl_cipher bl key) (fst (bl_clock bl)) (snd (bl_clock bl)) (bl_audit bl)
      (production_transports bl (bc_known_hosts_path (boot_paths bl key))))"
    using boot_broker_Ok [OF br(1)] by blast
  have e: "app_broker (ce_app (bd_env b)) = br" using t br(2) by simp
  have p: "br_policy br = Some policy" "br_vault_admin br = Some (bl_cipher bl key)" "br_audit br = Some (bl_audit bl)"
    "map_of (br_transports br) TrSsh = Some (bl_ssh bl (with_known_hosts_path (bc_known_hosts_path (boot_paths bl key))))"
    by (simp_all add: b with_guard_def with_production_admin_def production_transports_def)
  have gated: "(is_read cap \<or> pv_decision (evaluate policy (cap_name cap)) \<noteq> Allow) \<and>
      (case cap_compensating cap of Some cc \<Rightarrow> comp_name cc \<in> cap_name ` set (harness_capabilities (sup_registry (bt_sup w'))) | None \<Rightarrow> True)"
    if "cap \<in> set build_capabilities \<union> (\<Union>d \<in> set (bd_connectors b). set (cd_capabilities d))" for cap
  proof -
    have "cap \<in> set (harness_capabilities (sup_registry (bt_sup w1)))" using that caps t by simp
    moreover have "cap_name ` set (harness_capabilities (sup_registry (bt_sup w1))) \<subseteq> cap_name ` set (harness_capabilities (sup_registry (bt_sup w')))"
      using more by blast
    ultimately show ?thesis using lint unfolding lint_exact p(1) by (cases "cap_compensating cap") (auto dest!: bspec)
  qed
  show ?thesis using k p gated all unfolding e with_known_hosts_path_def SEAL_KEY_LEN_def by blast
qed

section \<open>Witnesses\<close>

text \<open>A start under systemd with an empty policy directory, no connectors and no skills, over tables that have no account \<open>admin\<close> yet.\<close>

definition ex_boot_graph :: "unit graph_lib" where
  "ex_boot_graph = \<lparr>gl_post = (\<lambda>_ _ g. (Err ''down'', g)), gl_decode = (\<lambda>_. Err ''none''), gl_print = (\<lambda>_. ''''), gl_rfc3339 = (\<lambda>_. ''''),
     gl_parse_url = (\<lambda>_. Err ''none'')\<rparr>"

definition ex_boot_lib :: "(mem_inventory, stub_record list, audit_db, unit, unit) boot_lib" where
  "ex_boot_lib =
     \<lparr>bl_getenv = (\<lambda>v. if v = ''CREDENTIALS_DIRECTORY'' then Some ''c'' else None),
      bl_run_migrations = (\<lambda>_. Ok ()), bl_build_pool = (\<lambda>_. Ok ()), bl_read_bytes = (\<lambda>_. Ok (replicate 32 0)),
      bl_exists = (\<lambda>_. False), bl_read_file = (\<lambda>_. Err ''none''), bl_dir = (\<lambda>_. None),
      bl_policy_toml = (\<lambda>_. Err ''none''), bl_connector_toml = (\<lambda>_. Err ''none''), bl_skill_toml = (\<lambda>_. Err ''none''),
      bl_cipher = (\<lambda>_. ex_vault_env), bl_inventory = mem_inventory_ops, bl_audit = pg_audit_sink (\<lambda>_ _. True) ''a-1'' 9,
      bl_ssh = (\<lambda>_. stub_execute), bl_rest = stub_execute, bl_snmp = stub_execute, bl_crypto = ex_crypto, bl_clock = (1, 2),
      bl_jwt_draw = [7], bl_password_draw = [8], bl_salt = ''s'', bl_user_id = ''u-9'', bl_latency = (1, 1), bl_redis = (\<lambda>_. False),
      bl_dmem_new = (\<lambda>_ _. Ok ()), bl_graph = ex_boot_graph,
      bl_adapter = (\<lambda>t s. \<lparr>gy_channel = t, gy_verify_and_parse = (\<lambda>_. Err (Ignored s)), gy_deliver_alert = (\<lambda>_ _ n. (Ok None, n))\<rparr>)\<rparr>"

definition ex_boot_world :: "(mem_inventory, stub_record list, audit_db, in_proc_bus, unit) boot_world" where
  "ex_boot_world = \<lparr>bt_console = ex_console\<lparr>co_app := \<lparr>wo_iam = db_of ex_iam, wo_broker = ex_admin_world\<rparr>\<rparr>,
     bt_sup = supervisor_with_config registry_new supervisor_config_default, bt_graph = ()\<rparr>"

lemma ex_boot_env: "env_var (bl_getenv ex_boot_lib) v = (if v = ''CREDENTIALS_DIRECTORY'' then Some ''c'' else None)"
  by (simp add: env_var_def ex_boot_lib_def char_code_def)

lemma ex_boot_broker: "\<exists>br. boot_broker ex_boot_lib = Ok br \<and> br_policy br = Some (policy_new [])"
proof -
  have "key_from_systemd_or_dev_env (bl_read_bytes ex_boot_lib) (bl_getenv ex_boot_lib) = Ok (replicate 32 0)"
    by (simp add: key_from_systemd_or_dev_env_def key_from_systemd_credential_def key_from_path_def SEAL_KEY_LEN_def ex_boot_lib_def)
  then show ?thesis
    by (simp add: boot_broker_def build_production_broker_def policy_from_toml_file_def with_guard_def with_production_admin_def)
      (simp add: ex_boot_lib_def)
qed

lemma ex_boot_jwt: "\<exists>s c. ensure_jwt_secret ex_boot_lib (load_config (bt_console ex_boot_world)) = (Ok s, c) \<and> wo_iam (co_app c) = db_of ex_iam"
  by (simp add: ensure_jwt_secret_def load_config_def ex_boot_world_def ex_console_def on_config_def load_snapshot_def get_config_def set_config_def
      config_stmt_def mapE.simps db_stmt_db_of config_find_def Let_def)

lemma ex_boot_seed: "wo_iam (co_app c) = db_of ex_iam \<Longrightarrow> \<exists>c'. seed_admin ex_boot_lib c = (Ok (), c')"
  by (simp add: seed_admin_def on_app_def on_iam_def find_user_def db_create_user_def iam_stmt_def iam_try_def mapE.simps db_stmt_db_of bindE_def
      ex_iam_def grant_slug_def liftE_def ok_or_def retE_def Let_def)

lemma ex_boot_lint:
  assumes "br_policy br = Some (policy_new [])"
  shows "lint_write_capabilities br build_capabilities = Ok ()"
proof -
  have "pv_decision (evaluate (policy_new []) c) \<noteq> Allow" for c by (simp add: evaluate_def policy_new_def)
  moreover have "list_all (\<lambda>cap. case cap_compensating cap of Some cc \<Rightarrow> comp_name cc \<in> cap_name ` set build_capabilities | None \<Rightarrow> True) build_capabilities"
    by code_simp
  ultimately show ?thesis unfolding lint_exact assms by (auto simp: list_all_iff)
qed

lemma ex_boot_core:
  "\<exists>env w. boot_core ex_boot_lib bus ex_boot_world = (Ok (env, []), w) \<and> map fst (sup_agents (bt_sup w)) = [agent_id_new ''agent:routeros'']"
proof -
  obtain br where br: "boot_broker ex_boot_lib = Ok br" "br_policy br = Some (policy_new [])" using ex_boot_broker by blast
  obtain s c where j: "ensure_jwt_secret ex_boot_lib (load_config (bt_console ex_boot_world)) = (Ok s, c)" "wo_iam (co_app c) = db_of ex_iam"
    using ex_boot_jwt by blast
  obtain c' where a: "seed_admin ex_boot_lib c = (Ok (), c')" using ex_boot_seed [OF j(2)] by blast
  define w1 where "w1 = boot_runtime bus (ex_boot_world\<lparr>bt_console := c'\<rparr>)"
  define w2 where "w2 = w1\<lparr>bt_sup := snd (sup_spawn routeros_agent (bt_sup w1))\<rparr>"
  have s0: "bt_sup w1 = supervisor_with_config registry_new supervisor_config_default" by (simp add: w1_def boot_runtime_def Let_def)
  have ros: "boot_spawn ''RouterOS driver'' routeros_agent w1 = (Ok (), w2)"
    by (simp add: boot_spawn_def w2_def s0 sup_spawn_def supervisor_with_config_def)
  have reg: "harness_capabilities (sup_registry (bt_sup w2)) = build_capabilities" "map fst (sup_agents (bt_sup w2)) = [agent_id_new ''agent:routeros'']"
    by (simp_all add: w2_def s0 sup_spawn_def supervisor_with_config_def registry_register_def registry_new_def harness_capabilities_def registry_all_def
        routeros_agent_def routeros_new_def Let_def)
  have con: "boot_connectors ex_boot_lib w2 = (Ok [], w2)"
    by (simp add: boot_connectors_def Let_def from_dir_def bindE_def retE_def) (simp add: ex_boot_lib_def bindE_def retE_def)
  have lint: "boot_lint br w2 = (Ok (), w2)" using ex_boot_lint [OF br(2)] reg(1) by (simp add: boot_lint_def)
  have pool: "init_pool ex_boot_lib (resolve_pg_url ex_boot_lib) = Ok ()" by (simp add: init_pool_def ex_boot_lib_def)
  have "on_boot_console (ensure_jwt_secret ex_boot_lib) (ex_boot_world\<lparr>bt_console := load_config (bt_console ex_boot_world)\<rparr>) =
      (Ok s, ex_boot_world\<lparr>bt_console := c\<rparr>)" using j(1) by (simp add: on_boot_console_def)
  moreover have "on_boot_console (seed_admin ex_boot_lib) (ex_boot_world\<lparr>bt_console := c\<rparr>) = (Ok (), ex_boot_world\<lparr>bt_console := c'\<rparr>)"
    using a by (simp add: on_boot_console_def)
  ultimately show ?thesis using br(1) ros con lint pool reg(2)
    by (simp add: boot_core_def bindE_def liftE_def modifyE_def retE_def w1_def [symmetric])
qed

lemma ex_boot_tiers:
  assumes "map fst (sup_agents (bt_sup w)) = [agent_id_new ''agent:routeros'']"
  shows "\<exists>b w'. boot_tiers ex_boot_lib env [] w = (Ok b, w') \<and> bd_connectors b = []"
proof -
  obtain graph g where g: "boot_graph ex_boot_lib (bt_graph w) = (graph, g)" by (rule prod.exhaust)
  obtain memory c1 where m: "boot_memory ex_boot_lib env (bt_console w) = (memory, c1)" by (rule prod.exhaust)
  have "map_of (sup_agents (bt_sup w)) triage_id = None"
    using assms by (simp add: map_of_eq_None_iff set_map [symmetric] triage_id_def agent_id_new_def del: set_map)
  then obtain s1 where "sup_spawn triage_agent (bt_sup w) = (Ok (), s1)" by (simp add: sup_spawn_def triage_agent_def)
  then obtain w1 where t: "boot_spawn ''TriageAgent'' triage_agent (w\<lparr>bt_graph := g, bt_console := c1\<rparr>) = (Ok (), w1)"
    by (simp add: boot_spawn_def)
  obtain r c2 where "build_gateways env (bl_latency ex_boot_lib) (bl_adapter ex_boot_lib) (bt_console w1) = (r, c2)" by (rule prod.exhaust)
  then obtain gp w2 where gw: "boot_gateways ex_boot_lib env w1 = (Ok gp, w2)" by (cases r) (simp_all add: boot_gateways_def)
  have "boot_skills ex_boot_lib = Ok []" by (simp add: boot_skills_def Let_def skills_from_dir_def) (simp add: ex_boot_lib_def)
  then show ?thesis using t gw g by (cases gp) (simp add: boot_tiers_def m bindE_def liftE_def modifyE_def retE_def)
qed

theorem boot_fail_closed_witness:
  "\<exists>b w'. boot ex_boot_lib in_proc_bus_new ex_boot_world = (Ok b, w') \<and> br_policy (app_broker (ce_app (bd_env b))) = Some (policy_new []) \<and>
     set (harness_capabilities (sup_registry (bt_sup w'))) = set build_capabilities \<union> set triage_caps"
proof -
  obtain env w1 where core: "boot_core ex_boot_lib in_proc_bus_new ex_boot_world = (Ok (env, []), w1)"
    and ags: "map fst (sup_agents (bt_sup w1)) = [agent_id_new ''agent:routeros'']" using ex_boot_core [of in_proc_bus_new] by (elim exE conjE)
  obtain b w' where t: "boot_tiers ex_boot_lib env [] w1 = (Ok b, w')" "bd_connectors b = []" using ex_boot_tiers [OF ags] by blast
  have run: "boot ex_boot_lib in_proc_bus_new ex_boot_world = (Ok b, w')" using core t(1) by (simp add: boot_def bindE_def)
  have "policy_from_toml_file (bl_policy_toml ex_boot_lib) (bl_exists ex_boot_lib) (bl_read_file ex_boot_lib) p = Ok (policy_new [])" for p
    by (simp add: policy_from_toml_file_def ex_boot_lib_def)
  then show ?thesis using boot_fail_closed [OF run] run t(2) by auto
qed

end
