(* ===== verification/Spec2Isabelle.thy ===== *)
theory Spec2Isabelle
  imports Supervising Anchor BrokerAdmin Connector RouterOs Saga Triage Alerts LlmWire Transports Skills Tables
    Graph KeyCustody MemoryClient Socket StatusPages Boot
begin

text \<open>
  A verification library for daimon, an agentic operations platform: people talk to it through a web
  chat or a messaging channel, agents watch the infrastructure, and every action on a managed target
  passes one broker that checks a kill switch and a policy, waits for approvals, resolves credentials
  and writes an audit log.

  \<^bold>\<open>The parts and how they interact.\<close> Agents register capabilities and talk by envelopes on a bus
  (\<open>daimon-core\<close>, \<open>daimon-runtime\<close>). A plan is a list of steps; the orchestrator dispatches each step
  to the agent that owns its capability and undoes a failed plan by its compensations
  (\<open>daimon-orchestrator\<close>). A driver agent turns a capability into an operation of a transport and hands
  it to the broker (\<open>daimon-driver\<close>, \<open>daimon-driver-firewall-routeros\<close>); the broker asks the guard
  (\<open>daimon-guard\<close>: kill switch, policy, approval queue), reads the target from the inventory
  (\<open>daimon-inventory\<close>), resolves its credential in the vault (\<open>daimon-vault\<close>), runs the operation and
  records it (\<open>daimon-audit\<close>, chained and anchored by \<open>daimon-anchor\<close>). The observer turns metrics into
  anomaly events, the triage agent turns those into plans that wait for an operator. The app hosts the
  accounts, the settings, the chat loop with its language model, the messaging channels, the
  inbound approvals, the outbound alerts and the admin console, and it assembles the whole at its start
  (\<open>daimon-app\<close>, \<open>daimon-gateway\<close>, \<open>daimon-llm\<close>, \<open>daimon-redis\<close>, \<open>daimon-memory\<close>, \<open>daimon-graph\<close>,
  \<open>daimon-kms\<close>).

  \<^bold>\<open>Theories and sources.\<close>
    \<^item> \<open>Prelude\<close>: Rust's \<open>Result\<close> with its combinators, text predicates, hash and B-tree maps as
      association lists, the locale \<open>keyed_store\<close> with an interpretation for each of the two maps.
    \<^item> \<open>Json\<close>: \<open>serde_json::Value\<close>, its accessors and printer.
    \<^item> \<open>Utf8\<close>, \<open>StableSort\<close>: text as UTF-8 bytes with its characters, and the library's stable sort.
    \<^item> \<open>Core\<close>: \<open>daimon-core/src\<close> (identities, capabilities, envelopes, errors).
    \<^item> \<open>Registry\<close>, \<open>Dispatcher\<close>, \<open>Supervising\<close>: \<open>daimon-runtime/src\<close> (\<open>registry.rs\<close>; \<open>bus.rs\<close>,
      \<open>nats_bus.rs\<close>, \<open>dispatcher.rs\<close>; \<open>supervisor.rs\<close>). The registry is an interpretation of
      \<open>capability_index\<close>.
    \<^item> \<open>Database\<close>: how the sources use PostgreSQL, a statement that may fail and then changes nothing.
    \<^item> \<open>Policy\<close>, \<open>KillSwitch\<close>, \<open>Approvals\<close>, \<open>Guard\<close>: \<open>daimon-guard/src\<close>.
    \<^item> \<open>Inventory\<close>: \<open>daimon-inventory/src\<close>; the in-memory and the PostgreSQL inventory are two
      interpretations of \<open>inventory\<close>.
    \<^item> \<open>Vault\<close>: \<open>daimon-vault/src\<close>; the stub and the PostgreSQL vault are two interpretations of
      \<open>vault_client\<close>.
    \<^item> \<open>KeyCustody\<close>: the master key (\<open>master_key.rs\<close>) and \<open>daimon-kms/src\<close>; the local, AWS and PKCS 11
      providers interpret \<open>kms\<close>, and the Vault Transit provider meets it over a server that keeps its contract.
    \<^item> \<open>Transport\<close>, \<open>Transports\<close>: \<open>daimon-transport/src\<close>, operations, errors and the recording stub; then the
      SSH, REST and SNMP transports.
    \<^item> \<open>AuditLog\<close>, \<open>Anchor\<close>: \<open>daimon-audit/src\<close>, \<open>daimon-anchor/src\<close>.
    \<^item> \<open>Broker\<close>, \<open>BrokerAdmin\<close>: \<open>daimon-broker/src\<close>.
    \<^item> \<open>Params\<close>, \<open>Connector\<close>, \<open>RouterOs\<close>: \<open>daimon-driver/src\<close> and the RouterOS driver.
    \<^item> \<open>Orchestrator\<close>, \<open>Saga\<close>: \<open>daimon-orchestrator/src\<close>; the first holds the definitions, the
      second what a run guarantees.
    \<^item> \<open>Iam\<close>, \<open>Settings\<close>: the account and configuration tables of \<open>daimon-app/src/db.rs\<close> with the
      code above them (\<open>auth.rs\<close>, \<open>admin_users.rs\<close>, \<open>admin_settings.rs\<close>, \<open>config.rs\<close> and others).
    \<^item> \<open>Channels\<close>: \<open>daimon-gateway/src\<close>; the Telegram adapter interprets \<open>webhook_adapter\<close>, the
      cursor kept in the configuration table interprets \<open>resumable_store\<close>.
    \<^item> \<open>ChatStore\<close>, \<open>Chat\<close>: chat history and the chat turn (\<open>daimon-redis\<close>, \<open>chat.rs\<close> and the
      provider-neutral types of \<open>daimon-llm\<close>); the in-process history interprets \<open>conversation_store\<close>.
    \<^item> \<open>Socket\<close>: the web socket of the chat (\<open>ws.rs\<close>).
    \<^item> \<open>LlmWire\<close>: the four model clients of \<open>daimon-llm/src\<close> and the ChatGPT session file.
    \<^item> \<open>MemoryClient\<close>, \<open>Graph\<close>: \<open>daimon-memory/src\<close>, whose two clients interpret \<open>memory_tier\<close>, and \<open>daimon-graph/src\<close>.
    \<^item> \<open>Dedup\<close>: the locale \<open>ttl_gate\<close>, interpreted by the triage agent and by the alert router.
    \<^item> \<open>Observing\<close>, \<open>Triage\<close>: \<open>daimon-observer/src\<close>, \<open>daimon-triage/src\<close>.
    \<^item> \<open>Inbound\<close>, \<open>Alerts\<close>: \<open>gw.rs\<close>, \<open>admin_approvals.rs\<close>, \<open>admin_gateways.rs\<close>; \<open>alert_router.rs\<close>.
    \<^item> \<open>AdminConsole\<close>, \<open>Skills\<close>, \<open>StatusPages\<close>, \<open>Tables\<close>: the admin server functions (\<open>admin_targets.rs\<close>,
      \<open>admin_credentials.rs\<close>, \<open>admin_audit.rs\<close>, \<open>admin_plans.rs\<close>, \<open>admin_memory.rs\<close>), the skill templates (\<open>skills.rs\<close>),
      \<open>admin_observer.rs\<close> with \<open>observability.rs\<close>, and the pure functions behind tables, figures and forms.
    \<^item> \<open>Boot\<close>: the start of the process (\<open>main.rs\<close>, \<open>production.rs\<close>).

  \<^bold>\<open>How code is modelled.\<close> A struct is a record, an enum a datatype, a \<open>Result\<close> the type \<open>result\<close>;
  a method that mutates takes its state and returns it. Tables are lists of rows in insertion
  order, and each statement consumes one entry of the list of faults the environment injects. A call
  that waits for others (an approval poll, a dispatch with a deadline, a language model stream) takes what
  it observes as a finite list; running out of observations is the value \<open>None\<close>, so a
  wait that never ends is told apart from one that returns. Clocks and fresh identifiers are
  arguments or numbered readings. Code outside the repository (cryptography, the semantic version
  parser, regular expressions, transports, model streams, JSON text decoding) is a parameter; what a theorem
  needs of it is a hypothesis of that theorem, and its witness instantiates it. Integers whose width
  matters wrap or saturate at that width; floats are rationals with the infinities and NaN.

  \<^bold>\<open>What the lemmas show.\<close>
    \<^item> Action path: nothing runs with the kill switch engaged, nothing that changes a target runs
      without an allowing policy or an operator's approval of exactly that call, a denied call leaves
      an audit record, the broker does nothing with a credential but hand it to the transport (\<open>Guard\<close>, \<open>Broker\<close>, this theory).
    \<^item> Plans: steps run in order, a success means every step succeeded, a failure dispatches the
      compensations of the finished steps in reverse order (\<open>Saga\<close>).
    \<^item> Stores: both inventories and both vaults meet their contracts, sealing and opening are a round trip,
      sequential calls see no stale credential, a wrapped key is unwrapped to itself or not at all, the key in use has
      32 bytes (\<open>Inventory\<close>, \<open>Vault\<close>, \<open>KeyCustody\<close>).
    \<^item> Tamper evidence: a chain that verifies is the chain that was written, or a hash collision
      is at hand (\<open>Anchor\<close>).
    \<^item> Drivers: what is rendered into a device command or a path cannot break out of its position
      (\<open>Params\<close>, \<open>Connector\<close>, \<open>RouterOs\<close>, \<open>Skills\<close>).
    \<^item> Wire: with strict host keys SSH works only on connections to servers whose key is on file, a REST call with a relative path stays on its target, a crash never
      leaves a torn session file, the recalled context keeps its token budget, values reach the graph as parameters only
      (\<open>Transports\<close>, \<open>LlmWire\<close>, \<open>MemoryClient\<close>, \<open>Graph\<close>).
    \<^item> Start: a system that starts has its key, its guard, its audit sink and strict host keys, and no driver's write is
      allowed outright (\<open>Boot\<close>).
    \<^item> People: an active administrator stays unless the last one is locked, a secret setting is in the vault under its reference, the durable history of a conversation is written by its owner only, a chat
      turn closes and acts as its caller only, over the socket too, the console's functions are gated and audited, an approval by chat needs a bound and authorized sender, alerts reach
      enrolled recipients only (\<open>Iam\<close>, \<open>Settings\<close>, \<open>ChatStore\<close>, \<open>Chat\<close>, \<open>Socket\<close>, \<open>AdminConsole\<close>, \<open>Inbound\<close>, \<open>Alerts\<close>).
    \<^item> Watching: a cycle of the observer stores and announces each breach once, triage opens at most one plan for an event it admits and never acts (\<open>Observing\<close>, \<open>Triage\<close>).

  \<^bold>\<open>Bounds.\<close> The chat loop runs the eight rounds of the source by structural recursion; restarts back
  off on the source's schedule; every other loop is structural over the list it walks. No
  definition uses an arbitrary amount of fuel.

  \<^bold>\<open>Not modelled.\<close> Rendering (Leptos pages and components), what the HTTP, SSH, SNMP, NATS and Redis libraries do on the
  wire, the migration runner, the one-shot tenant migration tool, the command-line demo, the upload of anchors, and two
  read-only probe functions of the console.
\<close>

section \<open>From a driver to the guard\<close>

text \<open>The row by which an operator approved a call.\<close>

definition operator_approved ::
  "uuid \<Rightarrow> string \<Rightarrow> string \<Rightarrow> string option \<Rightarrow> json \<Rightarrow> approval_row list \<Rightarrow> bool" where
  "operator_approved i actor cap tgt params rows \<longleftrightarrow>
     (\<exists>row. find_approval i rows = Some row \<and> ar_status row = ''approved'' \<and> ar_decided_by row \<noteq> None \<and>
        ar_actor_id row = actor \<and> ar_capability row = cap \<and> ar_target_ref row = tgt \<and> ar_params row = params)"

text \<open>What is assumed of the other sessions while a call is parked: they change the approval table
  through the queue's operations only, the id of the new row is fresh, and the rows
  already there are signed.\<close>

definition queue_sound :: "'b call_env \<Rightarrow> ('i, 'v, 't, 'a, 'b) broker_world \<Rightarrow> bool" where
  "queue_sound cl w \<longleftrightarrow>
     ae_row_id (cl_approval cl) \<notin> ar_id ` set (aw_rows (bw_guard w)) \<and>
     list_all poll_ok (ae_polls (cl_approval cl)) \<and> rows_signed (aw_rows (bw_guard w))"

lemma execute_passed:
  assumes "br_policy br = Some policy" "execute br cl req w = (Some (Ok x), w')" "queue_sound cl w"
  shows "\<not> ks_engaged (gw_kill (bw_guard w)) \<and>
    (derive_read_only req \<or> pv_decision (evaluate policy (request_capability req)) = Allow \<or>
     pv_decision (evaluate policy (request_capability req)) = RequireApproval \<and>
     operator_approved (ae_row_id (cl_approval cl)) (xr_actor_id req) (request_capability req)
       (Some (show_target_ref (xr_target_ref req))) (request_params req) (aw_rows (bw_guard w')))"
proof -
  have "pre_flight (cl_semver cl) (cl_send cl) policy (cl_approval cl) (xr_actor_id req) (request_capability req)
      (Some (show_target_ref (xr_target_ref req))) (request_params req) (derive_read_only req) (bw_guard w) =
      (Some (Ok ()), bw_guard w')"
    using execute_Ok [OF assms(2)] assms(1) by (simp add: broker_pre_flight_def)
  from pre_flight_passed [OF this] assms(3) show ?thesis unfolding queue_sound_def operator_approved_def by blast
qed

text \<open>C1: a call that succeeds at the broker was let through by the guard: the kill switch was off when
  it entered, and the capability is a read, or the policy allows it, or an operator approved exactly
  this request, by a row with its actor, capability, target and operation summary.\<close>

theorem execute_gated:
  assumes "br_policy br = Some policy" "execute br cl req w = (Some (Ok x), w')" "queue_sound cl w"
  shows "\<not> ks_engaged (gw_kill (bw_guard w)) \<and>
    (derive_read_only req \<or> pv_decision (evaluate policy (request_capability req)) = Allow \<or>
     operator_approved (ae_row_id (cl_approval cl)) (xr_actor_id req) (request_capability req)
       (Some (show_target_ref (xr_target_ref req))) (request_params req) (aw_rows (bw_guard w')))"
  using execute_passed [OF assms] by blast

lemma ex_queue_sound: "queue_sound (ex_call [ex_poll 2 ex_approve]) (ex_world secret)"
  by (simp add: queue_sound_def ex_broker_defs ex_guard_defs rows_signed_def)
    (simp add: ex_poll_ok [unfolded ex_poll_def])

lemma ex_policy_network: "starts_with ''network.'' c \<Longrightarrow> pv_decision (evaluate ex_policy c) = RequireApproval"
  by (simp add: ex_policy_def policy_new_def evaluate_def glob_match_def strip_suffix_def)

theorem execute_gated_witness:
  "\<exists>x w'. execute ex_broker (ex_call [ex_poll 2 ex_approve]) ex_request (ex_world ''s3cret'') = (Some (Ok x), w') \<and>
     operator_approved ''ap-1'' ''alice'' ''network.fw.add'' (Some ''target://edge'') (request_params ex_request)
       (aw_rows (bw_guard w'))"
proof -
  obtain x w' where run: "execute ex_broker (ex_call [ex_poll 2 ex_approve]) ex_request (ex_world ''s3cret'') = (Some (Ok x), w')"
    using ex_executed by (metis prod.collapse)
  have p: "br_policy ex_broker = Some ex_policy" by (simp add: ex_broker_defs)
  have q: "\<not> derive_read_only ex_request" "request_capability ex_request = ''network.fw.add''" "xr_actor_id ex_request = ''alice''"
    "xr_target_ref ex_request = TargetRef ''edge''"
    "ae_row_id (cl_approval (ex_call [ex_poll 2 ex_approve])) = ''ap-1''"
    by (simp_all add: ex_broker_defs derive_read_only_def request_capability_def ex_env_def)
  have "pv_decision (evaluate ex_policy ''network.fw.add'') \<noteq> Allow"
    by (simp add: ex_policy_network starts_with_def)
  then show ?thesis using execute_gated [OF p run ex_queue_sound] run by (simp add: q)
qed

text \<open>C2: behind a broker that passed the boot lint, no write of a connector runs without an operator: when
  the lint accepts the registered capabilities, those of the profiles among them, and a dispatch of a capability that
  is not a read returns a result, the kill switch was off and an operator approved this call, made in
  the caller's name, for this target.\<close>

theorem connector_write_approved:
  assumes "br_policy br = Some policy"
    and "lint_write_capabilities br registered = Ok ()"
    and "connector_request (from_profiles i profiles agent) actor cap tref params timeout = Ok (decl, req)"
    and "\<not> is_read (project_capability decl)"
    and "connector_dispatch br cl (from_profiles i profiles agent) actor cap tref params timeout w = (Some (Ok out), w')"
    and "queue_sound cl w"
    and "set (cd_capabilities (from_profiles i profiles agent)) \<subseteq> set registered"
  shows "\<not> ks_engaged (gw_kill (bw_guard w)) \<and>
    operator_approved (ae_row_id (cl_approval cl)) actor cap (Some tref) (request_params req) (aw_rows (bw_guard w'))"
proof -
  obtain d vals o' target where d: "map_of (cd_declared (from_profiles i profiles agent)) cap = Some d" "decl = dc_cap d"
    "target_ref_parse tref = Ok target" "req = with_capability_meta (project_capability decl) (exec_request_new actor target o')"
    using connector_request_Ok [OF assms(3)] by metis
  have n: "pc_name decl = cap" "project_capability decl \<in> set (cd_capabilities (from_profiles i profiles agent))"
    using from_profiles_declared [OF d(1)] d(2) by auto
  have req: "xr_actor_id req = actor" "derive_read_only req = is_read (project_capability decl)" "request_capability req = cap"
    using connector_dispatch_broker [where cd = "from_profiles i profiles agent" and actor = actor and cap = cap and tref = tref and params = params and timeout = timeout
      and br = br and cl = cl and w = w] n(1)
    by (simp_all add: assms(3))
  have t: "show_target_ref (xr_target_ref req) = tref"
    using d(3,4) by (simp add: target_ref_parse_iff with_capability_meta_def exec_request_new_def)
  obtain res where run: "execute br cl req w = (Some (Ok res), w')"
    using assms(5) by (auto simp: connector_dispatch_def assms(3) split: prod.splits option.splits result.splits)
  have "cap_name (project_capability decl) = cap" using n(1) by (simp add: project_capability_def read_only_def)
  then have "pv_decision (evaluate policy cap) \<noteq> Allow"
    using assms(1,2,4) subsetD [OF assms(7) n(2)] by (auto simp: lint_exact)
  then show ?thesis using execute_passed [OF assms(1) run assms(6)] assms(4) by (simp add: req t)
qed

theorem connector_write_approved_witness:
  "\<exists>out w' req. connector_dispatch ex_broker (ex_call [ex_poll 2 ex_approve]) ex_connector ''alice'' ''network.switch.service.restart''
      ''target://edge'' ex_service 30 (ex_world ''s3cret'') = (Some (Ok out), w') \<and>
     operator_approved ''ap-1'' ''alice'' ''network.switch.service.restart'' (Some ''target://edge'') (request_params req)
       (aw_rows (bw_guard w'))"
proof -
  let ?cl = "ex_call [ex_poll 2 ex_approve]" and ?c = "''network.switch.service.restart''"
  obtain decl req where r: "connector_request ex_connector ''alice'' ?c ''target://edge'' ex_service 30 = Ok (decl, req)"
    using ex_connector_request by blast
  obtain w' where e: "execute ex_broker ?cl req (ex_world ''s3cret'') =
      (Some (Ok (ResShell ''[stub] ran: systemctl restart nginx; true'' '''' 0)), w')"
    using ex_connector_executed [OF r] by (metis prod.collapse)
  obtain out where run: "connector_dispatch ex_broker ?cl ex_connector ''alice'' ?c ''target://edge'' ex_service 30 (ex_world ''s3cret'') =
      (Some (Ok out), w')"
    by (simp add: connector_dispatch_def r e)
  have p: "br_policy ex_broker = Some ex_policy" by (simp add: ex_broker_defs)
  have caps: "cd_capabilities ex_connector = [project_capability (hd (cp_capabilities ex_profile))]"
    by (simp add: ex_connector_def from_profiles_def ex_profile_def)
  have lint: "lint_write_capabilities ex_broker (cd_capabilities ex_connector) = Ok ()"
    unfolding lint_exact caps p
    by (simp add: ex_profile_def project_capability_def ex_policy_network starts_with_def)
  have wr: "\<not> is_read (project_capability decl)"
    using r by (auto simp: connector_request_def ex_connector_def from_profiles_def ex_profile_def bind_result_Ok_iff ok_or_def
        project_capability_def is_read_def)
  have i: "ae_row_id (cl_approval ?cl) = ''ap-1''" by (simp add: ex_broker_defs ex_env_def)
  from connector_write_approved [OF p lint [unfolded ex_connector_def] r [unfolded ex_connector_def] wr
      run [unfolded ex_connector_def] ex_queue_sound order.refl] run
  show ?thesis unfolding i by blast
qed

text \<open>No RouterOS write runs without an operator unless the policy allows it outright: when a dispatch
  of one of the four write capabilities returns an output, the kill switch was off and the policy
  allows the capability or an operator approved this call of this actor on this target.\<close>

lemma routeros_write_gated:
  assumes "br_policy br = Some policy" "is_write_capability cap" "queue_sound cl w"
    and "routeros_dispatch dbg br cl (routeros_new i a) actor cap tref params timeout w = (Some (Ok out), w')"
  shows "\<not> ks_engaged (gw_kill (bw_guard w)) \<and>
    (pv_decision (evaluate policy cap) = Allow \<or>
     (\<exists>ps. operator_approved (ae_row_id (cl_approval cl)) actor cap (Some tref) ps (aw_rows (bw_guard w'))))"
proof -
  obtain command where cmd: "build_command cap params = Ok command"
    using assms(4) by (auto simp: routeros_dispatch_def split: result.splits)
  obtain req where req: "build_exec_request actor cap tref command timeout (rd_capabilities (routeros_new i a)) = Ok req"
    using assms(4) cmd by (auto simp: routeros_dispatch_def split: result.splits)
  have r: "xr_actor_id req = actor" "request_capability req = cap" "\<not> derive_read_only req"
    using routeros_dispatch_broker [where cap = cap and params = params and actor = actor and tref = tref and timeout = timeout
        and i = i and a = a and dbg = dbg and br = br and cl = cl and w = w] assms(2)
    by (simp_all add: cmd req)
  have t: "show_target_ref (xr_target_ref req) = tref"
    using req by (auto simp: build_exec_request_def bind_result_Ok_iff target_ref_parse_iff Let_def exec_request_new_def
        with_capability_meta_def with_capability_def split: option.splits)
  obtain res where run: "execute br cl req w = (Some (Ok res), w')"
    using assms(4) cmd req by (auto simp: routeros_dispatch_def split: prod.splits option.splits result.splits op_result.splits)
  show ?thesis using execute_passed [OF assms(1) run assms(3)] by (auto simp: r t)
qed

lemma ex_remove_command:
  "build_command ''network.routeros.firewall_remove_rule'' (Some (JObj [(''match'', JStr ''tmp-rule'')])) =
     Ok ''/ip firewall filter remove [find tmp-rule]''"
proof -
  have "validate ''tmp-rule'' Identifier = Ok ()" by code_simp
  then show ?thesis
    by (simp add: build_command_def need_params_def need_str_def checked_def ok_or_def j_get_str_def del: validate.simps)
qed

lemma routeros_write_gated_example:
  "\<exists>out w' ps. routeros_dispatch (\<lambda>_. '''') ex_broker (ex_call [ex_poll 2 ex_approve])
      (routeros_new (agent_id_new ''agent:network'') ''agent:network'') ''alice'' ''network.routeros.firewall_remove_rule''
      ''target://edge'' (Some (JObj [(''match'', JStr ''tmp-rule'')])) 30 (ex_world ''s3cret'') = (Some (Ok out), w') \<and>
     operator_approved ''ap-1'' ''alice'' ''network.routeros.firewall_remove_rule'' (Some ''target://edge'') ps (aw_rows (bw_guard w'))"
proof -
  let ?c = "''network.routeros.firewall_remove_rule''" and ?cl = "ex_call [ex_poll 2 ex_approve]"
  let ?rd = "routeros_new (agent_id_new ''agent:network'') ''agent:network''" and ?ps = "Some (JObj [(''match'', JStr ''tmp-rule'')])"
  let ?cmd = "''/ip firewall filter remove [find tmp-rule]''"
  have wr: "is_write_capability ?c" by (simp add: is_write_capability_def)
  obtain m where m: "find (\<lambda>c. cap_name c = ?c) build_capabilities = Some m" "\<not> is_read m"
    using find_build_capabilities [OF ex_remove_command] wr by blast
  have n: "cap_name m = ?c" using m(1) by (auto simp: find_Some_iff)
  have t: "target_ref_parse ''target://edge'' = Ok (TargetRef ''edge'')" by code_simp
  let ?req = "with_capability_meta m (exec_request_new ''alice'' (TargetRef ''edge'') (OpShellCommand ?cmd 30))"
  have r: "build_exec_request ''alice'' ?c ''target://edge'' ?cmd 30 (rd_capabilities ?rd) = Ok ?req"
    by (simp add: build_exec_request_def t routeros_new_def m)
  have g: "fst (broker_pre_flight ex_broker ?cl ?req ex_guard) = Some (Ok ())"
    by (simp add: broker_pre_flight_def ex_broker_defs derive_read_only_def with_capability_meta_def m n request_capability_def)
      (simp add: ex_guard_defs ex_run_defs)
  obtain w' where e: "execute ex_broker ?cl ?req (ex_world ''s3cret'') = (Some (Ok (ResShell (''[stub] ran: '' @ ?cmd) '''' 0)), w')"
    using ex_executed_shell [OF g] by (simp add: with_capability_meta_def exec_request_new_def) (metis prod.collapse)
  obtain out where run: "routeros_dispatch (\<lambda>_. '''') ex_broker ?cl ?rd ''alice'' ?c ''target://edge'' ?ps 30 (ex_world ''s3cret'') =
      (Some (Ok out), w')"
    unfolding routeros_dispatch_def ex_remove_command result.case r e prod.case option.case op_result.case by blast
  have p: "br_policy ex_broker = Some ex_policy" "ae_row_id (cl_approval ?cl) = ''ap-1''" by (simp_all add: ex_broker_defs ex_env_def)
  have na: "pv_decision (evaluate ex_policy ?c) \<noteq> Allow" by (simp add: ex_policy_network starts_with_def)
  from routeros_write_gated [OF p(1) wr ex_queue_sound run] na run show ?thesis unfolding p(2) by blast
qed

section \<open>Rolling back on RouterOS\<close>

text \<open>The rollback of a firewall rule whose comment is not an identifier cannot be built: a comment with a
  space is accepted when the rule is added, the orchestrator projects it onto the parameter \<open>match\<close>
  of the compensator, and the driver refuses it there; and the parameters of an imported key never
  have the \<open>number\<close> its compensator needs.\<close>

lemma compensation_not_buildable:
  "is_ok (build_command ''network.routeros.firewall_add_drop_rule''
      (Some (JObj [(''comment'', JStr ''bad host''), (''dst_address'', JStr ''10.0.0.9'')]))) \<and>
   \<not> is_ok (build_command ''network.routeros.firewall_remove_rule'' (Some (compensation_params
      (JObj [(''comment'', JStr ''bad host''), (''dst_address'', JStr ''10.0.0.9'')]) None))) \<and>
   is_ok (build_command ''network.routeros.user_ssh_key_import''
      (Some (JObj [(''file'', JStr ''id.pub''), (''user'', JStr ''ops'')]))) \<and>
   \<not> is_ok (build_command ''network.routeros.user_ssh_key_remove'' (Some (compensation_params
      (JObj [(''file'', JStr ''id.pub''), (''user'', JStr ''ops'')]) None)))"
  by code_simp

text \<open>What the operator sees of a shell command is its first 80 characters: two commands that share
  them ask for approval with the same parameters.\<close>

lemma approval_shows_prefix:
  "take_chars 80 c1 = take_chars 80 c2 \<Longrightarrow>
   request_params (exec_request_new actor t (OpShellCommand c1 s1)) = request_params (exec_request_new actor t (OpShellCommand c2 s2))"
  by (simp add: request_params_def exec_request_new_def)

end
